(* ===== verification/Prelude.thy ===== *)
theory Prelude
  imports Complex_Main
begin

text \<open>
  Shared vocabulary of the development.

  \<^item> Amounts. Every monetary field of the code is a \<^verbatim>\<open>decimal.Decimal\<close>. Its additions,
    subtractions, multiplications and comparisons are exact, so an amount is a rational number
    here. Where the code formats an amount with a fixed number of digits or divides with a
    bounded precision, the operation is an argument of the definition that uses it.
  \<^item> Errors. A Go \<^verbatim>\<open>error\<close> is a value of \<open>go_error\<close>; \<^verbatim>\<open>fmt.Errorf("...: %w", e)\<close> keeps the
    wrapped sentinel \<^verbatim>\<open>e\<close>, which is what \<^verbatim>\<open>errors.Is\<close> and the gRPC layer look at. A fallible call
    returns \<open>go_error + 'a\<close>.
  \<^item> Tables. A database table is the list of its rows in primary-key order. \<^verbatim>\<open>First\<close> is \<open>find\<close>, a
    row update replaces the row with the same key and an insert appends.
  \<^item> Transactions. \<^verbatim>\<open>db.Transaction(body)\<close> commits when the body returns nil and leaves the
    database as it was when the body returns an error (\<open>transaction\<close>).
\<close>

named_theorems table_simps \<open>facts about row updates\<close>

declare One_nat_def [simp del]

type_synonym decimal = rat

section \<open>Errors\<close>

datatype grpc_code =
    InvalidArgument | NotFound | AlreadyExists | PermissionDenied | ResourceExhausted
  | FailedPrecondition | Aborted | Internal | Unavailable

datatype go_error =
    Status grpc_code string  \<comment> \<open>status.Error and svcerr.New sentinels\<close>
  | ErrRecordNotFound        \<comment> \<open>gorm.ErrRecordNotFound\<close>
  | ErrDuplicateKey          \<comment> \<open>a unique index refused an insert\<close>
  | CtxDone                  \<comment> \<open>ctx.Err() of a cancelled context\<close>
  | Plain string             \<comment> \<open>errors.New\<close>

type_synonym 'a result = "go_error + 'a"

definition ErrOptimisticLock :: go_error where
  "ErrOptimisticLock =
     Status Aborted ''optimistic lock conflict: record was modified by another transaction''"

section \<open>Transactions\<close>

definition transaction :: "('s \<Rightarrow> go_error + ('a \<times> 's)) \<Rightarrow> 's \<Rightarrow> ('a result) \<times> 's" where
  "transaction body s =
     (case body s of
        Inl e \<Rightarrow> (Inl e, s)
      | Inr (x, s') \<Rightarrow> (Inr x, s'))"

lemma transaction_Inl [simp]: "body s = Inl e \<Longrightarrow> transaction body s = (Inl e, s)"
  by (simp add: transaction_def)

lemma transaction_Inr [simp]: "body s = Inr (x, s') \<Longrightarrow> transaction body s = (Inr x, s')"
  by (simp add: transaction_def)

lemma transaction_rolls_back: "fst (transaction body s) = Inl e \<Longrightarrow> snd (transaction body s) = s"
  by (auto simp: transaction_def split: sum.splits prod.splits)

lemma transaction_cases:
  obtains (rollback) e where "body s = Inl e" "transaction body s = (Inl e, s)"
  | (commit) x s' where "body s = Inr (x, s')" "transaction body s = (Inr x, s')"
proof (cases "body s")
  case (Inl e)
  then show ?thesis by (intro rollback) simp_all
next
  case (Inr p)
  then show ?thesis by (cases p) (auto intro: commit)
qed

section \<open>Tables\<close>

definition put_row :: "('r \<Rightarrow> 'k) \<Rightarrow> 'r \<Rightarrow> 'r list \<Rightarrow> 'r list" where
  "put_row key r xs = map (\<lambda>x. if key x = key r then r else x) xs"

definition upd_rows :: "('r \<Rightarrow> bool) \<Rightarrow> ('r \<Rightarrow> 'r) \<Rightarrow> 'r list \<Rightarrow> 'r list" where
  "upd_rows p f xs = map (\<lambda>x. if p x then f x else x) xs"

abbreviation tsum :: "('r \<Rightarrow> 'n::linordered_idom) \<Rightarrow> 'r list \<Rightarrow> 'n" where
  "tsum f xs \<equiv> sum_list (map f xs)"

lemma find_SomeD: "find p xs = Some x \<Longrightarrow> x \<in> set xs \<and> p x"
  by (induction xs) (auto split: if_splits)

lemma find_in_set: "find p xs = Some x \<Longrightarrow> x \<in> set xs"
  by (simp add: find_SomeD)

lemma find_holds: "find p xs = Some x \<Longrightarrow> p x"
  by (simp add: find_SomeD)

lemma find_NoneD: "find p xs = None \<Longrightarrow> x \<in> set xs \<Longrightarrow> \<not> p x"
  by (simp add: find_None_iff)

lemma find_unique:
  assumes "x \<in> set xs" "p x" "\<And>y. y \<in> set xs \<Longrightarrow> p y \<Longrightarrow> y = x"
  shows "find p xs = Some x"
proof (cases "find p xs")
  case None
  with assms(1,2) show ?thesis by (auto simp: find_None_iff)
next
  case (Some y)
  then have "y = x" using assms(3) find_SomeD by metis
  with Some show ?thesis by simp
qed

lemma find_append [simp]:
  "find p (xs @ ys) = (case find p xs of None \<Rightarrow> find p ys | Some x \<Rightarrow> Some x)"
  by (induction xs) auto

lemma distinct_key_eq:
  "distinct (map key xs) \<Longrightarrow> x \<in> set xs \<Longrightarrow> y \<in> set xs \<Longrightarrow> key x = key y \<Longrightarrow> x = y"
  by (auto simp: distinct_map inj_on_def)

lemma distinct_map_Cons_ne: "distinct (map f (x # xs)) \<Longrightarrow> y \<in> set xs \<Longrightarrow> f y \<noteq> f x"
  by (metis distinct.simps(2) image_eqI list.simps(9) set_map)

lemma distinct_map_inj: "distinct (map f xs) \<Longrightarrow> inj g \<Longrightarrow> distinct (map (\<lambda>x. g (f x)) xs)"
  by (auto simp: distinct_map inj_on_def)

lemma put_row_Nil [simp, table_simps]: "put_row key r [] = []"
  by (simp add: put_row_def)

lemma put_row_Cons [simp, table_simps]:
  "put_row key r (x # xs) = (if key x = key r then r else x) # put_row key r xs"
  by (simp add: put_row_def)

lemma length_put_row [simp, table_simps]: "length (put_row key r xs) = length xs"
  by (simp add: put_row_def)

lemma map_key_put_row [simp, table_simps]: "map key (put_row key r xs) = map key xs"
  by (simp add: put_row_def)

text \<open>A second key of the rows is kept as well when the new row keeps it.\<close>

lemma map_other_put_row:
  assumes "\<And>x. x \<in> set xs \<Longrightarrow> key x = key r \<Longrightarrow> g x = g r"
  shows "map g (put_row key r xs) = map g xs"
  using assms by (simp add: put_row_def)

lemma put_row_absent: "key r \<notin> key ` set xs \<Longrightarrow> put_row key r xs = xs"
  by (induction xs) auto

lemma set_put_row:
  assumes "distinct (map key xs)" "x \<in> set xs" "key r = key x"
  shows "set (put_row key r xs) = insert r (set xs - {x})"
  using assms by (induction xs) (auto simp: put_row_absent)

lemma in_put_rowD:
  "y \<in> set (put_row key r xs) \<Longrightarrow> y = r \<or> (y \<in> set xs \<and> key y \<noteq> key r)"
  by (auto simp: put_row_def)

lemma in_put_row_other:
  "y \<in> set xs \<Longrightarrow> key y \<noteq> key r \<Longrightarrow> y \<in> set (put_row key r xs)"
  by (force simp: put_row_def)

lemma in_put_row_new:
  "x \<in> set xs \<Longrightarrow> key x = key r \<Longrightarrow> r \<in> set (put_row key r xs)"
  by (force simp: put_row_def)

lemma find_put_row:
  "find (\<lambda>x. key x = key r) xs = Some x0 \<Longrightarrow> find (\<lambda>x. key x = key r) (put_row key r xs) = Some r"
  by (induction xs) (auto split: if_splits)

lemma find_put_row_key:
  "find (\<lambda>x. key x = i) xs = Some x \<Longrightarrow> key r = i \<Longrightarrow> find (\<lambda>x. key x = i) (put_row key r xs) = Some r"
  using find_put_row [of key r xs x] by simp

lemma find_put_row_other:
  assumes "\<And>x. x \<in> set xs \<Longrightarrow> key x = key r \<Longrightarrow> \<not> p x" "\<not> p r"
  shows "find p (put_row key r xs) = find p xs"
  using assms by (induction xs) auto

lemma find_put_row_same:
  assumes "find p xs = Some x" "key r = key x" "p r" "\<And>y. y \<in> set xs \<Longrightarrow> key y = key r \<Longrightarrow> p y"
  shows "find p (put_row key r xs) = Some r"
  using assms by (induction xs) (auto split: if_splits)

lemma put_row_append: "put_row key r (xs @ ys) = put_row key r xs @ put_row key r ys"
  by (simp add: put_row_def)

lemma put_row_again: "key a = key b \<Longrightarrow> put_row key a (put_row key b xs) = put_row key a xs"
  by (induction xs) auto

lemma tsum_put_row:
  assumes "distinct (map key xs)" "x \<in> set xs" "key r = key x"
  shows "tsum f (put_row key r xs) = tsum f xs - f x + f r"
  using assms by (induction xs) (auto simp: put_row_absent)

lemma tsum_cong: "(\<And>x. x \<in> set xs \<Longrightarrow> f x = g x) \<Longrightarrow> tsum f xs = tsum g xs"
  by (simp cong: map_cong)

lemma put_row_self: "distinct (map key xs) \<Longrightarrow> r \<in> set xs \<Longrightarrow> put_row key r xs = xs"
  by (auto simp: put_row_def intro!: map_idI dest: distinct_key_eq)

lemma tsum_change_one:
  assumes "distinct (map key xs)" "x \<in> set xs"
    and "\<And>y. y \<in> set xs \<Longrightarrow> key y \<noteq> key x \<Longrightarrow> g y = f y"
  shows "tsum g xs = tsum f xs - f x + g x"
  using assms
proof (induction xs)
  case Nil
  then show ?case by simp
next
  case (Cons z xs)
  show ?case
  proof (cases "x = z")
    case True
    with Cons.prems have "\<And>y. y \<in> set xs \<Longrightarrow> g y = f y" by (auto simp: image_iff)
    then have "tsum g xs = tsum f xs" by (rule tsum_cong)
    with True show ?thesis by simp
  next
    case False
    with Cons.prems have x: "x \<in> set xs" by simp
    with Cons.prems have "key z \<noteq> key x" by auto
    with Cons.IH [OF _ x] Cons.prems show ?thesis by auto
  qed
qed

lemma tsum_put_row_same:
  assumes "\<And>x. x \<in> set xs \<Longrightarrow> key x = key r \<Longrightarrow> f x = f r"
  shows "tsum f (put_row key r xs) = tsum f xs"
  using assms by (simp add: map_other_put_row)

lemma tsum_nonneg: "(\<And>x. x \<in> set xs \<Longrightarrow> 0 \<le> f x) \<Longrightarrow> 0 \<le> tsum f xs"
  by (rule sum_list_nonneg) auto

lemma tsum_member_le:
  "(\<And>y. y \<in> set xs \<Longrightarrow> 0 \<le> f y) \<Longrightarrow> x \<in> set xs \<Longrightarrow> f x \<le> tsum f xs"
  by (rule member_le_sum_list) auto

lemma tsum_zero: "(\<And>x. x \<in> set xs \<Longrightarrow> f x = 0) \<Longrightarrow> tsum f xs = 0"
  by (induction xs) auto

lemma tsum_filter: "tsum f (filter p xs) = tsum (\<lambda>x. if p x then f x else 0) xs"
  by (induction xs) auto

lemma tsum_diff: "tsum (\<lambda>x. f x - g x) xs = tsum f xs - tsum g xs"
  by (induction xs) auto

lemma upd_rows_Nil [simp, table_simps]: "upd_rows p f [] = []"
  by (simp add: upd_rows_def)

lemma upd_rows_Cons [simp, table_simps]:
  "upd_rows p f (x # xs) = (if p x then f x else x) # upd_rows p f xs"
  by (simp add: upd_rows_def)

lemma map_upd_rows:
  assumes "\<And>x. x \<in> set xs \<Longrightarrow> p x \<Longrightarrow> g (f x) = g x"
  shows "map g (upd_rows p f xs) = map g xs"
  using assms by (simp add: upd_rows_def)

lemma in_upd_rowsE:
  assumes "y \<in> set (upd_rows p f xs)"
  obtains (changed) x where "x \<in> set xs" "p x" "y = f x"
  | (kept) "y \<in> set xs" "\<not> p y"
  using assms by (auto simp: upd_rows_def split: if_splits)

lemma upd_rows_twice:
  "(\<And>x. p x \<Longrightarrow> p (f x)) \<Longrightarrow> upd_rows p g (upd_rows p f xs) = upd_rows p (\<lambda>x. g (f x)) xs"
  by (induction xs) auto

lemma upd_rows_absent: "(\<And>x. x \<in> set xs \<Longrightarrow> \<not> p x) \<Longrightarrow> upd_rows p f xs = xs"
  by (induction xs) auto

text \<open>A row update that hits exactly one row.\<close>

lemma upd_rows_put:
  assumes "distinct (map key xs)" "x \<in> set xs" "p x" "key (f x) = key x"
    and "\<And>y. y \<in> set xs \<Longrightarrow> p y \<Longrightarrow> key y = key x"
  shows "upd_rows p f xs = put_row key (f x) xs"
  unfolding upd_rows_def put_row_def
proof (rule map_cong [OF refl])
  fix y assume y: "y \<in> set xs"
  show "(if p y then f y else y) = (if key y = key (f x) then f x else y)"
  proof (cases "p y")
    case True
    have "y = x" by (rule distinct_key_eq [OF assms(1) y assms(2) assms(5) [OF y True]])
    with True assms(4) show ?thesis by simp
  next
    case False
    with assms(3) distinct_key_eq [OF assms(1) y assms(2)] have "key y \<noteq> key x" by blast
    with False assms(4) show ?thesis by simp
  qed
qed

lemma tsum_upd_rows_one:
  assumes "distinct (map key xs)" "x \<in> set xs" "\<And>y. y \<in> set xs \<Longrightarrow> p y \<longleftrightarrow> key y = key x"
  shows "tsum g (upd_rows p f xs) = tsum g xs - g x + g (f x)"
  using assms
proof (induction xs)
  case Nil
  then show ?case by simp
next
  case (Cons z xs)
  have rest: "upd_rows p f ys = ys" if "\<And>y. y \<in> set ys \<Longrightarrow> \<not> p y" for ys
    using that by (induction ys) auto
  show ?case
  proof (cases "x = z")
    case True
    with Cons.prems have "\<And>y. y \<in> set xs \<Longrightarrow> \<not> p y" by (auto simp: image_iff)
    with True Cons.prems show ?thesis by (simp add: rest)
  next
    case False
    with Cons.prems have x: "x \<in> set xs" by simp
    from Cons.prems(1) x have "key z \<noteq> key x" by auto
    with Cons.prems have "\<not> p z" by auto
    with Cons.IH Cons.prems x show ?thesis by auto
  qed
qed

section \<open>Strings\<close>

text \<open>\<^verbatim>\<open>strconv.Itoa\<close> and \<^verbatim>\<open>%d\<close> on non-negative integers.\<close>

fun digits_of :: "nat \<Rightarrow> nat list" where
  "digits_of n = (if n < 10 then [n] else digits_of (n div 10) @ [n mod 10])"

declare digits_of.simps [simp del]

definition digit_char :: "nat \<Rightarrow> char" where
  "digit_char d = char_of (48 + d)"

definition itoa :: "nat \<Rightarrow> string" where
  "itoa n = map digit_char (digits_of n)"

lemma digits_of_lt10: "d \<in> set (digits_of n) \<Longrightarrow> d < 10"
proof (induction n rule: digits_of.induct)
  case (1 n)
  then show ?case
    by (subst (asm) (2) digits_of.simps) (auto split: if_splits)
qed

end
