(* ===== verification/Account_Model.thy ===== *)
theory Account_Model
  imports Prelude
begin

text \<open>
  The state of account-service: the rows of its tables (\<^verbatim>\<open>src/account-service/internal/model\<close>)
  and the Redis read cache of accounts. Row timestamps are left out except where an operation
  reads them; \<^verbatim>\<open>DeletedAt\<close> is the flag \<open>acc_Deleted\<close>, and as in GORM every query on accounts
  ignores deleted rows. Each table has a sequence that hands out its primary keys.

  The row operations of this theory (lookups, the versioned save, the insert of a ledger row) are
  the only ones the later theories use on these tables, and their lemmas are collected in
  \<open>acct_simps\<close>.
\<close>

named_theorems acct_simps \<open>how row operations act on the account-service state\<close>

section \<open>Rows\<close>

record account =
  acc_ID :: nat
  acc_AccountNumber :: string
  acc_AccountName :: string
  acc_OwnerID :: nat
  acc_OwnerName :: string
  acc_Balance :: decimal
  acc_AvailableBalance :: decimal
  acc_ReservedBalance :: decimal
  acc_EmployeeID :: nat
  acc_ExpiresAt :: int
  acc_CurrencyCode :: string
  acc_Status :: string
  acc_AccountKind :: string
  acc_AccountType :: string
  acc_AccountCategory :: string
  acc_MaintenanceFee :: decimal
  acc_DailyLimit :: decimal
  acc_MonthlyLimit :: decimal
  acc_DailySpending :: decimal
  acc_MonthlySpending :: decimal
  acc_CompanyID :: "nat option"
  acc_IsBankAccount :: bool
  acc_Version :: int
  acc_Deleted :: bool

record ledger_entry =
  le_ID :: nat
  le_AccountNumber :: string
  le_EntryType :: string
  le_Amount :: decimal
  le_BalanceBefore :: decimal
  le_BalanceAfter :: decimal
  le_Description :: string
  le_ReferenceID :: string
  le_ReferenceType :: string
  le_IdempotencyKey :: string
  le_SagaID :: "string option"
  le_SagaStep :: "string option"

datatype reservation_status = ResActive | ResReleased | ResSettled

record account_reservation =
  res_ID :: nat
  res_AccountID :: nat
  res_OrderID :: nat
  res_OrderKind :: string
  res_Amount :: decimal
  res_CurrencyCode :: string
  res_Status :: reservation_status
  res_Version :: int

record account_reservation_settlement =
  set_ID :: nat
  set_ReservationID :: nat
  set_OrderTransactionID :: nat
  set_Amount :: decimal

datatype outgoing_status = OutPending | OutSettled | OutReleased

record outgoing_reservation =
  out_ID :: nat
  out_AccountNumber :: string
  out_Amount :: decimal
  out_Currency :: string
  out_ReservationKey :: string
  out_Status :: outgoing_status
  out_CreatedAt :: int

datatype incoming_status = IncPending | IncCommitted | IncReleased

record incoming_reservation =
  inc_ID :: nat
  inc_AccountNumber :: string
  inc_Amount :: decimal
  inc_Currency :: string
  inc_ReservationKey :: string
  inc_Status :: incoming_status

record bank_operation =
  op_Reference :: string
  op_Direction :: string
  op_Currency :: string
  op_Amount :: decimal
  op_AccountNumber :: string
  op_NewBalance :: decimal
  op_Reason :: string

section \<open>The state\<close>

record account_db =
  accounts :: "account list"
  ledger :: "ledger_entry list"
  reservations :: "account_reservation list"
  settlements :: "account_reservation_settlement list"
  outgoing :: "outgoing_reservation list"
  incoming :: "incoming_reservation list"
  bank_ops :: "bank_operation list"
  seq_accounts :: nat
  seq_ledger :: nat
  seq_reservations :: nat
  seq_settlements :: nat
  seq_outgoing :: nat
  seq_incoming :: nat
  cache_id :: "nat \<Rightarrow> account option"
  cache_num :: "string \<Rightarrow> account option"

definition empty_db :: account_db where
  "empty_db = \<lparr>accounts = [], ledger = [], reservations = [], settlements = [], outgoing = [],
     incoming = [], bank_ops = [], seq_accounts = 1, seq_ledger = 1, seq_reservations = 1,
     seq_settlements = 1, seq_outgoing = 1, seq_incoming = 1,
     cache_id = (\<lambda>_. None), cache_num = (\<lambda>_. None)\<rparr>"

text \<open>The saga identity a context may carry (\<^verbatim>\<open>contract/shared/saga/context.go\<close>).\<close>

record saga_ctx =
  ctx_saga_id :: "string option"
  ctx_saga_step :: "string option"

definition no_saga :: saga_ctx where
  "no_saga = \<lparr>ctx_saga_id = None, ctx_saga_step = None\<rparr>"

section \<open>Row operations\<close>

definition GetByID :: "nat \<Rightarrow> account_db \<Rightarrow> account option" where
  "GetByID i s = find (\<lambda>a. acc_ID a = i \<and> \<not> acc_Deleted a) (accounts s)"

definition GetByNumber :: "string \<Rightarrow> account_db \<Rightarrow> account option" where
  "GetByNumber n s = find (\<lambda>a. acc_AccountNumber a = n \<and> \<not> acc_Deleted a) (accounts s)"

text \<open>
  \<^verbatim>\<open>tx.Save(&acct)\<close> with the \<^verbatim>\<open>BeforeUpdate\<close> hook: the row is written where its stored version
  equals the one that was read, and the version goes up. No matching row means no row affected,
  which every caller turns into \<open>ErrOptimisticLock\<close>.
\<close>

definition save_account :: "account \<Rightarrow> account_db \<Rightarrow> go_error + account_db" where
  "save_account a s =
     (if \<exists>r \<in> set (accounts s).
           acc_ID r = acc_ID a \<and> acc_Version r = acc_Version a \<and> \<not> acc_Deleted r
      then Inr (s\<lparr>accounts := put_row acc_ID (a\<lparr>acc_Version := acc_Version a + 1\<rparr>) (accounts s)\<rparr>)
      else Inl ErrOptimisticLock)"

text \<open>
  \<^verbatim>\<open>tx.Create(entry)\<close> on the ledger: the partial unique index on non-empty idempotency keys
  refuses a second row with the same key.
\<close>

definition create_entry :: "ledger_entry \<Rightarrow> account_db \<Rightarrow> go_error + (ledger_entry \<times> account_db)" where
  "create_entry e s =
     (if le_IdempotencyKey e \<noteq> [] \<and>
         (\<exists>x \<in> set (ledger s). le_IdempotencyKey x = le_IdempotencyKey e)
      then Inl ErrDuplicateKey
      else let row = e\<lparr>le_ID := seq_ledger s\<rparr>
           in Inr (row, s\<lparr>ledger := ledger s @ [row], seq_ledger := Suc (seq_ledger s)\<rparr>))"

definition StampSagaContext :: "saga_ctx \<Rightarrow> ledger_entry \<Rightarrow> ledger_entry" where
  "StampSagaContext ctx e =
     (let e1 = (case ctx_saga_id ctx of
                  Some v \<Rightarrow> if v \<noteq> [] then e\<lparr>le_SagaID := Some v\<rparr> else e | None \<Rightarrow> e)
      in (case ctx_saga_step ctx of
            Some v \<Rightarrow> if v \<noteq> [] then e1\<lparr>le_SagaStep := Some v\<rparr> else e1 | None \<Rightarrow> e1))"

text \<open>
  \<^verbatim>\<open>tx.Save(&acct)\<close> followed by \<^verbatim>\<open>tx.Create(entry)\<close>, the last two statements of every operation that
  moves money inside a transaction. The account comes back as the hook left it, with its version
  raised.
\<close>

definition save_with_entry ::
  "account \<Rightarrow> ledger_entry \<Rightarrow> account_db \<Rightarrow> go_error + ((account \<times> ledger_entry) \<times> account_db)" where
  "save_with_entry a e s =
     (case save_account a s of
        Inl err \<Rightarrow> Inl err
      | Inr s1 \<Rightarrow>
          (case create_entry e s1 of
             Inl err \<Rightarrow> Inl err
           | Inr (row, s2) \<Rightarrow> Inr ((a\<lparr>acc_Version := acc_Version a + 1\<rparr>, row), s2)))"

definition evictAccountCache :: "nat \<Rightarrow> string \<Rightarrow> account_db \<Rightarrow> account_db" where
  "evictAccountCache i n s =
     (let s1 = (if i \<noteq> 0 then s\<lparr>cache_id := (cache_id s)(i := None)\<rparr> else s)
      in if n \<noteq> [] then s1\<lparr>cache_num := (cache_num s1)(n := None)\<rparr> else s1)"

section \<open>Lemmas on the row operations\<close>

lemma GetByIDD:
  "GetByID i s = Some a \<Longrightarrow> a \<in> set (accounts s) \<and> acc_ID a = i \<and> \<not> acc_Deleted a"
  unfolding GetByID_def by (drule find_SomeD) simp

lemma GetByNumberD:
  "GetByNumber n s = Some a \<Longrightarrow>
     a \<in> set (accounts s) \<and> acc_AccountNumber a = n \<and> \<not> acc_Deleted a"
  unfolding GetByNumber_def by (drule find_SomeD) simp

lemma StampSagaContext_sel [simp]:
  "le_ID (StampSagaContext ctx e) = le_ID e"
  "le_AccountNumber (StampSagaContext ctx e) = le_AccountNumber e"
  "le_EntryType (StampSagaContext ctx e) = le_EntryType e"
  "le_Amount (StampSagaContext ctx e) = le_Amount e"
  "le_BalanceBefore (StampSagaContext ctx e) = le_BalanceBefore e"
  "le_BalanceAfter (StampSagaContext ctx e) = le_BalanceAfter e"
  "le_IdempotencyKey (StampSagaContext ctx e) = le_IdempotencyKey e"
  by (auto simp: StampSagaContext_def Let_def split: option.splits)

lemma create_entry_no_key:
  "le_IdempotencyKey e = [] \<Longrightarrow>
     create_entry e s =
       Inr (e\<lparr>le_ID := seq_ledger s\<rparr>,
            s\<lparr>ledger := ledger s @ [e\<lparr>le_ID := seq_ledger s\<rparr>], seq_ledger := Suc (seq_ledger s)\<rparr>)"
  by (simp add: create_entry_def Let_def)

lemma create_entryD:
  assumes "create_entry e s = Inr (row, s')"
  shows "row = e\<lparr>le_ID := seq_ledger s\<rparr>"
    and "s' = s\<lparr>ledger := ledger s @ [row], seq_ledger := Suc (seq_ledger s)\<rparr>"
  using assms by (auto simp: create_entry_def Let_def split: if_splits)

lemma create_entry_fresh:
  "create_entry e s = Inr (row, s') \<Longrightarrow> le_IdempotencyKey e \<noteq> [] \<Longrightarrow>
     \<forall>x \<in> set (ledger s). le_IdempotencyKey x \<noteq> le_IdempotencyKey e"
  by (auto simp: create_entry_def Let_def split: if_splits)

lemma save_accountD:
  assumes "save_account a s = Inr s'"
  shows "s' = s\<lparr>accounts := put_row acc_ID (a\<lparr>acc_Version := acc_Version a + 1\<rparr>) (accounts s)\<rparr>"
  using assms by (auto simp: save_account_def split: if_splits)

text \<open>
  The optimistic lock cannot fail for a row that was read in the same transaction and saved with
  its version unchanged: this is what the row lock (\<^verbatim>\<open>SELECT FOR UPDATE\<close>) gives.
\<close>

lemma save_account_locked:
  assumes "r \<in> set (accounts s)" "\<not> acc_Deleted r"
    and "acc_ID a = acc_ID r" "acc_Version a = acc_Version r"
  shows "save_account a s =
    Inr (s\<lparr>accounts := put_row acc_ID (a\<lparr>acc_Version := acc_Version a + 1\<rparr>) (accounts s)\<rparr>)"
  using assms by (auto simp: save_account_def)

lemma evict_tables [simp, acct_simps]:
  "accounts (evictAccountCache i n s) = accounts s"
  "ledger (evictAccountCache i n s) = ledger s"
  "reservations (evictAccountCache i n s) = reservations s"
  "settlements (evictAccountCache i n s) = settlements s"
  "outgoing (evictAccountCache i n s) = outgoing s"
  "incoming (evictAccountCache i n s) = incoming s"
  "bank_ops (evictAccountCache i n s) = bank_ops s"
  "seq_accounts (evictAccountCache i n s) = seq_accounts s"
  "seq_ledger (evictAccountCache i n s) = seq_ledger s"
  "seq_reservations (evictAccountCache i n s) = seq_reservations s"
  "seq_settlements (evictAccountCache i n s) = seq_settlements s"
  "seq_outgoing (evictAccountCache i n s) = seq_outgoing s"
  "seq_incoming (evictAccountCache i n s) = seq_incoming s"
  by (simp_all add: evictAccountCache_def Let_def)

lemma evict_lookup [simp, acct_simps]:
  "GetByID i (evictAccountCache j n s) = GetByID i s"
  "GetByNumber m (evictAccountCache j n s) = GetByNumber m s"
  by (simp_all add: GetByID_def GetByNumber_def)

section \<open>Keys of the tables\<close>

text \<open>
  Primary keys and unique indexes: distinct account ids and numbers, one reservation per
  \<^verbatim>\<open>(order_id, order_kind)\<close>, one settlement per \<^verbatim>\<open>order_transaction_id\<close>, one outgoing and one
  incoming reservation per key; every key was handed out by the table's sequence, and holds refer
  to accounts that were created.
\<close>

definition res_key :: "account_reservation \<Rightarrow> nat \<times> string" where
  "res_key r = (res_OrderID r, res_OrderKind r)"

definition holds_known :: "string list \<Rightarrow> string list \<Rightarrow> bool" where
  "holds_known held numbers \<longleftrightarrow> set held \<subseteq> set numbers"

definition keys_ok :: "account_db \<Rightarrow> bool" where
  "keys_ok s \<longleftrightarrow>
     distinct (map acc_ID (accounts s)) \<and>
     distinct (map acc_AccountNumber (accounts s)) \<and>
     distinct (map res_ID (reservations s)) \<and>
     distinct (map res_key (reservations s)) \<and>
     distinct (map set_OrderTransactionID (settlements s)) \<and>
     distinct (map out_ReservationKey (outgoing s)) \<and>
     distinct (map inc_ReservationKey (incoming s)) \<and>
     (\<forall>a \<in> set (accounts s). acc_ID a < seq_accounts s \<and> 0 < acc_ID a \<and> acc_AccountNumber a \<noteq> []) \<and>
     (\<forall>r \<in> set (reservations s). res_ID r < seq_reservations s \<and> res_AccountID r < seq_accounts s) \<and>
     holds_known (map out_AccountNumber (outgoing s)) (map acc_AccountNumber (accounts s)) \<and>
     (\<forall>t \<in> set (settlements s). set_ReservationID t < seq_reservations s) \<and>
     0 < seq_accounts s"

lemma keys_okD:
  assumes "keys_ok s"
  shows "distinct (map acc_ID (accounts s))" "distinct (map acc_AccountNumber (accounts s))"
    "distinct (map res_ID (reservations s))" "distinct (map res_key (reservations s))"
    "distinct (map set_OrderTransactionID (settlements s))"
    "distinct (map out_ReservationKey (outgoing s))" "distinct (map inc_ReservationKey (incoming s))"
  using assms by (simp_all add: keys_ok_def)

lemma GetByID_unique:
  "keys_ok s \<Longrightarrow> a \<in> set (accounts s) \<Longrightarrow> \<not> acc_Deleted a \<Longrightarrow> GetByID (acc_ID a) s = Some a"
  unfolding GetByID_def
  by (rule find_unique) (auto dest: keys_okD(1) intro: distinct_key_eq)

lemma GetByNumber_unique:
  "keys_ok s \<Longrightarrow> a \<in> set (accounts s) \<Longrightarrow> \<not> acc_Deleted a \<Longrightarrow>
     GetByNumber (acc_AccountNumber a) s = Some a"
  unfolding GetByNumber_def
  by (rule find_unique) (auto dest: keys_okD(2) intro: distinct_key_eq)

lemma keys_ok_evict [simp]: "keys_ok (evictAccountCache i n s) = keys_ok s"
  by (simp add: keys_ok_def)

lemma keys_ok_empty: "keys_ok empty_db"
  by (simp add: keys_ok_def holds_known_def empty_db_def)

end
