(* ===== verification/Account_Invariants.thy ===== *)
theory Account_Invariants
  imports Account_Model
begin

text \<open>
  What must hold of the account-service state between two calls.

  \<^item> \<open>funds_ok\<close>: on every account the reserved balance is the total of the unsettled rests of its
    active order reservations, and the available balance is the balance less the reserved balance
    less the pending cross-bank holds; no active reservation is settled beyond its amount.
  \<^item> \<open>ledger_gap\<close>: the difference between the stored balance of an account and the net of its
    ledger entries, which every operation that writes the ledger leaves as it is.
  \<^item> \<open>cache_fresh\<close>: whatever the read cache holds equals the stored row.

  The lemmas reduce the preservation of each of them by an operation to the one account row and
  the few other rows the operation writes.
\<close>

section \<open>Definitions\<close>

definition settled_total :: "account_reservation_settlement list \<Rightarrow> nat \<Rightarrow> decimal" where
  "settled_total ts i = tsum (\<lambda>t. if set_ReservationID t = i then set_Amount t else 0) ts"

definition hold_rest :: "account_reservation_settlement list \<Rightarrow> account_reservation \<Rightarrow> decimal" where
  "hold_rest ts r =
     (if res_Status r = ResActive then res_Amount r - settled_total ts (res_ID r) else 0)"

definition active_holds :: "account_db \<Rightarrow> nat \<Rightarrow> decimal" where
  "active_holds s i =
     tsum (\<lambda>r. if res_AccountID r = i then hold_rest (settlements s) r else 0) (reservations s)"

definition pending_out :: "account_db \<Rightarrow> string \<Rightarrow> decimal" where
  "pending_out s n =
     tsum (\<lambda>r. if out_AccountNumber r = n \<and> out_Status r = OutPending then out_Amount r else 0)
       (outgoing s)"

definition acct_ok :: "account_db \<Rightarrow> account \<Rightarrow> bool" where
  "acct_ok s a \<longleftrightarrow>
     acc_ReservedBalance a = active_holds s (acc_ID a) \<and>
     acc_AvailableBalance a =
       acc_Balance a - acc_ReservedBalance a - pending_out s (acc_AccountNumber a)"

definition res_ok :: "account_db \<Rightarrow> bool" where
  "res_ok s \<longleftrightarrow>
     (\<forall>r \<in> set (reservations s). 0 < res_Amount r \<and> 0 \<le> hold_rest (settlements s) r)"

definition funds_ok :: "account_db \<Rightarrow> bool" where
  "funds_ok s \<longleftrightarrow> keys_ok s \<and> (\<forall>a \<in> set (accounts s). acct_ok s a) \<and> res_ok s"

definition entry_sign :: "ledger_entry \<Rightarrow> decimal" where
  "entry_sign e =
     (if le_EntryType e = ''credit'' then le_Amount e
      else if le_EntryType e = ''debit'' then - le_Amount e else 0)"

definition ledger_net :: "account_db \<Rightarrow> string \<Rightarrow> decimal" where
  "ledger_net s n = tsum (\<lambda>e. if le_AccountNumber e = n then entry_sign e else 0) (ledger s)"

definition balance_of :: "account_db \<Rightarrow> string \<Rightarrow> decimal" where
  "balance_of s n =
     (case find (\<lambda>a. acc_AccountNumber a = n) (accounts s) of
        None \<Rightarrow> 0 | Some a \<Rightarrow> acc_Balance a)"

definition ledger_gap :: "account_db \<Rightarrow> string \<Rightarrow> decimal" where
  "ledger_gap s n = balance_of s n - ledger_net s n"

definition cache_fresh :: "account_db \<Rightarrow> bool" where
  "cache_fresh s \<longleftrightarrow>
     (\<forall>i a. cache_id s i = Some a \<longrightarrow> GetByID i s = Some a) \<and>
     (\<forall>n a. cache_num s n = Some a \<longrightarrow> GetByNumber n s = Some a)"

lemma funds_okD:
  assumes "funds_ok s"
  shows "keys_ok s" "a \<in> set (accounts s) \<Longrightarrow> acct_ok s a" "res_ok s"
  using assms by (simp_all add: funds_ok_def)

lemma funds_ok_empty: "funds_ok empty_db"
  by (simp add: funds_ok_def keys_ok_empty res_ok_def) (simp add: empty_db_def)

lemma inv_evict [simp]:
  "funds_ok (evictAccountCache i n s) = funds_ok s"
  "ledger_gap (evictAccountCache i n s) m = ledger_gap s m"
  "ledger_net (evictAccountCache i n s) m = ledger_net s m"
  "balance_of (evictAccountCache i n s) m = balance_of s m"
  by (simp_all add: funds_ok_def acct_ok_def active_holds_def pending_out_def res_ok_def
      ledger_gap_def ledger_net_def balance_of_def cong: if_cong)

section \<open>Writing one account row\<close>

text \<open>\<open>same_row a a'\<close>: \<open>a'\<close> is \<open>a\<close> with other values in its non-key columns.\<close>

definition same_row :: "account \<Rightarrow> account \<Rightarrow> bool" where
  "same_row a a' \<longleftrightarrow>
     acc_ID a' = acc_ID a \<and> acc_AccountNumber a' = acc_AccountNumber a \<and>
     acc_CurrencyCode a' = acc_CurrencyCode a \<and> acc_OwnerID a' = acc_OwnerID a \<and>
     acc_IsBankAccount a' = acc_IsBankAccount a \<and> acc_Deleted a' = acc_Deleted a"

definition write_account :: "account \<Rightarrow> account_db \<Rightarrow> account_db" where
  "write_account a' s = s\<lparr>accounts := put_row acc_ID a' (accounts s)\<rparr>"

lemma write_account_tables [simp]:
  "ledger (write_account a' s) = ledger s"
  "reservations (write_account a' s) = reservations s"
  "settlements (write_account a' s) = settlements s"
  "outgoing (write_account a' s) = outgoing s"
  "incoming (write_account a' s) = incoming s"
  "seq_accounts (write_account a' s) = seq_accounts s"
  "seq_reservations (write_account a' s) = seq_reservations s"
  "cache_id (write_account a' s) = cache_id s"
  "cache_num (write_account a' s) = cache_num s"
  "accounts (write_account a' s) = put_row acc_ID a' (accounts s)"
  by (simp_all add: write_account_def)

lemma save_account_write:
  assumes "a \<in> set (accounts s)" "\<not> acc_Deleted a" "same_row a a'" "acc_Version a' = acc_Version a"
  shows "save_account a' s = Inr (write_account (a'\<lparr>acc_Version := acc_Version a + 1\<rparr>) s)"
  using assms by (auto simp: save_account_def write_account_def same_row_def)

lemma map_number_put:
  assumes "keys_ok s" "a \<in> set (accounts s)" "same_row a a'"
  shows "map acc_AccountNumber (put_row acc_ID a' (accounts s)) = map acc_AccountNumber (accounts s)"
proof (rule map_other_put_row)
  fix x assume "x \<in> set (accounts s)" "acc_ID x = acc_ID a'"
  with assms have "x = a" by (auto simp: same_row_def dest: keys_okD(1) intro: distinct_key_eq)
  with assms(3) show "acc_AccountNumber x = acc_AccountNumber a'" by (simp add: same_row_def)
qed

lemma keys_ok_write:
  assumes "keys_ok s" "a \<in> set (accounts s)" "same_row a a'"
  shows "keys_ok (write_account a' s)"
  using assms map_number_put [OF assms]
  by (auto simp: keys_ok_def same_row_def dest!: in_put_rowD)

lemma write_account_others:
  assumes "keys_ok s" "a \<in> set (accounts s)" "same_row a a'" "x \<in> set (accounts (write_account a' s))"
  shows "x = a' \<or> (x \<in> set (accounts s) \<and> acc_ID x \<noteq> acc_ID a \<and>
            acc_AccountNumber x \<noteq> acc_AccountNumber a)"
proof -
  from assms(3,4) have "x = a' \<or> (x \<in> set (accounts s) \<and> acc_ID x \<noteq> acc_ID a)"
    by (auto dest: in_put_rowD simp: same_row_def)
  moreover have "acc_AccountNumber x \<noteq> acc_AccountNumber a"
    if "x \<in> set (accounts s)" "acc_ID x \<noteq> acc_ID a"
    using that assms(1,2) by (auto dest: keys_okD(2) distinct_key_eq)
  ultimately show ?thesis by blast
qed

lemma acct_ok_cong:
  assumes "active_holds s' (acc_ID a) = active_holds s (acc_ID a)"
    and "pending_out s' (acc_AccountNumber a) = pending_out s (acc_AccountNumber a)"
  shows "acct_ok s' a = acct_ok s a"
  using assms by (simp add: acct_ok_def)

text \<open>
  The master lemma: an operation that rewrites one account row and changes the other tables only
  in ways that matter for that account keeps \<open>funds_ok\<close> when the rewritten row is right.
\<close>

lemma funds_ok_one_account:
  assumes ok: "funds_ok s" and a: "a \<in> set (accounts s)" and row: "same_row a a'"
    and accts: "accounts s' = put_row acc_ID a' (accounts s)"
    and keys: "keys_ok s'" and res: "res_ok s'"
    and holds: "\<And>i. i \<noteq> acc_ID a \<Longrightarrow> active_holds s' i = active_holds s i"
    and outs: "\<And>n. n \<noteq> acc_AccountNumber a \<Longrightarrow> pending_out s' n = pending_out s n"
    and new: "acct_ok s' a'"
  shows "funds_ok s'"
  unfolding funds_ok_def
proof (intro conjI ballI)
  fix x assume "x \<in> set (accounts s')"
  with accts have "x \<in> set (accounts (write_account a' s))" by simp
  from write_account_others [OF funds_okD(1) [OF ok] a row this]
  consider "x = a'" | "x \<in> set (accounts s)" "acc_ID x \<noteq> acc_ID a" "acc_AccountNumber x \<noteq> acc_AccountNumber a"
    by blast
  then show "acct_ok s' x"
  proof cases
    case 1
    with new show ?thesis by simp
  next
    case 2
    with funds_okD(2) [OF ok] holds outs show ?thesis by (simp add: acct_ok_def)
  qed
qed (use keys res in auto)

text \<open>The common case: nothing but the account row and the ledger changes.\<close>

lemma funds_ok_money_move:
  assumes ok: "funds_ok s" and a: "a \<in> set (accounts s)" and row: "same_row a a'"
    and accts: "accounts s' = put_row acc_ID a' (accounts s)"
    and frame: "reservations s' = reservations s" "settlements s' = settlements s"
      "outgoing s' = outgoing s" "incoming s' = incoming s" "seq_accounts s' = seq_accounts s"
      "seq_reservations s' = seq_reservations s"
    and move: "acc_ReservedBalance a' = acc_ReservedBalance a"
      "acc_AvailableBalance a' - acc_AvailableBalance a = acc_Balance a' - acc_Balance a"
  shows "funds_ok s'"
proof (rule funds_ok_one_account [OF ok a row accts])
  have "keys_ok (write_account a' s)" by (rule keys_ok_write [OF funds_okD(1) [OF ok] a row])
  then show "keys_ok s'" by (simp add: keys_ok_def accts frame)
  show "res_ok s'" using funds_okD(3) [OF ok] by (simp add: res_ok_def frame)
  show holds: "active_holds s' i = active_holds s i" for i
    by (simp add: active_holds_def frame cong: if_cong)
  show outs: "pending_out s' n = pending_out s n" for n by (simp add: pending_out_def frame)
  show "acct_ok s' a'"
    using funds_okD(2) [OF ok a] row move
    by (simp add: acct_ok_def holds outs same_row_def algebra_simps)
qed

section \<open>Writing one reservation row\<close>

lemma active_holds_change:
  assumes keys: "distinct (map res_ID (reservations s))" and r: "r \<in> set (reservations s)"
    and new: "res_ID r' = res_ID r" "res_AccountID r' = res_AccountID r"
    and rows: "reservations s' = put_row res_ID r' (reservations s)"
    and others: "\<And>x. x \<in> set (reservations s) \<Longrightarrow> res_ID x \<noteq> res_ID r \<Longrightarrow>
        hold_rest (settlements s') x = hold_rest (settlements s) x"
  shows "active_holds s' i = active_holds s i +
     (if res_AccountID r = i
      then hold_rest (settlements s') r' - hold_rest (settlements s) r else 0)"
proof -
  let ?f = "\<lambda>x. if res_AccountID x = i then hold_rest (settlements s) x else 0"
  let ?g = "\<lambda>x. if res_AccountID x = i then hold_rest (settlements s') x else 0"
  have "tsum ?g (reservations s') = tsum ?g (reservations s) - ?g r + ?g r'"
    unfolding rows by (rule tsum_put_row [OF keys r new(1)])
  also have "tsum ?g (reservations s) = tsum ?f (reservations s) - ?f r + ?g r"
    by (rule tsum_change_one [OF keys r]) (simp add: others)
  finally show ?thesis by (simp add: active_holds_def new(2))
qed

lemma res_ok_change:
  assumes "res_ok s" "distinct (map res_ID (reservations s))" "r \<in> set (reservations s)"
    and "res_ID r' = res_ID r" "res_Amount r' = res_Amount r"
    and "reservations s' = put_row res_ID r' (reservations s)"
    and "\<And>x. x \<in> set (reservations s) \<Longrightarrow> res_ID x \<noteq> res_ID r \<Longrightarrow>
        hold_rest (settlements s') x = hold_rest (settlements s) x"
    and "0 \<le> hold_rest (settlements s') r'"
  shows "res_ok s'"
  using assms by (auto simp: res_ok_def dest!: in_put_rowD)

lemma map_res_key_put:
  assumes "keys_ok s" "r \<in> set (reservations s)" "res_ID r' = res_ID r" "res_key r' = res_key r"
  shows "map res_key (put_row res_ID r' (reservations s)) = map res_key (reservations s)"
proof (rule map_other_put_row)
  fix x assume "x \<in> set (reservations s)" "res_ID x = res_ID r'"
  with assms have "x = r" by (auto dest: keys_okD(3) intro: distinct_key_eq)
  with assms(4) show "res_key x = res_key r'" by simp
qed

section \<open>The ledger gap\<close>

lemma balance_of_member:
  assumes "keys_ok s" "a \<in> set (accounts s)"
  shows "balance_of s (acc_AccountNumber a) = acc_Balance a"
proof -
  have "find (\<lambda>x. acc_AccountNumber x = acc_AccountNumber a) (accounts s) = Some a"
    using assms by (intro find_unique) (auto dest: keys_okD(2) intro: distinct_key_eq)
  then show ?thesis by (simp add: balance_of_def)
qed

lemma balance_of_write:
  assumes "keys_ok s" "a \<in> set (accounts s)" "same_row a a'"
    and accts: "accounts s' = put_row acc_ID a' (accounts s)"
  shows "balance_of s' n = (if n = acc_AccountNumber a then acc_Balance a' else balance_of s n)"
proof (cases "n = acc_AccountNumber a")
  case True
  have "a' \<in> set (accounts (write_account a' s))"
    using assms(2,3) by (auto simp: same_row_def intro: in_put_row_new)
  from balance_of_member [OF keys_ok_write [OF assms(1-3)] this] assms(3) True
  show ?thesis by (simp add: balance_of_def accts same_row_def)
next
  case False
  have "find (\<lambda>x. acc_AccountNumber x = n) (put_row acc_ID a' (accounts s))
      = find (\<lambda>x. acc_AccountNumber x = n) (accounts s)"
  proof (rule find_put_row_other)
    fix x assume "x \<in> set (accounts s)" "acc_ID x = acc_ID a'"
    with assms have "x = a" by (auto simp: same_row_def dest: keys_okD(1) intro: distinct_key_eq)
    with False show "acc_AccountNumber x \<noteq> n" by simp
  qed (use False assms(3) in \<open>auto simp: same_row_def\<close>)
  with False show ?thesis by (simp add: balance_of_def accts)
qed

lemma entry_sign_id [simp]: "entry_sign (e\<lparr>le_ID := i\<rparr>) = entry_sign e"
  by (simp add: entry_sign_def)

lemma ledger_net_append [simp]:
  "ledger s' = ledger s @ [e] \<Longrightarrow>
     ledger_net s' n = ledger_net s n + (if le_AccountNumber e = n then entry_sign e else 0)"
  by (simp add: ledger_net_def)

text \<open>A balance change together with the ledger entry that explains it leaves every gap alone.\<close>

lemma ledger_gap_move:
  assumes "keys_ok s" "a \<in> set (accounts s)" "same_row a a'"
    and "accounts s' = put_row acc_ID a' (accounts s)" "ledger s' = ledger s @ [e]"
    and "le_AccountNumber e = acc_AccountNumber a" "entry_sign e = acc_Balance a' - acc_Balance a"
  shows "ledger_gap s' n = ledger_gap s n"
  using assms by (auto simp: ledger_gap_def balance_of_write balance_of_member)

lemma ledger_gap_quiet:
  assumes "keys_ok s" "a \<in> set (accounts s)" "same_row a a'"
    and "accounts s' = put_row acc_ID a' (accounts s)" "ledger s' = ledger s"
    and "acc_Balance a' = acc_Balance a"
  shows "ledger_gap s' n = ledger_gap s n"
  using assms by (auto simp: ledger_gap_def balance_of_write balance_of_member ledger_net_def)

lemma ledger_gap_frame:
  "accounts s' = accounts s \<Longrightarrow> ledger s' = ledger s \<Longrightarrow> ledger_gap s' n = ledger_gap s n"
  by (simp add: ledger_gap_def balance_of_def ledger_net_def)

section \<open>Lookups after a write\<close>

lemma GetByID_write:
  assumes keys: "keys_ok s" and a: "GetByID i s = Some a" and row: "same_row a a'"
    and accts: "accounts s' = put_row acc_ID a' (accounts s)"
  shows "GetByID j s' = (if j = i then Some a' else GetByID j s)"
proof (cases "j = i")
  case True
  note m = GetByIDD [OF a]
  have "GetByID (acc_ID a') (write_account a' s) = Some a'"
    by (rule GetByID_unique [OF keys_ok_write [OF keys _ row]])
      (use m row in \<open>auto simp: same_row_def intro: in_put_row_new\<close>)
  with True m row accts show ?thesis by (simp add: same_row_def GetByID_def)
next
  case False
  with GetByIDD [OF a] row have "GetByID j s' = GetByID j s"
    unfolding GetByID_def accts by (intro find_put_row_other) (auto simp: same_row_def)
  with False show ?thesis by simp
qed

lemma GetByNumber_write:
  assumes keys: "keys_ok s" and a: "a \<in> set (accounts s)" "\<not> acc_Deleted a" and row: "same_row a a'"
    and accts: "accounts s' = put_row acc_ID a' (accounts s)"
  shows "GetByNumber n s' = (if n = acc_AccountNumber a then Some a' else GetByNumber n s)"
proof (cases "n = acc_AccountNumber a")
  case True
  have "GetByNumber (acc_AccountNumber a') (write_account a' s) = Some a'"
    by (rule GetByNumber_unique [OF keys_ok_write [OF keys a(1) row]])
      (use a row in \<open>auto simp: same_row_def intro: in_put_row_new\<close>)
  with True row accts show ?thesis by (simp add: same_row_def GetByNumber_def)
next
  case False
  have other: "x = a" if "x \<in> set (accounts s)" "acc_ID x = acc_ID a'" for x
    using that keys a(1) row by (auto simp: same_row_def dest: keys_okD(1) intro: distinct_key_eq)
  from False have "GetByNumber n s' = GetByNumber n s"
    unfolding GetByNumber_def accts
    by (intro find_put_row_other) (use row other in \<open>auto simp: same_row_def\<close>)
  with False show ?thesis by simp
qed

section \<open>The read cache\<close>

lemma cache_fresh_evict_touched:
  assumes fresh: "cache_fresh s" and keys: "keys_ok s" and a: "a \<in> set (accounts s)"
    and row: "same_row a a'"
    and accts: "accounts s' = put_row acc_ID a' (accounts s)"
    and cache: "cache_id s' = cache_id s" "cache_num s' = cache_num s"
  shows "cache_fresh (evictAccountCache (acc_ID a) (acc_AccountNumber a) s')"
proof -
  have other: "x = a" if "x \<in> set (accounts s)" "acc_ID x = acc_ID a'" for x
    using that keys a row by (auto simp: same_row_def dest: keys_okD(1) intro: distinct_key_eq)
  have id: "GetByID i s' = GetByID i s" if "i \<noteq> acc_ID a" for i
    unfolding GetByID_def accts
    by (rule find_put_row_other) (use that row other in \<open>auto simp: same_row_def\<close>)
  have num: "GetByNumber n s' = GetByNumber n s" if "n \<noteq> acc_AccountNumber a" for n
    unfolding GetByNumber_def accts
    by (rule find_put_row_other) (use that row other in \<open>auto simp: same_row_def\<close>)
  from keys a have "acc_ID a \<noteq> 0" "acc_AccountNumber a \<noteq> []" by (auto simp: keys_ok_def)
  with fresh id num show ?thesis
    by (auto simp: cache_fresh_def evictAccountCache_def Let_def cache GetByID_def GetByNumber_def
        split: if_splits)
qed

lemma cache_fresh_frame:
  "cache_fresh s \<Longrightarrow> accounts s' = accounts s \<Longrightarrow> cache_id s' = cache_id s \<Longrightarrow>
     cache_num s' = cache_num s \<Longrightarrow> cache_fresh s'"
  by (simp add: cache_fresh_def GetByID_def GetByNumber_def)

lemma cache_fresh_evict: "cache_fresh s \<Longrightarrow> cache_fresh (evictAccountCache i n s)"
  by (auto simp: cache_fresh_def evictAccountCache_def Let_def GetByID_def GetByNumber_def
      split: if_splits)

lemma evict_caches [simp]:
  "cache_id (evictAccountCache i n s) = (if i \<noteq> 0 then (cache_id s)(i := None) else cache_id s)"
  "cache_num (evictAccountCache i n s) = (if n \<noteq> [] then (cache_num s)(n := None) else cache_num s)"
  by (simp_all add: evictAccountCache_def Let_def)

lemma cache_fresh_evict_frame:
  "cache_fresh (evictAccountCache i n s) \<Longrightarrow> accounts t = accounts s \<Longrightarrow> cache_id t = cache_id s \<Longrightarrow>
     cache_num t = cache_num s \<Longrightarrow> cache_fresh (evictAccountCache i n t)"
  by (erule cache_fresh_frame) simp_all

section \<open>A row write with its ledger entry\<close>

lemma save_with_entryE:
  assumes "save_with_entry a' e s = Inr ((b, row), s')"
  shows "b = a'\<lparr>acc_Version := acc_Version a' + 1\<rparr>" "row = e\<lparr>le_ID := seq_ledger s\<rparr>"
    and "s' = s\<lparr>accounts := put_row acc_ID b (accounts s), ledger := ledger s @ [row],
               seq_ledger := Suc (seq_ledger s)\<rparr>"
    and "le_IdempotencyKey e \<noteq> [] \<Longrightarrow> \<forall>x \<in> set (ledger s). le_IdempotencyKey x \<noteq> le_IdempotencyKey e"
proof -
  from assms obtain s1 where s1: "save_account a' s = Inr s1" and c: "create_entry e s1 = Inr (row, s')"
    and b: "b = a'\<lparr>acc_Version := acc_Version a' + 1\<rparr>"
    by (auto simp: save_with_entry_def split: sum.splits)
  note d = save_accountD [OF s1] create_entryD [OF c]
  show "b = a'\<lparr>acc_Version := acc_Version a' + 1\<rparr>" by (rule b)
  show "row = e\<lparr>le_ID := seq_ledger s\<rparr>" using d by simp
  show "s' = s\<lparr>accounts := put_row acc_ID b (accounts s), ledger := ledger s @ [row],
               seq_ledger := Suc (seq_ledger s)\<rparr>" using d b by simp
  show "\<forall>x \<in> set (ledger s). le_IdempotencyKey x \<noteq> le_IdempotencyKey e" if "le_IdempotencyKey e \<noteq> []"
    using create_entry_fresh [OF c that] d(1) by simp
qed

lemma save_with_entry_ok:
  assumes "a \<in> set (accounts s)" "\<not> acc_Deleted a" "acc_ID a' = acc_ID a" "acc_Version a' = acc_Version a"
    and "le_IdempotencyKey e = [] \<or> (\<forall>x \<in> set (ledger s). le_IdempotencyKey x \<noteq> le_IdempotencyKey e)"
  shows "save_with_entry a' e s =
    (let b = a'\<lparr>acc_Version := acc_Version a' + 1\<rparr>; row = e\<lparr>le_ID := seq_ledger s\<rparr>
     in Inr ((b, row), s\<lparr>accounts := put_row acc_ID b (accounts s), ledger := ledger s @ [row],
                         seq_ledger := Suc (seq_ledger s)\<rparr>))"
proof -
  note save = save_account_locked [OF assms(1-4)]
  show ?thesis using assms(5) by (auto simp: save_with_entry_def save create_entry_def Let_def)
qed

lemma save_with_entry_dup:
  assumes "a \<in> set (accounts s)" "\<not> acc_Deleted a" "acc_ID a' = acc_ID a" "acc_Version a' = acc_Version a"
    and "le_IdempotencyKey e \<noteq> []" "\<exists>x \<in> set (ledger s). le_IdempotencyKey x = le_IdempotencyKey e"
  shows "save_with_entry a' e s = Inl ErrDuplicateKey"
  using save_account_locked [OF assms(1-4)] assms(5,6)
  by (auto simp: save_with_entry_def create_entry_def)

lemma same_row_version [simp]: "same_row a (a'\<lparr>acc_Version := v\<rparr>) = same_row a a'"
  by (simp add: same_row_def)

text \<open>The invariants across such a write, when the row changes as a money move does.\<close>

lemma save_with_entry_keeps:
  assumes ok: "funds_ok s" and a: "a \<in> set (accounts s)" and row: "same_row a a'"
    and move: "acc_ReservedBalance a' = acc_ReservedBalance a"
      "acc_AvailableBalance a' - acc_AvailableBalance a = acc_Balance a' - acc_Balance a"
    and w: "save_with_entry a' e s = Inr ((b, r), s')"
  shows "funds_ok s'"
  by (rule funds_ok_money_move [OF ok a, of "a'\<lparr>acc_Version := acc_Version a' + 1\<rparr>"])
    (use row move save_with_entryE [OF w] in simp_all)

lemma save_with_entry_gap:
  assumes "keys_ok s" "a \<in> set (accounts s)" "same_row a a'"
    and "le_AccountNumber e = acc_AccountNumber a" "entry_sign e = acc_Balance a' - acc_Balance a"
    and w: "save_with_entry a' e s = Inr ((b, r), s')"
  shows "ledger_gap s' n = ledger_gap s n"
  by (rule ledger_gap_move [OF assms(1,2), of "a'\<lparr>acc_Version := acc_Version a' + 1\<rparr>" s' "e\<lparr>le_ID := seq_ledger s\<rparr>"])
    (use assms(3-5) save_with_entryE [OF w] in simp_all)

lemma save_with_entry_cache:
  assumes "cache_fresh s" "keys_ok s" "a \<in> set (accounts s)" "same_row a a'"
    and w: "save_with_entry a' e s = Inr ((b, r), s')"
  shows "cache_fresh (evictAccountCache (acc_ID a) (acc_AccountNumber a) s')"
  by (rule cache_fresh_evict_touched [OF assms(1-3), of "a'\<lparr>acc_Version := acc_Version a' + 1\<rparr>"])
    (use assms(4) save_with_entryE [OF w] in simp_all)

section \<open>A concrete state\<close>

text \<open>A client's account in RSD and the bank's accounts in RSD and EUR.\<close>

definition sample_account :: "nat \<Rightarrow> string \<Rightarrow> string \<Rightarrow> decimal \<Rightarrow> bool \<Rightarrow> account" where
  "sample_account i n cur bal bank =
     \<lparr>acc_ID = i, acc_AccountNumber = n, acc_AccountName = ''acc'',
      acc_OwnerID = (if bank then 1000000000 else 5), acc_OwnerName = ''owner'',
      acc_Balance = bal, acc_AvailableBalance = bal, acc_ReservedBalance = 0, acc_EmployeeID = 1,
      acc_ExpiresAt = 0, acc_CurrencyCode = cur, acc_Status = ''active'',
      acc_AccountKind = ''current'', acc_AccountType = (if bank then ''bank'' else ''standard''),
      acc_AccountCategory = ''personal'', acc_MaintenanceFee = 0, acc_DailyLimit = 1000,
      acc_MonthlyLimit = 10000, acc_DailySpending = 0, acc_MonthlySpending = 0,
      acc_CompanyID = None, acc_IsBankAccount = bank, acc_Version = 1, acc_Deleted = False\<rparr>"

definition sample_db :: account_db where
  "sample_db = empty_db\<lparr>accounts :=
       [sample_account 1 ''A'' ''RSD'' 100 False, sample_account 2 ''B'' ''RSD'' 500 True,
        sample_account 3 ''C'' ''EUR'' 50 True], seq_accounts := 4\<rparr>"

lemmas sample_simps = sample_db_def empty_db_def sample_account_def

lemma sample_ok: "funds_ok sample_db"
  by (simp add: funds_ok_def keys_ok_def holds_known_def res_ok_def acct_ok_def active_holds_def
      pending_out_def sample_simps)

lemma sample_lookup [simp]:
  "GetByID 1 sample_db = Some (sample_account 1 ''A'' ''RSD'' 100 False)"
  "GetByNumber ''A'' sample_db = Some (sample_account 1 ''A'' ''RSD'' 100 False)"
  "GetByNumber ''B'' sample_db = Some (sample_account 2 ''B'' ''RSD'' 500 True)"
  "GetByNumber ''C'' sample_db = Some (sample_account 3 ''C'' ''EUR'' 50 True)"
  by (simp_all add: GetByID_def GetByNumber_def sample_simps)

lemma sample_account_sel [simp]:
  "acc_ID (sample_account i n cur bal bank) = i"
  "acc_AccountNumber (sample_account i n cur bal bank) = n"
  "acc_CurrencyCode (sample_account i n cur bal bank) = cur"
  "acc_Balance (sample_account i n cur bal bank) = bal"
  "acc_AvailableBalance (sample_account i n cur bal bank) = bal"
  "acc_ReservedBalance (sample_account i n cur bal bank) = 0"
  "acc_Deleted (sample_account i n cur bal bank) = False"
  by (simp_all add: sample_account_def)

end
