(* ===== verification/Reservation.thy ===== *)
theory Reservation
  imports Account_Invariants
begin

text \<open>
  Order reservations of account-service
  (\<^verbatim>\<open>src/account-service/internal/service/reservation_service.go\<close> over
  \<^verbatim>\<open>repository/account_reservation_repository.go\<close>): \<^verbatim>\<open>ReserveFunds\<close>, \<^verbatim>\<open>ReleaseReservation\<close>,
  \<^verbatim>\<open>PartialSettleReservation\<close> and \<^verbatim>\<open>GetReservation\<close>. Each runs in one database transaction on the
  locked account row and evicts the cached account after the commit.

  The lemmas give the effect of each operation on every branch and show that the three of them
  keep \<open>funds_ok\<close>, every ledger gap and the freshness of the read cache.
\<close>

section \<open>Repository\<close>

definition OrderKindStockOrder :: string where
  "OrderKindStockOrder = ''stock_order''"

definition norm_kind :: "string \<Rightarrow> string" where
  "norm_kind k = (if k = [] then OrderKindStockOrder else k)"

definition GetByOrderID :: "nat \<Rightarrow> string \<Rightarrow> account_db \<Rightarrow> account_reservation option" where
  "GetByOrderID oid kind s =
     (let k = norm_kind kind
      in find (\<lambda>r. res_OrderID r = oid \<and> res_OrderKind r = k) (reservations s))"

text \<open>
  \<^verbatim>\<open>InsertIfAbsent\<close>: the conflict clause on \<^verbatim>\<open>(order_id, order_kind)\<close> makes the insert a no-op when
  the pair exists, and the existing row is returned.
\<close>

definition InsertIfAbsent ::
  "account_reservation \<Rightarrow> account_db \<Rightarrow> bool \<times> account_reservation \<times> account_db" where
  "InsertIfAbsent r s =
     (let r1 = r\<lparr>res_OrderKind := norm_kind (res_OrderKind r)\<rparr>
      in case GetByOrderID (res_OrderID r1) (res_OrderKind r1) s of
           Some existing \<Rightarrow> (False, existing, s)
         | None \<Rightarrow>
             (let row = r1\<lparr>res_ID := seq_reservations s, res_Version := 0\<rparr>
              in (True, row, s\<lparr>reservations := reservations s @ [row],
                               seq_reservations := Suc (seq_reservations s)\<rparr>)))"

definition UpdateStatus :: "account_reservation \<Rightarrow> account_db \<Rightarrow> go_error + account_db" where
  "UpdateStatus r s =
     (if \<exists>x \<in> set (reservations s). res_ID x = res_ID r \<and> res_Version x = res_Version r
      then Inr (s\<lparr>reservations := put_row res_ID (r\<lparr>res_Version := res_Version r + 1\<rparr>) (reservations s)\<rparr>)
      else Inl ErrOptimisticLock)"

definition DeleteSettlements :: "nat \<Rightarrow> account_db \<Rightarrow> account_db" where
  "DeleteSettlements rid s =
     s\<lparr>settlements := filter (\<lambda>t. set_ReservationID t \<noteq> rid) (settlements s)\<rparr>"

definition ListSettlements :: "nat \<Rightarrow> account_db \<Rightarrow> account_reservation_settlement list" where
  "ListSettlements rid s = filter (\<lambda>t. set_ReservationID t = rid) (settlements s)"

definition SumSettlements :: "nat \<Rightarrow> account_db \<Rightarrow> decimal" where
  "SumSettlements rid s = tsum set_Amount (ListSettlements rid s)"

text \<open>The insert of a settlement row with \<^verbatim>\<open>ON CONFLICT (order_transaction_id) DO NOTHING\<close>.\<close>

definition CreateSettlement ::
  "nat \<Rightarrow> nat \<Rightarrow> decimal \<Rightarrow> account_db \<Rightarrow> bool \<times> account_db" where
  "CreateSettlement rid txn amount s =
     (if \<exists>t \<in> set (settlements s). set_OrderTransactionID t = txn then (False, s)
      else (True, s\<lparr>settlements := settlements s @
                      [\<lparr>set_ID = seq_settlements s, set_ReservationID = rid,
                        set_OrderTransactionID = txn, set_Amount = amount\<rparr>],
                    seq_settlements := Suc (seq_settlements s)\<rparr>))"

section \<open>Service\<close>

record reserve_funds_result =
  rf_ReservationID :: nat
  rf_ReservedBalance :: decimal
  rf_AvailableBalance :: decimal

record release_result =
  rl_ReleasedAmount :: decimal
  rl_ReservedBalance :: decimal

record partial_settle_result =
  ps_SettledAmount :: decimal
  ps_RemainingReserved :: decimal
  ps_BalanceAfter :: decimal
  ps_LedgerEntryID :: nat

definition result_of :: "nat \<Rightarrow> account \<Rightarrow> reserve_funds_result" where
  "result_of rid a =
     \<lparr>rf_ReservationID = rid, rf_ReservedBalance = acc_ReservedBalance a,
      rf_AvailableBalance = acc_AvailableBalance a\<rparr>"

text \<open>The account with \<open>x\<close> moved from available to reserved.\<close>

definition hold :: "decimal \<Rightarrow> account \<Rightarrow> account" where
  "hold x a = a\<lparr>acc_ReservedBalance := acc_ReservedBalance a + x,
                acc_AvailableBalance := acc_AvailableBalance a - x\<rparr>"

text \<open>
  The branch of \<^verbatim>\<open>ReserveFunds\<close> for an existing released or settled reservation: it is
  re-activated with its original amount and its settlements are deleted.
\<close>

definition reactivate ::
  "account_reservation \<Rightarrow> account \<Rightarrow> account_db \<Rightarrow> go_error + (reserve_funds_result \<times> account_db)" where
  "reactivate existing acc s =
     (if acc_AvailableBalance acc < res_Amount existing
      then Inl (Status FailedPrecondition
                  ''insufficient available balance to re-activate reservation'')
      else let s1 = DeleteSettlements (res_ID existing) s;
               acc1 = hold (res_Amount existing) acc
           in case save_account acc1 s1 of
                Inl e \<Rightarrow> Inl e
              | Inr s2 \<Rightarrow>
                  (case UpdateStatus (existing\<lparr>res_Status := ResActive\<rparr>) s2 of
                     Inl e \<Rightarrow> Inl e
                   | Inr s3 \<Rightarrow> Inr (result_of (res_ID existing) acc1, s3)))"

definition reserve_body ::
  "nat \<Rightarrow> nat \<Rightarrow> decimal \<Rightarrow> string \<Rightarrow> string \<Rightarrow> account_db \<Rightarrow>
     go_error + (reserve_funds_result \<times> account_db)" where
  "reserve_body orderID accountID amount currencyCode orderKind s =
     (case GetByID accountID s of
        None \<Rightarrow> Inl (Status NotFound ''account not found'')
      | Some acc \<Rightarrow>
          if acc_CurrencyCode acc \<noteq> currencyCode
          then Inl (Status FailedPrecondition ''currency mismatch'')
          else if acc_AvailableBalance acc < amount
          then Inl (Status FailedPrecondition ''insufficient available balance'')
          else
            (case InsertIfAbsent
                    \<lparr>res_ID = 0, res_AccountID = acc_ID acc, res_OrderID = orderID,
                     res_OrderKind = orderKind, res_Amount = amount,
                     res_CurrencyCode = currencyCode, res_Status = ResActive,
                     res_Version = 0\<rparr> s of
               (inserted, row, s1) \<Rightarrow>
                 if \<not> inserted then
                   (if res_Status row = ResReleased \<or> res_Status row = ResSettled
                    then reactivate row acc s1
                    else Inr (result_of (res_ID row) acc, s1))
                 else
                   (let acc1 = hold amount acc
                    in case save_account acc1 s1 of
                         Inl e \<Rightarrow> Inl e
                       | Inr s2 \<Rightarrow> Inr (result_of (res_ID row) acc1, s2))))"

text \<open>\<open>acc_number_of\<close> is the account number the closure captured before the commit.\<close>

definition acc_number_of :: "nat \<Rightarrow> account_db \<Rightarrow> string" where
  "acc_number_of i s = (case GetByID i s of None \<Rightarrow> [] | Some a \<Rightarrow> acc_AccountNumber a)"

definition ReserveFunds ::
  "nat \<Rightarrow> nat \<Rightarrow> decimal \<Rightarrow> string \<Rightarrow> string \<Rightarrow> account_db \<Rightarrow>
     reserve_funds_result result \<times> account_db" where
  "ReserveFunds orderID accountID amount currencyCode orderKind s =
     (if amount \<le> 0 then (Inl (Status InvalidArgument ''amount must be > 0''), s)
      else case transaction
                  (reserve_body orderID accountID amount currencyCode (norm_kind orderKind)) s of
             (Inl e, s') \<Rightarrow> (Inl e, s')
           | (Inr out, s') \<Rightarrow>
               (Inr out, evictAccountCache accountID (acc_number_of accountID s) s'))"

text \<open>The account row after the rest of a hold went back to available.\<close>

definition unhold :: "decimal \<Rightarrow> account \<Rightarrow> account" where
  "unhold x a = a\<lparr>acc_ReservedBalance := max 0 (acc_ReservedBalance a - x),
                  acc_AvailableBalance := acc_AvailableBalance a + x\<rparr>"

definition release_body ::
  "nat \<Rightarrow> string \<Rightarrow> account_db \<Rightarrow> go_error + ((release_result \<times> nat \<times> string) \<times> account_db)" where
  "release_body orderID orderKind s =
     (let nothing = \<lparr>rl_ReleasedAmount = 0, rl_ReservedBalance = 0\<rparr>
      in case GetByOrderID orderID orderKind s of
           None \<Rightarrow> Inr ((nothing, 0, []), s)
         | Some res \<Rightarrow>
             if res_Status res \<noteq> ResActive then Inr ((nothing, 0, []), s)
             else
               (let settled = SumSettlements (res_ID res) s;
                    remaining = max 0 (res_Amount res - settled)
                in case GetByID (res_AccountID res) s of
                     None \<Rightarrow> Inl ErrRecordNotFound
                   | Some acc \<Rightarrow>
                       (let acc1 = unhold remaining acc
                        in case save_account acc1 s of
                             Inl e \<Rightarrow> Inl e
                           | Inr s1 \<Rightarrow>
                               (case UpdateStatus (res\<lparr>res_Status := ResReleased\<rparr>) s1 of
                                  Inl e \<Rightarrow> Inl e
                                | Inr s2 \<Rightarrow>
                                    Inr ((\<lparr>rl_ReleasedAmount = remaining,
                                           rl_ReservedBalance = acc_ReservedBalance acc1\<rparr>,
                                          acc_ID acc, acc_AccountNumber acc), s2)))))"

definition ReleaseReservation ::
  "nat \<Rightarrow> string \<Rightarrow> account_db \<Rightarrow> release_result result \<times> account_db" where
  "ReleaseReservation orderID orderKind s =
     (case transaction (release_body orderID orderKind) s of
        (Inl e, s') \<Rightarrow> (Inl e, s')
      | (Inr (out, accID, accNumber), s') \<Rightarrow> (Inr out, evictAccountCache accID accNumber s'))"

definition settle_account :: "decimal \<Rightarrow> account \<Rightarrow> account" where
  "settle_account x a = a\<lparr>acc_ReservedBalance := max 0 (acc_ReservedBalance a - x),
                          acc_Balance := acc_Balance a - x\<rparr>"

definition settle_ref :: "nat \<Rightarrow> nat \<Rightarrow> string" where
  "settle_ref orderID txn = ''order-'' @ itoa orderID @ ''-txn-'' @ itoa txn"

definition settle_body ::
  "saga_ctx \<Rightarrow> nat \<Rightarrow> nat \<Rightarrow> decimal \<Rightarrow> string \<Rightarrow> string \<Rightarrow> account_db \<Rightarrow>
     go_error + ((partial_settle_result \<times> nat \<times> string) \<times> account_db)" where
  "settle_body ctx orderID txn amount memo orderKind s =
     (case GetByOrderID orderID orderKind s of
        None \<Rightarrow> Inl (Status FailedPrecondition ''reservation not found'')
      | Some res \<Rightarrow>
          if res_Status res \<noteq> ResActive
          then Inl (Status FailedPrecondition ''reservation status'')
          else case GetByID (res_AccountID res) s of
             None \<Rightarrow> Inl ErrRecordNotFound
           | Some acc \<Rightarrow>
               (let settled = SumSettlements (res_ID res) s
                in if settled + amount > res_Amount res
                   then Inl (Status FailedPrecondition ''settlement would exceed reservation'')
                   else case CreateSettlement (res_ID res) txn amount s of
                     (created, s1) \<Rightarrow>
                       if \<not> created then
                         Inr ((\<lparr>ps_SettledAmount = amount,
                                ps_RemainingReserved = acc_ReservedBalance acc,
                                ps_BalanceAfter = acc_Balance acc, ps_LedgerEntryID = 0\<rparr>,
                               acc_ID acc, acc_AccountNumber acc), s1)
                       else
                         (let acc1 = settle_account amount acc
                          in case save_account acc1 s1 of
                               Inl e \<Rightarrow> Inl e
                             | Inr s2 \<Rightarrow>
                                 (case create_entry (StampSagaContext ctx
                                         \<lparr>le_ID = 0, le_AccountNumber = acc_AccountNumber acc,
                                          le_EntryType = ''debit'', le_Amount = amount,
                                          le_BalanceBefore = acc_Balance acc,
                                          le_BalanceAfter = acc_Balance acc1,
                                          le_Description = memo,
                                          le_ReferenceID = settle_ref orderID txn,
                                          le_ReferenceType = ''reservation_settlement'',
                                          le_IdempotencyKey = [], le_SagaID = None,
                                          le_SagaStep = None\<rparr>) s2 of
                                    Inl e \<Rightarrow> Inl e
                                  | Inr (entry, s3) \<Rightarrow>
                                      (case (if settled + amount = res_Amount res
                                             then UpdateStatus (res\<lparr>res_Status := ResSettled\<rparr>) s3
                                             else Inr s3) of
                                         Inl e \<Rightarrow> Inl e
                                       | Inr s4 \<Rightarrow>
                                           Inr ((\<lparr>ps_SettledAmount = amount,
                                                  ps_RemainingReserved = acc_ReservedBalance acc1,
                                                  ps_BalanceAfter = acc_Balance acc1,
                                                  ps_LedgerEntryID = le_ID entry\<rparr>,
                                                 acc_ID acc, acc_AccountNumber acc), s4))))))"

definition PartialSettleReservation ::
  "saga_ctx \<Rightarrow> nat \<Rightarrow> nat \<Rightarrow> decimal \<Rightarrow> string \<Rightarrow> string \<Rightarrow> account_db \<Rightarrow>
     partial_settle_result result \<times> account_db" where
  "PartialSettleReservation ctx orderID txn amount memo orderKind s =
     (if amount \<le> 0 then (Inl (Status InvalidArgument ''amount must be > 0''), s)
      else case transaction (settle_body ctx orderID txn amount memo orderKind) s of
             (Inl e, s') \<Rightarrow> (Inl e, s')
           | (Inr (out, accID, accNumber), s') \<Rightarrow>
               (Inr out, evictAccountCache accID accNumber s'))"

definition GetReservation ::
  "nat \<Rightarrow> string \<Rightarrow> account_db \<Rightarrow> (reservation_status \<times> decimal \<times> decimal \<times> nat list) option" where
  "GetReservation orderID orderKind s =
     (case GetByOrderID orderID orderKind s of
        None \<Rightarrow> None
      | Some res \<Rightarrow>
          (let children = ListSettlements (res_ID res) s
           in Some (res_Status res, res_Amount res,
                    foldl (\<lambda>total c. total + set_Amount c) 0 children,
                    map set_OrderTransactionID children)))"

section \<open>Lemmas on the repository\<close>

lemma norm_kind_nonempty [simp]: "norm_kind k \<noteq> []"
  by (simp add: norm_kind_def OrderKindStockOrder_def)

lemma norm_kind_idem [simp]: "norm_kind (norm_kind k) = norm_kind k"
  by (simp add: norm_kind_def OrderKindStockOrder_def)

lemma GetByOrderID_norm [simp]: "GetByOrderID oid (norm_kind k) s = GetByOrderID oid k s"
  by (simp add: GetByOrderID_def)

lemma GetByOrderIDD:
  "GetByOrderID oid k s = Some r \<Longrightarrow>
     r \<in> set (reservations s) \<and> res_OrderID r = oid \<and> res_OrderKind r = norm_kind k"
  unfolding GetByOrderID_def Let_def by (drule find_SomeD) simp

lemma GetByOrderID_NoneD:
  "GetByOrderID oid k s = None \<Longrightarrow> r \<in> set (reservations s) \<Longrightarrow>
     \<not> (res_OrderID r = oid \<and> res_OrderKind r = norm_kind k)"
  unfolding GetByOrderID_def Let_def by (drule find_NoneD) auto

lemma SumSettlements_eq: "SumSettlements rid s = settled_total (settlements s) rid"
  by (simp add: SumSettlements_def ListSettlements_def settled_total_def tsum_filter)

lemma UpdateStatus_locked:
  "x \<in> set (reservations s) \<Longrightarrow> res_ID x = res_ID r \<Longrightarrow> res_Version x = res_Version r \<Longrightarrow>
     UpdateStatus r s =
       Inr (s\<lparr>reservations := put_row res_ID (r\<lparr>res_Version := res_Version r + 1\<rparr>) (reservations s)\<rparr>)"
  by (auto simp: UpdateStatus_def)

lemma settled_total_append:
  "settled_total (ts @ [t]) i = settled_total ts i + (if set_ReservationID t = i then set_Amount t else 0)"
  by (simp add: settled_total_def)

lemma settled_total_deleted:
  "settled_total (filter (\<lambda>t. set_ReservationID t \<noteq> rid) ts) i = (if i = rid then 0 else settled_total ts i)"
  by (induction ts) (auto simp: settled_total_def)

lemma settled_total_fresh:
  "keys_ok s \<Longrightarrow> seq_reservations s \<le> i \<Longrightarrow> settled_total (settlements s) i = 0"
  unfolding settled_total_def by (rule tsum_zero) (fastforce simp: keys_ok_def)

lemma hold_rest_version [simp]: "hold_rest ts (r\<lparr>res_Version := v\<rparr>) = hold_rest ts r"
  by (simp add: hold_rest_def)

section \<open>The outcomes of the three operations\<close>

text \<open>The three state changes a successful \<^verbatim>\<open>ReserveFunds\<close> can make.\<close>

definition fresh_reservation :: "nat \<Rightarrow> nat \<Rightarrow> decimal \<Rightarrow> string \<Rightarrow> string \<Rightarrow> account_db \<Rightarrow> account_reservation" where
  "fresh_reservation oid aid amount cur kind s =
     \<lparr>res_ID = seq_reservations s, res_AccountID = aid, res_OrderID = oid,
      res_OrderKind = norm_kind kind, res_Amount = amount, res_CurrencyCode = cur,
      res_Status = ResActive, res_Version = 0\<rparr>"

definition after_reserve :: "account \<Rightarrow> decimal \<Rightarrow> account_reservation \<Rightarrow> account_db \<Rightarrow> account_db" where
  "after_reserve acc amount row s =
     s\<lparr>accounts := put_row acc_ID ((hold amount acc)\<lparr>acc_Version := acc_Version acc + 1\<rparr>) (accounts s),
       reservations := reservations s @ [row], seq_reservations := Suc (seq_reservations s)\<rparr>"

definition after_reactivate :: "account \<Rightarrow> account_reservation \<Rightarrow> account_db \<Rightarrow> account_db" where
  "after_reactivate acc r s =
     s\<lparr>settlements := filter (\<lambda>t. set_ReservationID t \<noteq> res_ID r) (settlements s),
       accounts := put_row acc_ID ((hold (res_Amount r) acc)\<lparr>acc_Version := acc_Version acc + 1\<rparr>) (accounts s),
       reservations := put_row res_ID (r\<lparr>res_Status := ResActive, res_Version := res_Version r + 1\<rparr>) (reservations s)\<rparr>"

lemma hold_sel [simp]:
  "acc_ID (hold x a) = acc_ID a" "acc_Version (hold x a) = acc_Version a"
  "acc_AccountNumber (hold x a) = acc_AccountNumber a" "acc_Balance (hold x a) = acc_Balance a"
  "acc_ReservedBalance (hold x a) = acc_ReservedBalance a + x"
  "acc_AvailableBalance (hold x a) = acc_AvailableBalance a - x"
  "acc_Deleted (hold x a) = acc_Deleted a" "acc_CurrencyCode (hold x a) = acc_CurrencyCode a"
  "acc_OwnerID (hold x a) = acc_OwnerID a" "acc_IsBankAccount (hold x a) = acc_IsBankAccount a"
  by (simp_all add: hold_def)

lemma same_row_hold [simp]: "same_row a ((hold x a)\<lparr>acc_Version := v\<rparr>)"
  by (simp add: same_row_def)

lemma reserve_body_fresh:
  assumes "GetByID aid s = Some acc" "acc_CurrencyCode acc = cur" "amount \<le> acc_AvailableBalance acc"
    and "GetByOrderID oid kind s = None"
  shows "reserve_body oid aid amount cur (norm_kind kind) s =
    Inr (result_of (seq_reservations s) (hold amount acc),
         after_reserve acc amount (fresh_reservation oid (acc_ID acc) amount cur kind s) s)"
proof -
  from GetByIDD [OF assms(1)] have acc: "acc \<in> set (accounts s)" "\<not> acc_Deleted acc" by auto
  let ?s1 = "s\<lparr>reservations := reservations s @ [fresh_reservation oid (acc_ID acc) amount cur kind s],
                seq_reservations := Suc (seq_reservations s)\<rparr>"
  have "save_account (hold amount acc) ?s1 =
      Inr (?s1\<lparr>accounts := put_row acc_ID ((hold amount acc)\<lparr>acc_Version := acc_Version acc + 1\<rparr>) (accounts s)\<rparr>)"
    using acc save_account_locked [of acc ?s1 "hold amount acc"] by simp
  with assms show ?thesis
    by (simp add: reserve_body_def InsertIfAbsent_def Let_def fresh_reservation_def after_reserve_def
        not_less)
qed

lemma reserve_body_replay:
  assumes "GetByID aid s = Some acc" "acc_CurrencyCode acc = cur" "amount \<le> acc_AvailableBalance acc"
    and "GetByOrderID oid kind s = Some r" "res_Status r = ResActive"
  shows "reserve_body oid aid amount cur (norm_kind kind) s = Inr (result_of (res_ID r) acc, s)"
  using assms by (simp add: reserve_body_def InsertIfAbsent_def Let_def not_less)

lemma reactivate_eq:
  assumes "acc \<in> set (accounts s)" "\<not> acc_Deleted acc" "r \<in> set (reservations s)"
  shows "reactivate r acc s =
    (if acc_AvailableBalance acc < res_Amount r
     then Inl (Status FailedPrecondition ''insufficient available balance to re-activate reservation'')
     else Inr (result_of (res_ID r) (hold (res_Amount r) acc), after_reactivate acc r s))"
proof -
  let ?s1 = "DeleteSettlements (res_ID r) s" and ?a = "hold (res_Amount r) acc"
  let ?s2 = "?s1\<lparr>accounts := put_row acc_ID (?a\<lparr>acc_Version := acc_Version acc + 1\<rparr>) (accounts s)\<rparr>"
  have save: "save_account ?a ?s1 = Inr ?s2"
    by (subst save_account_locked [of acc]) (use assms in \<open>simp_all add: DeleteSettlements_def\<close>)
  have upd: "UpdateStatus (r\<lparr>res_Status := ResActive\<rparr>) ?s2 = Inr (after_reactivate acc r s)"
    by (subst UpdateStatus_locked [of r])
      (use assms(3) in \<open>simp_all add: DeleteSettlements_def after_reactivate_def\<close>)
  show ?thesis by (simp only: reactivate_def Let_def save upd sum.case)
qed

lemma reserve_body_again:
  assumes "GetByID aid s = Some acc" "acc_CurrencyCode acc = cur" "amount \<le> acc_AvailableBalance acc"
    and r: "GetByOrderID oid kind s = Some r" "res_Status r \<noteq> ResActive"
  shows "reserve_body oid aid amount cur (norm_kind kind) s =
    (if acc_AvailableBalance acc < res_Amount r
     then Inl (Status FailedPrecondition ''insufficient available balance to re-activate reservation'')
     else Inr (result_of (res_ID r) (hold (res_Amount r) acc), after_reactivate acc r s))"
proof -
  have "res_Status r = ResReleased \<or> res_Status r = ResSettled"
    using r(2) by (cases "res_Status r") auto
  then have "reserve_body oid aid amount cur (norm_kind kind) s = reactivate r acc s"
    using assms by (simp add: reserve_body_def InsertIfAbsent_def Let_def not_less)
  with reactivate_eq [of acc s r] GetByIDD [OF assms(1)] GetByOrderIDD [OF r(1)]
  show ?thesis by simp
qed

text \<open>
  Every successful \<^verbatim>\<open>ReserveFunds\<close> is one of three: a fresh hold, a replay of an active
  reservation that changes nothing, or the re-activation of a closed one.
\<close>

lemma reserve_bodyE:
  assumes "reserve_body oid aid amount cur (norm_kind kind) s = Inr (out, s')"
  obtains (fresh) acc where "GetByID aid s = Some acc" "acc_CurrencyCode acc = cur"
      "amount \<le> acc_AvailableBalance acc" "GetByOrderID oid kind s = None"
      "s' = after_reserve acc amount (fresh_reservation oid (acc_ID acc) amount cur kind s) s"
      "out = result_of (seq_reservations s) (hold amount acc)"
  | (replay) acc r where "GetByID aid s = Some acc" "GetByOrderID oid kind s = Some r"
      "res_Status r = ResActive" "s' = s" "out = result_of (res_ID r) acc"
  | (again) acc r where "GetByID aid s = Some acc" "GetByOrderID oid kind s = Some r"
      "res_Status r \<noteq> ResActive" "res_Amount r \<le> acc_AvailableBalance acc"
      "s' = after_reactivate acc r s" "out = result_of (res_ID r) (hold (res_Amount r) acc)"
proof -
  from assms obtain acc where acc: "GetByID aid s = Some acc" "acc_CurrencyCode acc = cur"
      "amount \<le> acc_AvailableBalance acc"
    by (auto simp: reserve_body_def split: option.splits if_splits)
  show ?thesis
  proof (cases "GetByOrderID oid kind s")
    case None
    from reserve_body_fresh [OF acc None] assms show ?thesis by (intro fresh [OF acc None]) auto
  next
    case (Some r)
    show ?thesis
    proof (cases "res_Status r = ResActive")
      case True
      from reserve_body_replay [OF acc Some True] assms show ?thesis
        by (intro replay [OF acc(1) Some True]) auto
    next
      case False
      from reserve_body_again [OF acc Some False] assms show ?thesis
        by (intro again [OF acc(1) Some False]) (auto split: if_splits)
    qed
  qed
qed

definition after_release :: "account \<Rightarrow> account_reservation \<Rightarrow> decimal \<Rightarrow> account_db \<Rightarrow> account_db" where
  "after_release acc r x s =
     s\<lparr>accounts := put_row acc_ID ((unhold x acc)\<lparr>acc_Version := acc_Version acc + 1\<rparr>) (accounts s),
       reservations := put_row res_ID (r\<lparr>res_Status := ResReleased, res_Version := res_Version r + 1\<rparr>) (reservations s)\<rparr>"

lemma unhold_sel [simp]:
  "acc_ID (unhold x a) = acc_ID a" "acc_Version (unhold x a) = acc_Version a"
  "acc_AccountNumber (unhold x a) = acc_AccountNumber a" "acc_Balance (unhold x a) = acc_Balance a"
  "acc_ReservedBalance (unhold x a) = max 0 (acc_ReservedBalance a - x)"
  "acc_AvailableBalance (unhold x a) = acc_AvailableBalance a + x"
  "acc_Deleted (unhold x a) = acc_Deleted a" "acc_CurrencyCode (unhold x a) = acc_CurrencyCode a"
  "acc_OwnerID (unhold x a) = acc_OwnerID a" "acc_IsBankAccount (unhold x a) = acc_IsBankAccount a"
  by (simp_all add: unhold_def)

lemma settle_account_sel [simp]:
  "acc_ID (settle_account x a) = acc_ID a" "acc_Version (settle_account x a) = acc_Version a"
  "acc_AccountNumber (settle_account x a) = acc_AccountNumber a"
  "acc_Balance (settle_account x a) = acc_Balance a - x"
  "acc_ReservedBalance (settle_account x a) = max 0 (acc_ReservedBalance a - x)"
  "acc_AvailableBalance (settle_account x a) = acc_AvailableBalance a"
  "acc_Deleted (settle_account x a) = acc_Deleted a"
  "acc_CurrencyCode (settle_account x a) = acc_CurrencyCode a"
  "acc_OwnerID (settle_account x a) = acc_OwnerID a"
  "acc_IsBankAccount (settle_account x a) = acc_IsBankAccount a"
  by (simp_all add: settle_account_def)

lemma same_row_unhold [simp]: "same_row a ((unhold x a)\<lparr>acc_Version := v\<rparr>)"
  by (simp add: same_row_def)

lemma same_row_settle [simp]: "same_row a ((settle_account x a)\<lparr>acc_Version := v\<rparr>)"
  by (simp add: same_row_def)

lemma release_body_active:
  assumes r: "GetByOrderID oid kind s = Some r" "res_Status r = ResActive"
    and acc: "GetByID (res_AccountID r) s = Some acc"
    and x: "x = max 0 (res_Amount r - settled_total (settlements s) (res_ID r))"
  shows "release_body oid kind s =
    Inr ((\<lparr>rl_ReleasedAmount = x, rl_ReservedBalance = max 0 (acc_ReservedBalance acc - x)\<rparr>,
          acc_ID acc, acc_AccountNumber acc), after_release acc r x s)"
proof -
  note a = GetByIDD [OF acc] and row = GetByOrderIDD [OF r(1)]
  let ?s1 = "s\<lparr>accounts := put_row acc_ID ((unhold x acc)\<lparr>acc_Version := acc_Version acc + 1\<rparr>) (accounts s)\<rparr>"
  have save: "save_account (unhold x acc) s = Inr ?s1"
    by (subst save_account_locked [of acc]) (use a in simp_all)
  have upd: "UpdateStatus (r\<lparr>res_Status := ResReleased\<rparr>) ?s1 = Inr (after_release acc r x s)"
    by (subst UpdateStatus_locked [of r]) (use row in \<open>simp_all add: after_release_def\<close>)
  show ?thesis
    by (simp add: release_body_def Let_def r acc SumSettlements_eq x [symmetric] save upd)
qed

lemma release_body_idle:
  assumes "\<And>r. GetByOrderID oid kind s = Some r \<Longrightarrow> res_Status r \<noteq> ResActive"
  shows "release_body oid kind s =
    Inr ((\<lparr>rl_ReleasedAmount = 0, rl_ReservedBalance = 0\<rparr>, 0, []), s)"
  using assms by (auto simp: release_body_def Let_def split: option.splits)

lemma release_bodyE:
  assumes "release_body oid kind s = Inr ((out, i, n), s')"
  obtains (idle) "s' = s" "i = 0" "n = []" "rl_ReleasedAmount out = 0"
  | (released) acc r x where "GetByOrderID oid kind s = Some r" "res_Status r = ResActive"
      "GetByID (res_AccountID r) s = Some acc"
      "x = max 0 (res_Amount r - settled_total (settlements s) (res_ID r))"
      "s' = after_release acc r x s" "i = acc_ID acc" "n = acc_AccountNumber acc"
      "rl_ReleasedAmount out = x"
proof (cases "\<exists>r. GetByOrderID oid kind s = Some r \<and> res_Status r = ResActive")
  case False
  with assms release_body_idle [of oid kind s] show ?thesis by (intro idle) auto
next
  case True
  then obtain r where r: "GetByOrderID oid kind s = Some r" "res_Status r = ResActive" by blast
  with assms obtain acc where acc: "GetByID (res_AccountID r) s = Some acc"
    by (auto simp: release_body_def Let_def split: option.splits)
  from assms release_body_active [OF r acc refl] show ?thesis
    by (intro released [OF r acc refl]) auto
qed

definition settle_entry ::
  "saga_ctx \<Rightarrow> nat \<Rightarrow> nat \<Rightarrow> decimal \<Rightarrow> string \<Rightarrow> account \<Rightarrow> ledger_entry" where
  "settle_entry ctx oid txn x memo acc =
     StampSagaContext ctx
       \<lparr>le_ID = 0, le_AccountNumber = acc_AccountNumber acc, le_EntryType = ''debit'',
        le_Amount = x, le_BalanceBefore = acc_Balance acc, le_BalanceAfter = acc_Balance acc - x,
        le_Description = memo, le_ReferenceID = settle_ref oid txn,
        le_ReferenceType = ''reservation_settlement'', le_IdempotencyKey = [], le_SagaID = None,
        le_SagaStep = None\<rparr>"

text \<open>The state after a first settlement of \<open>x\<close> under transaction id \<open>txn\<close>.\<close>

definition after_settle ::
  "saga_ctx \<Rightarrow> nat \<Rightarrow> nat \<Rightarrow> decimal \<Rightarrow> string \<Rightarrow> account \<Rightarrow> account_reservation \<Rightarrow> account_db \<Rightarrow> account_db" where
  "after_settle ctx oid txn x memo acc r s =
     s\<lparr>settlements := settlements s @
         [\<lparr>set_ID = seq_settlements s, set_ReservationID = res_ID r,
           set_OrderTransactionID = txn, set_Amount = x\<rparr>],
       seq_settlements := Suc (seq_settlements s),
       accounts := put_row acc_ID ((settle_account x acc)\<lparr>acc_Version := acc_Version acc + 1\<rparr>) (accounts s),
       ledger := ledger s @ [(settle_entry ctx oid txn x memo acc)\<lparr>le_ID := seq_ledger s\<rparr>],
       seq_ledger := Suc (seq_ledger s),
       reservations :=
         (if settled_total (settlements s) (res_ID r) + x = res_Amount r
          then put_row res_ID (r\<lparr>res_Status := ResSettled, res_Version := res_Version r + 1\<rparr>) (reservations s)
          else reservations s)\<rparr>"

lemma settle_body_first:
  assumes r: "GetByOrderID oid kind s = Some r" "res_Status r = ResActive"
    and acc: "GetByID (res_AccountID r) s = Some acc"
    and fits: "settled_total (settlements s) (res_ID r) + x \<le> res_Amount r"
    and new: "\<forall>t \<in> set (settlements s). set_OrderTransactionID t \<noteq> txn"
  shows "settle_body ctx oid txn x memo kind s =
    Inr ((\<lparr>ps_SettledAmount = x, ps_RemainingReserved = max 0 (acc_ReservedBalance acc - x),
           ps_BalanceAfter = acc_Balance acc - x, ps_LedgerEntryID = seq_ledger s\<rparr>,
          acc_ID acc, acc_AccountNumber acc), after_settle ctx oid txn x memo acc r s)"
proof -
  note a = GetByIDD [OF acc] and row = GetByOrderIDD [OF r(1)]
  let ?s1 = "s\<lparr>settlements := settlements s @ [\<lparr>set_ID = seq_settlements s,
       set_ReservationID = res_ID r, set_OrderTransactionID = txn, set_Amount = x\<rparr>],
       seq_settlements := Suc (seq_settlements s)\<rparr>"
  let ?s2 = "?s1\<lparr>accounts := put_row acc_ID ((settle_account x acc)\<lparr>acc_Version := acc_Version acc + 1\<rparr>) (accounts s)\<rparr>"
  let ?e = "(settle_entry ctx oid txn x memo acc)\<lparr>le_ID := seq_ledger s\<rparr>"
  let ?s3 = "?s2\<lparr>ledger := ledger s @ [?e], seq_ledger := Suc (seq_ledger s)\<rparr>"
  have create: "CreateSettlement (res_ID r) txn x s = (True, ?s1)"
    using new by (auto simp: CreateSettlement_def)
  have save: "save_account (settle_account x acc) ?s1 = Inr ?s2"
    by (subst save_account_locked [of acc]) (use a in simp_all)
  have entry: "create_entry (settle_entry ctx oid txn x memo acc) ?s2 = Inr (?e, ?s3)"
    by (subst create_entry_no_key) (simp_all add: settle_entry_def)
  have upd: "UpdateStatus (r\<lparr>res_Status := ResSettled\<rparr>) ?s3 =
      Inr (?s3\<lparr>reservations := put_row res_ID (r\<lparr>res_Status := ResSettled, res_Version := res_Version r + 1\<rparr>) (reservations s)\<rparr>)"
    by (subst UpdateStatus_locked [of r]) (use row in simp_all)
  have fold: "StampSagaContext ctx \<lparr>le_ID = 0, le_AccountNumber = acc_AccountNumber acc,
      le_EntryType = ''debit'', le_Amount = x, le_BalanceBefore = acc_Balance acc,
      le_BalanceAfter = acc_Balance (settle_account x acc), le_Description = memo,
      le_ReferenceID = settle_ref oid txn, le_ReferenceType = ''reservation_settlement'',
      le_IdempotencyKey = [], le_SagaID = None, le_SagaStep = None\<rparr>
    = settle_entry ctx oid txn x memo acc" by (simp add: settle_entry_def)
  show ?thesis
    unfolding settle_body_def Let_def SumSettlements_eq r(1) option.case acc create prod.case fold
      save sum.case entry upd
    using fits by (simp add: r(2) not_less after_settle_def upd)
qed

lemma settle_body_replay:
  assumes "GetByOrderID oid kind s = Some r" "res_Status r = ResActive"
    and "GetByID (res_AccountID r) s = Some acc"
    and "settled_total (settlements s) (res_ID r) + x \<le> res_Amount r"
    and "\<exists>t \<in> set (settlements s). set_OrderTransactionID t = txn"
  shows "settle_body ctx oid txn x memo kind s =
    Inr ((\<lparr>ps_SettledAmount = x, ps_RemainingReserved = acc_ReservedBalance acc,
           ps_BalanceAfter = acc_Balance acc, ps_LedgerEntryID = 0\<rparr>,
          acc_ID acc, acc_AccountNumber acc), s)"
  using assms by (simp add: settle_body_def Let_def SumSettlements_eq not_less CreateSettlement_def)

lemma settle_bodyE:
  assumes "settle_body ctx oid txn x memo kind s = Inr ((out, i, n), s')"
  obtains (replay) acc where "s' = s" "GetByID i s = Some acc" "n = acc_AccountNumber acc"
      "\<exists>t \<in> set (settlements s). set_OrderTransactionID t = txn"
  | (first) acc r where "GetByOrderID oid kind s = Some r" "res_Status r = ResActive"
      "GetByID (res_AccountID r) s = Some acc"
      "settled_total (settlements s) (res_ID r) + x \<le> res_Amount r"
      "\<forall>t \<in> set (settlements s). set_OrderTransactionID t \<noteq> txn"
      "s' = after_settle ctx oid txn x memo acc r s" "i = acc_ID acc" "n = acc_AccountNumber acc"
proof -
  from assms obtain r acc where r: "GetByOrderID oid kind s = Some r" "res_Status r = ResActive"
      and acc: "GetByID (res_AccountID r) s = Some acc"
      and fits: "settled_total (settlements s) (res_ID r) + x \<le> res_Amount r"
    by (auto simp: settle_body_def Let_def SumSettlements_eq split: option.splits if_splits)
  show ?thesis
  proof (cases "\<exists>t \<in> set (settlements s). set_OrderTransactionID t = txn")
    case True
    from settle_body_replay [OF r acc fits True] assms GetByIDD [OF acc] acc show ?thesis
      by (intro replay [of acc] True) auto
  next
    case False
    then have new: "\<forall>t \<in> set (settlements s). set_OrderTransactionID t \<noteq> txn" by blast
    from settle_body_first [OF r acc fits new] assms show ?thesis
      by (intro first [OF r acc fits new]) auto
  qed
qed

end
