(* ===== verification/Reservation_Safety.thy ===== *)
theory Reservation_Safety
  imports Reservation
begin

text \<open>
  The order reservations keep the funds invariant, every ledger gap and the freshness of the read
  cache, and the functional properties of reserving, releasing and settling.
\<close>

section \<open>The funds invariant\<close>

lemma res_ok_rest: "res_ok s \<Longrightarrow> r \<in> set (reservations s) \<Longrightarrow> 0 \<le> hold_rest (settlements s) r"
  by (simp add: res_ok_def)

text \<open>The rest of an active hold is part of the reserved balance of its account.\<close>

lemma hold_rest_le_reserved:
  assumes "funds_ok s" "a \<in> set (accounts s)" "r \<in> set (reservations s)" "res_AccountID r = acc_ID a"
  shows "hold_rest (settlements s) r \<le> acc_ReservedBalance a"
proof -
  have "(if res_AccountID r = acc_ID a then hold_rest (settlements s) r else 0)
      \<le> active_holds s (acc_ID a)"
    unfolding active_holds_def
    by (rule tsum_member_le [OF _ assms(3)]) (use funds_okD(3) [OF assms(1)] in \<open>simp add: res_ok_def\<close>)
  with assms(4) funds_okD(2) [OF assms(1,2)] show ?thesis by (simp add: acct_ok_def)
qed

lemma keys_ok_fresh_reservation:
  assumes keys: "keys_ok s" and acc: "acc \<in> set (accounts s)"
    and none: "GetByOrderID oid kind s = None"
  shows "keys_ok (after_reserve acc x (fresh_reservation oid (acc_ID acc) x cur kind s) s)"
proof -
  let ?r = "fresh_reservation oid (acc_ID acc) x cur kind s"
  let ?a = "(hold x acc)\<lparr>acc_Version := acc_Version acc + 1\<rparr>"
  have k: "keys_ok (write_account ?a s)" by (rule keys_ok_write [OF keys acc same_row_hold])
  have "res_key ?r \<notin> res_key ` set (reservations s)"
    using GetByOrderID_NoneD [OF none] by (fastforce simp: res_key_def fresh_reservation_def)
  moreover have "res_ID ?r \<notin> res_ID ` set (reservations s)"
    using keys by (auto simp: keys_ok_def fresh_reservation_def)
  moreover have "acc_ID acc < seq_accounts s" using keys acc by (auto simp: keys_ok_def)
  ultimately show ?thesis
    using k by (auto simp: keys_ok_def after_reserve_def fresh_reservation_def intro: less_SucI)
qed

lemma funds_ok_after_reserve:
  assumes ok: "funds_ok s" and acc: "GetByID aid s = Some acc" and x: "0 < x"
    and none: "GetByOrderID oid kind s = None"
  shows "funds_ok (after_reserve acc x (fresh_reservation oid (acc_ID acc) x cur kind s) s)"
    (is "funds_ok ?s'")
proof -
  let ?r = "fresh_reservation oid (acc_ID acc) x cur kind s"
  from GetByIDD [OF acc] have a: "acc \<in> set (accounts s)" by simp
  have rest: "hold_rest (settlements s) ?r = x"
    using settled_total_fresh [OF funds_okD(1) [OF ok], of "seq_reservations s"]
    by (simp add: hold_rest_def fresh_reservation_def)
  have holds: "active_holds ?s' i = active_holds s i + (if i = acc_ID acc then x else 0)" for i
    using rest by (simp add: active_holds_def after_reserve_def fresh_reservation_def cong: if_cong)
  have outs: "pending_out ?s' n = pending_out s n" for n
    by (simp add: pending_out_def after_reserve_def)
  show ?thesis
  proof (rule funds_ok_one_account [OF ok a same_row_hold [where a = acc and x = x and v = "acc_Version acc + 1"]])
    show "keys_ok ?s'" by (rule keys_ok_fresh_reservation [OF funds_okD(1) [OF ok] a none])
    show "res_ok ?s'"
      using funds_okD(3) [OF ok] x rest
      by (auto simp: res_ok_def after_reserve_def) (simp add: fresh_reservation_def)
  qed (use holds outs funds_okD(2) [OF ok a] in \<open>simp_all add: acct_ok_def after_reserve_def\<close>)
qed

lemma keys_ok_one_reservation:
  assumes keys: "keys_ok s" and acc: "acc \<in> set (accounts s)" "same_row acc acc'"
    and r: "r \<in> set (reservations s)" "res_ID r' = res_ID r" "res_key r' = res_key r"
    and own: "res_AccountID r' = res_AccountID r"
    and "accounts s' = put_row acc_ID acc' (accounts s)"
      "reservations s' = put_row res_ID r' (reservations s) \<or> reservations s' = reservations s"
      "distinct (map set_OrderTransactionID (settlements s'))"
      "\<And>t. t \<in> set (settlements s') \<Longrightarrow> set_ReservationID t < seq_reservations s"
      "outgoing s' = outgoing s" "incoming s' = incoming s" "seq_accounts s' = seq_accounts s"
      "seq_reservations s' = seq_reservations s"
  shows "keys_ok s'"
proof -
  have k: "keys_ok (write_account acc' s)" by (rule keys_ok_write [OF keys acc])
  have id: "\<And>x. x \<in> set (reservations s) \<Longrightarrow> res_ID x < seq_reservations s \<and> res_AccountID x < seq_accounts s"
    using keys by (simp add: keys_ok_def)
  have "\<And>x. x \<in> set (reservations s') \<Longrightarrow> res_ID x < seq_reservations s \<and> res_AccountID x < seq_accounts s"
    using assms(9) id r(1,2) own by (auto dest!: in_put_rowD)
  with k map_res_key_put [OF keys r] assms(8-) show ?thesis
    by (auto simp: keys_ok_def)
qed

lemma settled_others_deleted:
  "res_ID x \<noteq> rid \<Longrightarrow> hold_rest (filter (\<lambda>t. set_ReservationID t \<noteq> rid) ts) x = hold_rest ts x"
  by (simp add: hold_rest_def settled_total_deleted)

lemma funds_ok_after_reactivate:
  assumes ok: "funds_ok s" and acc: "GetByID (res_AccountID r) s = Some acc"
    and r: "r \<in> set (reservations s)" "res_Status r \<noteq> ResActive"
  shows "funds_ok (after_reactivate acc r s)" (is "funds_ok ?s'")
proof -
  let ?r = "r\<lparr>res_Status := ResActive, res_Version := res_Version r + 1\<rparr>"
  note keys = funds_okD(1) [OF ok]
  from GetByIDD [OF acc] have a: "acc \<in> set (accounts s)" and id: "acc_ID acc = res_AccountID r" by auto
  have rest: "hold_rest (settlements s) r = 0" "hold_rest (settlements ?s') ?r = res_Amount r"
    using r(2) by (simp_all add: hold_rest_def after_reactivate_def settled_total_deleted)
  have others: "hold_rest (settlements ?s') x = hold_rest (settlements s) x" if "res_ID x \<noteq> res_ID r" for x
    using that by (simp add: after_reactivate_def settled_others_deleted)
  have holds: "active_holds ?s' i = active_holds s i + (if res_AccountID r = i then res_Amount r else 0)" for i
    using active_holds_change [OF keys_okD(3) [OF keys] r(1), of ?r ?s' i] others rest
    by (simp add: after_reactivate_def)
  have outs: "pending_out ?s' n = pending_out s n" for n
    by (simp add: pending_out_def after_reactivate_def)
  show ?thesis
  proof (rule funds_ok_one_account [OF ok a same_row_hold [where a = acc and x = "res_Amount r" and v = "acc_Version acc + 1"]])
    show "keys_ok ?s'"
      by (rule keys_ok_one_reservation [OF keys a same_row_hold r(1), of ?r])
        (use keys in \<open>auto simp: after_reactivate_def res_key_def keys_ok_def distinct_map inj_on_def\<close>)
    have "0 < res_Amount r" using funds_okD(3) [OF ok] r(1) by (simp add: res_ok_def)
    with rest show "res_ok ?s'"
      by (intro res_ok_change [OF funds_okD(3) [OF ok] keys_okD(3) [OF keys] r(1), of ?r])
        (auto simp: others, simp_all add: after_reactivate_def)
  qed (use holds outs id funds_okD(2) [OF ok a] in \<open>auto simp: acct_ok_def after_reactivate_def\<close>)
qed

lemma funds_ok_after_release:
  assumes ok: "funds_ok s" and acc: "GetByID (res_AccountID r) s = Some acc"
    and r: "r \<in> set (reservations s)" "res_Status r = ResActive"
    and x: "x = max 0 (res_Amount r - settled_total (settlements s) (res_ID r))"
  shows "funds_ok (after_release acc r x s)" (is "funds_ok ?s'")
proof -
  let ?r = "r\<lparr>res_Status := ResReleased, res_Version := res_Version r + 1\<rparr>"
  note keys = funds_okD(1) [OF ok]
  from GetByIDD [OF acc] have a: "acc \<in> set (accounts s)" and id: "acc_ID acc = res_AccountID r" by auto
  from res_ok_rest [OF funds_okD(3) [OF ok] r(1)] r(2) x
  have rest: "hold_rest (settlements s) r = x" by (simp add: hold_rest_def)
  have le: "x \<le> acc_ReservedBalance acc"
    using hold_rest_le_reserved [OF ok a r(1)] id rest by simp
  have new: "hold_rest (settlements ?s') ?r = 0" by (simp add: hold_rest_def)
  have st: "settlements ?s' = settlements s" by (simp add: after_release_def)
  have holds: "active_holds ?s' i = active_holds s i - (if res_AccountID r = i then x else 0)" for i
    using active_holds_change [OF keys_okD(3) [OF keys] r(1), of ?r ?s' i] rest new st
    by (simp add: after_release_def)
  have outs: "pending_out ?s' n = pending_out s n" for n
    by (simp add: pending_out_def after_release_def)
  show ?thesis
  proof (rule funds_ok_one_account [OF ok a same_row_unhold [where a = acc and x = x and v = "acc_Version acc + 1"]])
    show "keys_ok ?s'"
      by (rule keys_ok_one_reservation [OF keys a same_row_unhold r(1), of ?r])
        (use keys in \<open>auto simp: after_release_def res_key_def keys_ok_def\<close>)
    show "res_ok ?s'"
      by (rule res_ok_change [OF funds_okD(3) [OF ok] keys_okD(3) [OF keys] r(1), of ?r])
        (use new st in \<open>simp_all add: after_release_def\<close>)
  qed (use holds outs id le funds_okD(2) [OF ok a] in \<open>auto simp: acct_ok_def after_release_def\<close>)
qed

lemma put_same_reservation:
  "keys_ok s \<Longrightarrow> r \<in> set (reservations s) \<Longrightarrow> put_row res_ID r (reservations s) = reservations s"
  by (rule put_row_self) (auto dest: keys_okD)

lemma funds_ok_after_settle:
  assumes ok: "funds_ok s" and acc: "GetByID (res_AccountID r) s = Some acc" and x: "0 < x"
    and r: "r \<in> set (reservations s)" "res_Status r = ResActive"
    and fits: "settled_total (settlements s) (res_ID r) + x \<le> res_Amount r"
    and new: "\<forall>t \<in> set (settlements s). set_OrderTransactionID t \<noteq> txn"
  shows "funds_ok (after_settle ctx oid txn x memo acc r s)" (is "funds_ok ?s'")
proof -
  let ?full = "settled_total (settlements s) (res_ID r) + x = res_Amount r"
  let ?r = "if ?full then r\<lparr>res_Status := ResSettled, res_Version := res_Version r + 1\<rparr> else r"
  note keys = funds_okD(1) [OF ok]
  from GetByIDD [OF acc] have a: "acc \<in> set (accounts s)" and id: "acc_ID acc = res_AccountID r" by auto
  have le: "x \<le> acc_ReservedBalance acc"
    using hold_rest_le_reserved [OF ok a r(1)] id fits r(2) by (simp add: hold_rest_def)
  have total: "settled_total (settlements ?s') j =
      settled_total (settlements s) j + (if res_ID r = j then x else 0)" for j
    by (simp add: after_settle_def settled_total_append)
  have rows: "reservations ?s' = put_row res_ID ?r (reservations s)"
    using put_same_reservation [OF keys r(1)] by (simp add: after_settle_def)
  have others: "hold_rest (settlements ?s') y = hold_rest (settlements s) y" if "res_ID y \<noteq> res_ID r" for y
    using that total [of "res_ID y"] by (simp add: hold_rest_def)
  have rest: "hold_rest (settlements ?s') ?r = hold_rest (settlements s) r - x"
    using total [of "res_ID r"] r(2) by (auto simp: hold_rest_def)
  have holds: "active_holds ?s' i = active_holds s i - (if res_AccountID r = i then x else 0)" for i
    using active_holds_change [OF keys_okD(3) [OF keys] r(1) _ _ rows, of i] others rest by auto
  have outs: "pending_out ?s' n = pending_out s n" for n
    by (simp add: pending_out_def after_settle_def)
  show ?thesis
  proof (rule funds_ok_one_account [OF ok a same_row_settle [where a = acc and x = x and v = "acc_Version acc + 1"]])
    show "keys_ok ?s'"
      by (rule keys_ok_one_reservation [OF keys a same_row_settle r(1), of ?r])
        (use keys r(1) new rows in \<open>auto simp: after_settle_def res_key_def keys_ok_def\<close>)
    have "0 \<le> hold_rest (settlements ?s') ?r" using rest fits r(2) by (simp add: hold_rest_def)
    then show "res_ok ?s'"
      by (intro res_ok_change [OF funds_okD(3) [OF ok] keys_okD(3) [OF keys] r(1) _ _ rows])
        (use others in auto)
  qed (use holds outs id le funds_okD(2) [OF ok a] in \<open>auto simp: acct_ok_def after_settle_def\<close>)
qed

section \<open>What the operations return and leave\<close>

text \<open>
  The state each of the three leaves: the old one on an error, otherwise the committed one with
  the touched account evicted from the cache.
\<close>

lemma ReserveFundsE:
  assumes "ReserveFunds oid aid x cur kind s = (res, s')"
  obtains (error) e where "res = Inl e" "s' = s"
  | (ok) out s1 where "res = Inr out" "0 < x"
      "reserve_body oid aid x cur (norm_kind kind) s = Inr (out, s1)"
      "s' = evictAccountCache aid (acc_number_of aid s) s1"
  using assms
  by (cases rule: transaction_cases [of "reserve_body oid aid x cur (norm_kind kind)" s])
    (auto simp: ReserveFunds_def split: if_splits)

lemma ReleaseReservationE:
  assumes "ReleaseReservation oid kind s = (res, s')"
  obtains (error) e where "res = Inl e" "s' = s"
  | (ok) out i n s1 where "res = Inr out" "release_body oid kind s = Inr ((out, i, n), s1)"
      "s' = evictAccountCache i n s1"
  using assms
  by (cases rule: transaction_cases [of "release_body oid kind" s])
    (auto simp: ReleaseReservation_def split: prod.splits)

lemma PartialSettleReservationE:
  assumes "PartialSettleReservation ctx oid txn x memo kind s = (res, s')"
  obtains (error) e where "res = Inl e" "s' = s"
  | (ok) out i n s1 where "res = Inr out" "0 < x"
      "settle_body ctx oid txn x memo kind s = Inr ((out, i, n), s1)"
      "s' = evictAccountCache i n s1"
  using assms
  by (cases rule: transaction_cases [of "settle_body ctx oid txn x memo kind" s])
    (auto simp: PartialSettleReservation_def split: prod.splits if_splits)

lemma ReserveFunds_keeps:
  assumes ok: "funds_ok s" and op: "ReserveFunds oid aid x cur kind s = (res, s')"
    and own: "\<And>r. GetByOrderID oid kind s = Some r \<Longrightarrow> res_AccountID r = aid"
  shows "funds_ok s'"
  using op
proof (cases rule: ReserveFundsE)
  case error
  with ok show ?thesis by simp
next
  case (ok out s1)
  from ok(3) have "funds_ok s1"
  proof (cases rule: reserve_bodyE)
    case (fresh acc)
    with funds_ok_after_reserve [OF assms(1) fresh(1) ok(2) fresh(4)] show ?thesis by simp
  next
    case replay
    with assms(1) show ?thesis by simp
  next
    case (again acc r)
    with own [OF again(2)] funds_ok_after_reactivate [OF assms(1), of r acc] GetByOrderIDD [OF again(2)]
    show ?thesis by simp
  qed
  with ok(4) show ?thesis by simp
qed

lemma ReleaseReservation_keeps:
  assumes ok: "funds_ok s" and op: "ReleaseReservation oid kind s = (res, s')"
  shows "funds_ok s'"
  using op
proof (cases rule: ReleaseReservationE)
  case error
  with ok show ?thesis by simp
next
  case (ok out i n s1)
  from ok(2) have "funds_ok s1"
  proof (cases rule: release_bodyE)
    case idle
    with assms(1) show ?thesis by simp
  next
    case (released acc r x)
    with funds_ok_after_release [OF assms(1) released(3) _ released(2,4)] GetByOrderIDD [OF released(1)]
    show ?thesis by simp
  qed
  with ok(3) show ?thesis by simp
qed

lemma PartialSettleReservation_keeps:
  assumes ok: "funds_ok s" and op: "PartialSettleReservation ctx oid txn x memo kind s = (res, s')"
  shows "funds_ok s'"
  using op
proof (cases rule: PartialSettleReservationE)
  case error
  with ok show ?thesis by simp
next
  case (ok out i n s1)
  from ok(3) have "funds_ok s1"
  proof (cases rule: settle_bodyE)
    case replay
    with assms(1) show ?thesis by simp
  next
    case (first acc r)
    with funds_ok_after_settle [OF assms(1) first(3) ok(2) _ first(2,4,5)] GetByOrderIDD [OF first(1)]
    show ?thesis by simp
  qed
  with ok(4) show ?thesis by simp
qed

section \<open>The ledger gap and the cache\<close>

lemma entry_sign_settle [simp]: "entry_sign (settle_entry ctx oid txn x memo acc) = - x"
  by (simp add: entry_sign_def settle_entry_def)

lemma ReserveFunds_gap:
  assumes "funds_ok s" "ReserveFunds oid aid x cur kind s = (res, s')"
  shows "ledger_gap s' n = ledger_gap s n"
  using assms(2)
proof (cases rule: ReserveFundsE)
  case (ok out s1)
  note keys = funds_okD(1) [OF assms(1)]
  from ok(3) have "ledger_gap s1 n = ledger_gap s n"
  proof (cases rule: reserve_bodyE)
    case (fresh acc)
    with GetByIDD [OF fresh(1)] show ?thesis
      by (intro ledger_gap_quiet [OF keys _ same_row_hold]) (simp_all add: after_reserve_def)
  next
    case (again acc r)
    with GetByIDD [OF again(1)] show ?thesis
      by (intro ledger_gap_quiet [OF keys _ same_row_hold]) (simp_all add: after_reactivate_def)
  qed simp
  with ok(4) show ?thesis by simp
qed simp

lemma ReleaseReservation_gap:
  assumes "funds_ok s" "ReleaseReservation oid kind s = (res, s')"
  shows "ledger_gap s' n = ledger_gap s n"
  using assms(2)
proof (cases rule: ReleaseReservationE)
  case (ok out i m s1)
  note keys = funds_okD(1) [OF assms(1)]
  from ok(2) have "ledger_gap s1 n = ledger_gap s n"
  proof (cases rule: release_bodyE)
    case (released acc r x)
    with GetByIDD [OF released(3)] show ?thesis
      by (intro ledger_gap_quiet [OF keys _ same_row_unhold]) (simp_all add: after_release_def)
  qed simp
  with ok(3) show ?thesis by simp
qed simp

lemma PartialSettleReservation_gap:
  assumes "funds_ok s" "PartialSettleReservation ctx oid txn x memo kind s = (res, s')"
  shows "ledger_gap s' n = ledger_gap s n"
  using assms(2)
proof (cases rule: PartialSettleReservationE)
  case (ok out i m s1)
  note keys = funds_okD(1) [OF assms(1)]
  from ok(3) have "ledger_gap s1 n = ledger_gap s n"
  proof (cases rule: settle_bodyE)
    case (first acc r)
    with GetByIDD [OF first(3)] show ?thesis
      by (intro ledger_gap_move [OF keys _ same_row_settle,
            where e = "(settle_entry ctx oid txn x memo acc)\<lparr>le_ID := seq_ledger s\<rparr>"])
        (simp_all add: after_settle_def, simp add: settle_entry_def)
  qed simp
  with ok(4) show ?thesis by simp
qed simp

lemma ReserveFunds_cache:
  assumes "funds_ok s" "cache_fresh s" "ReserveFunds oid aid x cur kind s = (res, s')"
  shows "cache_fresh s'"
  using assms(3)
proof (cases rule: ReserveFundsE)
  case (ok out s1)
  note keys = funds_okD(1) [OF assms(1)]
  from ok(3) show ?thesis
  proof (cases rule: reserve_bodyE)
    case (fresh acc)
    with GetByIDD [OF fresh(1)] ok(4) show ?thesis
      using cache_fresh_evict_touched [OF assms(2) keys _ same_row_hold, of acc s1]
      by (simp add: acc_number_of_def after_reserve_def)
  next
    case (again acc r)
    with GetByIDD [OF again(1)] ok(4) show ?thesis
      using cache_fresh_evict_touched [OF assms(2) keys _ same_row_hold, of acc s1]
      by (simp add: acc_number_of_def after_reactivate_def)
  qed (simp add: ok(4) cache_fresh_evict assms(2))
qed (simp add: assms(2))

lemma ReleaseReservation_cache:
  assumes "funds_ok s" "cache_fresh s" "ReleaseReservation oid kind s = (res, s')"
  shows "cache_fresh s'"
  using assms(3)
proof (cases rule: ReleaseReservationE)
  case (ok out i n s1)
  note keys = funds_okD(1) [OF assms(1)]
  from ok(2) show ?thesis
  proof (cases rule: release_bodyE)
    case (released acc r x)
    with GetByIDD [OF released(3)] ok(3) show ?thesis
      using cache_fresh_evict_touched [OF assms(2) keys _ same_row_unhold, of acc s1]
      by (simp add: after_release_def)
  qed (simp add: ok(3) cache_fresh_evict assms(2))
qed (simp add: assms(2))

lemma PartialSettleReservation_cache:
  assumes "funds_ok s" "cache_fresh s" "PartialSettleReservation ctx oid txn x memo kind s = (res, s')"
  shows "cache_fresh s'"
  using assms(3)
proof (cases rule: PartialSettleReservationE)
  case (ok out i n s1)
  note keys = funds_okD(1) [OF assms(1)]
  from ok(3) show ?thesis
  proof (cases rule: settle_bodyE)
    case (first acc r)
    with GetByIDD [OF first(3)] ok(4) show ?thesis
      using cache_fresh_evict_touched [OF assms(2) keys _ same_row_settle, of acc s1]
      by (simp add: after_settle_def)
  qed (simp add: ok(4) cache_fresh_evict assms(2))
qed (simp add: assms(2))

section \<open>Lookups of reservations\<close>

lemma GetByOrderID_unique:
  assumes "keys_ok s" "r \<in> set (reservations s)" "res_OrderID r = oid" "res_OrderKind r = norm_kind kind"
  shows "GetByOrderID oid kind s = Some r"
  unfolding GetByOrderID_def Let_def
proof (rule find_unique)
  fix y assume "y \<in> set (reservations s)" "res_OrderID y = oid \<and> res_OrderKind y = norm_kind kind"
  with assms show "y = r" by (auto simp: res_key_def dest: keys_okD(4) intro: distinct_key_eq)
qed (use assms in auto)

lemma reserved_nonneg:
  assumes "funds_ok s" "a \<in> set (accounts s)"
  shows "0 \<le> acc_ReservedBalance a"
proof -
  have "0 \<le> active_holds s (acc_ID a)"
    unfolding active_holds_def
    by (rule tsum_nonneg) (use funds_okD(3) [OF assms(1)] in \<open>simp add: res_ok_def\<close>)
  with funds_okD(2) [OF assms] show ?thesis by (simp add: acct_ok_def)
qed

section \<open>Properties\<close>

text \<open>
  C10: a hold and its release cancel out. From a consistent state with enough available funds,
  \<^verbatim>\<open>ReserveFunds\<close> for a new order succeeds and takes the amount from available to reserved, and a
  following \<^verbatim>\<open>ReleaseReservation\<close> reports the whole amount as released and gives the account back
  its balance, reserved and available amounts; the reservation is then in status released.
\<close>

theorem reserve_release_roundtrip:
  assumes "funds_ok s" and acc: "GetByID aid s = Some acc" "acc_CurrencyCode acc = cur"
    and x: "0 < x" "x \<le> acc_AvailableBalance acc" and none: "GetByOrderID oid kind s = None"
    and s1: "s1 = snd (ReserveFunds oid aid x cur kind s)"
    and s2: "s2 = snd (ReleaseReservation oid kind s1)"
  shows "\<exists>a1 a2 out. GetByID aid s1 = Some a1 \<and>
       acc_AvailableBalance a1 = acc_AvailableBalance acc - x \<and>
       acc_ReservedBalance a1 = acc_ReservedBalance acc + x \<and>
       fst (ReleaseReservation oid kind s1) = Inr out \<and> rl_ReleasedAmount out = x \<and>
       GetByID aid s2 = Some a2 \<and> acc_Balance a2 = acc_Balance acc \<and>
       acc_AvailableBalance a2 = acc_AvailableBalance acc \<and>
       acc_ReservedBalance a2 = acc_ReservedBalance acc \<and>
       map_option res_Status (GetByOrderID oid kind s2) = Some ResReleased"
proof -
  let ?r = "fresh_reservation oid (acc_ID acc) x cur kind s"
  let ?t = "after_reserve acc x ?r s"
  from reserve_body_fresh [OF acc x(2) none] x(1) have s1_eq: "s1 = evictAccountCache aid (acc_number_of aid s) ?t"
    by (simp add: s1 ReserveFunds_def)
  note keys = funds_okD(1) [OF assms(1)] and m = GetByIDD [OF acc(1)]
  have ok1: "funds_ok s1" using funds_ok_after_reserve [OF assms(1) acc(1) x(1) none] s1_eq by simp
  let ?a1 = "(hold x acc)\<lparr>acc_Version := acc_Version acc + 1\<rparr>"
  have a1: "GetByID aid s1 = Some ?a1"
    using GetByID_write [OF keys acc(1) same_row_hold, of ?t] by (simp add: s1_eq after_reserve_def)
  have r1: "GetByOrderID oid kind s1 = Some ?r"
    by (rule GetByOrderID_unique [OF funds_okD(1) [OF ok1]])
      (simp_all add: s1_eq after_reserve_def fresh_reservation_def)
  have set1: "settled_total (settlements s1) (res_ID ?r) = 0"
    using settled_total_fresh [OF keys, of "seq_reservations s"]
    by (simp add: s1_eq after_reserve_def fresh_reservation_def)
  have x': "x = max 0 (res_Amount ?r - settled_total (settlements s1) (res_ID ?r))"
    using set1 x(1) by (simp add: fresh_reservation_def)
  have id: "GetByID (res_AccountID ?r) s1 = Some ?a1" using a1 m by (simp add: fresh_reservation_def)
  let ?u = "after_release ?a1 ?r x s1"
  from release_body_active [OF r1 _ id x']
  have rel: "release_body oid kind s1 = Inr ((\<lparr>rl_ReleasedAmount = x,
      rl_ReservedBalance = max 0 (acc_ReservedBalance ?a1 - x)\<rparr>, acc_ID ?a1, acc_AccountNumber ?a1), ?u)"
    by (simp add: fresh_reservation_def)
  then have s2_eq: "s2 = evictAccountCache (acc_ID ?a1) (acc_AccountNumber ?a1) ?u"
    by (simp add: s2 ReleaseReservation_def)
  have ok2: "funds_ok s2" using ReleaseReservation_keeps [OF ok1] s2 by (metis prod.collapse)
  have a2: "GetByID aid s2 = Some ((unhold x ?a1)\<lparr>acc_Version := acc_Version ?a1 + 1\<rparr>)"
    using GetByID_write [OF funds_okD(1) [OF ok1] a1 same_row_unhold, of ?u]
    by (simp add: s2_eq after_release_def)
  have "GetByOrderID oid kind s2 = Some (?r\<lparr>res_Status := ResReleased, res_Version := res_Version ?r + 1\<rparr>)"
    by (rule GetByOrderID_unique [OF funds_okD(1) [OF ok2]])
      (use GetByOrderIDD [OF r1] in \<open>auto simp: s2_eq after_release_def intro: in_put_row_new\<close>)
  with a1 a2 rel reserved_nonneg [OF assms(1), of acc] m show ?thesis
    by (simp add: ReleaseReservation_def)
qed

lemma sample_no_reservation [simp]: "GetByOrderID oid kind sample_db = None"
  by (simp add: GetByOrderID_def Let_def sample_simps)

theorem reserve_release_roundtrip_witness:
  "\<exists>a1 a2 out. GetByID 1 (snd (ReserveFunds 7 1 30 ''RSD'' [] sample_db)) = Some a1 \<and>
     acc_AvailableBalance a1 = 70 \<and> acc_ReservedBalance a1 = 30 \<and>
     fst (ReleaseReservation 7 [] (snd (ReserveFunds 7 1 30 ''RSD'' [] sample_db))) = Inr out \<and>
     rl_ReleasedAmount out = 30 \<and>
     GetByID 1 (snd (ReleaseReservation 7 [] (snd (ReserveFunds 7 1 30 ''RSD'' [] sample_db)))) = Some a2 \<and>
     acc_AvailableBalance a2 = 100"
  using reserve_release_roundtrip [OF sample_ok sample_lookup(1), of "''RSD''" 30 7 "[]"]
  by fastforce

text \<open>
  C8: the first settlement under a transaction id. On an active reservation whose rest covers the
  amount, \<^verbatim>\<open>PartialSettleReservation\<close> succeeds, takes the amount from the balance and from the
  reserved balance, leaves the available balance alone, appends exactly one debit entry with the
  balances before and after, and closes the reservation exactly when nothing is left of it.
\<close>

theorem settle_first:
  assumes "funds_ok s" and r: "GetByOrderID oid kind s = Some r" "res_Status r = ResActive"
    and acc: "GetByID (res_AccountID r) s = Some acc" and x: "0 < x"
    and fits: "SumSettlements (res_ID r) s + x \<le> res_Amount r"
    and new: "txn \<notin> set_OrderTransactionID ` set (settlements s)"
    and op: "PartialSettleReservation ctx oid txn x memo kind s = (res, s')"
  shows "\<exists>out a r' e. res = Inr out \<and> ps_BalanceAfter out = acc_Balance acc - x \<and>
     GetByID (res_AccountID r) s' = Some a \<and> acc_Balance a = acc_Balance acc - x \<and>
     acc_ReservedBalance a = acc_ReservedBalance acc - x \<and>
     acc_AvailableBalance a = acc_AvailableBalance acc \<and>
     ledger s' = ledger s @ [e] \<and> le_ID e = ps_LedgerEntryID out \<and> le_EntryType e = ''debit'' \<and>
     le_Amount e = x \<and> le_AccountNumber e = acc_AccountNumber acc \<and>
     le_BalanceBefore e - le_BalanceAfter e = x \<and>
     GetByOrderID oid kind s' = Some r' \<and>
     SumSettlements (res_ID r) s' = SumSettlements (res_ID r) s + x \<and>
     (res_Status r' = ResSettled \<longleftrightarrow> SumSettlements (res_ID r) s + x = res_Amount r)"
proof -
  let ?t = "after_settle ctx oid txn x memo acc r s"
  note keys = funds_okD(1) [OF assms(1)] and m = GetByIDD [OF acc] and row = GetByOrderIDD [OF r(1)]
  have fits': "settled_total (settlements s) (res_ID r) + x \<le> res_Amount r"
    using fits by (simp add: SumSettlements_eq)
  have "\<forall>t \<in> set (settlements s). set_OrderTransactionID t \<noteq> txn" using new by auto
  from settle_body_first [OF r acc fits' this, of ctx memo] op x
  have s': "s' = evictAccountCache (acc_ID acc) (acc_AccountNumber acc) ?t"
    and res: "res = Inr \<lparr>ps_SettledAmount = x,
        ps_RemainingReserved = max 0 (acc_ReservedBalance acc - x),
        ps_BalanceAfter = acc_Balance acc - x, ps_LedgerEntryID = seq_ledger s\<rparr>"
    by (simp_all add: PartialSettleReservation_def)
  have "x \<le> acc_ReservedBalance acc"
    using hold_rest_le_reserved [OF assms(1), of acc r] m row fits' r(2) by (simp add: hold_rest_def)
  moreover have "GetByID (res_AccountID r) s' = Some ((settle_account x acc)\<lparr>acc_Version := acc_Version acc + 1\<rparr>)"
    using GetByID_write [OF keys acc same_row_settle, of ?t] by (simp add: s' after_settle_def)
  moreover have "GetByOrderID oid kind s' = Some
      (if settled_total (settlements s) (res_ID r) + x = res_Amount r
       then r\<lparr>res_Status := ResSettled, res_Version := res_Version r + 1\<rparr> else r)"
    by (rule GetByOrderID_unique [OF funds_okD(1) [OF PartialSettleReservation_keeps [OF assms(1) op]]])
      (use row in \<open>auto simp: s' after_settle_def intro: in_put_row_new\<close>)
  ultimately show ?thesis
    using r(2)
    by (auto simp: res s' after_settle_def SumSettlements_eq settled_total_append settle_entry_def)
qed

definition sample_reserved :: account_db where
  "sample_reserved = snd (ReserveFunds 7 1 30 ''RSD'' [] sample_db)"

definition sample_reused :: account_db where
  "sample_reused =
     snd (ReserveFunds 7 2 30 ''RSD'' [] (snd (ReleaseReservation 7 [] sample_reserved)))"

lemma sample_reserved_ok: "funds_ok sample_reserved"
  unfolding sample_reserved_def
  by (rule ReserveFunds_keeps [OF sample_ok surjective_pairing]) simp

lemmas reservation_defs =
  ReserveFunds_def reserve_body_def InsertIfAbsent_def GetByOrderID_def norm_kind_def
  OrderKindStockOrder_def save_account_def hold_def transaction_def Let_def evictAccountCache_def
  acc_number_of_def result_of_def GetByID_def

lemma sample_reserved_eval:
  "GetByOrderID 7 [] sample_reserved =
     Some \<lparr>res_ID = 1, res_AccountID = 1, res_OrderID = 7, res_OrderKind = ''stock_order'',
           res_Amount = 30, res_CurrencyCode = ''RSD'', res_Status = ResActive, res_Version = 0\<rparr>"
  "GetByID 1 sample_reserved = Some ((sample_account 1 ''A'' ''RSD'' 100 False)
     \<lparr>acc_AvailableBalance := 70, acc_ReservedBalance := 30, acc_Version := 2\<rparr>)"
  "settlements sample_reserved = []"
  by (simp_all add: sample_reserved_def reservation_defs sample_simps)

theorem settle_first_witness:
  "\<exists>out a. fst (PartialSettleReservation no_saga 7 1 10 ''fill'' [] sample_reserved) = Inr out \<and>
     ps_BalanceAfter out = 90 \<and>
     GetByID 1 (snd (PartialSettleReservation no_saga 7 1 10 ''fill'' [] sample_reserved)) = Some a \<and>
     acc_Balance a = 90 \<and> acc_ReservedBalance a = 20"
  using settle_first [OF sample_reserved_ok sample_reserved_eval(1), of
      "(sample_account 1 ''A'' ''RSD'' 100 False)
         \<lparr>acc_AvailableBalance := 70, acc_ReservedBalance := 30, acc_Version := 2\<rparr>" 10 1 no_saga "''fill''",
      OF _ _ _ _ _ surjective_pairing]
  by (auto simp: sample_reserved_eval SumSettlements_def ListSettlements_def)

text \<open>
  No reservation is settled beyond its amount. Whatever the state, a settlement that together
  with the earlier ones exceeds the reserved amount, one on a missing or closed reservation and
  one of a non-positive amount are refused and change nothing, and a replay of a transaction id
  that was settled before moves no money: every table stays as it is.
\<close>

theorem settle_refused_or_replayed:
  assumes op: "PartialSettleReservation ctx oid txn x memo kind s = (res, s')"
    and bad: "x \<le> 0 \<or> GetByOrderID oid kind s = None \<or>
       (\<exists>r. GetByOrderID oid kind s = Some r \<and>
          (res_Status r \<noteq> ResActive \<or> SumSettlements (res_ID r) s + x > res_Amount r)) \<or>
       txn \<in> set_OrderTransactionID ` set (settlements s)"
  shows "accounts s' = accounts s \<and> ledger s' = ledger s \<and> reservations s' = reservations s \<and>
    settlements s' = settlements s \<and>
    (txn \<notin> set_OrderTransactionID ` set (settlements s) \<longrightarrow> (\<exists>e. res = Inl e) \<and> s' = s)"
  using op
proof (cases rule: PartialSettleReservationE)
  case (ok out i n s1)
  from ok(3) show ?thesis
  proof (cases rule: settle_bodyE)
    case replay
    with ok(4) show ?thesis by force
  next
    case (first acc r)
    with bad ok(2) show ?thesis by (auto simp: SumSettlements_eq)
  qed
qed simp

theorem settle_refused_or_replayed_witness:
  "accounts (snd (PartialSettleReservation no_saga 7 1 31 ''fill'' [] sample_reserved)) =
     accounts sample_reserved"
  using settle_refused_or_replayed [OF surjective_pairing, of 31 7 "[]" sample_reserved 1 no_saga "''fill''"]
  by (simp add: sample_reserved_eval SumSettlements_def ListSettlements_def)

text \<open>
  Repeating \<^verbatim>\<open>ReserveFunds\<close> for an active reservation. When the account still has the
  amount available the call returns the existing reservation and no row changes; when it does not,
  the call fails with a failed precondition although the funds are already held, because the
  available balance is compared before the existing reservation is looked up.
\<close>

theorem reserve_replay:
  assumes "GetByID aid s = Some acc" "acc_CurrencyCode acc = cur" "0 < x"
    and "GetByOrderID oid kind s = Some r" "res_Status r = ResActive"
    and op: "ReserveFunds oid aid x cur kind s = (res, s')"
  shows "(x \<le> acc_AvailableBalance acc \<longrightarrow>
       (\<exists>out. res = Inr out \<and> rf_ReservationID out = res_ID r) \<and> accounts s' = accounts s \<and>
       reservations s' = reservations s \<and> settlements s' = settlements s \<and> ledger s' = ledger s) \<and>
     (acc_AvailableBalance acc < x \<longrightarrow>
       res = Inl (Status FailedPrecondition ''insufficient available balance'') \<and> s' = s)"
proof (cases "x \<le> acc_AvailableBalance acc")
  case True
  from reserve_body_replay [OF assms(1,2) True assms(4,5)] op assms(3) True show ?thesis
    by (auto simp: ReserveFunds_def result_of_def)
next
  case False
  with assms have "reserve_body oid aid x cur (norm_kind kind) s =
      Inl (Status FailedPrecondition ''insufficient available balance'')"
    by (simp add: reserve_body_def)
  with op assms(3) False show ?thesis by (auto simp: ReserveFunds_def)
qed

theorem reserve_replay_witness:
  "fst (ReserveFunds 7 1 80 ''RSD'' [] sample_reserved) =
     Inl (Status FailedPrecondition ''insufficient available balance'')"
  using reserve_replay [OF sample_reserved_eval(2) _ _ sample_reserved_eval(1) _ surjective_pairing, of "''RSD''" 80]
  by simp

text \<open>
  Re-activating a closed reservation on another account breaks the funds invariant. The
  existing reservation keeps its own account, but the hold goes to the account of the call, so the
  reserved balance of the latter no longer matches its active reservations. The state is reachable:
  a hold of 30 on one account, its release, and a reserve for the same order on another account.
\<close>

theorem reactivate_other_account: "funds_ok sample_reserved \<and> \<not> funds_ok sample_reused"
proof -
  have "\<not> (\<forall>a \<in> set (accounts sample_reused). acc_ReservedBalance a = active_holds sample_reused (acc_ID a))"
    by (simp add: sample_reused_def sample_reserved_def reservation_defs ReleaseReservation_def
        release_body_def SumSettlements_def ListSettlements_def UpdateStatus_def unhold_def
        reactivate_def DeleteSettlements_def active_holds_def hold_rest_def settled_total_def sample_simps)
  with sample_reserved_ok show ?thesis by (auto simp: funds_ok_def acct_ok_def)
qed

end
