(* ===== verification/Cross_Bank_Holds.thy ===== *)
theory Cross_Bank_Holds
  imports Account_Invariants
begin

text \<open>
  Cross-bank holds of account-service: the debit side
  (\<^verbatim>\<open>service/outgoing_reservation_service.go\<close>, its repository and the timeout sweep
  \<^verbatim>\<open>outgoing_reservation_timeout_cron.go\<close>) and the credit side
  (\<^verbatim>\<open>incoming_reservation_service.go\<close> and its repository).

  Each of the settling, releasing and committing calls reads the reservation row first and then
  runs a transaction on the account with the row it has read. The transaction is a definition of
  its own (\<open>settle_out_tx\<close>, \<open>release_out_tx\<close>, \<open>commit_in_tx\<close>), so that another caller's step can
  stand between the read and the transaction.
\<close>

section \<open>Repositories\<close>

definition GetOutgoing :: "string \<Rightarrow> account_db \<Rightarrow> outgoing_reservation option" where
  "GetOutgoing key s = find (\<lambda>r. out_ReservationKey r = key) (outgoing s)"

definition CreateOutgoing ::
  "outgoing_reservation \<Rightarrow> account_db \<Rightarrow> go_error + (outgoing_reservation \<times> account_db)" where
  "CreateOutgoing r s =
     (if \<exists>x \<in> set (outgoing s). out_ReservationKey x = out_ReservationKey r
      then Inl ErrDuplicateKey
      else let row = r\<lparr>out_ID := seq_outgoing s\<rparr>
           in Inr (row, s\<lparr>outgoing := outgoing s @ [row], seq_outgoing := Suc (seq_outgoing s)\<rparr>))"

definition mark_outgoing :: "outgoing_status \<Rightarrow> string \<Rightarrow> account_db \<Rightarrow> account_db" where
  "mark_outgoing st key s =
     s\<lparr>outgoing := upd_rows (\<lambda>r. out_ReservationKey r = key \<and> out_Status r = OutPending)
                    (\<lambda>r. r\<lparr>out_Status := st\<rparr>) (outgoing s)\<rparr>"

definition MarkSettled :: "string \<Rightarrow> account_db \<Rightarrow> account_db" where
  "MarkSettled = mark_outgoing OutSettled"

definition MarkReleased :: "string \<Rightarrow> account_db \<Rightarrow> account_db" where
  "MarkReleased = mark_outgoing OutReleased"

definition ListStalePendingOlderThan :: "int \<Rightarrow> nat \<Rightarrow> account_db \<Rightarrow> outgoing_reservation list" where
  "ListStalePendingOlderThan before limit s =
     take limit (sort_key out_CreatedAt
       (filter (\<lambda>r. out_Status r = OutPending \<and> out_CreatedAt r < before) (outgoing s)))"

definition GetIncoming :: "string \<Rightarrow> account_db \<Rightarrow> incoming_reservation option" where
  "GetIncoming key s = find (\<lambda>r. inc_ReservationKey r = key) (incoming s)"

definition CreateIncoming ::
  "incoming_reservation \<Rightarrow> account_db \<Rightarrow> go_error + (incoming_reservation \<times> account_db)" where
  "CreateIncoming r s =
     (if \<exists>x \<in> set (incoming s). inc_ReservationKey x = inc_ReservationKey r
      then Inl ErrDuplicateKey
      else let row = r\<lparr>inc_ID := seq_incoming s\<rparr>
           in Inr (row, s\<lparr>incoming := incoming s @ [row], seq_incoming := Suc (seq_incoming s)\<rparr>))"

definition mark_incoming :: "incoming_status \<Rightarrow> string \<Rightarrow> account_db \<Rightarrow> account_db" where
  "mark_incoming st key s =
     s\<lparr>incoming := upd_rows (\<lambda>r. inc_ReservationKey r = key \<and> inc_Status r = IncPending)
                    (\<lambda>r. r\<lparr>inc_Status := st\<rparr>) (incoming s)\<rparr>"

section \<open>The debit side\<close>

text \<open>The limit check that \<^verbatim>\<open>ReserveOutgoing\<close> makes for client accounts.\<close>

definition out_limit_error :: "account \<Rightarrow> decimal \<Rightarrow> go_error option" where
  "out_limit_error a x =
     (if acc_IsBankAccount a then None
      else if acc_DailyLimit a \<noteq> 0 \<and> acc_DailySpending a + x > acc_DailyLimit a
      then Some (Status FailedPrecondition ''daily_spending_limit_exceeded'')
      else if acc_MonthlyLimit a \<noteq> 0 \<and> acc_MonthlySpending a + x > acc_MonthlyLimit a
      then Some (Status FailedPrecondition ''monthly_spending_limit_exceeded'')
      else None)"

definition reserve_out_tx ::
  "int \<Rightarrow> string \<Rightarrow> decimal \<Rightarrow> string \<Rightarrow> string \<Rightarrow> account_db \<Rightarrow>
     go_error + ((outgoing_reservation \<times> nat) \<times> account_db)" where
  "reserve_out_tx now accountNumber amount currency key s =
     (case GetByNumber accountNumber s of
        None \<Rightarrow> Inl (Status NotFound ''account_not_found'')
      | Some acct \<Rightarrow>
          if acc_Status acct \<noteq> ''active'' then Inl (Status FailedPrecondition ''account_inactive'')
          else if acc_CurrencyCode acct \<noteq> currency
          then Inl (Status FailedPrecondition ''currency_not_supported'')
          else case out_limit_error acct amount of
             Some e \<Rightarrow> Inl e
           | None \<Rightarrow>
               if acc_AvailableBalance acct < amount
               then Inl (Status FailedPrecondition ''insufficient available balance'')
               else
                 (case save_account (acct\<lparr>acc_AvailableBalance := acc_AvailableBalance acct - amount\<rparr>) s of
                    Inl e \<Rightarrow> Inl e
                  | Inr s1 \<Rightarrow>
                      (case CreateOutgoing
                              \<lparr>out_ID = 0, out_AccountNumber = accountNumber, out_Amount = amount,
                               out_Currency = currency, out_ReservationKey = key,
                               out_Status = OutPending, out_CreatedAt = now\<rparr> s1 of
                         Inl e \<Rightarrow> Inl e
                       | Inr (res, s2) \<Rightarrow> Inr ((res, acc_ID acct), s2))))"

definition ReserveOutgoing ::
  "int \<Rightarrow> string \<Rightarrow> decimal \<Rightarrow> string \<Rightarrow> string \<Rightarrow> account_db \<Rightarrow>
     outgoing_reservation result \<times> account_db" where
  "ReserveOutgoing now accountNumber amount currency key s =
     (if amount \<le> 0 then (Inl (Status InvalidArgument ''amount must be > 0''), s)
      else case GetOutgoing key s of
             Some existing \<Rightarrow> (Inr existing, s)
           | None \<Rightarrow>
               (case transaction (reserve_out_tx now accountNumber amount currency key) s of
                  (Inl e, s') \<Rightarrow>
                    (case GetOutgoing key s' of
                       Some existing \<Rightarrow> (Inr existing, s')
                     | None \<Rightarrow> (Inl e, s'))
                | (Inr (out, acctID), s') \<Rightarrow> (Inr out, evictAccountCache acctID accountNumber s')))"

definition out_ledger_key :: "string \<Rightarrow> string" where
  "out_ledger_key key = ''outgoing-'' @ key"

text \<open>The account row a settlement writes: the balance falls, a client's spending rises.\<close>

definition settle_out_account :: "decimal \<Rightarrow> account \<Rightarrow> account" where
  "settle_out_account x a =
     (let a1 = a\<lparr>acc_Balance := acc_Balance a - x\<rparr>
      in if acc_IsBankAccount a then a1
         else a1\<lparr>acc_DailySpending := acc_DailySpending a + x,
                 acc_MonthlySpending := acc_MonthlySpending a + x\<rparr>)"

definition settle_out_tx ::
  "outgoing_reservation \<Rightarrow> account_db \<Rightarrow> go_error + (account \<times> account_db)" where
  "settle_out_tx res s =
     (case GetByNumber (out_AccountNumber res) s of
        None \<Rightarrow> Inl ErrRecordNotFound
      | Some acct \<Rightarrow>
          (let acct1 = settle_out_account (out_Amount res) acct
           in case save_with_entry acct1
                     \<lparr>le_ID = 0, le_AccountNumber = out_AccountNumber res, le_EntryType = ''debit'',
                      le_Amount = out_Amount res, le_BalanceBefore = acc_Balance acct,
                      le_BalanceAfter = acc_Balance acct1,
                      le_Description = ''Inter-bank debit (tx='' @ out_ReservationKey res @ '')'',
                      le_ReferenceID = out_ReservationKey res,
                      le_ReferenceType = ''interbank_debit'',
                      le_IdempotencyKey = out_ledger_key (out_ReservationKey res),
                      le_SagaID = None, le_SagaStep = None\<rparr> s of
                Inl e \<Rightarrow> Inl e
              | Inr ((acct2, entry), s1) \<Rightarrow> Inr (acct2, MarkSettled (out_ReservationKey res) s1)))"

definition account_by_number :: "string \<Rightarrow> account_db \<Rightarrow> account result" where
  "account_by_number n s =
     (case GetByNumber n s of None \<Rightarrow> Inl ErrRecordNotFound | Some a \<Rightarrow> Inr a)"

definition SettleOutgoing :: "string \<Rightarrow> account_db \<Rightarrow> account result \<times> account_db" where
  "SettleOutgoing key s =
     (case GetOutgoing key s of
        None \<Rightarrow> (Inl (Status NotFound ''outgoing_reservation not found''), s)
      | Some res \<Rightarrow>
          if out_Status res = OutSettled then (account_by_number (out_AccountNumber res) s, s)
          else if out_Status res \<noteq> OutPending
          then (Inl (Status FailedPrecondition ''outgoing_reservation already closed''), s)
          else case transaction (settle_out_tx res) s of
                 (Inl e, s') \<Rightarrow> (Inl e, s')
               | (Inr outAcct, s') \<Rightarrow>
                   (Inr outAcct, evictAccountCache (acc_ID outAcct) (acc_AccountNumber outAcct) s'))"

definition release_out_tx :: "outgoing_reservation \<Rightarrow> account_db \<Rightarrow> go_error + (nat \<times> account_db)" where
  "release_out_tx res s =
     (case GetByNumber (out_AccountNumber res) s of
        None \<Rightarrow> Inl ErrRecordNotFound
      | Some acct \<Rightarrow>
          (case save_account (acct\<lparr>acc_AvailableBalance := acc_AvailableBalance acct + out_Amount res\<rparr>) s of
             Inl e \<Rightarrow> Inl e
           | Inr s1 \<Rightarrow> Inr (acc_ID acct, MarkReleased (out_ReservationKey res) s1)))"

definition ReleaseOutgoing :: "string \<Rightarrow> account_db \<Rightarrow> unit result \<times> account_db" where
  "ReleaseOutgoing key s =
     (case GetOutgoing key s of
        None \<Rightarrow> (Inl (Status NotFound ''outgoing_reservation not found''), s)
      | Some res \<Rightarrow>
          if out_Status res \<noteq> OutPending then (Inr (), s)
          else case transaction (release_out_tx res) s of
                 (Inl e, s') \<Rightarrow> (Inl e, s')
               | (Inr acctID, s') \<Rightarrow> (Inr (), evictAccountCache acctID (out_AccountNumber res) s'))"

text \<open>
  The timeout sweep: \<open>done i\<close> says whether the context is cancelled when row \<open>i\<close> of the batch is
  reached. A failed release is logged and skipped.
\<close>

fun sweep_loop ::
  "(nat \<Rightarrow> bool) \<Rightarrow> nat \<Rightarrow> outgoing_reservation list \<Rightarrow> account_db \<Rightarrow> unit result \<times> account_db" where
  "sweep_loop ctx_done i [] s = (Inr (), s)"
| "sweep_loop ctx_done i (r # rows) s =
     (if ctx_done i then (Inl CtxDone, s)
      else sweep_loop ctx_done (Suc i) rows (snd (ReleaseOutgoing (out_ReservationKey r) s)))"

definition sweep_batch :: nat where
  "sweep_batch = 200"

definition Sweep :: "(nat \<Rightarrow> bool) \<Rightarrow> int \<Rightarrow> int \<Rightarrow> account_db \<Rightarrow> unit result \<times> account_db" where
  "Sweep ctx_done now ttl s =
     sweep_loop ctx_done 0 (ListStalePendingOlderThan (now - ttl) sweep_batch s) s"

section \<open>The credit side\<close>

definition ReserveIncoming ::
  "string \<Rightarrow> decimal \<Rightarrow> string \<Rightarrow> string \<Rightarrow> account_db \<Rightarrow> incoming_reservation result \<times> account_db" where
  "ReserveIncoming accountNumber amount currency key s =
     (if amount \<le> 0 then (Inl (Status InvalidArgument ''amount must be > 0''), s)
      else case GetIncoming key s of
             Some existing \<Rightarrow> (Inr existing, s)
           | None \<Rightarrow>
               (case GetByNumber accountNumber s of
                  None \<Rightarrow> (Inl (Status NotFound ''account_not_found''), s)
                | Some acct \<Rightarrow>
                    if acc_Status acct \<noteq> ''active''
                    then (Inl (Status FailedPrecondition ''account_inactive''), s)
                    else if acc_CurrencyCode acct \<noteq> currency
                    then (Inl (Status FailedPrecondition ''currency_not_supported''), s)
                    else case CreateIncoming
                                \<lparr>inc_ID = 0, inc_AccountNumber = accountNumber, inc_Amount = amount,
                                 inc_Currency = currency, inc_ReservationKey = key,
                                 inc_Status = IncPending\<rparr> s of
                           Inl e \<Rightarrow>
                             (case GetIncoming key s of
                                Some existing \<Rightarrow> (Inr existing, s)
                              | None \<Rightarrow> (Inl e, s))
                         | Inr (res, s') \<Rightarrow> (Inr res, s')))"

definition in_ledger_key :: "string \<Rightarrow> string" where
  "in_ledger_key key = ''incoming-'' @ key"

definition credit_account :: "decimal \<Rightarrow> account \<Rightarrow> account" where
  "credit_account x a = a\<lparr>acc_Balance := acc_Balance a + x,
                          acc_AvailableBalance := acc_AvailableBalance a + x\<rparr>"

definition commit_in_tx ::
  "string \<Rightarrow> incoming_reservation \<Rightarrow> account_db \<Rightarrow> go_error + (account \<times> account_db)" where
  "commit_in_tx memo res s =
     (case GetByNumber (inc_AccountNumber res) s of
        None \<Rightarrow> Inl ErrRecordNotFound
      | Some acct \<Rightarrow>
          (let acct1 = credit_account (inc_Amount res) acct
           in case save_with_entry acct1
                     \<lparr>le_ID = 0, le_AccountNumber = inc_AccountNumber res, le_EntryType = ''credit'',
                      le_Amount = inc_Amount res, le_BalanceBefore = acc_Balance acct,
                      le_BalanceAfter = acc_Balance acct1,
                      le_Description =
                        (if memo = [] then ''Inter-bank credit (tx='' @ inc_ReservationKey res @ '')''
                         else memo),
                      le_ReferenceID = inc_ReservationKey res,
                      le_ReferenceType = ''interbank_credit'',
                      le_IdempotencyKey = in_ledger_key (inc_ReservationKey res),
                      le_SagaID = None, le_SagaStep = None\<rparr> s of
                Inl e \<Rightarrow> Inl e
              | Inr ((acct2, entry), s1) \<Rightarrow>
                  Inr (acct2, mark_incoming IncCommitted (inc_ReservationKey res) s1)))"

definition CommitIncoming :: "string \<Rightarrow> string \<Rightarrow> account_db \<Rightarrow> account result \<times> account_db" where
  "CommitIncoming key memo s =
     (case GetIncoming key s of
        None \<Rightarrow> (Inl (Status NotFound ''incoming_reservation not found''), s)
      | Some res \<Rightarrow>
          if inc_Status res = IncCommitted then (account_by_number (inc_AccountNumber res) s, s)
          else if inc_Status res \<noteq> IncPending
          then (Inl (Status FailedPrecondition ''incoming_reservation already closed''), s)
          else case transaction (commit_in_tx memo res) s of
                 (Inl e, s') \<Rightarrow> (Inl e, s')
               | (Inr out, s') \<Rightarrow>
                   (Inr out, evictAccountCache (acc_ID out) (acc_AccountNumber out) s'))"

definition ReleaseIncoming :: "string \<Rightarrow> account_db \<Rightarrow> unit result \<times> account_db" where
  "ReleaseIncoming key s =
     (case GetIncoming key s of
        None \<Rightarrow> (Inl (Status NotFound ''incoming_reservation not found''), s)
      | Some res \<Rightarrow>
          if inc_Status res \<noteq> IncPending then (Inr (), s)
          else (Inr (), mark_incoming IncReleased key s))"

end
