(* ===== verification/Cross_Bank_Safety.thy ===== *)
theory Cross_Bank_Safety
  imports Cross_Bank_Holds
begin

text \<open>
  The cross-bank holds keep the funds invariant, the ledger gaps and the cache; what each of them
  does to the account; that the sweep leaves no stale hold; and what an interleaving between the
  read of a reservation and its transaction can do.
\<close>

section \<open>Rows\<close>

lemma GetOutgoingD: "GetOutgoing k s = Some r \<Longrightarrow> r \<in> set (outgoing s) \<and> out_ReservationKey r = k"
  unfolding GetOutgoing_def by (drule find_SomeD) simp

lemma GetIncomingD: "GetIncoming k s = Some r \<Longrightarrow> r \<in> set (incoming s) \<and> inc_ReservationKey r = k"
  unfolding GetIncoming_def by (drule find_SomeD) simp

lemma GetOutgoing_mark:
  "GetOutgoing k (mark_outgoing st j s) =
     map_option (\<lambda>r. if k = j \<and> out_Status r = OutPending then r\<lparr>out_Status := st\<rparr> else r) (GetOutgoing k s)"
proof -
  have "find (\<lambda>r. out_ReservationKey r = k) (upd_rows (\<lambda>r. out_ReservationKey r = j \<and> out_Status r = OutPending)
          (\<lambda>r. r\<lparr>out_Status := st\<rparr>) xs) =
        map_option (\<lambda>r. if k = j \<and> out_Status r = OutPending then r\<lparr>out_Status := st\<rparr> else r)
          (find (\<lambda>r. out_ReservationKey r = k) xs)" for xs
    by (induction xs) auto
  then show ?thesis by (simp add: GetOutgoing_def mark_outgoing_def)
qed

lemma GetIncoming_mark:
  "GetIncoming k (mark_incoming st j s) =
     map_option (\<lambda>r. if k = j \<and> inc_Status r = IncPending then r\<lparr>inc_Status := st\<rparr> else r) (GetIncoming k s)"
proof -
  have "find (\<lambda>r. inc_ReservationKey r = k) (upd_rows (\<lambda>r. inc_ReservationKey r = j \<and> inc_Status r = IncPending)
          (\<lambda>r. r\<lparr>inc_Status := st\<rparr>) xs) =
        map_option (\<lambda>r. if k = j \<and> inc_Status r = IncPending then r\<lparr>inc_Status := st\<rparr> else r)
          (find (\<lambda>r. inc_ReservationKey r = k) xs)" for xs
    by (induction xs) auto
  then show ?thesis by (simp add: GetIncoming_def mark_incoming_def)
qed

lemma mark_tables [simp]:
  "accounts (mark_outgoing st k s) = accounts s" "ledger (mark_outgoing st k s) = ledger s"
  "reservations (mark_outgoing st k s) = reservations s"
  "settlements (mark_outgoing st k s) = settlements s" "incoming (mark_outgoing st k s) = incoming s"
  "seq_accounts (mark_outgoing st k s) = seq_accounts s"
  "seq_reservations (mark_outgoing st k s) = seq_reservations s"
  "cache_id (mark_outgoing st k s) = cache_id s" "cache_num (mark_outgoing st k s) = cache_num s"
  "map out_ReservationKey (outgoing (mark_outgoing st k s)) = map out_ReservationKey (outgoing s)"
  "accounts (mark_incoming st' k s) = accounts s" "ledger (mark_incoming st' k s) = ledger s"
  "reservations (mark_incoming st' k s) = reservations s" "outgoing (mark_incoming st' k s) = outgoing s"
  "settlements (mark_incoming st' k s) = settlements s"
  "seq_accounts (mark_incoming st' k s) = seq_accounts s"
  "seq_reservations (mark_incoming st' k s) = seq_reservations s"
  "cache_id (mark_incoming st' k s) = cache_id s" "cache_num (mark_incoming st' k s) = cache_num s"
  "map inc_ReservationKey (incoming (mark_incoming st' k s)) = map inc_ReservationKey (incoming s)"
  by (simp_all add: mark_outgoing_def mark_incoming_def map_upd_rows)

lemma mark_numbers [simp]:
  "map out_AccountNumber (outgoing (mark_outgoing st k s)) = map out_AccountNumber (outgoing s)"
  by (simp add: mark_outgoing_def map_upd_rows)

lemma keys_ok_mark [simp]:
  "keys_ok (mark_outgoing st k s) = keys_ok s" "keys_ok (mark_incoming st' k s) = keys_ok s"
  by (simp_all add: keys_ok_def)

lemma res_ok_mark [simp]: "res_ok (mark_outgoing st k s) = res_ok s"
  by (simp add: res_ok_def)

lemma active_holds_mark [simp]: "active_holds (mark_outgoing st k s) i = active_holds s i"
  by (simp add: active_holds_def cong: if_cong)

lemma lookup_mark [simp]:
  "GetByNumber n (mark_outgoing st k s) = GetByNumber n s"
  "GetByNumber n (mark_incoming st' k s) = GetByNumber n s"
  by (simp_all add: GetByNumber_def)

lemma funds_ok_mark_incoming [simp]: "funds_ok (mark_incoming st k s) = funds_ok s"
  by (simp add: funds_ok_def res_ok_def acct_ok_def active_holds_def pending_out_def cong: if_cong)

text \<open>Closing a pending hold takes exactly its amount out of the pending total of its account.\<close>

lemma pending_out_mark:
  assumes "keys_ok s" "r \<in> set (outgoing s)" "out_Status r = OutPending" "st \<noteq> OutPending"
  shows "pending_out (mark_outgoing st (out_ReservationKey r) s) n =
     pending_out s n - (if out_AccountNumber r = n then out_Amount r else 0)"
proof -
  have "y = r" if "y \<in> set (outgoing s)" "out_ReservationKey y = out_ReservationKey r" for y
    using that assms(1,2) by (auto dest: keys_okD(6) intro: distinct_key_eq)
  then have "out_ReservationKey y = out_ReservationKey r \<and> out_Status y = OutPending \<longleftrightarrow>
      out_ReservationKey y = out_ReservationKey r" if "y \<in> set (outgoing s)" for y
    using that assms(3) by metis
  note one = tsum_upd_rows_one [OF keys_okD(6) [OF assms(1)] assms(2) this]
  show ?thesis using assms(3,4) by (simp add: one pending_out_def mark_outgoing_def)
qed

section \<open>The outcomes\<close>

definition held_account :: "decimal \<Rightarrow> account \<Rightarrow> account" where
  "held_account x a = a\<lparr>acc_AvailableBalance := acc_AvailableBalance a - x, acc_Version := acc_Version a + 1\<rparr>"

definition out_row :: "int \<Rightarrow> string \<Rightarrow> decimal \<Rightarrow> string \<Rightarrow> string \<Rightarrow> account_db \<Rightarrow> outgoing_reservation" where
  "out_row now n x cur key s =
     \<lparr>out_ID = seq_outgoing s, out_AccountNumber = n, out_Amount = x, out_Currency = cur,
      out_ReservationKey = key, out_Status = OutPending, out_CreatedAt = now\<rparr>"

definition after_reserve_out :: "account \<Rightarrow> outgoing_reservation \<Rightarrow> account_db \<Rightarrow> account_db" where
  "after_reserve_out a r s =
     s\<lparr>accounts := put_row acc_ID (held_account (out_Amount r) a) (accounts s),
       outgoing := outgoing s @ [r], seq_outgoing := Suc (seq_outgoing s)\<rparr>"

lemma same_row_held [simp]: "same_row a (held_account x a)"
  by (simp add: same_row_def held_account_def)

lemma reserve_out_tx_ok:
  assumes a: "GetByNumber n s = Some a" "acc_Status a = ''active''" "acc_CurrencyCode a = cur"
    and x: "out_limit_error a x = None" "x \<le> acc_AvailableBalance a" and none: "GetOutgoing key s = None"
  shows "reserve_out_tx now n x cur key s =
    Inr ((out_row now n x cur key s, acc_ID a), after_reserve_out a (out_row now n x cur key s) s)"
proof -
  note m = GetByNumberD [OF a(1)]
  have "save_account (a\<lparr>acc_AvailableBalance := acc_AvailableBalance a - x\<rparr>) s =
      Inr (s\<lparr>accounts := put_row acc_ID (held_account x a) (accounts s)\<rparr>)"
    by (subst save_account_locked [of a]) (use m in \<open>simp_all add: held_account_def\<close>)
  moreover have "\<not> (\<exists>y \<in> set (outgoing s). out_ReservationKey y = key)"
    using none by (auto simp: GetOutgoing_def find_None_iff)
  ultimately show ?thesis
    using assms
    by (simp add: reserve_out_tx_def CreateOutgoing_def Let_def out_row_def after_reserve_out_def not_less)
qed

lemma reserve_out_txE:
  assumes "reserve_out_tx now n x cur key s = Inr ((r, i), s')" "GetOutgoing key s = None"
  obtains a where "GetByNumber n s = Some a" "x \<le> acc_AvailableBalance a" "out_limit_error a x = None"
    "r = out_row now n x cur key s" "i = acc_ID a" "s' = after_reserve_out a r s"
proof -
  from assms obtain a where a: "GetByNumber n s = Some a" "acc_Status a = ''active''"
      "acc_CurrencyCode a = cur" "out_limit_error a x = None" "x \<le> acc_AvailableBalance a"
    by (auto simp: reserve_out_tx_def split: option.splits if_splits)
  from reserve_out_tx_ok [OF a assms(2)] assms(1) show ?thesis
    by (intro that [OF a(1) a(5) a(4)]) auto
qed

lemma ReserveOutgoingE:
  assumes "ReserveOutgoing now n x cur key s = (res, s')"
  obtains (same) "s' = s"
  | (held) a r where "0 < x" "GetOutgoing key s = None" "GetByNumber n s = Some a"
      "x \<le> acc_AvailableBalance a" "out_limit_error a x = None" "r = out_row now n x cur key s"
      "res = Inr r" "s' = evictAccountCache (acc_ID a) n (after_reserve_out a r s)"
proof (cases "0 < x \<and> GetOutgoing key s = None \<and> (\<exists>p. reserve_out_tx now n x cur key s = Inr p)")
  case True
  then obtain r i s1 where t: "reserve_out_tx now n x cur key s = Inr ((r, i), s1)"
    and g: "0 < x" "GetOutgoing key s = None" by auto
  from t g(2) show ?thesis
    by (rule reserve_out_txE) (use g t assms in \<open>auto simp: ReserveOutgoing_def intro!: held\<close>)
next
  case False
  with assms show ?thesis
    by (intro same)
      (cases rule: transaction_cases [of "reserve_out_tx now n x cur key" s],
       auto simp: ReserveOutgoing_def split: if_splits option.splits)
qed

lemma settle_out_account_sel [simp]:
  "acc_ID (settle_out_account x a) = acc_ID a" "acc_Version (settle_out_account x a) = acc_Version a"
  "acc_AccountNumber (settle_out_account x a) = acc_AccountNumber a"
  "acc_Balance (settle_out_account x a) = acc_Balance a - x"
  "acc_AvailableBalance (settle_out_account x a) = acc_AvailableBalance a"
  "acc_ReservedBalance (settle_out_account x a) = acc_ReservedBalance a"
  "same_row a (settle_out_account x a)"
  by (simp_all add: settle_out_account_def Let_def same_row_def)

lemma credit_account_sel [simp]:
  "acc_ID (credit_account x a) = acc_ID a" "acc_Version (credit_account x a) = acc_Version a"
  "acc_AccountNumber (credit_account x a) = acc_AccountNumber a"
  "acc_Balance (credit_account x a) = acc_Balance a + x"
  "acc_AvailableBalance (credit_account x a) = acc_AvailableBalance a + x"
  "acc_ReservedBalance (credit_account x a) = acc_ReservedBalance a"
  "same_row a (credit_account x a)"
  by (simp_all add: credit_account_def same_row_def)

definition out_entry :: "outgoing_reservation \<Rightarrow> account \<Rightarrow> ledger_entry" where
  "out_entry r a =
     \<lparr>le_ID = 0, le_AccountNumber = out_AccountNumber r, le_EntryType = ''debit'',
      le_Amount = out_Amount r, le_BalanceBefore = acc_Balance a,
      le_BalanceAfter = acc_Balance a - out_Amount r,
      le_Description = ''Inter-bank debit (tx='' @ out_ReservationKey r @ '')'',
      le_ReferenceID = out_ReservationKey r, le_ReferenceType = ''interbank_debit'',
      le_IdempotencyKey = out_ledger_key (out_ReservationKey r), le_SagaID = None, le_SagaStep = None\<rparr>"

definition in_entry :: "string \<Rightarrow> incoming_reservation \<Rightarrow> account \<Rightarrow> ledger_entry" where
  "in_entry memo r a =
     \<lparr>le_ID = 0, le_AccountNumber = inc_AccountNumber r, le_EntryType = ''credit'',
      le_Amount = inc_Amount r, le_BalanceBefore = acc_Balance a,
      le_BalanceAfter = acc_Balance a + inc_Amount r,
      le_Description = (if memo = [] then ''Inter-bank credit (tx='' @ inc_ReservationKey r @ '')'' else memo),
      le_ReferenceID = inc_ReservationKey r, le_ReferenceType = ''interbank_credit'',
      le_IdempotencyKey = in_ledger_key (inc_ReservationKey r), le_SagaID = None, le_SagaStep = None\<rparr>"

lemma ledger_keys_nonempty [simp]: "out_ledger_key k \<noteq> []" "in_ledger_key k \<noteq> []"
  by (simp_all add: out_ledger_key_def in_ledger_key_def)

lemma settle_out_tx_eq:
  "settle_out_tx r s =
     (case GetByNumber (out_AccountNumber r) s of
        None \<Rightarrow> Inl ErrRecordNotFound
      | Some a \<Rightarrow>
          (case save_with_entry (settle_out_account (out_Amount r) a) (out_entry r a) s of
             Inl e \<Rightarrow> Inl e
           | Inr ((b, e), s1) \<Rightarrow> Inr (b, mark_outgoing OutSettled (out_ReservationKey r) s1)))"
  unfolding settle_out_tx_def MarkSettled_def
  by (cases "GetByNumber (out_AccountNumber r) s") (simp_all add: Let_def out_entry_def)

lemma commit_in_tx_eq:
  "commit_in_tx memo r s =
     (case GetByNumber (inc_AccountNumber r) s of
        None \<Rightarrow> Inl ErrRecordNotFound
      | Some a \<Rightarrow>
          (case save_with_entry (credit_account (inc_Amount r) a) (in_entry memo r a) s of
             Inl e \<Rightarrow> Inl e
           | Inr ((b, e), s1) \<Rightarrow> Inr (b, mark_incoming IncCommitted (inc_ReservationKey r) s1)))"
  unfolding commit_in_tx_def
  by (cases "GetByNumber (inc_AccountNumber r) s") (simp_all add: Let_def in_entry_def)

text \<open>A successful settlement, release or commit.\<close>

lemma SettleOutgoingE:
  assumes "SettleOutgoing key s = (res, s')"
  obtains (same) "s' = s"
  | (settled) r a b e s1 where "GetOutgoing key s = Some r" "out_Status r = OutPending"
      "GetByNumber (out_AccountNumber r) s = Some a"
      "save_with_entry (settle_out_account (out_Amount r) a) (out_entry r a) s = Inr ((b, e), s1)"
      "res = Inr b"
      "s' = evictAccountCache (acc_ID a) (acc_AccountNumber a) (mark_outgoing OutSettled key s1)"
proof (cases "GetOutgoing key s")
  case None
  with assms same show ?thesis by (simp add: SettleOutgoing_def)
next
  case (Some r)
  note k = GetOutgoingD [OF Some]
  show ?thesis
  proof (cases rule: transaction_cases [of "settle_out_tx r" s])
    case rollback
    with Some assms same show ?thesis by (auto simp: SettleOutgoing_def split: if_splits)
  next
    case (commit b s2)
    show ?thesis
    proof (cases "out_Status r = OutPending")
      case False
      with Some assms same show ?thesis by (auto simp: SettleOutgoing_def split: if_splits)
    next
      case True
      from commit(1) obtain a e s1 where a: "GetByNumber (out_AccountNumber r) s = Some a"
        and w: "save_with_entry (settle_out_account (out_Amount r) a) (out_entry r a) s = Inr ((b, e), s1)"
        and s2: "s2 = mark_outgoing OutSettled (out_ReservationKey r) s1"
        by (auto simp: settle_out_tx_eq split: option.splits sum.splits)
      from assms Some True commit(2) save_with_entryE(1) [OF w] s2 k show ?thesis
        by (intro settled [OF Some True a w]) (auto simp: SettleOutgoing_def)
    qed
  qed
qed

definition freed_account :: "decimal \<Rightarrow> account \<Rightarrow> account" where
  "freed_account x a = a\<lparr>acc_AvailableBalance := acc_AvailableBalance a + x, acc_Version := acc_Version a + 1\<rparr>"

lemma same_row_freed [simp]: "same_row a (freed_account x a)"
  by (simp add: same_row_def freed_account_def)

lemma release_out_tx_eq:
  "release_out_tx r s =
     (case GetByNumber (out_AccountNumber r) s of
        None \<Rightarrow> Inl ErrRecordNotFound
      | Some a \<Rightarrow> Inr (acc_ID a, mark_outgoing OutReleased (out_ReservationKey r)
                        (s\<lparr>accounts := put_row acc_ID (freed_account (out_Amount r) a) (accounts s)\<rparr>)))"
proof (cases "GetByNumber (out_AccountNumber r) s")
  case None
  then show ?thesis by (simp add: release_out_tx_def)
next
  case (Some a)
  note m = GetByNumberD [OF Some]
  have "save_account (a\<lparr>acc_AvailableBalance := acc_AvailableBalance a + out_Amount r\<rparr>) s =
      Inr (s\<lparr>accounts := put_row acc_ID (freed_account (out_Amount r) a) (accounts s)\<rparr>)"
    by (subst save_account_locked [of a]) (use m in \<open>simp_all add: freed_account_def\<close>)
  with Some show ?thesis by (simp add: release_out_tx_def MarkReleased_def)
qed

lemma ReleaseOutgoingE:
  assumes "ReleaseOutgoing key s = (res, s')"
  obtains (same) "s' = s"
  | (released) r a where "GetOutgoing key s = Some r" "out_Status r = OutPending"
      "GetByNumber (out_AccountNumber r) s = Some a" "res = Inr ()"
      "s' = evictAccountCache (acc_ID a) (acc_AccountNumber a) (mark_outgoing OutReleased key
              (s\<lparr>accounts := put_row acc_ID (freed_account (out_Amount r) a) (accounts s)\<rparr>))"
proof (cases "GetOutgoing key s")
  case None
  with assms same show ?thesis by (simp add: ReleaseOutgoing_def)
next
  case (Some r)
  note k = GetOutgoingD [OF Some]
  show ?thesis
  proof (cases "out_Status r = OutPending \<and> GetByNumber (out_AccountNumber r) s \<noteq> None")
    case False
    with Some assms same show ?thesis
      by (auto simp: ReleaseOutgoing_def release_out_tx_eq split: if_splits)
  next
    case True
    then obtain a where a: "GetByNumber (out_AccountNumber r) s = Some a" and p: "out_Status r = OutPending" by auto
    with assms Some k GetByNumberD [OF a] show ?thesis
      by (intro released [OF Some p a]) (auto simp: ReleaseOutgoing_def release_out_tx_eq)
  qed
qed

lemma CommitIncomingE:
  assumes "CommitIncoming key memo s = (res, s')"
  obtains (same) "s' = s"
  | (committed) r a b e s1 where "GetIncoming key s = Some r" "inc_Status r = IncPending"
      "GetByNumber (inc_AccountNumber r) s = Some a"
      "save_with_entry (credit_account (inc_Amount r) a) (in_entry memo r a) s = Inr ((b, e), s1)"
      "res = Inr b"
      "s' = evictAccountCache (acc_ID a) (acc_AccountNumber a) (mark_incoming IncCommitted key s1)"
proof (cases "GetIncoming key s")
  case None
  with assms same show ?thesis by (simp add: CommitIncoming_def)
next
  case (Some r)
  note k = GetIncomingD [OF Some]
  show ?thesis
  proof (cases rule: transaction_cases [of "commit_in_tx memo r" s])
    case rollback
    with Some assms same show ?thesis by (auto simp: CommitIncoming_def split: if_splits)
  next
    case (commit b s2)
    show ?thesis
    proof (cases "inc_Status r = IncPending")
      case False
      with Some assms same show ?thesis by (auto simp: CommitIncoming_def split: if_splits)
    next
      case True
      from commit(1) obtain a e s1 where a: "GetByNumber (inc_AccountNumber r) s = Some a"
        and w: "save_with_entry (credit_account (inc_Amount r) a) (in_entry memo r a) s = Inr ((b, e), s1)"
        and s2: "s2 = mark_incoming IncCommitted (inc_ReservationKey r) s1"
        by (auto simp: commit_in_tx_eq split: option.splits sum.splits)
      from assms Some True commit(2) save_with_entryE(1) [OF w] s2 k show ?thesis
        by (intro committed [OF Some True a w]) (auto simp: CommitIncoming_def)
    qed
  qed
qed

section \<open>The invariants\<close>

lemma pending_out_append:
  "outgoing s' = outgoing s @ [r] \<Longrightarrow>
     pending_out s' n = pending_out s n +
       (if out_AccountNumber r = n \<and> out_Status r = OutPending then out_Amount r else 0)"
  by (simp add: pending_out_def)

lemma funds_ok_after_reserve_out:
  assumes ok: "funds_ok s" and a: "GetByNumber n s = Some a" and none: "GetOutgoing key s = None"
  shows "funds_ok (after_reserve_out a (out_row now n x cur key s) s)" (is "funds_ok ?s'")
proof -
  note keys = funds_okD(1) [OF ok]
  from GetByNumberD [OF a] have m: "a \<in> set (accounts s)" "acc_AccountNumber a = n" by auto
  have "keys_ok (write_account (held_account x a) s)" by (rule keys_ok_write [OF keys m(1) same_row_held])
  moreover have "key \<notin> out_ReservationKey ` set (outgoing s)"
    using none by (auto simp: GetOutgoing_def find_None_iff)
  moreover have "n \<in> acc_AccountNumber ` set (accounts s)" using m by force
  ultimately have k: "keys_ok ?s'"
    using map_number_put [OF keys m(1) same_row_held, of x]
    by (simp add: keys_ok_def after_reserve_out_def out_row_def holds_known_def)
  have outs: "pending_out ?s' m = pending_out s m + (if n = m then x else 0)" for m
    by (simp add: after_reserve_out_def pending_out_append [of _ s] out_row_def)
  have holds: "active_holds ?s' i = active_holds s i" for i
    by (simp add: active_holds_def after_reserve_out_def cong: if_cong)
  show ?thesis
  proof (rule funds_ok_one_account [OF ok m(1) same_row_held [of a x] _ k])
    show "res_ok ?s'" using funds_okD(3) [OF ok] by (simp add: res_ok_def after_reserve_out_def)
    show "acct_ok ?s' (held_account x a)"
      using funds_okD(2) [OF ok m(1)] m(2) by (simp add: acct_ok_def outs holds held_account_def)
  qed (use outs holds m in \<open>auto simp: after_reserve_out_def out_row_def\<close>)
qed

text \<open>Closing a hold while the account row gives its amount back or pays it out.\<close>

lemma funds_ok_close_out:
  assumes ok: "funds_ok s" and a: "a \<in> set (accounts s)" and row: "same_row a b"
    and r: "r \<in> set (outgoing s)" "out_Status r = OutPending" "out_AccountNumber r = acc_AccountNumber a"
    and st: "st \<noteq> OutPending"
    and reserved: "acc_ReservedBalance b = acc_ReservedBalance a"
    and move: "acc_AvailableBalance b - acc_AvailableBalance a =
        acc_Balance b - acc_Balance a + out_Amount r"
    and s1: "accounts s1 = put_row acc_ID b (accounts s)" "reservations s1 = reservations s"
      "settlements s1 = settlements s" "outgoing s1 = outgoing s" "incoming s1 = incoming s"
      "seq_accounts s1 = seq_accounts s" "seq_reservations s1 = seq_reservations s"
  shows "funds_ok (mark_outgoing st (out_ReservationKey r) s1)" (is "funds_ok ?s'")
proof -
  note keys = funds_okD(1) [OF ok]
  have "keys_ok (write_account b s)" by (rule keys_ok_write [OF keys a row])
  then have k1: "keys_ok s1" by (simp add: keys_ok_def s1)
  have "pending_out s1 n = pending_out s n" for n by (simp add: pending_out_def s1)
  with pending_out_mark [OF k1 _ r(2) st] r(1) s1(4)
  have outs: "pending_out ?s' n = pending_out s n - (if out_AccountNumber r = n then out_Amount r else 0)" for n
    by simp
  have holds: "active_holds s1 i = active_holds s i" for i
    by (simp add: active_holds_def s1 cong: if_cong)
  show ?thesis
  proof (rule funds_ok_one_account [OF ok a row])
    show "res_ok ?s'" using funds_okD(3) [OF ok] by (simp add: res_ok_def s1)
    show "acct_ok ?s' b"
      using funds_okD(2) [OF ok a] row r(3) reserved move
      by (simp add: acct_ok_def outs holds same_row_def algebra_simps)
  qed (use k1 s1 outs holds r(3) in auto)
qed

lemma ReserveOutgoing_keeps:
  assumes "funds_ok s" "ReserveOutgoing now n x cur key s = (res, s')"
  shows "funds_ok s' \<and> ledger_gap s' m = ledger_gap s m \<and> (cache_fresh s \<longrightarrow> cache_fresh s')"
  using assms(2)
proof (cases rule: ReserveOutgoingE)
  case (held a r)
  note keys = funds_okD(1) [OF assms(1)]
  from GetByNumberD [OF held(3)] have a: "a \<in> set (accounts s)" "acc_AccountNumber a = n" by auto
  have gap: "ledger_gap (after_reserve_out a r s) m = ledger_gap s m"
    by (rule ledger_gap_quiet [OF keys a(1) same_row_held])
      (simp_all add: after_reserve_out_def held_account_def)
  have "cache_fresh s \<Longrightarrow> cache_fresh s'"
    using cache_fresh_evict_touched [OF _ keys a(1) same_row_held [of a x], of "after_reserve_out a r s"]
    by (simp add: held(6,8) a(2) after_reserve_out_def out_row_def)
  with gap held funds_ok_after_reserve_out [OF assms(1) held(3,2)] show ?thesis by simp
qed (use assms(1) in simp)

lemma SettleOutgoing_keeps:
  assumes "funds_ok s" "SettleOutgoing key s = (res, s')"
  shows "funds_ok s' \<and> ledger_gap s' m = ledger_gap s m \<and> (cache_fresh s \<longrightarrow> cache_fresh s')"
  using assms(2)
proof (cases rule: SettleOutgoingE)
  case (settled r a b e s1)
  note keys = funds_okD(1) [OF assms(1)] and w = save_with_entryE [OF settled(4)]
  from GetOutgoingD [OF settled(1)] have r: "r \<in> set (outgoing s)" "out_ReservationKey r = key" by auto
  from GetByNumberD [OF settled(3)] have a: "a \<in> set (accounts s)" "out_AccountNumber r = acc_AccountNumber a" by auto
  have "funds_ok (mark_outgoing OutSettled (out_ReservationKey r) s1)"
    by (rule funds_ok_close_out [OF assms(1) a(1) _ r(1) settled(2) a(2), of b])
      (simp_all add: w)
  moreover have "ledger_gap s1 m = ledger_gap s m"
    by (rule save_with_entry_gap [OF keys a(1) _ _ _ settled(4)])
      (simp_all add: out_entry_def a(2) entry_sign_def)
  moreover have "cache_fresh s'" if "cache_fresh s"
    using save_with_entry_cache [OF that keys a(1) _ settled(4)]
    unfolding settled(6) by (rule cache_fresh_evict_frame) simp_all
  ultimately show ?thesis by (simp add: settled(6) r(2) ledger_gap_frame [of "mark_outgoing _ _ s1" s1])
qed (use assms(1) in simp)

lemma ReleaseOutgoing_keeps:
  assumes "funds_ok s" "ReleaseOutgoing key s = (res, s')"
  shows "funds_ok s' \<and> ledger_gap s' m = ledger_gap s m \<and> (cache_fresh s \<longrightarrow> cache_fresh s')"
  using assms(2)
proof (cases rule: ReleaseOutgoingE)
  case (released r a)
  note keys = funds_okD(1) [OF assms(1)]
  let ?s1 = "s\<lparr>accounts := put_row acc_ID (freed_account (out_Amount r) a) (accounts s)\<rparr>"
  from GetOutgoingD [OF released(1)] have r: "r \<in> set (outgoing s)" "out_ReservationKey r = key" by auto
  from GetByNumberD [OF released(3)] have a: "a \<in> set (accounts s)" "out_AccountNumber r = acc_AccountNumber a" by auto
  have "funds_ok (mark_outgoing OutReleased (out_ReservationKey r) ?s1)"
    by (rule funds_ok_close_out [OF assms(1) a(1) same_row_freed r(1) released(2) a(2)])
      (simp_all add: freed_account_def)
  moreover have "ledger_gap (mark_outgoing OutReleased key ?s1) m = ledger_gap s m"
    by (rule ledger_gap_quiet [OF keys a(1) same_row_freed]) (simp_all add: freed_account_def)
  moreover have "cache_fresh s'" if "cache_fresh s"
    using cache_fresh_evict_touched [OF that keys a(1) same_row_freed, of "mark_outgoing OutReleased key ?s1"]
    by (simp add: released(5))
  ultimately show ?thesis by (simp add: released(5) r(2))
qed (use assms(1) in simp)

lemma CommitIncoming_keeps:
  assumes "funds_ok s" "CommitIncoming key memo s = (res, s')"
  shows "funds_ok s' \<and> ledger_gap s' m = ledger_gap s m \<and> (cache_fresh s \<longrightarrow> cache_fresh s')"
  using assms(2)
proof (cases rule: CommitIncomingE)
  case (committed r a b e s1)
  note keys = funds_okD(1) [OF assms(1)] and w = save_with_entryE [OF committed(4)]
  from GetByNumberD [OF committed(3)] have a: "a \<in> set (accounts s)" "inc_AccountNumber r = acc_AccountNumber a" by auto
  have "funds_ok s1" by (rule save_with_entry_keeps [OF assms(1) a(1) _ _ _ committed(4)]) simp_all
  moreover have "ledger_gap s1 m = ledger_gap s m"
    by (rule save_with_entry_gap [OF keys a(1) _ _ _ committed(4)])
      (simp_all add: in_entry_def a(2) entry_sign_def)
  moreover have "cache_fresh s'" if "cache_fresh s"
    using save_with_entry_cache [OF that keys a(1) _ committed(4)]
    unfolding committed(6) by (rule cache_fresh_evict_frame) simp_all
  ultimately show ?thesis by (simp add: committed(6) ledger_gap_frame [of "mark_incoming _ _ s1" s1])
qed (use assms(1) in simp)

lemma ReserveIncoming_keeps:
  assumes "funds_ok s" "ReserveIncoming n x cur key s = (res, s')"
  shows "funds_ok s' \<and> accounts s' = accounts s \<and> ledger s' = ledger s \<and>
     cache_id s' = cache_id s \<and> cache_num s' = cache_num s"
proof -
  have "key \<notin> inc_ReservationKey ` set (incoming s)" if "GetIncoming key s = None"
    using that by (auto simp: GetIncoming_def find_None_iff)
  with assms show ?thesis
    by (auto simp: ReserveIncoming_def CreateIncoming_def Let_def funds_ok_def keys_ok_def res_ok_def
        acct_ok_def active_holds_def pending_out_def split: if_splits option.splits cong: if_cong)
qed

lemma ReleaseIncoming_keeps:
  assumes "funds_ok s" "ReleaseIncoming key s = (res, s')"
  shows "funds_ok s' \<and> accounts s' = accounts s \<and> ledger s' = ledger s \<and>
     cache_id s' = cache_id s \<and> cache_num s' = cache_num s"
  using assms by (auto simp: ReleaseIncoming_def split: if_splits option.splits)

lemma sweep_loop_keeps:
  assumes "funds_ok s" "sweep_loop ctx_done i rows s = (res, s')"
  shows "funds_ok s' \<and> ledger_gap s' m = ledger_gap s m \<and> (cache_fresh s \<longrightarrow> cache_fresh s')"
  using assms
proof (induction ctx_done i rows s arbitrary: res s' rule: sweep_loop.induct)
  case (2 ctx_done i r rows s)
  obtain u t where rel: "ReleaseOutgoing (out_ReservationKey r) s = (u, t)" by fastforce
  from ReleaseOutgoing_keeps [OF 2(2) rel] 2 rel show ?case by (auto split: if_splits)
qed simp

section \<open>Lookups after the operations\<close>

lemma GetOutgoing_evict [simp]: "GetOutgoing k (evictAccountCache i n s) = GetOutgoing k s"
  by (simp add: GetOutgoing_def)

lemma GetIncoming_evict [simp]: "GetIncoming k (evictAccountCache i n s) = GetIncoming k s"
  by (simp add: GetIncoming_def)

lemma reserve_out_lookup:
  assumes ok: "funds_ok s" and a: "GetByNumber n s = Some a" "acc_Status a = ''active''" "acc_CurrencyCode a = cur"
    and x: "0 < x" "out_limit_error a x = None" "x \<le> acc_AvailableBalance a"
    and none: "GetOutgoing key s = None"
    and s1: "s1 = snd (ReserveOutgoing now n x cur key s)"
  shows "funds_ok s1" "GetByNumber n s1 = Some (held_account x a)" "ledger s1 = ledger s"
    "GetOutgoing key s1 = Some (out_row now n x cur key s)"
    "fst (ReserveOutgoing now n x cur key s) = Inr (out_row now n x cur key s)"
proof -
  let ?r = "out_row now n x cur key s"
  have eq: "ReserveOutgoing now n x cur key s = (Inr ?r, evictAccountCache (acc_ID a) n (after_reserve_out a ?r s))"
    using x none by (simp add: ReserveOutgoing_def reserve_out_tx_ok [OF a x(2,3) none])
  from GetByNumberD [OF a(1)] have m: "a \<in> set (accounts s)" "\<not> acc_Deleted a" "acc_AccountNumber a = n" by auto
  from s1 eq funds_ok_after_reserve_out [OF ok a(1) none] show "funds_ok s1" by simp
  from s1 eq show "GetByNumber n s1 = Some (held_account x a)"
    using GetByNumber_write [OF funds_okD(1) [OF ok] m(1,2) same_row_held, of "after_reserve_out a ?r s"] m(3)
    by (simp add: after_reserve_out_def out_row_def)
  show "ledger s1 = ledger s" by (simp add: s1 eq after_reserve_out_def)
  show "GetOutgoing key s1 = Some ?r"
    using none by (simp add: s1 eq) (simp add: GetOutgoing_def after_reserve_out_def out_row_def)
  show "fst (ReserveOutgoing now n x cur key s) = Inr ?r" by (simp add: eq)
qed

lemma held_account_sel [simp]:
  "acc_ID (held_account x a) = acc_ID a" "acc_AccountNumber (held_account x a) = acc_AccountNumber a"
  "acc_Balance (held_account x a) = acc_Balance a" "acc_ReservedBalance (held_account x a) = acc_ReservedBalance a"
  "acc_AvailableBalance (held_account x a) = acc_AvailableBalance a - x"
  by (simp_all add: held_account_def)

lemma settle_out_lookup:
  assumes ok: "funds_ok s" and r: "GetOutgoing key s = Some r" "out_Status r = OutPending"
    and a: "GetByNumber (out_AccountNumber r) s = Some a"
    and new: "out_ledger_key key \<notin> le_IdempotencyKey ` set (ledger s)"
    and b: "b = (settle_out_account (out_Amount r) a)\<lparr>acc_Version := acc_Version a + 1\<rparr>"
  shows "fst (SettleOutgoing key s) = Inr b"
    "GetByNumber (out_AccountNumber r) (snd (SettleOutgoing key s)) = Some b"
    "GetOutgoing key (snd (SettleOutgoing key s)) = Some (r\<lparr>out_Status := OutSettled\<rparr>)"
    "ledger (snd (SettleOutgoing key s)) = ledger s @ [(out_entry r a)\<lparr>le_ID := seq_ledger s\<rparr>]"
proof -
  from GetByNumberD [OF a] have m: "a \<in> set (accounts s)" "\<not> acc_Deleted a"
    "acc_AccountNumber a = out_AccountNumber r" by auto
  note k = GetOutgoingD [OF r(1)]
  let ?e = "(out_entry r a)\<lparr>le_ID := seq_ledger s\<rparr>"
  let ?t = "s\<lparr>accounts := put_row acc_ID b (accounts s), ledger := ledger s @ [?e], seq_ledger := Suc (seq_ledger s)\<rparr>"
  have w: "save_with_entry (settle_out_account (out_Amount r) a) (out_entry r a) s = Inr ((b, ?e), ?t)"
    using save_with_entry_ok [OF m(1,2), of "settle_out_account (out_Amount r) a" "out_entry r a"] new k b
    by (force simp: Let_def out_entry_def)
  have op: "SettleOutgoing key s =
      (Inr b, evictAccountCache (acc_ID b) (acc_AccountNumber b) (mark_outgoing OutSettled key ?t))"
    using a w k by (simp add: SettleOutgoing_def r settle_out_tx_eq)
  show "fst (SettleOutgoing key s) = Inr b" by (simp add: op)
  show "GetByNumber (out_AccountNumber r) (snd (SettleOutgoing key s)) = Some b"
    using GetByNumber_write [OF funds_okD(1) [OF ok] m(1,2), of b ?t] m(3) b by (simp add: op)
  have "GetOutgoing key ?t = Some r" using r(1) by (simp add: GetOutgoing_def)
  then show "GetOutgoing key (snd (SettleOutgoing key s)) = Some (r\<lparr>out_Status := OutSettled\<rparr>)"
    by (simp add: op GetOutgoing_mark r(2))
  show "ledger (snd (SettleOutgoing key s)) = ledger s @ [?e]" by (simp add: op)
qed

section \<open>Properties\<close>

text \<open>
  C9: a cross-bank hold that is settled is a clean debit. With the amount available and the limits
  kept, \<^verbatim>\<open>ReserveOutgoing\<close> takes the amount from the available balance only, and \<^verbatim>\<open>SettleOutgoing\<close>
  takes it from the balance and writes one debit entry under the key of the reservation; the
  reserved balance never moves, the row ends in status settled, and settling or releasing it again
  changes nothing.
\<close>

theorem outgoing_reserve_settle:
  assumes ok: "funds_ok s" and a: "GetByNumber n s = Some a" "acc_Status a = ''active''" "acc_CurrencyCode a = cur"
    and x: "0 < x" "out_limit_error a x = None" "x \<le> acc_AvailableBalance a"
    and none: "GetOutgoing key s = None"
    and new: "out_ledger_key key \<notin> le_IdempotencyKey ` set (ledger s)"
    and s1: "s1 = snd (ReserveOutgoing now n x cur key s)" and s2: "s2 = snd (SettleOutgoing key s1)"
  shows "\<exists>b e. fst (SettleOutgoing key s1) = Inr b \<and> GetByNumber n s2 = Some b \<and>
     acc_Balance b = acc_Balance a - x \<and> acc_AvailableBalance b = acc_AvailableBalance a - x \<and>
     acc_ReservedBalance b = acc_ReservedBalance a \<and>
     ledger s2 = ledger s @ [e] \<and> le_EntryType e = ''debit'' \<and> le_Amount e = x \<and>
     le_IdempotencyKey e = out_ledger_key key \<and>
     map_option out_Status (GetOutgoing key s2) = Some OutSettled \<and>
     snd (SettleOutgoing key s2) = s2 \<and> snd (ReleaseOutgoing key s2) = s2"
proof -
  note l = reserve_out_lookup [OF ok a x none s1]
  have "out_Status (out_row now n x cur key s) = OutPending"
    "GetByNumber (out_AccountNumber (out_row now n x cur key s)) s1 = Some (held_account x a)"
    using l(2) by (simp_all add: out_row_def)
  note r = settle_out_lookup [OF l(1) l(4) this _ refl, folded s2]
  have "out_ledger_key key \<notin> le_IdempotencyKey ` set (ledger s1)" using new l(3) by simp
  note r = r [OF this]
  have "snd (SettleOutgoing key s2) = s2" "snd (ReleaseOutgoing key s2) = s2"
    by (simp_all add: SettleOutgoing_def ReleaseOutgoing_def r(3))
  with r l(3) show ?thesis by (simp add: out_entry_def out_row_def)
qed

lemma sample_no_hold [simp]: "GetOutgoing key sample_db = None" "ledger sample_db = []"
  by (simp_all add: GetOutgoing_def sample_simps)

lemma sample_hold_ok:
  "acc_Status (sample_account 1 ''A'' ''RSD'' 100 False) = ''active''"
  "out_limit_error (sample_account 1 ''A'' ''RSD'' 100 False) 30 = None"
  by (simp_all add: sample_account_def out_limit_error_def)

theorem outgoing_reserve_settle_witness:
  "\<exists>b. fst (SettleOutgoing ''k'' (snd (ReserveOutgoing 0 ''A'' 30 ''RSD'' ''k'' sample_db))) = Inr b \<and>
     acc_Balance b = 70 \<and> acc_AvailableBalance b = 70"
  using outgoing_reserve_settle [OF sample_ok sample_lookup(2) sample_hold_ok(1) _ _ sample_hold_ok(2),
      of "''RSD''" "''k''" _ 0 _, OF _ _ _ _ _ refl refl]
  by auto

text \<open>
  A cross-bank hold that is released leaves no trace on the funds. After \<^verbatim>\<open>ReserveOutgoing\<close> and
  \<^verbatim>\<open>ReleaseOutgoing\<close> the account has its balance, available and reserved amounts of before, the
  ledger is unchanged, the row is released, and releasing it again or trying to settle it changes
  nothing, the settlement being refused.
\<close>

theorem outgoing_reserve_release:
  assumes ok: "funds_ok s" and a: "GetByNumber n s = Some a" "acc_Status a = ''active''" "acc_CurrencyCode a = cur"
    and x: "0 < x" "out_limit_error a x = None" "x \<le> acc_AvailableBalance a"
    and none: "GetOutgoing key s = None"
    and s1: "s1 = snd (ReserveOutgoing now n x cur key s)" and s2: "s2 = snd (ReleaseOutgoing key s1)"
  shows "\<exists>b. fst (ReleaseOutgoing key s1) = Inr () \<and> GetByNumber n s2 = Some b \<and>
     acc_Balance b = acc_Balance a \<and> acc_AvailableBalance b = acc_AvailableBalance a \<and>
     acc_ReservedBalance b = acc_ReservedBalance a \<and> ledger s2 = ledger s \<and>
     map_option out_Status (GetOutgoing key s2) = Some OutReleased \<and>
     ReleaseOutgoing key s2 = (Inr (), s2) \<and>
     (\<exists>e. SettleOutgoing key s2 = (Inl (Status FailedPrecondition e), s2))"
proof -
  let ?r = "out_row now n x cur key s" and ?a = "held_account x a"
  note l = reserve_out_lookup [OF ok a x none s1]
  from GetByNumberD [OF l(2)] have m: "?a \<in> set (accounts s1)" "\<not> acc_Deleted ?a" "acc_AccountNumber a = n" by auto
  let ?b = "freed_account x ?a"
  let ?t = "s1\<lparr>accounts := put_row acc_ID ?b (accounts s1)\<rparr>"
  have op: "ReleaseOutgoing key s1 =
      (Inr (), evictAccountCache (acc_ID a) n (mark_outgoing OutReleased key ?t))"
    using l(2) by (simp add: ReleaseOutgoing_def l(4) release_out_tx_eq out_row_def)
  have b: "GetByNumber n s2 = Some ?b"
    using GetByNumber_write [OF funds_okD(1) [OF l(1)] m(1,2) same_row_freed, of ?t] m(3) by (simp add: s2 op)
  have "GetOutgoing key ?t = Some ?r" using l(4) by (simp add: GetOutgoing_def)
  then have out: "GetOutgoing key s2 = Some (?r\<lparr>out_Status := OutReleased\<rparr>)"
    by (simp add: s2 op GetOutgoing_mark out_row_def)
  have "ReleaseOutgoing key s2 = (Inr (), s2)" "\<exists>e. SettleOutgoing key s2 = (Inl (Status FailedPrecondition e), s2)"
    by (simp_all add: SettleOutgoing_def ReleaseOutgoing_def out)
  with b out op s2 l(3) show ?thesis by (simp add: freed_account_def)
qed

theorem outgoing_reserve_release_witness:
  "\<exists>b. GetByNumber ''A'' (snd (ReleaseOutgoing ''k'' (snd (ReserveOutgoing 0 ''A'' 30 ''RSD'' ''k'' sample_db)))) = Some b \<and>
     acc_AvailableBalance b = 100"
  using outgoing_reserve_release [OF sample_ok sample_lookup(2) sample_hold_ok(1) _ _ sample_hold_ok(2),
      of "''RSD''" "''k''" _ 0 _, OF _ _ _ _ refl refl]
  by auto

text \<open>
  The timeout release can undo a settlement. When a release has read the reservation as
  pending and the settlement of the same reservation commits before the release's transaction, the
  transaction still gives the amount back to the available balance: the account has been debited
  and shows the money as spendable, and the funds invariant is broken.
\<close>

theorem stale_release_after_settle:
  assumes ok: "funds_ok s" and r: "GetOutgoing key s = Some r" "out_Status r = OutPending"
    and a: "GetByNumber (out_AccountNumber r) s = Some a"
    and new: "out_ledger_key key \<notin> le_IdempotencyKey ` set (ledger s)" and x: "out_Amount r \<noteq> 0"
    and s1: "s1 = snd (SettleOutgoing key s)" and s2: "s2 = snd (transaction (release_out_tx r) s1)"
  shows "\<exists>b. GetByNumber (out_AccountNumber r) s2 = Some b \<and>
     acc_Balance b = acc_Balance a - out_Amount r \<and>
     acc_AvailableBalance b = acc_AvailableBalance a + out_Amount r \<and>
     map_option out_Status (GetOutgoing key s2) = Some OutSettled \<and> \<not> funds_ok s2"
proof -
  note k = GetOutgoingD [OF r(1)]
  let ?b = "(settle_out_account (out_Amount r) a)\<lparr>acc_Version := acc_Version a + 1\<rparr>"
  let ?c = "freed_account (out_Amount r) ?b"
  note l = settle_out_lookup [OF ok r a new refl, folded s1]
  have ok1: "funds_ok s1" using SettleOutgoing_keeps [OF ok] s1 by (metis prod.collapse)
  from GetByNumberD [OF l(2)] have m: "?b \<in> set (accounts s1)" "\<not> acc_Deleted ?b"
    "acc_AccountNumber ?b = out_AccountNumber r" by auto
  let ?t = "s1\<lparr>accounts := put_row acc_ID ?c (accounts s1)\<rparr>"
  have s2_eq: "s2 = mark_outgoing OutReleased key ?t"
    using l(2) k by (simp add: s2 transaction_def release_out_tx_eq)
  have c: "GetByNumber (out_AccountNumber r) s2 = Some ?c"
    using GetByNumber_write [OF funds_okD(1) [OF ok1] m(1,2) same_row_freed, of ?t] m(3) by (simp add: s2_eq)
  have "GetOutgoing key ?t = Some (r\<lparr>out_Status := OutSettled\<rparr>)" using l(3) by (simp add: GetOutgoing_def)
  then have out: "GetOutgoing key s2 = Some (r\<lparr>out_Status := OutSettled\<rparr>)" by (simp add: s2_eq GetOutgoing_mark)
  have keys1: "keys_ok ?t" using keys_ok_write [OF funds_okD(1) [OF ok1] m(1) same_row_freed, of "out_Amount r"]
    by (simp add: write_account_def)
  have "y = r\<lparr>out_Status := OutSettled\<rparr>" if "y \<in> set (outgoing s1)" "out_ReservationKey y = key" for y
    using that GetOutgoingD [OF l(3)] funds_okD(1) [OF ok1]
    by (auto dest: keys_okD(6) intro: distinct_key_eq)
  then have "out_Status y \<noteq> OutPending" if "y \<in> set (outgoing s1)" "out_ReservationKey y = key" for y
    using that by fastforce
  then have "outgoing s2 = outgoing s1"
    unfolding s2_eq mark_outgoing_def upd_rows_def by (simp, intro map_idI) auto
  then have outs: "pending_out s2 m = pending_out s1 m" for m by (simp add: pending_out_def)
  have "\<not> acct_ok s2 ?c"
  proof
    assume "acct_ok s2 ?c"
    moreover have "acct_ok s1 ?b" using funds_okD(2) [OF ok1 m(1)] .
    ultimately show False using x by (simp add: acct_ok_def outs freed_account_def)
  qed
  moreover have "?c \<in> set (accounts s2)" using GetByNumberD [OF c] by simp
  ultimately have "\<not> funds_ok s2" using funds_okD(2) by blast
  with c out show ?thesis by (simp add: freed_account_def)
qed

definition sample_held :: account_db where
  "sample_held = snd (ReserveOutgoing 0 ''A'' 30 ''RSD'' ''k'' sample_db)"

lemma sample_held_eval:
  "funds_ok sample_held" "GetOutgoing ''k'' sample_held = Some (out_row 0 ''A'' 30 ''RSD'' ''k'' sample_db)"
  "GetByNumber ''A'' sample_held = Some (held_account 30 (sample_account 1 ''A'' ''RSD'' 100 False))"
  "ledger sample_held = []"
  using reserve_out_lookup [OF sample_ok sample_lookup(2) sample_hold_ok(1) _ _ sample_hold_ok(2), of "''RSD''" "''k''" _ 0,
      OF _ _ _ _ sample_held_def]
  by simp_all

theorem stale_release_after_settle_witness:
  "\<not> funds_ok (snd (transaction (release_out_tx (out_row 0 ''A'' 30 ''RSD'' ''k'' sample_db))
      (snd (SettleOutgoing ''k'' sample_held))))"
  using stale_release_after_settle [OF sample_held_eval(1,2) _ _ _ _ refl refl] sample_held_eval(3,4)
  by (auto simp: out_row_def)

text \<open>
  C13: an incoming transfer is credited once. \<^verbatim>\<open>CommitIncoming\<close> on a pending reservation adds its
  amount to the balance and the available balance and writes one credit entry; a second call
  returns the account and changes nothing; and a concurrent call that still read the row as
  pending is rolled back by the unique ledger key.
\<close>

theorem incoming_commit_once:
  assumes ok: "funds_ok s" and r: "GetIncoming key s = Some r" "inc_Status r = IncPending"
    and a: "GetByNumber (inc_AccountNumber r) s = Some a"
    and new: "in_ledger_key key \<notin> le_IdempotencyKey ` set (ledger s)"
    and s1: "s1 = snd (CommitIncoming key memo s)"
  shows "\<exists>b e. fst (CommitIncoming key memo s) = Inr b \<and> GetByNumber (inc_AccountNumber r) s1 = Some b \<and>
     acc_Balance b = acc_Balance a + inc_Amount r \<and>
     acc_AvailableBalance b = acc_AvailableBalance a + inc_Amount r \<and>
     ledger s1 = ledger s @ [e] \<and> le_EntryType e = ''credit'' \<and> le_Amount e = inc_Amount r \<and>
     CommitIncoming key memo' s1 = (Inr b, s1) \<and>
     transaction (commit_in_tx memo' r) s1 = (Inl ErrDuplicateKey, s1)"
proof -
  from GetByNumberD [OF a] have m: "a \<in> set (accounts s)" "\<not> acc_Deleted a"
    "acc_AccountNumber a = inc_AccountNumber r" by auto
  note k = GetIncomingD [OF r(1)]
  let ?b = "(credit_account (inc_Amount r) a)\<lparr>acc_Version := acc_Version a + 1\<rparr>"
  let ?e = "(in_entry memo r a)\<lparr>le_ID := seq_ledger s\<rparr>"
  let ?t = "s\<lparr>accounts := put_row acc_ID ?b (accounts s), ledger := ledger s @ [?e], seq_ledger := Suc (seq_ledger s)\<rparr>"
  have w: "save_with_entry (credit_account (inc_Amount r) a) (in_entry memo r a) s = Inr ((?b, ?e), ?t)"
    using save_with_entry_ok [OF m(1,2), of "credit_account (inc_Amount r) a" "in_entry memo r a"] new k
    by (force simp: Let_def in_entry_def)
  have op: "CommitIncoming key memo s =
      (Inr ?b, evictAccountCache (acc_ID ?b) (acc_AccountNumber ?b) (mark_incoming IncCommitted key ?t))"
    using a w k by (simp add: CommitIncoming_def r commit_in_tx_eq)
  have b: "GetByNumber (inc_AccountNumber r) s1 = Some ?b"
    using GetByNumber_write [OF funds_okD(1) [OF ok] m(1,2), of ?b ?t] m(3) by (simp add: s1 op)
  have "GetIncoming key ?t = Some r" using r(1) by (simp add: GetIncoming_def)
  then have inc: "GetIncoming key s1 = Some (r\<lparr>inc_Status := IncCommitted\<rparr>)"
    by (simp add: s1 op GetIncoming_mark r(2))
  note mb = GetByNumberD [OF b]
  have "save_with_entry (credit_account (inc_Amount r) ?b) (in_entry memo' r ?b) s1 = Inl ErrDuplicateKey"
    by (rule save_with_entry_dup [of ?b]) (use mb k in \<open>simp_all add: s1 op in_entry_def\<close>)
  then have "transaction (commit_in_tx memo' r) s1 = (Inl ErrDuplicateKey, s1)"
    by (simp add: commit_in_tx_eq b)
  moreover have "CommitIncoming key memo' s1 = (Inr ?b, s1)"
    using b by (simp add: CommitIncoming_def inc account_by_number_def)
  ultimately show ?thesis using b by (simp add: op s1 in_entry_def)
qed

definition sample_incoming :: account_db where
  "sample_incoming = snd (ReserveIncoming ''A'' 20 ''RSD'' ''t1'' sample_db)"

lemma sample_incoming_eval:
  "funds_ok sample_incoming" "ledger sample_incoming = []"
  "GetIncoming ''t1'' sample_incoming = Some \<lparr>inc_ID = 1, inc_AccountNumber = ''A'', inc_Amount = 20,
     inc_Currency = ''RSD'', inc_ReservationKey = ''t1'', inc_Status = IncPending\<rparr>"
  "GetByNumber ''A'' sample_incoming = Some (sample_account 1 ''A'' ''RSD'' 100 False)"
  using ReserveIncoming_keeps [OF sample_ok, of "''A''" 20 "''RSD''" "''t1''" _ sample_incoming]
  by (auto simp: sample_incoming_def ReserveIncoming_def GetIncoming_def GetByNumber_def CreateIncoming_def
      Let_def sample_simps)

theorem incoming_commit_once_witness:
  "\<exists>b. fst (CommitIncoming ''t1'' [] sample_incoming) = Inr b \<and> acc_Balance b = 120 \<and>
     CommitIncoming ''t1'' [] (snd (CommitIncoming ''t1'' [] sample_incoming)) =
       (Inr b, snd (CommitIncoming ''t1'' [] sample_incoming))"
  using incoming_commit_once [OF sample_incoming_eval(1,3) _ _ _ refl, of _ "[]" "[]"] sample_incoming_eval(2,4)
  by auto

section \<open>The sweep\<close>

definition accounts_there :: "string set \<Rightarrow> account_db \<Rightarrow> bool" where
  "accounts_there K s \<longleftrightarrow>
     (\<forall>y \<in> set (outgoing s). out_ReservationKey y \<in> K \<longrightarrow> GetByNumber (out_AccountNumber y) s \<noteq> None)"

lemma release_step:
  assumes ok: "funds_ok s" and there: "accounts_there K s" and k: "k \<in> K"
    and s1: "s1 = snd (ReleaseOutgoing k s)"
  shows "accounts_there K s1"
    and "\<And>y. y \<in> set (outgoing s1) \<Longrightarrow> out_Status y = OutPending \<Longrightarrow>
           y \<in> set (outgoing s) \<and> out_ReservationKey y \<noteq> k"
proof -
  have op: "ReleaseOutgoing k s = (fst (ReleaseOutgoing k s), s1)" by (simp add: s1)
  have "accounts_there K s1 \<and> (\<forall>y \<in> set (outgoing s1). out_Status y = OutPending \<longrightarrow>
           y \<in> set (outgoing s) \<and> out_ReservationKey y \<noteq> k)"
    using op
  proof (cases rule: ReleaseOutgoingE)
    case same
    have "out_Status y \<noteq> OutPending" if y: "y \<in> set (outgoing s)" "out_ReservationKey y = k" for y
    proof
      assume p: "out_Status y = OutPending"
      have g: "GetOutgoing k s = Some y"
        unfolding GetOutgoing_def
        by (rule find_unique) (use y keys_okD(6) [OF funds_okD(1) [OF ok]] in \<open>auto intro: distinct_key_eq\<close>)
      from there k y obtain a where a: "GetByNumber (out_AccountNumber y) s = Some a"
        by (auto simp: accounts_there_def)
      have "s1 = evictAccountCache (acc_ID a) (out_AccountNumber y) (mark_outgoing OutReleased k
          (s\<lparr>accounts := put_row acc_ID (freed_account (out_Amount y) a) (accounts s)\<rparr>))"
        using g p a y(2) by (simp add: s1 ReleaseOutgoing_def release_out_tx_eq)
      then have eq: "outgoing s1 = upd_rows (\<lambda>r. out_ReservationKey r = k \<and> out_Status r = OutPending)
          (\<lambda>r. r\<lparr>out_Status := OutReleased\<rparr>) (outgoing s)" by (simp add: mark_outgoing_def)
      have "y \<in> set (outgoing s1)" using same y(1) by simp
      then show False unfolding eq by (cases rule: in_upd_rowsE) (use p y(2) in simp_all)
    qed
    with same there show ?thesis by auto
  next
    case (released r a)
    let ?t = "s\<lparr>accounts := put_row acc_ID (freed_account (out_Amount r) a) (accounts s)\<rparr>"
    from GetByNumberD [OF released(3)] have m: "a \<in> set (accounts s)" "\<not> acc_Deleted a" by auto
    have num: "GetByNumber n s1 \<noteq> None" if "GetByNumber n s \<noteq> None" for n
      using that GetByNumber_write [OF funds_okD(1) [OF ok] m same_row_freed, of ?t] by (simp add: released(5))
    have out: "outgoing s1 = upd_rows (\<lambda>r. out_ReservationKey r = k \<and> out_Status r = OutPending)
          (\<lambda>r. r\<lparr>out_Status := OutReleased\<rparr>) (outgoing s)"
      by (simp add: released(5) mark_outgoing_def)
    show ?thesis
      using there num unfolding accounts_there_def out by (auto elim!: in_upd_rowsE)
  qed
  then show "accounts_there K s1" and "\<And>y. y \<in> set (outgoing s1) \<Longrightarrow> out_Status y = OutPending \<Longrightarrow>
           y \<in> set (outgoing s) \<and> out_ReservationKey y \<noteq> k" by blast+
qed

lemma sweep_loop_clears:
  assumes "funds_ok s" "accounts_there K s" "\<And>i. \<not> ctx_done i" "out_ReservationKey ` set rows \<subseteq> K"
    and "sweep_loop ctx_done i rows s = (res, s')"
  shows "res = Inr () \<and> (\<forall>y \<in> set (outgoing s'). out_Status y = OutPending \<longrightarrow>
     y \<in> set (outgoing s) \<and> out_ReservationKey y \<notin> out_ReservationKey ` set rows)"
  using assms
proof (induction ctx_done i rows s arbitrary: res s' rule: sweep_loop.induct)
  case (2 ctx_done i r rows s)
  let ?k = "out_ReservationKey r" and ?t = "snd (ReleaseOutgoing (out_ReservationKey r) s)"
  have k: "?k \<in> K" using "2.prems"(4) by simp
  have ok: "funds_ok ?t" using ReleaseOutgoing_keeps [OF "2.prems"(1)] by (metis prod.collapse)
  note step = release_step [OF "2.prems"(1,2) k refl]
  have loop: "sweep_loop ctx_done (Suc i) rows ?t = (res, s')" using "2.prems"(5) "2.prems"(3) [of i] by simp
  from "2.IH" [OF _ ok step(1) "2.prems"(3) _ loop] "2.prems"(3,4) step(2) show ?case by auto
qed auto

text \<open>
  C14: the timeout sweep clears every stale hold. When at most a batch of pending holds are older
  than the cutoff, their accounts exist and the context is not cancelled, the sweep returns without
  an error, no pending hold older than the cutoff is left, every hold that is still pending was so
  before, and the funds invariant holds afterwards.
\<close>

theorem sweep_clears_stale:
  assumes ok: "funds_ok s" and live: "\<And>i. \<not> ctx_done i"
    and batch: "length (filter (\<lambda>r. out_Status r = OutPending \<and> out_CreatedAt r < now - ttl) (outgoing s)) \<le> sweep_batch"
    and there: "\<And>r. r \<in> set (outgoing s) \<Longrightarrow> out_Status r = OutPending \<Longrightarrow> out_CreatedAt r < now - ttl \<Longrightarrow>
        GetByNumber (out_AccountNumber r) s \<noteq> None"
    and op: "Sweep ctx_done now ttl s = (res, s')"
  shows "res = Inr () \<and> ListStalePendingOlderThan (now - ttl) sweep_batch s' = [] \<and>
    (\<forall>y \<in> set (outgoing s'). out_Status y = OutPending \<longrightarrow> y \<in> set (outgoing s)) \<and> funds_ok s'"
proof -
  let ?stale = "\<lambda>r. out_Status r = OutPending \<and> out_CreatedAt r < now - ttl"
  let ?rows = "ListStalePendingOlderThan (now - ttl) sweep_batch s"
  let ?K = "out_ReservationKey ` set ?rows"
  have rows: "set ?rows = set (filter ?stale (outgoing s))"
    using batch by (simp add: ListStalePendingOlderThan_def)
  have "GetByNumber (out_AccountNumber y) s \<noteq> None" if "y \<in> set (outgoing s)" "out_ReservationKey y \<in> ?K" for y
  proof -
    from that(2) rows obtain x where x: "x \<in> set (outgoing s)" "?stale x" "out_ReservationKey y = out_ReservationKey x"
      by auto
    with that(1) have "y = x" using keys_okD(6) [OF funds_okD(1) [OF ok]] by (auto intro: distinct_key_eq)
    with x there show ?thesis by blast
  qed
  then have acc: "accounts_there ?K s" by (simp add: accounts_there_def)
  from sweep_loop_clears [OF ok acc live subset_refl op [unfolded Sweep_def]]
  have clear: "res = Inr ()" "\<And>y. y \<in> set (outgoing s') \<Longrightarrow> out_Status y = OutPending \<Longrightarrow>
      y \<in> set (outgoing s) \<and> out_ReservationKey y \<notin> ?K" by blast+
  have "\<not> ?stale y" if "y \<in> set (outgoing s')" for y
    using clear(2) [OF that] rows by auto
  then have "filter ?stale (outgoing s') = []" by (auto simp: filter_empty_conv)
  then have "ListStalePendingOlderThan (now - ttl) sweep_batch s' = []"
    unfolding ListStalePendingOlderThan_def by simp
  with clear sweep_loop_keeps [OF ok op [unfolded Sweep_def]] show ?thesis by auto
qed

theorem sweep_clears_stale_witness:
  "fst (Sweep (\<lambda>_. False) 700 600 sample_held) = Inr () \<and>
   ListStalePendingOlderThan 100 sweep_batch (snd (Sweep (\<lambda>_. False) 700 600 sample_held)) = []"
proof -
  have rows: "outgoing sample_held = [out_row 0 ''A'' 30 ''RSD'' ''k'' sample_db]"
    using sample_hold_ok sample_lookup(2)
    by (simp add: sample_held_def ReserveOutgoing_def reserve_out_tx_ok after_reserve_out_def) (simp add: sample_simps)
  show ?thesis
    using sweep_clears_stale [OF sample_held_eval(1), of "\<lambda>_. False" 700 600, OF _ _ _ surjective_pairing]
      sample_held_eval(3)
    by (simp add: rows out_row_def sweep_batch_def)
qed

end
