(* ===== verification/Account_Ledger.thy ===== *)
theory Account_Ledger
  imports Cross_Bank_Safety
begin

text \<open>
  The ledger of account-service: the locked debit and credit
  (\<^verbatim>\<open>repository/ledger_repository.go\<close>), the transfers of \<^verbatim>\<open>service/ledger_service.go\<close>, the
  reconciliation of stored balances with the ledger (\<^verbatim>\<open>reconciliation_service.go\<close>), the shared
  ledger vocabulary of \<^verbatim>\<open>contract/shared/ledger.go\<close> and the adapter \<^verbatim>\<open>repository/ledger_store.go\<close>
  that implements its \<^verbatim>\<open>Store\<close> port.

  The port is the locale \<open>ledger_port\<close>; what \<^verbatim>\<open>ApplyMovement\<close> guarantees is proved once over the
  port and holds for the adapter by interpretation.
\<close>

section \<open>Locked debit and credit\<close>

definition debit_account :: "decimal \<Rightarrow> account \<Rightarrow> account" where
  "debit_account x a =
     (let a1 = a\<lparr>acc_Balance := acc_Balance a - x, acc_AvailableBalance := acc_AvailableBalance a - x\<rparr>
      in if acc_IsBankAccount a then a1
         else a1\<lparr>acc_DailySpending := acc_DailySpending a + x,
                 acc_MonthlySpending := acc_MonthlySpending a + x\<rparr>)"

definition ledger_row ::
  "string \<Rightarrow> string \<Rightarrow> decimal \<Rightarrow> decimal \<Rightarrow> decimal \<Rightarrow> string \<Rightarrow> string \<Rightarrow> string \<Rightarrow> ledger_entry" where
  "ledger_row n kind x before after description refID refType =
     \<lparr>le_ID = 0, le_AccountNumber = n, le_EntryType = kind, le_Amount = x, le_BalanceBefore = before,
      le_BalanceAfter = after, le_Description = description, le_ReferenceID = refID,
      le_ReferenceType = refType, le_IdempotencyKey = [], le_SagaID = None, le_SagaStep = None\<rparr>"

definition DebitWithLock ::
  "saga_ctx \<Rightarrow> string \<Rightarrow> decimal \<Rightarrow> string \<Rightarrow> string \<Rightarrow> string \<Rightarrow> account_db \<Rightarrow>
     go_error + (ledger_entry \<times> account_db)" where
  "DebitWithLock ctx n x description refID refType s =
     (case GetByNumber n s of
        None \<Rightarrow> Inl ErrRecordNotFound
      | Some acct \<Rightarrow>
          if acc_AvailableBalance acct < x then Inl (Plain ''insufficient funds'')
          else
            (let acct1 = debit_account x acct
             in case save_with_entry acct1
                       (StampSagaContext ctx
                          (ledger_row n ''debit'' x (acc_Balance acct) (acc_Balance acct1) description refID refType)) s of
                  Inl e \<Rightarrow> Inl e
                | Inr ((_, entry), s') \<Rightarrow> Inr (entry, s')))"

definition CreditWithLock ::
  "saga_ctx \<Rightarrow> string \<Rightarrow> decimal \<Rightarrow> string \<Rightarrow> string \<Rightarrow> string \<Rightarrow> account_db \<Rightarrow>
     go_error + (ledger_entry \<times> account_db)" where
  "CreditWithLock ctx n x description refID refType s =
     (case GetByNumber n s of
        None \<Rightarrow> Inl ErrRecordNotFound
      | Some acct \<Rightarrow>
          (let acct1 = credit_account x acct
           in case save_with_entry acct1
                     (StampSagaContext ctx
                        (ledger_row n ''credit'' x (acc_Balance acct) (acc_Balance acct1) description refID refType)) s of
                Inl e \<Rightarrow> Inl e
              | Inr ((_, entry), s') \<Rightarrow> Inr (entry, s')))"

section \<open>The ledger service\<close>

text \<open>\<open>evict\<close> resolves the id from the number with a read of its own; a missing row scans to 0.\<close>

definition evict :: "string \<Rightarrow> account_db \<Rightarrow> account_db" where
  "evict n s =
     (if n = [] then s
      else evictAccountCache (case GetByNumber n s of None \<Rightarrow> 0 | Some a \<Rightarrow> acc_ID a) n s)"

definition transfer_body ::
  "saga_ctx \<Rightarrow> string \<Rightarrow> string \<Rightarrow> decimal \<Rightarrow> string \<Rightarrow> string \<Rightarrow> string \<Rightarrow> account_db \<Rightarrow>
     go_error + (unit \<times> account_db)" where
  "transfer_body ctx from to x description refID refType s =
     (case DebitWithLock ctx from x description refID refType s of
        Inl e \<Rightarrow> Inl e
      | Inr (_, s1) \<Rightarrow>
          (case CreditWithLock ctx to x description refID refType s1 of
             Inl e \<Rightarrow> Inl e
           | Inr (_, s2) \<Rightarrow> Inr ((), s2)))"

definition Transfer ::
  "saga_ctx \<Rightarrow> string \<Rightarrow> string \<Rightarrow> decimal \<Rightarrow> string \<Rightarrow> string \<Rightarrow> string \<Rightarrow> account_db \<Rightarrow>
     unit result \<times> account_db" where
  "Transfer ctx from to x description refID refType s =
     (case transaction (transfer_body ctx from to x description refID refType) s of
        (Inl e, s') \<Rightarrow> (Inl e, s')
      | (Inr _, s') \<Rightarrow> (Inr (), evict to (evict from s')))"

definition Credit ::
  "saga_ctx \<Rightarrow> string \<Rightarrow> decimal \<Rightarrow> string \<Rightarrow> string \<Rightarrow> string \<Rightarrow> account_db \<Rightarrow> unit result \<times> account_db" where
  "Credit ctx n x description refID refType s =
     (case transaction (CreditWithLock ctx n x description refID refType) s of
        (Inl e, s') \<Rightarrow> (Inl e, s')
      | (Inr _, s') \<Rightarrow> (Inr (), evict n s'))"

definition Debit ::
  "saga_ctx \<Rightarrow> string \<Rightarrow> decimal \<Rightarrow> string \<Rightarrow> string \<Rightarrow> string \<Rightarrow> account_db \<Rightarrow> unit result \<times> account_db" where
  "Debit ctx n x description refID refType s =
     (case transaction (DebitWithLock ctx n x description refID refType) s of
        (Inl e, s') \<Rightarrow> (Inl e, s')
      | (Inr _, s') \<Rightarrow> (Inr (), evict n s'))"

definition sum_entries :: "string \<Rightarrow> string \<Rightarrow> account_db \<Rightarrow> decimal" where
  "sum_entries n kind s =
     tsum le_Amount (filter (\<lambda>e. le_AccountNumber e = n \<and> le_EntryType e = kind) (ledger s))"

definition ReconcileBalance :: "string \<Rightarrow> account_db \<Rightarrow> unit result" where
  "ReconcileBalance n s =
     (let credits = sum_entries n ''credit'' s;
          debits = sum_entries n ''debit'' s;
          net = credits - debits
      in case GetByNumber n s of
           None \<Rightarrow> Inl ErrRecordNotFound
         | Some acct \<Rightarrow>
             if acc_Balance acct \<noteq> net then Inl (Plain ''reconcile mismatch'') else Inr ())"

definition CheckAllBalances :: "account_db \<Rightarrow> nat" where
  "CheckAllBalances s =
     length (filter (\<lambda>a. ReconcileBalance (acc_AccountNumber a) s \<noteq> Inr ())
       (filter (\<lambda>a. \<not> acc_Deleted a) (accounts s)))"

section \<open>The shared ledger vocabulary\<close>

datatype entry_type = EntryDebit | EntryCredit | EntryOther string

definition IsValid :: "entry_type \<Rightarrow> bool" where
  "IsValid e \<longleftrightarrow> e = EntryDebit \<or> e = EntryCredit"

definition Negate :: "entry_type \<Rightarrow> entry_type" where
  "Negate e = (if e = EntryDebit then EntryCredit else EntryDebit)"

definition type_string :: "entry_type \<Rightarrow> string" where
  "type_string e =
     (case e of EntryDebit \<Rightarrow> ''debit'' | EntryCredit \<Rightarrow> ''credit'' | EntryOther x \<Rightarrow> x)"

definition type_of_string :: "string \<Rightarrow> entry_type" where
  "type_of_string x =
     (if x = ''debit'' then EntryDebit else if x = ''credit'' then EntryCredit else EntryOther x)"

record entry =
  e_ID :: nat
  e_Subject :: string
  e_Type :: entry_type
  e_Amount :: decimal
  e_BalanceBefore :: decimal
  e_BalanceAfter :: decimal
  e_Description :: string
  e_ReferenceID :: string
  e_ReferenceType :: string
  e_IdempotencyKey :: string

definition Validate :: "entry \<Rightarrow> unit result" where
  "Validate e =
     (if \<not> IsValid (e_Type e) then Inl (Plain ''ledger: invalid entry type'')
      else if e_Amount e < 0 then Inl (Plain ''ledger: amount cannot be negative'')
      else if e_Amount e = 0 then Inl (Plain ''ledger: amount cannot be zero'')
      else if e_Subject e = [] then Inl (Plain ''ledger: subject cannot be empty'')
      else Inr ())"

record movement =
  mv_Debit :: entry
  mv_Credit :: entry

definition NewMovement ::
  "string \<Rightarrow> string \<Rightarrow> string \<Rightarrow> string \<Rightarrow> decimal \<Rightarrow> string \<Rightarrow> movement" where
  "NewMovement refType refID debitSubject creditSubject amount description =
     \<lparr>mv_Debit = \<lparr>e_ID = 0, e_Subject = debitSubject, e_Type = EntryDebit, e_Amount = amount,
         e_BalanceBefore = 0, e_BalanceAfter = 0, e_Description = description,
         e_ReferenceID = refID, e_ReferenceType = refType,
         e_IdempotencyKey = refID @ '':debit''\<rparr>,
      mv_Credit = \<lparr>e_ID = 0, e_Subject = creditSubject, e_Type = EntryCredit, e_Amount = amount,
         e_BalanceBefore = 0, e_BalanceAfter = 0, e_Description = description,
         e_ReferenceID = refID, e_ReferenceType = refType,
         e_IdempotencyKey = refID @ '':credit''\<rparr>\<rparr>"

definition ErrDuplicateEntry :: go_error where
  "ErrDuplicateEntry = Plain ''ledger: duplicate idempotency key''"

text \<open>\<open>record_movement\<close> is the method of the \<^verbatim>\<open>Store\<close> the caller passes.\<close>

definition ApplyMovement ::
  "(movement \<Rightarrow> 's \<Rightarrow> unit result \<times> 's) \<Rightarrow> movement \<Rightarrow> 's \<Rightarrow> unit result \<times> 's" where
  "ApplyMovement record_movement mv s =
     (case Validate (mv_Debit mv) of
        Inl e \<Rightarrow> (Inl e, s)
      | Inr _ \<Rightarrow>
          (case Validate (mv_Credit mv) of
             Inl e \<Rightarrow> (Inl e, s)
           | Inr _ \<Rightarrow>
               if e_Amount (mv_Debit mv) \<noteq> e_Amount (mv_Credit mv)
               then (Inl (Plain ''ledger: movement debit/credit amounts do not match''), s)
               else if e_ReferenceID (mv_Debit mv) \<noteq> e_ReferenceID (mv_Credit mv) \<or>
                       e_ReferenceType (mv_Debit mv) \<noteq> e_ReferenceType (mv_Credit mv)
               then (Inl (Plain ''ledger: movement debit/credit references do not match''), s)
               else record_movement mv s))"

section \<open>The adapter\<close>

definition toModel :: "entry \<Rightarrow> ledger_entry" where
  "toModel e =
     \<lparr>le_ID = 0, le_AccountNumber = e_Subject e, le_EntryType = type_string (e_Type e),
      le_Amount = e_Amount e, le_BalanceBefore = e_BalanceBefore e,
      le_BalanceAfter = e_BalanceAfter e, le_Description = e_Description e,
      le_ReferenceID = e_ReferenceID e, le_ReferenceType = e_ReferenceType e,
      le_IdempotencyKey = e_IdempotencyKey e, le_SagaID = None, le_SagaStep = None\<rparr>"

definition fromModel :: "ledger_entry \<Rightarrow> entry" where
  "fromModel r =
     \<lparr>e_ID = le_ID r, e_Subject = le_AccountNumber r, e_Type = type_of_string (le_EntryType r),
      e_Amount = le_Amount r, e_BalanceBefore = le_BalanceBefore r,
      e_BalanceAfter = le_BalanceAfter r, e_Description = le_Description r,
      e_ReferenceID = le_ReferenceID r, e_ReferenceType = le_ReferenceType r,
      e_IdempotencyKey = le_IdempotencyKey r\<rparr>"

definition isDuplicateKey :: "go_error \<Rightarrow> bool" where
  "isDuplicateKey e \<longleftrightarrow> e = ErrDuplicateKey"

definition store_create :: "saga_ctx \<Rightarrow> entry \<Rightarrow> account_db \<Rightarrow> go_error + (ledger_entry \<times> account_db)" where
  "store_create ctx e s =
     (case create_entry (StampSagaContext ctx (toModel e)) s of
        Inl err \<Rightarrow> Inl (if isDuplicateKey err then ErrDuplicateEntry else err)
      | Inr p \<Rightarrow> Inr p)"

definition RecordEntry :: "saga_ctx \<Rightarrow> entry \<Rightarrow> account_db \<Rightarrow> entry result \<times> account_db" where
  "RecordEntry ctx e s =
     (case Validate e of
        Inl err \<Rightarrow> (Inl err, s)
      | Inr _ \<Rightarrow>
          (case store_create ctx e s of
             Inl err \<Rightarrow> (Inl err, s)
           | Inr (row, s') \<Rightarrow> (Inr (e\<lparr>e_ID := le_ID row\<rparr>), s')))"

definition movement_body :: "saga_ctx \<Rightarrow> movement \<Rightarrow> account_db \<Rightarrow> go_error + (unit \<times> account_db)" where
  "movement_body ctx mv s =
     (case store_create ctx (mv_Debit mv) s of
        Inl err \<Rightarrow> Inl err
      | Inr (_, s1) \<Rightarrow>
          (case store_create ctx (mv_Credit mv) s1 of
             Inl err \<Rightarrow> Inl err
           | Inr (_, s2) \<Rightarrow> Inr ((), s2)))"

text \<open>The row ids that the adapter writes back into the caller's movement are left out.\<close>

definition RecordMovement :: "saga_ctx \<Rightarrow> movement \<Rightarrow> account_db \<Rightarrow> unit result \<times> account_db" where
  "RecordMovement ctx mv s =
     (case Validate (mv_Debit mv) of
        Inl err \<Rightarrow> (Inl err, s)
      | Inr _ \<Rightarrow>
          (case Validate (mv_Credit mv) of
             Inl err \<Rightarrow> (Inl err, s)
           | Inr _ \<Rightarrow> transaction (movement_body ctx mv) s))"

definition GetByIdempotencyKey :: "string \<Rightarrow> account_db \<Rightarrow> entry option" where
  "GetByIdempotencyKey key s =
     (if key = [] then None
      else map_option fromModel (find (\<lambda>e. le_IdempotencyKey e = key) (ledger s)))"

section \<open>The port\<close>

definition same_posting :: "entry \<Rightarrow> entry \<Rightarrow> bool" where
  "same_posting e f \<longleftrightarrow>
     e_Subject e = e_Subject f \<and> e_Type e = e_Type f \<and> e_Amount e = e_Amount f \<and>
     e_ReferenceID e = e_ReferenceID f \<and> e_ReferenceType e = e_ReferenceType f"

definition valid_movement :: "movement \<Rightarrow> bool" where
  "valid_movement mv \<longleftrightarrow> Validate (mv_Debit mv) = Inr () \<and> Validate (mv_Credit mv) = Inr ()"

locale ledger_port =
  fixes record_movement :: "movement \<Rightarrow> 's \<Rightarrow> unit result \<times> 's"
    and get_key :: "string \<Rightarrow> 's \<Rightarrow> entry option"
  assumes all_or_nothing: "record_movement mv s = (Inl e, s') \<Longrightarrow> s' = s"
    and stored: "record_movement mv s = (Inr u, s') \<Longrightarrow> valid_movement mv \<Longrightarrow>
        x \<in> {mv_Debit mv, mv_Credit mv} \<Longrightarrow> e_IdempotencyKey x \<noteq> [] \<Longrightarrow>
        \<exists>y. get_key (e_IdempotencyKey x) s' = Some y \<and> same_posting x y"
    and duplicate: "valid_movement mv \<Longrightarrow> x \<in> {mv_Debit mv, mv_Credit mv} \<Longrightarrow>
        get_key (e_IdempotencyKey x) s \<noteq> None \<Longrightarrow>
        record_movement mv s = (Inl ErrDuplicateEntry, s)"
    and kept: "record_movement mv s = (Inr u, s') \<Longrightarrow> get_key k s = Some y \<Longrightarrow> get_key k s' = Some y"
begin

lemma ApplyMovement_valid:
  assumes "ApplyMovement record_movement mv s = (Inr u, s')"
  shows "valid_movement mv" "e_Amount (mv_Debit mv) = e_Amount (mv_Credit mv)"
    "record_movement mv s = (Inr u, s')"
  using assms by (auto simp: ApplyMovement_def valid_movement_def split: sum.splits if_splits)

lemma ApplyMovement_error:
  assumes "ApplyMovement record_movement mv s = (Inl e, s')"
  shows "s' = s"
  using assms by (auto simp: ApplyMovement_def split: sum.splits if_splits dest: all_or_nothing)

text \<open>A movement is applied at most once, however often the caller retries it.\<close>

lemma ApplyMovement_retry:
  assumes "ApplyMovement record_movement mv s = (Inr u, s')" "e_IdempotencyKey (mv_Debit mv) \<noteq> []"
  shows "ApplyMovement record_movement mv s' = (Inl ErrDuplicateEntry, s')"
proof -
  note v = ApplyMovement_valid [OF assms(1)]
  from stored [OF v(3,1) _ assms(2)] obtain y where "get_key (e_IdempotencyKey (mv_Debit mv)) s' = Some y" by auto
  with duplicate [OF v(1), of "mv_Debit mv" s'] have "record_movement mv s' = (Inl ErrDuplicateEntry, s')" by simp
  with assms(1) show ?thesis by (auto simp: ApplyMovement_def split: sum.splits if_splits)
qed

end

section \<open>The adapter implements the port\<close>

lemma type_string_inverse:
  "IsValid e \<Longrightarrow> type_of_string (type_string e) = e"
  by (auto simp: IsValid_def type_string_def type_of_string_def)

lemma same_posting_fromModel:
  "Validate e = Inr () \<Longrightarrow> same_posting e (fromModel ((StampSagaContext ctx (toModel e))\<lparr>le_ID := i\<rparr>))"
  by (auto simp: same_posting_def fromModel_def toModel_def StampSagaContext_def Let_def
      type_string_inverse Validate_def split: if_splits option.splits)

lemma store_createD:
  assumes "store_create ctx e s = Inr (row, s')"
  shows "row = (StampSagaContext ctx (toModel e))\<lparr>le_ID := seq_ledger s\<rparr>"
    and "s' = s\<lparr>ledger := ledger s @ [row], seq_ledger := Suc (seq_ledger s)\<rparr>"
    and "e_IdempotencyKey e \<noteq> [] \<Longrightarrow> find (\<lambda>x. le_IdempotencyKey x = e_IdempotencyKey e) (ledger s) = None"
proof -
  from assms have c: "create_entry (StampSagaContext ctx (toModel e)) s = Inr (row, s')"
    by (auto simp: store_create_def split: sum.splits)
  show "row = (StampSagaContext ctx (toModel e))\<lparr>le_ID := seq_ledger s\<rparr>"
    and "s' = s\<lparr>ledger := ledger s @ [row], seq_ledger := Suc (seq_ledger s)\<rparr>"
    by (rule create_entryD [OF c])+
  show "find (\<lambda>x. le_IdempotencyKey x = e_IdempotencyKey e) (ledger s) = None" if "e_IdempotencyKey e \<noteq> []"
    using create_entry_fresh [OF c] that by (auto simp: find_None_iff toModel_def)
qed

lemma store_create_dup:
  assumes "GetByIdempotencyKey (e_IdempotencyKey e) s \<noteq> None"
  shows "store_create ctx e s = Inl ErrDuplicateEntry"
proof -
  from assms have "e_IdempotencyKey e \<noteq> []" "\<exists>x \<in> set (ledger s). le_IdempotencyKey x = e_IdempotencyKey e"
    by (auto simp: GetByIdempotencyKey_def dest!: find_SomeD split: if_splits)
  then show ?thesis by (auto simp: store_create_def create_entry_def toModel_def isDuplicateKey_def)
qed

lemma store_create_error: "store_create ctx e s = Inl err \<Longrightarrow> err = ErrDuplicateEntry"
  by (auto simp: store_create_def create_entry_def isDuplicateKey_def Let_def split: if_splits)

lemma RecordMovementE:
  assumes "RecordMovement ctx mv s = (Inr u, s')"
  obtains d c s1 where "store_create ctx (mv_Debit mv) s = Inr (d, s1)"
    "store_create ctx (mv_Credit mv) s1 = Inr (c, s')" "valid_movement mv"
  using assms
  by (cases rule: transaction_cases [of "movement_body ctx mv" s])
    (auto simp: RecordMovement_def movement_body_def valid_movement_def split: sum.splits)

lemma key_after_create:
  assumes "store_create ctx e s = Inr (row, s')"
  shows "GetByIdempotencyKey k s' =
    (case GetByIdempotencyKey k s of
       Some y \<Rightarrow> Some y
     | None \<Rightarrow> if k \<noteq> [] \<and> k = e_IdempotencyKey e then Some (fromModel row) else None)"
  using store_createD [OF assms]
  by (auto simp: GetByIdempotencyKey_def toModel_def split: option.splits)

interpretation ledger_store: ledger_port "RecordMovement ctx" GetByIdempotencyKey for ctx
proof (unfold_locales, goal_cases)
  case (1 mv s e s')
  then show ?case
    by (cases rule: transaction_cases [of "movement_body ctx mv" s])
      (auto simp: RecordMovement_def split: sum.splits)
next
  case (2 mv s u s' x)
  from 2(1) obtain d c s1 where d: "store_create ctx (mv_Debit mv) s = Inr (d, s1)"
    and c: "store_create ctx (mv_Credit mv) s1 = Inr (c, s')" by (rule RecordMovementE)
  have v: "Validate (mv_Debit mv) = Inr ()" "Validate (mv_Credit mv) = Inr ()"
    using 2(2) by (auto simp: valid_movement_def)
  note dd = store_createD [OF d] and cc = store_createD [OF c]
  have credit: "GetByIdempotencyKey (e_IdempotencyKey (mv_Credit mv)) s' = Some (fromModel c)"
    if k: "e_IdempotencyKey (mv_Credit mv) \<noteq> []"
  proof -
    have "GetByIdempotencyKey (e_IdempotencyKey (mv_Credit mv)) s1 = None"
      using cc(3) [OF k] by (simp add: GetByIdempotencyKey_def)
    with k show ?thesis by (simp add: key_after_create [OF c])
  qed
  have debit: "GetByIdempotencyKey (e_IdempotencyKey (mv_Debit mv)) s' = Some (fromModel d)"
    if k: "e_IdempotencyKey (mv_Debit mv) \<noteq> []"
  proof -
    have "GetByIdempotencyKey (e_IdempotencyKey (mv_Debit mv)) s = None"
      using dd(3) [OF k] by (simp add: GetByIdempotencyKey_def)
    with k show ?thesis by (simp add: key_after_create [OF c] key_after_create [OF d])
  qed
  have "same_posting (mv_Credit mv) (fromModel c)" "same_posting (mv_Debit mv) (fromModel d)"
    unfolding dd(1) cc(1) by (rule same_posting_fromModel, rule v)+
  with credit debit 2(3,4) show ?case by blast
next
  case (3 mv x s)
  then have v: "Validate (mv_Debit mv) = Inr ()" "Validate (mv_Credit mv) = Inr ()"
    by (auto simp: valid_movement_def)
  have "movement_body ctx mv s = Inl ErrDuplicateEntry"
  proof (cases "store_create ctx (mv_Debit mv) s")
    case (Inl e)
    then show ?thesis using store_create_error [OF Inl] by (simp add: movement_body_def)
  next
    case (Inr p)
    obtain d s1 where p: "p = (d, s1)" by (cases p)
    with Inr store_create_dup [of "mv_Debit mv" s ctx] 3(2,3) have "x = mv_Credit mv" by auto
    with 3(3) key_after_create [OF Inr [unfolded p], of "e_IdempotencyKey x"]
    have "GetByIdempotencyKey (e_IdempotencyKey (mv_Credit mv)) s1 \<noteq> None" by (auto split: option.splits)
    from store_create_dup [OF this] Inr p show ?thesis by (simp add: movement_body_def)
  qed
  with v show ?case by (simp add: RecordMovement_def)
next
  case (4 mv s u s' k y)
  from 4(1) obtain d c s1 where "store_create ctx (mv_Debit mv) s = Inr (d, s1)"
    "store_create ctx (mv_Credit mv) s1 = Inr (c, s')" by (rule RecordMovementE)
  with 4(2) show ?case by (simp add: key_after_create)
qed

section \<open>Debits, credits and transfers\<close>

lemma debit_account_sel [simp]:
  "acc_ID (debit_account x a) = acc_ID a" "acc_Version (debit_account x a) = acc_Version a"
  "acc_AccountNumber (debit_account x a) = acc_AccountNumber a"
  "acc_Balance (debit_account x a) = acc_Balance a - x"
  "acc_AvailableBalance (debit_account x a) = acc_AvailableBalance a - x"
  "acc_ReservedBalance (debit_account x a) = acc_ReservedBalance a"
  "acc_Status (debit_account x a) = acc_Status a" "acc_IsBankAccount (debit_account x a) = acc_IsBankAccount a"
  "same_row a (debit_account x a)"
  by (simp_all add: debit_account_def Let_def same_row_def)

text \<open>The one change both make: a row write with its entry, for the account of that number.\<close>

definition posted ::
  "string \<Rightarrow> account \<Rightarrow> account \<Rightarrow> decimal \<Rightarrow> account_db \<Rightarrow> account_db \<Rightarrow> bool" where
  "posted n a a' d s s' \<longleftrightarrow>
     GetByNumber n s = Some a \<and> same_row a a' \<and>
     acc_Balance a' = acc_Balance a + d \<and> acc_AvailableBalance a' = acc_AvailableBalance a + d \<and>
     acc_ReservedBalance a' = acc_ReservedBalance a \<and> acc_Version a' = acc_Version a \<and>
     (\<exists>e b r. save_with_entry a' e s = Inr ((b, r), s') \<and> le_AccountNumber e = n \<and> entry_sign e = d \<and>
        le_Amount e = \<bar>d\<bar>)"

lemma ledger_row_sel [simp]:
  "le_IdempotencyKey (ledger_row n kind x b c desc rid rt) = []"
  "le_AccountNumber (ledger_row n kind x b c desc rid rt) = n"
  "le_EntryType (ledger_row n kind x b c desc rid rt) = kind"
  "le_Amount (ledger_row n kind x b c desc rid rt) = x"
  by (simp_all add: ledger_row_def)

lemma DebitWithLockE:
  assumes "DebitWithLock ctx n x desc rid rt s = Inr (e, s')" "0 \<le> x"
  obtains a where "GetByNumber n s = Some a" "x \<le> acc_AvailableBalance a" "posted n a (debit_account x a) (- x) s s'"
proof -
  from assms(1) obtain a b where a: "GetByNumber n s = Some a" "x \<le> acc_AvailableBalance a"
    and w: "save_with_entry (debit_account x a) (StampSagaContext ctx
        (ledger_row n ''debit'' x (acc_Balance a) (acc_Balance (debit_account x a)) desc rid rt)) s = Inr ((b, e), s')"
    by (auto simp: DebitWithLock_def Let_def split: option.splits if_splits sum.splits)
  have "posted n a (debit_account x a) (- x) s s'"
    unfolding posted_def using a w assms(2)
    by (intro conjI exI [of _ "StampSagaContext ctx
        (ledger_row n ''debit'' x (acc_Balance a) (acc_Balance (debit_account x a)) desc rid rt)"] exI [of _ b] exI [of _ e])
      (simp_all add: entry_sign_def)
  then show ?thesis by (rule that [OF a])
qed

lemma CreditWithLockE:
  assumes "CreditWithLock ctx n x desc rid rt s = Inr (e, s')" "0 \<le> x"
  obtains a where "GetByNumber n s = Some a" "posted n a (credit_account x a) x s s'"
proof -
  from assms(1) obtain a b where a: "GetByNumber n s = Some a"
    and w: "save_with_entry (credit_account x a) (StampSagaContext ctx
        (ledger_row n ''credit'' x (acc_Balance a) (acc_Balance (credit_account x a)) desc rid rt)) s = Inr ((b, e), s')"
    by (auto simp: CreditWithLock_def Let_def split: option.splits sum.splits)
  have "posted n a (credit_account x a) x s s'"
    unfolding posted_def using a w assms(2)
    by (intro conjI exI [of _ "StampSagaContext ctx
        (ledger_row n ''credit'' x (acc_Balance a) (acc_Balance (credit_account x a)) desc rid rt)"] exI [of _ b] exI [of _ e])
      (simp_all add: entry_sign_def)
  then show ?thesis by (rule that [OF a])
qed

lemma postedD:
  assumes "posted n a a' d s s'"
  shows "a \<in> set (accounts s)" "\<not> acc_Deleted a" "acc_AccountNumber a = n" "same_row a a'"
    "funds_ok s \<Longrightarrow> funds_ok s'" "keys_ok s \<Longrightarrow> ledger_gap s' m = ledger_gap s m"
    "keys_ok s \<Longrightarrow> cache_fresh s \<Longrightarrow> cache_fresh (evictAccountCache (acc_ID a) n s')"
    "keys_ok s \<Longrightarrow> GetByNumber m s' =
       (if m = n then Some (a'\<lparr>acc_Version := acc_Version a' + 1\<rparr>) else GetByNumber m s)"
    "\<exists>r. ledger s' = ledger s @ [r] \<and> le_AccountNumber r = n \<and> entry_sign r = d \<and> le_Amount r = \<bar>d\<bar>"
proof -
  from assms obtain e b r where a: "GetByNumber n s = Some a" and row: "same_row a a'"
    and w: "save_with_entry a' e s = Inr ((b, r), s')" and e: "le_AccountNumber e = n" "entry_sign e = d" "le_Amount e = \<bar>d\<bar>"
    and m: "acc_Balance a' = acc_Balance a + d" "acc_AvailableBalance a' = acc_AvailableBalance a + d"
      "acc_ReservedBalance a' = acc_ReservedBalance a"
    by (auto simp: posted_def)
  note mem = GetByNumberD [OF a] and s' = save_with_entryE [OF w]
  from mem show "a \<in> set (accounts s)" "\<not> acc_Deleted a" "acc_AccountNumber a = n" by auto
  show "same_row a a'" by (rule row)
  show "funds_ok s'" if "funds_ok s"
    by (rule save_with_entry_keeps [OF that _ row _ _ w]) (use mem m in auto)
  show "ledger_gap s' m = ledger_gap s m" if "keys_ok s"
    by (rule save_with_entry_gap [OF that _ row _ _ w]) (use mem m e in auto)
  show "cache_fresh (evictAccountCache (acc_ID a) n s')" if "keys_ok s" "cache_fresh s"
    using save_with_entry_cache [OF that(2,1) _ row w] mem by auto
  show "GetByNumber m s' = (if m = n then Some (a'\<lparr>acc_Version := acc_Version a' + 1\<rparr>) else GetByNumber m s)"
    if "keys_ok s"
    using GetByNumber_write [OF that _ _ _, of a "a'\<lparr>acc_Version := acc_Version a' + 1\<rparr>" s'] mem row s' by auto
  show "\<exists>r. ledger s' = ledger s @ [r] \<and> le_AccountNumber r = n \<and> entry_sign r = d \<and> le_Amount r = \<bar>d\<bar>"
    using s' e by auto
qed

lemma evict_inv [simp]:
  "funds_ok (evict n s) = funds_ok s" "ledger_gap (evict n s) m = ledger_gap s m" "keys_ok (evict n s) = keys_ok s"
  "GetByNumber m (evict n s) = GetByNumber m s" "ledger (evict n s) = ledger s" "accounts (evict n s) = accounts s"
  by (simp_all add: evict_def)

lemma evict_posted:
  assumes "posted n a a' d s s'" "keys_ok s" "n \<noteq> []"
  shows "evict n s' = evictAccountCache (acc_ID a) n s'"
  using postedD(4,8) [OF assms(1)] assms(2,3) by (simp add: evict_def same_row_def)

lemma posted_ok:
  assumes "GetByNumber n s = Some a" "same_row a a'" "acc_Version a' = acc_Version a" "le_IdempotencyKey e = []"
  shows "\<exists>r s'. save_with_entry a' e s = Inr ((a'\<lparr>acc_Version := acc_Version a' + 1\<rparr>, r), s')"
  using save_with_entry_ok [of a s a' e] GetByNumberD [OF assms(1)] assms(2-4)
  by (simp add: same_row_def Let_def)

lemma DebitWithLock_ok:
  assumes "GetByNumber n s = Some a" "x \<le> acc_AvailableBalance a"
  shows "\<exists>e s'. DebitWithLock ctx n x desc rid rt s = Inr (e, s')"
  using posted_ok [OF assms(1), of "debit_account x a" "StampSagaContext ctx
      (ledger_row n ''debit'' x (acc_Balance a) (acc_Balance a - x) desc rid rt)"] assms
  by (auto simp: DebitWithLock_def Let_def)

lemma CreditWithLock_ok:
  assumes "GetByNumber n s = Some a"
  shows "\<exists>e s'. CreditWithLock ctx n x desc rid rt s = Inr (e, s')"
  using posted_ok [OF assms(1), of "credit_account x a" "StampSagaContext ctx
      (ledger_row n ''credit'' x (acc_Balance a) (acc_Balance a + x) desc rid rt)"] assms
  by (auto simp: CreditWithLock_def Let_def)

lemma number_nonempty: "keys_ok s \<Longrightarrow> a \<in> set (accounts s) \<Longrightarrow> acc_AccountNumber a \<noteq> []"
  by (auto simp: keys_ok_def)

lemma TransferE:
  assumes "Transfer ctx from to x desc rid rt s = (res, s')" "0 \<le> x"
  obtains (error) e where "res = Inl e" "s' = s"
  | (ok) a b s1 s2 where "res = Inr ()" "x \<le> acc_AvailableBalance a"
      "posted from a (debit_account x a) (- x) s s1" "posted to b (credit_account x b) x s1 s2"
      "s' = evict to (evict from s2)"
proof (cases rule: transaction_cases [of "transfer_body ctx from to x desc rid rt" s])
  case rollback
  with assms error show ?thesis by (auto simp: Transfer_def)
next
  case (commit u s2)
  from commit(1) obtain d c s1 where d: "DebitWithLock ctx from x desc rid rt s = Inr (d, s1)"
    and c: "CreditWithLock ctx to x desc rid rt s1 = Inr (c, s2)"
    by (auto simp: transfer_body_def split: sum.splits)
  from d assms(2) obtain a where a: "x \<le> acc_AvailableBalance a" "posted from a (debit_account x a) (- x) s s1"
    by (rule DebitWithLockE)
  from c assms(2) obtain b where b: "posted to b (credit_account x b) x s1 s2" by (rule CreditWithLockE)
  from assms(1) commit(2) show ?thesis by (intro ok [OF _ a b]) (auto simp: Transfer_def)
qed

lemma CreditE:
  assumes "Credit ctx n x desc rid rt s = (res, s')" "0 \<le> x"
  obtains (error) e where "res = Inl e" "s' = s"
  | (ok) a s1 where "res = Inr ()" "posted n a (credit_account x a) x s s1" "s' = evict n s1"
proof (cases rule: transaction_cases [of "CreditWithLock ctx n x desc rid rt" s])
  case rollback
  with assms error show ?thesis by (auto simp: Credit_def)
next
  case (commit e s1)
  from commit(1) assms(2) obtain a where "posted n a (credit_account x a) x s s1" by (rule CreditWithLockE)
  with assms(1) commit(2) show ?thesis by (intro ok) (auto simp: Credit_def)
qed

lemma DebitE:
  assumes "Debit ctx n x desc rid rt s = (res, s')" "0 \<le> x"
  obtains (error) e where "res = Inl e" "s' = s"
  | (ok) a s1 where "res = Inr ()" "x \<le> acc_AvailableBalance a"
      "posted n a (debit_account x a) (- x) s s1" "s' = evict n s1"
proof (cases rule: transaction_cases [of "DebitWithLock ctx n x desc rid rt" s])
  case rollback
  with assms error show ?thesis by (auto simp: Debit_def)
next
  case (commit e s1)
  from commit(1) assms(2) obtain a where "x \<le> acc_AvailableBalance a" "posted n a (debit_account x a) (- x) s s1"
    by (rule DebitWithLockE)
  with assms(1) commit(2) show ?thesis by (intro ok) (auto simp: Debit_def)
qed

lemma posted_keeps:
  assumes "funds_ok s" "posted n a a' d s s1"
  shows "funds_ok (evict n s1) \<and> ledger_gap (evict n s1) m = ledger_gap s m \<and>
    (cache_fresh s \<longrightarrow> cache_fresh (evict n s1))"
proof -
  note keys = funds_okD(1) [OF assms(1)] and p = postedD [OF assms(2)]
  have "n \<noteq> []" using number_nonempty [OF keys p(1)] p(3) by simp
  then have "evict n s1 = evictAccountCache (acc_ID a) n s1" by (rule evict_posted [OF assms(2) keys])
  with p(5) [OF assms(1)] p(6) [OF keys] p(7) [OF keys] show ?thesis by simp
qed

lemma Credit_keeps:
  assumes "funds_ok s" "Credit ctx n x desc rid rt s = (res, s')" "0 \<le> x"
  shows "funds_ok s' \<and> ledger_gap s' m = ledger_gap s m \<and> (cache_fresh s \<longrightarrow> cache_fresh s')"
  using assms(2,3) by (cases rule: CreditE) (use assms(1) posted_keeps in auto)

lemma Debit_keeps:
  assumes "funds_ok s" "Debit ctx n x desc rid rt s = (res, s')" "0 \<le> x"
  shows "funds_ok s' \<and> ledger_gap s' m = ledger_gap s m \<and> (cache_fresh s \<longrightarrow> cache_fresh s')"
  using assms(2,3) by (cases rule: DebitE) (use assms(1) posted_keeps in auto)

text \<open>Evicting one account commutes with a write that leaves the cache tables alone.\<close>

lemma posted_cache_tables: "posted n a a' d s s1 \<Longrightarrow> cache_id s1 = cache_id s \<and> cache_num s1 = cache_num s"
  by (auto simp: posted_def dest!: save_with_entryE(3))

lemma posted_accounts:
  assumes "posted n a a' d s s1"
  shows "accounts s1 = put_row acc_ID (a'\<lparr>acc_Version := acc_Version a' + 1\<rparr>) (accounts s)"
proof -
  from assms obtain e b r where "save_with_entry a' e s = Inr ((b, r), s1)" by (auto simp: posted_def)
  from save_with_entryE [OF this] show ?thesis by simp
qed

lemma Transfer_keeps:
  assumes ok: "funds_ok s" and op: "Transfer ctx from to x desc rid rt s = (res, s')" and x: "0 \<le> x"
  shows "funds_ok s' \<and> ledger_gap s' m = ledger_gap s m \<and> (cache_fresh s \<longrightarrow> cache_fresh s')"
  using op x
proof (cases rule: TransferE)
  case (ok a b s1 s2)
  note keys = funds_okD(1) [OF assms(1)] and p = postedD [OF ok(3)] and q = postedD [OF ok(4)]
  have ok1: "funds_ok s1" by (rule p(5) [OF assms(1)])
  note keys1 = funds_okD(1) [OF ok1]
  have ne: "from \<noteq> []" "to \<noteq> []"
    using number_nonempty [OF keys p(1)] number_nonempty [OF keys1 q(1)] p(3) q(3) by auto
  have "cache_fresh s'" if "cache_fresh s"
  proof -
    let ?e = "evictAccountCache (acc_ID a) from s1"
    have fresh: "cache_fresh ?e" by (rule p(7) [OF keys that])
    have "\<exists>c. GetByNumber from s2 = Some c \<and> acc_ID c = acc_ID a"
      using q(8) [OF keys1, of "from"] p(4) q(4) p(8) [OF keys, of "from"] ok(4)
      by (auto simp: posted_def same_row_def)
    then have s': "s' = evictAccountCache (acc_ID b) to (evictAccountCache (acc_ID a) from s2)"
      using ok(5) ne q(8) [OF keys1, of to] q(4) by (auto simp: evict_def same_row_def)
    have "cache_fresh (evictAccountCache (acc_ID b) (acc_AccountNumber b) (evictAccountCache (acc_ID a) from s2))"
    proof (rule cache_fresh_evict_touched [OF fresh _ _ _, of b "(credit_account x b)\<lparr>acc_Version := acc_Version b + 1\<rparr>"])
      show "accounts (evictAccountCache (acc_ID a) from s2) =
          put_row acc_ID ((credit_account x b)\<lparr>acc_Version := acc_Version b + 1\<rparr>) (accounts ?e)"
        using posted_accounts [OF ok(4)] by simp
      show "cache_id (evictAccountCache (acc_ID a) from s2) = cache_id ?e"
        "cache_num (evictAccountCache (acc_ID a) from s2) = cache_num ?e"
        using posted_cache_tables [OF ok(4)] by simp_all
    qed (use keys1 q(1) in simp_all)
    with s' q(3) show ?thesis by simp
  qed
  with ok(5) q(5) [OF ok1] q(6) [OF keys1] p(6) [OF keys] show ?thesis by simp
qed (use ok in simp)

section \<open>Properties\<close>

lemma balance_of_lookup: "keys_ok s \<Longrightarrow> GetByNumber n s = Some a \<Longrightarrow> balance_of s n = acc_Balance a"
  using balance_of_member GetByNumberD by metis

lemma posted_balance:
  assumes "posted n a a' d s s1" "keys_ok s"
  shows "balance_of s1 m = balance_of s m + (if m = n then d else 0)"
proof -
  note p = postedD [OF assms(1)]
  from assms(1) obtain e b r where w: "save_with_entry a' e s = Inr ((b, r), s1)"
    and d: "acc_Balance a' = acc_Balance a + d" by (auto simp: posted_def)
  have "balance_of s1 m = (if m = acc_AccountNumber a then acc_Balance b else balance_of s m)"
    by (rule balance_of_write [OF assms(2) p(1)]) (use p(4) save_with_entryE [OF w] in simp_all)
  with balance_of_member [OF assms(2) p(1)] p(3) d save_with_entryE(1) [OF w] show ?thesis by auto
qed

text \<open>
  C11: a ledger transfer is all or nothing and conserves money. Between two different accounts
  \<^verbatim>\<open>Transfer\<close> of a positive amount succeeds exactly when both exist and the sender has the amount
  available; then the sender's balance falls and the receiver's rises by the amount, no other
  balance changes and the ledger grows by one debit and one credit of that amount; otherwise
  nothing changes at all.
\<close>

theorem ledger_transfer:
  assumes ok: "funds_ok s" and x: "0 < x" and ne: "from \<noteq> to"
    and op: "Transfer ctx from to x desc rid rt s = (res, s')"
  shows "(res = Inr () \<longleftrightarrow>
       (\<exists>a b. GetByNumber from s = Some a \<and> GetByNumber to s = Some b \<and> x \<le> acc_AvailableBalance a)) \<and>
     (res \<noteq> Inr () \<longrightarrow> s' = s) \<and>
     (res = Inr () \<longrightarrow>
       (\<forall>n. balance_of s' n = balance_of s n - (if n = from then x else 0) + (if n = to then x else 0)) \<and>
       (\<exists>d c. ledger s' = ledger s @ [d, c] \<and> le_AccountNumber d = from \<and> entry_sign d = - x \<and>
          le_AccountNumber c = to \<and> entry_sign c = x))"
proof -
  note keys = funds_okD(1) [OF ok]
  have "0 \<le> x" using x by simp
  with op show ?thesis
  proof (cases rule: TransferE)
    case (error e)
    have False if a: "GetByNumber from s = Some a" "x \<le> acc_AvailableBalance a" and b: "GetByNumber to s = Some b" for a b
    proof -
      obtain d s1 where d: "DebitWithLock ctx from x desc rid rt s = Inr (d, s1)"
        using DebitWithLock_ok [OF a] by blast
      then obtain a' where "posted from a' (debit_account x a') (- x) s s1"
        using x by (auto elim: DebitWithLockE)
      from postedD(8) [OF this keys, of to] b ne have "GetByNumber to s1 = Some b" by simp
      then obtain c s2 where "CreditWithLock ctx to x desc rid rt s1 = Inr (c, s2)"
        using CreditWithLock_ok by blast
      with d have "transfer_body ctx from to x desc rid rt s = Inr ((), s2)" by (simp add: transfer_body_def)
      with op error(1) show False by (simp add: Transfer_def)
    qed
    with error show ?thesis by auto
  next
    case (ok a b s1 s2)
    note keys1 = funds_okD(1) [OF postedD(5) [OF ok(3) assms(1)]]
    have "GetByNumber to s1 = GetByNumber to s" using postedD(8) [OF ok(3) keys, of to] ne by simp
    with ok(3,4) have "GetByNumber from s = Some a" "GetByNumber to s = Some b" by (auto simp: posted_def)
    moreover obtain d where d: "ledger s1 = ledger s @ [d]" "le_AccountNumber d = from" "entry_sign d = - x"
      using postedD(9) [OF ok(3)] by auto
    moreover obtain c where c: "ledger s2 = ledger s1 @ [c]" "le_AccountNumber c = to" "entry_sign c = x"
      using postedD(9) [OF ok(4)] by auto
    moreover have "balance_of s' n = balance_of s n - (if n = from then x else 0) + (if n = to then x else 0)" for n
      using posted_balance [OF ok(3) keys, of n] posted_balance [OF ok(4) keys1, of n] ok(5)
      by (simp add: evict_def balance_of_def split: if_splits)
    ultimately show ?thesis using ok(1,2,5) by auto
  qed
qed

theorem ledger_transfer_witness:
  "fst (Transfer no_saga ''A'' ''B'' 40 [] [] [] sample_db) = Inr () \<and>
   balance_of (snd (Transfer no_saga ''A'' ''B'' 40 [] [] [] sample_db)) ''B'' =
     balance_of sample_db ''B'' + 40"
  using ledger_transfer [OF sample_ok _ _ surjective_pairing, of 40 "''A''" "''B''" no_saga "[]" "[]" "[]"] by simp

lemma ledger_net_split: "ledger_net s n = sum_entries n ''credit'' s - sum_entries n ''debit'' s"
proof -
  have "tsum (\<lambda>e. if le_AccountNumber e = n then entry_sign e else 0) es =
      tsum le_Amount (filter (\<lambda>e. le_AccountNumber e = n \<and> le_EntryType e = ''credit'') es) -
      tsum le_Amount (filter (\<lambda>e. le_AccountNumber e = n \<and> le_EntryType e = ''debit'') es)" for es
    by (induction es) (auto simp: entry_sign_def)
  then show ?thesis by (simp add: ledger_net_def sum_entries_def)
qed

text \<open>
  C15: reconciliation reports exactly the accounts whose balance the ledger does not explain.
  \<^verbatim>\<open>CheckAllBalances\<close> finds no mismatch if and only if on every live account the stored balance is
  the total of its credit entries less the total of its debit entries.
\<close>

theorem reconciliation_exact:
  assumes "keys_ok s"
  shows "CheckAllBalances s = 0 \<longleftrightarrow>
    (\<forall>a. a \<in> set (accounts s) \<and> \<not> acc_Deleted a \<longrightarrow> ledger_gap s (acc_AccountNumber a) = 0)"
proof -
  have "ReconcileBalance (acc_AccountNumber a) s = Inr () \<longleftrightarrow> ledger_gap s (acc_AccountNumber a) = 0"
    if "a \<in> set (accounts s)" "\<not> acc_Deleted a" for a
    using GetByNumber_unique [OF assms that] balance_of_member [OF assms that(1)] ledger_net_split [of s]
    by (simp add: ReconcileBalance_def Let_def ledger_gap_def)
  then show ?thesis by (auto simp: CheckAllBalances_def filter_empty_conv)
qed

theorem reconciliation_exact_witness:
  "CheckAllBalances sample_db \<noteq> 0"
proof -
  let ?a = "sample_account 1 ''A'' ''RSD'' 100 False"
  have "?a \<in> set (accounts sample_db) \<and> \<not> acc_Deleted ?a" "ledger_gap sample_db (acc_AccountNumber ?a) \<noteq> 0"
    by (simp_all add: ledger_gap_def balance_of_def ledger_net_def sample_simps)
  then show ?thesis using reconciliation_exact [OF funds_okD(1) [OF sample_ok]] by metis
qed

text \<open>
  C16: a movement is recorded once. When \<^verbatim>\<open>ApplyMovement\<close> on the ledger store accepts a movement
  built by \<^verbatim>\<open>NewMovement\<close>, exactly one debit and one credit row of the same amount are appended,
  both can be read back by their idempotency keys, and every repetition is refused with
  \<^verbatim>\<open>ErrDuplicateEntry\<close> and changes nothing; a refused movement leaves the ledger as it was.
\<close>

theorem movement_recorded_once:
  assumes mv: "mv = NewMovement refType refID from to amount description"
    and op: "ApplyMovement (RecordMovement ctx) mv s = (res, s')"
  shows "(\<forall>e. res = Inl e \<longrightarrow> s' = s) \<and>
    (res = Inr () \<longrightarrow>
       (\<exists>d c. ledger s' = ledger s @ [d, c] \<and> le_AccountNumber d = from \<and> le_AccountNumber c = to \<and>
          entry_sign d = - amount \<and> entry_sign c = amount \<and> 0 < amount) \<and>
       (\<exists>x y. GetByIdempotencyKey (refID @ '':debit'') s' = Some x \<and> same_posting (mv_Debit mv) x \<and>
          GetByIdempotencyKey (refID @ '':credit'') s' = Some y \<and> same_posting (mv_Credit mv) y) \<and>
       ApplyMovement (RecordMovement ctx) mv s' = (Inl ErrDuplicateEntry, s'))"
proof (cases res)
  case (Inl e)
  with op ledger_store.ApplyMovement_error show ?thesis by blast
next
  case (Inr u)
  note op = op [unfolded Inr]
  note v = ledger_store.ApplyMovement_valid [OF op]
  have keys: "e_IdempotencyKey (mv_Debit mv) = refID @ '':debit''" "e_IdempotencyKey (mv_Credit mv) = refID @ '':credit''"
    by (simp_all add: mv NewMovement_def)
  from v(3) obtain d c s1 where d: "store_create ctx (mv_Debit mv) s = Inr (d, s1)"
    and c: "store_create ctx (mv_Credit mv) s1 = Inr (c, s')" by (rule RecordMovementE)
  have "0 < amount" using v(1) by (auto simp: valid_movement_def Validate_def mv NewMovement_def split: if_splits)
  moreover have "ledger s' = ledger s @ [d, c]" using store_createD(2) [OF d] store_createD(2) [OF c] by simp
  moreover have "le_AccountNumber d = from" "le_AccountNumber c = to" "entry_sign d = - amount" "entry_sign c = amount"
    using store_createD(1) [OF d] store_createD(1) [OF c]
    by (simp_all add: entry_sign_def toModel_def mv NewMovement_def type_string_def)
  moreover have "ApplyMovement (RecordMovement ctx) mv s' = (Inl ErrDuplicateEntry, s')"
    by (rule ledger_store.ApplyMovement_retry [OF op]) (simp add: keys)
  ultimately show ?thesis
    using ledger_store.stored [OF v(3,1), of "mv_Debit mv"] ledger_store.stored [OF v(3,1), of "mv_Credit mv"] Inr
    by (auto simp: keys)
qed

theorem movement_recorded_once_witness:
  "ApplyMovement (RecordMovement no_saga) (NewMovement ''t'' ''r1'' ''A'' ''B'' 5 [])
     (snd (ApplyMovement (RecordMovement no_saga) (NewMovement ''t'' ''r1'' ''A'' ''B'' 5 []) sample_db)) =
   (Inl ErrDuplicateEntry,
     snd (ApplyMovement (RecordMovement no_saga) (NewMovement ''t'' ''r1'' ''A'' ''B'' 5 []) sample_db))"
proof -
  have "fst (ApplyMovement (RecordMovement no_saga) (NewMovement ''t'' ''r1'' ''A'' ''B'' 5 []) sample_db) = Inr ()"
    by (simp add: ApplyMovement_def RecordMovement_def NewMovement_def Validate_def IsValid_def transaction_def
        movement_body_def store_create_def create_entry_def StampSagaContext_def no_saga_def toModel_def Let_def
        sample_simps)
  with movement_recorded_once [OF refl surjective_pairing, of no_saga "''t''" "''r1''" "''A''" "''B''" 5 "[]" sample_db]
  show ?thesis by simp
qed

end
