(* ===== verification/Account_Repository.thy ===== *)
theory Account_Repository
  imports Account_Ledger
begin

text \<open>
  The account repository of account-service (\<^verbatim>\<open>repository/account_repository.go\<close>) and the bank
  account operations (\<^verbatim>\<open>repository/bank_account_repository.go\<close>): the balance update with its
  idempotency key, spending limits and funds check, the bulk resets of spending counters, the row
  updates that skip the version hook, the soft delete, and the debits and credits of the bank's
  own accounts keyed by reference and direction.
\<close>

section \<open>Account rows\<close>

definition ErrSpendingLimit :: go_error where
  "ErrSpendingLimit = Plain ''spending limit exceeded''"

definition ErrInsufficientFunds :: go_error where
  "ErrInsufficientFunds = Plain ''insufficient funds''"

text \<open>
  \<^verbatim>\<open>r.db.Create(account)\<close>: zero fields that carry a default in the schema take it, the primary key
  comes from the sequence, and the unique index on account numbers also counts deleted rows.
\<close>

definition with_defaults :: "account \<Rightarrow> account" where
  "with_defaults a =
     a\<lparr>acc_DailyLimit := (if acc_DailyLimit a = 0 then 1000000 else acc_DailyLimit a),
       acc_MonthlyLimit := (if acc_MonthlyLimit a = 0 then 10000000 else acc_MonthlyLimit a),
       acc_Status := (if acc_Status a = [] then ''active'' else acc_Status a),
       acc_AccountType := (if acc_AccountType a = [] then ''standard'' else acc_AccountType a),
       acc_Version := (if acc_Version a = 0 then 1 else acc_Version a)\<rparr>"

definition Create :: "account \<Rightarrow> account_db \<Rightarrow> account result \<times> account_db" where
  "Create a s =
     (if \<exists>r \<in> set (accounts s). acc_AccountNumber r = acc_AccountNumber a
      then (Inl ErrDuplicateKey, s)
      else let row = (with_defaults a)\<lparr>acc_ID := seq_accounts s, acc_Deleted := False\<rparr>
           in (Inr row, s\<lparr>accounts := accounts s @ [row], seq_accounts := Suc (seq_accounts s)\<rparr>))"

definition live_accounts :: "account_db \<Rightarrow> account list" where
  "live_accounts s = filter (\<lambda>a. \<not> acc_Deleted a) (accounts s)"

text \<open>
  \<^verbatim>\<open>Model(&Account{}).Where(p).Updates(...)\<close> on live rows with hooks skipped, and the check of the
  number of affected rows that most callers make.
\<close>

definition update_live :: "(account \<Rightarrow> bool) \<Rightarrow> (account \<Rightarrow> account) \<Rightarrow> account_db \<Rightarrow> account_db" where
  "update_live p f s = s\<lparr>accounts := upd_rows (\<lambda>a. p a \<and> \<not> acc_Deleted a) f (accounts s)\<rparr>"

definition update_checked ::
  "(account \<Rightarrow> bool) \<Rightarrow> (account \<Rightarrow> account) \<Rightarrow> account_db \<Rightarrow> unit result \<times> account_db" where
  "update_checked p f s =
     (if \<exists>a \<in> set (live_accounts s). p a then (Inr (), update_live p f s)
      else (Inl ErrRecordNotFound, s))"

definition ListByClient :: "nat \<Rightarrow> nat \<Rightarrow> nat \<Rightarrow> account_db \<Rightarrow> account list \<times> nat" where
  "ListByClient clientID page pageSize s =
     (let rows = filter (\<lambda>a. acc_OwnerID a = clientID) (live_accounts s)
      in (take pageSize (drop ((page - 1) * pageSize) rows), length rows))"

definition ExistsByNameAndOwner :: "string \<Rightarrow> nat \<Rightarrow> nat \<Rightarrow> account_db \<Rightarrow> bool" where
  "ExistsByNameAndOwner name ownerID excludeID s \<longleftrightarrow>
     (\<exists>a \<in> set (live_accounts s). acc_AccountName a = name \<and> acc_OwnerID a = ownerID \<and>
        (excludeID > 0 \<longrightarrow> acc_ID a \<noteq> excludeID))"

definition UpdateName :: "nat \<Rightarrow> nat \<Rightarrow> string \<Rightarrow> account_db \<Rightarrow> unit result \<times> account_db" where
  "UpdateName i clientID newName =
     update_checked (\<lambda>a. acc_ID a = i \<and> acc_OwnerID a = clientID) (\<lambda>a. a\<lparr>acc_AccountName := newName\<rparr>)"

definition UpdateLimits ::
  "nat \<Rightarrow> decimal option \<Rightarrow> decimal option \<Rightarrow> account_db \<Rightarrow> unit result \<times> account_db" where
  "UpdateLimits i daily monthly =
     update_checked (\<lambda>a. acc_ID a = i)
       (\<lambda>a. a\<lparr>acc_DailyLimit := (case daily of None \<Rightarrow> acc_DailyLimit a | Some d \<Rightarrow> d),
              acc_MonthlyLimit := (case monthly of None \<Rightarrow> acc_MonthlyLimit a | Some m \<Rightarrow> m)\<rparr>)"

definition UpdateRowStatus :: "nat \<Rightarrow> string \<Rightarrow> account_db \<Rightarrow> unit result \<times> account_db" where
  "UpdateRowStatus i st = update_checked (\<lambda>a. acc_ID a = i) (\<lambda>a. a\<lparr>acc_Status := st\<rparr>)"

definition ListBankAccounts :: "account_db \<Rightarrow> account list" where
  "ListBankAccounts s = filter acc_IsBankAccount (live_accounts s)"

definition ListBankAccountsByCurrency :: "string \<Rightarrow> account_db \<Rightarrow> account list" where
  "ListBankAccountsByCurrency currency s =
     filter (\<lambda>a. acc_IsBankAccount a \<and> acc_CurrencyCode a = currency \<and> acc_Status a = ''active'')
       (live_accounts s)"

definition SoftDelete :: "nat \<Rightarrow> account_db \<Rightarrow> unit result \<times> account_db" where
  "SoftDelete i = update_checked (\<lambda>a. acc_ID a = i) (\<lambda>a. a\<lparr>acc_Deleted := True\<rparr>)"

definition ResetDailySpending :: "account_db \<Rightarrow> account_db" where
  "ResetDailySpending = update_live (\<lambda>a. acc_Status a = ''active'') (\<lambda>a. a\<lparr>acc_DailySpending := 0\<rparr>)"

definition ResetMonthlySpending :: "account_db \<Rightarrow> account_db" where
  "ResetMonthlySpending = update_live (\<lambda>a. acc_Status a = ''active'') (\<lambda>a. a\<lparr>acc_MonthlySpending := 0\<rparr>)"

definition ListActiveAccountsWithMaintenanceFee :: "account_db \<Rightarrow> account list" where
  "ListActiveAccountsWithMaintenanceFee s =
     filter (\<lambda>a. acc_Status a = ''active'' \<and> acc_MaintenanceFee a > 0 \<and> \<not> acc_IsBankAccount a)
       (live_accounts s)"

definition ListNonBankByOwner :: "nat \<Rightarrow> account_db \<Rightarrow> account list" where
  "ListNonBankByOwner ownerID s =
     filter (\<lambda>a. acc_OwnerID a = ownerID \<and> \<not> acc_IsBankAccount a) (live_accounts s)"

definition UpdateSpending :: "string \<Rightarrow> decimal \<Rightarrow> account_db \<Rightarrow> account_db" where
  "UpdateSpending n x =
     update_live (\<lambda>a. acc_AccountNumber a = n \<and> \<not> acc_IsBankAccount a)
       (\<lambda>a. a\<lparr>acc_DailySpending := acc_DailySpending a + x,
              acc_MonthlySpending := acc_MonthlySpending a + x\<rparr>)"

section \<open>The balance update\<close>

record update_balance_opts =
  ub_Memo :: string
  ub_IdempotencyKey :: string

definition spending_error :: "account \<Rightarrow> decimal \<Rightarrow> go_error option" where
  "spending_error acct amount =
     (if amount < 0 \<and> \<not> acc_IsBankAccount acct then
        (let debitAbs = \<bar>amount\<bar>
         in if acc_DailyLimit acct \<noteq> 0 \<and> acc_DailySpending acct + debitAbs > acc_DailyLimit acct
            then Some ErrSpendingLimit
            else if acc_MonthlyLimit acct \<noteq> 0 \<and>
                    acc_MonthlySpending acct + debitAbs > acc_MonthlyLimit acct
            then Some ErrSpendingLimit
            else None)
      else None)"

definition balance_update :: "decimal \<Rightarrow> bool \<Rightarrow> account \<Rightarrow> account" where
  "balance_update amount updateAvailable a =
     (let a1 = a\<lparr>acc_Balance := acc_Balance a + amount\<rparr>;
          a2 = (if updateAvailable
                then a1\<lparr>acc_AvailableBalance := acc_AvailableBalance a + amount\<rparr> else a1)
      in if amount < 0 \<and> \<not> acc_IsBankAccount a
         then a2\<lparr>acc_DailySpending := acc_DailySpending a + \<bar>amount\<bar>,
                 acc_MonthlySpending := acc_MonthlySpending a + \<bar>amount\<bar>\<rparr>
         else a2)"

definition balance_entry :: "string \<Rightarrow> decimal \<Rightarrow> update_balance_opts \<Rightarrow> account \<Rightarrow> ledger_entry" where
  "balance_entry n amount opts acct =
     \<lparr>le_ID = 0, le_AccountNumber = n,
      le_EntryType = (if amount < 0 then ''debit'' else ''credit''),
      le_Amount = (if amount < 0 then \<bar>amount\<bar> else amount),
      le_BalanceBefore = acc_Balance acct, le_BalanceAfter = acc_Balance acct + amount,
      le_Description = (if ub_Memo opts = [] then ''Balance update'' else ub_Memo opts),
      le_ReferenceID = [], le_ReferenceType = [], le_IdempotencyKey = ub_IdempotencyKey opts,
      le_SagaID = None, le_SagaStep = None\<rparr>"

definition update_balance_body ::
  "string \<Rightarrow> decimal \<Rightarrow> bool \<Rightarrow> update_balance_opts \<Rightarrow> account_db \<Rightarrow>
     go_error + (ledger_entry \<times> account_db)" where
  "update_balance_body n amount updateAvailable opts s =
     (case (if ub_IdempotencyKey opts \<noteq> []
            then find (\<lambda>e. le_IdempotencyKey e = ub_IdempotencyKey opts) (ledger s) else None) of
        Some existing \<Rightarrow> Inr (existing, s)
      | None \<Rightarrow>
          (case GetByNumber n s of
             None \<Rightarrow> Inl ErrRecordNotFound
           | Some acct \<Rightarrow>
               (case spending_error acct amount of
                  Some e \<Rightarrow> Inl e
                | None \<Rightarrow>
                    if amount < 0 \<and> acc_AvailableBalance acct + amount < 0
                    then Inl ErrInsufficientFunds
                    else
                      (case update_checked (\<lambda>a. acc_ID a = acc_ID acct)
                              (balance_update amount updateAvailable) s of
                         (Inl e, _) \<Rightarrow> Inl e
                       | (Inr _, s1) \<Rightarrow> create_entry (balance_entry n amount opts acct) s1))))"

definition UpdateBalance ::
  "string \<Rightarrow> decimal \<Rightarrow> bool \<Rightarrow> update_balance_opts \<Rightarrow> account_db \<Rightarrow> ledger_entry result \<times> account_db" where
  "UpdateBalance n amount updateAvailable opts =
     transaction (update_balance_body n amount updateAvailable opts)"

section \<open>The bank's own accounts\<close>

definition ErrInsufficientBankLiquidity :: go_error where
  "ErrInsufficientBankLiquidity = Plain ''bank insufficient liquidity''"

definition ErrBankAccountNotFound :: go_error where
  "ErrBankAccountNotFound = Plain ''bank sentinel account not found for currency''"

record bank_op_result =
  bo_AccountNumber :: string
  bo_NewBalance :: decimal
  bo_Replayed :: bool

text \<open>\<open>fixed4\<close> is the value of \<^verbatim>\<open>StringFixed(4)\<close>, the amount rounded to four digits.\<close>

definition bank_op_tx ::
  "(decimal \<Rightarrow> decimal) \<Rightarrow> string \<Rightarrow> decimal \<Rightarrow> string \<Rightarrow> string \<Rightarrow> string \<Rightarrow> account_db \<Rightarrow>
     go_error + (bank_op_result \<times> account_db)" where
  "bank_op_tx fixed4 currency amount reference reason direction s =
     (case find (\<lambda>o'. op_Reference o' = reference \<and> op_Direction o' = direction) (bank_ops s) of
        Some existing \<Rightarrow>
          Inr (\<lparr>bo_AccountNumber = op_AccountNumber existing,
                bo_NewBalance = fixed4 (op_NewBalance existing), bo_Replayed = True\<rparr>, s)
      | None \<Rightarrow>
          (case find (\<lambda>a. acc_IsBankAccount a \<and> acc_CurrencyCode a = currency) (live_accounts s) of
             None \<Rightarrow> Inl ErrBankAccountNotFound
           | Some acct \<Rightarrow>
               (case (if direction = ''debit'' then
                        (if acc_Balance acct < amount then Inl ErrInsufficientBankLiquidity
                         else Inr (acct\<lparr>acc_Balance := acc_Balance acct - amount,
                                        acc_AvailableBalance := acc_AvailableBalance acct - amount\<rparr>))
                      else if direction = ''credit'' then
                        Inr (acct\<lparr>acc_Balance := acc_Balance acct + amount,
                                  acc_AvailableBalance := acc_AvailableBalance acct + amount\<rparr>)
                      else Inl (Plain ''unknown direction'')) of
                  Inl e \<Rightarrow> Inl e
                | Inr acct1 \<Rightarrow>
                    (case save_account acct1 s of
                       Inl e \<Rightarrow> Inl e
                     | Inr s1 \<Rightarrow>
                         (let s2 = s1\<lparr>bank_ops := bank_ops s1 @
                                [\<lparr>op_Reference = reference, op_Direction = direction,
                                  op_Currency = currency, op_Amount = amount,
                                  op_AccountNumber = acc_AccountNumber acct1,
                                  op_NewBalance = acc_Balance acct1, op_Reason = reason\<rparr>]\<rparr>
                          in case create_entry
                                    (ledger_row (acc_AccountNumber acct1) direction amount (acc_Balance acct)
                                       (acc_Balance acct1) reason reference ''bank_op'') s2 of
                               Inl e \<Rightarrow> Inl e
                             | Inr (_, s3) \<Rightarrow>
                                 Inr (\<lparr>bo_AccountNumber = acc_AccountNumber acct1,
                                       bo_NewBalance = fixed4 (acc_Balance acct1),
                                       bo_Replayed = False\<rparr>, s3))))))"

definition applyBankOp ::
  "(decimal \<Rightarrow> decimal) \<Rightarrow> string \<Rightarrow> decimal \<Rightarrow> string \<Rightarrow> string \<Rightarrow> string \<Rightarrow> account_db \<Rightarrow>
     bank_op_result result \<times> account_db" where
  "applyBankOp fixed4 currency amount reference reason direction s =
     (if amount \<le> 0 then (Inl (Plain ''amount must be positive''), s)
      else if reference = [] then (Inl (Plain ''reference is required''), s)
      else transaction (bank_op_tx fixed4 currency amount reference reason direction) s)"

definition DebitBank ::
  "(decimal \<Rightarrow> decimal) \<Rightarrow> string \<Rightarrow> decimal \<Rightarrow> string \<Rightarrow> string \<Rightarrow> account_db \<Rightarrow>
     bank_op_result result \<times> account_db" where
  "DebitBank fixed4 currency amount reference reason =
     applyBankOp fixed4 currency amount reference reason ''debit''"

definition CreditBank ::
  "(decimal \<Rightarrow> decimal) \<Rightarrow> string \<Rightarrow> decimal \<Rightarrow> string \<Rightarrow> string \<Rightarrow> account_db \<Rightarrow>
     bank_op_result result \<times> account_db" where
  "CreditBank fixed4 currency amount reference reason =
     applyBankOp fixed4 currency amount reference reason ''credit''"

section \<open>Row updates\<close>

lemma live_accounts_iff: "a \<in> set (live_accounts s) \<longleftrightarrow> a \<in> set (accounts s) \<and> \<not> acc_Deleted a"
  by (auto simp: live_accounts_def)

lemma update_live_one:
  assumes "keys_ok s" "a \<in> set (accounts s)" "\<not> acc_Deleted a" "acc_ID (f a) = acc_ID a"
  shows "update_live (\<lambda>x. acc_ID x = acc_ID a) f s = s\<lparr>accounts := put_row acc_ID (f a) (accounts s)\<rparr>"
proof -
  have "upd_rows (\<lambda>x. acc_ID x = acc_ID a \<and> \<not> acc_Deleted x) f (accounts s) = put_row acc_ID (f a) (accounts s)"
    by (rule upd_rows_put [OF keys_okD(1) [OF assms(1)] assms(2)]) (use assms in auto)
  then show ?thesis by (simp add: update_live_def)
qed

text \<open>Updates of columns that no invariant mentions.\<close>

definition quiet_money :: "(account \<Rightarrow> account) \<Rightarrow> bool" where
  "quiet_money f \<longleftrightarrow>
     (\<forall>a. acc_ID (f a) = acc_ID a \<and> acc_AccountNumber (f a) = acc_AccountNumber a \<and>
        acc_Balance (f a) = acc_Balance a \<and>
        acc_AvailableBalance (f a) = acc_AvailableBalance a \<and>
        acc_ReservedBalance (f a) = acc_ReservedBalance a)"

definition quiet_update :: "(account \<Rightarrow> account) \<Rightarrow> bool" where
  "quiet_update f \<longleftrightarrow>
     (\<forall>a. same_row a (f a) \<and> acc_Balance (f a) = acc_Balance a \<and>
        acc_AvailableBalance (f a) = acc_AvailableBalance a \<and>
        acc_ReservedBalance (f a) = acc_ReservedBalance a)"

lemma update_live_tables [simp]:
  "ledger (update_live p f s) = ledger s" "reservations (update_live p f s) = reservations s"
  "settlements (update_live p f s) = settlements s" "outgoing (update_live p f s) = outgoing s"
  "incoming (update_live p f s) = incoming s" "seq_accounts (update_live p f s) = seq_accounts s"
  "seq_reservations (update_live p f s) = seq_reservations s" "bank_ops (update_live p f s) = bank_ops s"
  "cache_id (update_live p f s) = cache_id s" "cache_num (update_live p f s) = cache_num s"
  by (simp_all add: update_live_def)

lemma update_live_money:
  assumes ok: "funds_ok s" and q: "quiet_money f"
  shows "funds_ok (update_live p f s)" "ledger_gap (update_live p f s) n = ledger_gap s n"
proof -
  let ?s = "update_live p f s"
  have cols: "map g (accounts ?s) = map g (accounts s)" if "\<And>a. g (f a) = g a" for g :: "account \<Rightarrow> 'k"
    using that by (simp add: update_live_def map_upd_rows)
  have keys: "map acc_ID (accounts ?s) = map acc_ID (accounts s)"
    "map acc_AccountNumber (accounts ?s) = map acc_AccountNumber (accounts s)"
    using q by (auto intro!: cols simp: quiet_money_def)
  have rows: "\<exists>a \<in> set (accounts s). acc_ID b = acc_ID a \<and> acc_AccountNumber b = acc_AccountNumber a \<and>
      acc_Balance b = acc_Balance a \<and> acc_AvailableBalance b = acc_AvailableBalance a \<and>
      acc_ReservedBalance b = acc_ReservedBalance a" if "b \<in> set (accounts ?s)" for b
    using that q by (auto simp: update_live_def quiet_money_def elim!: in_upd_rowsE)
  have "keys_ok ?s"
    using funds_okD(1) [OF ok] keys rows unfolding keys_ok_def by simp metis
  moreover have "acct_ok ?s b" if b: "b \<in> set (accounts ?s)" for b
    using rows [OF b] funds_okD(2) [OF ok]
    by (force simp: acct_ok_def active_holds_def pending_out_def cong: if_cong)
  ultimately show "funds_ok ?s" using funds_okD(3) [OF ok] by (simp add: funds_ok_def res_ok_def)
  have "map_option acc_Balance (find (\<lambda>a. acc_AccountNumber a = n) (upd_rows r f xs)) =
      map_option acc_Balance (find (\<lambda>a. acc_AccountNumber a = n) xs)" for r xs
    using q by (induction xs) (auto simp: quiet_money_def)
  then have "map_option acc_Balance (find (\<lambda>a. acc_AccountNumber a = n) (accounts ?s)) =
      map_option acc_Balance (find (\<lambda>a. acc_AccountNumber a = n) (accounts s))"
    by (simp add: update_live_def)
  then have "balance_of ?s n = balance_of s n"
    by (auto simp: balance_of_def split: option.splits)
  then show "ledger_gap ?s n = ledger_gap s n" by (simp add: ledger_gap_def ledger_net_def)
qed

lemma quiet_update_money: "quiet_update f \<Longrightarrow> quiet_money f"
  by (simp add: quiet_update_def quiet_money_def same_row_def)

lemmas update_live_quiet = update_live_money [OF _ quiet_update_money]

lemma quiet_columns [simp]:
  "quiet_update (\<lambda>a. a\<lparr>acc_AccountName := x\<rparr>)" "quiet_update (\<lambda>a. a\<lparr>acc_Status := x\<rparr>)"
  "quiet_update (\<lambda>a. a\<lparr>acc_DailySpending := y\<rparr>)" "quiet_update (\<lambda>a. a\<lparr>acc_MonthlySpending := y\<rparr>)"
  "quiet_update (\<lambda>a. a\<lparr>acc_DailyLimit := f a, acc_MonthlyLimit := g a\<rparr>)"
  "quiet_update (\<lambda>a. a\<lparr>acc_DailySpending := f a, acc_MonthlySpending := g a\<rparr>)"
  by (simp_all add: quiet_update_def same_row_def)

section \<open>The balance update\<close>

lemma balance_update_sel [simp]:
  "acc_ID (balance_update x u a) = acc_ID a" "acc_AccountNumber (balance_update x u a) = acc_AccountNumber a"
  "acc_Balance (balance_update x u a) = acc_Balance a + x"
  "acc_AvailableBalance (balance_update x u a) = acc_AvailableBalance a + (if u then x else 0)"
  "acc_ReservedBalance (balance_update x u a) = acc_ReservedBalance a"
  "acc_IsBankAccount (balance_update x u a) = acc_IsBankAccount a"
  "acc_Status (balance_update x u a) = acc_Status a" "acc_Version (balance_update x u a) = acc_Version a"
  "acc_DailyLimit (balance_update x u a) = acc_DailyLimit a"
  "acc_MonthlyLimit (balance_update x u a) = acc_MonthlyLimit a"
  "same_row a (balance_update x u a)"
  by (simp_all add: balance_update_def Let_def same_row_def)

lemma balance_entry_sel [simp]:
  "le_AccountNumber (balance_entry n x opts a) = n"
  "le_IdempotencyKey (balance_entry n x opts a) = ub_IdempotencyKey opts"
  "entry_sign (balance_entry n x opts a) = x" "le_BalanceAfter (balance_entry n x opts a) = acc_Balance a + x"
  by (auto simp: balance_entry_def entry_sign_def)

definition after_balance :: "string \<Rightarrow> decimal \<Rightarrow> bool \<Rightarrow> update_balance_opts \<Rightarrow> account \<Rightarrow> account_db \<Rightarrow> account_db" where
  "after_balance n x u opts a s =
     s\<lparr>accounts := put_row acc_ID (balance_update x u a) (accounts s),
       ledger := ledger s @ [(balance_entry n x opts a)\<lparr>le_ID := seq_ledger s\<rparr>],
       seq_ledger := Suc (seq_ledger s)\<rparr>"

definition key_seen :: "string \<Rightarrow> account_db \<Rightarrow> bool" where
  "key_seen k s \<longleftrightarrow> k \<noteq> [] \<and> (\<exists>e \<in> set (ledger s). le_IdempotencyKey e = k)"

lemma update_balance_body_fresh:
  assumes "keys_ok s" "\<not> key_seen (ub_IdempotencyKey opts) s" and a: "GetByNumber n s = Some a"
    and "spending_error a x = None" "x < 0 \<Longrightarrow> 0 \<le> acc_AvailableBalance a + x"
  shows "update_balance_body n x u opts s =
    Inr ((balance_entry n x opts a)\<lparr>le_ID := seq_ledger s\<rparr>, after_balance n x u opts a s)"
proof -
  from GetByNumberD [OF a] have m: "a \<in> set (accounts s)" "\<not> acc_Deleted a" by auto
  have k: "(if ub_IdempotencyKey opts \<noteq> [] then find (\<lambda>e. le_IdempotencyKey e = ub_IdempotencyKey opts) (ledger s) else None) = None"
    using assms(2) by (auto simp: key_seen_def find_None_iff)
  have upd: "update_checked (\<lambda>b. acc_ID b = acc_ID a) (balance_update x u) s =
      (Inr (), s\<lparr>accounts := put_row acc_ID (balance_update x u a) (accounts s)\<rparr>)"
    using m update_live_one [OF assms(1) m, of "balance_update x u"]
    by (auto simp: update_checked_def live_accounts_iff)
  have "\<not> (ub_IdempotencyKey opts \<noteq> [] \<and> (\<exists>e \<in> set (ledger s). le_IdempotencyKey e = ub_IdempotencyKey opts))"
    using assms(2) by (auto simp: key_seen_def)
  then show ?thesis
    using assms(4,5) unfolding update_balance_body_def k
    by (auto simp: a upd create_entry_def Let_def after_balance_def)
qed

lemma update_balance_body_seen:
  assumes "key_seen (ub_IdempotencyKey opts) s"
  shows "\<exists>e. update_balance_body n x u opts s = Inr (e, s) \<and> e \<in> set (ledger s) \<and>
    le_IdempotencyKey e = ub_IdempotencyKey opts"
proof -
  from assms obtain e where "find (\<lambda>e. le_IdempotencyKey e = ub_IdempotencyKey opts) (ledger s) = Some e"
    by (cases "find (\<lambda>e. le_IdempotencyKey e = ub_IdempotencyKey opts) (ledger s)")
      (auto simp: key_seen_def find_None_iff)
  with assms find_SomeD [OF this] show ?thesis by (auto simp: update_balance_body_def key_seen_def)
qed

lemma update_balance_body_cases:
  assumes "keys_ok s" "update_balance_body n x u opts s = Inr (e, s')"
  obtains (replay) "key_seen (ub_IdempotencyKey opts) s" "s' = s" "e \<in> set (ledger s)"
      "le_IdempotencyKey e = ub_IdempotencyKey opts"
  | (fresh) a where "\<not> key_seen (ub_IdempotencyKey opts) s" "GetByNumber n s = Some a"
      "spending_error a x = None" "x < 0 \<longrightarrow> 0 \<le> acc_AvailableBalance a + x"
      "e = (balance_entry n x opts a)\<lparr>le_ID := seq_ledger s\<rparr>" "s' = after_balance n x u opts a s"
proof (cases "key_seen (ub_IdempotencyKey opts) s")
  case True
  with update_balance_body_seen [OF True, of n x u] assms(2) show ?thesis by (intro replay) auto
next
  case False
  then have k: "(if ub_IdempotencyKey opts \<noteq> [] then find (\<lambda>e. le_IdempotencyKey e = ub_IdempotencyKey opts) (ledger s) else None) = None"
    by (auto simp: key_seen_def find_None_iff)
  from assms(2) obtain a where a: "GetByNumber n s = Some a" "spending_error a x = None"
      "x < 0 \<longrightarrow> 0 \<le> acc_AvailableBalance a + x"
    unfolding update_balance_body_def k by (auto split: option.splits if_splits)
  from update_balance_body_fresh [OF assms(1) False a(1,2), of u] a(3) assms(2) show ?thesis
    by (intro fresh [OF False a]) auto
qed

lemma UpdateBalanceE:
  assumes "keys_ok s" "UpdateBalance n x u opts s = (res, s')"
  obtains (error) e where "res = Inl e" "s' = s"
  | (replay) e where "res = Inr e" "key_seen (ub_IdempotencyKey opts) s" "s' = s" "e \<in> set (ledger s)"
      "le_IdempotencyKey e = ub_IdempotencyKey opts"
  | (fresh) e a where "res = Inr e" "\<not> key_seen (ub_IdempotencyKey opts) s" "GetByNumber n s = Some a"
      "spending_error a x = None" "x < 0 \<longrightarrow> 0 \<le> acc_AvailableBalance a + x"
      "e = (balance_entry n x opts a)\<lparr>le_ID := seq_ledger s\<rparr>" "s' = after_balance n x u opts a s"
proof (cases rule: transaction_cases [of "update_balance_body n x u opts" s])
  case rollback
  with assms(2) error show ?thesis by (auto simp: UpdateBalance_def)
next
  case (commit e t)
  with assms(2) have eq: "res = Inr e" "s' = t" by (auto simp: UpdateBalance_def)
  from assms(1) commit(1) show ?thesis
    by (cases rule: update_balance_body_cases) (use eq in \<open>auto intro: replay fresh\<close>)
qed

lemma after_balance_keeps:
  assumes ok: "funds_ok s" and a: "GetByNumber n s = Some a"
  shows "funds_ok (after_balance n x True opts a s)"
    "ledger_gap (after_balance n x u opts a s) m = ledger_gap s m"
    "cache_fresh s \<Longrightarrow> cache_fresh (evictAccountCache (acc_ID a) n (after_balance n x u opts a s))"
    "keys_ok (after_balance n x u opts a s)"
    "GetByNumber m (after_balance n x u opts a s) = (if m = n then Some (balance_update x u a) else GetByNumber m s)"
proof -
  note keys = funds_okD(1) [OF ok]
  from GetByNumberD [OF a] have m: "a \<in> set (accounts s)" "\<not> acc_Deleted a" "acc_AccountNumber a = n" by auto
  show "funds_ok (after_balance n x True opts a s)"
    by (rule funds_ok_money_move [OF ok m(1), of "balance_update x True a"]) (simp_all add: after_balance_def)
  show "ledger_gap (after_balance n x u opts a s) m = ledger_gap s m"
    by (rule ledger_gap_move [OF keys m(1), of "balance_update x u a" _ "(balance_entry n x opts a)\<lparr>le_ID := seq_ledger s\<rparr>"])
      (simp_all add: after_balance_def m(3))
  show "cache_fresh (evictAccountCache (acc_ID a) n (after_balance n x u opts a s))" if "cache_fresh s"
    using cache_fresh_evict_touched [OF that keys m(1), of "balance_update x u a" "after_balance n x u opts a s"] m(3)
    by (simp add: after_balance_def)
  have "keys_ok (write_account (balance_update x u a) s)" by (rule keys_ok_write [OF keys m(1)]) simp
  then show "keys_ok (after_balance n x u opts a s)" by (simp add: keys_ok_def after_balance_def)
  show "GetByNumber m (after_balance n x u opts a s) = (if m = n then Some (balance_update x u a) else GetByNumber m s)"
    using GetByNumber_write [OF keys m(1,2), of "balance_update x u a" "after_balance n x u opts a s" m] m(3)
    by (simp add: after_balance_def)
qed

section \<open>Bank operations\<close>

lemma bank_op_txE:
  assumes "bank_op_tx fixed4 cur x ref reason dir s = Inr (out, s')"
  obtains (replay) op where "find (\<lambda>o'. op_Reference o' = ref \<and> op_Direction o' = dir) (bank_ops s) = Some op"
      "s' = s" "out = \<lparr>bo_AccountNumber = op_AccountNumber op, bo_NewBalance = fixed4 (op_NewBalance op), bo_Replayed = True\<rparr>"
  | (fresh) a d b e where "find (\<lambda>o'. op_Reference o' = ref \<and> op_Direction o' = dir) (bank_ops s) = None"
      "find (\<lambda>a. acc_IsBankAccount a \<and> acc_CurrencyCode a = cur) (live_accounts s) = Some a"
      "dir = ''debit'' \<and> d = - x \<and> x \<le> acc_Balance a \<or> dir = ''credit'' \<and> d = x"
      "b = a\<lparr>acc_Balance := acc_Balance a + d, acc_AvailableBalance := acc_AvailableBalance a + d,
             acc_Version := acc_Version a + 1\<rparr>"
      "e = ledger_row (acc_AccountNumber a) dir x (acc_Balance a) (acc_Balance a + d) reason ref ''bank_op''"
      "s' = s\<lparr>accounts := put_row acc_ID b (accounts s),
              bank_ops := bank_ops s @ [\<lparr>op_Reference = ref, op_Direction = dir, op_Currency = cur, op_Amount = x,
                 op_AccountNumber = acc_AccountNumber a, op_NewBalance = acc_Balance a + d, op_Reason = reason\<rparr>],
              ledger := ledger s @ [e\<lparr>le_ID := seq_ledger s\<rparr>], seq_ledger := Suc (seq_ledger s)\<rparr>"
      "out = \<lparr>bo_AccountNumber = acc_AccountNumber a, bo_NewBalance = fixed4 (acc_Balance a + d), bo_Replayed = False\<rparr>"
proof (cases "find (\<lambda>o'. op_Reference o' = ref \<and> op_Direction o' = dir) (bank_ops s)")
  case (Some op)
  with assms show ?thesis by (intro replay [OF Some]) (auto simp: bank_op_tx_def)
next
  case None
  from assms None obtain a where
    a: "find (\<lambda>a. acc_IsBankAccount a \<and> acc_CurrencyCode a = cur) (live_accounts s) = Some a"
    by (auto simp: bank_op_tx_def split: option.splits)
  from find_SomeD [OF a] have m: "a \<in> set (accounts s)" "\<not> acc_Deleted a" by (auto simp: live_accounts_iff)
  define d where "d = (if dir = ''debit'' then - x else x)"
  from assms None a have dir: "dir = ''debit'' \<and> d = - x \<and> x \<le> acc_Balance a \<or> dir = ''credit'' \<and> d = x"
    by (auto simp: bank_op_tx_def d_def split: if_splits)
  let ?a1 = "a\<lparr>acc_Balance := acc_Balance a + d, acc_AvailableBalance := acc_AvailableBalance a + d\<rparr>"
  have save: "save_account ?a1 s = Inr (s\<lparr>accounts := put_row acc_ID (?a1\<lparr>acc_Version := acc_Version a + 1\<rparr>) (accounts s)\<rparr>)"
    by (subst save_account_locked [of a]) (use m in simp_all)
  show ?thesis
    using assms None a dir save
    by (intro fresh [OF None a dir refl refl])
      (auto simp: bank_op_tx_def Let_def create_entry_no_key d_def)
qed

lemma applyBankOpE:
  assumes "applyBankOp fixed4 cur x ref reason dir s = (res, s')"
  obtains (error) e where "res = Inl e" "s' = s"
  | (ok) out where "res = Inr out" "0 < x" "bank_op_tx fixed4 cur x ref reason dir s = Inr (out, s')"
  using assms
  by (cases rule: transaction_cases [of "bank_op_tx fixed4 cur x ref reason dir" s])
    (auto simp: applyBankOp_def split: if_splits)

lemma applyBankOp_keeps:
  assumes ok: "funds_ok s" and op: "applyBankOp fixed4 cur x ref reason dir s = (res, s')"
  shows "funds_ok s' \<and> ledger_gap s' m = ledger_gap s m"
  using op
proof (cases rule: applyBankOpE)
  case (ok out)
  note keys = funds_okD(1) [OF assms(1)]
  from ok(3) show ?thesis
  proof (cases rule: bank_op_txE)
    case (fresh a d b e)
    from find_SomeD [OF fresh(2)] have m: "a \<in> set (accounts s)" by (auto simp: live_accounts_iff)
    have row: "same_row a b" by (simp add: fresh(4) same_row_def)
    have "funds_ok s'" by (rule funds_ok_money_move [OF assms(1) m row]) (simp_all add: fresh(4,6))
    moreover have "ledger_gap s' m = ledger_gap s m"
      by (rule ledger_gap_move [OF keys m row, of _ "e\<lparr>le_ID := seq_ledger s\<rparr>"])
        (use fresh(3) in \<open>auto simp: fresh(4-6) entry_sign_def\<close>)
    ultimately show ?thesis by simp
  qed (use assms(1) in simp)
qed (use ok in simp)

section \<open>Properties\<close>

text \<open>
  A balance update under an idempotency key happens at most once. After a successful
  \<^verbatim>\<open>UpdateBalance\<close> with a non-empty key, any call with the same key, whatever account, amount or
  memo it names, succeeds with the entry recorded under the key and changes nothing.
\<close>

theorem update_balance_once:
  assumes "keys_ok s" "ub_IdempotencyKey opts \<noteq> []" and op: "UpdateBalance n x u opts s = (Inr e, s1)"
    and "ub_IdempotencyKey opts' = ub_IdempotencyKey opts"
  shows "\<exists>e'. UpdateBalance n' x' u' opts' s1 = (Inr e', s1) \<and> e' \<in> set (ledger s1) \<and>
    le_IdempotencyKey e' = ub_IdempotencyKey opts"
proof -
  have "key_seen (ub_IdempotencyKey opts') s1"
    using assms(1) op
  proof (cases rule: UpdateBalanceE)
    case (fresh e' a)
    with assms(2,4) show ?thesis by (auto simp: key_seen_def after_balance_def)
  qed (use assms in \<open>auto simp: key_seen_def\<close>)
  from update_balance_body_seen [OF this, of n' x' u'] show ?thesis
    using assms(4) by (auto simp: UpdateBalance_def transaction_def)
qed

theorem update_balance_once_witness:
  "\<exists>e'. UpdateBalance ''A'' (-5) True \<lparr>ub_Memo = [], ub_IdempotencyKey = ''k''\<rparr>
       (snd (UpdateBalance ''A'' (-5) True \<lparr>ub_Memo = [], ub_IdempotencyKey = ''k''\<rparr> sample_db)) =
     (Inr e', snd (UpdateBalance ''A'' (-5) True \<lparr>ub_Memo = [], ub_IdempotencyKey = ''k''\<rparr> sample_db))"
proof -
  have "spending_error (sample_account 1 ''A'' ''RSD'' 100 False) (-5) = None"
    by (simp add: spending_error_def sample_account_def)
  then obtain e where "UpdateBalance ''A'' (-5) True \<lparr>ub_Memo = [], ub_IdempotencyKey = ''k''\<rparr> sample_db =
      (Inr e, snd (UpdateBalance ''A'' (-5) True \<lparr>ub_Memo = [], ub_IdempotencyKey = ''k''\<rparr> sample_db))"
    using update_balance_body_fresh [OF funds_okD(1) [OF sample_ok] _ sample_lookup(2),
        of "\<lparr>ub_Memo = [], ub_IdempotencyKey = ''k''\<rparr>" "-5" True]
    by (simp add: UpdateBalance_def transaction_def key_seen_def)
  from update_balance_once [OF funds_okD(1) [OF sample_ok] _ this refl] show ?thesis by fastforce
qed

text \<open>
  C12: what a balance update may do to an account. On an account that exists and under a fresh key,
  \<^verbatim>\<open>UpdateBalance\<close> either refuses, because a client's debit would pass a non-zero daily or monthly
  limit or because the available balance does not cover the debit, and then changes nothing; or it
  adds the signed amount to the balance and to the available balance and appends one entry whose
  signed amount is that amount. After a successful debit the available balance is not negative and
  a client's spending is within its limits.
\<close>

theorem update_balance_effect:
  assumes ok: "funds_ok s" and k: "\<not> key_seen (ub_IdempotencyKey opts) s" and a: "GetByNumber n s = Some a"
    and op: "UpdateBalance n x True opts s = (res, s')"
  shows "(\<forall>e. res = Inl e \<longrightarrow> s' = s \<and> x < 0 \<and>
       (e = ErrSpendingLimit \<and> spending_error a x \<noteq> None \<or>
        e = ErrInsufficientFunds \<and> acc_AvailableBalance a + x < 0)) \<and>
    (\<forall>e. res = Inr e \<longrightarrow>
       (\<exists>b. GetByNumber n s' = Some b \<and> acc_Balance b = acc_Balance a + x \<and>
          acc_AvailableBalance b = acc_AvailableBalance a + x \<and>
          acc_ReservedBalance b = acc_ReservedBalance a \<and>
          (x < 0 \<longrightarrow> 0 \<le> acc_AvailableBalance b) \<and>
          (x < 0 \<and> \<not> acc_IsBankAccount a \<longrightarrow>
             acc_DailySpending b = acc_DailySpending a - x \<and>
             (acc_DailyLimit a \<noteq> 0 \<longrightarrow> acc_DailySpending b \<le> acc_DailyLimit b) \<and>
             (acc_MonthlyLimit a \<noteq> 0 \<longrightarrow> acc_MonthlySpending b \<le> acc_MonthlyLimit b))) \<and>
       ledger s' = ledger s @ [e] \<and> le_AccountNumber e = n \<and> entry_sign e = x \<and>
       (\<forall>m. m \<noteq> n \<longrightarrow> GetByNumber m s' = GetByNumber m s))"
proof (cases "spending_error a x = None \<and> (x < 0 \<longrightarrow> 0 \<le> acc_AvailableBalance a + x)")
  case True
  with update_balance_body_fresh [OF funds_okD(1) [OF ok] k a, of x True] op
  have res: "res = Inr ((balance_entry n x opts a)\<lparr>le_ID := seq_ledger s\<rparr>)" "s' = after_balance n x True opts a s"
    by (auto simp: UpdateBalance_def transaction_def)
  have lookup: "GetByNumber m s' = (if m = n then Some (balance_update x True a) else GetByNumber m s)" for m
    using after_balance_keeps(5) [OF ok a] by (simp add: res)
  have spending: "acc_DailySpending (balance_update x True a) = acc_DailySpending a - x"
    "acc_MonthlySpending (balance_update x True a) = acc_MonthlySpending a - x"
    if "x < 0" "\<not> acc_IsBankAccount a"
    using that by (simp_all add: balance_update_def Let_def)
  show ?thesis
    using True lookup spending
    by (auto simp: res after_balance_def spending_error_def Let_def not_less split: if_splits)
next
  case False
  then have k': "(if ub_IdempotencyKey opts \<noteq> [] then find (\<lambda>e. le_IdempotencyKey e = ub_IdempotencyKey opts) (ledger s) else None) = None"
    using k by (auto simp: key_seen_def find_None_iff)
  from False op show ?thesis
    unfolding UpdateBalance_def transaction_def update_balance_body_def k'
    by (auto simp: a spending_error_def Let_def split: option.splits if_splits)
qed

theorem update_balance_effect_witness:
  "\<exists>e. fst (UpdateBalance ''A'' (-101) True \<lparr>ub_Memo = [], ub_IdempotencyKey = []\<rparr> sample_db) = Inl e \<and>
       snd (UpdateBalance ''A'' (-101) True \<lparr>ub_Memo = [], ub_IdempotencyKey = []\<rparr> sample_db) = sample_db"
  using update_balance_effect [OF sample_ok _ sample_lookup(2) surjective_pairing,
      of "\<lparr>ub_Memo = [], ub_IdempotencyKey = []\<rparr>" "-101"]
  by (cases "fst (UpdateBalance ''A'' (-101) True \<lparr>ub_Memo = [], ub_IdempotencyKey = []\<rparr> sample_db)")
    (auto simp: key_seen_def)

text \<open>
  A debit or credit of the bank's own account is applied once per reference and direction.
  When \<^verbatim>\<open>applyBankOp\<close> applies an operation, the balance of the first live bank account in that
  currency moves by the amount, never below zero on a debit, with one ledger entry; repeating it
  reports the same account and balance as a replay and changes nothing.
\<close>

theorem bank_op_once:
  assumes ok: "funds_ok s" and op: "applyBankOp fixed4 cur x ref reason dir s = (Inr out, s')"
    and first: "\<not> bo_Replayed out"
  shows "applyBankOp fixed4 cur x ref reason' dir s' = (Inr (out\<lparr>bo_Replayed := True\<rparr>), s') \<and>
    (\<exists>a e d. a \<in> set (accounts s) \<and> acc_IsBankAccount a \<and> acc_CurrencyCode a = cur \<and>
       bo_AccountNumber out = acc_AccountNumber a \<and> bo_NewBalance out = fixed4 (acc_Balance a + d) \<and>
       d = (if dir = ''debit'' then - x else x) \<and> (dir = ''debit'' \<longrightarrow> 0 \<le> acc_Balance a + d) \<and>
       balance_of s' (acc_AccountNumber a) = acc_Balance a + d \<and>
       ledger s' = ledger s @ [e] \<and> entry_sign e = d)"
  using op
proof (cases rule: applyBankOpE)
  case (ok out')
  have ref: "ref \<noteq> []" using op by (auto simp: applyBankOp_def split: if_splits)
  from ok(3) show ?thesis
  proof (cases rule: bank_op_txE)
    case replay
    with ok(1) first show ?thesis by simp
  next
    case (fresh a d b e)
    from find_SomeD [OF fresh(2)] have m: "a \<in> set (accounts s)" "acc_IsBankAccount a" "acc_CurrencyCode a = cur"
      by (auto simp: live_accounts_iff)
    have "balance_of s' (acc_AccountNumber a) = acc_Balance a + d"
      using balance_of_write [OF funds_okD(1) [OF assms(1)] m(1), of b s'] by (simp add: fresh(4,6) same_row_def)
    moreover have "applyBankOp fixed4 cur x ref reason' dir s' = (Inr (out\<lparr>bo_Replayed := True\<rparr>), s')"
      using ok fresh(1) ref by (simp add: applyBankOp_def bank_op_tx_def fresh(6,7) transaction_def)
    ultimately show ?thesis
      using m fresh(3) ok(1)
      by (intro conjI exI [of _ a] exI [of _ "e\<lparr>le_ID := seq_ledger s\<rparr>"] exI [of _ d])
        (auto simp: fresh(5,6,7) entry_sign_def)
  qed
qed simp

theorem bank_op_once_witness:
  "\<exists>out. applyBankOp id ''RSD'' 100 ''loan-1'' ''r'' ''debit''
       (snd (applyBankOp id ''RSD'' 100 ''loan-1'' ''r'' ''debit'' sample_db)) =
     (Inr out, snd (applyBankOp id ''RSD'' 100 ''loan-1'' ''r'' ''debit'' sample_db)) \<and> bo_Replayed out"
proof -
  have "applyBankOp id ''RSD'' 100 ''loan-1'' ''r'' ''debit'' sample_db =
      (Inr \<lparr>bo_AccountNumber = ''B'', bo_NewBalance = 400, bo_Replayed = False\<rparr>,
       snd (applyBankOp id ''RSD'' 100 ''loan-1'' ''r'' ''debit'' sample_db))"
    by (simp add: applyBankOp_def bank_op_tx_def transaction_def live_accounts_def save_account_def
        create_entry_def ledger_row_def Let_def sample_simps)
  from bank_op_once [OF sample_ok this] show ?thesis by simp
qed

end
