(* ===== verification/Account_Number.thy ===== *)
theory Account_Number
  imports Prelude
begin

text \<open>
  Account numbers (\<^verbatim>\<open>src/account-service/internal/service/account_number_generation.go\<close>). The
  random source is an argument: the list of the values \<^verbatim>\<open>rand.Int\<close> returns, \<open>None\<close> where it fails.
  The unbounded retry loop consumes one value per round, so \<open>None\<close> as the result means that the
  loop is still running when the listed draws are used up.
\<close>

section \<open>Definitions\<close>

definition is_digit :: "char \<Rightarrow> bool" where
  "is_digit c \<longleftrightarrow> 48 \<le> (of_char c :: nat) \<and> (of_char c :: nat) \<le> 57"

definition branchCode :: string where
  "branchCode = ''0001''"

text \<open>\<open>SetBankCode\<close> panics, \<open>None\<close> here, unless the code is three digits.\<close>

definition SetBankCode :: "string \<Rightarrow> string option" where
  "SetBankCode code = (if length code = 3 \<and> list_all is_digit code then Some code else None)"

definition accountTypeCode :: "string \<Rightarrow> string" where
  "accountTypeCode kind =
     (if kind = ''current'' then ''11'' else if kind = ''foreign'' then ''21'' else ''10'')"

function padLeft :: "string \<Rightarrow> nat \<Rightarrow> string" where
  "padLeft s n = (if length s < n then padLeft (''0'' @ s) n else s)"
  by pat_completeness auto
termination by (relation "measure (\<lambda>(s, n). n - length s)") auto

declare padLeft.simps [simp del]

definition generateRandomDigits :: "nat \<Rightarrow> nat option \<Rightarrow> string" where
  "generateRandomDigits n val = (case val of None \<Rightarrow> padLeft ''0'' n | Some v \<Rightarrow> padLeft (itoa v) n)"

definition digit_sum :: "string \<Rightarrow> int" where
  "digit_sum s = sum_list (map (\<lambda>c. int (of_char c) - 48) s)"

definition calculateModulo11CheckDigit :: "string \<Rightarrow> int" where
  "calculateModulo11CheckDigit s =
     (let remainder = digit_sum s mod 11 in if remainder = 0 then 0 else 11 - remainder)"

definition account_partial :: "string \<Rightarrow> nat option \<Rightarrow> string" where
  "account_partial bankCode draw = bankCode @ branchCode @ generateRandomDigits 8 draw"

definition check_digit :: "string \<Rightarrow> string \<Rightarrow> nat option \<Rightarrow> int" where
  "check_digit bankCode kind draw =
     calculateModulo11CheckDigit (account_partial bankCode draw @ ''0'' @ accountTypeCode kind)"

fun GenerateAccountNumber :: "string \<Rightarrow> string \<Rightarrow> nat option list \<Rightarrow> string option" where
  "GenerateAccountNumber bankCode kind [] = None"
| "GenerateAccountNumber bankCode kind (draw # draws) =
     (let checkDigit = check_digit bankCode kind draw
      in if checkDigit \<ge> 10 then GenerateAccountNumber bankCode kind draws
         else Some (account_partial bankCode draw @ itoa (nat checkDigit) @ accountTypeCode kind))"

section \<open>Lemmas\<close>

lemma digit_char_code: "d < 10 \<Longrightarrow> (of_char (digit_char d) :: nat) = 48 + d"
  by (simp add: digit_char_def)

lemma digit_char_digit: "d < 10 \<Longrightarrow> is_digit (digit_char d)"
  by (simp add: is_digit_def digit_char_code)

lemma itoa_digits: "list_all is_digit (itoa n)"
  by (auto simp: itoa_def list_all_iff dest: digits_of_lt10 digit_char_digit)

lemma length_digits_of: "n < 10 ^ k \<Longrightarrow> 0 < k \<Longrightarrow> length (digits_of n) \<le> k"
proof (induction n arbitrary: k rule: digits_of.induct)
  case (1 n)
  show ?case
  proof (cases "n < 10")
    case True
    with 1(3) show ?thesis by (subst digits_of.simps) simp
  next
    case False
    obtain j where k: "k = Suc j" using 1(3) by (cases k) auto
    have j: "0 < j" using 1(2) k False by (cases j) auto
    from 1(2) k have "n div 10 < 10 ^ j" by (simp add: div_less_iff_less_mult mult.commute)
    with 1(1) [OF False _ j] have "length (digits_of (n div 10)) \<le> j" by simp
    with False k show ?thesis by (subst digits_of.simps) simp
  qed
qed

lemma padLeft_length: "length s \<le> n \<Longrightarrow> length (padLeft s n) = n"
proof (induction s n rule: padLeft.induct)
  case (1 s n)
  then show ?case by (cases "length s < n") (simp_all add: padLeft.simps [of s])
qed

lemma padLeft_digits: "list_all is_digit s \<Longrightarrow> list_all is_digit (padLeft s n)"
proof (induction s n rule: padLeft.induct)
  case (1 s n)
  then show ?case by (cases "length s < n") (simp_all add: padLeft.simps [of s] is_digit_def)
qed

definition draw_ok :: "nat option \<Rightarrow> bool" where
  "draw_ok d \<longleftrightarrow> (\<forall>v. d = Some v \<longrightarrow> v < 10 ^ 8)"

lemma random_digits:
  assumes "draw_ok d"
  shows "length (generateRandomDigits 8 d) = 8 \<and> list_all is_digit (generateRandomDigits 8 d)"
proof (cases d)
  case None
  then show ?thesis
    using padLeft_length [of "''0''" 8] padLeft_digits [of "''0''" 8]
    by (simp add: generateRandomDigits_def is_digit_def)
next
  case (Some v)
  with assms have "length (itoa v) \<le> 8"
    using length_digits_of [of v 8] by (simp add: draw_ok_def itoa_def)
  with Some padLeft_length [of "itoa v" 8] padLeft_digits [OF itoa_digits, of v 8] show ?thesis
    by (simp add: generateRandomDigits_def)
qed

lemma digit_sum_append [simp]: "digit_sum (s @ t) = digit_sum s + digit_sum t"
  by (simp add: digit_sum_def)

lemma digit_sum_zero [simp]: "digit_sum (CHR ''0'' # s) = digit_sum s"
  by (simp add: digit_sum_def)

lemma itoa_single: "0 \<le> c \<Longrightarrow> c < 10 \<Longrightarrow> length (itoa (nat c)) = 1 \<and> digit_sum (itoa (nat c)) = c"
proof -
  assume c: "0 \<le> c" "c < 10"
  then have "nat c < 10" by simp
  then have "digits_of (nat c) = [nat c]" by (subst digits_of.simps) simp
  with c show ?thesis by (simp add: itoa_def digit_sum_def digit_char_code)
qed

lemma check_digit_range: "0 \<le> check_digit b k d \<and> check_digit b k d \<le> 10"
proof -
  have "0 \<le> x mod 11" "x mod 11 < 11" for x :: int by simp_all
  then show ?thesis
    unfolding check_digit_def calculateModulo11CheckDigit_def Let_def by (smt (verit))
qed

lemma type_code: "length (accountTypeCode k) = 2 \<and> list_all is_digit (accountTypeCode k)"
  by (simp add: accountTypeCode_def is_digit_def)

text \<open>The number a good draw gives.\<close>

definition valid_number :: "string \<Rightarrow> string \<Rightarrow> string \<Rightarrow> bool" where
  "valid_number bankCode kind num \<longleftrightarrow>
     length num = 18 \<and> list_all is_digit num \<and> digit_sum num mod 11 = 0 \<and>
     take 7 num = bankCode @ branchCode \<and> drop 16 num = accountTypeCode kind"

lemma number_of_draw:
  assumes "length bankCode = 3" "list_all is_digit bankCode" "draw_ok d" "check_digit bankCode kind d < 10"
  shows "valid_number bankCode kind
    (account_partial bankCode d @ itoa (nat (check_digit bankCode kind d)) @ accountTypeCode kind)"
proof -
  let ?c = "check_digit bankCode kind d" and ?r = "generateRandomDigits 8 d"
  note r = random_digits [OF assms(3)] and t = type_code [of kind]
  have one: "length (itoa (nat ?c)) = 1" "digit_sum (itoa (nat ?c)) = ?c"
    using itoa_single [of ?c] check_digit_range assms(4) by auto
  have "(t + (p + (11 - (p + t) mod 11))) mod 11 = 0" for p t :: int by presburger
  then have "digit_sum (account_partial bankCode d @ itoa (nat ?c) @ accountTypeCode kind) mod 11 = 0"
    using one(2) unfolding check_digit_def calculateModulo11CheckDigit_def Let_def
    by (auto simp: ac_simps split: if_splits)
  moreover have "length (itoa (nat ?c)) = Suc 0" using one(1) by simp
  ultimately show ?thesis
    using r t assms(1,2) itoa_digits [of "nat ?c"]
    by (simp add: valid_number_def account_partial_def branchCode_def is_digit_def)
qed

section \<open>Properties\<close>

text \<open>
  C17: generated account numbers. With a three-digit bank code and draws below ten to the eighth,
  \<^verbatim>\<open>GenerateAccountNumber\<close> returns as soon as one of the draws has a check digit below ten, and
  never without; the number it returns has 18 decimal digits, starts with the bank and branch
  codes, ends with the code of the account kind, and its digits sum to a multiple of 11.
\<close>

theorem account_number_valid:
  assumes "SetBankCode code = Some bankCode" and "list_all draw_ok draws"
  shows "(GenerateAccountNumber bankCode kind draws \<noteq> None \<longleftrightarrow>
       (\<exists>d. d \<in> set draws \<and> check_digit bankCode kind d < 10)) \<and>
     (case GenerateAccountNumber bankCode kind draws of
        None \<Rightarrow> True | Some num \<Rightarrow> valid_number bankCode kind num)"
proof -
  have b: "length bankCode = 3" "list_all is_digit bankCode"
    using assms(1) by (auto simp: SetBankCode_def split: if_splits)
  from assms(2) show ?thesis
  proof (induction draws)
    case (Cons d draws)
    then show ?case
      using number_of_draw [OF b, of d kind] by (auto simp: Let_def not_le)
  qed simp
qed

theorem account_number_valid_witness:
  "\<exists>num. GenerateAccountNumber ''111'' ''current'' [Some 12345678] = Some num \<and>
     valid_number ''111'' ''current'' num"
proof -
  have code: "SetBankCode ''111'' = Some ''111''" by (simp add: SetBankCode_def is_digit_def)
  have "check_digit ''111'' ''current'' (Some 12345678) < 10"
    by (simp add: check_digit_def calculateModulo11CheckDigit_def digit_sum_def account_partial_def
        branchCode_def generateRandomDigits_def padLeft.simps itoa_def digits_of.simps digit_char_def
        accountTypeCode_def)
  with account_number_valid [OF code, of "[Some 12345678]" "''current''"] show ?thesis
    by (auto simp: draw_ok_def split: option.splits)
qed

end
