(* ===== verification/Account_Service.thy ===== *)
theory Account_Service
  imports Account_Repository Account_Number
begin

text \<open>
  The account service (\<^verbatim>\<open>src/account-service/internal/service/account_service.go\<close>), the monthly
  maintenance charge (\<^verbatim>\<open>maintenance_cron.go\<close>), the replay cache of saga-driven calls
  (\<^verbatim>\<open>repository/idempotency_repository.go\<close>) with the \<^verbatim>\<open>UpdateBalance\<close> RPC handler over it, and the
  limit-policy read model (\<^verbatim>\<open>repository/client_limit_policy_repository.go\<close>).

  Event publishing, the changelog and metrics are left out. Arguments stand for what is not in the
  repository: \<open>parse\<close> is \<^verbatim>\<open>decimal.NewFromString\<close>, \<open>fixed4\<close> is \<^verbatim>\<open>StringFixed(4)\<close>, \<open>marshal\<close> and
  \<open>unmarshal\<close> are the protobuf codec, \<open>client_name\<close> is the client lookup, \<open>draws\<close> the random
  source and \<open>now\<close> the clock.
\<close>

section \<open>Errors\<close>

definition ErrAccountNotFound :: go_error where
  "ErrAccountNotFound = Status NotFound ''account not found''"

definition ErrInsufficientBalance :: go_error where
  "ErrInsufficientBalance = Status FailedPrecondition ''insufficient balance''"

definition ErrAccountInactive :: go_error where
  "ErrAccountInactive = Status FailedPrecondition ''account inactive''"

definition ErrSpendingLimitExceeded :: go_error where
  "ErrSpendingLimitExceeded = Status ResourceExhausted ''spending limit exceeded''"

definition ErrLastBankAccount :: go_error where
  "ErrLastBankAccount = Status FailedPrecondition ''cannot delete last bank account of currency''"

definition ErrInvalidAccount :: go_error where
  "ErrInvalidAccount = Status InvalidArgument ''invalid account configuration''"

definition ErrAccountNameDuplicate :: go_error where
  "ErrAccountNameDuplicate = Status AlreadyExists ''account name already exists''"

definition ErrInvalidStatus :: go_error where
  "ErrInvalidStatus = Status InvalidArgument ''invalid account status''"

definition ErrIdempotencyMissing :: go_error where
  "ErrIdempotencyMissing = Status InvalidArgument ''idempotency_key required''"

section \<open>Creating accounts\<close>

definition BankOwnerID :: nat where "BankOwnerID = 1000000000"

definition StateOwnerID :: nat where "StateOwnerID = 2000000000"

definition maintenanceFeeByType :: "string \<Rightarrow> decimal" where
  "maintenanceFeeByType accountType =
     (if accountType = ''premium'' then 500
      else if accountType = ''student'' then 0
      else if accountType = ''youth'' then 0
      else if accountType = ''pension'' then 100
      else 220)"

definition hasHumanOwner :: "account \<Rightarrow> bool" where
  "hasHumanOwner a \<longleftrightarrow>
     \<not> acc_IsBankAccount a \<and> acc_OwnerID a \<noteq> BankOwnerID \<and> acc_OwnerID a \<noteq> StateOwnerID"

definition account_error :: "account \<Rightarrow> account_db \<Rightarrow> go_error option" where
  "account_error a s =
     (if acc_OwnerID a = 0 then Some ErrInvalidAccount
      else if acc_CurrencyCode a = [] then Some ErrInvalidAccount
      else if acc_AccountKind a \<noteq> ''current'' \<and> acc_AccountKind a \<noteq> ''foreign'' then Some ErrInvalidAccount
      else if acc_AccountKind a = ''current'' \<and> acc_CurrencyCode a \<noteq> ''RSD'' then Some ErrInvalidAccount
      else if acc_AccountKind a = ''foreign'' \<and> acc_CurrencyCode a = ''RSD'' then Some ErrInvalidAccount
      else if acc_AccountName a \<noteq> [] \<and> ExistsByNameAndOwner (acc_AccountName a) (acc_OwnerID a) 0 s
      then Some ErrAccountNameDuplicate
      else None)"

text \<open>
  The calendar arithmetic \<^verbatim>\<open>time.Now().AddDate(years, 0, 0)\<close> is the argument \<open>add_years\<close>. The outer
  \<open>None\<close> means that the number generator is still drawing.
\<close>

definition CreateAccount ::
  "string \<Rightarrow> nat option list \<Rightarrow> (nat \<Rightarrow> int) \<Rightarrow> (nat \<Rightarrow> string) \<Rightarrow> account \<Rightarrow> account_db \<Rightarrow>
     (account result \<times> account_db) option" where
  "CreateAccount bankCode draws add_years client_name a s =
     (case account_error a s of
        Some e \<Rightarrow> Some (Inl e, s)
      | None \<Rightarrow>
          (case GenerateAccountNumber bankCode (acc_AccountKind a) draws of
             None \<Rightarrow> None
           | Some number \<Rightarrow>
               (let a1 = a\<lparr>acc_AccountNumber := number, acc_ExpiresAt := add_years 5,
                           acc_Status := ''active'',
                           acc_MaintenanceFee := maintenanceFeeByType (acc_AccountType a)\<rparr>;
                    a2 = (if acc_OwnerName a1 = [] \<and> hasHumanOwner a1 \<and> client_name (acc_OwnerID a1) \<noteq> []
                          then a1\<lparr>acc_OwnerName := client_name (acc_OwnerID a1)\<rparr> else a1)
                in Some (Create a2 s))))"

definition CreateBankAccount ::
  "string \<Rightarrow> nat option list \<Rightarrow> (nat \<Rightarrow> int) \<Rightarrow> string \<Rightarrow> string \<Rightarrow> string \<Rightarrow> decimal \<Rightarrow> account_db \<Rightarrow>
     (account result \<times> account_db) option" where
  "CreateBankAccount bankCode draws add_years currencyCode accountKind accountName initialBalance s =
     (if accountKind \<noteq> ''current'' \<and> accountKind \<noteq> ''foreign'' then Some (Inl ErrInvalidAccount, s)
      else if currencyCode = [] then Some (Inl ErrInvalidAccount, s)
      else if accountName \<noteq> [] \<and> ExistsByNameAndOwner accountName BankOwnerID 0 s
      then Some (Inl ErrAccountNameDuplicate, s)
      else case GenerateAccountNumber bankCode accountKind draws of
             None \<Rightarrow> None
           | Some number \<Rightarrow>
               Some (Create
                 \<lparr>acc_ID = 0, acc_AccountNumber = number, acc_AccountName = accountName,
                  acc_OwnerID = BankOwnerID, acc_OwnerName = ''EX Banka'', acc_Balance = initialBalance,
                  acc_AvailableBalance = initialBalance, acc_ReservedBalance = 0, acc_EmployeeID = 0,
                  acc_ExpiresAt = add_years 50, acc_CurrencyCode = currencyCode, acc_Status = ''active'',
                  acc_AccountKind = accountKind, acc_AccountType = ''bank'', acc_AccountCategory = [],
                  acc_MaintenanceFee = 0, acc_DailyLimit = 0, acc_MonthlyLimit = 0,
                  acc_DailySpending = 0, acc_MonthlySpending = 0, acc_CompanyID = None,
                  acc_IsBankAccount = True, acc_Version = 0, acc_Deleted = False\<rparr> s))"

section \<open>Reads through the cache\<close>

definition GetAccount :: "nat \<Rightarrow> account_db \<Rightarrow> account result \<times> account_db" where
  "GetAccount i s =
     (case cache_id s i of
        Some cached \<Rightarrow> (Inr cached, s)
      | None \<Rightarrow>
          (case GetByID i s of
             None \<Rightarrow> (Inl ErrRecordNotFound, s)
           | Some account \<Rightarrow> (Inr account, s\<lparr>cache_id := (cache_id s)(i \<mapsto> account)\<rparr>)))"

definition GetAccountByNumber :: "string \<Rightarrow> account_db \<Rightarrow> account result \<times> account_db" where
  "GetAccountByNumber n s =
     (case cache_num s n of
        Some cached \<Rightarrow> (Inr cached, s)
      | None \<Rightarrow>
          (case GetByNumber n s of
             None \<Rightarrow> (Inl ErrRecordNotFound, s)
           | Some account \<Rightarrow> (Inr account, s\<lparr>cache_num := (cache_num s)(n \<mapsto> account)\<rparr>)))"

definition ListAccountsByClient :: "nat \<Rightarrow> int \<Rightarrow> int \<Rightarrow> account_db \<Rightarrow> account list \<times> nat" where
  "ListAccountsByClient clientID page pageSize s =
     ListByClient clientID (nat (if page \<le> 0 then 1 else page)) (nat (if pageSize \<le> 0 then 10 else pageSize)) s"

section \<open>Updates\<close>

definition UpdateAccountName :: "nat \<Rightarrow> nat \<Rightarrow> string \<Rightarrow> account_db \<Rightarrow> unit result \<times> account_db" where
  "UpdateAccountName i clientID newName s =
     (case GetByID i s of
        None \<Rightarrow> (Inl ErrAccountNotFound, s)
      | Some account \<Rightarrow>
          if ExistsByNameAndOwner newName clientID i s then (Inl ErrAccountNameDuplicate, s)
          else case UpdateName i clientID newName s of
                 (Inl e, s') \<Rightarrow> (Inl e, s')
               | (Inr _, s') \<Rightarrow> (Inr (), evictAccountCache i (acc_AccountNumber account) s'))"

text \<open>The value of one optional limit argument: nothing to do, a refusal or the new limit.\<close>

definition limit_arg :: "(string \<Rightarrow> decimal option) \<Rightarrow> string option \<Rightarrow> decimal option result" where
  "limit_arg parse arg =
     (case arg of
        None \<Rightarrow> Inr None
      | Some x \<Rightarrow>
          if x = [] then Inr None
          else case parse x of
                 None \<Rightarrow> Inl ErrInvalidAccount
               | Some d \<Rightarrow> if d \<le> 0 then Inl ErrInvalidAccount else Inr (Some d))"

definition UpdateAccountLimits ::
  "(string \<Rightarrow> decimal option) \<Rightarrow> nat \<Rightarrow> string option \<Rightarrow> string option \<Rightarrow> account_db \<Rightarrow>
     unit result \<times> account_db" where
  "UpdateAccountLimits parse i dailyLimit monthlyLimit s =
     (case GetByID i s of
        None \<Rightarrow> (Inl ErrAccountNotFound, s)
      | Some account \<Rightarrow>
          (case limit_arg parse dailyLimit of
             Inl e \<Rightarrow> (Inl e, s)
           | Inr daily \<Rightarrow>
               (case limit_arg parse monthlyLimit of
                  Inl e \<Rightarrow> (Inl e, s)
                | Inr monthly \<Rightarrow>
                    if daily = None \<and> monthly = None then (Inr (), s)
                    else case UpdateLimits i daily monthly s of
                           (Inl e, s') \<Rightarrow> (Inl e, s')
                         | (Inr _, s') \<Rightarrow> (Inr (), evictAccountCache i (acc_AccountNumber account) s'))))"

definition UpdateAccountStatus :: "nat \<Rightarrow> string \<Rightarrow> account_db \<Rightarrow> unit result \<times> account_db" where
  "UpdateAccountStatus i newStatus s =
     (if newStatus \<noteq> ''active'' \<and> newStatus \<noteq> ''inactive'' then (Inl ErrInvalidStatus, s)
      else case GetByID i s of
             None \<Rightarrow> (Inl ErrAccountNotFound, s)
           | Some account \<Rightarrow>
               if acc_Status account = newStatus then (Inl ErrAccountInactive, s)
               else case UpdateRowStatus i newStatus s of
                      (Inl e, s') \<Rightarrow> (Inl e, s')
                    | (Inr _, s') \<Rightarrow> (Inr (), evictAccountCache i (acc_AccountNumber account) s'))"

definition map_balance_error :: "go_error \<Rightarrow> go_error" where
  "map_balance_error e =
     (if e = ErrSpendingLimit then ErrSpendingLimitExceeded
      else if e = ErrInsufficientFunds then ErrInsufficientBalance
      else if e = ErrRecordNotFound then ErrAccountNotFound
      else e)"

definition UpdateBalanceWithOpts ::
  "string \<Rightarrow> decimal \<Rightarrow> bool \<Rightarrow> update_balance_opts \<Rightarrow> account_db \<Rightarrow> unit result \<times> account_db" where
  "UpdateBalanceWithOpts n amount updateAvailable opts s =
     (case UpdateBalance n amount updateAvailable opts s of
        (Inl e, s') \<Rightarrow> (Inl (map_balance_error e), s')
      | (Inr _, s') \<Rightarrow>
          (Inr (), evictAccountCache (case GetByNumber n s' of None \<Rightarrow> 0 | Some a \<Rightarrow> acc_ID a) n s'))"

definition SetAccountCategory :: "nat \<Rightarrow> string \<Rightarrow> account_db \<Rightarrow> unit result \<times> account_db" where
  "SetAccountCategory i category s =
     (case GetByID i s of
        None \<Rightarrow> (Inl ErrRecordNotFound, s)
      | Some account \<Rightarrow>
          (case save_account (account\<lparr>acc_AccountCategory := category\<rparr>) s of
             Inl e \<Rightarrow> (Inl e, s)
           | Inr s' \<Rightarrow> (Inr (), s')))"

text \<open>
  \<^verbatim>\<open>DeleteBankAccount\<close>: the loop over the locked bank accounts finds the target and counts the
  others.
\<close>

fun scan_bank ::
  "nat \<Rightarrow> account list \<Rightarrow> account option \<times> nat \<times> nat \<Rightarrow> account option \<times> nat \<times> nat" where
  "scan_bank i [] acc = acc"
| "scan_bank i (a # as) (target, rsd, foreign) =
     scan_bank i as
       (if acc_ID a = i then (Some a, rsd, foreign)
        else if acc_CurrencyCode a = ''RSD'' then (target, Suc rsd, foreign)
        else (target, rsd, Suc foreign))"

definition delete_bank_body :: "nat \<Rightarrow> account_db \<Rightarrow> go_error + (unit \<times> account_db)" where
  "delete_bank_body i s =
     (case scan_bank i
             (filter (\<lambda>a. acc_IsBankAccount a \<and> acc_Status a \<noteq> ''deactivated'') (live_accounts s))
             (None, 0, 0) of
        (None, _, _) \<Rightarrow> Inl ErrAccountNotFound
      | (Some target, rsdCount, foreignCount) \<Rightarrow>
          if \<not> acc_IsBankAccount target then Inl ErrInvalidAccount
          else if acc_CurrencyCode target = ''RSD'' \<and> rsdCount = 0 then Inl ErrLastBankAccount
          else if acc_CurrencyCode target \<noteq> ''RSD'' \<and> foreignCount = 0 then Inl ErrLastBankAccount
          else Inr ((), update_live (\<lambda>a. acc_ID a = acc_ID target) (\<lambda>a. a\<lparr>acc_Deleted := True\<rparr>) s))"

definition DeleteBankAccount :: "nat \<Rightarrow> account_db \<Rightarrow> unit result \<times> account_db" where
  "DeleteBankAccount i = transaction (delete_bank_body i)"

definition GetBankRSDAccount :: "account_db \<Rightarrow> account result" where
  "GetBankRSDAccount s =
     (case ListBankAccountsByCurrency ''RSD'' s of
        [] \<Rightarrow> Inl ErrAccountNotFound
      | a # _ \<Rightarrow> Inr a)"

text \<open>The loop of \<^verbatim>\<open>ApplyClientLimitPolicy\<close> keeps the first error and goes on.\<close>

fun apply_limits ::
  "(string \<Rightarrow> decimal option) \<Rightarrow> string option \<Rightarrow> string option \<Rightarrow> account list \<Rightarrow> go_error option \<Rightarrow>
     account_db \<Rightarrow> unit result \<times> account_db" where
  "apply_limits parse daily monthly [] firstErr s =
     ((case firstErr of None \<Rightarrow> Inr () | Some e \<Rightarrow> Inl e), s)"
| "apply_limits parse daily monthly (a # as) firstErr s =
     (case UpdateAccountLimits parse (acc_ID a) daily monthly s of
        (Inl e, s') \<Rightarrow>
          apply_limits parse daily monthly as (case firstErr of None \<Rightarrow> Some e | Some f \<Rightarrow> Some f) s'
      | (Inr _, s') \<Rightarrow> apply_limits parse daily monthly as firstErr s')"

definition ApplyClientLimitPolicy ::
  "(string \<Rightarrow> decimal option) \<Rightarrow> (decimal \<Rightarrow> string) \<Rightarrow> nat \<Rightarrow> decimal \<Rightarrow> decimal \<Rightarrow> account_db \<Rightarrow>
     unit result \<times> account_db" where
  "ApplyClientLimitPolicy parse fixed4 clientID daily monthly s =
     (let accts = ListNonBankByOwner clientID s;
          dailyPtr = (if daily > 0 then Some (fixed4 daily) else None);
          monthlyPtr = (if monthly > 0 then Some (fixed4 monthly) else None)
      in if dailyPtr = None \<and> monthlyPtr = None then (Inr (), s)
         else apply_limits parse dailyPtr monthlyPtr accts None s)"

section \<open>The maintenance charge\<close>

text \<open>\<open>ref_of\<close> is the reference id with the formatted month.\<close>

fun charge_loop ::
  "(string \<Rightarrow> string) \<Rightarrow> string \<Rightarrow> account list \<Rightarrow> nat \<Rightarrow> account_db \<Rightarrow> nat \<times> account_db" where
  "charge_loop ref_of bank [] charged s = (charged, s)"
| "charge_loop ref_of bank (a # as) charged s =
     (if acc_MaintenanceFee a = 0 then charge_loop ref_of bank as charged s
      else if acc_Balance a < acc_MaintenanceFee a then charge_loop ref_of bank as charged s
      else if bank = [] then charge_loop ref_of bank as charged s
      else case Transfer no_saga (acc_AccountNumber a) bank (acc_MaintenanceFee a)
                  ''Monthly maintenance fee'' (ref_of (acc_AccountNumber a)) ''maintenance'' s of
             (Inl _, s') \<Rightarrow> charge_loop ref_of bank as charged s'
           | (Inr _, s') \<Rightarrow> charge_loop ref_of bank as (Suc charged) s')"

definition chargeMaintenanceFees :: "(string \<Rightarrow> string) \<Rightarrow> account_db \<Rightarrow> nat \<times> account_db" where
  "chargeMaintenanceFees ref_of s =
     (let accts = ListActiveAccountsWithMaintenanceFee s;
          bankRSDNumber =
            (case find (\<lambda>a. acc_CurrencyCode a = ''RSD'') (ListBankAccounts s) of
               None \<Rightarrow> [] | Some a \<Rightarrow> acc_AccountNumber a)
      in charge_loop ref_of bankRSDNumber accts 0 s)"

section \<open>The replay cache and the balance RPC\<close>

text \<open>
  \<^verbatim>\<open>Run\<close> over the replay table and the state the wrapped call works on. The empty blob is what the
  claim writes before the call.
\<close>

definition Run ::
  "('r \<Rightarrow> go_error + 'b) \<Rightarrow> ('b \<Rightarrow> 'r result) \<Rightarrow> 'b \<Rightarrow> string \<Rightarrow> ('s \<Rightarrow> 'r result \<times> 's) \<Rightarrow>
     (string \<rightharpoonup> 'b) \<Rightarrow> 's \<Rightarrow> 'r result \<times> (string \<rightharpoonup> 'b) \<times> 's" where
  "Run marshal unmarshal empty_blob key fn tbl s =
     (if key = [] then (Inl (Plain ''idempotency key required''), tbl, s)
      else case tbl key of
             Some blob \<Rightarrow> (unmarshal blob, tbl, s)
           | None \<Rightarrow>
               (let tbl1 = tbl(key \<mapsto> empty_blob)
                in case fn s of
                     (Inl e, s') \<Rightarrow> (Inl e, tbl1(key := None), s')
                   | (Inr resp, s') \<Rightarrow>
                       (case marshal resp of
                          Inl e \<Rightarrow> (Inl e, tbl1, s')
                        | Inr blob \<Rightarrow> (Inr resp, tbl1(key \<mapsto> blob), s'))))"

record update_balance_request =
  rq_AccountNumber :: string
  rq_Amount :: string
  rq_UpdateAvailable :: bool
  rq_Memo :: string
  rq_IdempotencyKey :: string

definition executeUpdateBalance ::
  "(string \<Rightarrow> decimal option) \<Rightarrow> (account \<Rightarrow> 'r) \<Rightarrow> update_balance_request \<Rightarrow> account_db \<Rightarrow>
     'r result \<times> account_db" where
  "executeUpdateBalance parse toAccountResponse req s =
     (let amount = (case parse (rq_Amount req) of None \<Rightarrow> 0 | Some d \<Rightarrow> d);
          opts = \<lparr>ub_Memo = rq_Memo req, ub_IdempotencyKey = rq_IdempotencyKey req\<rparr>
      in case UpdateBalanceWithOpts (rq_AccountNumber req) amount (rq_UpdateAvailable req) opts s of
           (Inl e, s') \<Rightarrow>
             (Inl (if e = ErrRecordNotFound then Status NotFound ''account not found'' else e), s')
         | (Inr _, s') \<Rightarrow>
             (case GetAccountByNumber (rq_AccountNumber req) s' of
                (Inl _, s2) \<Rightarrow> (Inl (Status Internal ''failed to fetch updated account''), s2)
              | (Inr account, s2) \<Rightarrow> (Inr (toAccountResponse account), s2)))"

text \<open>
  The handler: the replay table is rolled back with its transaction on an error; the wrapped call
  uses the service's own database handle, so what it committed stays.
\<close>

definition UpdateBalanceRPC ::
  "('r \<Rightarrow> go_error + 'b) \<Rightarrow> ('b \<Rightarrow> 'r result) \<Rightarrow> 'b \<Rightarrow> (string \<Rightarrow> decimal option) \<Rightarrow> (account \<Rightarrow> 'r) \<Rightarrow>
     update_balance_request \<Rightarrow> (string \<rightharpoonup> 'b) \<Rightarrow> account_db \<Rightarrow> 'r result \<times> (string \<rightharpoonup> 'b) \<times> account_db" where
  "UpdateBalanceRPC marshal unmarshal empty_blob parse toAccountResponse req tbl s =
     (if rq_IdempotencyKey req = [] then (Inl ErrIdempotencyMissing, tbl, s)
      else case Run marshal unmarshal empty_blob (rq_IdempotencyKey req)
                  (executeUpdateBalance parse toAccountResponse req) tbl s of
             (Inl e, _, s') \<Rightarrow> (Inl e, tbl, s')
           | (Inr out, tbl', s') \<Rightarrow> (Inr out, tbl', s'))"

section \<open>The limit-policy read model\<close>

record client_limit_policy =
  clp_ClientID :: nat
  clp_DailyLimit :: decimal
  clp_MonthlyLimit :: decimal
  clp_Version :: int

definition UpsertPolicy ::
  "client_limit_policy \<Rightarrow> (nat \<rightharpoonup> client_limit_policy) \<Rightarrow> bool \<times> (nat \<rightharpoonup> client_limit_policy)" where
  "UpsertPolicy p tbl =
     (case tbl (clp_ClientID p) of
        None \<Rightarrow> (True, tbl(clp_ClientID p \<mapsto> p))
      | Some existing \<Rightarrow>
          if clp_Version p \<le> clp_Version existing then (False, tbl)
          else (True, tbl(clp_ClientID p \<mapsto>
                  existing\<lparr>clp_DailyLimit := clp_DailyLimit p, clp_MonthlyLimit := clp_MonthlyLimit p,
                           clp_Version := clp_Version p\<rparr>)))"

end
