(* ===== verification/Account_Service_Safety.thy ===== *)
theory Account_Service_Safety
  imports Account_Service
begin

text \<open>
  The account service keeps the funds invariant; reads through the cache return stored rows; the
  properties of account creation, of the deletion of bank accounts and of the replayed balance RPC.
\<close>

section \<open>Creation\<close>

lemma no_holds_on_new_id: "keys_ok s \<Longrightarrow> active_holds s (seq_accounts s) = 0"
  unfolding active_holds_def by (rule tsum_zero) (fastforce simp: keys_ok_def)

lemma no_holds_on_new_number:
  assumes "keys_ok s" "\<forall>r \<in> set (accounts s). acc_AccountNumber r \<noteq> n"
  shows "pending_out s n = 0"
  unfolding pending_out_def
proof (rule tsum_zero)
  fix x assume "x \<in> set (outgoing s)"
  with assms show "(if out_AccountNumber x = n \<and> out_Status x = OutPending then out_Amount x else 0) = 0"
    by (fastforce simp: keys_ok_def holds_known_def)
qed

lemma with_defaults_sel [simp]:
  "acc_AccountNumber (with_defaults a) = acc_AccountNumber a" "acc_Balance (with_defaults a) = acc_Balance a"
  "acc_AvailableBalance (with_defaults a) = acc_AvailableBalance a"
  "acc_ReservedBalance (with_defaults a) = acc_ReservedBalance a"
  "acc_CurrencyCode (with_defaults a) = acc_CurrencyCode a" "acc_AccountKind (with_defaults a) = acc_AccountKind a"
  "acc_OwnerID (with_defaults a) = acc_OwnerID a" "acc_MaintenanceFee (with_defaults a) = acc_MaintenanceFee a"
  "acc_IsBankAccount (with_defaults a) = acc_IsBankAccount a"
  by (simp_all add: with_defaults_def)

lemma CreateE:
  assumes "Create a s = (res, s')"
  obtains (error) "res = Inl ErrDuplicateKey" "s' = s" "\<exists>r \<in> set (accounts s). acc_AccountNumber r = acc_AccountNumber a"
  | (ok) row where "res = Inr row" "row = (with_defaults a)\<lparr>acc_ID := seq_accounts s, acc_Deleted := False\<rparr>"
      "\<forall>r \<in> set (accounts s). acc_AccountNumber r \<noteq> acc_AccountNumber a"
      "s' = s\<lparr>accounts := accounts s @ [row], seq_accounts := Suc (seq_accounts s)\<rparr>"
proof (cases "\<exists>r \<in> set (accounts s). acc_AccountNumber r = acc_AccountNumber a")
  case True
  with assms show ?thesis by (intro error) (simp_all add: Create_def)
next
  case False
  with assms show ?thesis by (intro ok [OF _ refl]) (auto simp: Create_def Let_def)
qed

lemma Create_keeps:
  assumes ok: "funds_ok s" and op: "Create a s = (res, s')" and num: "acc_AccountNumber a \<noteq> []"
    and bal: "acc_AvailableBalance a = acc_Balance a" "acc_ReservedBalance a = 0"
  shows "funds_ok s'"
  using op
proof (cases rule: CreateE)
  case (ok row)
  note keys = funds_okD(1) [OF assms(1)]
  have new_id: "acc_ID r < seq_accounts s" if "r \<in> set (accounts s)" for r
    using keys that by (simp add: keys_ok_def)
  have tables: "reservations s' = reservations s" "settlements s' = settlements s" "outgoing s' = outgoing s"
    "incoming s' = incoming s" "seq_reservations s' = seq_reservations s"
    by (simp_all add: ok(4))
  have same: "active_holds s' i = active_holds s i" "pending_out s' n = pending_out s n" for i n
    by (simp_all add: active_holds_def pending_out_def tables cong: if_cong)
  have "seq_accounts s \<notin> acc_ID ` set (accounts s)" using new_id by force
  moreover have "acc_AccountNumber a \<notin> acc_AccountNumber ` set (accounts s)" using ok(3) by force
  ultimately have "distinct (map acc_ID (accounts s'))" "distinct (map acc_AccountNumber (accounts s'))"
    using keys by (simp_all add: keys_ok_def ok(2,4))
  moreover have "\<forall>b \<in> set (accounts s'). acc_ID b < seq_accounts s' \<and> 0 < acc_ID b \<and> acc_AccountNumber b \<noteq> []"
    using keys num by (auto simp: keys_ok_def ok(2,4) less_Suc_eq)
  moreover have "holds_known (map out_AccountNumber (outgoing s')) (map acc_AccountNumber (accounts s'))"
    using keys unfolding keys_ok_def holds_known_def tables by (simp add: ok(4) le_supI1 subset_insertI2)
  moreover have "\<forall>r \<in> set (reservations s'). res_ID r < seq_reservations s' \<and> res_AccountID r < seq_accounts s'"
    using keys by (auto simp: keys_ok_def tables ok(4) less_Suc_eq)
  ultimately have "keys_ok s'" using keys by (simp add: keys_ok_def tables ok(4))
  moreover have "acct_ok s' b" if "b \<in> set (accounts s')" for b
  proof (cases "b = row")
    case True
    with no_holds_on_new_id [OF keys] no_holds_on_new_number [OF keys ok(3)] bal show ?thesis
      by (simp add: acct_ok_def same ok(2))
  next
    case False
    with that ok(4) have "b \<in> set (accounts s)" by simp
    from funds_okD(2) [OF assms(1) this] show ?thesis by (simp add: acct_ok_def same)
  qed
  moreover have "res_ok s'" using funds_okD(3) [OF assms(1)] by (simp add: res_ok_def tables)
  ultimately show ?thesis by (simp add: funds_ok_def)
qed (use ok in simp)

section \<open>Updates\<close>

lemma update_checked_cases:
  assumes "update_checked p f s = (res, s')"
  shows "s' = s \<or> s' = update_live p f s"
  using assms by (auto simp: update_checked_def split: if_splits)

lemma update_checked_quiet:
  assumes "funds_ok s" "quiet_update f" "update_checked p f s = (res, s')"
  shows "funds_ok s' \<and> ledger_gap s' n = ledger_gap s n"
  using update_checked_cases [OF assms(3)] update_live_quiet [OF assms(1,2), of p] assms(1) by auto

text \<open>A checked update of one row by id, followed by the eviction of that row.\<close>

lemma update_checked_one_cache:
  assumes keys: "keys_ok s" and a: "GetByID i s = Some a" and q: "quiet_update f" and fresh: "cache_fresh s"
    and p: "\<And>x. p x \<Longrightarrow> acc_ID x = i"
    and op: "update_checked p f s = (Inr u, s')"
  shows "cache_fresh (evictAccountCache i (acc_AccountNumber a) s')"
proof -
  from GetByIDD [OF a] have m: "a \<in> set (accounts s)" "acc_ID a = i" "\<not> acc_Deleted a" by auto
  from op obtain x where x: "x \<in> set (accounts s)" "\<not> acc_Deleted x" "p x"
    and s': "s' = update_live p f s"
    by (auto simp: update_checked_def live_accounts_iff split: if_splits)
  have "x = a" by (rule distinct_key_eq [OF keys_okD(1) [OF keys] x(1) m(1)]) (use p [OF x(3)] m(2) in simp)
  with x(3) have pa: "p a" by simp
  have id: "acc_ID (f a) = acc_ID a" "same_row a (f a)" using q by (auto simp: quiet_update_def same_row_def)
  have "upd_rows (\<lambda>b. p b \<and> \<not> acc_Deleted b) f (accounts s) = put_row acc_ID (f a) (accounts s)"
    by (rule upd_rows_put [OF keys_okD(1) [OF keys] m(1)]) (use pa m(2,3) id p in auto)
  then show ?thesis
    using cache_fresh_evict_touched [OF fresh keys m(1) id(2), of s'] m(2) by (simp add: s' update_live_def)
qed

lemma UpdateAccountName_keeps:
  assumes "funds_ok s" "UpdateAccountName i c n s = (res, s')"
  shows "funds_ok s' \<and> ledger_gap s' m = ledger_gap s m \<and> (cache_fresh s \<longrightarrow> cache_fresh s')"
proof (cases "GetByID i s")
  case None
  with assms show ?thesis by (simp add: UpdateAccountName_def)
next
  case (Some a)
  obtain r t where u: "UpdateName i c n s = (r, t)" by fastforce
  have q: "funds_ok t \<and> ledger_gap t m = ledger_gap s m"
    using update_checked_quiet [OF assms(1) _ u [unfolded UpdateName_def]] by simp
  show ?thesis
  proof (cases r)
    case (Inl e)
    with u have "t = s" by (auto simp: UpdateName_def update_checked_def split: if_splits)
    with assms Some u Inl show ?thesis by (auto simp: UpdateAccountName_def split: if_splits)
  next
    case (Inr v)
    then have "cache_fresh (evictAccountCache i (acc_AccountNumber a) t)" if "cache_fresh s"
      using update_checked_one_cache [OF funds_okD(1) [OF assms(1)] Some _ that _ u [unfolded UpdateName_def, unfolded Inr]]
      by simp
    with assms Some u Inr q show ?thesis by (auto simp: UpdateAccountName_def split: if_splits)
  qed
qed

lemma UpdateAccountLimits_keeps:
  assumes "funds_ok s" "UpdateAccountLimits parse i d mo s = (res, s')"
  shows "funds_ok s' \<and> ledger_gap s' m = ledger_gap s m \<and> (cache_fresh s \<longrightarrow> cache_fresh s')"
proof (cases "GetByID i s")
  case None
  with assms show ?thesis by (simp add: UpdateAccountLimits_def)
next
  case (Some a)
  have step: "funds_ok (evictAccountCache i (acc_AccountNumber a) t) \<and>
      ledger_gap (evictAccountCache i (acc_AccountNumber a) t) m = ledger_gap s m \<and>
      (cache_fresh s \<longrightarrow> cache_fresh (evictAccountCache i (acc_AccountNumber a) t))"
    if u: "UpdateLimits i x y s = (Inr v, t)" for x y v t
    using update_checked_quiet [OF assms(1) _ u [unfolded UpdateLimits_def], of m]
      update_checked_one_cache [OF funds_okD(1) [OF assms(1)] Some _ _ _ u [unfolded UpdateLimits_def]] by simp
  have same: "t = s" if "UpdateLimits i x y s = (Inl e, t)" for x y e t
    using that by (auto simp: UpdateLimits_def update_checked_def split: if_splits)
  from assms Some step show ?thesis
    by (auto simp: UpdateAccountLimits_def split: sum.splits if_splits prod.splits dest!: same)
qed

lemma UpdateAccountStatus_keeps:
  assumes "funds_ok s" "UpdateAccountStatus i st s = (res, s')"
  shows "funds_ok s' \<and> ledger_gap s' m = ledger_gap s m \<and> (cache_fresh s \<longrightarrow> cache_fresh s')"
proof (cases "GetByID i s")
  case None
  with assms show ?thesis by (auto simp: UpdateAccountStatus_def split: if_splits)
next
  case (Some a)
  have step: "funds_ok (evictAccountCache i (acc_AccountNumber a) t) \<and>
      ledger_gap (evictAccountCache i (acc_AccountNumber a) t) m = ledger_gap s m \<and>
      (cache_fresh s \<longrightarrow> cache_fresh (evictAccountCache i (acc_AccountNumber a) t))"
    if u: "UpdateRowStatus i st s = (Inr v, t)" for v t
    using update_checked_quiet [OF assms(1) _ u [unfolded UpdateRowStatus_def], of m]
      update_checked_one_cache [OF funds_okD(1) [OF assms(1)] Some _ _ _ u [unfolded UpdateRowStatus_def]] by simp
  have same: "t = s" if "UpdateRowStatus i st s = (Inl e, t)" for e t
    using that by (auto simp: UpdateRowStatus_def update_checked_def split: if_splits)
  from assms Some step same show ?thesis
    by (auto simp: UpdateAccountStatus_def split: sum.splits if_splits prod.splits)
qed

lemma UpdateBalanceWithOpts_keeps:
  assumes ok: "funds_ok s" and op: "UpdateBalanceWithOpts n x True opts s = (res, s')"
  shows "funds_ok s' \<and> ledger_gap s' m = ledger_gap s m \<and> (cache_fresh s \<longrightarrow> cache_fresh s')"
proof -
  note keys = funds_okD(1) [OF ok]
  obtain r t where u: "UpdateBalance n x True opts s = (r, t)" by fastforce
  from keys u show ?thesis
  proof (cases rule: UpdateBalanceE)
    case (error e)
    with op u ok show ?thesis by (auto simp: UpdateBalanceWithOpts_def)
  next
    case (replay e)
    with op u ok show ?thesis by (auto simp: UpdateBalanceWithOpts_def cache_fresh_evict)
  next
    case (fresh e a)
    note k = after_balance_keeps [OF ok fresh(3), where x = x]
    from op u fresh k(5) have s': "s' = evictAccountCache (acc_ID a) n t"
      by (auto simp: UpdateBalanceWithOpts_def)
    with k(1,2,3) fresh(7) show ?thesis by simp
  qed
qed

lemma SetAccountCategory_keeps:
  assumes ok: "funds_ok s" and op: "SetAccountCategory i c s = (res, s')"
  shows "funds_ok s' \<and> ledger_gap s' m = ledger_gap s m"
proof (cases "GetByID i s")
  case None
  with op ok show ?thesis by (simp add: SetAccountCategory_def)
next
  case (Some a)
  from GetByIDD [OF Some] have a: "a \<in> set (accounts s)" "\<not> acc_Deleted a" by auto
  let ?b = "a\<lparr>acc_AccountCategory := c, acc_Version := acc_Version a + 1\<rparr>"
  have "save_account (a\<lparr>acc_AccountCategory := c\<rparr>) s = Inr (s\<lparr>accounts := put_row acc_ID ?b (accounts s)\<rparr>)"
    by (subst save_account_locked [of a]) (use a in simp_all)
  with op Some have s': "s' = s\<lparr>accounts := put_row acc_ID ?b (accounts s)\<rparr>" by (simp add: SetAccountCategory_def)
  have row: "same_row a ?b" by (simp add: same_row_def)
  have "funds_ok s'" by (rule funds_ok_money_move [OF ok a(1) row]) (simp_all add: s')
  moreover have "ledger_gap s' m = ledger_gap s m"
    by (rule ledger_gap_quiet [OF funds_okD(1) [OF ok] a(1) row]) (simp_all add: s')
  ultimately show ?thesis by simp
qed

lemma apply_limits_keeps:
  assumes "funds_ok s" "apply_limits parse d mo as err s = (res, s')"
  shows "funds_ok s' \<and> ledger_gap s' m = ledger_gap s m \<and> (cache_fresh s \<longrightarrow> cache_fresh s')"
  using assms
proof (induction as arbitrary: err s)
  case (Cons a as)
  obtain r t where u: "UpdateAccountLimits parse (acc_ID a) d mo s = (r, t)" by fastforce
  note k = UpdateAccountLimits_keeps [OF Cons.prems(1) u, of m]
  from Cons.prems(2) u obtain err' where "apply_limits parse d mo as err' t = (res, s')"
    by (cases r) auto
  from Cons.IH [OF _ this] k show ?case by auto
qed simp

lemma ApplyClientLimitPolicy_keeps:
  assumes "funds_ok s" "ApplyClientLimitPolicy parse fixed4 c d mo s = (res, s')"
  shows "funds_ok s' \<and> ledger_gap s' m = ledger_gap s m \<and> (cache_fresh s \<longrightarrow> cache_fresh s')"
  using assms apply_limits_keeps [OF assms(1)]
  by (auto simp: ApplyClientLimitPolicy_def Let_def split: if_splits)

lemma charge_loop_keeps:
  assumes "funds_ok s" "charge_loop ref_of bank as k s = (c, s')" "\<And>a. a \<in> set as \<Longrightarrow> 0 \<le> acc_MaintenanceFee a"
  shows "funds_ok s' \<and> ledger_gap s' m = ledger_gap s m \<and> (cache_fresh s \<longrightarrow> cache_fresh s')"
  using assms
proof (induction as arbitrary: k s)
  case (Cons a as)
  obtain r t where u: "Transfer no_saga (acc_AccountNumber a) bank (acc_MaintenanceFee a)
      ''Monthly maintenance fee'' (ref_of (acc_AccountNumber a)) ''maintenance'' s = (r, t)" by fastforce
  note tr = Transfer_keeps [OF Cons.prems(1) u, of m]
  show ?case
  proof (cases "acc_MaintenanceFee a = 0 \<or> acc_Balance a < acc_MaintenanceFee a \<or> bank = []")
    case True
    with Cons show ?thesis by (auto split: if_splits)
  next
    case False
    with Cons.prems(2) u obtain k' where "charge_loop ref_of bank as k' t = (c, s')" by (cases r) auto
    with Cons.IH [OF _ this] tr Cons.prems(3) show ?thesis by auto
  qed
qed simp

lemma chargeMaintenanceFees_keeps:
  assumes "funds_ok s" "chargeMaintenanceFees ref_of s = (c, s')"
  shows "funds_ok s' \<and> ledger_gap s' m = ledger_gap s m \<and> (cache_fresh s \<longrightarrow> cache_fresh s')"
  using charge_loop_keeps [OF assms(1) assms(2) [unfolded chargeMaintenanceFees_def Let_def]]
  by (auto simp: ListActiveAccountsWithMaintenanceFee_def)

lemma cache_fill_keeps:
  "funds_ok (s\<lparr>cache_id := c\<rparr>) = funds_ok s" "ledger_gap (s\<lparr>cache_id := c\<rparr>) m = ledger_gap s m"
  "funds_ok (s\<lparr>cache_num := d\<rparr>) = funds_ok s" "ledger_gap (s\<lparr>cache_num := d\<rparr>) m = ledger_gap s m"
  by (simp_all add: funds_ok_def keys_ok_def res_ok_def acct_ok_def active_holds_def pending_out_def
      ledger_gap_def balance_of_def ledger_net_def cong: if_cong)

section \<open>Deleting bank accounts\<close>

lemma delete_quiet [simp]: "quiet_money (\<lambda>a. a\<lparr>acc_Deleted := True\<rparr>)"
  by (simp add: quiet_money_def)

lemma scan_bank_eq:
  "scan_bank i as (t, r, f) =
     ((case find (\<lambda>a. acc_ID a = i) (rev as) of None \<Rightarrow> t | Some a \<Rightarrow> Some a),
      r + length (filter (\<lambda>a. acc_ID a \<noteq> i \<and> acc_CurrencyCode a = ''RSD'') as),
      f + length (filter (\<lambda>a. acc_ID a \<noteq> i \<and> acc_CurrencyCode a \<noteq> ''RSD'') as))"
  by (induction as arbitrary: t r f) (auto split: option.splits)

definition bank_rows :: "account_db \<Rightarrow> account list" where
  "bank_rows s = filter (\<lambda>a. acc_IsBankAccount a \<and> acc_Status a \<noteq> ''deactivated'') (live_accounts s)"

lemma delete_bank_body_ok:
  assumes "delete_bank_body i s = Inr (u, s')"
  obtains t where "t \<in> set (bank_rows s)" "acc_ID t = i"
    "\<exists>a \<in> set (bank_rows s). acc_ID a \<noteq> i \<and> (acc_CurrencyCode a = ''RSD'' \<longleftrightarrow> acc_CurrencyCode t = ''RSD'')"
    "s' = update_live (\<lambda>a. acc_ID a = i) (\<lambda>a. a\<lparr>acc_Deleted := True\<rparr>) s"
proof -
  from assms obtain t where t: "find (\<lambda>a. acc_ID a = i) (rev (bank_rows s)) = Some t"
    and c: "acc_CurrencyCode t = ''RSD'' \<Longrightarrow> filter (\<lambda>a. acc_ID a \<noteq> i \<and> acc_CurrencyCode a = ''RSD'') (bank_rows s) \<noteq> []"
      "acc_CurrencyCode t \<noteq> ''RSD'' \<Longrightarrow> filter (\<lambda>a. acc_ID a \<noteq> i \<and> acc_CurrencyCode a \<noteq> ''RSD'') (bank_rows s) \<noteq> []"
    and s': "s' = update_live (\<lambda>a. acc_ID a = acc_ID t) (\<lambda>a. a\<lparr>acc_Deleted := True\<rparr>) s"
    by (auto simp: delete_bank_body_def scan_bank_eq bank_rows_def [symmetric] split: option.splits if_splits)
  from find_SomeD [OF t] have m: "t \<in> set (bank_rows s)" "acc_ID t = i" by auto
  have "\<exists>a \<in> set (bank_rows s). acc_ID a \<noteq> i \<and> (acc_CurrencyCode a = ''RSD'' \<longleftrightarrow> acc_CurrencyCode t = ''RSD'')"
    using c by (cases "acc_CurrencyCode t = ''RSD''") (auto simp: filter_empty_conv)
  with m s' show ?thesis by (intro that) auto
qed

lemma DeleteBankAccount_keeps:
  assumes "funds_ok s" "DeleteBankAccount i s = (res, s')"
  shows "funds_ok s' \<and> ledger_gap s' m = ledger_gap s m"
proof (cases rule: transaction_cases [of "delete_bank_body i" s])
  case rollback
  with assms show ?thesis by (simp add: DeleteBankAccount_def)
next
  case (commit u t)
  from commit(1) obtain x where "t = update_live (\<lambda>a. acc_ID a = i) (\<lambda>a. a\<lparr>acc_Deleted := True\<rparr>) s"
    by (rule delete_bank_body_ok)
  with assms commit(2) update_live_money [OF assms(1) delete_quiet] show ?thesis
    by (auto simp: DeleteBankAccount_def)
qed

definition bank_minimum :: "account_db \<Rightarrow> bool" where
  "bank_minimum s \<longleftrightarrow>
     (\<exists>a \<in> set (bank_rows s). acc_CurrencyCode a = ''RSD'') \<and>
     (\<exists>a \<in> set (bank_rows s). acc_CurrencyCode a \<noteq> ''RSD'')"

lemma bank_rows_after_delete:
  "a \<in> set (bank_rows (update_live (\<lambda>a. acc_ID a = i) (\<lambda>a. a\<lparr>acc_Deleted := True\<rparr>) s)) \<longleftrightarrow>
     a \<in> set (bank_rows s) \<and> acc_ID a \<noteq> i"
  by (auto simp: bank_rows_def live_accounts_def update_live_def upd_rows_def)

section \<open>Properties\<close>

text \<open>
  The bank never deletes its last account of a kind. If the bank has an RSD account and a
  foreign-currency account in use, it still has both after \<^verbatim>\<open>DeleteBankAccount\<close>, whatever the
  outcome; on success exactly the named account is gone from the bank's accounts, and on an error
  nothing changes.
\<close>

theorem delete_bank_keeps_minimum:
  assumes keys: "keys_ok s" and min: "bank_minimum s" and op: "DeleteBankAccount i s = (res, s')"
  shows "bank_minimum s' \<and>
    (res = Inr () \<longrightarrow> (\<forall>a. a \<in> set (bank_rows s') \<longleftrightarrow> a \<in> set (bank_rows s) \<and> acc_ID a \<noteq> i)) \<and>
    (res \<noteq> Inr () \<longrightarrow> s' = s)"
proof (cases rule: transaction_cases [of "delete_bank_body i" s])
  case rollback
  with op min show ?thesis by (auto simp: DeleteBankAccount_def)
next
  case (commit u r)
  from commit(1) obtain t where t: "t \<in> set (bank_rows s)" "acc_ID t = i"
    and other: "\<exists>a \<in> set (bank_rows s). acc_ID a \<noteq> i \<and> (acc_CurrencyCode a = ''RSD'' \<longleftrightarrow> acc_CurrencyCode t = ''RSD'')"
    and r: "r = update_live (\<lambda>a. acc_ID a = i) (\<lambda>a. a\<lparr>acc_Deleted := True\<rparr>) s"
    by (rule delete_bank_body_ok)
  have s': "s' = r" "res = Inr ()" using commit(2) op by (auto simp: DeleteBankAccount_def)
  have rows: "a \<in> set (bank_rows s') \<longleftrightarrow> a \<in> set (bank_rows s) \<and> acc_ID a \<noteq> i" for a
    unfolding s' r by (rule bank_rows_after_delete)
  have in_accounts: "a \<in> set (accounts s)" if "a \<in> set (bank_rows s)" for a
    using that by (simp add: bank_rows_def live_accounts_def)
  have same: "a = t" if "a \<in> set (bank_rows s)" "acc_ID a = i" for a
    using distinct_key_eq [OF keys_okD(1) [OF keys] in_accounts [OF that(1)] in_accounts [OF t(1)]] that t by simp
  have set_rows: "set (bank_rows s') = {a \<in> set (bank_rows s). acc_ID a \<noteq> i}" using rows by blast
  from min obtain x y where x: "x \<in> set (bank_rows s)" "acc_CurrencyCode x = ''RSD''"
    and y: "y \<in> set (bank_rows s)" "acc_CurrencyCode y \<noteq> ''RSD''" by (auto simp: bank_minimum_def)
  from other obtain z where z: "z \<in> set (bank_rows s)" "acc_ID z \<noteq> i"
    "acc_CurrencyCode z = ''RSD'' \<longleftrightarrow> acc_CurrencyCode t = ''RSD''" by blast
  have "bank_minimum s'"
  proof (cases "acc_CurrencyCode t = ''RSD''")
    case True
    with same [OF y(1)] y(2) have "acc_ID y \<noteq> i" by blast
    with True y z show ?thesis unfolding bank_minimum_def set_rows by blast
  next
    case False
    with same [OF x(1)] x(2) have "acc_ID x \<noteq> i" by blast
    with False x z show ?thesis unfolding bank_minimum_def set_rows by blast
  qed
  with rows s' show ?thesis by simp
qed

theorem delete_bank_keeps_minimum_witness:
  "bank_minimum (snd (DeleteBankAccount 2 sample_db)) \<and>
   fst (DeleteBankAccount 2 sample_db) = Inl ErrLastBankAccount"
proof -
  have "bank_minimum sample_db"
    by (simp add: bank_minimum_def bank_rows_def live_accounts_def sample_simps)
  moreover have "fst (DeleteBankAccount 2 sample_db) = Inl ErrLastBankAccount"
    by (simp add: DeleteBankAccount_def transaction_def delete_bank_body_def live_accounts_def sample_simps)
  ultimately show ?thesis
    using delete_bank_keeps_minimum [OF funds_okD(1) [OF sample_ok] _ surjective_pairing] by simp
qed

lemma generated_number_valid:
  assumes code: "SetBankCode code = Some bankCode" and draws: "list_all draw_ok draws"
    and number: "GenerateAccountNumber bankCode kind draws = Some number"
  shows "valid_number bankCode kind number" "number \<noteq> []"
proof -
  have b: "length bankCode = 3" "list_all is_digit bankCode"
    using code by (auto simp: SetBankCode_def split: if_splits)
  show "valid_number bankCode kind number"
    using draws number
    by (induction draws) (auto simp: Let_def not_le number_of_draw [OF b] split: if_splits)
  then show "number \<noteq> []" by (auto simp: valid_number_def)
qed

lemma CreateAccount_keeps:
  assumes ok: "funds_ok s" and code: "SetBankCode code = Some bankCode" and draws: "list_all draw_ok draws"
    and new: "acc_AvailableBalance a = acc_Balance a" "acc_ReservedBalance a = 0"
    and op: "CreateAccount bankCode draws add_years client_name a s = Some (res, s')"
  shows "funds_ok s'"
proof (cases "account_error a s")
  case None
  with op obtain number where number: "GenerateAccountNumber bankCode (acc_AccountKind a) draws = Some number"
    by (auto simp: CreateAccount_def split: option.splits)
  with op None obtain b where "Create b s = (res, s')" "acc_AccountNumber b = number"
    "acc_AvailableBalance b = acc_AvailableBalance a" "acc_Balance b = acc_Balance a"
    "acc_ReservedBalance b = acc_ReservedBalance a"
    by (auto simp: CreateAccount_def Let_def split: if_splits)
  with generated_number_valid(2) [OF code draws number] new show ?thesis by (intro Create_keeps [OF ok, of b res]) simp_all
qed (use op ok in \<open>auto simp: CreateAccount_def\<close>)

lemma CreateBankAccount_keeps:
  assumes ok: "funds_ok s" and code: "SetBankCode code = Some bankCode" and draws: "list_all draw_ok draws"
    and op: "CreateBankAccount bankCode draws add_years cur kind name x s = Some (res, s')"
  shows "funds_ok s'"
proof (cases "s' = s")
  case False
  then obtain number where number: "GenerateAccountNumber bankCode kind draws = Some number"
    using op by (auto simp: CreateBankAccount_def split: if_splits option.splits)
  with op False obtain b where "Create b s = (res, s')" "acc_AccountNumber b = number"
    "acc_AvailableBalance b = acc_Balance b" "acc_ReservedBalance b = 0"
    by (auto simp: CreateBankAccount_def split: if_splits)
  with generated_number_valid(2) [OF code draws number] show ?thesis by (intro Create_keeps [OF ok, of b res]) simp_all
qed (use ok in simp)

text \<open>
  Opening an account. \<^verbatim>\<open>CreateAccount\<close> refuses an account without owner or currency, of an unknown
  kind, a current account not in RSD, a foreign account in RSD and a name the owner already uses,
  and a collision of the generated number, each without any change; otherwise the new row is
  active, has a valid number that no other row has, the fee of its type and default limits where
  none were given, and the funds invariant is kept.
\<close>

theorem create_account_sound:
  assumes ok: "funds_ok s" and code: "SetBankCode code = Some bankCode"
    and draws: "list_all draw_ok draws"
    and new: "acc_AvailableBalance a = acc_Balance a" "acc_ReservedBalance a = 0"
    and op: "CreateAccount bankCode draws add_years client_name a s = Some (res, s')"
  shows "funds_ok s' \<and> (\<forall>e. res = Inl e \<longrightarrow> s' = s) \<and>
    (\<forall>r. res = Inr r \<longrightarrow>
       account_error a s = None \<and> accounts s' = accounts s @ [r] \<and> acc_Status r = ''active'' \<and>
       valid_number bankCode (acc_AccountKind a) (acc_AccountNumber r) \<and>
       acc_AccountNumber r \<notin> acc_AccountNumber ` set (accounts s) \<and>
       (acc_AccountKind r = ''current'' \<longleftrightarrow> acc_CurrencyCode r = ''RSD'') \<and>
       acc_MaintenanceFee r = maintenanceFeeByType (acc_AccountType a) \<and>
       acc_DailyLimit r \<noteq> 0 \<and> acc_Balance r = acc_Balance a)"
proof (cases "account_error a s")
  case (Some e)
  with op ok show ?thesis by (auto simp: CreateAccount_def)
next
  case None
  with op obtain number where number: "GenerateAccountNumber bankCode (acc_AccountKind a) draws = Some number"
    by (auto simp: CreateAccount_def split: option.splits)
  define a1 where "a1 = a\<lparr>acc_AccountNumber := number, acc_ExpiresAt := add_years 5,
      acc_Status := ''active'', acc_MaintenanceFee := maintenanceFeeByType (acc_AccountType a)\<rparr>"
  define a2 where "a2 = (if acc_OwnerName a1 = [] \<and> hasHumanOwner a1 \<and> client_name (acc_OwnerID a1) \<noteq> []
      then a1\<lparr>acc_OwnerName := client_name (acc_OwnerID a1)\<rparr> else a1)"
  have c: "Create a2 s = (res, s')" using op
    unfolding CreateAccount_def None number option.case Let_def a1_def [symmetric] a2_def [symmetric] by simp
  have sel: "acc_AccountNumber a2 = number" "acc_Status a2 = ''active''" "acc_AccountKind a2 = acc_AccountKind a"
    "acc_CurrencyCode a2 = acc_CurrencyCode a" "acc_Balance a2 = acc_Balance a"
    "acc_AvailableBalance a2 = acc_AvailableBalance a" "acc_ReservedBalance a2 = acc_ReservedBalance a"
    "acc_MaintenanceFee a2 = maintenanceFeeByType (acc_AccountType a)" "acc_DailyLimit a2 = acc_DailyLimit a"
    by (simp_all add: a2_def a1_def)
  note valid = generated_number_valid(1) [OF code draws number]
  have fin: "funds_ok s'" by (rule CreateAccount_keeps [OF ok code draws new op])
  from None have kind: "acc_AccountKind a = ''current'' \<longleftrightarrow> acc_CurrencyCode a = ''RSD''"
    by (auto simp: account_error_def split: if_splits)
  from c show ?thesis
  proof (cases rule: CreateE)
    case (ok row)
    have "number \<notin> acc_AccountNumber ` set (accounts s)" using ok(3) sel(1) by auto
    with ok fin kind valid None sel show ?thesis by (auto simp: with_defaults_def)
  qed (use fin in auto)
qed

theorem create_account_sound_witness:
  "funds_ok (snd (the (CreateAccount ''111'' [Some 12345678] (\<lambda>y. int y) (\<lambda>_. ''Ana'')
     (sample_account 0 [] ''RSD'' 10 False) sample_db)))"
proof -
  have code: "SetBankCode ''111'' = Some ''111''" by (simp add: SetBankCode_def is_digit_def)
  let ?a = "(sample_account 0 [] ''RSD'' 10 False)"
  have "check_digit ''111'' ''current'' (Some 12345678) < 10"
    by (simp add: check_digit_def calculateModulo11CheckDigit_def digit_sum_def account_partial_def
        branchCode_def generateRandomDigits_def padLeft.simps itoa_def digits_of.simps digit_char_def
        accountTypeCode_def)
  then obtain number where "GenerateAccountNumber ''111'' ''current'' [Some 12345678] = Some number" by simp
  then have "CreateAccount ''111'' [Some 12345678] (\<lambda>y. int y) (\<lambda>_. ''Ana'') ?a sample_db \<noteq> None"
    by (auto simp: CreateAccount_def Let_def sample_account_def split: option.splits)
  then obtain res s' where "CreateAccount ''111'' [Some 12345678] (\<lambda>y. int y) (\<lambda>_. ''Ana'') ?a sample_db = Some (res, s')"
    by auto
  with create_account_sound [OF sample_ok code _ _ _ this] show ?thesis
    by (simp add: draw_ok_def)
qed

section \<open>Cached reads and the balance RPC\<close>

lemma GetAccountByNumber_tables:
  assumes "GetAccountByNumber n s = (res, s')"
  shows "accounts s' = accounts s \<and> ledger s' = ledger s"
  using assms by (auto simp: GetAccountByNumber_def split: option.splits)

lemma UpdateBalance_seen:
  assumes "key_seen (ub_IdempotencyKey opts) s"
  shows "\<exists>e. UpdateBalance n x u opts s = (Inr e, s)"
  using update_balance_body_seen [OF assms, of n x u] by (auto simp: UpdateBalance_def)

lemma execute_seen:
  assumes "key_seen (rq_IdempotencyKey req) s" "executeUpdateBalance parse to_resp req s = (res, s')"
  shows "accounts s' = accounts s \<and> ledger s' = ledger s"
proof -
  define x where "x = (case parse (rq_Amount req) of None \<Rightarrow> 0 | Some d \<Rightarrow> d)"
  define opts where "opts = \<lparr>ub_Memo = rq_Memo req, ub_IdempotencyKey = rq_IdempotencyKey req\<rparr>"
  obtain e where u: "UpdateBalance (rq_AccountNumber req) x (rq_UpdateAvailable req) opts s = (Inr e, s)"
    using UpdateBalance_seen [of opts s "rq_AccountNumber req" x "rq_UpdateAvailable req"] assms(1)
    by (auto simp: opts_def)
  obtain t where t: "UpdateBalanceWithOpts (rq_AccountNumber req) x (rq_UpdateAvailable req) opts s = (Inr (), t)"
    "accounts t = accounts s" "ledger t = ledger s"
    by (auto simp: UpdateBalanceWithOpts_def u)
  obtain r t2 where g: "GetAccountByNumber (rq_AccountNumber req) t = (r, t2)" by fastforce
  from assms(2) have "s' = t2"
    unfolding executeUpdateBalance_def Let_def x_def [symmetric] opts_def [symmetric] t(1)
    by (cases r) (auto simp: g)
  with GetAccountByNumber_tables [OF g] t(2,3) show ?thesis by simp
qed

lemma RunE:
  assumes "Run marshal unmarshal eb key fn tbl s = (Inr out, tbl', s')"
  obtains (cached) b where "tbl key = Some b" "unmarshal b = Inr out" "tbl' = tbl" "s' = s"
  | (fresh) b where "tbl key = None" "fn s = (Inr out, s')" "marshal out = Inr b" "tbl' = tbl(key \<mapsto> b)"
  using assms
  by (auto simp: Run_def Let_def split: if_splits option.splits prod.splits sum.splits)

text \<open>
  Reads through the cache. While every cached account equals its row, \<^verbatim>\<open>GetAccount\<close> and
  \<^verbatim>\<open>GetAccountByNumber\<close> return exactly the row the database holds, fail exactly when there is none,
  and the entry they put into the cache is again equal to the row.
\<close>

theorem cached_reads_fresh:
  assumes fresh: "cache_fresh s" and byid: "GetAccount i s = (r1, s1)" and bynum: "GetAccountByNumber n s = (r2, s2)"
  shows "r1 = (case GetByID i s of None \<Rightarrow> Inl ErrRecordNotFound | Some a \<Rightarrow> Inr a) \<and>
    r2 = (case GetByNumber n s of None \<Rightarrow> Inl ErrRecordNotFound | Some a \<Rightarrow> Inr a) \<and>
    cache_fresh s1 \<and> cache_fresh s2 \<and> accounts s1 = accounts s \<and> accounts s2 = accounts s"
  using assms
  by (auto simp: GetAccount_def GetAccountByNumber_def cache_fresh_def GetByID_def GetByNumber_def
      split: option.splits if_splits)

theorem cached_reads_fresh_witness:
  "fst (GetAccount 1 (snd (GetAccount 1 sample_db))) = Inr (sample_account 1 ''A'' ''RSD'' 100 False)"
proof -
  have "cache_fresh sample_db" by (simp add: cache_fresh_def sample_simps)
  from cached_reads_fresh [OF this surjective_pairing surjective_pairing, of 1 "''A''"]
  have fresh: "cache_fresh (snd (GetAccount 1 sample_db))"
    and rows: "accounts (snd (GetAccount 1 sample_db)) = accounts sample_db" by auto
  from rows have "GetByID 1 (snd (GetAccount 1 sample_db)) = GetByID 1 sample_db" by (simp add: GetByID_def)
  with cached_reads_fresh [OF fresh surjective_pairing surjective_pairing, of 1 "''A''"] show ?thesis by simp
qed

text \<open>
  The balance RPC is applied at most once per idempotency key. If the codec decodes what it
  encoded, a repetition of a successful first call returns the same response and changes neither
  the replay table nor the state; and once a ledger entry with the key exists, no call with that
  key moves money, even when the replay table was rolled back by an error after the balance
  transaction had committed.
\<close>

theorem balance_rpc_once:
  assumes codec: "\<And>r b. marshal r = Inr b \<Longrightarrow> unmarshal b = Inr r"
  shows "(tbl (rq_IdempotencyKey req) = None \<and>
       UpdateBalanceRPC marshal unmarshal eb parse to_resp req tbl s = (Inr out, tbl', s') \<longrightarrow>
       UpdateBalanceRPC marshal unmarshal eb parse to_resp req tbl' s' = (Inr out, tbl', s')) \<and>
    (key_seen (rq_IdempotencyKey req) t \<and>
       UpdateBalanceRPC marshal unmarshal eb parse to_resp req tbl t = (res, tbl'', t') \<longrightarrow>
       accounts t' = accounts t \<and> ledger t' = ledger t)"
proof (intro conjI impI)
  assume a: "tbl (rq_IdempotencyKey req) = None \<and>
       UpdateBalanceRPC marshal unmarshal eb parse to_resp req tbl s = (Inr out, tbl', s')"
  let ?k = "rq_IdempotencyKey req"
  from a have k: "?k \<noteq> []" and
    run: "Run marshal unmarshal eb ?k (executeUpdateBalance parse to_resp req) tbl s = (Inr out, tbl', s')"
    by (auto simp: UpdateBalanceRPC_def split: if_splits sum.splits prod.splits)
  from run show "UpdateBalanceRPC marshal unmarshal eb parse to_resp req tbl' s' = (Inr out, tbl', s')"
  proof (cases rule: RunE)
    case cached
    with a show ?thesis by simp
  next
    case (fresh b)
    with codec [OF fresh(3)] k show ?thesis by (simp add: UpdateBalanceRPC_def Run_def)
  qed
next
  assume a: "key_seen (rq_IdempotencyKey req) t \<and>
       UpdateBalanceRPC marshal unmarshal eb parse to_resp req tbl t = (res, tbl'', t')"
  let ?k = "rq_IdempotencyKey req"
  obtain r t2 where f: "executeUpdateBalance parse to_resp req t = (r, t2)" by fastforce
  have same: "accounts t2 = accounts t \<and> ledger t2 = ledger t" by (rule execute_seen [OF _ f]) (use a in simp)
  from a have "t' = t \<or> t' = t2"
    by (auto simp: UpdateBalanceRPC_def Run_def f Let_def split: if_splits option.splits sum.splits prod.splits)
  with same show "accounts t' = accounts t" "ledger t' = ledger t" by auto
qed

theorem balance_rpc_once_witness:
  "accounts (snd (snd (UpdateBalanceRPC (Inr :: account \<Rightarrow> go_error + account) Inr (sample_account 0 [] [] 0 False)
      (\<lambda>_. Some 7) id \<lparr>rq_AccountNumber = ''A'', rq_Amount = ''7'', rq_UpdateAvailable = True, rq_Memo = [],
        rq_IdempotencyKey = ''k''\<rparr> Map.empty
      (snd (UpdateBalance ''A'' 7 True \<lparr>ub_Memo = [], ub_IdempotencyKey = ''k''\<rparr> sample_db))))) =
   accounts (snd (UpdateBalance ''A'' 7 True \<lparr>ub_Memo = [], ub_IdempotencyKey = ''k''\<rparr> sample_db))"
proof -
  let ?s = "snd (UpdateBalance ''A'' 7 True \<lparr>ub_Memo = [], ub_IdempotencyKey = ''k''\<rparr> sample_db)"
  have "key_seen ''k'' ?s"
    using update_balance_body_fresh [OF funds_okD(1) [OF sample_ok] _ sample_lookup(2),
        of "\<lparr>ub_Memo = [], ub_IdempotencyKey = ''k''\<rparr>" 7 True]
    by (simp add: UpdateBalance_def transaction_def key_seen_def spending_error_def after_balance_def)
  moreover define req where "req = \<lparr>rq_AccountNumber = ''A'', rq_Amount = ''7'', rq_UpdateAvailable = True,
      rq_Memo = [], rq_IdempotencyKey = ''k''\<rparr>"
  ultimately have seen: "key_seen (rq_IdempotencyKey req) ?s" by simp
  obtain res tbl t' where op: "UpdateBalanceRPC (Inr :: account \<Rightarrow> go_error + account) Inr
      (sample_account 0 [] [] 0 False) (\<lambda>_. Some 7) id req Map.empty ?s = (res, tbl, t')" by (rule prod_cases3)
  have "accounts t' = accounts ?s"
    using balance_rpc_once [where marshal = "Inr :: account \<Rightarrow> go_error + account" and unmarshal = Inr] seen op
    by blast
  with op show ?thesis by (simp add: req_def)
qed

end
