(* ===== verification/Account_System.thy ===== *)
theory Account_System
  imports Reservation_Safety Cross_Bank_Safety Account_Service_Safety
begin

text \<open>
  The account service as a state machine: one rule per remote procedure, cron job or cached read that
  touches its state, interleaved in any order. The rules for money movements that write a ledger
  entry and evict the caches are kept apart from the quiet maintenance operations, which write
  neither, and from the opening of accounts.
\<close>

section \<open>Steps\<close>

inductive book_step :: "account_db \<Rightarrow> account_db \<Rightarrow> bool" where
  reserve: "ReserveFunds oid aid x cur kind s = (res1, s') \<Longrightarrow>
     (\<And>r. GetByOrderID oid kind s = Some r \<Longrightarrow> res_AccountID r = aid) \<Longrightarrow> book_step s s'"
| release: "ReleaseReservation oid kind s = (res2, s') \<Longrightarrow> book_step s s'"
| settle: "PartialSettleReservation ctx oid txn x memo kind s = (res3, s') \<Longrightarrow> book_step s s'"
| reserve_outgoing: "ReserveOutgoing now n x cur key s = (res4, s') \<Longrightarrow> book_step s s'"
| settle_outgoing: "SettleOutgoing key s = (res5, s') \<Longrightarrow> book_step s s'"
| release_outgoing: "ReleaseOutgoing key s = (res6, s') \<Longrightarrow> book_step s s'"
| sweep: "Sweep ctx_done tnow ttl s = (res7, s') \<Longrightarrow> book_step s s'"
| reserve_incoming: "ReserveIncoming n x cur key s = (res8, s') \<Longrightarrow> book_step s s'"
| release_incoming: "ReleaseIncoming key s = (res9, s') \<Longrightarrow> book_step s s'"
| commit_incoming: "CommitIncoming key memo s = (res10, s') \<Longrightarrow> book_step s s'"
| credit: "Credit ctx n x desc rid rt s = (res11, s') \<Longrightarrow> 0 \<le> x \<Longrightarrow> book_step s s'"
| debit: "Debit ctx n x desc rid rt s = (res12, s') \<Longrightarrow> 0 \<le> x \<Longrightarrow> book_step s s'"
| transfer: "Transfer ctx from to x desc rid rt s = (res13, s') \<Longrightarrow> 0 \<le> x \<Longrightarrow> book_step s s'"
| update_balance: "UpdateBalanceWithOpts n x True opts s = (res14, s') \<Longrightarrow> book_step s s'"
| rename: "UpdateAccountName i c nm s = (res15, s') \<Longrightarrow> book_step s s'"
| limits: "UpdateAccountLimits parse i d mo s = (res16, s') \<Longrightarrow> book_step s s'"
| status: "UpdateAccountStatus i st s = (res17, s') \<Longrightarrow> book_step s s'"
| policy: "ApplyClientLimitPolicy parse fixed4 cid d1 mo1 s = (res18, s') \<Longrightarrow> book_step s s'"
| maintenance: "chargeMaintenanceFees ref_of s = (k, s') \<Longrightarrow> book_step s s'"
| read_id: "GetAccount i s = (res19, s') \<Longrightarrow> book_step s s'"
| read_number: "GetAccountByNumber n s = (res20, s') \<Longrightarrow> book_step s s'"

inductive quiet_step :: "account_db \<Rightarrow> account_db \<Rightarrow> bool" where
  bank_op: "applyBankOp fixed4 cur x ref reason dir s = (res1, s') \<Longrightarrow> quiet_step s s'"
| category: "SetAccountCategory i c s = (res2, s') \<Longrightarrow> quiet_step s s'"
| delete_bank: "DeleteBankAccount i s = (res3, s') \<Longrightarrow> quiet_step s s'"
| spending: "quiet_step s (UpdateSpending n x s)"
| reset_daily: "quiet_step s (ResetDailySpending s)"
| reset_monthly: "quiet_step s (ResetMonthlySpending s)"

inductive open_step :: "account_db \<Rightarrow> account_db \<Rightarrow> bool" where
  open_account: "SetBankCode code = Some bankCode \<Longrightarrow> list_all draw_ok draws \<Longrightarrow>
     acc_AvailableBalance a = acc_Balance a \<Longrightarrow> acc_ReservedBalance a = 0 \<Longrightarrow>
     CreateAccount bankCode draws add_years client_name a s = Some (res1, s') \<Longrightarrow> open_step s s'"
| open_bank: "SetBankCode code = Some bankCode \<Longrightarrow> list_all draw_ok draws \<Longrightarrow>
     CreateBankAccount bankCode draws add_years cur kind name x s = Some (res2, s') \<Longrightarrow> open_step s s'"

definition account_step :: "account_db \<Rightarrow> account_db \<Rightarrow> bool" where
  "account_step s s' \<longleftrightarrow> book_step s s' \<or> quiet_step s s' \<or> open_step s s'"

section \<open>What a step keeps\<close>

lemma book_step_keeps:
  assumes "book_step s s'" "funds_ok s"
  shows "funds_ok s' \<and> ledger_gap s' m = ledger_gap s m \<and> (cache_fresh s \<longrightarrow> cache_fresh s')"
  using assms
proof (induction rule: book_step.induct)
  case (reserve oid aid x cur kind s res s')
  then show ?case using ReserveFunds_keeps ReserveFunds_gap ReserveFunds_cache by meson
next
  case (release oid kind s res s')
  then show ?case using ReleaseReservation_keeps ReleaseReservation_gap ReleaseReservation_cache by meson
next
  case (settle ctx oid txn x memo kind s res s')
  then show ?case
    using PartialSettleReservation_keeps PartialSettleReservation_gap PartialSettleReservation_cache by meson
next
  case (sweep ctx_done tnow ttl s res s')
  then show ?case by (auto simp: Sweep_def dest: sweep_loop_keeps)
next
  case (reserve_incoming n x cur key s res s')
  from ReserveIncoming_keeps [OF reserve_incoming(2,1)] show ?case
    by (simp add: ledger_gap_frame [of s' s] cache_fresh_def GetByID_def GetByNumber_def)
next
  case (release_incoming key s res s')
  from ReleaseIncoming_keeps [OF release_incoming(2,1)] show ?case
    by (simp add: ledger_gap_frame [of s' s] cache_fresh_def GetByID_def GetByNumber_def)
next
  case (read_id i s res s')
  then show ?case
    by (auto simp: GetAccount_def cache_fill_keeps cache_fresh_def GetByID_def GetByNumber_def split: option.splits if_splits)
next
  case (read_number n s res s')
  then show ?case
    by (auto simp: GetAccountByNumber_def cache_fill_keeps cache_fresh_def GetByID_def GetByNumber_def split: option.splits if_splits)
qed (blast dest: ReserveOutgoing_keeps SettleOutgoing_keeps ReleaseOutgoing_keeps CommitIncoming_keeps
      Credit_keeps Debit_keeps Transfer_keeps UpdateBalanceWithOpts_keeps UpdateAccountName_keeps
      UpdateAccountLimits_keeps UpdateAccountStatus_keeps ApplyClientLimitPolicy_keeps chargeMaintenanceFees_keeps)+

lemma quiet_step_keeps:
  assumes "quiet_step s s'" "funds_ok s"
  shows "funds_ok s' \<and> ledger_gap s' m = ledger_gap s m"
  using assms
proof (induction rule: quiet_step.induct)
  case (spending s n x)
  then show ?case unfolding UpdateSpending_def by (simp add: update_live_quiet)
next
  case (reset_daily s)
  then show ?case unfolding ResetDailySpending_def by (simp add: update_live_quiet)
next
  case (reset_monthly s)
  then show ?case unfolding ResetMonthlySpending_def by (simp add: update_live_quiet)
qed (blast dest: applyBankOp_keeps SetAccountCategory_keeps DeleteBankAccount_keeps)+

lemma account_step_funds: "account_step s s' \<Longrightarrow> funds_ok s \<Longrightarrow> funds_ok s'"
  unfolding account_step_def
  by (auto dest: book_step_keeps quiet_step_keeps elim!: open_step.cases intro: CreateAccount_keeps CreateBankAccount_keeps)

lemma reachable_funds: "account_step\<^sup>*\<^sup>* empty_db s \<Longrightarrow> funds_ok s"
  by (induction rule: rtranclp_induct) (auto intro: funds_ok_empty account_step_funds)

section \<open>Properties of every run\<close>



text \<open>
  C3: The books stay reconciled. Whatever sequence of operations runs on open accounts, the
  difference between an account's balance and the sum of its ledger entries never changes: every
  movement of a balance has its entry. Sequences of the operations that evict the caches also keep
  every cached account equal to its row.
\<close>

theorem books_reconcile:
  assumes "funds_ok s"
  shows "((\<lambda>s s'. book_step s s' \<or> quiet_step s s')\<^sup>*\<^sup>* s s' \<longrightarrow> ledger_gap s' n = ledger_gap s n) \<and>
    (cache_fresh s \<and> book_step\<^sup>*\<^sup>* s s'' \<longrightarrow> cache_fresh s'')"
proof (intro conjI impI)
  assume "(\<lambda>s s'. book_step s s' \<or> quiet_step s s')\<^sup>*\<^sup>* s s'"
  then have "funds_ok s' \<and> ledger_gap s' n = ledger_gap s n"
    by (induction rule: rtranclp_induct) (use assms book_step_keeps quiet_step_keeps in metis)+
  then show "ledger_gap s' n = ledger_gap s n" by simp
next
  assume "cache_fresh s \<and> book_step\<^sup>*\<^sup>* s s''"
  then have "cache_fresh s" "book_step\<^sup>*\<^sup>* s s''" by simp_all
  from this(2,1) have "funds_ok s'' \<and> cache_fresh s''"
    by (induction rule: rtranclp_induct) (use assms book_step_keeps in metis)+
  then show "cache_fresh s''" by simp
qed

theorem books_reconcile_witness:
  "ledger_gap (snd (ReserveFunds 7 1 30 ''RSD'' [] sample_db)) ''A'' = 100"
proof -
  have "book_step sample_db (snd (ReserveFunds 7 1 30 ''RSD'' [] sample_db))"
    by (rule book_step.reserve [OF surjective_pairing]) (simp add: GetByOrderID_def sample_simps)
  then have "(\<lambda>s s'. book_step s s' \<or> quiet_step s s')\<^sup>*\<^sup>* sample_db (snd (ReserveFunds 7 1 30 ''RSD'' [] sample_db))"
    by (intro r_into_rtranclp) simp
  with books_reconcile [OF sample_ok]
  have "ledger_gap (snd (ReserveFunds 7 1 30 ''RSD'' [] sample_db)) ''A'' = ledger_gap sample_db ''A''" by blast
  then show ?thesis by (simp add: ledger_gap_def balance_of_def ledger_net_def) (simp add: sample_simps)
qed

end
