(* ===== verification/Saga.thy ===== *)
theory Saga
  imports Prelude
begin

text \<open>
  The saga executor of \<^verbatim>\<open>contract/shared/saga/saga.go\<close>, the retry helper of
  \<^verbatim>\<open>contract/shared/retry.go\<close> and the idempotency keys of
  \<^verbatim>\<open>contract/shared/saga/idempotency.go\<close>.

  A \<^verbatim>\<open>context.Context\<close> is what its successive inspections see: \<open>ctx n\<close> is the error that the
  \<open>n\<close>-th look at \<^verbatim>\<open>ctx.Err()\<close> or \<^verbatim>\<open>ctx.Done()\<close> finds. Any cancellation schedule is such a function.
  The number of looks so far travels with the world the steps act on (\<open>env\<close>). A step closure is a
  function on the saga's state bag and that world. The recorder is the persistence port of the code,
  a record of its methods over its own store \<open>'r\<close>. An error value stands for its text where the
  code hands \<^verbatim>\<open>err.Error()\<close> to the recorder or the publisher; logging is left out, and the fault
  hooks are the no-ops of the production build (\<^verbatim>\<open>faults_disabled.go\<close>).
\<close>

section \<open>Contexts and retries\<close>

type_synonym ctx = "nat \<Rightarrow> go_error option"

type_synonym 's env = "'s \<times> nat"

definition ctx_Err :: "ctx \<Rightarrow> 's env \<Rightarrow> go_error option \<times> 's env" where
  "ctx_Err ctx = (\<lambda>(w, n). (ctx n, (w, Suc n)))"

record retry_config =
  MaxAttempts :: int

definition DefaultRetryConfig :: retry_config where
  "DefaultRetryConfig = \<lparr>MaxAttempts = 3\<rparr>"

text \<open>
  The loop of \<^verbatim>\<open>Retry\<close>: the first argument counts the attempts left. Between two attempts the code
  selects on the timer and \<^verbatim>\<open>ctx.Done()\<close>, which is one more look at the context.
\<close>

fun retry_loop ::
  "ctx \<Rightarrow> nat \<Rightarrow> ('s env \<Rightarrow> unit result \<times> 's env) \<Rightarrow> unit result \<Rightarrow> 's env \<Rightarrow> unit result \<times> 's env" where
  "retry_loop ctx 0 fn lastErr e = (lastErr, e)"
| "retry_loop ctx (Suc n) fn lastErr e =
     (case ctx_Err ctx e of
        (Some err, e1) \<Rightarrow> (Inl err, e1)
      | (None, e1) \<Rightarrow>
          (case fn e1 of
             (Inr _, e2) \<Rightarrow> (Inr (), e2)
           | (Inl err, e2) \<Rightarrow>
               if n > 0
               then case ctx_Err ctx e2 of
                      (Some cerr, e3) \<Rightarrow> (Inl cerr, e3)
                    | (None, e3) \<Rightarrow> retry_loop ctx n fn (Inl err) e3
               else (Inl err, e2)))"

definition Retry ::
  "ctx \<Rightarrow> retry_config \<Rightarrow> ('s env \<Rightarrow> unit result \<times> 's env) \<Rightarrow> 's env \<Rightarrow> unit result \<times> 's env" where
  "Retry ctx cfg fn e = retry_loop ctx (nat (MaxAttempts cfg)) fn (Inr ()) e"

section \<open>Data\<close>

definition SagaStatusPending :: string where "SagaStatusPending = ''pending''"
definition SagaStatusCompleted :: string where "SagaStatusCompleted = ''completed''"
definition SagaStatusFailed :: string where "SagaStatusFailed = ''failed''"
definition SagaStatusCompensating :: string where "SagaStatusCompensating = ''compensating''"
definition SagaStatusCompensated :: string where "SagaStatusCompensated = ''compensated''"
definition SagaStatusDeadLetter :: string where "SagaStatusDeadLetter = ''dead_letter''"

definition IsTerminal :: "string \<Rightarrow> bool" where
  "IsTerminal s \<longleftrightarrow>
     s = SagaStatusCompleted \<or> s = SagaStatusFailed \<or> s = SagaStatusCompensated \<or>
     s = SagaStatusDeadLetter"

definition ErrCompensationStuck :: go_error where
  "ErrCompensationStuck = Plain ''saga: compensation incomplete; recovery required''"

definition IdempotencyKey :: "string \<Rightarrow> string \<Rightarrow> string" where
  "IdempotencyKey sagaID step = sagaID @ '':'' @ step"

type_synonym 'v saga_state = "string \<rightharpoonup> 'v"

definition NewState :: "'v saga_state" where
  "NewState = Map.empty"

definition SetState :: "string \<Rightarrow> 'v \<Rightarrow> 'v saga_state \<Rightarrow> 'v saga_state" where
  "SetState key value st = st(key \<mapsto> value)"

type_synonym ('v, 'w) step_fn =
  "ctx \<Rightarrow> ('v saga_state \<times> 'w) env \<Rightarrow> unit result \<times> ('v saga_state \<times> 'w) env"

record ('v, 'w) step =
  st_Name :: string
  st_Forward :: "('v, 'w) step_fn option"
  st_Backward :: "('v, 'w) step_fn option"
  st_Pivot :: bool

record step_handle =
  h_ID :: nat
  h_Version :: int

record ('r, 'v) recorder =
  RecordForward :: "string \<Rightarrow> string \<Rightarrow> int \<Rightarrow> 'v saga_state \<Rightarrow> 'r \<Rightarrow> step_handle result \<times> 'r"
  MarkCompleted :: "step_handle \<Rightarrow> 'r \<Rightarrow> unit result \<times> 'r"
  MarkFailed :: "step_handle \<Rightarrow> go_error \<Rightarrow> 'r \<Rightarrow> unit result \<times> 'r"
  RecordCompensation ::
    "string \<Rightarrow> string \<Rightarrow> int \<Rightarrow> step_handle \<Rightarrow> 'v saga_state \<Rightarrow> 'r \<Rightarrow> step_handle result \<times> 'r"
  MarkCompensated :: "step_handle \<Rightarrow> 'r \<Rightarrow> unit result \<times> 'r"
  MarkCompensationFailed :: "step_handle \<Rightarrow> go_error \<Rightarrow> 'r \<Rightarrow> unit result \<times> 'r"
  IsCompleted :: "string \<Rightarrow> string \<Rightarrow> 'r \<Rightarrow> bool result"

definition zero_handle :: step_handle where
  "zero_handle = \<lparr>h_ID = 0, h_Version = 0\<rparr>"

definition NoopRecorder :: "('r, 'v) recorder" where
  "NoopRecorder =
     \<lparr>RecordForward = (\<lambda>_ _ _ _ r. (Inr zero_handle, r)),
      MarkCompleted = (\<lambda>_ r. (Inr (), r)),
      MarkFailed = (\<lambda>_ _ r. (Inr (), r)),
      RecordCompensation = (\<lambda>_ _ _ _ _ r. (Inr zero_handle, r)),
      MarkCompensated = (\<lambda>_ r. (Inr (), r)),
      MarkCompensationFailed = (\<lambda>_ _ r. (Inr (), r)),
      IsCompleted = (\<lambda>_ _ _. Inr False)\<rparr>"

text \<open>The calls of the lifecycle publisher, in order.\<close>

datatype saga_event =
    OnStarted string
  | OnCommitted string
  | OnRolledBack string string go_error "string list"
  | OnStuck string string string

record ('r, 'v, 'w) saga =
  sg_id :: string
  sg_steps :: "('v, 'w) step list"
  sg_recorder :: "('r, 'v) recorder"
  sg_retry :: retry_config

definition NewSagaWithID :: "string \<Rightarrow> ('r, 'v) recorder option \<Rightarrow> ('r, 'v, 'w) saga" where
  "NewSagaWithID i recorder =
     \<lparr>sg_id = i, sg_steps = [],
      sg_recorder = (case recorder of None \<Rightarrow> NoopRecorder | Some r \<Rightarrow> r),
      sg_retry = \<lparr>MaxAttempts = 0\<rparr>\<rparr>"

definition WithRetry :: "retry_config \<Rightarrow> ('r, 'v, 'w) saga \<Rightarrow> ('r, 'v, 'w) saga" where
  "WithRetry cfg s = s\<lparr>sg_retry := cfg\<rparr>"

definition Add :: "('v, 'w) step \<Rightarrow> ('r, 'v, 'w) saga \<Rightarrow> ('r, 'v, 'w) saga" where
  "Add step s =
     (if st_Name step = [] \<or> Option.is_none (st_Forward step) then s
      else s\<lparr>sg_steps := sg_steps s @ [step]\<rparr>)"

definition AddIf :: "bool \<Rightarrow> ('v, 'w) step \<Rightarrow> ('r, 'v, 'w) saga \<Rightarrow> ('r, 'v, 'w) saga" where
  "AddIf cond step s = (if cond then Add step s else s)"

text \<open>\<^verbatim>\<open>NewSubSaga\<close>: \<open>child_id\<close> is the truncated hexadecimal SHA-256 digest.\<close>

definition NewSubSaga ::
  "(string \<Rightarrow> string) \<Rightarrow> string \<Rightarrow> ('r, 'v, 'w) saga \<Rightarrow> ('r, 'v, 'x) saga" where
  "NewSubSaga child_id kind s =
     NewSagaWithID (child_id (sg_id s @ '':'' @ kind)) (Some (sg_recorder s))"

record ('v, 'w) completed_step =
  cs_step :: "('v, 'w) step"
  cs_handle :: step_handle
  cs_number :: nat

record ('r, 'v, 'w) run =
  rn_rec :: 'r
  rn_events :: "saga_event list"
  rn_env :: "('v saga_state \<times> 'w) env"

section \<open>The executor\<close>

abbreviation run_state :: "('r, 'v, 'w) run \<Rightarrow> 'v saga_state" where
  "run_state rn \<equiv> fst (fst (rn_env rn))"

abbreviation run_world :: "('r, 'v, 'w) run \<Rightarrow> 'w" where
  "run_world rn \<equiv> snd (fst (rn_env rn))"

definition emit :: "saga_event \<Rightarrow> ('r, 'v, 'w) run \<Rightarrow> ('r, 'v, 'w) run" where
  "emit ev rn = rn\<lparr>rn_events := rn_events rn @ [ev]\<rparr>"

definition call_step ::
  "('r, 'v, 'w) saga \<Rightarrow> ctx \<Rightarrow> ('v, 'w) step_fn \<Rightarrow> ('v saga_state \<times> 'w) env \<Rightarrow>
     unit result \<times> ('v saga_state \<times> 'w) env" where
  "call_step s ctx f e =
     (if MaxAttempts (sg_retry s) > 0 then Retry ctx (sg_retry s) (f ctx) e else f ctx e)"

definition runForward ::
  "('r, 'v, 'w) saga \<Rightarrow> ctx \<Rightarrow> ('v, 'w) step \<Rightarrow> ('v saga_state \<times> 'w) env \<Rightarrow>
     unit result \<times> ('v saga_state \<times> 'w) env" where
  "runForward s ctx step e =
     (case st_Forward step of None \<Rightarrow> (Inr (), e) | Some f \<Rightarrow> call_step s ctx f e)"

definition runBackward ::
  "('r, 'v, 'w) saga \<Rightarrow> ctx \<Rightarrow> ('v, 'w) step \<Rightarrow> ('v saga_state \<times> 'w) env \<Rightarrow>
     unit result \<times> ('v saga_state \<times> 'w) env" where
  "runBackward s ctx step e =
     (case st_Backward step of None \<Rightarrow> (Inr (), e) | Some f \<Rightarrow> call_step s ctx f e)"

text \<open>The walk of \<^verbatim>\<open>rollback\<close>, over the completed steps with the last one first.\<close>

fun rollback_walk ::
  "('r, 'v, 'w) saga \<Rightarrow> ctx \<Rightarrow> ('v, 'w) completed_step list \<Rightarrow> string list \<times> bool \<times> ('r, 'v, 'w) run \<Rightarrow>
     string list \<times> bool \<times> ('r, 'v, 'w) run" where
  "rollback_walk s ctx [] acc = acc"
| "rollback_walk s ctx (d # ds) (compensated, stuck, rn) =
     (if st_Pivot (cs_step d) then (compensated, stuck, rn)
      else if Option.is_none (st_Backward (cs_step d)) then rollback_walk s ctx ds (compensated, stuck, rn)
      else case RecordCompensation (sg_recorder s) (sg_id s) (st_Name (cs_step d))
                  (- int (cs_number d)) (cs_handle d) (run_state rn) (rn_rec rn) of
             (Inl _, r1) \<Rightarrow> rollback_walk s ctx ds (compensated, True, rn\<lparr>rn_rec := r1\<rparr>)
           | (Inr compHandle, r1) \<Rightarrow>
               (case runBackward s ctx (cs_step d) (rn_env rn) of
                  (Inl cErr, e1) \<Rightarrow>
                    rollback_walk s ctx ds
                      (compensated, True,
                       rn\<lparr>rn_rec := snd (MarkCompensationFailed (sg_recorder s) compHandle cErr r1),
                          rn_env := e1\<rparr>)
                | (Inr _, e1) \<Rightarrow>
                    rollback_walk s ctx ds
                      (compensated @ [st_Name (cs_step d)], stuck,
                       rn\<lparr>rn_rec := snd (MarkCompensated (sg_recorder s) compHandle r1),
                          rn_env := e1\<rparr>)))"

definition rollback ::
  "('r, 'v, 'w) saga \<Rightarrow> ctx \<Rightarrow> ('v, 'w) completed_step list \<Rightarrow> ('r, 'v, 'w) run \<Rightarrow>
     string list \<times> bool \<times> ('r, 'v, 'w) run" where
  "rollback s ctx done rn =
     (case rollback_walk s ctx (rev done) ([], False, rn) of
        (compensated, stuck, rn1) \<Rightarrow>
          (compensated, stuck,
           if stuck then emit (OnStuck (sg_id s) [] ''compensation incomplete; recovery required'') rn1
           else rn1))"

text \<open>The three error exits of the step loop: roll back, tell the publisher, return the error.\<close>

definition abort ::
  "('r, 'v, 'w) saga \<Rightarrow> ctx \<Rightarrow> ('v, 'w) step \<Rightarrow> go_error \<Rightarrow> ('v, 'w) completed_step list \<Rightarrow> ('r, 'v, 'w) run \<Rightarrow>
     unit result \<times> ('r, 'v, 'w) run" where
  "abort s ctx step err done rn =
     (case rollback s ctx done rn of
        (compensated, _, rn1) \<Rightarrow>
          (Inl err, emit (OnRolledBack (sg_id s) (st_Name step) err compensated) rn1))"

fun step_loop ::
  "('r, 'v, 'w) saga \<Rightarrow> ctx \<Rightarrow> nat \<Rightarrow> ('v, 'w) step list \<Rightarrow> ('v, 'w) completed_step list \<Rightarrow>
     ('r, 'v, 'w) run \<Rightarrow> unit result \<times> ('r, 'v, 'w) run" where
  "step_loop s ctx i [] done rn = (Inr (), emit (OnCommitted (sg_id s)) rn)"
| "step_loop s ctx i (step # steps) done rn =
     (case ctx_Err ctx (rn_env rn) of
        (Some err, e0) \<Rightarrow> abort s ctx step err done (rn\<lparr>rn_env := e0\<rparr>)
      | (None, e0) \<Rightarrow>
          if IsCompleted (sg_recorder s) (sg_id s) (st_Name step) (rn_rec rn) = Inr True
          then step_loop s ctx (Suc i) steps done (rn\<lparr>rn_env := e0\<rparr>)
          else case RecordForward (sg_recorder s) (sg_id s) (st_Name step) (int (Suc i))
                      (fst (fst e0)) (rn_rec rn) of
                 (Inl err, r1) \<Rightarrow> abort s ctx step err done (rn\<lparr>rn_env := e0, rn_rec := r1\<rparr>)
               | (Inr h, r1) \<Rightarrow>
                   (case runForward s ctx step e0 of
                      (Inl fwdErr, e1) \<Rightarrow>
                        abort s ctx step fwdErr done
                          (rn\<lparr>rn_env := e1, rn_rec := snd (MarkFailed (sg_recorder s) h fwdErr r1)\<rparr>)
                    | (Inr _, e1) \<Rightarrow>
                        step_loop s ctx (Suc i) steps
                          (done @ [\<lparr>cs_step = step, cs_handle = h, cs_number = Suc i\<rparr>])
                          (rn\<lparr>rn_env := e1, rn_rec := snd (MarkCompleted (sg_recorder s) h r1)\<rparr>)))"

definition Execute ::
  "('r, 'v, 'w) saga \<Rightarrow> ctx \<Rightarrow> ('r, 'v, 'w) run \<Rightarrow> unit result \<times> ('r, 'v, 'w) run" where
  "Execute s ctx rn =
     (if sg_steps s = [] then (Inr (), rn)
      else step_loop s ctx 0 (sg_steps s) [] (emit (OnStarted (sg_id s)) rn))"

text \<open>The steps the recorder reports completed, with their numbers.\<close>

fun recorded_done ::
  "('r, 'v, 'w) saga \<Rightarrow> nat \<Rightarrow> ('v, 'w) step list \<Rightarrow> 'r \<Rightarrow> ('v, 'w) completed_step list" where
  "recorded_done s i [] r = []"
| "recorded_done s i (step # steps) r =
     (if IsCompleted (sg_recorder s) (sg_id s) (st_Name step) r = Inr True
      then \<lparr>cs_step = step, cs_handle = zero_handle, cs_number = Suc i\<rparr> # recorded_done s (Suc i) steps r
      else recorded_done s (Suc i) steps r)"

definition Compensate ::
  "('r, 'v, 'w) saga \<Rightarrow> ctx \<Rightarrow> ('r, 'v, 'w) run \<Rightarrow> unit result \<times> ('r, 'v, 'w) run" where
  "Compensate s ctx rn =
     (if sg_steps s = [] then (Inr (), rn)
      else case rollback s ctx (recorded_done s 0 (sg_steps s) (rn_rec rn)) rn of
             (compensated, stuck, rn1) \<Rightarrow>
               (if stuck then Inl ErrCompensationStuck else Inr (),
                emit (OnRolledBack (sg_id s) [] (Plain ''recovery compensation'') compensated) rn1))"

end
