(* ===== verification/Saga_Recovery.thy ===== *)
theory Saga_Recovery
  imports Saga
begin

text \<open>
  The crash-recovery runner of \<^verbatim>\<open>contract/shared/saga/saga_recovery.go\<close>. The recorder and the
  classifier are ports of the code, records of their methods over the recorder's store \<open>'r\<close> and the
  world \<open>'w\<close> the classifier's retries act on. The ticker loop of \<^verbatim>\<open>Run\<close> calls \<open>Reconcile\<close> once per tick.
\<close>

datatype recovery_action = ActionLeave | ActionRetry | ActionSkip | ActionDeadLetter

definition action_String :: "recovery_action \<Rightarrow> string" where
  "action_String a =
     (case a of ActionLeave \<Rightarrow> ''leave'' | ActionRetry \<Rightarrow> ''retry'' | ActionSkip \<Rightarrow> ''skip''
      | ActionDeadLetter \<Rightarrow> ''dead_letter'')"

record 'v stuck_step =
  sk_Handle :: step_handle
  sk_SagaID :: string
  sk_StepName :: string
  sk_StepNumber :: int
  sk_Status :: string
  sk_RetryCount :: nat
  sk_UpdatedAt :: nat
  sk_Payload :: "'v saga_state"
  sk_Compensation :: bool

text \<open>\<open>rr_full\<close> is the result of the type assertion to the full recorder interface.\<close>

record ('r, 'v) recovery_recorder =
  ListStuck :: "nat \<Rightarrow> 'r \<Rightarrow> 'v stuck_step list result"
  IncrementRetry :: "step_handle \<Rightarrow> 'r \<Rightarrow> unit result \<times> 'r"
  MarkDeadLetter :: "step_handle \<Rightarrow> go_error \<Rightarrow> 'r \<Rightarrow> unit result \<times> 'r"
  rr_full :: "('r, 'v) recorder option"

record ('v, 'w) classifier =
  Classify :: "'v stuck_step \<Rightarrow> recovery_action"
  RetryStep :: "ctx \<Rightarrow> 'v stuck_step \<Rightarrow> 'w env \<Rightarrow> unit result \<times> 'w env"

record recovery_config =
  Interval :: int
  StuckAfter :: int
  MaxRetries :: int

definition DefaultRecoveryConfig :: recovery_config where
  "DefaultRecoveryConfig = \<lparr>Interval = 30, StuckAfter = 30, MaxRetries = 5\<rparr>"

record ('r, 'v, 'w) recovery_runner =
  rr_recorder :: "('r, 'v) recovery_recorder option"
  rr_classifier :: "('v, 'w) classifier option"
  rr_cfg :: recovery_config

definition NewRecoveryRunner ::
  "('r, 'v) recovery_recorder option \<Rightarrow> ('v, 'w) classifier option \<Rightarrow> recovery_config \<Rightarrow>
     ('r, 'v, 'w) recovery_runner" where
  "NewRecoveryRunner rec cl cfg =
     \<lparr>rr_recorder = rec, rr_classifier = cl,
      rr_cfg =
        \<lparr>Interval = (if Interval cfg \<le> 0 then Interval DefaultRecoveryConfig else Interval cfg),
         StuckAfter = (if StuckAfter cfg \<le> 0 then StuckAfter DefaultRecoveryConfig else StuckAfter cfg),
         MaxRetries = (if MaxRetries cfg \<le> 0 then MaxRetries DefaultRecoveryConfig else MaxRetries cfg)\<rparr>\<rparr>"

definition skipToTerminal :: "('r, 'v) recovery_recorder \<Rightarrow> 'v stuck_step \<Rightarrow> 'r \<Rightarrow> 'r" where
  "skipToTerminal rec step r =
     (case rr_full rec of
        None \<Rightarrow>
          snd (MarkDeadLetter rec (sk_Handle step)
                 (Plain ''recovery cannot finalize: recorder lacks Mark methods'') r)
      | Some full \<Rightarrow>
          if sk_Compensation step then snd (MarkCompensated full (sk_Handle step) r)
          else snd (MarkCompleted full (sk_Handle step) r))"

definition reconcile_step ::
  "('r, 'v) recovery_recorder \<Rightarrow> ('v, 'w) classifier \<Rightarrow> int \<Rightarrow> ctx \<Rightarrow> 'v stuck_step \<Rightarrow> 'r \<times> 'w env \<Rightarrow>
     'r \<times> 'w env" where
  "reconcile_step rec cl maxRetries ctx step = (\<lambda>(r, e).
     if int (sk_RetryCount step) \<ge> maxRetries
     then (snd (MarkDeadLetter rec (sk_Handle step) (Plain ''exceeded max recovery retries'') r), e)
     else case Classify cl step of
            ActionLeave \<Rightarrow> (r, e)
          | ActionSkip \<Rightarrow> (skipToTerminal rec step r, e)
          | ActionDeadLetter \<Rightarrow>
              (snd (MarkDeadLetter rec (sk_Handle step) (Plain ''classifier marked unrecoverable'') r), e)
          | ActionRetry \<Rightarrow>
              (case RetryStep cl ctx step e of
                 (Inl _, e1) \<Rightarrow> (snd (IncrementRetry rec (sk_Handle step) r), e1)
               | (Inr _, e1) \<Rightarrow> (skipToTerminal rec step r, e1)))"

fun reconcile_loop ::
  "('r, 'v) recovery_recorder \<Rightarrow> ('v, 'w) classifier \<Rightarrow> int \<Rightarrow> ctx \<Rightarrow> 'v stuck_step list \<Rightarrow> 'r \<times> 'w env \<Rightarrow>
     unit result \<times> 'r \<times> 'w env" where
  "reconcile_loop rec cl maxRetries ctx [] x = (Inr (), x)"
| "reconcile_loop rec cl maxRetries ctx (step # steps) (r, e) =
     (case ctx_Err ctx e of
        (Some err, e1) \<Rightarrow> (Inl err, r, e1)
      | (None, e1) \<Rightarrow>
          reconcile_loop rec cl maxRetries ctx steps (reconcile_step rec cl maxRetries ctx step (r, e1)))"

definition Reconcile ::
  "('r, 'v, 'w) recovery_runner \<Rightarrow> ctx \<Rightarrow> 'r \<times> 'w env \<Rightarrow> unit result \<times> 'r \<times> 'w env" where
  "Reconcile rr ctx = (\<lambda>(r, e).
     case (rr_recorder rr, rr_classifier rr) of
       (Some rec, Some cl) \<Rightarrow>
         (case ListStuck rec (nat (StuckAfter (rr_cfg rr))) r of
            Inl err \<Rightarrow> (Inl err, r, e)
          | Inr stuck \<Rightarrow> reconcile_loop rec cl (MaxRetries (rr_cfg rr)) ctx stuck (r, e))
     | _ \<Rightarrow> (Inl (Plain ''recovery: nil recorder or classifier''), r, e))"

end
