(* ===== verification/Tx_Saga.thy ===== *)
theory Tx_Saga
  imports Saga_Recovery Account_Service
begin

text \<open>
  The saga log of the transaction service and what runs over it: the table
  (\<^verbatim>\<open>model/saga_log.go\<close>, \<^verbatim>\<open>repository/saga_log_repository.go\<close>), its recorder and classifier adapters
  (\<^verbatim>\<open>internal/saga/recorder.go\<close>, \<^verbatim>\<open>internal/saga/classifier.go\<close>), \<^verbatim>\<open>executeWithSaga\<close>
  (\<^verbatim>\<open>service/saga_helper.go\<close>) and the compensation recovery loop (\<^verbatim>\<open>runRecoveryTick\<close> of
  \<^verbatim>\<open>service/transfer_service.go\<close>).

  The account client is a record of the calls the service makes, over the state \<open>'w\<close> of the account
  service. \<open>fixed4\<close> stands for \<^verbatim>\<open>decimal.StringFixed(4)\<close> and \<open>parse\<close> for \<^verbatim>\<open>decimal.NewFromString\<close>,
  which the source takes from a library.
\<close>

section \<open>The table\<close>

record saga_log =
  sl_ID :: nat
  sl_SagaID :: string
  sl_TransactionID :: nat
  sl_TransactionType :: string
  sl_StepNumber :: int
  sl_StepName :: string
  sl_Status :: string
  sl_IsCompensation :: bool
  sl_AccountNumber :: string
  sl_Amount :: decimal
  sl_ErrorMessage :: "go_error option"
  sl_CompensationOf :: "nat option"
  sl_RetryCount :: nat
  sl_CreatedAt :: nat
  sl_CompletedAt :: "nat option"

text \<open>The table with its sequence, and the clock that \<^verbatim>\<open>time.Now()\<close> reads.\<close>

record saga_db =
  saga_logs :: "saga_log list"
  seq_saga_logs :: nat
  tx_now :: nat

definition RecordStep :: "saga_log \<Rightarrow> saga_db \<Rightarrow> nat result \<times> saga_db" where
  "RecordStep row db =
     (Inr (seq_saga_logs db),
      db\<lparr>saga_logs := saga_logs db @ [row\<lparr>sl_ID := seq_saga_logs db\<rparr>],
         seq_saga_logs := Suc (seq_saga_logs db)\<rparr>)"

definition update_log :: "nat \<Rightarrow> (saga_log \<Rightarrow> saga_log) \<Rightarrow> saga_db \<Rightarrow> unit result \<times> saga_db" where
  "update_log i f db = (Inr (), db\<lparr>saga_logs := upd_rows (\<lambda>l. sl_ID l = i) f (saga_logs db)\<rparr>)"

definition CompleteStep :: "nat \<Rightarrow> saga_db \<Rightarrow> unit result \<times> saga_db" where
  "CompleteStep i db =
     update_log i (\<lambda>l. l\<lparr>sl_Status := ''completed'', sl_CompletedAt := Some (tx_now db)\<rparr>) db"

definition FailStep :: "nat \<Rightarrow> go_error \<Rightarrow> saga_db \<Rightarrow> unit result \<times> saga_db" where
  "FailStep i errMsg = update_log i (\<lambda>l. l\<lparr>sl_Status := ''failed'', sl_ErrorMessage := Some errMsg\<rparr>)"

definition FindPendingCompensations :: "saga_db \<Rightarrow> saga_log list" where
  "FindPendingCompensations db = filter (\<lambda>l. sl_Status l = ''compensating'') (saga_logs db)"

definition IncrementRetryCount :: "nat \<Rightarrow> saga_db \<Rightarrow> unit result \<times> saga_db" where
  "IncrementRetryCount i = update_log i (\<lambda>l. l\<lparr>sl_RetryCount := sl_RetryCount l + 1\<rparr>)"

definition MarkDeadLetterRow :: "nat \<Rightarrow> go_error \<Rightarrow> saga_db \<Rightarrow> unit result \<times> saga_db" where
  "MarkDeadLetterRow i errMsg =
     update_log i (\<lambda>l. l\<lparr>sl_Status := ''dead_letter'', sl_ErrorMessage := Some errMsg\<rparr>)"

definition SetErrorMessage :: "nat \<Rightarrow> go_error \<Rightarrow> saga_db \<Rightarrow> unit result \<times> saga_db" where
  "SetErrorMessage i errMsg = update_log i (\<lambda>l. l\<lparr>sl_ErrorMessage := Some errMsg\<rparr>)"

definition IsForwardCompleted :: "string \<Rightarrow> string \<Rightarrow> saga_db \<Rightarrow> bool result" where
  "IsForwardCompleted sagaID stepName db =
     Inr (length (filter (\<lambda>l. sl_SagaID l = sagaID \<and> sl_StepName l = stepName \<and>
            sl_Status l = ''completed'' \<and> \<not> sl_IsCompensation l) (saga_logs db)) > 0)"

definition ListStuckOlderThan :: "int \<Rightarrow> saga_db \<Rightarrow> saga_log list" where
  "ListStuckOlderThan cutoff db =
     filter (\<lambda>l. sl_Status l \<in> {''pending'', ''compensating''} \<and> int (sl_CreatedAt l) < cutoff)
       (saga_logs db)"

definition GetBySagaID :: "string \<Rightarrow> saga_db \<Rightarrow> saga_log list" where
  "GetBySagaID sagaID db =
     sort_key sl_StepNumber (filter (\<lambda>l. sl_SagaID l = sagaID) (saga_logs db))"

record saga_log_filter =
  sf_SagaID :: string
  sf_Status :: string
  sf_TransactionType :: string
  sf_Since :: "nat option"
  sf_Until :: "nat option"
  sf_Page :: int
  sf_PageSize :: int

definition matches_filter :: "saga_log_filter \<Rightarrow> saga_log \<Rightarrow> bool" where
  "matches_filter f l \<longleftrightarrow>
     (sf_SagaID f = [] \<or> sl_SagaID l = sf_SagaID f) \<and>
     (sf_Status f = [] \<or> sl_Status l = sf_Status f) \<and>
     (sf_TransactionType f = [] \<or> sl_TransactionType l = sf_TransactionType f) \<and>
     (case sf_Since f of None \<Rightarrow> True | Some t \<Rightarrow> sl_CreatedAt l \<ge> t) \<and>
     (case sf_Until f of None \<Rightarrow> True | Some t \<Rightarrow> sl_CreatedAt l \<le> t)"

definition ListSagaLogs :: "saga_log_filter \<Rightarrow> saga_db \<Rightarrow> saga_log list \<times> nat" where
  "ListSagaLogs f db =
     (let rows = filter (matches_filter f) (saga_logs db);
          page = (if sf_Page f < 1 then 1 else sf_Page f);
          pageSize = (if sf_PageSize f < 1 \<or> sf_PageSize f > 200 then 50 else sf_PageSize f)
      in (take (nat pageSize) (drop (nat ((page - 1) * pageSize)) (rev (sort_key sl_ID rows))), length rows))"

section \<open>The recorder\<close>

text \<open>The dynamic types of the values that the saga's state bag holds here.\<close>

datatype state_val = VUint nat | VString string | VDec decimal

definition as_uint :: "state_val \<Rightarrow> nat" where
  "as_uint v = (case v of VUint n \<Rightarrow> n | _ \<Rightarrow> 0)"

definition as_string :: "state_val \<Rightarrow> string" where
  "as_string v = (case v of VString s \<Rightarrow> s | _ \<Rightarrow> [])"

definition as_dec :: "state_val \<Rightarrow> decimal" where
  "as_dec v = (case v of VDec d \<Rightarrow> d | _ \<Rightarrow> 0)"

definition stepAccountKey :: "string \<Rightarrow> string" where
  "stepAccountKey name = ''step:'' @ name @ '':account_number''"

definition stepAmountKey :: "string \<Rightarrow> string" where
  "stepAmountKey name = ''step:'' @ name @ '':amount''"

definition buildRow :: "string \<Rightarrow> string \<Rightarrow> int \<Rightarrow> state_val saga_state \<Rightarrow> nat \<Rightarrow> saga_log" where
  "buildRow sagaID stepName stepNumber st now =
     \<lparr>sl_ID = 0, sl_SagaID = sagaID,
      sl_TransactionID = (case st ''transaction_id'' of None \<Rightarrow> 0 | Some v \<Rightarrow> as_uint v),
      sl_TransactionType = (case st ''transaction_type'' of None \<Rightarrow> [] | Some v \<Rightarrow> as_string v),
      sl_StepNumber = stepNumber, sl_StepName = stepName, sl_Status = [], sl_IsCompensation = False,
      sl_AccountNumber = (case st (stepAccountKey stepName) of None \<Rightarrow> [] | Some v \<Rightarrow> as_string v),
      sl_Amount = (case st (stepAmountKey stepName) of None \<Rightarrow> 0 | Some v \<Rightarrow> as_dec v),
      sl_ErrorMessage = None, sl_CompensationOf = None, sl_RetryCount = 0,
      sl_CreatedAt = now, sl_CompletedAt = None\<rparr>"

definition tx_RecordForward ::
  "string \<Rightarrow> string \<Rightarrow> int \<Rightarrow> state_val saga_state \<Rightarrow> saga_db \<Rightarrow> step_handle result \<times> saga_db" where
  "tx_RecordForward sagaID stepName stepNumber st db =
     (let row = (buildRow sagaID stepName stepNumber st (tx_now db))
                  \<lparr>sl_Status := SagaStatusPending, sl_IsCompensation := False\<rparr>
      in case RecordStep row db of
           (Inl e, db') \<Rightarrow> (Inl e, db')
         | (Inr i, db') \<Rightarrow> (Inr \<lparr>h_ID = i, h_Version = 0\<rparr>, db'))"

definition tx_RecordCompensation ::
  "string \<Rightarrow> string \<Rightarrow> int \<Rightarrow> step_handle \<Rightarrow> state_val saga_state \<Rightarrow> saga_db \<Rightarrow> step_handle result \<times> saga_db" where
  "tx_RecordCompensation sagaID stepName stepNumber forward st db =
     (let row = (buildRow sagaID stepName stepNumber st (tx_now db))
                  \<lparr>sl_Status := SagaStatusCompensating, sl_IsCompensation := True,
                   sl_CompensationOf := (if h_ID forward \<noteq> 0 then Some (h_ID forward) else None)\<rparr>
      in case RecordStep (row\<lparr>sl_Amount := - sl_Amount row\<rparr>) db of
           (Inl e, db') \<Rightarrow> (Inl e, db')
         | (Inr i, db') \<Rightarrow> (Inr \<lparr>h_ID = i, h_Version = 0\<rparr>, db'))"

definition tx_recorder :: "(saga_db, state_val) recorder" where
  "tx_recorder =
     \<lparr>RecordForward = tx_RecordForward,
      MarkCompleted = (\<lambda>h. CompleteStep (h_ID h)),
      MarkFailed = (\<lambda>h. FailStep (h_ID h)),
      RecordCompensation = tx_RecordCompensation,
      MarkCompensated = (\<lambda>h. CompleteStep (h_ID h)),
      MarkCompensationFailed = (\<lambda>h. SetErrorMessage (h_ID h)),
      IsCompleted = IsForwardCompleted\<rparr>"

definition strip_suffix :: "string \<Rightarrow> string \<Rightarrow> string" where
  "strip_suffix suffix name =
     (if length suffix \<le> length name \<and> drop (length name - length suffix) name = suffix
      then take (length name - length suffix) name else name)"

definition stripCompensationSuffix :: "string \<Rightarrow> string" where
  "stripCompensationSuffix name = strip_suffix ''_compensation'' name"

definition to_stuck :: "saga_log \<Rightarrow> state_val stuck_step" where
  "to_stuck l =
     \<lparr>sk_Handle = \<lparr>h_ID = sl_ID l, h_Version = 0\<rparr>, sk_SagaID = sl_SagaID l,
      sk_StepName = stripCompensationSuffix (sl_StepName l), sk_StepNumber = sl_StepNumber l,
      sk_Status = sl_Status l, sk_RetryCount = sl_RetryCount l, sk_UpdatedAt = sl_CreatedAt l,
      sk_Payload = [''account_number'' \<mapsto> VString (sl_AccountNumber l),
                    ''amount'' \<mapsto> VDec (sl_Amount l),
                    ''transaction_id'' \<mapsto> VUint (sl_TransactionID l),
                    ''transaction_type'' \<mapsto> VString (sl_TransactionType l)],
      sk_Compensation = sl_IsCompensation l\<rparr>"

definition tx_recovery_recorder :: "(saga_db, state_val) recovery_recorder" where
  "tx_recovery_recorder =
     \<lparr>ListStuck = (\<lambda>olderThan db. Inr (map to_stuck (ListStuckOlderThan (int (tx_now db) - int olderThan) db))),
      IncrementRetry = (\<lambda>h. IncrementRetryCount (h_ID h)),
      MarkDeadLetter = (\<lambda>h. MarkDeadLetterRow (h_ID h)),
      rr_full = Some tx_recorder\<rparr>"

section \<open>The account client\<close>

record account_response =
  ar_AccountNumber :: string
  ar_OwnerId :: nat
  ar_AccountCategory :: string
  ar_CurrencyCode :: string
  ar_AvailableBalance :: string
  ar_DailyLimit :: string
  ar_MonthlyLimit :: string
  ar_DailySpending :: string
  ar_MonthlySpending :: string

record 'w account_client =
  ac_UpdateBalance :: "update_balance_request \<Rightarrow> 'w \<Rightarrow> unit result \<times> 'w"
  ac_GetAccountByNumber :: "string \<Rightarrow> 'w \<Rightarrow> account_response result \<times> 'w"
  ac_ListBankAccounts :: "'w \<Rightarrow> account_response list result \<times> 'w"

text \<open>
  The account service behind the client: its RPC handlers over the replay table and the database.
  The response carries the fields that the transaction service reads; \<open>owns\<close> is the ownership check
  on the caller's identity and \<open>blob\<close> the empty replay row.
\<close>

definition toAccountResponse :: "(decimal \<Rightarrow> string) \<Rightarrow> account \<Rightarrow> account_response" where
  "toAccountResponse fixed4 a =
     \<lparr>ar_AccountNumber = acc_AccountNumber a, ar_OwnerId = acc_OwnerID a,
      ar_AccountCategory = acc_AccountCategory a, ar_CurrencyCode = acc_CurrencyCode a,
      ar_AvailableBalance = fixed4 (acc_AvailableBalance a), ar_DailyLimit = fixed4 (acc_DailyLimit a),
      ar_MonthlyLimit = fixed4 (acc_MonthlyLimit a), ar_DailySpending = fixed4 (acc_DailySpending a),
      ar_MonthlySpending = fixed4 (acc_MonthlySpending a)\<rparr>"

type_synonym account_world = "(string \<rightharpoonup> account_response) \<times> account_db"

definition GetAccountByNumberRPC ::
  "(nat \<Rightarrow> bool) \<Rightarrow> (decimal \<Rightarrow> string) \<Rightarrow> string \<Rightarrow> account_world \<Rightarrow> account_response result \<times> account_world" where
  "GetAccountByNumberRPC owns fixed4 n = (\<lambda>(tbl, s).
     case GetAccountByNumber n s of
       (Inl e, s') \<Rightarrow>
         (Inl (if e = ErrRecordNotFound then Status NotFound ''account not found'' else e), (tbl, s'))
     | (Inr account, s') \<Rightarrow>
         if \<not> owns (acc_OwnerID account) then (Inl ErrAccountNotFound, (tbl, s'))
         else (Inr (toAccountResponse fixed4 account), (tbl, s')))"

definition ListBankAccountsRPC ::
  "(decimal \<Rightarrow> string) \<Rightarrow> account_world \<Rightarrow> account_response list result \<times> account_world" where
  "ListBankAccountsRPC fixed4 = (\<lambda>(tbl, s). (Inr (map (toAccountResponse fixed4) (ListBankAccounts s)), (tbl, s)))"

definition rpc_client ::
  "(nat \<Rightarrow> bool) \<Rightarrow> (decimal \<Rightarrow> string) \<Rightarrow> (string \<Rightarrow> decimal option) \<Rightarrow> account_response \<Rightarrow>
     account_world account_client" where
  "rpc_client owns fixed4 parse blob =
     \<lparr>ac_UpdateBalance = (\<lambda>req (tbl, s).
        case UpdateBalanceRPC Inr Inr blob parse (toAccountResponse fixed4) req tbl s of
          (Inl e, w) \<Rightarrow> (Inl e, w)
        | (Inr _, w) \<Rightarrow> (Inr (), w)),
      ac_GetAccountByNumber = GetAccountByNumberRPC owns fixed4,
      ac_ListBankAccounts = ListBankAccountsRPC fixed4\<rparr>"

definition balance_request :: "string \<Rightarrow> string \<Rightarrow> string \<Rightarrow> update_balance_request" where
  "balance_request acct amount key =
     \<lparr>rq_AccountNumber = acct, rq_Amount = amount, rq_UpdateAvailable = True, rq_Memo = [],
      rq_IdempotencyKey = key\<rparr>"

definition retry_update ::
  "'w account_client \<Rightarrow> retry_config \<Rightarrow> update_balance_request \<Rightarrow> ctx \<Rightarrow> 'w env \<Rightarrow> unit result \<times> 'w env" where
  "retry_update client cfg req ctx =
     Retry ctx cfg (\<lambda>(w, n). case ac_UpdateBalance client req w of (r, w') \<Rightarrow> (r, (w', n)))"

text \<open>
  \<^verbatim>\<open>shared.Retry\<close> around \<^verbatim>\<open>GetAccountByNumber\<close>: the closure assigns the response to a variable of
  the caller, which is nil before the first call.
\<close>

definition retry_get ::
  "('w \<Rightarrow> 'x result \<times> 'w) \<Rightarrow> retry_config \<Rightarrow> ctx \<Rightarrow> 'w env \<Rightarrow> (go_error + 'x option) \<times> 'w env" where
  "retry_get get cfg ctx = (\<lambda>(w, n).
     case Retry ctx cfg
            (\<lambda>((v, w), n). case get w of
                (Inl e, w') \<Rightarrow> (Inl e, ((None, w'), n))
              | (Inr x, w') \<Rightarrow> (Inr (), ((Some x, w'), n)))
            ((None, w), n) of
       (Inl e, ((_, w'), n')) \<Rightarrow> (Inl e, (w', n'))
     | (Inr _, ((v, w'), n')) \<Rightarrow> (Inr v, (w', n')))"

section \<open>The classifier\<close>

definition tx_Classify :: "'w account_client option \<Rightarrow> state_val stuck_step \<Rightarrow> recovery_action" where
  "tx_Classify client step =
     (if Option.is_none client then ActionLeave
      else if (case sk_Payload step ''account_number'' of None \<Rightarrow> [] | Some v \<Rightarrow> as_string v) = [] then ActionLeave
      else if Option.is_none (sk_Payload step ''amount'') then ActionLeave
      else ActionRetry)"

definition tx_Retry ::
  "(decimal \<Rightarrow> string) \<Rightarrow> 'w account_client option \<Rightarrow> retry_config \<Rightarrow> ctx \<Rightarrow> state_val stuck_step \<Rightarrow> 'w env \<Rightarrow>
     unit result \<times> 'w env" where
  "tx_Retry fixed4 client cfg ctx step e =
     (case client of
        None \<Rightarrow> (Inl (Plain ''classifier: nil account client''), e)
      | Some cl \<Rightarrow>
          (let acct = (case sk_Payload step ''account_number'' of None \<Rightarrow> [] | Some v \<Rightarrow> as_string v)
           in if acct = [] then (Inl (Plain ''classifier: empty account number on row''), e)
              else case sk_Payload step ''amount'' of
                     None \<Rightarrow> (Inl (Plain ''classifier: no amount on row''), e)
                   | Some (VDec amount) \<Rightarrow>
                       (let key = IdempotencyKey (sk_SagaID step) (sk_StepName step);
                            idemKey = (if sk_Compensation step then key @ '':compensate'' else key)
                        in retry_update cl cfg (balance_request acct (fixed4 amount) idemKey) ctx e)
                   | Some _ \<Rightarrow> (Inl (Plain ''classifier: amount payload is not decimal.Decimal''), e)))"

definition tx_classifier ::
  "(decimal \<Rightarrow> string) \<Rightarrow> 'w account_client option \<Rightarrow> retry_config \<Rightarrow> (state_val, 'w) classifier" where
  "tx_classifier fixed4 client cfg =
     \<lparr>Classify = tx_Classify client, RetryStep = tx_Retry fixed4 client cfg\<rparr>"

section \<open>Running balance steps as a saga\<close>

record 'w saga_step =
  ss_name :: string
  ss_accountNumber :: string
  ss_amount :: decimal
  ss_execute :: "ctx \<Rightarrow> 'w env \<Rightarrow> unit result \<times> 'w env"

text \<open>A call on the service's world inside a step closure, which ignores the state bag.\<close>

definition lift_world ::
  "('w env \<Rightarrow> unit result \<times> 'w env) \<Rightarrow> ('v saga_state \<times> 'w) env \<Rightarrow> unit result \<times> ('v saga_state \<times> 'w) env" where
  "lift_world f = (\<lambda>((st, w), n). case f (w, n) of (r, (w', n')) \<Rightarrow> (r, ((st, w'), n')))"

definition saga_backward ::
  "(decimal \<Rightarrow> string) \<Rightarrow> 'w account_client option \<Rightarrow> retry_config \<Rightarrow> string \<Rightarrow> 'w saga_step \<Rightarrow> ctx \<Rightarrow> 'w env \<Rightarrow>
     unit result \<times> 'w env" where
  "saga_backward fixed4 accountClient cfg sagaID step ctx e =
     (case accountClient of
        None \<Rightarrow> (Inr (), e)
      | Some client \<Rightarrow>
          retry_update client cfg
            (balance_request (ss_accountNumber step) (fixed4 (- ss_amount step))
               (IdempotencyKey sagaID (ss_name step) @ '':compensate'')) ctx e)"

definition saga_step_of ::
  "(decimal \<Rightarrow> string) \<Rightarrow> 'w account_client option \<Rightarrow> retry_config \<Rightarrow> string \<Rightarrow> 'w saga_step \<Rightarrow> (state_val, 'w) step" where
  "saga_step_of fixed4 accountClient cfg sagaID step =
     \<lparr>st_Name = ss_name step,
      st_Forward = Some (\<lambda>ctx. lift_world (ss_execute step ctx)),
      st_Backward = Some (\<lambda>ctx. lift_world (saga_backward fixed4 accountClient cfg sagaID step ctx)),
      st_Pivot = False\<rparr>"

definition saga_metadata :: "'w saga_step \<Rightarrow> state_val saga_state \<Rightarrow> state_val saga_state" where
  "saga_metadata step st =
     SetState (''step:'' @ ss_name step @ '':amount'') (VDec (ss_amount step))
       (SetState (''step:'' @ ss_name step @ '':account_number'') (VString (ss_accountNumber step)) st)"

text \<open>
  \<open>nano\<close> is \<^verbatim>\<open>time.Now().UnixNano()\<close>. The state is the service's own saga table with the events of
  the run and the account service behind the client.
\<close>

definition executeWithSaga ::
  "(decimal \<Rightarrow> string) \<Rightarrow> ctx \<Rightarrow> bool \<Rightarrow> 'w account_client option \<Rightarrow> retry_config \<Rightarrow> nat \<Rightarrow> nat \<Rightarrow> string \<Rightarrow>
     'w saga_step list \<Rightarrow> saga_db \<Rightarrow> 'w env \<Rightarrow> unit result \<times> (saga_db, state_val, 'w) run" where
  "executeWithSaga fixed4 ctx has_repo accountClient cfg nano transactionID txType steps db e =
     (let sagaID = txType @ ''-'' @ itoa transactionID @ ''-'' @ itoa nano;
          recorder = (if has_repo then tx_recorder else NoopRecorder);
          state0 = SetState ''transaction_type'' (VString txType)
                     (SetState ''transaction_id'' (VUint transactionID) NewState);
          state = fold saga_metadata steps state0;
          sg = fold (\<lambda>step. Add (saga_step_of fixed4 accountClient cfg sagaID step)) steps
                 (NewSagaWithID sagaID (Some recorder))
      in Execute sg ctx \<lparr>rn_rec = db, rn_events = [], rn_env = ((state, fst e), snd e)\<rparr>)"

text \<open>
  The step literals of the payment and transfer services all have this shape: the forward call
  updates the step's account by the step's amount, under the key of the transaction and the step.
\<close>

type_synonym balance_move = "string \<times> string \<times> decimal"

definition balance_step ::
  "(decimal \<Rightarrow> string) \<Rightarrow> 'w account_client \<Rightarrow> retry_config \<Rightarrow> string \<Rightarrow> balance_move \<Rightarrow> 'w saga_step" where
  "balance_step fixed4 client cfg keyPrefix = (\<lambda>(name, acct, amount).
     \<lparr>ss_name = name, ss_accountNumber = acct, ss_amount = amount,
      ss_execute =
        retry_update client cfg (balance_request acct (fixed4 amount) (IdempotencyKey keyPrefix name))\<rparr>)"

section \<open>The compensation recovery loop\<close>

definition maxSagaCompensationRetries :: nat where
  "maxSagaCompensationRetries = 10"

record dead_letter =
  dl_SagaLogID :: nat
  dl_SagaID :: string
  dl_TransactionID :: nat
  dl_TransactionType :: string
  dl_StepName :: string
  dl_AccountNumber :: string
  dl_Amount :: string
  dl_RetryCount :: nat
  dl_LastError :: go_error

type_synonym 'w recovery_state = "saga_db \<times> dead_letter list \<times> 'w env"

definition recover_one ::
  "(decimal \<Rightarrow> string) \<Rightarrow> 'w account_client \<Rightarrow> retry_config \<Rightarrow> ctx \<Rightarrow> saga_log \<Rightarrow> 'w recovery_state \<Rightarrow>
     'w recovery_state" where
  "recover_one fixed4 client cfg ctx row = (\<lambda>(db, published, e).
     case retry_update client cfg
            (balance_request (sl_AccountNumber row) (fixed4 (sl_Amount row)) (''compensate-'' @ itoa (sl_ID row)))
            ctx e of
       (Inr _, e1) \<Rightarrow> (snd (CompleteStep (sl_ID row) db), published, e1)
     | (Inl retryErr, e1) \<Rightarrow>
         (case IncrementRetryCount (sl_ID row) db of
            (Inl _, db1) \<Rightarrow> (db1, published, e1)
          | (Inr _, db1) \<Rightarrow>
              (let updatedCount = sl_RetryCount row + 1
               in if updatedCount \<ge> maxSagaCompensationRetries
                  then case MarkDeadLetterRow (sl_ID row) retryErr db1 of
                         (Inl _, db2) \<Rightarrow> (db2, published, e1)
                       | (Inr _, db2) \<Rightarrow>
                           (db2,
                            published @
                              [\<lparr>dl_SagaLogID = sl_ID row, dl_SagaID = sl_SagaID row,
                                dl_TransactionID = sl_TransactionID row,
                                dl_TransactionType = sl_TransactionType row,
                                dl_StepName = sl_StepName row,
                                dl_AccountNumber = sl_AccountNumber row,
                                dl_Amount = fixed4 (sl_Amount row),
                                dl_RetryCount = updatedCount, dl_LastError = retryErr\<rparr>],
                            e1)
                  else (db1, published, e1))))"

definition runRecoveryTick ::
  "(decimal \<Rightarrow> string) \<Rightarrow> bool \<Rightarrow> 'w account_client option \<Rightarrow> retry_config \<Rightarrow> ctx \<Rightarrow> 'w recovery_state \<Rightarrow>
     'w recovery_state" where
  "runRecoveryTick fixed4 has_repo accountClient cfg ctx = (\<lambda>(db, published, e).
     case accountClient of
       None \<Rightarrow> (db, published, e)
     | Some client \<Rightarrow>
         if \<not> has_repo then (db, published, e)
         else fold (recover_one fixed4 client cfg ctx) (FindPendingCompensations db) (db, published, e))"

end
