(* ===== verification/Tx_Fees.thy ===== *)
theory Tx_Fees
  imports Prelude
begin

text \<open>
  Fee rules of the transaction service: \<^verbatim>\<open>model/transfer_fee.go\<close>,
  \<^verbatim>\<open>repository/transfer_fee_repository.go\<close> and \<^verbatim>\<open>service/fee_service.go\<close>. Dividing by one hundred is
  exact here; the library keeps sixteen digits, and a product of two amounts with four digits
  divided by one hundred has at most ten.
\<close>

record transfer_fee =
  tf_ID :: nat
  tf_Name :: string
  tf_FeeType :: string
  tf_FeeValue :: decimal
  tf_MinAmount :: decimal
  tf_MaxFee :: decimal
  tf_TransactionType :: string
  tf_CurrencyCode :: string
  tf_Active :: bool

record fee_db =
  fees :: "transfer_fee list"
  seq_fees :: nat

section \<open>The repository\<close>

definition CreateFee :: "transfer_fee \<Rightarrow> fee_db \<Rightarrow> unit result \<times> fee_db" where
  "CreateFee fee db =
     (Inr (), db\<lparr>fees := fees db @ [fee\<lparr>tf_ID := seq_fees db\<rparr>], seq_fees := Suc (seq_fees db)\<rparr>)"

definition GetFee :: "nat \<Rightarrow> fee_db \<Rightarrow> transfer_fee result" where
  "GetFee i db = (case find (\<lambda>f. tf_ID f = i) (fees db) of None \<Rightarrow> Inl ErrRecordNotFound | Some f \<Rightarrow> Inr f)"

text \<open>\<^verbatim>\<open>Save\<close> of a row whose key is not in the table inserts it.\<close>

definition UpdateFee :: "transfer_fee \<Rightarrow> fee_db \<Rightarrow> unit result \<times> fee_db" where
  "UpdateFee fee db =
     (Inr (), if tf_ID fee \<in> tf_ID ` set (fees db) then db\<lparr>fees := put_row tf_ID fee (fees db)\<rparr>
              else db\<lparr>fees := fees db @ [fee]\<rparr>)"

definition DeactivateFee :: "nat \<Rightarrow> fee_db \<Rightarrow> unit result \<times> fee_db" where
  "DeactivateFee i db = (Inr (), db\<lparr>fees := upd_rows (\<lambda>f. tf_ID f = i) (\<lambda>f. f\<lparr>tf_Active := False\<rparr>) (fees db)\<rparr>)"

definition fee_applies :: "decimal \<Rightarrow> string \<Rightarrow> string \<Rightarrow> transfer_fee \<Rightarrow> bool" where
  "fee_applies amount txType currency f \<longleftrightarrow>
     tf_Active f \<and> (tf_TransactionType f = txType \<or> tf_TransactionType f = ''all'') \<and>
     (tf_CurrencyCode f = currency \<or> tf_CurrencyCode f = []) \<and>
     (tf_MinAmount f = 0 \<or> tf_MinAmount f \<le> amount)"

definition GetApplicableFees :: "decimal \<Rightarrow> string \<Rightarrow> string \<Rightarrow> fee_db \<Rightarrow> transfer_fee list result" where
  "GetApplicableFees amount txType currency db = Inr (filter (fee_applies amount txType currency) (fees db))"

section \<open>The service\<close>

definition this_fee :: "decimal \<Rightarrow> transfer_fee \<Rightarrow> decimal" where
  "this_fee amount fee =
     (let thisFee = (if tf_FeeType fee = ''percentage'' then amount * tf_FeeValue fee / 100 else tf_FeeValue fee)
      in if 0 < tf_MaxFee fee \<and> tf_MaxFee fee < thisFee then tf_MaxFee fee else thisFee)"

fun fee_loop :: "decimal \<Rightarrow> transfer_fee list \<Rightarrow> decimal \<Rightarrow> decimal" where
  "fee_loop amount [] acc_total = acc_total"
| "fee_loop amount (fee # rest) acc_total = fee_loop amount rest (acc_total + this_fee amount fee)"

text \<open>The repository is the argument \<open>lookup\<close>, the outcome of \<^verbatim>\<open>GetApplicableFees\<close>.\<close>

definition CalculateFee ::
  "(decimal \<Rightarrow> string \<Rightarrow> string \<Rightarrow> transfer_fee list result) \<Rightarrow> decimal \<Rightarrow> string \<Rightarrow> string \<Rightarrow> decimal result" where
  "CalculateFee lookup amount txType currency =
     (case lookup amount txType currency of
        Inl e \<Rightarrow> Inl e
      | Inr fs \<Rightarrow> Inr (fee_loop amount fs 0))"

record fee_detail =
  fd_Name :: string
  fd_FeeType :: string
  fd_FeeValue :: decimal
  fd_CalculatedAmount :: decimal

fun fee_detail_loop ::
  "decimal \<Rightarrow> transfer_fee list \<Rightarrow> decimal \<times> fee_detail list \<Rightarrow> decimal \<times> fee_detail list" where
  "fee_detail_loop amount [] acc = acc"
| "fee_detail_loop amount (fee # rest) (acc_total, details) =
     fee_detail_loop amount rest
       (acc_total + this_fee amount fee,
        details @ [\<lparr>fd_Name = tf_Name fee, fd_FeeType = tf_FeeType fee, fd_FeeValue = tf_FeeValue fee,
                    fd_CalculatedAmount = this_fee amount fee\<rparr>])"

definition CalculateFeeDetailed ::
  "(decimal \<Rightarrow> string \<Rightarrow> string \<Rightarrow> transfer_fee list result) \<Rightarrow> decimal \<Rightarrow> string \<Rightarrow> string \<Rightarrow>
     (decimal \<times> fee_detail list) result" where
  "CalculateFeeDetailed lookup amount txType currency =
     (case lookup amount txType currency of
        Inl e \<Rightarrow> Inl e
      | Inr fs \<Rightarrow> Inr (fee_detail_loop amount fs (0, [])))"

section \<open>Properties\<close>

lemma fee_loop_sum: "fee_loop amount fs acc_total = acc_total + tsum (this_fee amount) fs"
  by (induction fs arbitrary: acc_total) simp_all

lemma fee_detail_loop_sum:
  "fst (fee_detail_loop amount fs (acc_total, ds)) = acc_total + tsum (this_fee amount) fs \<and>
   map fd_CalculatedAmount (snd (fee_detail_loop amount fs (acc_total, ds))) =
     map fd_CalculatedAmount ds @ map (this_fee amount) fs"
  by (induction fs arbitrary: acc_total ds) simp_all

lemma CalculateFee_table:
  "CalculateFee (\<lambda>x t c. GetApplicableFees x t c db) amount txType currency =
   Inr (tsum (\<lambda>f. if fee_applies amount txType currency f then this_fee amount f else 0) (fees db))"
  by (simp add: CalculateFee_def GetApplicableFees_def fee_loop_sum tsum_filter)

definition fee_rules_ok :: "fee_db \<Rightarrow> bool" where
  "fee_rules_ok db \<longleftrightarrow> (\<forall>f \<in> set (fees db). 0 \<le> tf_FeeValue f)"

lemma this_fee_nonneg: "0 \<le> amount \<Longrightarrow> 0 \<le> tf_FeeValue f \<Longrightarrow> 0 \<le> this_fee amount f"
  by (simp add: this_fee_def Let_def)

lemma this_fee_min:
  "this_fee amount f =
     (let v = (if tf_FeeType f = ''percentage'' then amount * tf_FeeValue f / 100 else tf_FeeValue f)
      in if 0 < tf_MaxFee f then min (tf_MaxFee f) v else v)"
  by (simp add: this_fee_def Let_def min_def)

lemma this_fee_mono:
  assumes "x \<le> y" "0 \<le> tf_FeeValue f"
  shows "this_fee x f \<le> this_fee y f"
proof -
  from assms have "x * tf_FeeValue f \<le> y * tf_FeeValue f" by (rule mult_right_mono)
  then show ?thesis by (auto simp: this_fee_min Let_def min_def)
qed

lemma this_fee_cap: "0 < tf_MaxFee f \<Longrightarrow> this_fee amount f \<le> tf_MaxFee f"
  by (simp add: this_fee_def Let_def)

text \<open>
  Fees are well behaved. On rules with non-negative values the fee of a non-negative amount is
  never negative and never falls when the amount grows, and a rule with a positive cap contributes
  at most its cap. The detailed calculation gives the same total, and its items add up to it.
\<close>

theorem fee_calculation_sound:
  assumes ok: "fee_rules_ok db" and amounts: "0 \<le> x" "x \<le> y"
  shows "\<exists>fx fy details.
    CalculateFee (\<lambda>a t c. GetApplicableFees a t c db) x txType currency = Inr fx \<and>
    CalculateFee (\<lambda>a t c. GetApplicableFees a t c db) y txType currency = Inr fy \<and>
    0 \<le> fx \<and> fx \<le> fy \<and>
    CalculateFeeDetailed (\<lambda>a t c. GetApplicableFees a t c db) x txType currency = Inr (fx, details) \<and>
    sum_list (map fd_CalculatedAmount details) = fx \<and>
    (\<forall>f \<in> set (fees db). 0 < tf_MaxFee f \<longrightarrow> this_fee x f \<le> tf_MaxFee f)"
proof -
  let ?f = "\<lambda>a f. if fee_applies a txType currency f then this_fee a f else 0"
  from ok have val: "0 \<le> tf_FeeValue f" if "f \<in> set (fees db)" for f using that by (auto simp: fee_rules_ok_def)
  have "0 \<le> tsum (?f x) (fees db)"
    by (rule tsum_nonneg) (use val amounts this_fee_nonneg in auto)
  moreover have "tsum (?f x) (fees db) \<le> tsum (?f y) (fees db)"
  proof (rule sum_list_mono)
    fix f assume f: "f \<in> set (fees db)"
    have grow: "fee_applies y txType currency f" if "fee_applies x txType currency f"
      using that amounts(2) by (auto simp: fee_applies_def)
    have "0 \<le> this_fee y f" using this_fee_nonneg val [OF f] amounts by simp
    with grow this_fee_mono [OF amounts(2) val [OF f]] show "?f x f \<le> ?f y f" by auto
  qed
  moreover obtain details where
    d: "fee_detail_loop x (filter (fee_applies x txType currency) (fees db)) (0, []) =
      (tsum (?f x) (fees db), details)"
    "sum_list (map fd_CalculatedAmount details) = tsum (?f x) (fees db)"
  proof -
    let ?fs = "filter (fee_applies x txType currency) (fees db)"
    have "fst (fee_detail_loop x ?fs (0, [])) = tsum (?f x) (fees db)"
      "map fd_CalculatedAmount (snd (fee_detail_loop x ?fs (0, []))) = map (this_fee x) ?fs"
      using fee_detail_loop_sum [of x ?fs 0 "[]"] by (simp_all add: tsum_filter)
    then show ?thesis by (intro that [of "snd (fee_detail_loop x ?fs (0, []))"]) (simp_all add: prod_eq_iff tsum_filter)
  qed
  moreover have detailed: "CalculateFeeDetailed (\<lambda>a t c. GetApplicableFees a t c db) x txType currency =
      Inr (tsum (?f x) (fees db), details)"
    by (simp add: CalculateFeeDetailed_def GetApplicableFees_def d(1))
  ultimately show ?thesis
    by (intro exI [of _ "tsum (?f x) (fees db)"] exI [of _ "tsum (?f y) (fees db)"] exI [of _ details])
      (simp add: CalculateFee_table detailed this_fee_cap)
qed

definition sample_fees :: fee_db where
  "sample_fees =
     \<lparr>fees = [\<lparr>tf_ID = 1, tf_Name = ''base'', tf_FeeType = ''percentage'', tf_FeeValue = 1, tf_MinAmount = 1000,
               tf_MaxFee = 50, tf_TransactionType = ''all'', tf_CurrencyCode = [], tf_Active = True\<rparr>],
      seq_fees = 2\<rparr>"

theorem fee_calculation_sound_witness:
  "CalculateFee (\<lambda>a t c. GetApplicableFees a t c sample_fees) 2000 ''payment'' ''RSD'' = Inr 20 \<and>
   (\<exists>details. CalculateFeeDetailed (\<lambda>a t c. GetApplicableFees a t c sample_fees) 2000 ''payment'' ''RSD'' = Inr (20, details) \<and>
      sum_list (map fd_CalculatedAmount details) = 20)"
proof -
  have "fee_rules_ok sample_fees" by (simp add: fee_rules_ok_def sample_fees_def)
  from fee_calculation_sound [OF this, of 2000 9000 "''payment''" "''RSD''"]
  have "\<exists>fx details. CalculateFee (\<lambda>a t c. GetApplicableFees a t c sample_fees) 2000 ''payment'' ''RSD'' = Inr fx \<and>
     CalculateFeeDetailed (\<lambda>a t c. GetApplicableFees a t c sample_fees) 2000 ''payment'' ''RSD'' = Inr (fx, details) \<and>
     sum_list (map fd_CalculatedAmount details) = fx" by auto
  moreover have "CalculateFee (\<lambda>a t c. GetApplicableFees a t c sample_fees) 2000 ''payment'' ''RSD'' = Inr 20"
    by (simp add: CalculateFee_table sample_fees_def fee_applies_def this_fee_def)
  ultimately show ?thesis by auto
qed

end
