(* ===== verification/Tx_Payment.thy ===== *)
theory Tx_Payment
  imports Tx_Saga Tx_Fees
begin

text \<open>
  Payments of the transaction service: \<^verbatim>\<open>model/payment.go\<close>, \<^verbatim>\<open>repository/payment_repository.go\<close> and
  \<^verbatim>\<open>service/payment_service.go\<close>, with the error values of \<^verbatim>\<open>service/errors.go\<close>.

  The service's own state is its payment and transfer tables, the saga table and the messages it
  published; the account service behind the client is the world of the saga executor. Publishing
  never fails the caller. An error or failure reason that interpolates values is represented by its
  constant text.
\<close>

section \<open>Errors and data\<close>

definition ErrTransferNotFound :: go_error where
  "ErrTransferNotFound = Status NotFound ''transfer not found''"

definition ErrPaymentNotFound :: go_error where
  "ErrPaymentNotFound = Status NotFound ''payment not found''"

definition ErrSameAccount :: go_error where
  "ErrSameAccount = Status InvalidArgument ''source and destination must differ''"

definition ErrTransferLimitExceeded :: go_error where
  "ErrTransferLimitExceeded = Status ResourceExhausted ''transfer limit exceeded''"

definition ErrFeeLookupFailed :: go_error where
  "ErrFeeLookupFailed = Status Unavailable ''fee lookup failed''"

definition ErrInvalidPayment :: go_error where
  "ErrInvalidPayment = Status InvalidArgument ''invalid payment payload''"

definition ErrInvalidTransfer :: go_error where
  "ErrInvalidTransfer = Status InvalidArgument ''invalid transfer payload''"

definition ErrFundAccountRestricted :: go_error where
  "ErrFundAccountRestricted =
     Status PermissionDenied ''fund accounts cannot be used as a transfer source; use fund operations only''"

text \<open>A nil dereference.\<close>

definition nil_panic :: go_error where
  "nil_panic = Plain ''panic: nil pointer dereference''"

record payment =
  pay_ID :: nat
  pay_IdempotencyKey :: string
  pay_ClientID :: nat
  pay_FromAccountNumber :: string
  pay_ToAccountNumber :: string
  pay_InitialAmount :: decimal
  pay_FinalAmount :: decimal
  pay_Commission :: decimal
  pay_CurrencyCode :: string
  pay_RecipientName :: string
  pay_PaymentCode :: string
  pay_ReferenceNumber :: string
  pay_PaymentPurpose :: string
  pay_Status :: string
  pay_FailureReason :: string
  pay_Version :: int
  pay_Timestamp :: nat
  pay_CompletedAt :: "nat option"

record transfer =
  tr_ID :: nat
  tr_IdempotencyKey :: string
  tr_ClientID :: nat
  tr_FromAccountNumber :: string
  tr_ToAccountNumber :: string
  tr_InitialAmount :: decimal
  tr_FinalAmount :: decimal
  tr_ExchangeRate :: decimal
  tr_Commission :: decimal
  tr_FromCurrency :: string
  tr_ToCurrency :: string
  tr_Status :: string
  tr_FailureReason :: string
  tr_Version :: int
  tr_Timestamp :: nat
  tr_CompletedAt :: "nat option"

text \<open>The Kafka messages the two services emit.\<close>

datatype message =
    PaymentFailed nat string string string string
  | TransferFailed nat string string string string
  | GeneralNotification nat string "(string \<times> string) list" string nat
  | PaymentCreated nat string string string string
  | PaymentCompleted nat string string string string
  | TransferCreated nat string string string string string
  | TransferCompleted nat string string string string string

record tx_db =
  payments :: "payment list"
  seq_payments :: nat
  transfers :: "transfer list"
  seq_transfers :: nat
  sagas :: saga_db
  messages :: "message list"

text \<open>What the two services use of the decimal library.\<close>

record decimal_text =
  StringFixed2 :: "decimal \<Rightarrow> string"
  StringFixed4 :: "decimal \<Rightarrow> string"
  NewFromString :: "string \<Rightarrow> decimal option"

definition num :: "decimal_text \<Rightarrow> string \<Rightarrow> decimal" where
  "num dt s = (case NewFromString dt s of None \<Rightarrow> 0 | Some d \<Rightarrow> d)"

record 'w payment_service =
  ps_accountClient :: "'w account_client option"
  ps_fees :: "decimal \<Rightarrow> string \<Rightarrow> string \<Rightarrow> transfer_fee list result"
  ps_producer :: bool
  ps_bankRSDAccount :: string
  ps_sagaRepo :: bool
  ps_retryConfig :: retry_config
  ps_decimals :: decimal_text

section \<open>The repository\<close>

definition CreatePaymentRow :: "payment \<Rightarrow> tx_db \<Rightarrow> payment result \<times> tx_db" where
  "CreatePaymentRow p db =
     (if pay_IdempotencyKey p \<in> pay_IdempotencyKey ` set (payments db) then (Inl ErrDuplicateKey, db)
      else let row = p\<lparr>pay_ID := seq_payments db\<rparr>
           in (Inr row, db\<lparr>payments := payments db @ [row], seq_payments := Suc (seq_payments db)\<rparr>))"

definition PaymentByID :: "nat \<Rightarrow> tx_db \<Rightarrow> payment option" where
  "PaymentByID i db = find (\<lambda>p. pay_ID p = i) (payments db)"

definition PaymentByIdempotencyKey :: "string \<Rightarrow> tx_db \<Rightarrow> payment option" where
  "PaymentByIdempotencyKey k db = find (\<lambda>p. pay_IdempotencyKey p = k) (payments db)"

text \<open>\<^verbatim>\<open>First\<close> followed by \<^verbatim>\<open>Save\<close>, whose hook checks and increments the version it just read.\<close>

definition save_payment :: "nat \<Rightarrow> (payment \<Rightarrow> payment) \<Rightarrow> tx_db \<Rightarrow> unit result \<times> tx_db" where
  "save_payment i f db =
     (case PaymentByID i db of
        None \<Rightarrow> (Inl ErrRecordNotFound, db)
      | Some p \<Rightarrow>
          (Inr (), db\<lparr>payments := put_row pay_ID ((f p)\<lparr>pay_Version := pay_Version p + 1\<rparr>) (payments db)\<rparr>))"

definition UpdatePaymentStatus :: "nat \<Rightarrow> string \<Rightarrow> tx_db \<Rightarrow> unit result \<times> tx_db" where
  "UpdatePaymentStatus i st = save_payment i (\<lambda>p. p\<lparr>pay_Status := st\<rparr>)"

definition UpdatePaymentStatusWithReason :: "nat \<Rightarrow> string \<Rightarrow> string \<Rightarrow> tx_db \<Rightarrow> unit result \<times> tx_db" where
  "UpdatePaymentStatusWithReason i st reason =
     save_payment i (\<lambda>p. p\<lparr>pay_Status := st, pay_FailureReason := reason\<rparr>)"

definition page_of :: "int \<Rightarrow> int \<Rightarrow> 'x list \<Rightarrow> 'x list" where
  "page_of page pageSize xs =
     (let p = (if page < 1 then 1 else page);
          n = (if pageSize < 1 then 20 else pageSize)
      in take (nat n) (drop (nat ((p - 1) * n)) xs))"

definition ListPaymentsByAccountNumbers :: "string list \<Rightarrow> int \<Rightarrow> int \<Rightarrow> tx_db \<Rightarrow> payment list \<times> nat" where
  "ListPaymentsByAccountNumbers nums page pageSize db =
     (if nums = [] then ([], 0)
      else let rows = filter (\<lambda>p. pay_FromAccountNumber p \<in> set nums \<or> pay_ToAccountNumber p \<in> set nums) (payments db)
           in (page_of page pageSize (sort_key (\<lambda>p. - int (pay_Timestamp p)) rows), length rows))"

section \<open>Creating a payment\<close>

definition limit_exceeded :: "decimal_text \<Rightarrow> string \<Rightarrow> string \<Rightarrow> decimal \<Rightarrow> bool" where
  "limit_exceeded dt limit spending totalDebit \<longleftrightarrow>
     num dt limit \<noteq> 0 \<and> num dt spending + totalDebit > num dt limit"

definition over_limits :: "decimal_text \<Rightarrow> account_response \<Rightarrow> decimal \<Rightarrow> bool" where
  "over_limits dt acct totalDebit \<longleftrightarrow>
     limit_exceeded dt (ar_DailyLimit acct) (ar_DailySpending acct) totalDebit \<or>
     limit_exceeded dt (ar_MonthlyLimit acct) (ar_MonthlySpending acct) totalDebit"

text \<open>The two account lookups and the checks on them.\<close>

definition payment_checks ::
  "'w payment_service \<Rightarrow> ctx \<Rightarrow> payment \<Rightarrow> 'w env \<Rightarrow> go_error option \<times> 'w env" where
  "payment_checks s ctx p e =
     (case ps_accountClient s of
        None \<Rightarrow> (None, e)
      | Some client \<Rightarrow>
          (case retry_get (ac_GetAccountByNumber client (pay_FromAccountNumber p)) (ps_retryConfig s) ctx e of
             (Inl err, e1) \<Rightarrow> (Some err, e1)
           | (Inr fromAccount, e1) \<Rightarrow>
               (case retry_get (ac_GetAccountByNumber client (pay_ToAccountNumber p)) (ps_retryConfig s) ctx e1 of
                  (Inl err, e2) \<Rightarrow> (Some err, e2)
                | (Inr toAccount, e2) \<Rightarrow>
                    (case (fromAccount, toAccount) of
                       (Some f, Some t) \<Rightarrow>
                         if ar_OwnerId f = ar_OwnerId t
                         then (Some (Plain ''payments must be between accounts of different clients; use transfers for same-client transactions''), e2)
                         else if ar_AccountCategory f = ''investment_fund'' then (Some ErrFundAccountRestricted, e2)
                         else if over_limits (ps_decimals s) f (pay_FinalAmount p) then (Some ErrTransferLimitExceeded, e2)
                         else (None, e2)
                     | _ \<Rightarrow> (Some nil_panic, e2)))))"

text \<open>\<open>now\<close> is \<^verbatim>\<open>time.Now()\<close>; the returned payment is what the caller's pointer holds.\<close>

definition CreatePayment ::
  "'w payment_service \<Rightarrow> ctx \<Rightarrow> nat \<Rightarrow> payment \<Rightarrow> tx_db \<Rightarrow> 'w env \<Rightarrow> payment result \<times> tx_db \<times> 'w env" where
  "CreatePayment s ctx now p db e =
     (case (if pay_IdempotencyKey p \<noteq> [] then PaymentByIdempotencyKey (pay_IdempotencyKey p) db else None) of
        Some existing \<Rightarrow> (Inr existing, db, e)
      | None \<Rightarrow>
          if pay_InitialAmount p \<le> 0 then (Inl ErrInvalidPayment, db, e)
          else
            let currency = (if pay_CurrencyCode p = [] then ''RSD'' else pay_CurrencyCode p)
            in case CalculateFee (ps_fees s) (pay_InitialAmount p) ''payment'' currency of
                 Inl _ \<Rightarrow> (Inl ErrFeeLookupFailed, db, e)
               | Inr commission \<Rightarrow>
                   let p1 = p\<lparr>pay_Commission := commission, pay_FinalAmount := pay_InitialAmount p + commission,
                              pay_Timestamp := now\<rparr>
                   in case payment_checks s ctx p1 e of
                        (Some err, e1) \<Rightarrow> (Inl err, db, e1)
                      | (None, e1) \<Rightarrow>
                          (case CreatePaymentRow (p1\<lparr>pay_Status := ''pending_verification''\<rparr>) db of
                             (r, db1) \<Rightarrow> (r, db1, e1)))"

section \<open>Executing a payment\<close>

definition publish :: "message \<Rightarrow> tx_db \<Rightarrow> tx_db" where
  "publish m db = db\<lparr>messages := messages db @ [m]\<rparr>"

definition publishPaymentFailed :: "'w payment_service \<Rightarrow> payment \<Rightarrow> string \<Rightarrow> tx_db \<Rightarrow> tx_db" where
  "publishPaymentFailed s p reason db =
     (if \<not> ps_producer s then db
      else publish (PaymentFailed (pay_ID p) (pay_FromAccountNumber p) (pay_ToAccountNumber p)
             (StringFixed4 (ps_decimals s) (pay_FinalAmount p)) reason) db)"

definition bank_owner :: "nat \<Rightarrow> bool" where
  "bank_owner i \<longleftrightarrow> i = 0 \<or> i = 1000000000"

text \<open>One best-effort notification to the owner of an account.\<close>

definition notify_owner ::
  "'w account_client \<Rightarrow> string \<Rightarrow> (nat \<Rightarrow> message) \<Rightarrow> tx_db \<times> 'w env \<Rightarrow> tx_db \<times> 'w env" where
  "notify_owner client acct msg = (\<lambda>(db, (w, n)).
     case ac_GetAccountByNumber client acct w of
       (Inl _, w') \<Rightarrow> (db, (w', n))
     | (Inr a, w') \<Rightarrow> (if bank_owner (ar_OwnerId a) then db else publish (msg (ar_OwnerId a)) db, (w', n)))"

definition publishPaymentNotifications ::
  "'w payment_service \<Rightarrow> payment \<Rightarrow> tx_db \<times> 'w env \<Rightarrow> tx_db \<times> 'w env" where
  "publishPaymentNotifications s p x =
     (case ps_accountClient s of
        None \<Rightarrow> x
      | Some client \<Rightarrow>
          if \<not> ps_producer s then x
          else
            let amount = StringFixed2 (ps_decimals s) (pay_InitialAmount p)
            in notify_owner client (pay_ToAccountNumber p)
                 (\<lambda>owner. GeneralNotification owner ''PAYMENT_RECEIVED''
                    [(''amount'', amount), (''from_account'', pay_FromAccountNumber p)] ''payment'' (pay_ID p))
                 (notify_owner client (pay_FromAccountNumber p)
                    (\<lambda>owner. GeneralNotification owner ''PAYMENT_SENT''
                       [(''amount'', amount), (''to_account'', pay_ToAccountNumber p)] ''payment'' (pay_ID p)) x))"

definition publishPaymentFailedNotification ::
  "'w payment_service \<Rightarrow> payment \<Rightarrow> tx_db \<times> 'w env \<Rightarrow> tx_db \<times> 'w env" where
  "publishPaymentFailedNotification s p x =
     (case ps_accountClient s of
        None \<Rightarrow> x
      | Some client \<Rightarrow>
          if \<not> ps_producer s then x
          else notify_owner client (pay_FromAccountNumber p)
                 (\<lambda>owner. GeneralNotification owner ''PAYMENT_FAILED''
                    [(''amount'', StringFixed2 (ps_decimals s) (pay_InitialAmount p)),
                     (''failure_reason'', pay_FailureReason p)] ''payment'' (pay_ID p)) x)"

text \<open>The step list of a payment.\<close>

definition payment_moves :: "string \<Rightarrow> payment \<Rightarrow> balance_move list" where
  "payment_moves bankRSDAccount p =
     [(''debit_sender'', pay_FromAccountNumber p, - pay_FinalAmount p),
      (''credit_recipient'', pay_ToAccountNumber p, pay_InitialAmount p)] @
     (if bankRSDAccount \<noteq> [] \<and> 0 < pay_Commission p
      then [(''credit_bank_commission'', bankRSDAccount, pay_Commission p)] else [])"

text \<open>The limit check at execution time ignores a failed lookup.\<close>

definition execution_limit ::
  "'w account_client option \<Rightarrow> retry_config \<Rightarrow> decimal_text \<Rightarrow> ctx \<Rightarrow> string \<Rightarrow> decimal \<Rightarrow> 'w env \<Rightarrow>
     string option \<times> 'w env" where
  "execution_limit accountClient cfg dt ctx acct totalDebit e =
     (case accountClient of
        None \<Rightarrow> (None, e)
      | Some client \<Rightarrow>
          (case retry_get (ac_GetAccountByNumber client acct) cfg ctx e of
             (Inr (Some a), e1) \<Rightarrow>
               (if limit_exceeded dt (ar_DailyLimit a) (ar_DailySpending a) totalDebit
                then Some ''limit_exceeded: daily spending limit would be exceeded''
                else if limit_exceeded dt (ar_MonthlyLimit a) (ar_MonthlySpending a) totalDebit
                then Some ''limit_exceeded: monthly spending limit would be exceeded''
                else None, e1)
           | (_, e1) \<Rightarrow> (None, e1)))"

definition run_payment_saga ::
  "'w payment_service \<Rightarrow> ctx \<Rightarrow> nat \<Rightarrow> payment \<Rightarrow> tx_db \<Rightarrow> 'w env \<Rightarrow> unit result \<times> tx_db \<times> 'w env" where
  "run_payment_saga s ctx nano p db e =
     (case ps_accountClient s of
        None \<Rightarrow> (Inr (), db, e)
      | Some client \<Rightarrow>
          (let fixed4 = StringFixed4 (ps_decimals s);
               steps = map (balance_step fixed4 client (ps_retryConfig s) (''payment-'' @ itoa (pay_ID p)))
                         (payment_moves (ps_bankRSDAccount s) p)
           in case executeWithSaga fixed4 ctx (ps_sagaRepo s) (Some client) (ps_retryConfig s) nano (pay_ID p)
                     ''payment'' steps (sagas db) e of
                (r, rn) \<Rightarrow> (r, db\<lparr>sagas := rn_rec rn\<rparr>, (run_world rn, snd (rn_env rn)))))"

definition ExecutePayment ::
  "'w payment_service \<Rightarrow> ctx \<Rightarrow> nat \<Rightarrow> nat \<Rightarrow> tx_db \<Rightarrow> 'w env \<Rightarrow> unit result \<times> tx_db \<times> 'w env" where
  "ExecutePayment s ctx nano paymentID db e =
     (case PaymentByID paymentID db of
        None \<Rightarrow> (Inl ErrPaymentNotFound, db, e)
      | Some p \<Rightarrow>
          if pay_Status p = ''completed'' then (Inr (), db, e)
          else if pay_Status p \<noteq> ''pending_verification''
          then (Inl (Plain ''payment is not in status pending_verification''), db, e)
          else
            case UpdatePaymentStatus (pay_ID p) ''processing'' db of
              (Inl err, db1) \<Rightarrow> (Inl err, db1, e)
            | (Inr _, db1) \<Rightarrow>
                let p1 = p\<lparr>pay_Status := ''processing''\<rparr>
                in case execution_limit (ps_accountClient s) (ps_retryConfig s) (ps_decimals s) ctx
                          (pay_FromAccountNumber p) (pay_FinalAmount p) e of
                     (Some reason, e1) \<Rightarrow>
                       (Inl (Plain reason),
                        publishPaymentFailed s p1 reason
                          (snd (UpdatePaymentStatusWithReason (pay_ID p) ''failed'' reason db1)), e1)
                   | (None, e1) \<Rightarrow>
                       (case run_payment_saga s ctx nano p1 db1 e1 of
                          (Inl err, db2, e2) \<Rightarrow>
                            let reason = ''payment execution failed'';
                                db3 = snd (UpdatePaymentStatusWithReason (pay_ID p) ''failed'' reason db2)
                            in (Inl err,
                                publishPaymentFailedNotification s (p1\<lparr>pay_FailureReason := reason\<rparr>)
                                  (publishPaymentFailed s p1 reason db3, e2))
                        | (Inr _, db2, e2) \<Rightarrow>
                            (case UpdatePaymentStatus (pay_ID p) ''completed'' db2 of
                               (Inl err, db3) \<Rightarrow> (Inl err, db3, e2)
                             | (Inr _, db3) \<Rightarrow>
                                 (Inr (), publishPaymentNotifications s (p1\<lparr>pay_Status := ''completed''\<rparr>) (db3, e2)))))"

end
