(* ===== verification/Tx_Transfer.thy ===== *)
theory Tx_Transfer
  imports Tx_Payment
begin

text \<open>
  Transfers between the accounts of one client: \<^verbatim>\<open>repository/transfer_repository.go\<close>,
  \<^verbatim>\<open>service/transfer_service.go\<close> and the exchange client of \<^verbatim>\<open>service/exchange_client.go\<close>. A transfer in
  one currency moves the amount directly; a cross-currency transfer is routed through two of the
  bank's accounts.
\<close>

section \<open>The exchange client\<close>

text \<open>\<open>convert\<close> is the RPC of the exchange service: the converted amount and the effective rate as text.\<close>

definition ConvertViaRSD ::
  "decimal_text \<Rightarrow> (string \<Rightarrow> string \<Rightarrow> string \<Rightarrow> (string \<times> string) result) \<Rightarrow> string \<Rightarrow> string \<Rightarrow> decimal \<Rightarrow>
     (decimal \<times> decimal) result" where
  "ConvertViaRSD dt convert from_cur to_cur amount =
     (case convert from_cur to_cur (StringFixed4 dt amount) of
        Inl err \<Rightarrow> Inl err
      | Inr (convertedText, rateText) \<Rightarrow>
          (case NewFromString dt convertedText of
             None \<Rightarrow> Inl (Plain ''invalid converted_amount from exchange service'')
           | Some converted \<Rightarrow>
               Inr (converted, case NewFromString dt rateText of None \<Rightarrow> 0 | Some r \<Rightarrow> r)))"

record 'w transfer_service =
  ts_accountClient :: "'w account_client option"
  ts_bankAccountClient :: bool
  ts_exchangeClient :: "(string \<Rightarrow> string \<Rightarrow> decimal \<Rightarrow> (decimal \<times> decimal) result) option"
  ts_fees :: "decimal \<Rightarrow> string \<Rightarrow> string \<Rightarrow> transfer_fee list result"
  ts_producer :: bool
  ts_sagaRepo :: bool
  ts_retryConfig :: retry_config
  ts_decimals :: decimal_text

section \<open>The repository\<close>

definition CreateTransferRow :: "transfer \<Rightarrow> tx_db \<Rightarrow> transfer result \<times> tx_db" where
  "CreateTransferRow t db =
     (if tr_IdempotencyKey t \<in> tr_IdempotencyKey ` set (transfers db) then (Inl ErrDuplicateKey, db)
      else let row = t\<lparr>tr_ID := seq_transfers db\<rparr>
           in (Inr row, db\<lparr>transfers := transfers db @ [row], seq_transfers := Suc (seq_transfers db)\<rparr>))"

definition TransferByID :: "nat \<Rightarrow> tx_db \<Rightarrow> transfer option" where
  "TransferByID i db = find (\<lambda>t. tr_ID t = i) (transfers db)"

definition TransferByIdempotencyKey :: "string \<Rightarrow> tx_db \<Rightarrow> transfer option" where
  "TransferByIdempotencyKey k db = find (\<lambda>t. tr_IdempotencyKey t = k) (transfers db)"

definition save_transfer :: "nat \<Rightarrow> (transfer \<Rightarrow> transfer) \<Rightarrow> tx_db \<Rightarrow> unit result \<times> tx_db" where
  "save_transfer i f db =
     (case TransferByID i db of
        None \<Rightarrow> (Inl ErrRecordNotFound, db)
      | Some t \<Rightarrow>
          (Inr (), db\<lparr>transfers := put_row tr_ID ((f t)\<lparr>tr_Version := tr_Version t + 1\<rparr>) (transfers db)\<rparr>))"

definition UpdateTransferStatus :: "nat \<Rightarrow> string \<Rightarrow> tx_db \<Rightarrow> unit result \<times> tx_db" where
  "UpdateTransferStatus i st = save_transfer i (\<lambda>t. t\<lparr>tr_Status := st\<rparr>)"

definition UpdateTransferStatusWithReason :: "nat \<Rightarrow> string \<Rightarrow> string \<Rightarrow> tx_db \<Rightarrow> unit result \<times> tx_db" where
  "UpdateTransferStatusWithReason i st reason =
     save_transfer i (\<lambda>t. t\<lparr>tr_Status := st, tr_FailureReason := reason\<rparr>)"

definition ListTransfersByAccountNumbers :: "string list \<Rightarrow> int \<Rightarrow> int \<Rightarrow> tx_db \<Rightarrow> transfer list \<times> nat" where
  "ListTransfersByAccountNumbers nums page pageSize db =
     (if nums = [] then ([], 0)
      else let rows = filter (\<lambda>t. tr_FromAccountNumber t \<in> set nums \<or> tr_ToAccountNumber t \<in> set nums) (transfers db)
           in (page_of page pageSize (sort_key (\<lambda>t. - int (tr_Timestamp t)) rows), length rows))"

section \<open>Creating a transfer\<close>

definition ValidateTransfer :: "string \<Rightarrow> string \<Rightarrow> decimal \<Rightarrow> go_error option" where
  "ValidateTransfer from to amount =
     (if from = to then Some ErrSameAccount
      else if amount \<le> 0 then Some ErrInvalidTransfer
      else None)"

definition transfer_checks ::
  "'w transfer_service \<Rightarrow> ctx \<Rightarrow> transfer \<Rightarrow> 'w env \<Rightarrow> go_error option \<times> 'w env" where
  "transfer_checks s ctx t e =
     (case ts_accountClient s of
        None \<Rightarrow> (None, e)
      | Some client \<Rightarrow>
          (case retry_get (ac_GetAccountByNumber client (tr_FromAccountNumber t)) (ts_retryConfig s) ctx e of
             (Inl err, e1) \<Rightarrow> (Some err, e1)
           | (Inr fromAccount, e1) \<Rightarrow>
               (case retry_get (ac_GetAccountByNumber client (tr_ToAccountNumber t)) (ts_retryConfig s) ctx e1 of
                  (Inl err, e2) \<Rightarrow> (Some err, e2)
                | (Inr toAccount, e2) \<Rightarrow>
                    (case (fromAccount, toAccount) of
                       (Some a, Some b) \<Rightarrow>
                         if ar_OwnerId a \<noteq> ar_OwnerId b
                         then (Some (Plain ''transfers must be between accounts of the same client; use payments for different-client transactions''), e2)
                         else if ar_AccountCategory a = ''investment_fund'' then (Some ErrFundAccountRestricted, e2)
                         else if over_limits (ts_decimals s) a (tr_InitialAmount t + tr_Commission t)
                         then (Some ErrTransferLimitExceeded, e2)
                         else (None, e2)
                     | _ \<Rightarrow> (Some nil_panic, e2)))))"

text \<open>The amounts of the transfer: direct, or with the commission and the converted amount.\<close>

definition transfer_amounts :: "'w transfer_service \<Rightarrow> transfer \<Rightarrow> transfer result" where
  "transfer_amounts s t =
     (if tr_FromCurrency t = tr_ToCurrency t \<or> (tr_FromCurrency t = [] \<and> tr_ToCurrency t = [])
      then Inr (t\<lparr>tr_ExchangeRate := 1, tr_FinalAmount := tr_InitialAmount t, tr_Commission := 0\<rparr>)
      else
        (let fromCurrency = (if tr_FromCurrency t = [] then ''RSD'' else tr_FromCurrency t)
         in case CalculateFee (ts_fees s) (tr_InitialAmount t) ''transfer'' fromCurrency of
              Inl err \<Rightarrow> Inl err
            | Inr commission \<Rightarrow>
                (case ts_exchangeClient s of
                   None \<Rightarrow> Inl (Plain ''cross-currency transfers require exchange service'')
                 | Some conv \<Rightarrow>
                     (case conv (tr_FromCurrency t) (tr_ToCurrency t) (tr_InitialAmount t) of
                        Inl err \<Rightarrow> Inl err
                      | Inr (convertedAmount, effectiveRate) \<Rightarrow>
                          Inr (t\<lparr>tr_Commission := commission, tr_FinalAmount := convertedAmount,
                                 tr_ExchangeRate := effectiveRate\<rparr>)))))"

definition CreateTransfer ::
  "'w transfer_service \<Rightarrow> ctx \<Rightarrow> nat \<Rightarrow> transfer \<Rightarrow> tx_db \<Rightarrow> 'w env \<Rightarrow> transfer result \<times> tx_db \<times> 'w env" where
  "CreateTransfer s ctx now t db e =
     (case (if tr_IdempotencyKey t \<noteq> [] then TransferByIdempotencyKey (tr_IdempotencyKey t) db else None) of
        Some existing \<Rightarrow> (Inr existing, db, e)
      | None \<Rightarrow>
          (case ValidateTransfer (tr_FromAccountNumber t) (tr_ToAccountNumber t) (tr_InitialAmount t) of
             Some err \<Rightarrow> (Inl err, db, e)
           | None \<Rightarrow>
               (case transfer_checks s ctx t e of
                  (Some err, e1) \<Rightarrow> (Inl err, db, e1)
                | (None, e1) \<Rightarrow>
                    (case transfer_amounts s (t\<lparr>tr_Timestamp := now\<rparr>) of
                       Inl err \<Rightarrow> (Inl err, db, e1)
                     | Inr t1 \<Rightarrow>
                         (case CreateTransferRow (t1\<lparr>tr_Status := ''pending_verification''\<rparr>) db of
                            (r, db1) \<Rightarrow> (r, db1, e1))))))"

section \<open>Choosing the bank's accounts\<close>

fun findBankAccountByCurrency :: "account_response list \<Rightarrow> string \<Rightarrow> string result" where
  "findBankAccountByCurrency [] currency = Inl (Plain ''no bank account found for currency'')"
| "findBankAccountByCurrency (a # as) currency =
     (if ar_CurrencyCode a = currency then Inr (ar_AccountNumber a) else findBankAccountByCurrency as currency)"

fun bank_scan ::
  "decimal_text \<Rightarrow> account_response list \<Rightarrow> string \<Rightarrow> decimal \<Rightarrow> string \<Rightarrow> string result" where
  "bank_scan dt [] currency need firstMatch =
     (if firstMatch \<noteq> [] then Inr firstMatch else Inl (Plain ''no bank account found for currency''))"
| "bank_scan dt (a # as) currency need firstMatch =
     (if ar_CurrencyCode a \<noteq> currency then bank_scan dt as currency need firstMatch
      else let firstMatch' = (if firstMatch = [] then ar_AccountNumber a else firstMatch)
           in case NewFromString dt (ar_AvailableBalance a) of
                None \<Rightarrow> bank_scan dt as currency need firstMatch'
              | Some avail \<Rightarrow>
                  if avail \<ge> need then Inr (ar_AccountNumber a)
                  else bank_scan dt as currency need firstMatch')"

definition findBankAccountByCurrencyWithBalance ::
  "decimal_text \<Rightarrow> account_response list \<Rightarrow> string \<Rightarrow> decimal \<Rightarrow> string result" where
  "findBankAccountByCurrencyWithBalance dt accts currency need = bank_scan dt accts currency need []"

section \<open>Executing a transfer\<close>

definition publishTransferFailed :: "'w transfer_service \<Rightarrow> transfer \<Rightarrow> string \<Rightarrow> tx_db \<Rightarrow> tx_db" where
  "publishTransferFailed s t reason db =
     (if \<not> ts_producer s then db
      else publish (TransferFailed (tr_ID t) (tr_FromAccountNumber t) (tr_ToAccountNumber t)
             (StringFixed4 (ts_decimals s) (tr_InitialAmount t)) reason) db)"

definition publishTransferNotification ::
  "'w transfer_service \<Rightarrow> transfer \<Rightarrow> tx_db \<times> 'w env \<Rightarrow> tx_db \<times> 'w env" where
  "publishTransferNotification s t x =
     (case ts_accountClient s of
        None \<Rightarrow> x
      | Some client \<Rightarrow>
          if \<not> ts_producer s then x
          else notify_owner client (tr_ToAccountNumber t)
                 (\<lambda>owner. GeneralNotification owner ''TRANSFER_RECEIVED''
                    [(''final_amount'', StringFixed2 (ts_decimals s) (tr_FinalAmount t)),
                     (''from_account'', tr_FromAccountNumber t)] ''transfer'' (tr_ID t))
                 (notify_owner client (tr_FromAccountNumber t)
                    (\<lambda>owner. GeneralNotification owner ''TRANSFER_SENT''
                       [(''amount'', StringFixed2 (ts_decimals s) (tr_InitialAmount t)),
                        (''to_account'', tr_ToAccountNumber t)] ''transfer'' (tr_ID t)) x))"

definition publishTransferFailedNotification ::
  "'w transfer_service \<Rightarrow> transfer \<Rightarrow> tx_db \<times> 'w env \<Rightarrow> tx_db \<times> 'w env" where
  "publishTransferFailedNotification s t x =
     (case ts_accountClient s of
        None \<Rightarrow> x
      | Some client \<Rightarrow>
          if \<not> ts_producer s then x
          else notify_owner client (tr_FromAccountNumber t)
                 (\<lambda>owner. GeneralNotification owner ''TRANSFER_FAILED''
                    [(''amount'', StringFixed2 (ts_decimals s) (tr_InitialAmount t)),
                     (''failure_reason'', tr_FailureReason t)] ''transfer'' (tr_ID t)) x)"

text \<open>The failure exit: the row gets its status and reason, then both failure messages go out.\<close>

definition fail_transfer ::
  "'w transfer_service \<Rightarrow> transfer \<Rightarrow> go_error \<Rightarrow> string \<Rightarrow> tx_db \<Rightarrow> 'w env \<Rightarrow> unit result \<times> tx_db \<times> 'w env" where
  "fail_transfer s t err reason db e =
     (let t1 = t\<lparr>tr_FailureReason := reason\<rparr>
      in (Inl err,
          publishTransferFailedNotification s t1
            (publishTransferFailed s t1 reason
               (snd (UpdateTransferStatusWithReason (tr_ID t) ''failed'' reason db)), e)))"

definition cross_moves :: "transfer \<Rightarrow> string \<Rightarrow> string \<Rightarrow> balance_move list" where
  "cross_moves t bankFrom bankTo =
     (let totalDebit = tr_InitialAmount t + tr_Commission t; convertedAmount = tr_FinalAmount t
      in [(''debit_user_from'', tr_FromAccountNumber t, - totalDebit),
          (''credit_bank_from'', bankFrom, totalDebit),
          (''debit_bank_to'', bankTo, - convertedAmount),
          (''credit_user_to'', tr_ToAccountNumber t, convertedAmount)])"

definition direct_moves :: "transfer \<Rightarrow> balance_move list" where
  "direct_moves t =
     (let totalDebit = tr_InitialAmount t + tr_Commission t; convertedAmount = tr_FinalAmount t
      in [(''debit_sender'', tr_FromAccountNumber t, - totalDebit),
          (''credit_recipient'', tr_ToAccountNumber t, convertedAmount)])"

definition run_transfer_saga ::
  "'w transfer_service \<Rightarrow> ctx \<Rightarrow> nat \<Rightarrow> 'w account_client \<Rightarrow> transfer \<Rightarrow> string \<Rightarrow> balance_move list \<Rightarrow> tx_db \<Rightarrow>
     'w env \<Rightarrow> unit result \<times> tx_db \<times> 'w env" where
  "run_transfer_saga s ctx nano client t keyPrefix moves db e =
     (let fixed4 = StringFixed4 (ts_decimals s)
      in case executeWithSaga fixed4 ctx (ts_sagaRepo s) (Some client) (ts_retryConfig s) nano (tr_ID t) ''transfer''
                (map (balance_step fixed4 client (ts_retryConfig s) keyPrefix) moves) (sagas db) e of
           (r, rn) \<Rightarrow> (r, db\<lparr>sagas := rn_rec rn\<rparr>, (run_world rn, snd (rn_env rn))))"

definition isCrossCurrency :: "transfer \<Rightarrow> bool" where
  "isCrossCurrency t \<longleftrightarrow> tr_FromCurrency t \<noteq> tr_ToCurrency t \<and> tr_FromCurrency t \<noteq> [] \<and> tr_ToCurrency t \<noteq> []"

definition execute_cross ::
  "'w transfer_service \<Rightarrow> ctx \<Rightarrow> nat \<Rightarrow> transfer \<Rightarrow> tx_db \<Rightarrow> 'w env \<Rightarrow> unit result \<times> tx_db \<times> 'w env" where
  "execute_cross s ctx nano t db e =
     (case ts_accountClient s of
        Some client \<Rightarrow>
          if \<not> ts_bankAccountClient s
          then (let reason = ''cross-currency transfer requires both accountClient and bankAccountClient''
                in fail_transfer s t (Plain reason) reason db e)
          else case retry_get (ac_ListBankAccounts client) (ts_retryConfig s) ctx e of
                 (Inl _, e1) \<Rightarrow> fail_transfer s t (Plain ''failed to fetch bank accounts'') ''failed to fetch bank accounts'' db e1
               | (Inr resp, e1) \<Rightarrow>
                   (let accts = (case resp of None \<Rightarrow> [] | Some as \<Rightarrow> as)
                    in case findBankAccountByCurrency accts (tr_FromCurrency t) of
                         Inl _ \<Rightarrow> fail_transfer s t (Plain ''no bank account for from-currency'')
                                    ''no bank account for from-currency'' db e1
                       | Inr bankFrom \<Rightarrow>
                           (case findBankAccountByCurrencyWithBalance (ts_decimals s) accts (tr_ToCurrency t) (tr_FinalAmount t) of
                              Inl _ \<Rightarrow> fail_transfer s t (Plain ''no bank account with sufficient balance for to-currency'')
                                         ''no bank account with sufficient balance for to-currency'' db e1
                            | Inr bankTo \<Rightarrow>
                                (case run_transfer_saga s ctx nano client t (''transfer-xc-'' @ itoa (tr_ID t))
                                        (cross_moves t bankFrom bankTo) db e1 of
                                   (Inl err, db1, e2) \<Rightarrow>
                                     fail_transfer s t err ''cross-currency transfer execution failed'' db1 e2
                                 | ok \<Rightarrow> ok)))
      | None \<Rightarrow>
          (let reason = ''cross-currency transfer requires both accountClient and bankAccountClient''
           in fail_transfer s t (Plain reason) reason db e))"

definition execute_direct ::
  "'w transfer_service \<Rightarrow> ctx \<Rightarrow> nat \<Rightarrow> transfer \<Rightarrow> tx_db \<Rightarrow> 'w env \<Rightarrow> unit result \<times> tx_db \<times> 'w env" where
  "execute_direct s ctx nano t db e =
     (case ts_accountClient s of
        None \<Rightarrow> (Inr (), db, e)
      | Some client \<Rightarrow>
          (case run_transfer_saga s ctx nano client t (''transfer-sc-'' @ itoa (tr_ID t)) (direct_moves t) db e of
             (Inl err, db1, e1) \<Rightarrow> fail_transfer s t err ''same-currency transfer execution failed'' db1 e1
           | ok \<Rightarrow> ok))"

definition ExecuteTransfer ::
  "'w transfer_service \<Rightarrow> ctx \<Rightarrow> nat \<Rightarrow> nat \<Rightarrow> tx_db \<Rightarrow> 'w env \<Rightarrow> unit result \<times> tx_db \<times> 'w env" where
  "ExecuteTransfer s ctx nano transferID db e =
     (case TransferByID transferID db of
        None \<Rightarrow> (Inl ErrTransferNotFound, db, e)
      | Some t \<Rightarrow>
          if tr_Status t = ''completed'' then (Inr (), db, e)
          else if tr_Status t \<noteq> ''pending_verification''
          then (Inl (Plain ''transfer is not in status pending_verification''), db, e)
          else
            case UpdateTransferStatus (tr_ID t) ''processing'' db of
              (Inl err, db1) \<Rightarrow> (Inl err, db1, e)
            | (Inr _, db1) \<Rightarrow>
                let t1 = t\<lparr>tr_Status := ''processing''\<rparr>
                in case execution_limit (ts_accountClient s) (ts_retryConfig s) (ts_decimals s) ctx
                          (tr_FromAccountNumber t) (tr_InitialAmount t + tr_Commission t) e of
                     (Some reason, e1) \<Rightarrow> fail_transfer s t1 (Plain reason) reason db1 e1
                   | (None, e1) \<Rightarrow>
                       (case (if isCrossCurrency t1 then execute_cross s ctx nano t1 db1 e1
                              else execute_direct s ctx nano t1 db1 e1) of
                          (Inl err, x) \<Rightarrow> (Inl err, x)
                        | (Inr _, db2, e2) \<Rightarrow>
                            (case UpdateTransferStatus (tr_ID t) ''completed'' db2 of
                               (Inl err, db3) \<Rightarrow> (Inl err, db3, e2)
                             | (Inr _, db3) \<Rightarrow>
                                 (Inr (), publishTransferNotification s (t1\<lparr>tr_Status := ''completed''\<rparr>) (db3, e2)))))"

end
