(* ===== verification/Verification.thy ===== *)
theory Verification
  imports Prelude
begin

text \<open>
  The verification service: \<^verbatim>\<open>model/verification_challenge.go\<close>, the repository, and
  \<^verbatim>\<open>service/verification_service.go\<close>. Clock readings, random draws, the iteration order of a Go map and
  the answer of the auth service are arguments. One operation reads the clock once. JSON documents are
  kept decoded: the challenge data is a map from keys to values, or \<open>None\<close> when it does not parse.
  Messages are the Kafka events; publishing never fails the caller. Metrics and logs are left out.
\<close>

section \<open>Errors\<close>

definition ErrChallengeNotFound :: go_error where
  "ErrChallengeNotFound = Status NotFound ''challenge not found''"

definition ErrChallengeExpired :: go_error where
  "ErrChallengeExpired = Status FailedPrecondition ''challenge has expired''"

definition ErrChallengeNotPending :: go_error where
  "ErrChallengeNotPending = Status FailedPrecondition ''challenge is not pending''"

definition ErrTooManyAttempts :: go_error where
  "ErrTooManyAttempts = Status FailedPrecondition ''max attempts exceeded for this challenge''"

definition ErrInvalidMethod :: go_error where
  "ErrInvalidMethod = Status InvalidArgument ''invalid verification method''"

definition ErrInvalidSourceService :: go_error where
  "ErrInvalidSourceService = Status InvalidArgument ''invalid source_service''"

definition ErrInvalidArguments :: go_error where
  "ErrInvalidArguments = Status InvalidArgument ''invalid arguments''"

definition ErrMethodMismatch :: go_error where
  "ErrMethodMismatch = Status FailedPrecondition ''operation not allowed for this method''"

definition ErrDeviceMismatch :: go_error where
  "ErrDeviceMismatch = Status FailedPrecondition ''challenge already bound to a different device''"

definition ErrChallengeOwnership :: go_error where
  "ErrChallengeOwnership = Status PermissionDenied ''challenge does not belong to this user''"

definition ErrBiometricsDisabled :: go_error where
  "ErrBiometricsDisabled = Status PermissionDenied ''biometrics not enabled for this device''"

definition ErrAuthServiceUnavailable :: go_error where
  "ErrAuthServiceUnavailable = Status Unavailable ''auth service unavailable''"

definition ErrChallengeDataBuild :: go_error where
  "ErrChallengeDataBuild = Status Internal ''failed to build challenge data''"

section \<open>Data\<close>

datatype json_value = JString string | JNumber nat | JNumbers "nat list"

type_synonym json_object = "string \<rightharpoonup> json_value"

record challenge =
  vc_ID :: nat
  vc_UserID :: nat
  vc_SourceService :: string
  vc_SourceID :: nat
  vc_Method :: string
  vc_Code :: string
  vc_ChallengeData :: "json_object option"
  vc_Status :: string
  vc_Attempts :: int
  vc_ExpiresAt :: int
  vc_VerifiedAt :: "int option"
  vc_DeviceID :: string
  vc_Version :: int
  vc_CreatedAt :: int

datatype challenge_event =
    ChallengeCreated nat nat string "json_object" int  \<comment> \<open>id, user, method, display data, expiry\<close>
  | ChallengeVerified nat nat string nat string int  \<comment> \<open>id, user, source service and id, method, time\<close>
  | ChallengeFailed nat nat string nat string        \<comment> \<open>id, user, source service and id, reason\<close>

record challenge_db =
  challenges :: "challenge list"
  seq_challenges :: nat
  events :: "challenge_event list"

record verification_service =
  vs_challengeExpiry :: int
  vs_maxAttempts :: int

definition validMethods :: "string list" where
  "validMethods = [''code_pull'']"

definition validSourceServices :: "string list" where
  "validSourceServices = [''transaction'', ''payment'', ''transfer'']"

definition defaultBypassCode :: string where
  "defaultBypassCode = ''111111''"

section \<open>The repository\<close>

definition CreateChallengeRow :: "int \<Rightarrow> challenge \<Rightarrow> challenge_db \<Rightarrow> challenge \<times> challenge_db" where
  "CreateChallengeRow now vc db =
     (let row = vc\<lparr>vc_ID := seq_challenges db, vc_CreatedAt := now\<rparr>
      in (row, db\<lparr>challenges := challenges db @ [row], seq_challenges := Suc (seq_challenges db)\<rparr>))"

definition ChallengeByID :: "nat \<Rightarrow> challenge_db \<Rightarrow> challenge option" where
  "ChallengeByID i db = find (\<lambda>vc. vc_ID vc = i) (challenges db)"

text \<open>
  \<^verbatim>\<open>tx.Save(vc)\<close> of a row that the transaction has locked: the hook's version check succeeds.
\<close>

definition SaveChallenge :: "challenge \<Rightarrow> challenge_db \<Rightarrow> challenge_db" where
  "SaveChallenge vc db =
     db\<lparr>challenges := put_row vc_ID (vc\<lparr>vc_Version := vc_Version vc + 1\<rparr>) (challenges db)\<rparr>"

definition GetPendingByUser :: "int \<Rightarrow> nat \<Rightarrow> challenge_db \<Rightarrow> challenge result" where
  "GetPendingByUser now userID db =
     (case sort_key (\<lambda>vc. - vc_CreatedAt vc)
             (filter (\<lambda>vc. vc_UserID vc = userID \<and> vc_Status vc = ''pending'' \<and> now < vc_ExpiresAt vc) (challenges db)) of
        [] \<Rightarrow> Inl ErrRecordNotFound
      | vc # _ \<Rightarrow> Inr vc)"

definition ExpireOld :: "int \<Rightarrow> challenge_db \<Rightarrow> nat \<times> challenge_db" where
  "ExpireOld now db =
     (let stale = (\<lambda>vc. vc_Status vc = ''pending'' \<and> vc_ExpiresAt vc < now)
      in (length (filter stale (challenges db)),
          db\<lparr>challenges := upd_rows stale (\<lambda>vc. vc\<lparr>vc_Status := ''expired''\<rparr>) (challenges db)\<rparr>))"

section \<open>Random material\<close>

text \<open>What one call draws: \<open>None\<close> is an error of the random source.\<close>

record draws =
  dr_code :: "nat option"
  dr_token :: "nat list option"
  dr_target :: nat
  dr_decoys :: "nat list"
  dr_order :: "nat list \<Rightarrow> nat list"
  dr_swaps :: "nat list"

definition pad6 :: "nat \<Rightarrow> string" where
  "pad6 n = (let s = itoa n in replicate (6 - length s) CHR ''0'' @ s)"

definition generateCode :: "nat option \<Rightarrow> string" where
  "generateCode d = (case d of None \<Rightarrow> ''000000'' | Some n \<Rightarrow> pad6 n)"

definition hex_digit :: "nat \<Rightarrow> char" where
  "hex_digit n = (if n < 10 then char_of (48 + n) else char_of (87 + n))"

definition generateQRToken :: "nat list option \<Rightarrow> string" where
  "generateQRToken d =
     (case d of None \<Rightarrow> [] | Some bytes \<Rightarrow> concat (map (\<lambda>b. [hex_digit (b div 16), hex_digit (b mod 16)]) bytes))"

text \<open>The loop that fills the set up to five members; \<open>None\<close> when the given draws run out first.\<close>

fun draw_decoys :: "nat list \<Rightarrow> nat list \<Rightarrow> nat list option" where
  "draw_decoys decoys ds =
     (if 5 \<le> length decoys then Some decoys
      else case ds of
             [] \<Rightarrow> None
           | d # ds' \<Rightarrow> draw_decoys (if Suc d \<in> set decoys then decoys else decoys @ [Suc d]) ds')"

definition swap :: "nat \<Rightarrow> nat \<Rightarrow> 'x list \<Rightarrow> 'x list" where
  "swap i j xs = xs[i := xs ! j, j := xs ! i]"

text \<open>Fisher-Yates from the last index down to 1; the draw for index \<open>i\<close> is below \<open>i + 1\<close>.\<close>

fun shuffle :: "nat \<Rightarrow> nat list \<Rightarrow> 'x list \<Rightarrow> 'x list" where
  "shuffle 0 js xs = xs"
| "shuffle (Suc i) [] xs = xs"
| "shuffle (Suc i) (j # js) xs = shuffle i js (swap (Suc i) j xs)"

definition generateNumberMatchData :: "draws \<Rightarrow> (nat \<times> nat list) option" where
  "generateNumberMatchData d =
     (let target = dr_target d + 1
      in case draw_decoys [target] (dr_decoys d) of
           None \<Rightarrow> None
         | Some decoys \<Rightarrow>
             (let options = dr_order d decoys
              in Some (target, shuffle (length options - 1) (dr_swaps d) options)))"

definition buildChallengeData :: "string \<Rightarrow> draws \<Rightarrow> json_object result option" where
  "buildChallengeData method d =
     (if method = ''code_pull'' then Some (Inr Map.empty)
      else if method = ''qr_scan'' then
        (let token = generateQRToken (dr_token d)
         in Some (if token = [] then Inl (Plain ''failed to generate QR token'') else Inr [''token'' \<mapsto> JString token]))
      else if method = ''number_match'' then
        map_option (\<lambda>(target, options). Inr [''target'' \<mapsto> JNumber target, ''options'' \<mapsto> JNumbers options])
          (generateNumberMatchData d)
      else Some (Inl (Plain ''unknown method'')))"

definition buildDisplayData :: "string \<Rightarrow> string \<Rightarrow> json_object \<Rightarrow> json_object result" where
  "buildDisplayData method code data =
     (if method = ''code_pull'' then Inr [''code'' \<mapsto> JString code]
      else if method = ''qr_scan'' then Inr Map.empty
      else if method = ''number_match'' then
        (case data ''options'' of
           None \<Rightarrow> Inl (Plain ''number_match challenge data missing options'')
         | Some opts \<Rightarrow> Inr [''options'' \<mapsto> opts])
      else Inl (Plain ''unsupported method for display data''))"

section \<open>Operations\<close>

text \<open>\<open>None\<close> stands for a drawing loop that has not finished within the given draws.\<close>

definition CreateChallenge ::
  "verification_service \<Rightarrow> int \<Rightarrow> draws \<Rightarrow> nat \<Rightarrow> string \<Rightarrow> nat \<Rightarrow> string \<Rightarrow> string \<Rightarrow> challenge_db \<Rightarrow>
     (challenge result \<times> challenge_db) option" where
  "CreateChallenge s now d userID sourceService sourceID method deviceID db =
     (if method \<notin> set validMethods then Some (Inl ErrInvalidMethod, db)
      else if sourceService \<notin> set validSourceServices then Some (Inl ErrInvalidSourceService, db)
      else if sourceID = 0 then Some (Inl ErrInvalidArguments, db)
      else if userID = 0 then Some (Inl ErrInvalidArguments, db)
      else
        let code = generateCode (dr_code d)
        in case buildChallengeData method d of
             None \<Rightarrow> None
           | Some (Inl _) \<Rightarrow> Some (Inl ErrChallengeDataBuild, db)
           | Some (Inr challengeData) \<Rightarrow>
               (case CreateChallengeRow now
                  \<lparr>vc_ID = 0, vc_UserID = userID, vc_SourceService = sourceService, vc_SourceID = sourceID,
                   vc_Method = method, vc_Code = code, vc_ChallengeData = Some challengeData, vc_Status = ''pending'',
                   vc_Attempts = 0, vc_ExpiresAt = now + vs_challengeExpiry s, vc_VerifiedAt = None,
                   vc_DeviceID = deviceID, vc_Version = 1, vc_CreatedAt = 0\<rparr> db of
                  (vc, db1) \<Rightarrow>
                    Some (Inr vc,
                      case buildDisplayData method code challengeData of
                        Inl _ \<Rightarrow> db1
                      | Inr display \<Rightarrow>
                          db1\<lparr>events := events db1 @ [ChallengeCreated (vc_ID vc) userID method display (vc_ExpiresAt vc)]\<rparr>)))"

definition GetChallengeStatus :: "nat \<Rightarrow> challenge_db \<Rightarrow> challenge result" where
  "GetChallengeStatus challengeID db =
     (case ChallengeByID challengeID db of None \<Rightarrow> Inl ErrChallengeNotFound | Some vc \<Rightarrow> Inr vc)"

definition validateChallengeState :: "verification_service \<Rightarrow> int \<Rightarrow> challenge \<Rightarrow> go_error option" where
  "validateChallengeState s now vc =
     (if vc_Status vc \<noteq> ''pending'' then Some ErrChallengeNotPending
      else if now > vc_ExpiresAt vc then Some ErrChallengeExpired
      else if vc_Attempts vc \<ge> vs_maxAttempts s then Some ErrTooManyAttempts
      else None)"

definition checkResponse :: "challenge \<Rightarrow> string \<Rightarrow> bool" where
  "checkResponse vc response \<longleftrightarrow>
     (if vc_Method vc = ''code_pull'' then response = defaultBypassCode \<or> vc_Code vc = response
      else if vc_Method vc = ''qr_scan'' then
        (case vc_ChallengeData vc of
           None \<Rightarrow> False
         | Some data \<Rightarrow> (case data ''token'' of Some (JString token) \<Rightarrow> token = response | _ \<Rightarrow> False))
      else if vc_Method vc = ''number_match'' then
        (case vc_ChallengeData vc of
           None \<Rightarrow> False
         | Some data \<Rightarrow> (case data ''target'' of Some (JNumber target) \<Rightarrow> response = itoa target | _ \<Rightarrow> False))
      else False)"

text \<open>The events that the two submissions publish after the save, and the biometric one.\<close>

definition verified_event :: "challenge \<Rightarrow> int \<Rightarrow> challenge_event" where
  "verified_event vc now =
     ChallengeVerified (vc_ID vc) (vc_UserID vc) (vc_SourceService vc) (vc_SourceID vc) (vc_Method vc) now"

definition publish_outcome :: "int \<Rightarrow> challenge \<Rightarrow> challenge_db \<Rightarrow> challenge_db" where
  "publish_outcome now vc db =
     (if vc_Status vc = ''verified'' then db\<lparr>events := events db @ [verified_event vc now]\<rparr>
      else if vc_Status vc = ''failed'' then
        db\<lparr>events := events db @ [ChallengeFailed (vc_ID vc) (vc_UserID vc) (vc_SourceService vc) (vc_SourceID vc)
             ''max_attempts_exceeded'']\<rparr>
      else db)"

text \<open>The counted attempt of both submissions.\<close>

definition attempt :: "verification_service \<Rightarrow> int \<Rightarrow> bool \<Rightarrow> challenge \<Rightarrow> challenge" where
  "attempt s now correct vc =
     (let vc1 = vc\<lparr>vc_Attempts := vc_Attempts vc + 1\<rparr>
      in if correct then vc1\<lparr>vc_Status := ''verified'', vc_VerifiedAt := Some now\<rparr>
         else if vs_maxAttempts s - vc_Attempts vc1 \<le> 0 then vc1\<lparr>vc_Status := ''failed''\<rparr>
         else vc1)"

text \<open>
  The answer is success, the remaining attempts and the new options. On an error the caller gets the
  error; \<open>fresh\<close> is what \<^verbatim>\<open>buildChallengeData("number_match")\<close> returns in this call.
\<close>

definition submit_body ::
  "verification_service \<Rightarrow> int \<Rightarrow> json_object result \<Rightarrow> nat \<Rightarrow> string \<Rightarrow> string \<Rightarrow> challenge_db \<Rightarrow>
     go_error + ((bool \<times> int \<times> json_object option) \<times> challenge_db)" where
  "submit_body s now fresh challengeID deviceID response db =
     (case ChallengeByID challengeID db of
        None \<Rightarrow> Inl ErrChallengeNotFound
      | Some vc \<Rightarrow>
          (case validateChallengeState s now vc of
             Some e \<Rightarrow> Inl e
           | None \<Rightarrow>
               if vc_DeviceID vc \<noteq> [] \<and> vc_DeviceID vc \<noteq> deviceID then Inl ErrDeviceMismatch
               else
                 let vc0 = (if vc_DeviceID vc = [] then vc\<lparr>vc_DeviceID := deviceID\<rparr> else vc);
                     correct = checkResponse vc0 response;
                     vc1 = attempt s now correct vc0;
                     remaining = vs_maxAttempts s - vc_Attempts vc1;
                     regenerate = (\<not> correct \<and> vc_Method vc = ''number_match'' \<and> remaining > 0);
                     vc2 = (case fresh of
                              Inr data \<Rightarrow> if regenerate then vc1\<lparr>vc_ChallengeData := Some data\<rparr> else vc1
                            | Inl _ \<Rightarrow> vc1);
                     options = (case fresh of
                                  Inr data \<Rightarrow> if regenerate
                                              then Some (case data ''options'' of None \<Rightarrow> Map.empty | Some opts \<Rightarrow> [''options'' \<mapsto> opts])
                                              else None
                                | Inl _ \<Rightarrow> None)
                 in Inr ((correct, remaining, options), publish_outcome now vc2 (SaveChallenge vc2 db))))"

definition SubmitVerification ::
  "verification_service \<Rightarrow> int \<Rightarrow> json_object result \<Rightarrow> nat \<Rightarrow> string \<Rightarrow> string \<Rightarrow> challenge_db \<Rightarrow>
     (bool \<times> int \<times> json_object option) result \<times> challenge_db" where
  "SubmitVerification s now fresh challengeID deviceID response =
     transaction (submit_body s now fresh challengeID deviceID response)"

definition submit_code_body ::
  "verification_service \<Rightarrow> int \<Rightarrow> nat \<Rightarrow> string \<Rightarrow> challenge_db \<Rightarrow> go_error + ((bool \<times> int) \<times> challenge_db)" where
  "submit_code_body s now challengeID code db =
     (case ChallengeByID challengeID db of
        None \<Rightarrow> Inl ErrChallengeNotFound
      | Some vc \<Rightarrow>
          (case validateChallengeState s now vc of
             Some e \<Rightarrow> Inl e
           | None \<Rightarrow>
               if vc_Method vc \<noteq> ''code_pull'' then Inl ErrMethodMismatch
               else
                 let correct = (code = defaultBypassCode \<or> vc_Code vc = code);
                     vc1 = attempt s now correct vc
                 in Inr ((correct, vs_maxAttempts s - vc_Attempts vc1), publish_outcome now vc1 (SaveChallenge vc1 db))))"

definition SubmitCode ::
  "verification_service \<Rightarrow> int \<Rightarrow> nat \<Rightarrow> string \<Rightarrow> challenge_db \<Rightarrow> (bool \<times> int) result \<times> challenge_db" where
  "SubmitCode s now challengeID code = transaction (submit_code_body s now challengeID code)"

text \<open>\<open>biometrics\<close> is the auth service's \<^verbatim>\<open>CheckBiometricsEnabled\<close>; \<open>has_producer\<close> whether one is wired.\<close>

definition biometric_body ::
  "verification_service \<Rightarrow> int \<Rightarrow> (string \<Rightarrow> bool result) \<Rightarrow> bool \<Rightarrow> nat \<Rightarrow> nat \<Rightarrow> string \<Rightarrow> challenge_db \<Rightarrow>
     go_error + (unit \<times> challenge_db)" where
  "biometric_body s now biometrics has_producer challengeID userID deviceID db =
     (case ChallengeByID challengeID db of
        None \<Rightarrow> Inl ErrChallengeNotFound
      | Some vc \<Rightarrow>
          (case validateChallengeState s now vc of
             Some e \<Rightarrow> Inl e
           | None \<Rightarrow>
               if vc_UserID vc \<noteq> userID then Inl ErrChallengeOwnership
               else case biometrics deviceID of
                      Inl _ \<Rightarrow> Inl ErrAuthServiceUnavailable
                    | Inr enabled \<Rightarrow>
                        if \<not> enabled then Inl ErrBiometricsDisabled
                        else
                          let data = (case vc_ChallengeData vc of None \<Rightarrow> Map.empty | Some data \<Rightarrow> data);
                              vc1 = vc\<lparr>vc_Status := ''verified'', vc_VerifiedAt := Some now,
                                       vc_DeviceID := (if vc_DeviceID vc = [] then deviceID else vc_DeviceID vc),
                                       vc_ChallengeData := Some (data(''verified_by'' \<mapsto> JString ''biometric''))\<rparr>;
                              db1 = SaveChallenge vc1 db
                          in Inr ((), if has_producer then db1\<lparr>events := events db1 @ [verified_event vc1 now]\<rparr> else db1)))"

definition VerifyByBiometric ::
  "verification_service \<Rightarrow> int \<Rightarrow> (string \<Rightarrow> bool result) \<Rightarrow> bool \<Rightarrow> nat \<Rightarrow> nat \<Rightarrow> string \<Rightarrow> challenge_db \<Rightarrow>
     unit result \<times> challenge_db" where
  "VerifyByBiometric s now biometrics has_producer challengeID userID deviceID =
     transaction (biometric_body s now biometrics has_producer challengeID userID deviceID)"

definition ExpireOldChallenges :: "int \<Rightarrow> challenge_db \<Rightarrow> challenge_db" where
  "ExpireOldChallenges now db = snd (ExpireOld now db)"

end
