(* ===== verification/Tx_Handler.thy ===== *)
theory Tx_Handler
  imports Tx_Transfer Verification
begin

text \<open>
  The gRPC front of the transaction service: \<^verbatim>\<open>handler/grpc_handler.go\<close> with the caller identity of
  \<^verbatim>\<open>contract/identity\<close>, and the address book of payment recipients (\<^verbatim>\<open>service/payment_recipient_service.go\<close>
  and its repository). The verification client is the verification service's own
  \<open>GetChallengeStatus\<close> over its challenge table. An error text that interpolates values is represented
  by its constant part; a response carries the timestamp as it is stored.
\<close>

section \<open>Identity\<close>

record caller =
  PrincipalType :: string
  PrincipalID :: int
  OnBehalfClientID :: int

definition IsClient :: "caller \<Rightarrow> bool" where
  "IsClient c \<longleftrightarrow> PrincipalType c = ''client''"

definition IsEmployee :: "caller \<Rightarrow> bool" where
  "IsEmployee c \<longleftrightarrow> PrincipalType c = ''employee''"

definition IsService :: "caller \<Rightarrow> bool" where
  "IsService c \<longleftrightarrow> PrincipalType c = ''service'' \<or> PrincipalType c = []"

definition OwnsResource :: "caller \<Rightarrow> int \<Rightarrow> bool" where
  "OwnsResource c ownerID =
     (if IsClient c then PrincipalID c = ownerID
      else if IsEmployee c \<and> OnBehalfClientID c \<noteq> 0 then OnBehalfClientID c = ownerID
      else True)"

text \<open>The metadata of a call, a multimap of header lines; \<open>parse\<close> is \<^verbatim>\<open>strconv.ParseInt(s, 10, 64)\<close>.\<close>

definition md_first :: "(string \<Rightarrow> string list) \<Rightarrow> string \<Rightarrow> string" where
  "md_first md key = (case md key of [] \<Rightarrow> [] | v # _ \<Rightarrow> v)"

definition md_firstInt :: "(string \<Rightarrow> int option) \<Rightarrow> (string \<Rightarrow> string list) \<Rightarrow> string \<Rightarrow> int" where
  "md_firstInt parse md key =
     (let s = md_first md key
      in if s = [] then 0 else case parse s of None \<Rightarrow> 0 | Some n \<Rightarrow> n)"

definition FromIncoming :: "(string \<Rightarrow> int option) \<Rightarrow> (string \<Rightarrow> string list) option \<Rightarrow> caller" where
  "FromIncoming parse md =
     (case md of
        None \<Rightarrow> \<lparr>PrincipalType = [], PrincipalID = 0, OnBehalfClientID = 0\<rparr>
      | Some md \<Rightarrow>
          \<lparr>PrincipalType = md_first md ''x-principal-type'', PrincipalID = md_firstInt parse md ''x-principal-id'',
           OnBehalfClientID = md_firstInt parse md ''x-on-behalf-client-id''\<rparr>)"

text \<open>The conversion of a \<^verbatim>\<open>uint64\<close> to \<^verbatim>\<open>int64\<close> wraps around.\<close>

definition to_int64 :: "nat \<Rightarrow> int" where
  "to_int64 n = (if n < 2 ^ 63 then int n else int n - 2 ^ 64)"

definition ownsTxn :: "caller \<Rightarrow> nat \<Rightarrow> bool" where
  "ownsTxn c clientID = OwnsResource c (to_int64 clientID)"

section \<open>Responses\<close>

record payment_response =
  pr_Id :: nat
  pr_ClientId :: nat
  pr_FromAccountNumber :: string
  pr_ToAccountNumber :: string
  pr_InitialAmount :: string
  pr_FinalAmount :: string
  pr_Commission :: string
  pr_RecipientName :: string
  pr_PaymentCode :: string
  pr_ReferenceNumber :: string
  pr_PaymentPurpose :: string
  pr_Status :: string
  pr_Timestamp :: nat

definition paymentToProto :: "decimal_text \<Rightarrow> payment \<Rightarrow> payment_response" where
  "paymentToProto dt p =
     \<lparr>pr_Id = pay_ID p, pr_ClientId = pay_ClientID p, pr_FromAccountNumber = pay_FromAccountNumber p,
      pr_ToAccountNumber = pay_ToAccountNumber p, pr_InitialAmount = StringFixed4 dt (pay_InitialAmount p),
      pr_FinalAmount = StringFixed4 dt (pay_FinalAmount p), pr_Commission = StringFixed4 dt (pay_Commission p),
      pr_RecipientName = pay_RecipientName p, pr_PaymentCode = pay_PaymentCode p,
      pr_ReferenceNumber = pay_ReferenceNumber p, pr_PaymentPurpose = pay_PaymentPurpose p,
      pr_Status = pay_Status p, pr_Timestamp = pay_Timestamp p\<rparr>"

record transfer_response =
  trr_Id :: nat
  trr_ClientId :: nat
  trr_FromAccountNumber :: string
  trr_ToAccountNumber :: string
  trr_InitialAmount :: string
  trr_FinalAmount :: string
  trr_ExchangeRate :: string
  trr_Commission :: string
  trr_Timestamp :: nat
  trr_Status :: string

definition transferToProto :: "decimal_text \<Rightarrow> transfer \<Rightarrow> transfer_response" where
  "transferToProto dt t =
     \<lparr>trr_Id = tr_ID t, trr_ClientId = tr_ClientID t, trr_FromAccountNumber = tr_FromAccountNumber t,
      trr_ToAccountNumber = tr_ToAccountNumber t, trr_InitialAmount = StringFixed4 dt (tr_InitialAmount t),
      trr_FinalAmount = StringFixed4 dt (tr_FinalAmount t), trr_ExchangeRate = StringFixed4 dt (tr_ExchangeRate t),
      trr_Commission = StringFixed4 dt (tr_Commission t), trr_Timestamp = tr_Timestamp t, trr_Status = tr_Status t\<rparr>"

section \<open>Payments\<close>

record create_payment_request =
  cpr_ClientId :: nat
  cpr_FromAccountNumber :: string
  cpr_ToAccountNumber :: string
  cpr_Amount :: string
  cpr_RecipientName :: string
  cpr_PaymentCode :: string
  cpr_ReferenceNumber :: string
  cpr_PaymentPurpose :: string

text \<open>\<open>key\<close> is the freshly drawn idempotency key.\<close>

definition payment_of_request :: "decimal_text \<Rightarrow> string \<Rightarrow> create_payment_request \<Rightarrow> payment" where
  "payment_of_request dt key req =
     \<lparr>pay_ID = 0, pay_IdempotencyKey = key, pay_ClientID = cpr_ClientId req,
      pay_FromAccountNumber = cpr_FromAccountNumber req, pay_ToAccountNumber = cpr_ToAccountNumber req,
      pay_InitialAmount = num dt (cpr_Amount req), pay_FinalAmount = 0, pay_Commission = 0, pay_CurrencyCode = [],
      pay_RecipientName = cpr_RecipientName req, pay_PaymentCode = cpr_PaymentCode req,
      pay_ReferenceNumber = cpr_ReferenceNumber req, pay_PaymentPurpose = cpr_PaymentPurpose req,
      pay_Status = [], pay_FailureReason = [], pay_Version = 0, pay_Timestamp = 0, pay_CompletedAt = None\<rparr>"

definition payment_message ::
  "(nat \<Rightarrow> string \<Rightarrow> string \<Rightarrow> string \<Rightarrow> string \<Rightarrow> message) \<Rightarrow> decimal_text \<Rightarrow> payment \<Rightarrow> message" where
  "payment_message mk dt p =
     mk (pay_ID p) (pay_FromAccountNumber p) (pay_ToAccountNumber p) (StringFixed4 dt (pay_InitialAmount p)) (pay_Status p)"

definition CreatePaymentRPC ::
  "'w payment_service \<Rightarrow> ctx \<Rightarrow> nat \<Rightarrow> string \<Rightarrow> create_payment_request \<Rightarrow> tx_db \<Rightarrow> 'w env \<Rightarrow>
     payment_response result \<times> tx_db \<times> 'w env" where
  "CreatePaymentRPC s ctx now key req db e =
     (case CreatePayment s ctx now (payment_of_request (ps_decimals s) key req) db e of
        (Inl err, db1, e1) \<Rightarrow> (Inl err, db1, e1)
      | (Inr p, db1, e1) \<Rightarrow>
          (Inr (paymentToProto (ps_decimals s) p), publish (payment_message PaymentCreated (ps_decimals s) p) db1, e1))"

text \<open>The verification check at the head of both execute RPCs.\<close>

definition verification_gate :: "challenge_db \<Rightarrow> nat \<Rightarrow> go_error option" where
  "verification_gate vdb challengeID =
     (if challengeID > 0 then
        (case GetChallengeStatus challengeID vdb of
           Inl _ \<Rightarrow> Some (Status Internal ''verification check failed'')
         | Inr vc \<Rightarrow>
             if vc_Status vc \<noteq> ''verified'' then Some (Status FailedPrecondition ''verification not completed'') else None)
      else None)"

definition ExecutePaymentRPC ::
  "'w payment_service \<Rightarrow> challenge_db \<Rightarrow> ctx \<Rightarrow> nat \<Rightarrow> nat \<Rightarrow> nat \<Rightarrow> tx_db \<Rightarrow> 'w env \<Rightarrow>
     payment_response result \<times> tx_db \<times> 'w env" where
  "ExecutePaymentRPC s vdb ctx nano challengeID paymentID db e =
     (case verification_gate vdb challengeID of
        Some err \<Rightarrow> (Inl err, db, e)
      | None \<Rightarrow>
          (case ExecutePayment s ctx nano paymentID db e of
             (Inl err, db1, e1) \<Rightarrow> (Inl err, db1, e1)
           | (Inr _, db1, e1) \<Rightarrow>
               (case PaymentByID paymentID db1 of
                  None \<Rightarrow> (Inl (Status Internal ''failed to fetch executed payment''), db1, e1)
                | Some p \<Rightarrow>
                    (Inr (paymentToProto (ps_decimals s) p),
                     if pay_Status p = ''completed''
                     then publish (payment_message PaymentCompleted (ps_decimals s) p) db1 else db1, e1))))"

definition GetPaymentRPC :: "decimal_text \<Rightarrow> caller \<Rightarrow> nat \<Rightarrow> tx_db \<Rightarrow> payment_response result" where
  "GetPaymentRPC dt c paymentID db =
     (case PaymentByID paymentID db of
        None \<Rightarrow> Inl (Status NotFound ''payment not found'')
      | Some p \<Rightarrow> if \<not> ownsTxn c (pay_ClientID p) then Inl ErrPaymentNotFound else Inr (paymentToProto dt p))"

definition ListPaymentsByClientRPC ::
  "decimal_text \<Rightarrow> string list \<Rightarrow> int \<Rightarrow> int \<Rightarrow> tx_db \<Rightarrow> payment_response list \<times> nat" where
  "ListPaymentsByClientRPC dt nums page pageSize db =
     (case ListPaymentsByAccountNumbers nums page pageSize db of (ps, n) \<Rightarrow> (map (paymentToProto dt) ps, n))"

section \<open>Transfers\<close>

record create_transfer_request =
  ctr_ClientId :: nat
  ctr_FromAccountNumber :: string
  ctr_ToAccountNumber :: string
  ctr_Amount :: string
  ctr_FromCurrency :: string
  ctr_ToCurrency :: string

definition transfer_of_request :: "decimal_text \<Rightarrow> string \<Rightarrow> create_transfer_request \<Rightarrow> transfer" where
  "transfer_of_request dt key req =
     \<lparr>tr_ID = 0, tr_IdempotencyKey = key, tr_ClientID = ctr_ClientId req,
      tr_FromAccountNumber = ctr_FromAccountNumber req, tr_ToAccountNumber = ctr_ToAccountNumber req,
      tr_InitialAmount = num dt (ctr_Amount req), tr_FinalAmount = 0, tr_ExchangeRate = 1, tr_Commission = 0,
      tr_FromCurrency = ctr_FromCurrency req, tr_ToCurrency = ctr_ToCurrency req, tr_Status = [],
      tr_FailureReason = [], tr_Version = 0, tr_Timestamp = 0, tr_CompletedAt = None\<rparr>"

definition transfer_message ::
  "(nat \<Rightarrow> string \<Rightarrow> string \<Rightarrow> string \<Rightarrow> string \<Rightarrow> string \<Rightarrow> message) \<Rightarrow> decimal_text \<Rightarrow> transfer \<Rightarrow> message" where
  "transfer_message mk dt t =
     mk (tr_ID t) (tr_FromAccountNumber t) (tr_ToAccountNumber t) (StringFixed4 dt (tr_InitialAmount t))
       (StringFixed4 dt (tr_FinalAmount t)) (StringFixed4 dt (tr_ExchangeRate t))"

definition CreateTransferRPC ::
  "'w transfer_service \<Rightarrow> ctx \<Rightarrow> nat \<Rightarrow> string \<Rightarrow> create_transfer_request \<Rightarrow> tx_db \<Rightarrow> 'w env \<Rightarrow>
     transfer_response result \<times> tx_db \<times> 'w env" where
  "CreateTransferRPC s ctx now key req db e =
     (case CreateTransfer s ctx now (transfer_of_request (ts_decimals s) key req) db e of
        (Inl err, db1, e1) \<Rightarrow> (Inl err, db1, e1)
      | (Inr t, db1, e1) \<Rightarrow>
          (Inr (transferToProto (ts_decimals s) t), publish (transfer_message TransferCreated (ts_decimals s) t) db1, e1))"

definition ExecuteTransferRPC ::
  "'w transfer_service \<Rightarrow> challenge_db \<Rightarrow> ctx \<Rightarrow> nat \<Rightarrow> nat \<Rightarrow> nat \<Rightarrow> tx_db \<Rightarrow> 'w env \<Rightarrow>
     transfer_response result \<times> tx_db \<times> 'w env" where
  "ExecuteTransferRPC s vdb ctx nano challengeID transferID db e =
     (case verification_gate vdb challengeID of
        Some err \<Rightarrow> (Inl err, db, e)
      | None \<Rightarrow>
          (case ExecuteTransfer s ctx nano transferID db e of
             (Inl err, db1, e1) \<Rightarrow> (Inl err, db1, e1)
           | (Inr _, db1, e1) \<Rightarrow>
               (case TransferByID transferID db1 of
                  None \<Rightarrow> (Inl (Status Internal ''failed to fetch executed transfer''), db1, e1)
                | Some t \<Rightarrow>
                    (Inr (transferToProto (ts_decimals s) t),
                     if tr_Status t = ''completed''
                     then publish (transfer_message TransferCompleted (ts_decimals s) t) db1 else db1, e1))))"

definition GetTransferRPC :: "decimal_text \<Rightarrow> caller \<Rightarrow> nat \<Rightarrow> tx_db \<Rightarrow> transfer_response result" where
  "GetTransferRPC dt c transferID db =
     (case TransferByID transferID db of
        None \<Rightarrow> Inl (Status NotFound ''transfer not found'')
      | Some t \<Rightarrow> if \<not> ownsTxn c (tr_ClientID t) then Inl ErrTransferNotFound else Inr (transferToProto dt t))"

definition mapTransferStatusToClient :: "string \<Rightarrow> string" where
  "mapTransferStatusToClient internal =
     (if internal = ''pending'' \<or> internal = ''pending_verification'' then ''INITIATED''
      else if internal = ''processing'' then ''PENDING''
      else if internal = ''completed'' then ''COMPLETED''
      else if internal = ''failed'' then ''FAILED''
      else ''INITIATED'')"

record transfer_status_response =
  tsr_TransferId :: nat
  tsr_Status :: string
  tsr_InternalStatus :: string
  tsr_FailureReason :: string
  tsr_LastChangedUnix :: nat

definition GetTransferStatusRPC :: "caller \<Rightarrow> nat \<Rightarrow> tx_db \<Rightarrow> transfer_status_response result" where
  "GetTransferStatusRPC c transferID db =
     (case TransferByID transferID db of
        None \<Rightarrow> Inl (Status NotFound ''transfer not found'')
      | Some t \<Rightarrow>
          if \<not> ownsTxn c (tr_ClientID t) then Inl ErrTransferNotFound
          else Inr \<lparr>tsr_TransferId = tr_ID t, tsr_Status = mapTransferStatusToClient (tr_Status t),
                    tsr_InternalStatus = tr_Status t, tsr_FailureReason = tr_FailureReason t,
                    tsr_LastChangedUnix = (case tr_CompletedAt t of Some tc \<Rightarrow> tc | None \<Rightarrow> tr_Timestamp t)\<rparr>)"

definition ListTransfersByClientRPC ::
  "decimal_text \<Rightarrow> string list \<Rightarrow> int \<Rightarrow> int \<Rightarrow> tx_db \<Rightarrow> transfer_response list \<times> nat" where
  "ListTransfersByClientRPC dt nums page pageSize db =
     (case ListTransfersByAccountNumbers nums page pageSize db of (ts, n) \<Rightarrow> (map (transferToProto dt) ts, n))"

section \<open>Payment recipients\<close>

definition ErrPaymentRecipientNotFound :: go_error where
  "ErrPaymentRecipientNotFound = Status NotFound ''payment recipient not found''"

record payment_recipient =
  rec_ID :: nat
  rec_ClientID :: nat
  rec_RecipientName :: string
  rec_AccountNumber :: string

type_synonym recipient_db = "payment_recipient list \<times> nat"

definition CreateRecipient :: "nat \<Rightarrow> string \<Rightarrow> string \<Rightarrow> recipient_db \<Rightarrow> payment_recipient result \<times> recipient_db" where
  "CreateRecipient clientID name number = (\<lambda>(rows, nxt).
     let row = \<lparr>rec_ID = nxt, rec_ClientID = clientID, rec_RecipientName = name, rec_AccountNumber = number\<rparr>
     in (Inr row, (rows @ [row], Suc nxt)))"

definition ListRecipientsByClient :: "nat \<Rightarrow> recipient_db \<Rightarrow> payment_recipient list" where
  "ListRecipientsByClient clientID db = filter (\<lambda>r. rec_ClientID r = clientID) (fst db)"

definition RecipientByID :: "nat \<Rightarrow> recipient_db \<Rightarrow> payment_recipient result" where
  "RecipientByID i db =
     (case find (\<lambda>r. rec_ID r = i) (fst db) of None \<Rightarrow> Inl ErrPaymentRecipientNotFound | Some r \<Rightarrow> Inr r)"

definition UpdateRecipient ::
  "nat \<Rightarrow> string option \<Rightarrow> string option \<Rightarrow> recipient_db \<Rightarrow> payment_recipient result \<times> recipient_db" where
  "UpdateRecipient i name number db =
     (case RecipientByID i db of
        Inl err \<Rightarrow> (Inl err, db)
      | Inr r \<Rightarrow>
          let r1 = (case name of None \<Rightarrow> r | Some x \<Rightarrow> r\<lparr>rec_RecipientName := x\<rparr>);
              r2 = (case number of None \<Rightarrow> r1 | Some x \<Rightarrow> r1\<lparr>rec_AccountNumber := x\<rparr>)
          in (Inr r2, (put_row rec_ID r2 (fst db), snd db)))"

definition DeleteRecipient :: "nat \<Rightarrow> recipient_db \<Rightarrow> unit result \<times> recipient_db" where
  "DeleteRecipient i db =
     (if list_ex (\<lambda>r. rec_ID r = i) (fst db)
      then (Inr (), (filter (\<lambda>r. rec_ID r \<noteq> i) (fst db), snd db))
      else (Inl ErrPaymentRecipientNotFound, db))"

definition owned_recipient :: "caller \<Rightarrow> nat \<Rightarrow> recipient_db \<Rightarrow> payment_recipient result" where
  "owned_recipient c i db =
     (case RecipientByID i db of
        Inl err \<Rightarrow> Inl err
      | Inr r \<Rightarrow> if \<not> ownsTxn c (rec_ClientID r) then Inl ErrPaymentRecipientNotFound else Inr r)"

definition GetPaymentRecipientRPC :: "caller \<Rightarrow> nat \<Rightarrow> recipient_db \<Rightarrow> payment_recipient result" where
  "GetPaymentRecipientRPC = owned_recipient"

definition UpdatePaymentRecipientRPC ::
  "caller \<Rightarrow> nat \<Rightarrow> string option \<Rightarrow> string option \<Rightarrow> recipient_db \<Rightarrow> payment_recipient result \<times> recipient_db" where
  "UpdatePaymentRecipientRPC c i name number db =
     (case owned_recipient c i db of Inl err \<Rightarrow> (Inl err, db) | Inr _ \<Rightarrow> UpdateRecipient i name number db)"

definition DeletePaymentRecipientRPC :: "caller \<Rightarrow> nat \<Rightarrow> recipient_db \<Rightarrow> unit result \<times> recipient_db" where
  "DeletePaymentRecipientRPC c i db =
     (case owned_recipient c i db of Inl err \<Rightarrow> (Inl err, db) | Inr _ \<Rightarrow> DeleteRecipient i db)"

end
