(* ===== verification/Verification_Safety.thy ===== *)
theory Verification_Safety
  imports Verification "HOL-Library.Multiset"
begin

text \<open>
  The life of a verification challenge: a step relation over the service's operations, the invariant
  of its reachable states, and what the random material looks like.
\<close>

section \<open>Steps\<close>

inductive challenge_step :: "verification_service \<Rightarrow> challenge_db \<Rightarrow> challenge_db \<Rightarrow> bool"
  for s :: verification_service where
  create: "CreateChallenge s now d userID sourceService sourceID method deviceID db = Some (res1, db') \<Longrightarrow>
     challenge_step s db db'"
| submit: "SubmitVerification s now fresh i deviceID response db = (res2, db') \<Longrightarrow> challenge_step s db db'"
| code: "SubmitCode s now i code db = (res3, db') \<Longrightarrow> challenge_step s db db'"
| biometric: "VerifyByBiometric s now biometrics True i userID deviceID db = (res4, db') \<Longrightarrow> challenge_step s db db'"
| expire: "challenge_step s db (ExpireOldChallenges now db)"

definition no_challenges :: challenge_db where
  "no_challenges = \<lparr>challenges = [], seq_challenges = 1, events = []\<rparr>"

fun verifies :: "nat \<Rightarrow> challenge_event \<Rightarrow> bool" where
  "verifies i (ChallengeVerified j _ _ _ _ _) \<longleftrightarrow> j = i"
| "verifies i _ \<longleftrightarrow> False"

fun fails :: "nat \<Rightarrow> challenge_event \<Rightarrow> bool" where
  "fails i (ChallengeFailed j _ _ _ _) \<longleftrightarrow> j = i"
| "fails i _ \<longleftrightarrow> False"

abbreviation tally :: "('x \<Rightarrow> bool) \<Rightarrow> 'x list \<Rightarrow> nat" where
  "tally p xs \<equiv> length (filter p xs)"

definition challenge_ok :: "verification_service \<Rightarrow> challenge_event list \<Rightarrow> challenge \<Rightarrow> bool" where
  "challenge_ok s es vc \<longleftrightarrow>
     vc_Status vc \<in> {''pending'', ''verified'', ''failed'', ''expired''} \<and>
     0 \<le> vc_Attempts vc \<and> vc_Attempts vc \<le> vs_maxAttempts s \<and>
     (vc_Status vc = ''pending'' \<longrightarrow> vc_Attempts vc < vs_maxAttempts s) \<and>
     (vc_VerifiedAt vc \<noteq> None \<longleftrightarrow> vc_Status vc = ''verified'') \<and>
     tally (verifies (vc_ID vc)) es = (if vc_Status vc = ''verified'' then 1 else 0) \<and>
     tally (fails (vc_ID vc)) es = (if vc_Status vc = ''failed'' then 1 else 0)"

definition challenges_ok :: "verification_service \<Rightarrow> challenge_db \<Rightarrow> bool" where
  "challenges_ok s db \<longleftrightarrow>
     distinct (map vc_ID (challenges db)) \<and>
     (\<forall>vc \<in> set (challenges db). vc_ID vc < seq_challenges db \<and> challenge_ok s (events db) vc) \<and>
     (\<forall>i. seq_challenges db \<le> i \<longrightarrow> tally (verifies i) (events db) = 0 \<and> tally (fails i) (events db) = 0)"

section \<open>One row at a time\<close>

text \<open>
  Every operation on an existing challenge replaces one pending row by its successor and appends the
  event that the successor's status calls for.
\<close>

definition settles :: "verification_service \<Rightarrow> challenge \<Rightarrow> challenge \<Rightarrow> challenge_event list \<Rightarrow> bool" where
  "settles s vc vc' es \<longleftrightarrow>
     vc_Status vc = ''pending'' \<and> vc_Attempts vc < vs_maxAttempts s \<and>
     vc_ID vc' = vc_ID vc \<and> vc_UserID vc' = vc_UserID vc \<and> vc_SourceService vc' = vc_SourceService vc \<and>
     vc_SourceID vc' = vc_SourceID vc \<and> vc_Method vc' = vc_Method vc \<and> vc_Code vc' = vc_Code vc \<and>
     vc_ExpiresAt vc' = vc_ExpiresAt vc \<and> (vc_DeviceID vc \<noteq> [] \<longrightarrow> vc_DeviceID vc' = vc_DeviceID vc) \<and>
     (vc_Attempts vc' = vc_Attempts vc \<or> vc_Attempts vc' = vc_Attempts vc + 1) \<and>
     (vc_Status vc' = ''pending'' \<and> vc_Attempts vc' < vs_maxAttempts s \<and> vc_VerifiedAt vc' = vc_VerifiedAt vc \<and> es = [] \<or>
      vc_Status vc' = ''verified'' \<and> vc_VerifiedAt vc' \<noteq> None \<and>
        (\<exists>e. es = [e] \<and> verifies (vc_ID vc) e \<and> (\<forall>i. i \<noteq> vc_ID vc \<longrightarrow> \<not> verifies i e)) \<or>
      vc_Status vc' = ''failed'' \<and> vc_VerifiedAt vc' = vc_VerifiedAt vc \<and>
        (\<exists>e. es = [e] \<and> fails (vc_ID vc) e \<and> (\<forall>i. i \<noteq> vc_ID vc \<longrightarrow> \<not> fails i e)))"

lemma settlesD:
  assumes "settles s vc vc' es"
  shows "vc_Status vc = ''pending''" "vc_Attempts vc < vs_maxAttempts s"
    "vc_ID vc' = vc_ID vc" "vc_UserID vc' = vc_UserID vc" "vc_SourceService vc' = vc_SourceService vc"
    "vc_SourceID vc' = vc_SourceID vc" "vc_Method vc' = vc_Method vc" "vc_Code vc' = vc_Code vc"
    "vc_ExpiresAt vc' = vc_ExpiresAt vc" "vc_Attempts vc' = vc_Attempts vc \<or> vc_Attempts vc' = vc_Attempts vc + 1"
  using assms unfolding settles_def by - (elim conjE, assumption)+

lemma fails_verifies [simp]: "fails i e \<Longrightarrow> \<not> verifies j e" "verifies i e \<Longrightarrow> \<not> fails j e"
  by (cases e; simp)+

lemma validate_None:
  "validateChallengeState s now vc = None \<longleftrightarrow>
     vc_Status vc = ''pending'' \<and> now \<le> vc_ExpiresAt vc \<and> vc_Attempts vc < vs_maxAttempts s"
  by (auto simp: validateChallengeState_def)

lemma attempt_sel [simp]:
  "vc_ID (attempt s now c vc) = vc_ID vc" "vc_UserID (attempt s now c vc) = vc_UserID vc"
  "vc_SourceService (attempt s now c vc) = vc_SourceService vc" "vc_SourceID (attempt s now c vc) = vc_SourceID vc"
  "vc_Method (attempt s now c vc) = vc_Method vc" "vc_Code (attempt s now c vc) = vc_Code vc"
  "vc_ExpiresAt (attempt s now c vc) = vc_ExpiresAt vc" "vc_DeviceID (attempt s now c vc) = vc_DeviceID vc"
  "vc_Attempts (attempt s now c vc) = vc_Attempts vc + 1" "vc_ChallengeData (attempt s now c vc) = vc_ChallengeData vc"
  by (simp_all add: attempt_def Let_def)

lemma attempt_settles:
  assumes "validateChallengeState s now vc = None"
    and "vc0 = vc \<or> vc0 = vc\<lparr>vc_DeviceID := dev\<rparr> \<and> vc_DeviceID vc = []"
    and "vc2 = attempt s now correct vc0 \<or> vc2 = (attempt s now correct vc0)\<lparr>vc_ChallengeData := data\<rparr>"
  shows "\<exists>es. events (publish_outcome now vc2 db) = events db @ es \<and> settles s vc (vc2\<lparr>vc_Version := v\<rparr>) es"
proof -
  have p: "vc_Status vc = ''pending''" "vc_Attempts vc < vs_maxAttempts s" using assms(1) by (simp_all add: validate_None)
  have s0: "vc_Status vc0 = vc_Status vc" "vc_Attempts vc0 = vc_Attempts vc" "vc_VerifiedAt vc0 = vc_VerifiedAt vc"
    using assms(2) by auto
  have st: "vc_Status vc2 = (if correct then ''verified'' else if vs_maxAttempts s - vc_Attempts vc - 1 \<le> 0 then ''failed'' else ''pending'')"
    "vc_VerifiedAt vc2 = (if correct then Some now else vc_VerifiedAt vc)"
    using assms(3) p s0 by (auto simp: attempt_def Let_def)
  have same: "vc_ID vc2 = vc_ID vc" "vc_UserID vc2 = vc_UserID vc" "vc_SourceService vc2 = vc_SourceService vc"
    "vc_SourceID vc2 = vc_SourceID vc" "vc_Method vc2 = vc_Method vc" "vc_Code vc2 = vc_Code vc"
    "vc_ExpiresAt vc2 = vc_ExpiresAt vc" "vc_DeviceID vc \<noteq> [] \<Longrightarrow> vc_DeviceID vc2 = vc_DeviceID vc"
    "vc_Attempts vc2 = vc_Attempts vc + 1"
    using assms(2,3) by auto
  show ?thesis using p st same by (auto simp: settles_def publish_outcome_def verified_event_def)
qed

text \<open>What an operation on an existing challenge can do.\<close>

definition settled_one :: "verification_service \<Rightarrow> nat \<Rightarrow> challenge_db \<Rightarrow> challenge_db \<Rightarrow> bool" where
  "settled_one s i db db' \<longleftrightarrow>
     (\<exists>vc vc' es. ChallengeByID i db = Some vc \<and> settles s vc vc' es \<and>
        challenges db' = put_row vc_ID vc' (challenges db) \<and> seq_challenges db' = seq_challenges db \<and>
        events db' = events db @ es)"

lemma SaveChallenge_sel [simp]:
  "challenges (SaveChallenge vc db) = put_row vc_ID (vc\<lparr>vc_Version := vc_Version vc + 1\<rparr>) (challenges db)"
  "seq_challenges (SaveChallenge vc db) = seq_challenges db" "events (SaveChallenge vc db) = events db"
  by (simp_all add: SaveChallenge_def)

lemma publish_outcome_sel [simp]:
  "challenges (publish_outcome now vc db) = challenges db"
  "seq_challenges (publish_outcome now vc db) = seq_challenges db"
  by (simp_all add: publish_outcome_def)

lemma SubmitCode_step:
  assumes "SubmitCode s now i code db = (res, db')"
  shows "db' = db \<or> settled_one s i db db'"
proof (cases rule: transaction_cases [of "submit_code_body s now i code" db])
  case rollback
  with assms show ?thesis by (simp add: SubmitCode_def)
next
  case (commit x r)
  from commit(1) obtain vc where vc: "ChallengeByID i db = Some vc" "validateChallengeState s now vc = None"
    and r: "r = publish_outcome now (attempt s now (code = defaultBypassCode \<or> vc_Code vc = code) vc)
      (SaveChallenge (attempt s now (code = defaultBypassCode \<or> vc_Code vc = code) vc) db)"
    by (auto simp: submit_code_body_def Let_def split: option.splits if_splits)
  from attempt_settles [OF vc(2), of vc] have "\<exists>es. events r = events db @ es \<and> settles s vc
      ((attempt s now (code = defaultBypassCode \<or> vc_Code vc = code) vc)\<lparr>vc_Version :=
         vc_Version (attempt s now (code = defaultBypassCode \<or> vc_Code vc = code) vc) + 1\<rparr>) es"
    unfolding r by (metis SaveChallenge_sel(3))
  with vc(1) commit(2) assms show ?thesis by (auto simp: settled_one_def SubmitCode_def r)
qed

lemma SubmitVerification_step:
  assumes "SubmitVerification s now fresh i deviceID response db = (res, db')"
  shows "db' = db \<or> settled_one s i db db'"
proof (cases rule: transaction_cases [of "submit_body s now fresh i deviceID response" db])
  case rollback
  with assms show ?thesis by (simp add: SubmitVerification_def)
next
  case (commit x r)
  from commit(1) obtain vc where vc: "ChallengeByID i db = Some vc" "validateChallengeState s now vc = None"
    by (auto simp: submit_body_def split: option.splits)
  define vc0 where "vc0 = (if vc_DeviceID vc = [] then vc\<lparr>vc_DeviceID := deviceID\<rparr> else vc)"
  from commit(1) vc obtain vc2 data where
    vc2: "vc2 = attempt s now (checkResponse vc0 response) vc0 \<or>
      vc2 = (attempt s now (checkResponse vc0 response) vc0)\<lparr>vc_ChallengeData := data\<rparr>"
    and r: "r = publish_outcome now vc2 (SaveChallenge vc2 db)"
    by (auto simp: submit_body_def Let_def vc0_def [symmetric] split: if_splits sum.splits)
  have "vc0 = vc \<or> vc0 = vc\<lparr>vc_DeviceID := deviceID\<rparr> \<and> vc_DeviceID vc = []" by (simp add: vc0_def)
  from attempt_settles [OF vc(2) this vc2] have "\<exists>es. events r = events db @ es \<and>
      settles s vc (vc2\<lparr>vc_Version := vc_Version vc2 + 1\<rparr>) es"
    unfolding r by (metis SaveChallenge_sel(3))
  with vc(1) commit(2) assms show ?thesis by (auto simp: settled_one_def SubmitVerification_def r)
qed

lemma VerifyByBiometric_step:
  assumes "VerifyByBiometric s now biometrics True i userID deviceID db = (res, db')"
  shows "db' = db \<or> settled_one s i db db'"
proof (cases rule: transaction_cases [of "biometric_body s now biometrics True i userID deviceID" db])
  case rollback
  with assms show ?thesis by (simp add: VerifyByBiometric_def)
next
  case (commit x r)
  from commit(1) obtain vc where vc: "ChallengeByID i db = Some vc" "validateChallengeState s now vc = None"
    by (auto simp: biometric_body_def split: option.splits)
  define vc1 where "vc1 = vc\<lparr>vc_Status := ''verified'', vc_VerifiedAt := Some now,
       vc_DeviceID := (if vc_DeviceID vc = [] then deviceID else vc_DeviceID vc),
       vc_ChallengeData := Some ((case vc_ChallengeData vc of None \<Rightarrow> Map.empty | Some data \<Rightarrow> data)
         (''verified_by'' \<mapsto> JString ''biometric''))\<rparr>"
  from commit(1) vc have r: "r = (SaveChallenge vc1 db)\<lparr>events := events db @ [verified_event vc1 now]\<rparr>"
    unfolding vc1_def by (simp add: biometric_body_def Let_def split: if_splits sum.splits)
  have sel: "vc_ID vc1 = vc_ID vc" "vc_UserID vc1 = vc_UserID vc" "vc_SourceService vc1 = vc_SourceService vc"
    "vc_SourceID vc1 = vc_SourceID vc" "vc_Method vc1 = vc_Method vc" "vc_Code vc1 = vc_Code vc"
    "vc_ExpiresAt vc1 = vc_ExpiresAt vc" "vc_Attempts vc1 = vc_Attempts vc" "vc_Status vc1 = ''verified''"
    "vc_VerifiedAt vc1 = Some now" "vc_DeviceID vc \<noteq> [] \<Longrightarrow> vc_DeviceID vc1 = vc_DeviceID vc"
    by (simp_all add: vc1_def)
  have "settles s vc (vc1\<lparr>vc_Version := vc_Version vc1 + 1\<rparr>) [verified_event vc1 now]"
    using vc(2) by (simp add: settles_def validate_None verified_event_def sel)
  with vc(1) commit(2) assms show ?thesis by (auto simp: settled_one_def VerifyByBiometric_def r)
qed

section \<open>The invariant\<close>

lemma settles_ok:
  assumes "challenge_ok s es0 vc" "settles s vc vc' es"
  shows "challenge_ok s (es0 @ es) vc'"
proof -
  have attempts: "0 \<le> vc_Attempts vc" using assms(1) by (simp add: challenge_ok_def)
  have id: "vc_ID vc' = vc_ID vc" and att: "0 \<le> vc_Attempts vc'" "vc_Attempts vc' \<le> vs_maxAttempts s"
    using settlesD(2,3,10) [OF assms(2)] attempts by auto
  have old: "tally (verifies (vc_ID vc)) es0 = 0" "tally (fails (vc_ID vc)) es0 = 0" "vc_VerifiedAt vc = None"
    using settlesD(1) [OF assms(2)] assms(1) by (simp_all add: challenge_ok_def)
  from assms(2) consider
      "vc_Status vc' = ''pending''" "vc_Attempts vc' < vs_maxAttempts s" "vc_VerifiedAt vc' = vc_VerifiedAt vc" "es = []"
    | e where "vc_Status vc' = ''verified''" "vc_VerifiedAt vc' \<noteq> None" "es = [e]" "verifies (vc_ID vc) e"
    | e where "vc_Status vc' = ''failed''" "vc_VerifiedAt vc' = vc_VerifiedAt vc" "es = [e]" "fails (vc_ID vc) e"
    unfolding settles_def by blast
  then show ?thesis
    by cases (use id att old in \<open>simp_all add: challenge_ok_def\<close>)
qed

lemma settled_one_keeps:
  assumes ok: "challenges_ok s db" and st: "settled_one s i db db'"
  shows "challenges_ok s db'"
proof -
  from st obtain vc vc' es where
    vc: "ChallengeByID i db = Some vc" "settles s vc vc' es" and db': "challenges db' = put_row vc_ID vc' (challenges db)"
    "seq_challenges db' = seq_challenges db" "events db' = events db @ es" by (auto simp: settled_one_def)
  have mem: "vc \<in> set (challenges db)" using vc(1) find_SomeD unfolding ChallengeByID_def by fast
  note id = settlesD(3) [OF vc(2)]
  have lt: "vc_ID vc < seq_challenges db" and row: "challenge_ok s (events db) vc"
    using ok mem by (simp_all add: challenges_ok_def)
  have new: "challenge_ok s (events db') vc'"
    unfolding db'(3) by (rule settles_ok [OF row vc(2)])
  have quiet: "tally (verifies j) es = 0" "tally (fails j) es = 0" if "j \<noteq> vc_ID vc" for j
    using vc(2) that by (auto simp: settles_def)
  have old: "challenge_ok s (events db') x" if "x \<in> set (challenges db)" "vc_ID x \<noteq> vc_ID vc" for x
    using ok that quiet [OF that(2)] by (simp add: challenges_ok_def challenge_ok_def db'(3))
  have "distinct (map vc_ID (challenges db'))" using ok by (simp add: challenges_ok_def db'(1))
  moreover have "vc_ID x < seq_challenges db' \<and> challenge_ok s (events db') x" if "x \<in> set (challenges db')" for x
    using in_put_rowD [OF that [unfolded db'(1)]] new old lt id ok by (auto simp: challenges_ok_def db'(2))
  moreover have "tally (verifies j) (events db') = 0 \<and> tally (fails j) (events db') = 0"
    if "seq_challenges db' \<le> j" for j
  proof -
    have "j \<noteq> vc_ID vc" using that lt by (simp add: db'(2))
    with quiet [OF this] ok that show ?thesis by (simp add: challenges_ok_def db'(2,3))
  qed
  ultimately show ?thesis by (auto simp: challenges_ok_def)
qed

lemma CreateChallengeE:
  assumes "CreateChallenge s now d userID sourceService sourceID method deviceID db = Some (res, db')"
  obtains (refused) e where "res = Inl e" "db' = db"
  | (created) row evs where "res = Inr row" "vc_ID row = seq_challenges db" "vc_Status row = ''pending''"
      "vc_Attempts row = 0" "vc_VerifiedAt row = None" "vc_ExpiresAt row = now + vs_challengeExpiry s"
      "challenges db' = challenges db @ [row]" "seq_challenges db' = Suc (seq_challenges db)"
      "events db' = events db @ evs" "\<And>e i. e \<in> set evs \<Longrightarrow> \<not> verifies i e \<and> \<not> fails i e"
proof (cases res)
  case (Inl e)
  with assms show thesis
    by (intro refused [of e])
      (auto simp: CreateChallenge_def CreateChallengeRow_def Let_def split: if_splits option.splits sum.splits)
next
  case (Inr row)
  let ?row = "\<lambda>data. \<lparr>vc_ID = seq_challenges db, vc_UserID = userID, vc_SourceService = sourceService, vc_SourceID = sourceID,
      vc_Method = method, vc_Code = generateCode (dr_code d), vc_ChallengeData = Some data, vc_Status = ''pending'',
      vc_Attempts = 0, vc_ExpiresAt = now + vs_challengeExpiry s, vc_VerifiedAt = None,
      vc_DeviceID = deviceID, vc_Version = 1, vc_CreatedAt = now\<rparr>"
  from assms Inr obtain data evs where
    "res = Inr (?row data)" "challenges db' = challenges db @ [?row data]" "seq_challenges db' = Suc (seq_challenges db)"
    "events db' = events db @ evs" "evs = [] \<or> (\<exists>disp. evs = [ChallengeCreated (seq_challenges db) userID method disp (now + vs_challengeExpiry s)])"
    by (auto simp: CreateChallenge_def CreateChallengeRow_def Let_def split: if_splits option.splits sum.splits)
  then show thesis by (intro created [of "?row data" evs]) auto
qed

lemma ExpireOld_keeps:
  assumes "challenges_ok s db"
  shows "challenges_ok s (ExpireOldChallenges now db)"
proof -
  let ?p = "\<lambda>vc. vc_Status vc = ''pending'' \<and> vc_ExpiresAt vc < now"
  have db': "challenges (ExpireOldChallenges now db) = upd_rows ?p (\<lambda>vc. vc\<lparr>vc_Status := ''expired''\<rparr>) (challenges db)"
    "seq_challenges (ExpireOldChallenges now db) = seq_challenges db" "events (ExpireOldChallenges now db) = events db"
    by (simp_all add: ExpireOldChallenges_def ExpireOld_def Let_def)
  have row: "challenge_ok s es (vc\<lparr>vc_Status := ''expired''\<rparr>)" if "challenge_ok s es vc" "vc_Status vc = ''pending''" for es vc
    using that by (simp add: challenge_ok_def)
  have "vc_ID x < seq_challenges db \<and> challenge_ok s (events db) x"
    if "x \<in> set (challenges (ExpireOldChallenges now db))" for x
  proof -
    from that obtain y where "y \<in> set (challenges db)" "x = y \<or> x = y\<lparr>vc_Status := ''expired''\<rparr> \<and> vc_Status y = ''pending''"
      unfolding db'(1) upd_rows_def by auto
    with assms row [of "events db" y] show ?thesis by (auto simp: challenges_ok_def)
  qed
  moreover have "map vc_ID (challenges (ExpireOldChallenges now db)) = map vc_ID (challenges db)"
    unfolding db'(1) upd_rows_def by simp
  ultimately show ?thesis using assms unfolding challenges_ok_def db'(2,3) by simp
qed

lemma challenge_step_keeps:
  assumes "challenge_step s db db'" "challenges_ok s db" "0 < vs_maxAttempts s"
  shows "challenges_ok s db'"
  using assms
proof (induction rule: challenge_step.induct)
  case (create now d userID sourceService sourceID meth deviceID db res db')
  from create(1) show ?case
  proof (cases rule: CreateChallengeE)
    case (created row evs)
    have none: "filter (verifies i) evs = []" "filter (fails i) evs = []" for i
      using created(10) by (auto simp: filter_empty_conv)
    have new: "challenge_ok s (events db') row"
      using created create(2,3) by (simp add: challenge_ok_def challenges_ok_def none)
    have "seq_challenges db \<notin> vc_ID ` set (challenges db)" using create(2) by (force simp: challenges_ok_def)
    with create(2) created new show ?thesis
      by (auto simp: challenges_ok_def challenge_ok_def none less_Suc_eq)
  qed (use create in simp)
next
  case (submit now fresh i deviceID response db res db')
  with SubmitVerification_step [OF submit(1)] settled_one_keeps show ?case by blast
next
  case (code now i code db res db')
  with SubmitCode_step [OF code(1)] settled_one_keeps show ?case by blast
next
  case (biometric now biometrics i userID deviceID db res db')
  with VerifyByBiometric_step [OF biometric(1)] settled_one_keeps show ?case by blast
next
  case (expire db now)
  then show ?case by (simp add: ExpireOld_keeps)
qed

lemma no_challenges_ok: "challenges_ok s no_challenges"
  by (simp add: challenges_ok_def no_challenges_def)

text \<open>
  C6: The life of a challenge, over every sequence of the service's operations from an empty table.
  A challenge's status is one of the four known ones. It never counts more attempts than the
  configured maximum, and while it is pending it has at least one attempt left. It carries a
  verification time exactly when it is verified. Exactly one verification event has been published
  for each verified challenge and none for any other, and exactly one failure event for each failed
  one: downstream services never hear of a verification twice, nor of one that did not happen.
\<close>

theorem challenge_lifecycle:
  assumes "(challenge_step s)\<^sup>*\<^sup>* no_challenges db" "0 < vs_maxAttempts s" "vc \<in> set (challenges db)"
  shows "vc_Status vc \<in> {''pending'', ''verified'', ''failed'', ''expired''} \<and>
    0 \<le> vc_Attempts vc \<and> vc_Attempts vc \<le> vs_maxAttempts s \<and>
    (vc_Status vc = ''pending'' \<longrightarrow> vc_Attempts vc < vs_maxAttempts s) \<and>
    (vc_VerifiedAt vc \<noteq> None \<longleftrightarrow> vc_Status vc = ''verified'') \<and>
    tally (verifies (vc_ID vc)) (events db) = (if vc_Status vc = ''verified'' then 1 else 0) \<and>
    tally (fails (vc_ID vc)) (events db) = (if vc_Status vc = ''failed'' then 1 else 0)"
proof -
  from assms(1) have "challenges_ok s db"
    by (induction rule: rtranclp_induct)
      (auto intro: no_challenges_ok challenge_step_keeps [OF _ _ assms(2)])
  with assms(3) show ?thesis unfolding challenges_ok_def challenge_ok_def by blast
qed

definition demo_verification :: verification_service where
  "demo_verification = \<lparr>vs_challengeExpiry = 300, vs_maxAttempts = 3\<rparr>"

definition demo_draws :: draws where
  "demo_draws = \<lparr>dr_code = Some 42, dr_token = None, dr_target = 6, dr_decoys = [1, 1, 2, 6, 3, 4],
     dr_order = rev, dr_swaps = [0, 0, 0, 0]\<rparr>"

text \<open>A challenge for payment 7, answered wrongly once and then with the drawn code \<^verbatim>\<open>000042\<close>.\<close>

definition demo_created :: challenge_db where
  "demo_created = snd (the (CreateChallenge demo_verification 0 demo_draws 5 ''payment'' 7 ''code_pull'' [] no_challenges))"

definition demo_verified :: challenge_db where
  "demo_verified = snd (SubmitCode demo_verification 20 1 ''000042'' (snd (SubmitCode demo_verification 10 1 ''123456'' demo_created)))"

lemmas challenge_eval = CreateChallenge_def CreateChallengeRow_def SubmitCode_def submit_code_body_def transaction_def
  validateChallengeState_def attempt_def publish_outcome_def SaveChallenge_def ChallengeByID_def verified_event_def
  buildChallengeData_def buildDisplayData_def generateCode_def pad6_def validMethods_def validSourceServices_def
  defaultBypassCode_def demo_verification_def demo_draws_def no_challenges_def Let_def

lemma demo_code: "pad6 42 = ''000042''"
  by code_simp

lemma demo_created_run:
  "CreateChallenge demo_verification 0 demo_draws 5 ''payment'' 7 ''code_pull'' [] no_challenges =
     Some (Inr (hd (challenges demo_created)), demo_created)"
  by (simp add: demo_created_def challenge_eval)

lemma demo_verified_row:
  "map (\<lambda>vc. (vc_ID vc, vc_Status vc, vc_Attempts vc)) (challenges demo_verified) = [(1, ''verified'', 2)]"
  by (simp add: demo_verified_def demo_created_def challenge_eval demo_code [unfolded pad6_def Let_def])

lemma demo_verified_reached: "(challenge_step demo_verification)\<^sup>*\<^sup>* no_challenges demo_verified"
proof -
  have "challenge_step demo_verification no_challenges demo_created"
    by (rule challenge_step.create [OF demo_created_run])
  moreover have "challenge_step demo_verification db (snd (SubmitCode demo_verification t i c db))" for t i c db
    by (rule challenge_step.code [OF surjective_pairing])
  ultimately show ?thesis unfolding demo_verified_def by (meson rtranclp.rtrancl_into_rtrancl r_into_rtranclp)
qed

theorem challenge_lifecycle_witness:
  "vc_Attempts (hd (challenges demo_verified)) \<le> 3 \<and> tally (verifies 1) (events demo_verified) = 1"
proof -
  obtain vc where vc: "challenges demo_verified = [vc]" "vc_ID vc = 1" "vc_Status vc = ''verified''"
    using demo_verified_row by (auto simp: map_eq_Cons_conv)
  from challenge_lifecycle [OF demo_verified_reached, of vc] show ?thesis
    by (simp add: vc demo_verification_def)
qed

text \<open>
  C20: Challenges only move forward. Whatever operation runs, an existing challenge keeps its id, user,
  source, method, code and expiry; its attempt counter never decreases and grows by at most one; and
  once it is verified, failed or expired its row is never touched again, so neither a late answer nor
  the expiry job can revive or overwrite a decision.
\<close>

theorem challenge_moves_forward:
  assumes "challenge_step s db db'" "challenges_ok s db" "vc \<in> set (challenges db)"
  shows "\<exists>vc' \<in> set (challenges db'). vc_ID vc' = vc_ID vc \<and> vc_UserID vc' = vc_UserID vc \<and>
    vc_SourceService vc' = vc_SourceService vc \<and> vc_SourceID vc' = vc_SourceID vc \<and> vc_Method vc' = vc_Method vc \<and>
    vc_Code vc' = vc_Code vc \<and> vc_ExpiresAt vc' = vc_ExpiresAt vc \<and>
    vc_Attempts vc \<le> vc_Attempts vc' \<and> vc_Attempts vc' \<le> vc_Attempts vc + 1 \<and>
    (vc_Status vc \<noteq> ''pending'' \<longrightarrow> vc' = vc)"
proof -
  have one: ?thesis if "db' = db \<or> settled_one s i db db'" for i
    using that
  proof
    assume "settled_one s i db db'"
    then obtain x x' es where x: "ChallengeByID i db = Some x" "settles s x x' es"
      "challenges db' = put_row vc_ID x' (challenges db)" by (auto simp: settled_one_def)
    have mem: "x \<in> set (challenges db)" using x(1) find_SomeD unfolding ChallengeByID_def by fast
    note id = settlesD(3) [OF x(2)]
    show ?thesis
    proof (cases "vc_ID vc = vc_ID x")
      case True
      then have "vc = x" using distinct_key_eq [OF _ assms(3) mem True] assms(2) by (simp add: challenges_ok_def)
      moreover note settlesD [OF x(2)]
      moreover have "x' \<in> set (challenges db')" unfolding x(3) by (rule in_put_row_new [OF mem id [symmetric]])
      ultimately show ?thesis using id by (intro bexI [of _ x']) auto
    next
      case False
      with id in_put_row_other [OF assms(3), of vc_ID x'] show ?thesis by (intro bexI [of _ vc]) (auto simp: x(3))
    qed
  qed (use assms(3) in auto)
  from assms(1) show ?thesis
  proof (cases rule: challenge_step.cases)
    case (create now d userID sourceService sourceID meth deviceID res)
    from create show ?thesis
      by (cases rule: CreateChallengeE) (use assms(3) in auto)
  next
    case (expire now)
    let ?p = "\<lambda>vc. vc_Status vc = ''pending'' \<and> vc_ExpiresAt vc < now"
    have "(if ?p vc then vc\<lparr>vc_Status := ''expired''\<rparr> else vc) \<in> set (challenges db')"
      using assms(3) by (auto simp: expire ExpireOldChallenges_def ExpireOld_def Let_def upd_rows_def)
    then show ?thesis by (rule bexI [rotated]) auto
  next
    case submit
    show ?thesis by (rule one) (rule SubmitVerification_step [OF submit])
  next
    case code
    show ?thesis by (rule one) (rule SubmitCode_step [OF code])
  next
    case biometric
    show ?thesis by (rule one) (rule VerifyByBiometric_step [OF biometric])
  qed
qed

theorem challenge_moves_forward_witness:
  "\<exists>vc' \<in> set (challenges (snd (SubmitCode demo_verification 30 1 ''999999'' demo_verified))). vc_Status vc' = ''verified''"
proof -
  obtain vc where vc: "challenges demo_verified = [vc]" "vc_ID vc = 1" "vc_Status vc = ''verified''"
    using demo_verified_row by (auto simp: map_eq_Cons_conv)
  have "challenges_ok demo_verification demo_verified"
    using demo_verified_reached
    by (induction rule: rtranclp_induct)
      (auto intro: no_challenges_ok challenge_step_keeps simp: demo_verification_def)
  from challenge_moves_forward [OF challenge_step.code [OF surjective_pairing] this, of vc] vc show ?thesis by auto
qed

section \<open>The number-match options\<close>

declare draw_decoys.simps [simp del]

lemma draw_decoys_result:
  assumes "draw_decoys decoys ds = Some out" "distinct decoys" "length decoys \<le> 5"
  shows "distinct out \<and> length out = 5 \<and> set decoys \<subseteq> set out \<and> set out \<subseteq> set decoys \<union> Suc ` set ds"
  using assms
proof (induction decoys ds rule: draw_decoys.induct)
  case (1 decoys ds)
  show ?case
  proof (cases "5 \<le> length decoys")
    case True
    with 1 show ?thesis by (subst (asm) draw_decoys.simps) auto
  next
    case False
    with 1(2) obtain d ds' where ds: "ds = d # ds'"
      "draw_decoys (if Suc d \<in> set decoys then decoys else decoys @ [Suc d]) ds' = Some out"
      by (subst (asm) draw_decoys.simps) (auto split: list.splits)
    let ?next = "if Suc d \<in> set decoys then decoys else decoys @ [Suc d]"
    have "distinct out \<and> length out = 5 \<and> set ?next \<subseteq> set out \<and> set out \<subseteq> set ?next \<union> Suc ` set ds'"
      by (rule 1(1) [OF False ds]) (use 1(3) False in auto)
    then show ?thesis by (auto simp: ds(1) split: if_splits)
  qed
qed

lemma draw_decoys_ends:
  assumes "5 \<le> card (set decoys \<union> Suc ` set ds)" "distinct decoys"
  shows "draw_decoys decoys ds \<noteq> None"
  using assms
proof (induction decoys ds rule: draw_decoys.induct)
  case (1 decoys ds)
  show ?case
  proof (cases "5 \<le> length decoys")
    case True
    then show ?thesis by (subst draw_decoys.simps) simp
  next
    case False
    with 1(2,3) obtain d ds' where ds: "ds = d # ds'" by (cases ds) (auto simp: distinct_card)
    let ?next = "if Suc d \<in> set decoys then decoys else decoys @ [Suc d]"
    have "set ?next \<union> Suc ` set ds' = set decoys \<union> Suc ` set ds" by (auto simp: ds)
    with 1(2,3) have "draw_decoys ?next ds' \<noteq> None" by (intro 1(1) [OF False ds]) auto
    with False show ?thesis by (subst draw_decoys.simps) (simp add: ds)
  qed
qed

text \<open>The draw for index \<open>i\<close> of the shuffle is at most \<open>i\<close>.\<close>

fun swaps_ok :: "nat \<Rightarrow> nat list \<Rightarrow> bool" where
  "swaps_ok 0 js \<longleftrightarrow> True"
| "swaps_ok (Suc i) [] \<longleftrightarrow> True"
| "swaps_ok (Suc i) (j # js) \<longleftrightarrow> j \<le> Suc i \<and> swaps_ok i js"

lemma shuffle_perm: "i < length xs \<Longrightarrow> swaps_ok i js \<Longrightarrow> mset (shuffle i js xs) = mset xs"
proof (induction i js xs rule: shuffle.induct)
  case (3 i j js xs)
  then have "mset (swap (Suc i) j xs) = mset xs" by (simp add: swap_def mset_swap)
  moreover have "length (swap (Suc i) j xs) = length xs" by (simp add: swap_def)
  ultimately show ?case using 3 by auto
qed simp_all

text \<open>
  C21: The options of a number-match challenge. Once the draws contain four different values besides
  the target, the loop that collects decoys ends. Its result, after Go's unspecified map order and the
  Fisher-Yates shuffle, is five different numbers between 1 and 99, one of which is the target.
\<close>

theorem number_match_options:
  assumes draws: "dr_target d < 99" "\<And>x. x \<in> set (dr_decoys d) \<Longrightarrow> x < 99"
    and order: "\<And>xs. mset (dr_order d xs) = mset xs" and swaps: "swaps_ok 4 (dr_swaps d)"
    and enough: "4 \<le> card (set (dr_decoys d) - {dr_target d})"
  shows "\<exists>options. generateNumberMatchData d = Some (dr_target d + 1, options) \<and>
    distinct options \<and> length options = 5 \<and> set options \<subseteq> {1..99} \<and> dr_target d + 1 \<in> set options"
proof -
  let ?t = "dr_target d + 1"
  have "insert ?t (Suc ` set (dr_decoys d)) = insert ?t (Suc ` (set (dr_decoys d) - {dr_target d}))" by auto
  moreover have "card (insert ?t (Suc ` (set (dr_decoys d) - {dr_target d}))) = Suc (card (set (dr_decoys d) - {dr_target d}))"
    by (subst card_insert_disjoint) (auto simp: card_image)
  ultimately have "5 \<le> card (set [?t] \<union> Suc ` set (dr_decoys d))" using enough by simp
  from draw_decoys_ends [OF this] obtain decoys where dec: "draw_decoys [?t] (dr_decoys d) = Some decoys" by auto
  from draw_decoys_result [OF this] have decoys: "distinct decoys" "length decoys = 5" "?t \<in> set decoys"
    "set decoys \<subseteq> insert ?t (Suc ` set (dr_decoys d))" by auto
  have len: "length (dr_order d decoys) = 5" using order decoys(2) by (metis size_mset)
  let ?out = "shuffle 4 (dr_swaps d) (dr_order d decoys)"
  have perm: "mset ?out = mset decoys" using shuffle_perm [of 4 "dr_order d decoys" "dr_swaps d"] swaps order len by simp
  have out: "distinct ?out" "length ?out = 5" "set ?out = set decoys"
    using perm decoys(1,2) by (metis mset_eq_imp_distinct_iff, metis size_mset, metis set_mset_mset)
  have "set decoys \<subseteq> {1..99}" using decoys(4) draws by fastforce
  with out dec decoys(3) len show ?thesis by (simp add: generateNumberMatchData_def)
qed

theorem number_match_options_witness:
  "\<exists>options. generateNumberMatchData demo_draws = Some (7, options) \<and> distinct options \<and> length options = 5"
proof -
  have "set (dr_decoys demo_draws) - {dr_target demo_draws} = {1, 2, 3, 4}" by (auto simp: demo_draws_def)
  then have "4 \<le> card (set (dr_decoys demo_draws) - {dr_target demo_draws})" by simp
  from number_match_options [OF _ _ _ _ this] show ?thesis by (auto simp: demo_draws_def numeral_eq_Suc)
qed

end
