(* ===== verification/Saga_Safety.thy ===== *)
theory Saga_Safety
  imports Saga "HOL-Library.Sublist"
begin

text \<open>
  What the saga executor guarantees. The first section is about the retry helper, the second about
  the walk of a rollback, the third states the contract of compensable steps as a locale and
  derives from it that a run which fails without getting stuck leaves the tracked quantities as
  they were.
\<close>

section \<open>Retries\<close>

lemma retry_loop_rule:
  assumes fail: "\<And>e err e'. P (fst e) \<Longrightarrow> fn e = (Inl err, e') \<Longrightarrow> P (fst e')"
    and good: "\<And>e e'. P (fst e) \<Longrightarrow> fn e = (Inr (), e') \<Longrightarrow> Q (fst e')"
  shows "P (fst e) \<Longrightarrow> n > 0 \<or> lastErr \<noteq> Inr () \<Longrightarrow> retry_loop ctx n fn lastErr e = (res, e') \<Longrightarrow>
     (case res of Inl _ \<Rightarrow> P (fst e') | Inr _ \<Rightarrow> Q (fst e'))"
proof (induction n arbitrary: lastErr e)
  case 0
  then show ?case by (auto split: sum.splits)
next
  case (Suc n)
  obtain c e1 where c: "ctx_Err ctx e = (c, e1)" and e1: "fst e1 = fst e"
    by (cases e) (simp add: ctx_Err_def)
  show ?case
  proof (cases c)
    case (Some err)
    with Suc.prems c e1 show ?thesis by auto
  next
    case None
    obtain r e2 where r: "fn e1 = (r, e2)" by (cases "fn e1")
    show ?thesis
    proof (cases r)
      case (Inr u)
      with Suc.prems c None r e1 good [of e1 e2] show ?thesis by auto
    next
      case (Inl err)
      with r e1 Suc.prems(1) have p2: "P (fst e2)" using fail [of e1 err e2] by simp
      obtain c' e3 where c': "ctx_Err ctx e2 = (c', e3)" and e3: "fst e3 = fst e2"
        by (cases e2) (simp add: ctx_Err_def)
      show ?thesis
      proof (cases "n > 0 \<and> c' = None")
        case True
        with Suc.prems(3) c None r Inl c' have "retry_loop ctx n fn (Inl err) e3 = (res, e')" by simp
        with Suc.IH [of e3 "Inl err"] p2 e3 show ?thesis by simp
      next
        case False
        with Suc.prems(3) c None r Inl c' p2 e3 show ?thesis by (auto split: if_splits)
      qed
    qed
  qed
qed

lemma Retry_rule:
  assumes "\<And>e err e'. P (fst e) \<Longrightarrow> fn e = (Inl err, e') \<Longrightarrow> P (fst e')"
    and "\<And>e e'. P (fst e) \<Longrightarrow> fn e = (Inr (), e') \<Longrightarrow> Q (fst e')"
    and "P (fst e)" "MaxAttempts cfg > 0" "Retry ctx cfg fn e = (res, e')"
  shows "case res of Inl _ \<Rightarrow> P (fst e') | Inr _ \<Rightarrow> Q (fst e')"
  using retry_loop_rule [of P fn Q e "nat (MaxAttempts cfg)" "Inr ()" ctx res e'] assms
  by (simp add: Retry_def)

definition on_world :: "('s \<Rightarrow> unit result \<times> 's) \<Rightarrow> 's env \<Rightarrow> unit result \<times> 's env" where
  "on_world f = (\<lambda>(w, n). (fst (f w), (snd (f w), n)))"

text \<open>The world after \<open>k\<close> calls.\<close>

fun calls :: "('s \<Rightarrow> unit result \<times> 's) \<Rightarrow> nat \<Rightarrow> 's \<Rightarrow> 's" where
  "calls f 0 w = w"
| "calls f (Suc k) w = calls f k (snd (f w))"

lemma retry_loop_fails:
  assumes "\<And>i. i \<le> n \<Longrightarrow> \<exists>err. fst (f (calls f i w)) = Inl err"
  shows "\<exists>k. retry_loop (\<lambda>_. None) (Suc n) (on_world f) lastErr (w, m) =
     (fst (f (calls f n w)), (calls f (Suc n) w, k))"
  using assms
proof (induction n arbitrary: w m lastErr)
  case 0
  from "0.prems" [of 0] show ?case
    by (auto simp: ctx_Err_def on_world_def One_nat_def)
next
  case (Suc n)
  from Suc.prems [of 0] obtain err where e: "fst (f w) = Inl err" by auto
  have "\<exists>err. fst (f (calls f i (snd (f w)))) = Inl err" if "i \<le> n" for i
    using Suc.prems [of "Suc i"] that by simp
  from Suc.IH [OF this, of "Inl err" "Suc (Suc m)"] obtain k where
    "retry_loop (\<lambda>_. None) (Suc n) (on_world f) (Inl err) (snd (f w), Suc (Suc m)) =
     (fst (f (calls f n (snd (f w)))), (calls f (Suc n) (snd (f w)), k))" by auto
  with e show ?case
    by (subst retry_loop.simps) (simp add: ctx_Err_def on_world_def del: retry_loop.simps)
qed

lemma retry_loop_succeeds:
  assumes "\<And>i. i < k \<Longrightarrow> \<exists>err. fst (f (calls f i w)) = Inl err"
    and "fst (f (calls f k w)) = Inr ()" "k < n"
  shows "\<exists>m'. retry_loop (\<lambda>_. None) n (on_world f) lastErr (w, m) =
     (Inr (), (calls f (Suc k) w, m'))"
  using assms
proof (induction k arbitrary: w m n lastErr)
  case 0
  then show ?case by (cases n) (auto simp: ctx_Err_def on_world_def)
next
  case (Suc k)
  then obtain n' where n: "n = Suc n'" "k < n'" by (cases n) auto
  from Suc.prems(1) [of 0] obtain err where e: "fst (f w) = Inl err" by auto
  have "\<exists>err. fst (f (calls f i (snd (f w)))) = Inl err" if "i < k" for i
    using Suc.prems(1) [of "Suc i"] that by simp
  moreover have "fst (f (calls f k (snd (f w)))) = Inr ()"
    using Suc.prems(2) by simp
  ultimately obtain m' where
    "retry_loop (\<lambda>_. None) n' (on_world f) (Inl err) (snd (f w), Suc (Suc m)) =
     (Inr (), (calls f (Suc k) (snd (f w)), m'))"
    using Suc.IH [of "snd (f w)" n' "Inl err" "Suc (Suc m)"] n(2) by blast
  with e n show ?case
    by (auto simp add: ctx_Err_def on_world_def)
qed

text \<open>
  C29: \<^verbatim>\<open>Retry\<close> on a context that is never cancelled stops at the first success: when the call fails
  \<open>k\<close> times, \<open>k < MaxAttempts\<close>, and then succeeds, \<^verbatim>\<open>Retry\<close> returns nil and the world is the one after
  exactly \<open>k + 1\<close> calls. When the first \<open>MaxAttempts\<close> calls all fail, it returns the error of the last
  of them, after exactly \<open>MaxAttempts\<close> calls.
\<close>

theorem retry_counts_attempts:
  assumes pos: "MaxAttempts cfg > 0"
    and fails: "\<And>i. i < k \<Longrightarrow> \<exists>err. fst (f (calls f i w)) = Inl err"
  shows "(int k < MaxAttempts cfg \<and> fst (f (calls f k w)) = Inr () \<longrightarrow>
      (\<exists>n'. Retry (\<lambda>_. None) cfg (on_world f) (w, n) = (Inr (), (calls f (Suc k) w, n')))) \<and>
    (int k = MaxAttempts cfg \<longrightarrow>
      (\<exists>n'. Retry (\<lambda>_. None) cfg (on_world f) (w, n) =
         (fst (f (calls f (k - 1) w)), (calls f k w, n'))))"
proof (intro conjI impI)
  assume "int k < MaxAttempts cfg \<and> fst (f (calls f k w)) = Inr ()"
  then show "\<exists>n'. Retry (\<lambda>_. None) cfg (on_world f) (w, n) = (Inr (), (calls f (Suc k) w, n'))"
    using retry_loop_succeeds [of k f w "nat (MaxAttempts cfg)" "Inr ()" n, OF fails]
    by (auto simp: Retry_def)
next
  assume "int k = MaxAttempts cfg"
  with pos obtain m where m: "nat (MaxAttempts cfg) = Suc m" "k = Suc m"
    by (metis gr0_conv_Suc nat_int of_nat_0_less_iff)
  show "\<exists>n'. Retry (\<lambda>_. None) cfg (on_world f) (w, n) =
       (fst (f (calls f (k - 1) w)), (calls f k w, n'))"
    using retry_loop_fails [of m f w "Inr ()" n] fails m by (auto simp: Retry_def)
qed

definition flaky :: "nat \<Rightarrow> unit result \<times> nat" where
  "flaky c = (if c < 2 then (Inl (Plain ''down''), Suc c) else (Inr (), Suc c))"

theorem retry_counts_attempts_witness:
  "\<exists>n'. Retry (\<lambda>_. None) DefaultRetryConfig (on_world flaky) (0, 0) = (Inr (), (3, n'))"
proof -
  have "\<exists>err. fst (flaky (calls flaky i 0)) = Inl err" if "i < 2" for i
    using that by (cases i) (auto simp: flaky_def One_nat_def)
  from retry_counts_attempts [of DefaultRetryConfig 2 flaky 0 0, OF _ this]
  show ?thesis by (simp add: DefaultRetryConfig_def flaky_def numeral_2_eq_2 numeral_3_eq_3)
qed

section \<open>Rolling back\<close>

lemma emit_simps [simp]:
  "rn_env (emit ev rn) = rn_env rn" "rn_rec (emit ev rn) = rn_rec rn"
  "rn_events (emit ev rn) = rn_events rn @ [ev]"
  by (simp_all add: emit_def)

text \<open>The steps a rollback has to undo, in the order it undoes them.\<close>

definition rollback_plan :: "('v, 'w) completed_step list \<Rightarrow> ('v, 'w) completed_step list" where
  "rollback_plan ds =
     filter (\<lambda>d. \<not> Option.is_none (st_Backward (cs_step d)))
       (takeWhile (\<lambda>d. \<not> st_Pivot (cs_step d)) (rev ds))"

abbreviation cs_name :: "('v, 'w) completed_step \<Rightarrow> string" where
  "cs_name d \<equiv> st_Name (cs_step d)"

lemma rollback_walkE:
  assumes "rollback_walk s ctx (d # ds) (c, k, rn) = out"
  obtains (pivot) "st_Pivot (cs_step d)" "out = (c, k, rn)"
  | (skip) "\<not> st_Pivot (cs_step d)" "Option.is_none (st_Backward (cs_step d))"
      "rollback_walk s ctx ds (c, k, rn) = out"
  | (unrecorded) r1 where "\<not> st_Pivot (cs_step d)" "\<not> Option.is_none (st_Backward (cs_step d))"
      "rollback_walk s ctx ds (c, True, rn\<lparr>rn_rec := r1\<rparr>) = out"
  | (failed) err e1 r2 where "\<not> st_Pivot (cs_step d)" "\<not> Option.is_none (st_Backward (cs_step d))"
      "runBackward s ctx (cs_step d) (rn_env rn) = (Inl err, e1)"
      "rollback_walk s ctx ds (c, True, rn\<lparr>rn_rec := r2, rn_env := e1\<rparr>) = out"
  | (undone) e1 r2 where "\<not> st_Pivot (cs_step d)" "\<not> Option.is_none (st_Backward (cs_step d))"
      "runBackward s ctx (cs_step d) (rn_env rn) = (Inr (), e1)"
      "rollback_walk s ctx ds (c @ [cs_name d], k, rn\<lparr>rn_rec := r2, rn_env := e1\<rparr>) = out"
proof -
  obtain rc r1 where rc: "RecordCompensation (sg_recorder s) (sg_id s) (st_Name (cs_step d))
      (- int (cs_number d)) (cs_handle d) (run_state rn) (rn_rec rn) = (rc, r1)" by (rule prod.exhaust)
  obtain b e1 where b: "runBackward s ctx (cs_step d) (rn_env rn) = (b, e1)" by (rule prod.exhaust)
  show thesis
  proof (cases "st_Pivot (cs_step d) \<or> Option.is_none (st_Backward (cs_step d))")
    case True
    with assms pivot skip show thesis by (cases "st_Pivot (cs_step d)") auto
  next
    case False
    then have g: "\<not> st_Pivot (cs_step d)" "\<not> Option.is_none (st_Backward (cs_step d))" by auto
    with assms rc b show thesis
      by (cases rc; cases b) (auto intro: unrecorded [OF g] failed [OF g] undone [OF g] simp: b)
  qed
qed

lemma rollback_walk_plan:
  assumes "rollback_walk s ctx (rev ds) (c, k, rn) = (c', k', rn')"
  shows "\<exists>names. c' = c @ names \<and> subseq names (map cs_name (rollback_plan ds)) \<and>
     (k' \<longleftrightarrow> k \<or> names \<noteq> map cs_name (rollback_plan ds)) \<and> rn_events rn' = rn_events rn"
  using assms
proof (induction "rev ds" arbitrary: ds c k rn)
  case Nil
  then show ?case by (auto simp: rollback_plan_def)
next
  case (Cons d xs)
  define es where "es = rev xs"
  have ds: "rev ds = d # rev es" "xs = rev es" using Cons.hyps(2) by (simp_all add: es_def)
  note IH = Cons.hyps(1) [OF ds(2)]
  have plan: "rollback_plan ds = (if st_Pivot (cs_step d) then []
     else if Option.is_none (st_Backward (cs_step d)) then rollback_plan es else d # rollback_plan es)"
    by (simp add: rollback_plan_def ds(1))
  have short: "names \<noteq> x # map cs_name (rollback_plan es)"
    if "subseq names (map cs_name (rollback_plan es))" for names x
    using list_emb_length [OF that] by auto
  from Cons.prems ds(1) have "rollback_walk s ctx (d # rev es) (c, k, rn) = (c', k', rn')" by simp
  then show ?case
  proof (cases rule: rollback_walkE)
    case pivot
    then show ?thesis by (simp add: plan)
  next
    case skip
    with IH plan show ?thesis by simp
  next
    case (unrecorded r1)
    from IH [OF unrecorded(3)] unrecorded(1,2) plan short show ?thesis by auto
  next
    case (failed err e1 r2)
    from IH [OF failed(4)] failed(1,2) plan short show ?thesis by auto
  next
    case (undone e1 r2)
    from IH [OF undone(4)] obtain names where
      "c' = (c @ [cs_name d]) @ names" "subseq names (map cs_name (rollback_plan es))"
      "k' \<longleftrightarrow> k \<or> names \<noteq> map cs_name (rollback_plan es)" "rn_events rn' = rn_events rn" by auto
    with undone(1,2) plan show ?thesis by (intro exI [of _ "cs_name d # names"]) auto
  qed
qed

lemma walk_stays_stuck: "rollback_walk s ctx ds (c, True, rn) = (c', k', rn') \<Longrightarrow> k'"
  using rollback_walk_plan [of s ctx "rev ds" c True rn c' k' rn'] by auto

lemma rollback_follows_plan_aux:
  assumes "rollback s ctx ds rn = (compensated, stuck, rn')"
  shows "subseq compensated (map cs_name (rollback_plan ds)) \<and>
    (stuck \<longleftrightarrow> compensated \<noteq> map cs_name (rollback_plan ds)) \<and>
    rn_events rn' = rn_events rn @
      (if stuck then [OnStuck (sg_id s) [] ''compensation incomplete; recovery required''] else [])"
proof -
  obtain rn1 where w: "rollback_walk s ctx (rev ds) ([], False, rn) = (compensated, stuck, rn1)"
    and rn': "rn' = (if stuck then emit (OnStuck (sg_id s) [] ''compensation incomplete; recovery required'') rn1
           else rn1)"
    using assms by (auto simp: rollback_def split: prod.splits)
  from rollback_walk_plan [OF w] rn' show ?thesis by auto
qed


definition demo_step :: "string \<Rightarrow> int \<Rightarrow> bool \<Rightarrow> ('v, int) step" where
  "demo_step n x fails =
     \<lparr>st_Name = n,
      st_Forward = Some (\<lambda>_ ((st, w), k). if fails then (Inl (Plain n), ((st, w), k)) else (Inr (), ((st, w + x), k))),
      st_Backward = Some (\<lambda>_ ((st, w), k). (Inr (), ((st, w - x), k))),
      st_Pivot = False\<rparr>"

definition demo_saga :: "(unit, unit, int) saga" where
  "demo_saga = Add (demo_step ''b'' 7 False) (Add (demo_step ''a'' 5 False) (NewSagaWithID ''s'' None))"

definition demo_done :: "(unit, int) completed_step list" where
  "demo_done = [\<lparr>cs_step = demo_step ''a'' 5 False, cs_handle = zero_handle, cs_number = 1\<rparr>,
                \<lparr>cs_step = demo_step ''b'' 7 False, cs_handle = zero_handle, cs_number = 2\<rparr>]"

definition demo_run :: "int \<Rightarrow> (unit, unit, int) run" where
  "demo_run w = \<lparr>rn_rec = (), rn_events = [], rn_env = ((NewState, w), 0)\<rparr>"

lemmas demo_defs = demo_step_def demo_saga_def demo_done_def demo_run_def Add_def NewSagaWithID_def
  NoopRecorder_def zero_handle_def NewState_def


lemma step_loopE:
  assumes "step_loop s ctx i (st # sts) ds rn = out"
  obtains (stop) err rn1 where "fst (rn_env rn1) = fst (rn_env rn)" "abort s ctx st err ds rn1 = out"
      "rn_events rn1 = rn_events rn"
      "rn_rec rn1 = rn_rec rn \<or> (\<exists>err. RecordForward (sg_recorder s) (sg_id s) (st_Name st) (int (Suc i))
         (fst (fst (rn_env rn1))) (rn_rec rn) = (Inl err, rn_rec rn1))"
  | (skip) e0 where "IsCompleted (sg_recorder s) (sg_id s) (st_Name st) (rn_rec rn) = Inr True"
      "fst e0 = fst (rn_env rn)" "step_loop s ctx (Suc i) sts ds (rn\<lparr>rn_env := e0\<rparr>) = out"
  | (failed) e0 err rn1 where "fst e0 = fst (rn_env rn)"
      "runForward s ctx st e0 = (Inl err, rn_env rn1)" "abort s ctx st err ds rn1 = out"
      "rn_events rn1 = rn_events rn"
      "\<exists>h r1. RecordForward (sg_recorder s) (sg_id s) (st_Name st) (int (Suc i)) (fst (fst e0)) (rn_rec rn) =
         (Inr h, r1) \<and> rn_rec rn1 = snd (MarkFailed (sg_recorder s) h err r1)"
  | (applied) e0 e1 h r1 where "fst e0 = fst (rn_env rn)"
      "RecordForward (sg_recorder s) (sg_id s) (st_Name st) (int (Suc i)) (fst (fst e0)) (rn_rec rn) = (Inr h, r1)"
      "runForward s ctx st e0 = (Inr (), e1)"
      "step_loop s ctx (Suc i) sts (ds @ [\<lparr>cs_step = st, cs_handle = h, cs_number = Suc i\<rparr>])
         (rn\<lparr>rn_env := e1, rn_rec := snd (MarkCompleted (sg_recorder s) h r1)\<rparr>) = out"
proof -
  obtain co e0 where co: "ctx_Err ctx (rn_env rn) = (co, e0)" and e0: "fst e0 = fst (rn_env rn)"
    by (cases "rn_env rn") (simp add: ctx_Err_def)
  obtain rf r1 where rf: "RecordForward (sg_recorder s) (sg_id s) (st_Name st) (int (Suc i))
      (fst (fst e0)) (rn_rec rn) = (rf, r1)" by (rule prod.exhaust)
  obtain ff e1 where ff: "runForward s ctx st e0 = (ff, e1)" by (rule prod.exhaust)
  show thesis
  proof (cases co)
    case (Some er)
    with assms co e0 show thesis by (intro stop [of "rn\<lparr>rn_env := e0\<rparr>" er]) simp_all
  next
    case None
    note co = co [unfolded None]
    show thesis
    proof (cases "IsCompleted (sg_recorder s) (sg_id s) (st_Name st) (rn_rec rn) = Inr True")
      case True
      with assms co show thesis by (intro skip [OF True e0]) simp
    next
      case False
      show thesis
      proof (cases rf)
        case (Inl er)
        with assms co False rf e0 show thesis
          by (intro stop [of "rn\<lparr>rn_env := e0, rn_rec := r1\<rparr>" er]) simp_all
      next
        case (Inr h)
        note rf = rf [unfolded Inr]
        show thesis
        proof (cases ff)
          case (Inl er)
          with assms co False rf ff show thesis
            by (intro failed [OF e0, of er
              "rn\<lparr>rn_env := e1, rn_rec := snd (MarkFailed (sg_recorder s) h er r1)\<rparr>"]) simp_all
        next
          case (Inr u)
          with assms co False rf ff show thesis by (intro applied [OF e0 rf]) simp_all
        qed
      qed
    qed
  qed
qed

section \<open>Invariants of the world\<close>

text \<open>What every closure of a saga keeps, the whole run keeps.\<close>

lemma call_step_keeps:
  assumes f: "\<And>e. P (snd (fst e)) \<Longrightarrow> P (snd (fst (snd (f ctx e))))" and P: "P (snd (fst e))"
  shows "P (snd (fst (snd (call_step s ctx f e))))"
proof (cases "MaxAttempts (sg_retry s) > 0")
  case True
  obtain r e' where r: "Retry ctx (sg_retry s) (f ctx) e = (r, e')" by (rule prod.exhaust)
  have "case r of Inl _ \<Rightarrow> P (snd (fst e')) | Inr _ \<Rightarrow> P (snd (fst e'))"
    by (rule Retry_rule [where P = "\<lambda>x. P (snd x)" and Q = "\<lambda>x. P (snd x)", OF _ _ P True r]) (metis f snd_conv)+
  with r True show ?thesis by (cases r) (simp_all add: call_step_def)
next
  case False
  with f [OF P] show ?thesis by (simp add: call_step_def)
qed

definition step_keeps :: "('w \<Rightarrow> bool) \<Rightarrow> ctx \<Rightarrow> ('v, 'w) step \<Rightarrow> bool" where
  "step_keeps P ctx st \<longleftrightarrow>
     (\<forall>f e. st_Forward st = Some f \<or> st_Backward st = Some f \<longrightarrow> P (snd (fst e)) \<longrightarrow> P (snd (fst (snd (f ctx e)))))"

lemma run_step_keeps:
  assumes "step_keeps P ctx st" "P (snd (fst e))"
  shows "P (snd (fst (snd (runForward s ctx st e))))" "P (snd (fst (snd (runBackward s ctx st e))))"
  using assms by (auto simp: runForward_def runBackward_def step_keeps_def intro: call_step_keeps split: option.splits)

lemma walk_keeps:
  assumes "\<And>d. d \<in> set ds \<Longrightarrow> step_keeps P ctx (cs_step d)" "P (run_world rn)"
    and "rollback_walk s ctx ds (c, k, rn) = (c', k', rn')"
  shows "P (run_world rn')"
  using assms
proof (induction ds arbitrary: c k rn)
  case (Cons d ds)
  have ds: "step_keeps P ctx (cs_step x)" if "x \<in> set ds" for x using Cons.prems(1) that by simp
  note IH = Cons.IH [OF ds]
  have undo1: "P (snd (fst (snd (runBackward s ctx (cs_step d) (rn_env rn)))))"
    using run_step_keeps(2) [of P ctx "cs_step d" "rn_env rn" s] Cons.prems(1,2) by simp
  from Cons.prems(3) show ?case
  proof (cases rule: rollback_walkE)
    case pivot
    with Cons.prems(2) show ?thesis by simp
  next
    case skip
    from IH [OF _ _ skip(3)] Cons.prems(2) show ?thesis by simp
  next
    case (unrecorded r1)
    from IH [OF _ _ unrecorded(3)] Cons.prems(2) show ?thesis by simp
  next
    case (failed err e1 r2)
    from IH [OF _ _ failed(4)] undo1 failed(3) show ?thesis by simp
  next
    case (undone e1 r2)
    from IH [OF _ _ undone(4)] undo1 undone(3) show ?thesis by simp
  qed
qed simp

lemma abort_keeps:
  assumes "\<And>d. d \<in> set ds \<Longrightarrow> step_keeps P ctx (cs_step d)" "P (run_world rn)"
    and "abort s ctx st err ds rn = (res, rn')"
  shows "P (run_world rn')"
proof -
  obtain c k rn1 where w: "rollback_walk s ctx (rev ds) ([], False, rn) = (c, k, rn1)" by (metis prod_cases3)
  from walk_keeps [of "rev ds" P ctx rn, OF _ assms(2) w] assms(1) have "P (run_world rn1)" by simp
  with w assms(3) show ?thesis by (auto simp: abort_def rollback_def split: if_splits)
qed

lemma loop_keeps:
  assumes "\<And>st. st \<in> set sts \<union> cs_step ` set ds \<Longrightarrow> step_keeps P ctx st" "P (run_world rn)"
    and "step_loop s ctx i sts ds rn = (res, rn')"
  shows "P (run_world rn')"
  using assms
proof (induction sts arbitrary: i ds rn)
  case (Cons st sts)
  have ds: "step_keeps P ctx (cs_step d)" if "d \<in> set ds" for d using Cons.prems(1) that by simp
  from Cons.prems(3) show ?case
  proof (cases rule: step_loopE)
    case (stop err rn1)
    from abort_keeps [of ds P ctx rn1, OF ds _ stop(2)] stop(1) Cons.prems(2) show ?thesis by simp
  next
    case (skip e0)
    from Cons.IH [OF _ _ skip(3)] Cons.prems(1,2) skip(2) show ?thesis by simp
  next
    case (failed e0 err rn1)
    from run_step_keeps(1) [of P ctx st e0 s] Cons.prems(1,2) failed(1,2) have "P (run_world rn1)" by simp
    from abort_keeps [of ds P ctx rn1, OF ds this failed(3)] show ?thesis .
  next
    case (applied e0 e1 h r1)
    from run_step_keeps(1) [of P ctx st e0 s] Cons.prems(1,2) applied(1,3) have "P (snd (fst e1))" by simp
    with Cons.IH [OF _ _ applied(4)] Cons.prems(1) show ?thesis by auto
  qed
qed auto

lemma execute_keeps:
  assumes "\<And>st. st \<in> set (sg_steps s) \<Longrightarrow> step_keeps P ctx st" "P (run_world rn)" "Execute s ctx rn = (res, rn')"
  shows "P (run_world rn')"
  using loop_keeps [of "sg_steps s" "[]" P ctx "emit (OnStarted (sg_id s)) rn" s 0 res rn'] assms
  by (auto simp: Execute_def split: if_splits)

section \<open>Compensable steps\<close>

text \<open>
  \<open>moved inv0 unused q K d w w'\<close>: the world went from \<open>w\<close> to \<open>w'\<close>, still satisfies \<open>inv0\<close>, the tracked
  quantities changed by \<open>d\<close> and no idempotency key outside \<open>K\<close> was spent.
\<close>

definition moved ::
  "('w \<Rightarrow> bool) \<Rightarrow> (string \<Rightarrow> 'w \<Rightarrow> bool) \<Rightarrow> ('w \<Rightarrow> 'a \<Rightarrow> rat) \<Rightarrow> string set \<Rightarrow> ('a \<Rightarrow> rat) \<Rightarrow>
     'w \<Rightarrow> 'w \<Rightarrow> bool" where
  "moved inv0 unused q K d w w' \<longleftrightarrow>
     inv0 w' \<and> (\<forall>a. q w' a = q w a + d a) \<and> (\<forall>k. k \<notin> K \<longrightarrow> unused k w' = unused k w)"

lemma moved_trans:
  "moved inv0 unused q K d w w1 \<Longrightarrow> moved inv0 unused q L e w1 w2 \<Longrightarrow> K \<union> L \<subseteq> M \<Longrightarrow>
   (\<And>a. d a + e a = f a) \<Longrightarrow> moved inv0 unused q M f w w2"
  unfolding moved_def by (metis (no_types) Un_iff add.assoc subset_iff)

lemma moved_refl: "inv0 w \<Longrightarrow> moved inv0 unused q K (\<lambda>_. 0) w w"
  by (simp add: moved_def)

lemma moved_inv: "moved inv0 unused q K d w w' \<Longrightarrow> inv0 w'"
  by (simp add: moved_def)

lemma moved_unused: "moved inv0 unused q K d w w' \<Longrightarrow> k \<notin> K \<Longrightarrow> unused k w' = unused k w"
  by (simp add: moved_def)

lemma moved_amount: "moved inv0 unused q K d w w' \<Longrightarrow> q w' a = q w a + d a"
  by (simp add: moved_def)

definition net_effect ::
  "bool \<Rightarrow> ('w \<Rightarrow> 'a \<Rightarrow> rat) \<Rightarrow> ('p \<Rightarrow> 'a \<Rightarrow> rat) \<Rightarrow> ('p \<Rightarrow> 'a \<Rightarrow> rat) \<Rightarrow> 'p list \<Rightarrow> 'p list \<Rightarrow> 'w \<Rightarrow> 'w \<Rightarrow> bool" where
  "net_effect stuck q delta undo qs ps w w' \<longleftrightarrow>
     (\<exists>fs us. subseq fs ps \<and> subseq us (rev (qs @ fs)) \<and> (us = rev (qs @ fs) \<or> stuck) \<and>
        (\<forall>a. q w' a = q w a + tsum (\<lambda>p. delta p a) fs + tsum (\<lambda>p. undo p a) us))"

lemma net_effect_skip: "net_effect stuck q delta undo qs ps w w' \<Longrightarrow> net_effect stuck q delta undo qs (p # ps) w w'"
  unfolding net_effect_def using list_emb_Cons by fast

lemma net_effect_step:
  assumes "net_effect stuck q delta undo (qs @ [p]) ps w1 w'" "\<And>a. q w1 a = q w a + delta p a"
  shows "net_effect stuck q delta undo qs (p # ps) w w'"
proof -
  from assms(1) obtain fs us where "subseq fs ps" "subseq us (rev ((qs @ [p]) @ fs))"
    "us = rev ((qs @ [p]) @ fs) \<or> stuck"
    "\<forall>a. q w' a = q w1 a + tsum (\<lambda>p. delta p a) fs + tsum (\<lambda>p. undo p a) us"
    unfolding net_effect_def by blast
  with assms(2) show ?thesis unfolding net_effect_def
    by (intro exI [of _ "p # fs"] exI [of _ us]) auto
qed

lemma net_effect_clean:
  assumes "net_effect False q delta undo [] ps w w'" "\<And>p a. p \<in> set ps \<Longrightarrow> undo p a = - delta p a"
  shows "q w' = q w"
proof -
  from assms(1) obtain fs where fs: "subseq fs ps"
    "\<forall>a. q w' a = q w a + tsum (\<lambda>p. delta p a) fs + tsum (\<lambda>p. undo p a) (rev fs)"
    unfolding net_effect_def by auto
  from fs(1) have "set fs \<subseteq> set ps" by (metis notin_set_nthsI subseq_conv_nths subsetI)
  with assms(2) have "tsum (\<lambda>p. undo p a) fs = - tsum (\<lambda>p. delta p a) fs" for a
    by (induction fs) auto
  with fs(2) show ?thesis by (intro ext) (simp add: rev_map [symmetric])
qed

text \<open>
  The contract of a family of saga steps \<open>mk p\<close>: a forward call that returns nil under a key not
  spent before applies \<open>delta p\<close>, its compensation under its own key applies \<open>undo p\<close>, and a call that
  returns an error changes nothing.
\<close>

locale compensable =
  fixes mk :: "'p \<Rightarrow> ('v, 'w) step"
    and inv0 :: "'w \<Rightarrow> bool"
    and unused :: "string \<Rightarrow> 'w \<Rightarrow> bool"
    and q :: "'w \<Rightarrow> 'a \<Rightarrow> rat"
    and delta :: "'p \<Rightarrow> 'a \<Rightarrow> rat"
    and undo :: "'p \<Rightarrow> 'a \<Rightarrow> rat"
    and fkey :: "'p \<Rightarrow> string"
    and bkey :: "'p \<Rightarrow> string"
  assumes no_pivot: "\<not> st_Pivot (mk p)"
    and has_forward: "st_Forward (mk p) \<noteq> None"
    and has_backward: "st_Backward (mk p) \<noteq> None"
    and forward_fails: "st_Forward (mk p) = Some f \<Longrightarrow> inv0 w \<Longrightarrow>
      f ctx ((st, w), n) = (Inl err, ((st', w'), n')) \<Longrightarrow> moved inv0 unused q {} (\<lambda>_. 0) w w'"
    and forward_applies: "st_Forward (mk p) = Some f \<Longrightarrow> inv0 w \<Longrightarrow> unused (fkey p) w \<Longrightarrow>
      f ctx ((st, w), n) = (Inr (), ((st', w'), n')) \<Longrightarrow> moved inv0 unused q {fkey p} (delta p) w w'"
    and backward_fails: "st_Backward (mk p) = Some f \<Longrightarrow> inv0 w \<Longrightarrow>
      f ctx ((st, w), n) = (Inl err, ((st', w'), n')) \<Longrightarrow> moved inv0 unused q {} (\<lambda>_. 0) w w'"
    and backward_undoes: "st_Backward (mk p) = Some f \<Longrightarrow> inv0 w \<Longrightarrow> unused (bkey p) w \<Longrightarrow>
      f ctx ((st, w), n) = (Inr (), ((st', w'), n')) \<Longrightarrow>
      moved inv0 unused q {bkey p} (undo p) w w'"
begin

lemma call_moves:
  fixes f :: "('v, 'w) step_fn"
  assumes w: "inv0 (snd (fst e))" "unused k (snd (fst e))"
    and fail: "\<And>ctx st w n err st' w' n'. inv0 w \<Longrightarrow> f ctx ((st, w), n) = (Inl err, ((st', w'), n')) \<Longrightarrow>
      moved inv0 unused q {} (\<lambda>_. 0) w w'"
    and good: "\<And>ctx st w n st' w' n'. inv0 w \<Longrightarrow> unused k w \<Longrightarrow>
      f ctx ((st, w), n) = (Inr (), ((st', w'), n')) \<Longrightarrow> moved inv0 unused q {k} d w w'"
    and run: "call_step s ctx f e = (res, e')"
  shows "case res of Inl _ \<Rightarrow> moved inv0 unused q {} (\<lambda>_. 0) (snd (fst e)) (snd (fst e'))
                   | Inr _ \<Rightarrow> moved inv0 unused q {k} d (snd (fst e)) (snd (fst e'))"
proof -
  define P where "P x = moved inv0 unused q {} (\<lambda>_. 0) (snd (fst e)) (snd x)" for x :: "'v saga_state \<times> 'w"
  define Q where "Q x = moved inv0 unused q {k} d (snd (fst e)) (snd x)" for x :: "'v saga_state \<times> 'w"
  have P0: "P (fst e)" using w by (simp add: P_def moved_refl)
  have step_fail: "P (fst e2)" if "P (fst e1)" "f ctx e1 = (Inl err, e2)" for e1 err e2
  proof -
    obtain st1 w1 n1 st2 w2 n2 where e: "e1 = ((st1, w1), n1)" "e2 = ((st2, w2), n2)"
      by (metis surj_pair)
    from that(1) have "inv0 w1" by (simp add: P_def e moved_inv)
    from fail [OF this, of ctx st1 n1 err st2 w2 n2] that show ?thesis
      by (auto simp: P_def e intro: moved_trans)
  qed
  have step_good: "Q (fst e2)" if "P (fst e1)" "f ctx e1 = (Inr (), e2)" for e1 e2
  proof -
    obtain st1 w1 n1 st2 w2 n2 where e: "e1 = ((st1, w1), n1)" "e2 = ((st2, w2), n2)"
      by (metis surj_pair)
    from that(1) have i: "inv0 w1" by (simp add: P_def e moved_inv)
    from that(1) w(2) have "unused k w1" by (simp add: P_def e moved_unused)
    from good [OF i this, of ctx st1 n1 st2 w2 n2] that show ?thesis
      by (auto simp: P_def Q_def e intro: moved_trans)
  qed
  have "case res of Inl _ \<Rightarrow> P (fst e') | Inr _ \<Rightarrow> Q (fst e')"
  proof (cases "MaxAttempts (sg_retry s) > 0")
    case True
    with run have "Retry ctx (sg_retry s) (f ctx) e = (res, e')" by (simp add: call_step_def)
    with True P0 show ?thesis
      by (intro Retry_rule [where P = P and Q = Q and fn = "f ctx"]) (auto intro: step_fail step_good)
  next
    case False
    with run have "f ctx e = (res, e')" by (simp add: call_step_def)
    with step_fail [OF P0] step_good [OF P0] show ?thesis by (cases res) auto
  qed
  then show ?thesis by (cases res) (simp_all add: P_def Q_def)
qed

lemma forward_moves:
  assumes "inv0 (snd (fst e))" "unused (fkey p) (snd (fst e))" "runForward s ctx (mk p) e = (res, e')"
  shows "case res of Inl _ \<Rightarrow> moved inv0 unused q {} (\<lambda>_. 0) (snd (fst e)) (snd (fst e'))
                   | Inr _ \<Rightarrow> moved inv0 unused q {fkey p} (delta p) (snd (fst e)) (snd (fst e'))"
proof -
  obtain f where f: "st_Forward (mk p) = Some f" using has_forward [of p] by auto
  with assms(3) have "call_step s ctx f e = (res, e')" by (simp add: runForward_def)
  from call_moves [OF assms(1,2) forward_fails [OF f] forward_applies [OF f] this] show ?thesis .
qed

lemma backward_moves:
  assumes "inv0 (snd (fst e))" "unused (bkey p) (snd (fst e))" "runBackward s ctx (mk p) e = (res, e')"
  shows "case res of Inl _ \<Rightarrow> moved inv0 unused q {} (\<lambda>_. 0) (snd (fst e)) (snd (fst e'))
                   | Inr _ \<Rightarrow> moved inv0 unused q {bkey p} (undo p) (snd (fst e)) (snd (fst e'))"
proof -
  obtain f where f: "st_Backward (mk p) = Some f" using has_backward [of p] by auto
  with assms(3) have "call_step s ctx f e = (res, e')" by (simp add: runBackward_def)
  from call_moves [OF assms(1,2) backward_fails [OF f] backward_undoes [OF f] this] show ?thesis .
qed

lemma walk_moves:
  assumes "rollback_walk s ctx ds (c, k, rn) = (c', k', rn')" "map cs_step ds = map mk ps"
    and "inv0 (run_world rn)" "\<And>p. p \<in> set ps \<Longrightarrow> unused (bkey p) (run_world rn)" "distinct (map bkey ps)"
  shows "\<exists>us. subseq us ps \<and> (k' \<or> us = ps) \<and>
    moved inv0 unused q (bkey ` set ps) (\<lambda>a. tsum (\<lambda>p. undo p a) us) (run_world rn) (run_world rn')"
  using assms
proof (induction ds arbitrary: ps c k rn)
  case Nil
  then show ?case by (auto simp: moved_refl)
next
  case (Cons d ds)
  then obtain p ps' where ps: "ps = p # ps'" and d: "cs_step d = mk p" and ds: "map cs_step ds = map mk ps'"
    by (cases ps) auto
  from Cons.prems ps have dist: "distinct (map bkey ps')" "bkey p \<notin> bkey ` set ps'" by auto
  have later: "unused (bkey x) w" if "moved inv0 unused q {bkey p} e (run_world rn) w" "x \<in> set ps'" for x w e
  proof -
    from that(2) dist(2) have "bkey x \<notin> {bkey p}" by (metis imageI singletonD)
    from moved_unused [OF that(1) this] Cons.prems(4) [of x] that(2) ps show ?thesis by simp
  qed
  from Cons.prems(1) show ?case
  proof (cases rule: rollback_walkE)
    case pivot
    then show ?thesis using no_pivot d by simp
  next
    case skip
    then show ?thesis using has_backward d by (simp add: Option.is_none_def)
  next
    case (unrecorded r1)
    from Cons.IH [OF unrecorded(3) ds] Cons.prems ps dist obtain us where
      "subseq us ps'" "k' \<or> us = ps'" "moved inv0 unused q (bkey ` set ps') (\<lambda>a. tsum (\<lambda>p. undo p a) us)
         (run_world rn) (run_world rn')" by auto
    moreover have "k'" using walk_stays_stuck [OF unrecorded(3)] .
    ultimately show ?thesis unfolding ps by (intro exI [of _ us]) (auto simp: moved_def)
  next
    case (failed err e1 r2)
    from backward_moves [OF _ _ failed(3) [unfolded d]] Cons.prems(3,4) ps
    have m: "moved inv0 unused q {} (\<lambda>_. 0) (run_world rn) (snd (fst e1))" by auto
    with later [of "\<lambda>_. 0" "snd (fst e1)"] have u: "unused (bkey x) (snd (fst e1))" if "x \<in> set ps'" for x
      using that by (auto simp: moved_def)
    from Cons.IH [OF failed(4) ds] moved_inv [OF m] u dist(1) obtain us where us:
      "subseq us ps'" "k' \<or> us = ps'" "moved inv0 unused q (bkey ` set ps') (\<lambda>a. tsum (\<lambda>p. undo p a) us)
         (snd (fst e1)) (run_world rn')" by auto
    moreover have "k'" using walk_stays_stuck [OF failed(4)] .
    ultimately show ?thesis unfolding ps
      by (intro exI [of _ us]) (auto intro: moved_trans [OF m us(3)])
  next
    case (undone e1 r2)
    from backward_moves [OF _ _ undone(3) [unfolded d]] Cons.prems(3,4) ps
    have m: "moved inv0 unused q {bkey p} (undo p) (run_world rn) (snd (fst e1))" by auto
    from Cons.IH [OF undone(4) ds] moved_inv [OF m] later [OF m] dist(1) obtain us where us:
      "subseq us ps'" "k' \<or> us = ps'" "moved inv0 unused q (bkey ` set ps') (\<lambda>a. tsum (\<lambda>p. undo p a) us)
         (snd (fst e1)) (run_world rn')" by auto
    then show ?thesis unfolding ps
      by (intro exI [of _ "p # us"]) (auto intro: moved_trans [OF m us(3)])
  qed
qed

lemma abort_moves:
  assumes run: "abort s ctx step err ds rn = (res, rn')" and ds: "map cs_step ds = map mk qs"
    and inv: "inv0 (run_world rn)"
    and keys: "\<And>p. p \<in> set qs \<Longrightarrow> unused (bkey p) (run_world rn)" "distinct (map bkey qs)"
  shows "inv0 (run_world rn') \<and>
    net_effect (OnStuck (sg_id s) [] ''compensation incomplete; recovery required'' \<in> set (rn_events rn'))
      q delta undo qs ps (run_world rn) (run_world rn')"
proof -
  obtain c k rn1 where w: "rollback_walk s ctx (rev ds) ([], False, rn) = (c, k, rn1)"
    by (metis prod_cases3)
  from walk_moves [OF w, of "rev qs"] ds inv keys obtain us where us:
    "subseq us (rev qs)" "k \<or> us = rev qs"
    "moved inv0 unused q (bkey ` set qs) (\<lambda>a. tsum (\<lambda>p. undo p a) us) (run_world rn) (run_world rn1)"
    by (auto simp: rev_map [symmetric])
  from run w have out: "rn_env rn' = rn_env rn1"
    "k \<Longrightarrow> OnStuck (sg_id s) [] ''compensation incomplete; recovery required'' \<in> set (rn_events rn')"
    by (auto simp: abort_def rollback_def)
  with us moved_amount [OF us(3)] have
    "net_effect (OnStuck (sg_id s) [] ''compensation incomplete; recovery required'' \<in> set (rn_events rn'))
      q delta undo qs ps (run_world rn) (run_world rn')"
    unfolding net_effect_def by (intro exI [of _ "[]"] exI [of _ us]) auto
  with out(1) moved_inv [OF us(3)] show ?thesis by simp
qed

text \<open>The keys of the steps still to run and of the compensations still possible are unspent.\<close>

lemma keys_after_step:
  assumes m: "moved inv0 unused q {fkey p} d w w'"
    and u: "\<And>x. x \<in> set (p # ps) \<Longrightarrow> unused (fkey x) w" "\<And>x. x \<in> set (qs @ p # ps) \<Longrightarrow> unused (bkey x) w"
    and d: "distinct (map fkey (p # ps))" "fkey ` set (p # ps) \<inter> bkey ` set (qs @ p # ps) = {}"
  shows "x \<in> set ps \<Longrightarrow> unused (fkey x) w'" "x \<in> set ((qs @ [p]) @ ps) \<Longrightarrow> unused (bkey x) w'"
proof -
  show "unused (fkey x) w'" if x: "x \<in> set ps"
  proof -
    from distinct_map_Cons_ne [OF d(1) x] have "fkey x \<notin> {fkey p}" by simp
    from moved_unused [OF m this] u(1) x show ?thesis by simp
  qed
  show "unused (bkey x) w'" if x: "x \<in> set ((qs @ [p]) @ ps)"
  proof -
    from x have "bkey x \<in> bkey ` set (qs @ p # ps)" by (intro imageI) auto
    with d(2) have "bkey x \<notin> {fkey p}" by (metis IntI empty_iff imageI list.set_intros(1) singletonD)
    from moved_unused [OF m this] u(2) x show ?thesis by simp
  qed
qed

lemma loop_failure:
  assumes "step_loop s ctx i (map mk ps) ds rn = (Inl err, rn')" "map cs_step ds = map mk qs"
    and "inv0 (run_world rn)"
    and "\<And>p. p \<in> set ps \<Longrightarrow> unused (fkey p) (run_world rn)"
    and "\<And>p. p \<in> set (qs @ ps) \<Longrightarrow> unused (bkey p) (run_world rn)"
    and "distinct (map bkey (qs @ ps))" "distinct (map fkey ps)"
    and "fkey ` set ps \<inter> bkey ` set (qs @ ps) = {}"
  shows "inv0 (run_world rn') \<and>
    net_effect (OnStuck (sg_id s) [] ''compensation incomplete; recovery required'' \<in> set (rn_events rn'))
      q delta undo qs ps (run_world rn) (run_world rn')"
  using assms
proof (induction ps arbitrary: i ds qs rn)
  case Nil
  then show ?case by simp
next
  case (Cons p ps)
  let ?stuck = "OnStuck (sg_id s) [] ''compensation incomplete; recovery required'' \<in> set (rn_events rn')"
  have halted: "inv0 (run_world rn') \<and> net_effect ?stuck q delta undo qs (p # ps) (run_world rn) (run_world rn')"
    if ab: "abort s ctx (mk p) er ds rn1 = (Inl err, rn')"
      and m: "moved inv0 unused q {} (\<lambda>_. 0) (run_world rn) (run_world rn1)" for er rn1
  proof -
    have u: "unused (bkey x) (run_world rn1)" if "x \<in> set qs" for x
      using that Cons.prems(5) [of x] moved_unused [OF m, of "bkey x"] by simp
    from abort_moves [OF ab Cons.prems(2) moved_inv [OF m] u, of "p # ps"] Cons.prems(6)
      moved_amount [OF m] show ?thesis by (auto simp: net_effect_def)
  qed
  from Cons.prems(1) have "step_loop s ctx i (mk p # map mk ps) ds rn = (Inl err, rn')" by simp
  then show ?case
  proof (cases rule: step_loopE)
    case (stop er rn1)
    with Cons.prems(3) show ?thesis by (intro halted [OF stop(2)]) (simp add: moved_refl)
  next
    case (skip e0)
    with Cons.IH [OF skip(3) Cons.prems(2)] Cons.prems(3-8) show ?thesis
      by (auto intro: net_effect_skip)
  next
    case (failed e0 er rn1)
    from forward_moves [OF _ _ failed(2)] failed(1) Cons.prems(3,4)
    have "moved inv0 unused q {} (\<lambda>_. 0) (run_world rn) (run_world rn1)" by simp
    from halted [OF failed(3) this] show ?thesis .
  next
    case (applied e0 e1 h r1)
    define rn1 where "rn1 = rn\<lparr>rn_env := e1, rn_rec := snd (MarkCompleted (sg_recorder s) h r1)\<rparr>"
    from forward_moves [OF _ _ applied(3)] applied(1) Cons.prems(3,4)
    have m: "moved inv0 unused q {fkey p} (delta p) (run_world rn) (run_world rn1)" by (simp add: rn1_def)
    note keys = keys_after_step [OF m Cons.prems(4,5,7,8)]
    from Cons.IH [OF applied(4) [folded rn1_def], of "qs @ [p]"] keys moved_inv [OF m] Cons.prems(2,6,7,8)
    have "inv0 (run_world rn') \<and> net_effect ?stuck q delta undo (qs @ [p]) ps (run_world rn1) (run_world rn')" by auto
    with moved_amount [OF m] show ?thesis by (auto intro: net_effect_step)
  qed
qed

lemma execute_failure:
  assumes "Execute s ctx rn = (Inl err, rn')" "sg_steps s = map mk ps" "inv0 (run_world rn)"
    and "\<And>p. p \<in> set ps \<Longrightarrow> unused (fkey p) (run_world rn) \<and> unused (bkey p) (run_world rn)"
    and "distinct (map fkey ps @ map bkey ps)"
  shows "inv0 (run_world rn') \<and>
    net_effect (OnStuck (sg_id s) [] ''compensation incomplete; recovery required'' \<in> set (rn_events rn'))
      q delta undo [] ps (run_world rn) (run_world rn')"
  using loop_failure [of s ctx 0 ps "[]" "emit (OnStarted (sg_id s)) rn" err rn' "[]"] assms
  by (auto simp: Execute_def split: if_splits)

end

section \<open>Recorders\<close>

text \<open>
  What the executor needs of a recorder to run every step of a fresh saga: recording and completing
  one step does not make another step of the saga look completed.
\<close>

locale recorder_port =
  fixes rc :: "('r, 'v) recorder"
    and wf :: "'r \<Rightarrow> bool"
  assumes step_recorded: "wf r \<Longrightarrow> RecordForward rc sid n i st r = (Inr h, r1) \<Longrightarrow>
      wf (snd (MarkCompleted rc h r1)) \<and>
      (\<forall>m. m \<noteq> n \<longrightarrow> IsCompleted rc sid m (snd (MarkCompleted rc h r1)) = IsCompleted rc sid m r)"

interpretation noop: recorder_port NoopRecorder "\<lambda>_. True"
  by unfold_locales (simp add: NoopRecorder_def)

locale recorded_saga =
  compensable mk inv0 unused q delta undo fkey bkey + recorder_port rc wf
  for mk :: "'p \<Rightarrow> ('v, 'w) step"
    and inv0 :: "'w \<Rightarrow> bool"
    and unused :: "string \<Rightarrow> 'w \<Rightarrow> bool"
    and q :: "'w \<Rightarrow> 'a \<Rightarrow> rat"
    and delta :: "'p \<Rightarrow> 'a \<Rightarrow> rat"
    and undo :: "'p \<Rightarrow> 'a \<Rightarrow> rat"
    and fkey :: "'p \<Rightarrow> string"
    and bkey :: "'p \<Rightarrow> string"
    and rc :: "('r, 'v) recorder"
    and wf :: "'r \<Rightarrow> bool"
begin

text \<open>Every step of a fresh saga runs, so a nil result means that all of them were applied.\<close>

lemma loop_success:
  assumes "step_loop s ctx i (map mk ps) ds rn = (Inr (), rn')" "sg_recorder s = rc" "wf (rn_rec rn)"
    and "inv0 (run_world rn)" "\<And>p. p \<in> set ps \<Longrightarrow> unused (fkey p) (run_world rn)" "distinct (map fkey ps)"
    and "\<And>p. p \<in> set ps \<Longrightarrow> IsCompleted rc (sg_id s) (st_Name (mk p)) (rn_rec rn) \<noteq> Inr True"
    and "distinct (map (\<lambda>p. st_Name (mk p)) ps)"
  shows "inv0 (run_world rn') \<and>
    (\<forall>a. q (run_world rn') a = q (run_world rn) a + tsum (\<lambda>p. delta p a) ps)"
  using assms
proof (induction ps arbitrary: i ds rn)
  case Nil
  then show ?case by auto
next
  case (Cons p ps)
  from Cons.prems(1) have "step_loop s ctx i (mk p # map mk ps) ds rn = (Inr (), rn')" by simp
  then show ?case
  proof (cases rule: step_loopE)
    case (stop er rn1)
    then show ?thesis by (simp add: abort_def split: prod.splits)
  next
    case (skip e0)
    with Cons.prems(2) Cons.prems(7) [of p] show ?thesis by simp
  next
    case (failed e0 er rn1)
    then show ?thesis by (simp add: abort_def split: prod.splits)
  next
    case (applied e0 e1 h r1)
    define rn1 where "rn1 = rn\<lparr>rn_env := e1, rn_rec := snd (MarkCompleted (sg_recorder s) h r1)\<rparr>"
    from forward_moves [OF _ _ applied(3)] applied(1) Cons.prems(4,5)
    have m: "moved inv0 unused q {fkey p} (delta p) (run_world rn) (run_world rn1)" by (simp add: rn1_def)
    from step_recorded [OF Cons.prems(3) applied(2) [unfolded Cons.prems(2)]] Cons.prems(2)
    have r: "wf (rn_rec rn1)"
      "\<And>n. n \<noteq> st_Name (mk p) \<Longrightarrow> IsCompleted rc (sg_id s) n (rn_rec rn1) = IsCompleted rc (sg_id s) n (rn_rec rn)"
      by (simp_all add: rn1_def)
    have u: "unused (fkey x) (run_world rn1)" if "x \<in> set ps" for x
    proof -
      from distinct_map_Cons_ne [OF Cons.prems(6) that] have "fkey x \<notin> {fkey p}" by simp
      from moved_unused [OF m this] Cons.prems(5) [of x] that show ?thesis by simp
    qed
    have "IsCompleted rc (sg_id s) (st_Name (mk x)) (rn_rec rn1) \<noteq> Inr True" if "x \<in> set ps" for x
    proof -
      from distinct_map_Cons_ne [OF Cons.prems(8) that] have "st_Name (mk x) \<noteq> st_Name (mk p)" .
      from r(2) [OF this] Cons.prems(7) [of x] that show ?thesis by simp
    qed
    from Cons.IH [OF applied(4) [folded rn1_def] Cons.prems(2) r(1) moved_inv [OF m] u _ this] Cons.prems(6,8)
    show ?thesis using moved_amount [OF m] by auto
  qed
qed

lemma execute_success:
  assumes "Execute s ctx rn = (Inr (), rn')" "sg_steps s = map mk ps" "sg_recorder s = rc" "wf (rn_rec rn)"
    and "inv0 (run_world rn)" "\<And>p. p \<in> set ps \<Longrightarrow> unused (fkey p) (run_world rn)" "distinct (map fkey ps)"
    and "\<And>p. p \<in> set ps \<Longrightarrow> IsCompleted rc (sg_id s) (st_Name (mk p)) (rn_rec rn) \<noteq> Inr True"
    and "distinct (map (\<lambda>p. st_Name (mk p)) ps)"
  shows "inv0 (run_world rn') \<and>
    (\<forall>a. q (run_world rn') a = q (run_world rn) a + tsum (\<lambda>p. delta p a) ps)"
  using loop_success [of s ctx 0 ps "[]" "emit (OnStarted (sg_id s)) rn" rn'] assms
  by (auto simp: Execute_def split: if_splits)

end

text \<open>
  What else a log of saga steps promises: it takes every row, and a compensation that did not go through leaves its
  row open for the recovery loop (\<open>opened\<close>).
\<close>

abbreviation stuck_event :: "string \<Rightarrow> saga_event" where
  "stuck_event sagaID \<equiv> OnStuck sagaID [] ''compensation incomplete; recovery required''"

locale logging_recorder = recorder_port rc wf
  for rc :: "('r, 'v) recorder" and wf :: "'r \<Rightarrow> bool" +
  fixes opened :: "string \<Rightarrow> 'r \<Rightarrow> bool"
  assumes takes_rows: "wf r \<Longrightarrow> \<exists>h r1. RecordForward rc sid n i st r = (Inr h, r1)"
    and failure_logged: "wf r \<Longrightarrow> RecordForward rc sid n i st r = (Inr h, r1) \<Longrightarrow> wf (snd (MarkFailed rc h err r1))"
    and compensation_logged: "wf r \<Longrightarrow> \<exists>h r1. RecordCompensation rc sid n i fh st r = (Inr h, r1) \<and>
      (\<forall>err. wf (snd (MarkCompensationFailed rc h err r1)) \<and> opened sid (snd (MarkCompensationFailed rc h err r1))) \<and>
      wf (snd (MarkCompensated rc h r1)) \<and> (opened sid r \<longrightarrow> opened sid (snd (MarkCompensated rc h r1)))"
begin

lemma walk_leaves_row:
  assumes "rollback_walk s ctx ds (c, k, rn) = (c', k', rn')" "sg_recorder s = rc"
    and "wf (rn_rec rn)" "k \<Longrightarrow> opened (sg_id s) (rn_rec rn)"
  shows "wf (rn_rec rn') \<and> (k' \<longrightarrow> opened (sg_id s) (rn_rec rn'))"
  using assms
proof (induction ds arbitrary: c k rn)
  case Nil
  then show ?case by simp
next
  case (Cons d ds)
  show ?case
  proof (cases "st_Pivot (cs_step d) \<or> Option.is_none (st_Backward (cs_step d))")
    case True
    with Cons show ?thesis by (auto split: if_splits)
  next
    case False
    obtain h r1 where rc1: "RecordCompensation rc (sg_id s) (cs_name d) (- int (cs_number d)) (cs_handle d)
        (run_state rn) (rn_rec rn) = (Inr h, r1)"
      and failed: "\<And>err. wf (snd (MarkCompensationFailed rc h err r1)) \<and>
        opened (sg_id s) (snd (MarkCompensationFailed rc h err r1))"
      and undone: "wf (snd (MarkCompensated rc h r1))"
        "opened (sg_id s) (rn_rec rn) \<Longrightarrow> opened (sg_id s) (snd (MarkCompensated rc h r1))"
      using compensation_logged [OF Cons.prems(3)] by blast
    obtain b e1 where b: "runBackward s ctx (cs_step d) (rn_env rn) = (b, e1)" by (rule prod.exhaust)
    show ?thesis
    proof (cases b)
      case (Inl err)
      from Cons.prems(1,2) False rc1 b Inl
      have "rollback_walk s ctx ds (c, True, rn\<lparr>rn_rec := snd (MarkCompensationFailed rc h err r1), rn_env := e1\<rparr>) =
        (c', k', rn')" by auto
      from Cons.IH [OF this Cons.prems(2)] failed [of err] show ?thesis by simp
    next
      case (Inr u)
      from Cons.prems(1,2) False rc1 b Inr
      have "rollback_walk s ctx ds (c @ [cs_name d], k, rn\<lparr>rn_rec := snd (MarkCompensated rc h r1), rn_env := e1\<rparr>) =
        (c', k', rn')" by auto
      from Cons.IH [OF this Cons.prems(2)] undone Cons.prems(4) show ?thesis by simp
    qed
  qed
qed

lemma abort_leaves_row:
  assumes "abort s ctx st err ds rn = (res, rn')" "sg_recorder s = rc" "wf (rn_rec rn)"
    and "stuck_event (sg_id s) \<notin> set (rn_events rn)"
  shows "wf (rn_rec rn') \<and> (stuck_event (sg_id s) \<in> set (rn_events rn') \<longrightarrow> opened (sg_id s) (rn_rec rn'))"
proof -
  obtain c k rn1 where w: "rollback_walk s ctx (rev ds) ([], False, rn) = (c, k, rn1)" by (metis prod_cases3)
  have ev: "rn_events rn1 = rn_events rn" using rollback_walk_plan [OF w] by auto
  have "wf (rn_rec rn1) \<and> (k \<longrightarrow> opened (sg_id s) (rn_rec rn1))" using walk_leaves_row [OF w assms(2,3)] by simp
  with assms(1,4) w ev show ?thesis by (auto simp: abort_def rollback_def split: if_splits)
qed

lemma loop_leaves_row:
  assumes "step_loop s ctx i sts ds rn = (res, rn')" "sg_recorder s = rc" "wf (rn_rec rn)"
    and "stuck_event (sg_id s) \<notin> set (rn_events rn)"
  shows "wf (rn_rec rn') \<and> (stuck_event (sg_id s) \<in> set (rn_events rn') \<longrightarrow> opened (sg_id s) (rn_rec rn'))"
  using assms
proof (induction sts arbitrary: i ds rn)
  case Nil
  then show ?case by auto
next
  case (Cons st sts)
  from Cons.prems(1) show ?case
  proof (cases rule: step_loopE)
    case (stop err rn1)
    from stop(4) takes_rows [OF Cons.prems(3), of "sg_id s" "st_Name st" "int (Suc i)" "fst (fst (rn_env rn1))"] Cons.prems(2)
    have "rn_rec rn1 = rn_rec rn" by auto
    with abort_leaves_row [OF stop(2) Cons.prems(2)] stop(3) Cons.prems(3,4) show ?thesis by simp
  next
    case (skip e0)
    from Cons.IH [OF skip(3) Cons.prems(2)] Cons.prems(3,4) show ?thesis by simp
  next
    case (failed e0 err rn1)
    from failed(5) Cons.prems(2) failure_logged [OF Cons.prems(3)] have "wf (rn_rec rn1)" by fastforce
    with abort_leaves_row [OF failed(3) Cons.prems(2)] failed(4) Cons.prems(4) show ?thesis by simp
  next
    case (applied e0 e1 h r1)
    from step_recorded [OF Cons.prems(3) applied(2) [unfolded Cons.prems(2)]] Cons.prems(2)
    have "wf (snd (MarkCompleted (sg_recorder s) h r1))" by simp
    with Cons.IH [OF applied(4) Cons.prems(2)] Cons.prems(4) show ?thesis by simp
  qed
qed

lemma execute_wf:
  assumes "Execute s ctx rn = (res, rn')" "sg_recorder s = rc" "wf (rn_rec rn)" "rn_events rn = []"
  shows "wf (rn_rec rn')"
  using loop_leaves_row [of s ctx 0 "sg_steps s" "[]" "emit (OnStarted (sg_id s)) rn" res rn'] assms
  by (auto simp: Execute_def split: if_splits)

lemma execute_leaves_row:
  assumes "Execute s ctx rn = (res, rn')" "sg_recorder s = rc" "wf (rn_rec rn)" "rn_events rn = []"
    and "stuck_event (sg_id s) \<in> set (rn_events rn')"
  shows "opened (sg_id s) (rn_rec rn')"
  using loop_leaves_row [of s ctx 0 "sg_steps s" "[]" "emit (OnStarted (sg_id s)) rn" res rn'] assms
  by (auto simp: Execute_def split: if_splits)

end

text \<open>
  The saga logs are tables with a sequence. What is needed of the calls on such a table: a new row takes the next key,
  the marks write the row of the handle, and a step counts as completed when a forward row says so.
\<close>

locale saga_table =
  fixes rc :: "('r, 'v) recorder"
    and rows :: "'r \<Rightarrow> 'l list"
    and nxt :: "'r \<Rightarrow> nat"
    and rid :: "'l \<Rightarrow> nat"
    and saga_of :: "'l \<Rightarrow> string"
    and name_of :: "'l \<Rightarrow> string"
    and status_of :: "'l \<Rightarrow> string"
    and comp_of :: "'l \<Rightarrow> bool"
    and wf :: "'r \<Rightarrow> bool"
    and opened :: "string \<Rightarrow> 'r \<Rightarrow> bool"
  assumes wf_iff: "wf r \<longleftrightarrow> (\<forall>l \<in> set (rows r). rid l < nxt r)"
    and opened_iff: "opened sid r \<longleftrightarrow> (\<exists>l \<in> set (rows r). saga_of l = sid \<and> status_of l = ''compensating'')"
    and forward_row: "\<exists>h row r1. RecordForward rc sid n i st r = (Inr h, r1) \<and> h_ID h = nxt r \<and>
      rows r1 = rows r @ [row] \<and> nxt r1 = Suc (nxt r) \<and> rid row = nxt r \<and> name_of row = n"
    and compensation_row: "\<exists>h row r1. RecordCompensation rc sid n i fh st r = (Inr h, r1) \<and> h_ID h = nxt r \<and>
      rows r1 = rows r @ [row] \<and> nxt r1 = Suc (nxt r) \<and> rid row = nxt r \<and> saga_of row = sid \<and>
      status_of row = ''compensating''"
    and completed_mark: "\<exists>f. rows (snd (MarkCompleted rc h r)) = upd_rows (\<lambda>l. rid l = h_ID h) f (rows r) \<and>
      nxt (snd (MarkCompleted rc h r)) = nxt r \<and> (\<forall>l. rid (f l) = rid l \<and> name_of (f l) = name_of l)"
    and failed_mark: "\<exists>f. rows (snd (MarkFailed rc h err r)) = upd_rows (\<lambda>l. rid l = h_ID h) f (rows r) \<and>
      nxt (snd (MarkFailed rc h err r)) = nxt r \<and> (\<forall>l. rid (f l) = rid l)"
    and compensated_mark: "\<exists>f. rows (snd (MarkCompensated rc h r)) = upd_rows (\<lambda>l. rid l = h_ID h) f (rows r) \<and>
      nxt (snd (MarkCompensated rc h r)) = nxt r \<and> (\<forall>l. rid (f l) = rid l)"
    and stuck_mark: "\<exists>f. rows (snd (MarkCompensationFailed rc h err r)) = upd_rows (\<lambda>l. rid l = h_ID h) f (rows r) \<and>
      nxt (snd (MarkCompensationFailed rc h err r)) = nxt r \<and>
      (\<forall>l. rid (f l) = rid l \<and> saga_of (f l) = saga_of l \<and> status_of (f l) = status_of l)"
    and completed_reads: "IsCompleted rc sid n r =
      Inr (\<exists>l \<in> set (rows r). saga_of l = sid \<and> name_of l = n \<and> status_of l = ''completed'' \<and> \<not> comp_of l)"
begin

lemma mark_new_row:
  assumes "wf r" "rows r1 = rows r @ [row]" "nxt r1 = Suc (nxt r)" "rid row = nxt r" "h_ID h = nxt r"
    and "rows r2 = upd_rows (\<lambda>l. rid l = h_ID h) f (rows r1)" "nxt r2 = nxt r1" "rid (f row) = rid row"
  shows "rows r2 = rows r @ [f row] \<and> wf r2"
proof -
  have "upd_rows (\<lambda>l. rid l = nxt r) f (rows r) = rows r"
    using assms(1) by (intro upd_rows_absent) (auto simp: wf_iff)
  with assms show ?thesis by (auto simp: upd_rows_def wf_iff)
qed

lemma forward_completed:
  assumes ok: "wf r" and rf: "RecordForward rc sid n i st r = (Inr h, r1)"
  shows "wf (snd (MarkCompleted rc h r1)) \<and>
    (\<forall>m. m \<noteq> n \<longrightarrow> IsCompleted rc sid m (snd (MarkCompleted rc h r1)) = IsCompleted rc sid m r)"
proof -
  from rf forward_row [of sid n i st r] obtain row where row: "h_ID h = nxt r" "rows r1 = rows r @ [row]"
    "nxt r1 = Suc (nxt r)" "rid row = nxt r" "name_of row = n" by auto
  from completed_mark [of h r1] obtain f where
    f: "rows (snd (MarkCompleted rc h r1)) = upd_rows (\<lambda>l. rid l = h_ID h) f (rows r1)"
      "nxt (snd (MarkCompleted rc h r1)) = nxt r1" "rid (f row) = rid row" "name_of (f row) = name_of row" by blast
  from mark_new_row [OF ok row(2,3,4,1) f(1,2,3)] f(4) row(5) show ?thesis by (auto simp: completed_reads)
qed

sublocale logging_recorder rc wf opened
proof (unfold_locales, goal_cases)
  case (1 r sid n i st h r1)
  then show ?case by (rule forward_completed)
next
  case (2 r sid n i st)
  show ?case using forward_row [of sid n i st r] by blast
next
  case (3 r sid n i st h r1 err)
  from 3(2) forward_row [of sid n i st r] obtain row where row: "h_ID h = nxt r" "rows r1 = rows r @ [row]"
    "nxt r1 = Suc (nxt r)" "rid row = nxt r" by auto
  from failed_mark [of h err r1] obtain f where
    f: "rows (snd (MarkFailed rc h err r1)) = upd_rows (\<lambda>l. rid l = h_ID h) f (rows r1)"
      "nxt (snd (MarkFailed rc h err r1)) = nxt r1" "rid (f row) = rid row" by blast
  from mark_new_row [OF 3(1) row(2,3,4,1) f] show ?case by simp
next
  case (4 r sid n i fh st)
  from compensation_row [of sid n i fh st r] obtain h row r1 where rc1: "RecordCompensation rc sid n i fh st r = (Inr h, r1)"
    and row: "h_ID h = nxt r" "rows r1 = rows r @ [row]" "nxt r1 = Suc (nxt r)" "rid row = nxt r" "saga_of row = sid"
      "status_of row = ''compensating''" by blast
  note new = mark_new_row [OF 4 row(2,3,4,1)]
  have "wf (snd (MarkCompensationFailed rc h err r1)) \<and> opened sid (snd (MarkCompensationFailed rc h err r1))" for err
  proof -
    from stuck_mark [of h err r1] obtain f where
      f: "rows (snd (MarkCompensationFailed rc h err r1)) = upd_rows (\<lambda>l. rid l = h_ID h) f (rows r1)"
        "nxt (snd (MarkCompensationFailed rc h err r1)) = nxt r1" "rid (f row) = rid row"
        "saga_of (f row) = saga_of row" "status_of (f row) = status_of row" by blast
    from new [OF f(1,2,3)] f(4,5) row(5,6) show ?thesis by (auto simp: opened_iff)
  qed
  moreover have "wf (snd (MarkCompensated rc h r1)) \<and> (opened sid r \<longrightarrow> opened sid (snd (MarkCompensated rc h r1)))"
  proof -
    from compensated_mark [of h r1] obtain f where
      f: "rows (snd (MarkCompensated rc h r1)) = upd_rows (\<lambda>l. rid l = h_ID h) f (rows r1)"
        "nxt (snd (MarkCompensated rc h r1)) = nxt r1" "rid (f row) = rid row" by blast
    from new [OF f] show ?thesis by (auto simp: opened_iff)
  qed
  ultimately show ?case using rc1 by blast
qed

end

section \<open>Resuming and recovering\<close>

text \<open>
  C29: \<^verbatim>\<open>Compensate\<close> runs no forward step. It returns nil exactly when every planned compensation of
  the steps the log reports completed was carried out; otherwise it returns
  \<^verbatim>\<open>ErrCompensationStuck\<close>, so that the recovery loop does not close the row, and the publisher hears
  \<^verbatim>\<open>OnStuck\<close> before \<^verbatim>\<open>OnRolledBack\<close>.
\<close>

theorem compensate_verdict:
  assumes "sg_steps s \<noteq> []" "Compensate s ctx rn = (res, rn')"
  shows "\<exists>compensated. subseq compensated
        (map cs_name (rollback_plan (recorded_done s 0 (sg_steps s) (rn_rec rn)))) \<and>
      (let complete = (compensated = map cs_name (rollback_plan (recorded_done s 0 (sg_steps s) (rn_rec rn))))
       in res = (if complete then Inr () else Inl ErrCompensationStuck) \<and>
          rn_events rn' = rn_events rn @
            (if complete then [] else [OnStuck (sg_id s) [] ''compensation incomplete; recovery required'']) @
            [OnRolledBack (sg_id s) [] (Plain ''recovery compensation'') compensated])"
proof -
  obtain c k rn1 where r: "rollback s ctx (recorded_done s 0 (sg_steps s) (rn_rec rn)) rn = (c, k, rn1)"
    by (metis prod_cases3)
  with assms have "res = (if k then Inl ErrCompensationStuck else Inr ())"
    "rn' = emit (OnRolledBack (sg_id s) [] (Plain ''recovery compensation'') c) rn1"
    by (auto simp: Compensate_def)
  with rollback_follows_plan_aux [OF r] show ?thesis by (intro exI [of _ c]) (auto simp: Let_def)
qed

theorem compensate_verdict_witness:
  "fst (Compensate (demo_saga\<lparr>sg_recorder := NoopRecorder\<lparr>IsCompleted := (\<lambda>_ n _. Inr (n = ''a''))\<rparr>\<rparr>)
     (\<lambda>_. None) (demo_run 5)) = Inr ()"
proof -
  let ?s = "demo_saga\<lparr>sg_recorder := NoopRecorder\<lparr>IsCompleted := (\<lambda>_ n _. Inr (n = ''a''))\<rparr>\<rparr>"
  have "sg_steps ?s \<noteq> []" by (simp add: demo_defs)
  from compensate_verdict [OF this, of "\<lambda>_. None" "demo_run 5"] obtain c where
    "fst (Compensate ?s (\<lambda>_. None) (demo_run 5)) =
      (if c = map cs_name (rollback_plan (recorded_done ?s 0 (sg_steps ?s) (rn_rec (demo_run 5))))
       then Inr () else Inl ErrCompensationStuck)"
    "subseq c (map cs_name (rollback_plan (recorded_done ?s 0 (sg_steps ?s) (rn_rec (demo_run 5)))))"
    by (metis prod.collapse)
  then show ?thesis
    by (simp add: Compensate_def rollback_def demo_defs runBackward_def call_step_def)
qed

text \<open>
  A run that resumes a saga does not take back what an earlier run applied: when the first step is
  already recorded as completed and the second one fails, \<^verbatim>\<open>Execute\<close> returns that failure and reports a
  rollback with nothing compensated; the world is as the failed step left it.
\<close>

theorem resumed_steps_stay:
  assumes "sg_steps s = [a, b]" "ctx n = None" "ctx (Suc n) = None"
    and "IsCompleted (sg_recorder s) (sg_id s) (st_Name a) (rn_rec rn) = Inr True"
    and "IsCompleted (sg_recorder s) (sg_id s) (st_Name b) (rn_rec rn) = Inr False"
    and "RecordForward (sg_recorder s) (sg_id s) (st_Name b) 2 st (rn_rec rn) = (Inr h, r')"
    and "rn_env rn = ((st, w), n)"
    and "runForward s ctx b ((st, w), Suc (Suc n)) = (Inl err, e')"
  shows "\<exists>rn'. Execute s ctx rn = (Inl err, rn') \<and> rn_env rn' = e' \<and>
    rn_events rn' = rn_events rn @ [OnStarted (sg_id s), OnRolledBack (sg_id s) (st_Name b) err []]"
  using assms by (simp add: Execute_def ctx_Err_def abort_def rollback_def One_nat_def)

definition demo_resumed :: "(unit, unit, int) saga" where
  "demo_resumed =
     Add (demo_step ''b'' 7 True) (Add (demo_step ''a'' 5 False)
       (NewSagaWithID ''s'' (Some (NoopRecorder\<lparr>IsCompleted := (\<lambda>_ n _. Inr (n = ''a''))\<rparr>))))"

theorem resumed_steps_stay_witness:
  "\<exists>rn'. Execute demo_resumed (\<lambda>_. None) (demo_run 5) = (Inl (Plain ''b''), rn') \<and>
     rn_env rn' = ((Map.empty, 5), 2) \<and> rn_events rn' = rn_events (demo_run 5) @
       [OnStarted (sg_id demo_resumed), OnRolledBack (sg_id demo_resumed) (st_Name (demo_step ''b'' 7 True :: (unit, int) step)) (Plain ''b'') []]"
  by (rule resumed_steps_stay [where a = "demo_step ''a'' 5 False" and n = 0 and h = zero_handle
        and r' = "()" and st = Map.empty and w = 5])
    (simp_all add: demo_resumed_def demo_defs runForward_def call_step_def numeral_2_eq_2)

end
