(* ===== verification/Tx_Saga_Safety.thy ===== *)
theory Tx_Saga_Safety
  imports Tx_Saga Saga_Safety Account_Service_Safety
begin

text \<open>
  Sagas of balance updates. The locale \<open>balance_port\<close> is what the transaction service relies on when
  it calls the account service's \<^verbatim>\<open>UpdateBalance\<close>; steps built from such a client are compensable, so
  the executor's guarantees apply to \<^verbatim>\<open>executeWithSaga\<close>. The port is interpreted on the account
  service's own balance RPC.
\<close>

section \<open>The recorder\<close>

definition saga_db_ok :: "saga_db \<Rightarrow> bool" where
  "saga_db_ok db \<longleftrightarrow> (\<forall>l \<in> set (saga_logs db). sl_ID l < seq_saga_logs db)"

text \<open>A compensation that did not go through leaves its row open for the recovery loop.\<close>

definition open_row :: "string \<Rightarrow> saga_db \<Rightarrow> bool" where
  "open_row sid db \<longleftrightarrow> (\<exists>l \<in> set (saga_logs db). sl_SagaID l = sid \<and> sl_Status l = ''compensating'')"

lemma update_log_rows:
  "saga_logs (snd (update_log i f db)) = upd_rows (\<lambda>l. sl_ID l = i) f (saga_logs db)"
  "seq_saga_logs (snd (update_log i f db)) = seq_saga_logs db"
  by (simp_all add: update_log_def)

lemmas tx_recorder_defs = tx_recorder_def CompleteStep_def FailStep_def SetErrorMessage_def update_log_rows

interpretation tx_log: saga_table tx_recorder saga_logs seq_saga_logs sl_ID sl_SagaID sl_StepName sl_Status sl_IsCompensation
  saga_db_ok open_row
proof (unfold_locales, goal_cases)
  case (5 h r)
  show ?case by (rule exI [of _ "\<lambda>l. l\<lparr>sl_Status := ''completed'', sl_CompletedAt := Some (tx_now r)\<rparr>"]) (simp add: tx_recorder_defs)
next
  case (6 h err r)
  show ?case by (rule exI [of _ "\<lambda>l. l\<lparr>sl_Status := ''failed'', sl_ErrorMessage := Some err\<rparr>"]) (simp add: tx_recorder_defs)
next
  case (7 h r)
  show ?case by (rule exI [of _ "\<lambda>l. l\<lparr>sl_Status := ''completed'', sl_CompletedAt := Some (tx_now r)\<rparr>"]) (simp add: tx_recorder_defs)
next
  case (8 h err r)
  show ?case by (rule exI [of _ "\<lambda>l. l\<lparr>sl_ErrorMessage := Some err\<rparr>"]) (simp add: tx_recorder_defs)
next
  case (9 sid n r)
  show ?case by (simp add: tx_recorder_def IsForwardCompleted_def filter_empty_conv) blast
qed (simp_all add: saga_db_ok_def open_row_def tx_recorder_def tx_RecordForward_def tx_RecordCompensation_def RecordStep_def
  buildRow_def SagaStatusCompensating_def Let_def)

abbreviation saga_id :: "string \<Rightarrow> nat \<Rightarrow> nat \<Rightarrow> string" where
  "saga_id txType transactionID nano \<equiv> txType @ ''-'' @ itoa transactionID @ ''-'' @ itoa nano"

section \<open>The port\<close>

lemma balance_request_simps [simp]:
  "rq_AccountNumber (balance_request acct x k) = acct" "rq_Amount (balance_request acct x k) = x"
  "rq_UpdateAvailable (balance_request acct x k)" "rq_IdempotencyKey (balance_request acct x k) = k"
  by (simp_all add: balance_request_def)

text \<open>
  What the transaction service relies on: a refused balance update changes nothing, the first
  accepted one under a key moves the account by the amount it was sent, a repetition moves nothing.
  \<open>amount_of\<close> is the amount the account service reads from the request.
\<close>

locale balance_port =
  fixes client :: "'w account_client"
    and amount_of :: "string \<Rightarrow> decimal"
    and ok :: "'w \<Rightarrow> bool"
    and unused :: "string \<Rightarrow> 'w \<Rightarrow> bool"
    and bal :: "'w \<Rightarrow> string \<Rightarrow> decimal"
  assumes refused: "ok w \<Longrightarrow> rq_UpdateAvailable req \<Longrightarrow> ac_UpdateBalance client req w = (Inl err, w') \<Longrightarrow>
      moved ok unused bal {} (\<lambda>_. 0) w w'"
    and applies: "ok w \<Longrightarrow> rq_UpdateAvailable req \<Longrightarrow> unused (rq_IdempotencyKey req) w \<Longrightarrow>
      ac_UpdateBalance client req w = (Inr (), w') \<Longrightarrow>
      moved ok unused bal {rq_IdempotencyKey req}
        (\<lambda>n. if n = rq_AccountNumber req then amount_of (rq_Amount req) else 0) w w'"
    and replays: "ok w \<Longrightarrow> rq_UpdateAvailable req \<Longrightarrow> \<not> unused (rq_IdempotencyKey req) w \<Longrightarrow>
      ac_UpdateBalance client req w = (res, w') \<Longrightarrow> moved ok unused bal {} (\<lambda>_. 0) w w'"
    and lookup_reads: "ok w \<Longrightarrow> ac_GetAccountByNumber client acct w = (got, w') \<Longrightarrow>
      moved ok unused bal {} (\<lambda>_. 0) w w'"
    and list_reads: "ok w \<Longrightarrow> ac_ListBankAccounts client w = (listed, w') \<Longrightarrow>
      moved ok unused bal {} (\<lambda>_. 0) w w'"
begin

lemma retry_get_reads:
  assumes get: "\<And>w r w'. ok w \<Longrightarrow> get w = (r, w') \<Longrightarrow> moved ok unused bal {} (\<lambda>_. 0) w w'"
    and run: "retry_get get DefaultRetryConfig ctx e = (res, e')" and ok: "ok (fst e)"
  shows "moved ok unused bal {} (\<lambda>_. 0) (fst e) (fst e')"
proof -
  let ?fn = "\<lambda>((v, w), n). case get w of
                (Inl e, w') \<Rightarrow> (Inl e, ((None, w'), n))
              | (Inr x, w') \<Rightarrow> (Inr (), ((Some x, w'), n))"
  let ?P = "\<lambda>x. moved ok unused bal {} (\<lambda>_. 0) (fst e) (snd x)"
  obtain r e1 where r: "Retry ctx DefaultRetryConfig ?fn ((None, fst e), snd e) = (r, e1)" by (rule prod.exhaust)
  have step: "?P (fst e2)" if "?P (fst e0)" "?fn e0 = (r0, e2)" for e0 r0 e2
  proof -
    obtain v w n where e0: "e0 = ((v, w), n)" by (metis surj_pair)
    obtain g w' where g: "get w = (g, w')" by (rule prod.exhaust)
    from that(2) e0 g have "snd (fst e2) = w'" by (cases g) auto
    with get [OF _ g] moved_inv [OF that(1)] e0 that(1) show ?thesis
      by (auto intro: moved_trans)
  qed
  have "case r of Inl _ \<Rightarrow> ?P (fst e1) | Inr _ \<Rightarrow> ?P (fst e1)"
    by (rule Retry_rule [OF _ _ _ _ r]) (use step ok in \<open>auto simp: moved_refl DefaultRetryConfig_def\<close>)
  then have "?P (fst e1)" by (cases r) auto
  moreover have "fst e' = snd (fst e1)"
    using run r by (cases e; cases r; cases e1) (auto simp: retry_get_def split: prod.splits)
  ultimately show ?thesis by simp
qed

lemma retry_moves:
  assumes w: "ok (fst e)" "unused (rq_IdempotencyKey req) (fst e)" "rq_UpdateAvailable req"
    and run: "retry_update client DefaultRetryConfig req ctx e = (res, e')"
  shows "case res of Inl _ \<Rightarrow> moved ok unused bal {} (\<lambda>_. 0) (fst e) (fst e')
     | Inr _ \<Rightarrow> moved ok unused bal {rq_IdempotencyKey req}
         (\<lambda>n. if n = rq_AccountNumber req then amount_of (rq_Amount req) else 0) (fst e) (fst e')"
proof (rule Retry_rule [OF _ _ _ _ run [unfolded retry_update_def]])
  fix e1 err e2
  assume m: "moved ok unused bal {} (\<lambda>_. 0) (fst e) (fst e1)"
    and c: "(\<lambda>(w, n). case ac_UpdateBalance client req w of (r, w') \<Rightarrow> (r, (w', n))) e1 = (Inl err, e2)"
  from c have "ac_UpdateBalance client req (fst e1) = (Inl err, fst e2)"
    by (cases e1) (auto split: prod.splits)
  from refused [OF moved_inv [OF m] w(3) this] show "moved ok unused bal {} (\<lambda>_. 0) (fst e) (fst e2)"
    by (intro moved_trans [OF m]) auto
next
  fix e1 e2
  assume m: "moved ok unused bal {} (\<lambda>_. 0) (fst e) (fst e1)"
    and c: "(\<lambda>(w, n). case ac_UpdateBalance client req w of (r, w') \<Rightarrow> (r, (w', n))) e1 = (Inr (), e2)"
  from c have "ac_UpdateBalance client req (fst e1) = (Inr (), fst e2)"
    by (cases e1) (auto split: prod.splits)
  moreover from moved_unused [OF m] w(2) have "unused (rq_IdempotencyKey req) (fst e1)" by simp
  ultimately show "moved ok unused bal {rq_IdempotencyKey req}
      (\<lambda>n. if n = rq_AccountNumber req then amount_of (rq_Amount req) else 0) (fst e) (fst e2)"
    using applies [OF moved_inv [OF m] w(3)] by (intro moved_trans [OF m]) auto
qed (use w in \<open>simp_all add: moved_refl DefaultRetryConfig_def\<close>)

text \<open>A call that ends in an error changed nothing, whether or not its key was spent.\<close>

lemma retry_refused:
  assumes w: "ok (fst e)" "rq_UpdateAvailable req"
    and run: "retry_update client DefaultRetryConfig req ctx e = (Inl err, e')"
  shows "moved ok unused bal {} (\<lambda>_. 0) (fst e) (fst e')"
proof -
  have "case (Inl err :: unit result) of Inl _ \<Rightarrow> moved ok unused bal {} (\<lambda>_. 0) (fst e) (fst e') | Inr _ \<Rightarrow> True"
  proof (rule Retry_rule [where P = "moved ok unused bal {} (\<lambda>_. 0) (fst e)" and Q = "\<lambda>_. True", OF _ _ _ _ run [unfolded retry_update_def]])
    fix e1 err e2
    assume m: "moved ok unused bal {} (\<lambda>_. 0) (fst e) (fst e1)"
      and c: "(\<lambda>(w, n). case ac_UpdateBalance client req w of (r, w') \<Rightarrow> (r, (w', n))) e1 = (Inl err, e2)"
    from c have "ac_UpdateBalance client req (fst e1) = (Inl err, fst e2)"
      by (cases e1) (auto split: prod.splits)
    from refused [OF moved_inv [OF m] w(2) this] show "moved ok unused bal {} (\<lambda>_. 0) (fst e) (fst e2)"
      by (intro moved_trans [OF m]) auto
  qed (use w in \<open>simp_all add: moved_refl DefaultRetryConfig_def\<close>)
  then show ?thesis by simp
qed

lemma steps_compensable:
  "compensable
     (\<lambda>m. saga_step_of fixed4 (Some client) DefaultRetryConfig sagaID
        (balance_step fixed4 client DefaultRetryConfig keyPrefix m))
     ok unused bal
     (\<lambda>(_, acct, amount) n. if n = acct then amount_of (fixed4 amount) else 0)
     (\<lambda>(_, acct, amount) n. if n = acct then amount_of (fixed4 (- amount)) else 0)
     (\<lambda>(name, _). IdempotencyKey keyPrefix name)
     (\<lambda>(name, _). IdempotencyKey sagaID name @ '':compensate'')"
proof (unfold_locales, goal_cases)
  case (4 p f w ctx st n err st' w' n')
  obtain name acct x where p: "p = (name, acct, x)" by (rule prod_cases3)
  from 4(1,3) have "retry_update client DefaultRetryConfig
      (balance_request acct (fixed4 x) (IdempotencyKey keyPrefix name)) ctx (w, n) = (Inl err, (w', n'))"
    by (auto simp: p saga_step_of_def balance_step_def lift_world_def split: prod.splits)
  from retry_refused [OF _ _ this] 4(2) show ?case by simp
next
  case (5 p f w ctx st n st' w' n')
  obtain name acct x where p: "p = (name, acct, x)" by (rule prod_cases3)
  from 5(1,4) have "retry_update client DefaultRetryConfig
      (balance_request acct (fixed4 x) (IdempotencyKey keyPrefix name)) ctx (w, n) = (Inr (), (w', n'))"
    by (auto simp: p saga_step_of_def balance_step_def lift_world_def split: prod.splits)
  from retry_moves [OF _ _ _ this] 5(2,3) show ?case by (simp add: p cong: if_cong)
next
  case (6 p f w ctx st n err st' w' n')
  obtain name acct x where p: "p = (name, acct, x)" by (rule prod_cases3)
  from 6(1,3) have "retry_update client DefaultRetryConfig
      (balance_request acct (fixed4 (- x)) (IdempotencyKey sagaID name @ '':compensate'')) ctx (w, n) =
      (Inl err, (w', n'))"
    by (auto simp: p saga_step_of_def balance_step_def saga_backward_def lift_world_def split: prod.splits)
  from retry_refused [OF _ _ this] 6(2) show ?case by simp
next
  case (7 p f w ctx st n st' w' n')
  obtain name acct x where p: "p = (name, acct, x)" by (rule prod_cases3)
  from 7(1,4) have "retry_update client DefaultRetryConfig
      (balance_request acct (fixed4 (- x)) (IdempotencyKey sagaID name @ '':compensate'')) ctx (w, n) =
      (Inr (), (w', n'))"
    by (auto simp: p saga_step_of_def balance_step_def saga_backward_def lift_world_def split: prod.splits)
  from retry_moves [OF _ _ _ this] 7(2,3) show ?case by (simp add: p cong: if_cong)
qed (auto simp: saga_step_of_def)

end

section \<open>Executing balance steps\<close>

definition move_effect :: "(decimal \<Rightarrow> decimal) \<Rightarrow> balance_move list \<Rightarrow> string \<Rightarrow> decimal" where
  "move_effect sent ms n = tsum (\<lambda>(_, acct, x). if n = acct then sent x else 0) ms"

lemma fold_Add:
  "(\<And>st. st \<in> set steps \<Longrightarrow> ss_name st \<noteq> []) \<Longrightarrow>
   fold (\<lambda>step. Add (saga_step_of fixed4 c cfg sid step)) steps s =
     s\<lparr>sg_steps := sg_steps s @ map (saga_step_of fixed4 c cfg sid) steps\<rparr>"
  by (induction steps arbitrary: s) (simp_all add: Add_def saga_step_of_def)

lemma balance_step_name [simp]: "ss_name (balance_step fixed4 client cfg kp m) = fst m"
  by (cases m rule: prod_cases3) (simp add: balance_step_def)

lemma executeWithSaga_Execute:
  fixes steps :: "'w saga_step list"
  assumes "\<And>st. st \<in> set steps \<Longrightarrow> ss_name st \<noteq> []"
  obtains sg :: "(saga_db, state_val, 'w) saga" and rn :: "(saga_db, state_val, 'w) run"
  where "executeWithSaga fixed4 ctx has_repo c cfg nano tid ty steps db e = Execute sg ctx rn"
    "sg_steps sg = map (saga_step_of fixed4 c cfg (saga_id ty tid nano)) steps"
    "sg_id sg = saga_id ty tid nano" "sg_recorder sg = (if has_repo then tx_recorder else NoopRecorder)"
    "rn_rec rn = db" "rn_events rn = []" "run_world rn = fst e"
  using that [OF executeWithSaga_def [unfolded Let_def, of fixed4 ctx has_repo c cfg nano tid ty steps db e]] assms
  by (simp add: fold_Add NewSagaWithID_def)

lemma IdempotencyKey_inj: "inj (IdempotencyKey p)"
  by (auto simp: inj_def IdempotencyKey_def)

lemma step_keys_distinct:
  assumes names: "distinct (map fst ms)" "\<And>m. m \<in> set ms \<Longrightarrow> fst m \<noteq> [] \<and> last (fst m) \<noteq> CHR ''e''"
  shows "distinct (map (\<lambda>(name, _). IdempotencyKey kp name) ms)"
    "distinct (map (\<lambda>(name, _). IdempotencyKey kp name) ms @
      map (\<lambda>(name, _). IdempotencyKey sid name @ '':compensate'') ms)"
proof -
  have ne: "IdempotencyKey kp (fst m) \<noteq> IdempotencyKey sid (fst m') @ '':compensate''" if "m \<in> set ms" for m m'
  proof
    assume "IdempotencyKey kp (fst m) = IdempotencyKey sid (fst m') @ '':compensate''"
    then have "last (IdempotencyKey kp (fst m)) = last (IdempotencyKey sid (fst m') @ '':compensate'')" by simp
    with names(2) [OF that] show False by (simp add: IdempotencyKey_def)
  qed
  have "inj (\<lambda>n. IdempotencyKey sid n @ '':compensate'')" by (auto simp: inj_on_def IdempotencyKey_def)
  from distinct_map_inj [OF names(1) this] distinct_map_inj [OF names(1) IdempotencyKey_inj [of kp]]
  have d: "distinct (map (\<lambda>(name, _). IdempotencyKey kp name) ms)"
    "distinct (map (\<lambda>(name, _). IdempotencyKey sid name @ '':compensate'') ms)"
    by (simp_all add: case_prod_unfold)
  show "distinct (map (\<lambda>(name, _). IdempotencyKey kp name) ms)" by (rule d(1))
  have "set (map (\<lambda>(name, _). IdempotencyKey kp name) ms) \<inter>
      set (map (\<lambda>(name, _). IdempotencyKey sid name @ '':compensate'') ms) = {}"
    using ne by (fastforce simp: case_prod_unfold)
  with d show "distinct (map (\<lambda>(name, _). IdempotencyKey kp name) ms @
      map (\<lambda>(name, _). IdempotencyKey sid name @ '':compensate'') ms)"
    unfolding distinct_append by blast
qed

context balance_port
begin

lemma executed_saga:
  assumes run: "executeWithSaga fixed4 ctx has_repo (Some client) DefaultRetryConfig nano tid ty
      (map (balance_step fixed4 client DefaultRetryConfig kp) ms) db e = out"
    and names: "\<And>m. m \<in> set ms \<Longrightarrow> fst m \<noteq> []"
  obtains sg :: "(saga_db, state_val, 'w) saga" and rn where "Execute sg ctx rn = out"
    "sg_steps sg = map (\<lambda>m. saga_step_of fixed4 (Some client) DefaultRetryConfig (saga_id ty tid nano)
        (balance_step fixed4 client DefaultRetryConfig kp m)) ms"
    "sg_id sg = saga_id ty tid nano" "sg_recorder sg = (if has_repo then tx_recorder else NoopRecorder)"
    "rn_rec rn = db" "rn_events rn = []" "run_world rn = fst e"
proof (rule executeWithSaga_Execute [of "map (balance_step fixed4 client DefaultRetryConfig kp) ms"
      fixed4 ctx has_repo "Some client" DefaultRetryConfig nano tid ty db e], goal_cases)
  case (1 st)
  with names show ?case by auto
next
  case (2 sg rn)
  with run show ?case by (intro that [of sg rn]) (simp_all add: comp_def)
qed

lemma saga_success:
  assumes run: "executeWithSaga fixed4 ctx True (Some client) DefaultRetryConfig nano tid ty
      (map (balance_step fixed4 client DefaultRetryConfig kp) ms) db e = (Inr (), rn')"
    and ok: "ok (fst e)" "saga_db_ok db" "\<And>l. l \<in> set (saga_logs db) \<Longrightarrow> sl_SagaID l \<noteq> saga_id ty tid nano"
    and names: "distinct (map fst ms)" "\<And>m. m \<in> set ms \<Longrightarrow> fst m \<noteq> [] \<and> last (fst m) \<noteq> CHR ''e''"
    and fresh: "\<And>m. m \<in> set ms \<Longrightarrow> unused (IdempotencyKey kp (fst m)) (fst e)"
  shows "ok (run_world rn') \<and>
    (\<forall>n. bal (run_world rn') n = bal (fst e) n + move_effect (\<lambda>x. amount_of (fixed4 x)) ms n)"
proof -
  let ?mk = "\<lambda>m. saga_step_of fixed4 (Some client) DefaultRetryConfig (saga_id ty tid nano)
        (balance_step fixed4 client DefaultRetryConfig kp m)"
  note saga = recorded_saga.intro [OF steps_compensable [of fixed4 "saga_id ty tid nano" kp] tx_log.recorder_port_axioms]
  from executed_saga [OF run] names(2) obtain sg :: "(saga_db, state_val, 'w) saga" and rn where sg:
    "Execute sg ctx rn = (Inr (), rn')" "sg_steps sg = map ?mk ms"
    "sg_id sg = saga_id ty tid nano" "sg_recorder sg = tx_recorder" "rn_rec rn = db" "run_world rn = fst e"
    by (metis (no_types, lifting))
  have fresh_log: "IsCompleted tx_recorder (sg_id sg) n (rn_rec rn) \<noteq> Inr True" for n
  proof -
    have "filter (\<lambda>l. sl_SagaID l = sg_id sg \<and> sl_StepName l = n \<and> sl_Status l = ''completed'' \<and>
        \<not> sl_IsCompensation l) (saga_logs db) = []"
      using ok(3) sg(3) by (auto simp: filter_empty_conv)
    then show ?thesis by (simp add: tx_recorder_def IsForwardCompleted_def sg(5))
  qed
  have "distinct (map (\<lambda>m. st_Name (?mk m)) ms)" using names(1) by (simp add: saga_step_of_def)
  from recorded_saga.execute_success [OF saga sg(1,2,4) _ _ _ step_keys_distinct(1) [OF names] fresh_log this]
  show ?thesis using ok fresh by (simp add: sg(5,6) move_effect_def case_prod_unfold)
qed

lemma saga_failure:
  assumes run: "executeWithSaga fixed4 ctx True (Some client) DefaultRetryConfig nano tid ty
      (map (balance_step fixed4 client DefaultRetryConfig kp) ms) db e = (Inl err, rn')"
    and ok: "ok (fst e)" "saga_db_ok db"
    and names: "distinct (map fst ms)" "\<And>m. m \<in> set ms \<Longrightarrow> fst m \<noteq> [] \<and> last (fst m) \<noteq> CHR ''e''"
    and fresh: "\<And>m. m \<in> set ms \<Longrightarrow> unused (IdempotencyKey kp (fst m)) (fst e) \<and>
        unused (IdempotencyKey (saga_id ty tid nano) (fst m) @ '':compensate'') (fst e)"
  shows "ok (run_world rn') \<and>
    (\<not> open_row (saga_id ty tid nano) (rn_rec rn') \<and>
       (\<forall>x. amount_of (fixed4 (- x)) = - amount_of (fixed4 x)) \<longrightarrow> bal (run_world rn') = bal (fst e))"
proof -
  let ?mk = "\<lambda>m. saga_step_of fixed4 (Some client) DefaultRetryConfig (saga_id ty tid nano)
        (balance_step fixed4 client DefaultRetryConfig kp m)"
  note saga = steps_compensable [of fixed4 "saga_id ty tid nano" kp]
  from executed_saga [OF run] names(2) obtain sg :: "(saga_db, state_val, 'w) saga" and rn where sg:
    "Execute sg ctx rn = (Inl err, rn')" "sg_steps sg = map ?mk ms"
    "sg_id sg = saga_id ty tid nano" "run_world rn = fst e" "sg_recorder sg = tx_recorder"
    "rn_rec rn = db" "rn_events rn = []"
    by (metis (no_types, lifting))
  note eff = compensable.execute_failure [OF saga sg(1,2) _ _ step_keys_distinct(2) [OF names], unfolded sg(3,4)]
  show ?thesis
  proof (intro conjI impI)
    show "ok (run_world rn')" using eff ok fresh by fastforce
  next
    assume a: "\<not> open_row (saga_id ty tid nano) (rn_rec rn') \<and>
       (\<forall>x. amount_of (fixed4 (- x)) = - amount_of (fixed4 x))"
    with tx_log.execute_leaves_row [OF sg(1,5)] ok(2) sg(3,6,7)
    have s: "(stuck_event (saga_id ty tid nano) \<in> set (rn_events rn')) = False" by auto
    show "bal (run_world rn') = bal (fst e)"
      by (rule net_effect_clean [OF conjunct2 [OF eff, unfolded s]]) (use ok fresh a in fastforce)+
  qed
qed

end

section \<open>The account service as the port\<close>

definition rpc_ok :: "account_world \<Rightarrow> bool" where
  "rpc_ok w \<longleftrightarrow> funds_ok (snd w)"

definition rpc_unused :: "string \<Rightarrow> account_world \<Rightarrow> bool" where
  "rpc_unused k w \<longleftrightarrow> fst w k = None \<and> \<not> key_seen k (snd w)"

definition rpc_balance :: "account_world \<Rightarrow> string \<Rightarrow> decimal" where
  "rpc_balance w n = balance_of (snd w) n"

definition read_amount :: "(string \<Rightarrow> decimal option) \<Rightarrow> string \<Rightarrow> decimal" where
  "read_amount parse x = (case parse x of None \<Rightarrow> 0 | Some d \<Rightarrow> d)"

lemma key_seen_append: "ledger s' = ledger s @ [e] \<Longrightarrow> le_IdempotencyKey e \<noteq> k \<Longrightarrow> key_seen k s' = key_seen k s"
  by (auto simp: key_seen_def)

lemma GetAccountByNumber_keeps:
  assumes "GetAccountByNumber n s = (res, s')"
  shows "funds_ok s' = funds_ok s \<and> balance_of s' m = balance_of s m \<and> (key_seen k s' = key_seen k s)"
  using assms
  by (auto simp: GetAccountByNumber_def cache_fill_keeps balance_of_def key_seen_def split: option.splits)

lemma execute_moves:
  assumes ok: "funds_ok s" and u: "rq_UpdateAvailable req"
    and run: "executeUpdateBalance parse to_resp req s = (res, s')"
  shows "funds_ok s' \<and>
    (if (\<exists>e. res = Inl e) \<or> key_seen (rq_IdempotencyKey req) s
     then (\<forall>n. balance_of s' n = balance_of s n) \<and> (\<forall>k. key_seen k s' = key_seen k s)
     else (\<forall>n. balance_of s' n = balance_of s n +
             (if n = rq_AccountNumber req then read_amount parse (rq_Amount req) else 0)) \<and>
          (\<forall>k. k \<noteq> rq_IdempotencyKey req \<longrightarrow> key_seen k s' = key_seen k s))"
proof -
  define n where "n = rq_AccountNumber req"
  define x where "x = read_amount parse (rq_Amount req)"
  define opts where "opts = \<lparr>ub_Memo = rq_Memo req, ub_IdempotencyKey = rq_IdempotencyKey req\<rparr>"
  obtain r t where ub: "UpdateBalance n x True opts s = (r, t)" by fastforce
  have run': "(case UpdateBalanceWithOpts n x True opts s of
           (Inl e, s') \<Rightarrow>
             (Inl (if e = ErrRecordNotFound then Status NotFound ''account not found'' else e), s')
         | (Inr _, s') \<Rightarrow>
             (case GetAccountByNumber n s' of
                (Inl _, s2) \<Rightarrow> (Inl (Status Internal ''failed to fetch updated account''), s2)
              | (Inr account, s2) \<Rightarrow> (Inr (to_resp account), s2))) = (res, s')"
    using run u unfolding executeUpdateBalance_def Let_def n_def x_def opts_def read_amount_def by auto
  from funds_okD(1) [OF ok] ub show ?thesis
  proof (cases rule: UpdateBalanceE)
    case (error e)
    with run' ub ok show ?thesis by (auto simp: UpdateBalanceWithOpts_def)
  next
    case (replay e)
    define t' where "t' = evictAccountCache (case GetByNumber n t of None \<Rightarrow> 0 | Some a \<Rightarrow> acc_ID a) n t"
    obtain g t2 where g: "GetAccountByNumber n t' = (g, t2)" by fastforce
    from run' ub replay g have s': "s' = t2" by (auto simp: UpdateBalanceWithOpts_def t'_def split: sum.splits)
    have "funds_ok t'" "balance_of t' m = balance_of s m" "key_seen k t' = key_seen k s" for m k
      using ok replay(3) by (simp_all add: t'_def balance_of_def key_seen_def)
    with GetAccountByNumber_keeps [OF g] replay(2) show ?thesis by (simp add: s' opts_def)
  next
    case (fresh e a)
    note k = after_balance_keeps [OF ok fresh(3), where x = x and opts = opts]
    define t' where "t' = evictAccountCache (acc_ID a) n t"
    have look: "GetByNumber n t' = Some (balance_update x True a)"
      using after_balance_keeps(5) [OF ok fresh(3), of n x True opts] fresh(7) by (simp add: t'_def GetByNumber_def)
    have acc_id: "acc_ID (balance_update x True a) = acc_ID a" by (simp add: balance_update_def Let_def)
    have upd: "UpdateBalanceWithOpts n x True opts s = (Inr (), t')"
      using ub fresh look acc_id by (simp add: UpdateBalanceWithOpts_def t'_def GetByNumber_def)
    have "n \<noteq> []" using GetByNumberD [OF fresh(3)] funds_okD(1) [OF ok] by (auto simp: keys_ok_def)
    then have "cache_num t' n = None" by (simp add: t'_def evictAccountCache_def Let_def)
    with look have g: "GetAccountByNumber n t' = (Inr (balance_update x True a), t'\<lparr>cache_num := (cache_num t')(n \<mapsto> balance_update x True a)\<rparr>)"
      by (simp add: GetAccountByNumber_def)
    from run' upd g have res: "res = Inr (to_resp (balance_update x True a))"
      "s' = t'\<lparr>cache_num := (cache_num t')(n \<mapsto> balance_update x True a)\<rparr>" by simp_all
    have led: "ledger s' = ledger s @ [e]" using fresh(6,7) by (simp add: res t'_def after_balance_def)
    have e: "le_AccountNumber e = n" "entry_sign e = x" "le_IdempotencyKey e = rq_IdempotencyKey req"
      by (simp_all add: fresh(6) opts_def balance_entry_def entry_sign_def)
    have "ledger_gap s' m = ledger_gap s m" for m using k(2) [of True] by (simp add: res t'_def cache_fill_keeps fresh(7))
    moreover have "ledger_net s' m = ledger_net s m + (if m = n then x else 0)" for m
      by (simp add: ledger_net_def led e)
    ultimately have bal: "balance_of s' m = balance_of s m + (if m = n then x else 0)" for m
      by (metis add_diff_cancel_left' diff_add_cancel diff_diff_eq2 ledger_gap_def)
    have "funds_ok s'" using k(1) by (simp add: res t'_def cache_fill_keeps fresh(7))
    with bal key_seen_append [OF led] e(3) fresh(2) show ?thesis by (simp add: res(1) n_def x_def opts_def)
  qed
qed

lemma rpc_runs:
  assumes "ac_UpdateBalance (rpc_client owns fixed4 parse blob) req (tbl, s) = (res, (tbl', s'))"
  obtains (nokey) e where "res = Inl e" "(tbl', s') = (tbl, s)"
  | (cached) b where "res = Inr ()" "tbl (rq_IdempotencyKey req) = Some b" "(tbl', s') = (tbl, s)"
  | (failed) e where "tbl (rq_IdempotencyKey req) = None" "res = Inl e" "tbl' = tbl"
      "executeUpdateBalance parse (toAccountResponse fixed4) req s = (Inl e, s')"
  | (ran) out where "tbl (rq_IdempotencyKey req) = None" "res = Inr ()"
      "tbl' = tbl(rq_IdempotencyKey req \<mapsto> out)"
      "executeUpdateBalance parse (toAccountResponse fixed4) req s = (Inr out, s')"
proof -
  let ?k = "rq_IdempotencyKey req"
  obtain r t where ex: "executeUpdateBalance parse (toAccountResponse fixed4) req s = (r, t)" by fastforce
  show thesis
  proof (cases "?k = []")
    case True
    with assms show thesis by (intro nokey) (auto simp: rpc_client_def UpdateBalanceRPC_def)
  next
    case False
    show thesis
    proof (cases "tbl ?k")
      case (Some b)
      with False assms show thesis
        by (intro cached [OF _ Some]) (auto simp: rpc_client_def UpdateBalanceRPC_def Run_def)
    next
      case None
      show thesis
      proof (cases r)
        case (Inl e)
        with False None assms ex show thesis
          by (intro failed [OF None, of e]) (auto simp: rpc_client_def UpdateBalanceRPC_def Run_def Let_def)
      next
        case (Inr out)
        with False None assms ex show thesis
          by (intro ran [OF None, of out]) (auto simp: rpc_client_def UpdateBalanceRPC_def Run_def Let_def)
      qed
    qed
  qed
qed

interpretation rpc: balance_port "rpc_client owns fixed4 parse blob" "read_amount parse" rpc_ok rpc_unused rpc_balance
  for owns fixed4 parse blob
proof (unfold_locales, goal_cases)
  case (1 w req err w')
  obtain tbl s tbl' s' where w: "w = (tbl, s)" "w' = (tbl', s')" by fastforce
  from 1(3) [unfolded w] show ?case
  proof (cases rule: rpc_runs)
    case (failed e)
    with execute_moves [OF _ 1(2) failed(4)] 1(1) show ?thesis
      by (auto simp: w moved_def rpc_ok_def rpc_unused_def rpc_balance_def)
  qed (use 1(1) in \<open>auto simp: w moved_refl\<close>)
next
  case (2 w req w')
  obtain tbl s tbl' s' where w: "w = (tbl, s)" "w' = (tbl', s')" by fastforce
  from 2(4) [unfolded w] show ?case
  proof (cases rule: rpc_runs)
    case (ran out)
    with execute_moves [OF _ 2(2) ran(4)] 2(1,3) show ?thesis
      by (auto simp: w moved_def rpc_ok_def rpc_unused_def rpc_balance_def)
  qed (use 2(3) in \<open>auto simp: w rpc_unused_def\<close>)
next
  case (3 w req res w')
  obtain tbl s tbl' s' where w: "w = (tbl, s)" "w' = (tbl', s')" by fastforce
  from 3(4) [unfolded w] show ?case
  proof (cases rule: rpc_runs)
    case (failed e)
    with execute_moves [OF _ 3(2) failed(4)] 3(1) show ?thesis
      by (auto simp: w moved_def rpc_ok_def rpc_unused_def rpc_balance_def)
  next
    case (ran out)
    with 3(3) have seen: "key_seen (rq_IdempotencyKey req) s" by (simp add: w rpc_unused_def)
    with execute_moves [OF _ 3(2) ran(4)] 3(1) ran show ?thesis
      by (auto simp: w moved_def rpc_ok_def rpc_unused_def rpc_balance_def)
  qed (use 3(1) in \<open>auto simp: w moved_refl\<close>)
next
  case (4 w acct got w')
  obtain tbl s tbl' s' where w: "w = (tbl, s)" "w' = (tbl', s')" by fastforce
  from 4(2) obtain r where "GetAccountByNumber acct s = (r, s')" "tbl' = tbl"
    by (auto simp: w rpc_client_def GetAccountByNumberRPC_def split: sum.splits prod.splits if_splits)
  with GetAccountByNumber_keeps [of acct s r s'] 4(1) show ?case
    by (auto simp: w moved_def rpc_ok_def rpc_unused_def rpc_balance_def)
next
  case (5 w listed w')
  then show ?case by (auto simp: rpc_client_def ListBankAccountsRPC_def moved_refl split: prod.splits)
qed

interpretation rpc_saga: recorded_saga
  "\<lambda>m. saga_step_of fixed4 (Some (rpc_client owns fixed4 parse blob)) DefaultRetryConfig sagaID
     (balance_step fixed4 (rpc_client owns fixed4 parse blob) DefaultRetryConfig keyPrefix m)"
  rpc_ok rpc_unused rpc_balance
  "\<lambda>(_, acct, amount) n. if n = acct then read_amount parse (fixed4 amount) else 0"
  "\<lambda>(_, acct, amount) n. if n = acct then read_amount parse (fixed4 (- amount)) else 0"
  "\<lambda>(name, _). IdempotencyKey keyPrefix name"
  "\<lambda>(name, _). IdempotencyKey sagaID name @ '':compensate''"
  tx_recorder saga_db_ok
  for owns fixed4 parse blob sagaID keyPrefix
  by (intro recorded_saga.intro rpc.steps_compensable tx_log.recorder_port_axioms)

section \<open>The recovery loop\<close>

definition tick_row :: "saga_log \<Rightarrow> saga_log \<Rightarrow> bool" where
  "tick_row l l' \<longleftrightarrow> sl_ID l' = sl_ID l \<and>
     (sl_Status l' = ''completed'' \<or>
      sl_RetryCount l' = sl_RetryCount l + 1 \<and>
        sl_Status l' = (if sl_RetryCount l + 1 \<ge> maxSagaCompensationRetries then ''dead_letter'' else sl_Status l))"

lemma recover_one_row:
  assumes "recover_one fixed4 client cfg ctx row (db, pub, e) = (db', pub', e')"
  shows "\<exists>f. saga_logs db' = upd_rows (\<lambda>l. sl_ID l = sl_ID row) f (saga_logs db) \<and> tick_row row (f row)"
proof -
  obtain res e1 where "retry_update client cfg
      (balance_request (sl_AccountNumber row) (fixed4 (sl_Amount row)) (''compensate-'' @ itoa (sl_ID row)))
      ctx e = (res, e1)" by (rule prod.exhaust)
  note run = assms [unfolded recover_one_def, simplified, unfolded this [simplified]]
  show ?thesis
  proof (cases res)
    case (Inr u)
    with run show ?thesis
      by (intro exI [of _ "\<lambda>l. l\<lparr>sl_Status := ''completed'', sl_CompletedAt := Some (tx_now db)\<rparr>"])
        (auto simp: CompleteStep_def update_log_def tick_row_def)
  next
    case (Inl err)
    show ?thesis
    proof (cases "sl_RetryCount row + 1 \<ge> maxSagaCompensationRetries")
      case True
      with run Inl show ?thesis
        by (intro exI [of _ "\<lambda>l. l\<lparr>sl_RetryCount := sl_RetryCount l + 1, sl_Status := ''dead_letter'',
               sl_ErrorMessage := Some err\<rparr>"])
          (auto simp: IncrementRetryCount_def MarkDeadLetterRow_def update_log_def tick_row_def upd_rows_twice)
    next
      case False
      with run Inl show ?thesis
        by (intro exI [of _ "\<lambda>l. l\<lparr>sl_RetryCount := sl_RetryCount l + 1\<rparr>"])
          (auto simp: IncrementRetryCount_def update_log_def tick_row_def)
    qed
  qed
qed

lemma recover_rows:
  assumes "fold (recover_one fixed4 client cfg ctx) rows (db, pub, e) = (db', pub', e')"
    and "distinct (map sl_ID (saga_logs db))" "distinct rows" "set rows \<subseteq> set (saga_logs db)"
  shows "list_all2 (\<lambda>l l'. if l \<in> set rows then tick_row l l' else l' = l) (saga_logs db) (saga_logs db')"
  using assms
proof (induction rows arbitrary: db pub e)
  case Nil
  then show ?case by (auto simp: list_all2_refl)
next
  case (Cons row rows)
  obtain db1 pub1 e1 where one: "recover_one fixed4 client cfg ctx row (db, pub, e) = (db1, pub1, e1)"
    by (rule prod_cases3)
  from recover_one_row [OF one] obtain f where
    f: "saga_logs db1 = upd_rows (\<lambda>l. sl_ID l = sl_ID row) f (saga_logs db)" "tick_row row (f row)" by blast
  have row: "row \<in> set (saga_logs db)" using Cons.prems(4) by simp
  have only: "l = row" if "l \<in> set (saga_logs db)" "sl_ID l = sl_ID row" for l
    by (rule distinct_key_eq [OF Cons.prems(2) that(1) row that(2)])
  have fid: "sl_ID (f row) = sl_ID row" using f(2) by (simp add: tick_row_def)
  have logs: "saga_logs db1 = map (\<lambda>l. if l = row then f row else l) (saga_logs db)"
    unfolding f(1) upd_rows_def using only by (intro map_cong) auto
  have ids: "map sl_ID (saga_logs db1) = map sl_ID (saga_logs db)" using fid by (simp add: logs)
  have sub: "set rows \<subseteq> set (saga_logs db1)" using Cons.prems(3,4) by (auto simp: logs image_iff)
  have fresh: "f row \<notin> set rows"
  proof
    assume "f row \<in> set rows"
    with Cons.prems(4) only [of "f row"] fid have "f row = row" by auto
    with \<open>f row \<in> set rows\<close> Cons.prems(3) show False by simp
  qed
  from Cons.IH [of db1 pub1 e1] Cons.prems one sub ids
  have "list_all2 (\<lambda>l l'. if l \<in> set rows then tick_row l l' else l' = l) (saga_logs db1) (saga_logs db')" by simp
  then have "list_all2 (\<lambda>l l'. if (if l = row then f row else l) \<in> set rows
      then tick_row (if l = row then f row else l) l' else l' = (if l = row then f row else l))
      (saga_logs db) (saga_logs db')"
    by (simp add: logs list_all2_map1)
  then show ?case
    by (rule list_all2_mono) (use fresh f(2) Cons.prems(3) in \<open>auto split: if_splits\<close>)
qed

lemma tick_rows:
  assumes "runRecoveryTick fixed4 True (Some client) cfg ctx (db, pub, e) = (db', pub', e')"
    and "distinct (map sl_ID (saga_logs db))"
  shows "list_all2 (\<lambda>l l'. if sl_Status l = ''compensating'' then tick_row l l' else l' = l)
     (saga_logs db) (saga_logs db')"
proof -
  have "distinct (saga_logs db)" using assms(2) by (simp add: distinct_map)
  with recover_rows [of fixed4 client cfg ctx "FindPendingCompensations db" db pub e db' pub' e'] assms
  have "list_all2 (\<lambda>l l'. if l \<in> set (FindPendingCompensations db) then tick_row l l' else l' = l)
      (saga_logs db) (saga_logs db')"
    by (auto simp: runRecoveryTick_def FindPendingCompensations_def)
  then show ?thesis
    by (rule list.rel_mono_strong) (auto simp: FindPendingCompensations_def split: if_splits)
qed

text \<open>How far a row is after \<open>n\<close> ticks of the loop.\<close>

definition ticked :: "nat \<Rightarrow> saga_log \<Rightarrow> saga_log \<Rightarrow> bool" where
  "ticked n l l' \<longleftrightarrow> sl_ID l' = sl_ID l \<and> (sl_Status l \<noteq> ''compensating'' \<longrightarrow> l' = l) \<and>
     (sl_Status l = ''compensating'' \<longrightarrow>
        sl_Status l' \<in> {''completed'', ''dead_letter''} \<or>
        sl_Status l' = ''compensating'' \<and> sl_RetryCount l' = sl_RetryCount l + n \<and>
        (0 < n \<longrightarrow> sl_RetryCount l' < maxSagaCompensationRetries))"

lemma ticked_step:
  assumes "ticked n l l1" "if sl_Status l1 = ''compensating'' then tick_row l1 l2 else l2 = l1"
  shows "ticked (Suc n) l l2"
  using assms by (auto simp: ticked_def tick_row_def not_le split: if_splits)

lemma ticks_progress:
  assumes "distinct (map sl_ID (saga_logs db))"
    and "fold (runRecoveryTick fixed4 True (Some client) cfg) ctxs (db, pub, e) = (db', pub', e')"
  shows "list_all2 (ticked (length ctxs)) (saga_logs db) (saga_logs db')"
  using assms(2)
proof (induction ctxs arbitrary: db' pub' e' rule: rev_induct)
  case Nil
  then show ?case by (auto simp: list_all2_refl ticked_def)
next
  case (snoc ctx ctxs)
  obtain db1 pub1 e1 where one: "fold (runRecoveryTick fixed4 True (Some client) cfg) ctxs (db, pub, e) = (db1, pub1, e1)"
    by (rule prod_cases3)
  note IH = snoc.IH [OF one]
  then have "map sl_ID (saga_logs db1) = map sl_ID (saga_logs db)"
    by (induction rule: list_all2_induct) (auto simp: ticked_def)
  with tick_rows [of fixed4 client cfg ctx db1 pub1 e1 db' pub' e'] snoc.prems one assms(1)
  have "list_all2 (\<lambda>l l'. if sl_Status l = ''compensating'' then tick_row l l' else l' = l) (saga_logs db1) (saga_logs db')"
    by simp
  from list_all2_trans [OF _ IH this, of "ticked (Suc (length ctxs))"] show ?case
    by (simp add: ticked_step)
qed

text \<open>
  C19: The recovery loop settles every stuck compensation. Rows that are not compensating are never
  touched. A compensating row is completed by the first tick whose retry succeeds; every tick whose
  retry fails adds exactly one to its retry count, and the tick that brings the count to ten moves
  the row to the dead letters. So after ten ticks, whatever the account service answers, no row is
  left compensating.
\<close>

theorem recovery_settles:
  assumes "distinct (map sl_ID (saga_logs db))"
    and "fold (runRecoveryTick fixed4 True (Some client) cfg) ctxs (db, pub, e) = (db', pub', e')"
  shows "list_all2 (ticked (length ctxs)) (saga_logs db) (saga_logs db') \<and>
    (10 \<le> length ctxs \<longrightarrow> FindPendingCompensations db' = [])"
proof -
  note all = ticks_progress [OF assms]
  have "sl_Status l' \<noteq> ''compensating''" if "10 \<le> length ctxs" "l' \<in> set (saga_logs db')" for l'
  proof -
    from all that(2) obtain l where "ticked (length ctxs) l l'"
      by (metis in_set_conv_nth list_all2_conv_all_nth)
    moreover have "0 < length ctxs" using that(1) by linarith
    ultimately show ?thesis using that(1) by (auto simp: ticked_def maxSagaCompensationRetries_def)
  qed
  with all show ?thesis by (auto simp: FindPendingCompensations_def filter_empty_conv)
qed

definition refusing_client :: "unit account_client" where
  "refusing_client =
     \<lparr>ac_UpdateBalance = (\<lambda>_ w. (Inl (Status FailedPrecondition ''insufficient funds''), w)),
      ac_GetAccountByNumber = (\<lambda>_ w. (Inl ErrRecordNotFound, w)), ac_ListBankAccounts = (\<lambda>w. (Inr [], w))\<rparr>"

definition stuck_log :: saga_db where
  "stuck_log =
     \<lparr>saga_logs = [(buildRow ''payment-1-9'' ''debit_sender'' (-1) Map.empty 0)
         \<lparr>sl_ID := 1, sl_Status := ''compensating'', sl_IsCompensation := True\<rparr>],
      seq_saga_logs = 2, tx_now = 0\<rparr>"

theorem recovery_settles_witness:
  "\<exists>db' pub' e'. fold (runRecoveryTick (\<lambda>_. ''5.0000'') True (Some refusing_client) DefaultRetryConfig)
      (replicate 10 (\<lambda>_. None)) (stuck_log, [], ((), 0)) = (db', pub', e') \<and> FindPendingCompensations db' = []"
proof -
  obtain db' pub' e' where run: "fold (runRecoveryTick (\<lambda>_. ''5.0000'') True (Some refusing_client) DefaultRetryConfig)
      (replicate 10 (\<lambda>_. None)) (stuck_log, [], ((), 0)) = (db', pub', e')" by (rule prod_cases3)
  have "distinct (map sl_ID (saga_logs stuck_log))" by (simp add: stuck_log_def)
  from recovery_settles [OF this run] have "FindPendingCompensations db' = []" by simp
  with run show ?thesis by blast
qed

end
