(* ===== verification/Tx_Payment_Safety.thy ===== *)
theory Tx_Payment_Safety
  imports Tx_Payment Tx_Saga_Safety
begin

text \<open>
  What creating and executing a payment does to the payment table, the saga log and the balances.
  The statements are about a service wired to the account service's own RPCs; the lemmas behind
  them hold for every client that keeps the contract \<open>balance_port\<close>.
\<close>

section \<open>The payment table\<close>

lemma save_payment_found:
  assumes "PaymentByID i db = Some p" "\<And>q. pay_ID (f q) = pay_ID q"
  shows "\<exists>db'. save_payment i f db = (Inr (), db') \<and>
    PaymentByID i db' = Some ((f p)\<lparr>pay_Version := pay_Version p + 1\<rparr>) \<and> sagas db' = sagas db"
proof -
  have i: "pay_ID p = i" using find_SomeD assms(1) unfolding PaymentByID_def by fast
  let ?r = "(f p)\<lparr>pay_Version := pay_Version p + 1\<rparr>"
  have "pay_ID ?r = i" by (simp add: assms(2) i)
  with find_put_row [of pay_ID ?r "payments db" p] assms(1) show ?thesis
    by (simp add: save_payment_def PaymentByID_def)
qed

lemma publish_keeps [simp]:
  "PaymentByID i (publish m db) = PaymentByID i db" "sagas (publish m db) = sagas db"
  by (simp_all add: publish_def PaymentByID_def)

lemma publishPaymentFailed_keeps [simp]:
  "PaymentByID i (publishPaymentFailed s p r db) = PaymentByID i db"
  "sagas (publishPaymentFailed s p r db) = sagas db"
  by (simp_all add: publishPaymentFailed_def)

lemma notify_owner_keeps:
  assumes "notify_owner client acct msg (db, e) = (db', e')"
  shows "PaymentByID i db' = PaymentByID i db \<and> sagas db' = sagas db"
  using assms by (cases e) (auto simp: notify_owner_def split: prod.splits sum.splits)

section \<open>Readers of the port\<close>

context balance_port
begin

lemma notify_owner_reads:
  assumes "notify_owner client acct msg (db, e) = (db', e')" "ok (fst e)"
  shows "moved ok unused bal {} (\<lambda>_. 0) (fst e) (fst e')"
proof -
  obtain w n where e: "e = (w, n)" by (rule prod.exhaust)
  obtain r w' where "ac_GetAccountByNumber client acct w = (r, w')" by (rule prod.exhaust)
  with lookup_reads [OF _ this] assms e show ?thesis by (cases r) (auto simp: notify_owner_def)
qed

lemma execution_limit_reads:
  assumes "execution_limit (Some client) DefaultRetryConfig dt ctx acct x e = (r, e')" "ok (fst e)"
  shows "moved ok unused bal {} (\<lambda>_. 0) (fst e) (fst e')"
proof -
  obtain g e1 where g: "retry_get (ac_GetAccountByNumber client acct) DefaultRetryConfig ctx e = (g, e1)"
    by (rule prod.exhaust)
  have "moved ok unused bal {} (\<lambda>_. 0) (fst e) (fst e1)"
    by (rule retry_get_reads [OF _ g assms(2)]) (rule lookup_reads)
  moreover have "e' = e1" using assms(1) g by (auto simp: execution_limit_def split: sum.splits option.splits)
  ultimately show ?thesis by simp
qed

lemma failed_notification_reads:
  assumes "publishPaymentFailedNotification s p (db, e) = (db', e')" "ps_accountClient s = Some client" "ok (fst e)"
  shows "moved ok unused bal {} (\<lambda>_. 0) (fst e) (fst e') \<and> PaymentByID i db' = PaymentByID i db \<and> sagas db' = sagas db"
  using assms notify_owner_reads [of "pay_FromAccountNumber p" _ db e db' e']
    notify_owner_keeps [of client "pay_FromAccountNumber p" _ db e db' e' i]
  by (auto simp: publishPaymentFailedNotification_def moved_refl split: if_splits)

lemma notifications_read:
  assumes "publishPaymentNotifications s p (db, e) = (db', e')" "ps_accountClient s = Some client" "ok (fst e)"
  shows "moved ok unused bal {} (\<lambda>_. 0) (fst e) (fst e') \<and> PaymentByID i db' = PaymentByID i db \<and> sagas db' = sagas db"
proof (cases "ps_producer s")
  case False
  with assms show ?thesis by (simp add: publishPaymentNotifications_def moved_refl)
next
  case True
  let ?amount = "StringFixed2 (ps_decimals s) (pay_InitialAmount p)"
  let ?sent = "\<lambda>owner. GeneralNotification owner ''PAYMENT_SENT''
     [(''amount'', ?amount), (''to_account'', pay_ToAccountNumber p)] ''payment'' (pay_ID p)"
  obtain db1 e1 where one: "notify_owner client (pay_FromAccountNumber p) ?sent (db, e) = (db1, e1)"
    by (rule prod.exhaust)
  with True assms(1,2) obtain msg where
    two: "notify_owner client (pay_ToAccountNumber p) msg (db1, e1) = (db', e')"
    by (auto simp: publishPaymentNotifications_def Let_def)
  note m1 = notify_owner_reads [OF one assms(3)]
  note m2 = notify_owner_reads [OF two moved_inv [OF m1]]
  from moved_trans [OF m1 m2] notify_owner_keeps [OF one] notify_owner_keeps [OF two] show ?thesis by simp
qed

end

section \<open>Executing\<close>

definition wired :: "'w payment_service \<Rightarrow> 'w account_client \<Rightarrow> bool" where
  "wired s client \<longleftrightarrow>
     ps_accountClient s = Some client \<and> ps_retryConfig s = DefaultRetryConfig \<and> ps_sagaRepo s"

abbreviation payment_prefix :: "nat \<Rightarrow> string" where
  "payment_prefix i \<equiv> ''payment-'' @ itoa i"

abbreviation payment_steps :: "'w payment_service \<Rightarrow> 'w account_client \<Rightarrow> payment \<Rightarrow> 'w saga_step list" where
  "payment_steps s client p \<equiv>
     map (balance_step (StringFixed4 (ps_decimals s)) client DefaultRetryConfig (payment_prefix (pay_ID p)))
       (payment_moves (ps_bankRSDAccount s) p)"

lemma payment_moves_status [simp]: "payment_moves b (p\<lparr>pay_Status := st\<rparr>) = payment_moves b p"
  by (simp add: payment_moves_def)

lemma payment_moves_names:
  "distinct (map fst (payment_moves b p))"
  "m \<in> set (payment_moves b p) \<Longrightarrow>
     fst m \<in> {''debit_sender'', ''credit_recipient'', ''credit_bank_commission''}"
  "m \<in> set (payment_moves b p) \<Longrightarrow> fst m \<noteq> [] \<and> last (fst m) \<noteq> CHR ''e''"
  by (auto simp: payment_moves_def split: if_splits)

lemma UpdatePaymentStatus_found:
  assumes "PaymentByID i db = Some p"
  shows "\<exists>db'. UpdatePaymentStatusWithReason i ''failed'' reason db = (Inr (), db') \<and>
      (\<exists>q. PaymentByID i db' = Some q \<and> pay_Status q = ''failed'') \<and> sagas db' = sagas db"
    "\<exists>db'. UpdatePaymentStatus i st db = (Inr (), db') \<and>
      PaymentByID i db' = Some (p\<lparr>pay_Status := st, pay_Version := pay_Version p + 1\<rparr>) \<and> sagas db' = sagas db"
  using save_payment_found [OF assms, of "\<lambda>p. p\<lparr>pay_Status := ''failed'', pay_FailureReason := reason\<rparr>"]
    save_payment_found [OF assms, of "\<lambda>p. p\<lparr>pay_Status := st\<rparr>"]
  by (auto simp: UpdatePaymentStatus_def UpdatePaymentStatusWithReason_def)

lemma ExecutePaymentE:
  assumes run: "ExecutePayment s ctx nano i db e = (res, db', e')" and w: "wired s client"
    and p: "PaymentByID i db = Some p" "pay_Status p = ''pending_verification''"
  obtains (limit) reason where "res = Inl (Plain reason)"
      "execution_limit (Some client) DefaultRetryConfig (ps_decimals s) ctx (pay_FromAccountNumber p) (pay_FinalAmount p) e = (Some reason, e')"
      "\<exists>q. PaymentByID i db' = Some q \<and> pay_Status q = ''failed''" "sagas db' = sagas db"
  | (failed) err e1 rn db2 q where "res = Inl err"
      "execution_limit (Some client) DefaultRetryConfig (ps_decimals s) ctx (pay_FromAccountNumber p) (pay_FinalAmount p) e = (None, e1)"
      "executeWithSaga (StringFixed4 (ps_decimals s)) ctx True (Some client) DefaultRetryConfig nano (pay_ID p) ''payment''
         (payment_steps s client p) (sagas db) e1 = (Inl err, rn)"
      "publishPaymentFailedNotification s q (db2, (run_world rn, snd (rn_env rn))) = (db', e')"
      "sagas db2 = rn_rec rn" "\<exists>q. PaymentByID i db2 = Some q \<and> pay_Status q = ''failed''"
  | (paid) e1 rn db2 q where "res = Inr ()"
      "execution_limit (Some client) DefaultRetryConfig (ps_decimals s) ctx (pay_FromAccountNumber p) (pay_FinalAmount p) e = (None, e1)"
      "executeWithSaga (StringFixed4 (ps_decimals s)) ctx True (Some client) DefaultRetryConfig nano (pay_ID p) ''payment''
         (payment_steps s client p) (sagas db) e1 = (Inr (), rn)"
      "publishPaymentNotifications s q (db2, (run_world rn, snd (rn_env rn))) = (db', e')"
      "sagas db2 = rn_rec rn"
      "\<exists>q. PaymentByID i db2 = Some q \<and> pay_Status q = ''completed'' \<and> pay_CompletedAt q = pay_CompletedAt p"
proof -
  have i: "pay_ID p = i" using find_SomeD p(1) unfolding PaymentByID_def by fast
  from UpdatePaymentStatus_found(2) [OF p(1), of "''processing''"] obtain db1 where
    db1: "UpdatePaymentStatus i ''processing'' db = (Inr (), db1)" "sagas db1 = sagas db"
    "PaymentByID i db1 = Some (p\<lparr>pay_Status := ''processing'', pay_Version := pay_Version p + 1\<rparr>)"
    by auto
  obtain lim e1 where lim: "execution_limit (Some client) DefaultRetryConfig (ps_decimals s) ctx
      (pay_FromAccountNumber p) (pay_FinalAmount p) e = (lim, e1)" by (rule prod.exhaust)
  obtain r rn where sg: "executeWithSaga (StringFixed4 (ps_decimals s)) ctx True (Some client) DefaultRetryConfig nano
      (pay_ID p) ''payment'' (payment_steps s client p) (sagas db) e1 = (r, rn)" by (rule prod.exhaust)
  have ps: "run_payment_saga s ctx nano (p\<lparr>pay_Status := ''processing''\<rparr>) db1 e1 =
      (r, db1\<lparr>sagas := rn_rec rn\<rparr>, (run_world rn, snd (rn_env rn)))"
    using w sg db1(2) by (simp add: run_payment_saga_def wired_def Let_def)
  have same: "PaymentByID i (db1\<lparr>sagas := rn_rec rn\<rparr>) = Some (p\<lparr>pay_Status := ''processing'', pay_Version := pay_Version p + 1\<rparr>)"
    using db1(3) by (simp add: PaymentByID_def)
  from w have w': "ps_accountClient s = Some client" "ps_retryConfig s = DefaultRetryConfig" by (simp_all add: wired_def)
  show thesis
  proof (cases lim)
    case (Some reason)
    from UpdatePaymentStatus_found(1) [OF db1(3), of reason] obtain db3 where
      "UpdatePaymentStatusWithReason i ''failed'' reason db1 = (Inr (), db3)"
      "\<exists>q. PaymentByID i db3 = Some q \<and> pay_Status q = ''failed''" "sagas db3 = sagas db1" by blast
    with run p i db1 lim Some w' show thesis
      by (intro limit [of reason]) (auto simp: ExecutePayment_def Let_def)
  next
    case None
    note lim = lim [unfolded None]
    show thesis
    proof (cases r)
      case (Inl err)
      from UpdatePaymentStatus_found(1) [OF same, of "''payment execution failed''"] obtain db3 where
        "UpdatePaymentStatusWithReason i ''failed'' ''payment execution failed'' (db1\<lparr>sagas := rn_rec rn\<rparr>) = (Inr (), db3)"
        "\<exists>q. PaymentByID i db3 = Some q \<and> pay_Status q = ''failed''" "sagas db3 = rn_rec rn" by auto
      with run p i db1(1) lim w' ps Inl show thesis
        by (intro failed [OF _ lim sg [unfolded Inl], of
              "p\<lparr>pay_Status := ''processing'', pay_FailureReason := ''payment execution failed''\<rparr>"
              "publishPaymentFailed s (p\<lparr>pay_Status := ''processing''\<rparr>) ''payment execution failed'' db3"])
          (auto simp: ExecutePayment_def Let_def)
    next
      case (Inr u)
      then have sg': "executeWithSaga (StringFixed4 (ps_decimals s)) ctx True (Some client) DefaultRetryConfig nano
          (pay_ID p) ''payment'' (payment_steps s client p) (sagas db) e1 = (Inr (), rn)" using sg by simp
      from UpdatePaymentStatus_found(2) [OF same, of "''completed''"] obtain db3 where
        "UpdatePaymentStatus i ''completed'' (db1\<lparr>sagas := rn_rec rn\<rparr>) = (Inr (), db3)"
        "\<exists>q. PaymentByID i db3 = Some q \<and> pay_Status q = ''completed'' \<and> pay_CompletedAt q = pay_CompletedAt p"
        "sagas db3 = rn_rec rn" by auto
      with run p i db1 lim w' ps Inr show thesis
        by (intro paid [OF _ lim sg', of "p\<lparr>pay_Status := ''completed''\<rparr>" db3])
          (auto simp: ExecutePayment_def Let_def)
    qed
  qed
qed

context balance_port
begin

lemma payment_run:
  assumes run: "ExecutePayment s ctx nano i db e = (res, db', e')" and w: "wired s client"
    and p: "PaymentByID i db = Some p" "pay_Status p = ''pending_verification''"
    and ok: "ok (fst e)" "saga_db_ok (sagas db)"
      "\<And>l. l \<in> set (saga_logs (sagas db)) \<Longrightarrow> sl_SagaID l \<noteq> saga_id ''payment'' i nano"
    and fresh: "\<And>m. m \<in> set (payment_moves (ps_bankRSDAccount s) p) \<Longrightarrow>
        unused (IdempotencyKey (payment_prefix i) (fst m)) (fst e) \<and>
        unused (IdempotencyKey (saga_id ''payment'' i nano) (fst m) @ '':compensate'') (fst e)"
  shows "ok (fst e') \<and>
    (case res of
       Inr _ \<Rightarrow>
         (\<forall>n. bal (fst e') n = bal (fst e) n +
            move_effect (\<lambda>x. amount_of (StringFixed4 (ps_decimals s) x)) (payment_moves (ps_bankRSDAccount s) p) n) \<and>
         (\<exists>q. PaymentByID i db' = Some q \<and> pay_Status q = ''completed'' \<and> pay_CompletedAt q = pay_CompletedAt p)
     | Inl _ \<Rightarrow>
         (\<exists>q. PaymentByID i db' = Some q \<and> pay_Status q = ''failed'') \<and>
         (\<not> open_row (saga_id ''payment'' i nano) (sagas db') \<and>
          (\<forall>x. amount_of (StringFixed4 (ps_decimals s) (- x)) = - amount_of (StringFixed4 (ps_decimals s) x)) \<longrightarrow>
          bal (fst e') = bal (fst e)))"
proof -
  have i: "pay_ID p = i" using find_SomeD p(1) unfolding PaymentByID_def by fast
  from w have cl: "ps_accountClient s = Some client" by (simp add: wired_def)
  note names = payment_moves_names(1) [of "ps_bankRSDAccount s" p]
    payment_moves_names(3) [where b = "ps_bankRSDAccount s" and p = p]
  from run w p show ?thesis
  proof (cases rule: ExecutePaymentE)
    case (limit reason)
    from execution_limit_reads [OF limit(2) ok(1)] limit show ?thesis by (auto simp: moved_def)
  next
    case (failed err e1 rn db2 q)
    note m1 = execution_limit_reads [OF failed(2) ok(1)]
    have fresh1: "unused (IdempotencyKey (payment_prefix (pay_ID p)) (fst m)) (fst e1) \<and>
        unused (IdempotencyKey (saga_id ''payment'' (pay_ID p) nano) (fst m) @ '':compensate'') (fst e1)"
      if "m \<in> set (payment_moves (ps_bankRSDAccount s) p)" for m
      using fresh [OF that] moved_unused [OF m1] by (simp add: i)
    from saga_failure [OF failed(3) moved_inv [OF m1] ok(2) names fresh1]
    have sf: "ok (run_world rn)" "\<not> open_row (saga_id ''payment'' i nano) (rn_rec rn) \<and>
       (\<forall>x. amount_of (StringFixed4 (ps_decimals s) (- x)) = - amount_of (StringFixed4 (ps_decimals s) x)) \<longrightarrow>
       bal (run_world rn) = bal (fst e1)" by (simp_all add: i)
    from failed_notification_reads [OF failed(4) cl] sf(1)
    have m2: "moved ok unused bal {} (\<lambda>_. 0) (run_world rn) (fst e')" "PaymentByID i db' = PaymentByID i db2" "sagas db' = rn_rec rn"
      using failed(5) by auto
    have "bal (fst e1) = bal (fst e)" "bal (fst e') = bal (run_world rn)"
      using moved_amount [OF m1] moved_amount [OF m2(1)] by auto
    with sf(2) m2(2,3) moved_inv [OF m2(1)] failed(1,6) show ?thesis by simp
  next
    case (paid e1 rn db2 q)
    note m1 = execution_limit_reads [OF paid(2) ok(1)]
    have "unused (IdempotencyKey (payment_prefix (pay_ID p)) (fst m)) (fst e1)"
      if "m \<in> set (payment_moves (ps_bankRSDAccount s) p)" for m
      using fresh [OF that] moved_unused [OF m1] by (simp add: i)
    from saga_success [OF paid(3) moved_inv [OF m1] ok(2) _ names this] ok(3)
    have ss: "ok (run_world rn)" "\<forall>n. bal (run_world rn) n = bal (fst e1) n +
        move_effect (\<lambda>x. amount_of (StringFixed4 (ps_decimals s) x)) (payment_moves (ps_bankRSDAccount s) p) n"
      by (simp_all add: i)
    from notifications_read [OF paid(4) cl] ss(1)
    have m2: "moved ok unused bal {} (\<lambda>_. 0) (run_world rn) (fst e')" "PaymentByID i db' = PaymentByID i db2" by auto
    with ss(2) moved_amount [OF m1] moved_amount [OF m2(1)] moved_inv [OF m2(1)] paid(1,6) show ?thesis by simp
  qed
qed

end

lemma move_effect_total:
  assumes "distinct accts" "\<And>m. m \<in> set ms \<Longrightarrow> fst (snd m) \<in> set accts"
  shows "tsum (move_effect sent ms) accts = tsum (\<lambda>(_, _, x). sent x) ms"
proof -
  have one: "tsum (\<lambda>n. if n = a then v else 0) accts = v" if "a \<in> set accts" for a and v :: rat
    using that assms(1) by (induction accts) (auto intro: tsum_zero)
  have add: "tsum (\<lambda>n. f n + g n) accts = tsum f accts + tsum g accts" for f g :: "string \<Rightarrow> rat"
    by (induction accts) auto
  from assms(2) show ?thesis
  proof (induction ms)
    case Nil
    then show ?case by (auto simp: move_effect_def intro: tsum_zero)
  next
    case (Cons m ms)
    obtain nm a x where m: "m = (nm, a, x)" by (rule prod_cases3)
    have "move_effect sent (m # ms) = (\<lambda>n. (if n = a then sent x else 0) + move_effect sent ms n)"
      by (rule ext) (simp add: move_effect_def m)
    moreover have "tsum (\<lambda>n. (if n = a then sent x else 0) + move_effect sent ms n) accts =
        sent x + tsum (move_effect sent ms) accts"
      using one [of a "sent x"] Cons.prems [of m] by (simp add: add m)
    ultimately show ?case using Cons by (simp add: m)
  qed
qed

lemma moves_total:
  assumes "\<And>n. b' n = b n + move_effect f ms n"
    and "distinct accts" "\<And>m. m \<in> set ms \<Longrightarrow> fst (snd m) \<in> set accts"
  shows "tsum b' accts = tsum b accts + tsum (\<lambda>(_, _, x). f x) ms"
proof -
  have "tsum b' accts - tsum b accts = tsum (move_effect f ms) accts"
    unfolding tsum_diff [symmetric] by (rule tsum_cong) (simp add: assms(1))
  with move_effect_total [OF assms(2,3), of ms f] show ?thesis by simp
qed

section \<open>The payment service over the account service\<close>

text \<open>The service is wired to the account service's own RPC handlers.\<close>

definition bank_client ::
  "decimal_text \<Rightarrow> (nat \<Rightarrow> bool) \<Rightarrow> account_response \<Rightarrow> account_world account_client" where
  "bank_client dt owns blob = rpc_client owns (StringFixed4 dt) (NewFromString dt) blob"

definition sent :: "decimal_text \<Rightarrow> decimal \<Rightarrow> decimal" where
  "sent dt x = read_amount (NewFromString dt) (StringFixed4 dt x)"

text \<open>
  The preconditions of a first execution: the account service's state is consistent, the saga log is
  well formed and holds nothing of this saga, and neither the forward keys nor the compensation keys
  of the steps have been used before.
\<close>

definition first_run :: "string \<Rightarrow> string \<Rightarrow> balance_move list \<Rightarrow> tx_db \<Rightarrow> account_world \<Rightarrow> bool" where
  "first_run pre sid ms db w \<longleftrightarrow>
     rpc_ok w \<and> saga_db_ok (sagas db) \<and> list_all (\<lambda>l. sl_SagaID l \<noteq> sid) (saga_logs (sagas db)) \<and>
     list_all (\<lambda>m. rpc_unused (IdempotencyKey pre (fst m)) w \<and>
       rpc_unused (IdempotencyKey sid (fst m) @ '':compensate'') w) ms"

lemma first_runD:
  assumes "first_run pre sid ms db w"
  shows "rpc_ok w" "saga_db_ok (sagas db)" "\<And>l. l \<in> set (saga_logs (sagas db)) \<Longrightarrow> sl_SagaID l \<noteq> sid"
    "\<And>m. m \<in> set ms \<Longrightarrow> rpc_unused (IdempotencyKey pre (fst m)) w \<and>
       rpc_unused (IdempotencyKey sid (fst m) @ '':compensate'') w"
  using assms by (auto simp: first_run_def list_all_iff)

text \<open>
  C2: Executing a payment that waits for verification ends in one of two ways. If it succeeds, the
  row is completed (its completion time stays as it was, since the repository re-reads the row), every account has moved by exactly the amounts of the three saga steps that name
  it (sender minus the final amount, recipient plus the initial amount, the bank's dinar account plus
  a positive commission), and no other account has moved. If it fails, the row is failed, and unless
  the saga log still holds an unfinished compensation of this saga, no balance has moved at all:
  every step that went through was undone. The second part uses that the decimal library renders
  \<open>- x\<close> as the negation of \<open>x\<close>. In both cases the account service's invariant is kept.
\<close>

theorem payment_outcome:
  assumes w: "wired s (bank_client (ps_decimals s) owns blob)"
    and p: "PaymentByID i db = Some p" "pay_Status p = ''pending_verification''"
    and f: "first_run (payment_prefix i) (saga_id ''payment'' i nano) (payment_moves (ps_bankRSDAccount s) p) db (fst e)"
    and neg: "\<And>x. sent (ps_decimals s) (- x) = - sent (ps_decimals s) x"
    and run: "ExecutePayment s ctx nano i db e = (res, db', e')"
  shows "rpc_ok (fst e') \<and> (case res of
       Inr _ \<Rightarrow>
         (\<exists>q. PaymentByID i db' = Some q \<and> pay_Status q = ''completed'' \<and> pay_CompletedAt q = pay_CompletedAt p) \<and>
         (\<forall>n. rpc_balance (fst e') n = rpc_balance (fst e) n
            - (if n = pay_FromAccountNumber p then sent (ps_decimals s) (pay_FinalAmount p) else 0)
            + (if n = pay_ToAccountNumber p then sent (ps_decimals s) (pay_InitialAmount p) else 0)
            + (if n = ps_bankRSDAccount s \<and> n \<noteq> [] \<and> 0 < pay_Commission p
               then sent (ps_decimals s) (pay_Commission p) else 0))
     | Inl _ \<Rightarrow>
         (\<exists>q. PaymentByID i db' = Some q \<and> pay_Status q = ''failed'') \<and>
         (\<not> open_row (saga_id ''payment'' i nano) (sagas db') \<longrightarrow> rpc_balance (fst e') = rpc_balance (fst e)))"
proof -
  note all = rpc.payment_run [OF run w [unfolded bank_client_def] p first_runD(1) [OF f] first_runD(2) [OF f] first_runD(3) [OF f] first_runD(4) [OF f], folded sent_def]
  show ?thesis
  proof (cases res)
    case (Inl err)
    with all neg show ?thesis by simp
  next
    case (Inr u)
    with all show ?thesis by (auto simp: payment_moves_def move_effect_def neg)
  qed
qed


text \<open>
  A payment of five dinars from account \<open>A\<close> to account \<open>B\<close> of the sample state, with a decimal
  library that knows the two amounts it needs.
\<close>

definition demo_text :: decimal_text where
  "demo_text =
     \<lparr>StringFixed2 = (\<lambda>_. []), StringFixed4 = (\<lambda>x. if x = 5 then ''5'' else if x = -5 then ''-5'' else []),
      NewFromString = (\<lambda>s. if s = ''5'' then Some 5 else if s = ''-5'' then Some (-5) else None)\<rparr>"

definition demo_blob :: account_response where
  "demo_blob =
     \<lparr>ar_AccountNumber = [], ar_OwnerId = 0, ar_AccountCategory = [], ar_CurrencyCode = [],
      ar_AvailableBalance = [], ar_DailyLimit = [], ar_MonthlyLimit = [], ar_DailySpending = [],
      ar_MonthlySpending = []\<rparr>"

abbreviation demo_client :: "account_world account_client" where
  "demo_client \<equiv> bank_client demo_text (\<lambda>_. True) demo_blob"

definition demo_payments :: "account_world payment_service" where
  "demo_payments =
     \<lparr>ps_accountClient = Some demo_client, ps_fees = (\<lambda>_ _ _. Inr []), ps_producer = True,
      ps_bankRSDAccount = ''B'', ps_sagaRepo = True, ps_retryConfig = DefaultRetryConfig, ps_decimals = demo_text\<rparr>"

definition demo_payment :: payment where
  "demo_payment =
     \<lparr>pay_ID = 2, pay_IdempotencyKey = ''k'', pay_ClientID = 1, pay_FromAccountNumber = ''A'',
      pay_ToAccountNumber = ''B'', pay_InitialAmount = 5, pay_FinalAmount = 5, pay_Commission = 0,
      pay_CurrencyCode = ''RSD'', pay_RecipientName = [], pay_PaymentCode = [], pay_ReferenceNumber = [],
      pay_PaymentPurpose = [], pay_Status = ''pending_verification'', pay_FailureReason = [], pay_Version = 1,
      pay_Timestamp = 0, pay_CompletedAt = None\<rparr>"

definition empty_tx :: tx_db where
  "empty_tx =
     \<lparr>payments = [], seq_payments = 1, transfers = [], seq_transfers = 1,
      sagas = \<lparr>saga_logs = [], seq_saga_logs = 1, tx_now = 0\<rparr>, messages = []\<rparr>"

definition demo_tx :: tx_db where
  "demo_tx = empty_tx\<lparr>payments := [demo_payment], seq_payments := 3\<rparr>"

definition demo_world :: account_world where
  "demo_world = (Map.empty, sample_db)"

lemma demo_neg: "sent demo_text (- x) = - sent demo_text x"
proof -
  have "(- x = 5) = (x = -5)" "(- x = -5) = (x = 5)" by auto
  then show ?thesis by (simp add: sent_def read_amount_def demo_text_def)
qed

lemma demo_unused: "rpc_unused k demo_world"
  by (simp add: rpc_unused_def demo_world_def key_seen_def sample_simps)

lemma demo_first: "first_run kp sid ms (empty_tx\<lparr>payments := ps, seq_payments := n\<rparr>) demo_world"
  using sample_ok
  by (simp add: first_run_def demo_unused rpc_ok_def saga_db_ok_def empty_tx_def list_all_iff) (simp add: demo_world_def)

lemma demo_wired: "wired demo_payments (bank_client (ps_decimals demo_payments) (\<lambda>_. True) demo_blob)"
  by (simp add: wired_def demo_payments_def)

lemma demo_pending:
  "PaymentByID 2 demo_tx = Some demo_payment" "pay_Status demo_payment = ''pending_verification''"
  by (simp_all add: PaymentByID_def demo_tx_def demo_payment_def)

lemma demo_unrun:
  "first_run (payment_prefix 2) (saga_id ''payment'' 2 9)
     (payment_moves (ps_bankRSDAccount demo_payments) demo_payment) demo_tx (fst (demo_world, n))"
  by (simp add: demo_tx_def demo_first)

lemma demo_balances:
  "rpc_balance demo_world ''A'' = 100" "rpc_balance demo_world ''B'' = 500" "rpc_balance demo_world ''C'' = 50"
  by (simp_all add: rpc_balance_def demo_world_def balance_of_def sample_simps)

theorem payment_outcome_witness:
  "case ExecutePayment demo_payments (\<lambda>_. None) 9 2 demo_tx (demo_world, 0) of (res, db', e') \<Rightarrow>
     rpc_ok (fst e') \<and>
     (case res of
        Inr _ \<Rightarrow> rpc_balance (fst e') ''A'' = 95 \<and> rpc_balance (fst e') ''B'' = 505 \<and> rpc_balance (fst e') ''C'' = 50
      | Inl _ \<Rightarrow> \<not> open_row (saga_id ''payment'' 2 9) (sagas db') \<longrightarrow> rpc_balance (fst e') ''A'' = 100)"
proof -
  obtain res db' e' where run: "ExecutePayment demo_payments (\<lambda>_. None) 9 2 demo_tx (demo_world, 0) = (res, db', e')"
    by (rule prod_cases3)
  have five: "sent demo_text 5 = 5" by (simp add: sent_def demo_text_def read_amount_def)
  from payment_outcome [OF demo_wired demo_pending demo_unrun _ run] demo_neg show ?thesis unfolding run prod.case
    by (cases res) (simp_all add: demo_payments_def demo_balances demo_payment_def five)
qed

text \<open>
  C7: A completed payment neither creates nor destroys money. Over any set of accounts that contains
  the three parties, the sum of the balances before and after is the same, provided the decimal
  library transmits the three amounts exactly (they have at most four decimals), the row's final
  amount is its initial amount plus the commission, as \<open>CreatePayment\<close> sets it, and the service knows
  a bank account for the commission. Without a bank account the commission leaves the sender and
  reaches nobody: the sum drops by exactly the commission.
\<close>

theorem payment_conserves:
  assumes w: "wired s (bank_client (ps_decimals s) owns blob)"
    and p: "PaymentByID i db = Some p" "pay_Status p = ''pending_verification''"
      "pay_FinalAmount p = pay_InitialAmount p + pay_Commission p" "0 \<le> pay_Commission p"
    and f: "first_run (payment_prefix i) (saga_id ''payment'' i nano) (payment_moves (ps_bankRSDAccount s) p) db (fst e)"
    and exact: "\<And>x. x \<in> {- pay_FinalAmount p, pay_InitialAmount p, pay_Commission p} \<Longrightarrow> sent (ps_decimals s) x = x"
    and accts: "distinct accts" "pay_FromAccountNumber p \<in> set accts" "pay_ToAccountNumber p \<in> set accts"
      "ps_bankRSDAccount s \<in> insert [] (set accts)"
    and run: "ExecutePayment s ctx nano i db e = (res, db', e')"
  shows "res = Inr () \<longrightarrow>
    tsum (rpc_balance (fst e')) accts =
      tsum (rpc_balance (fst e)) accts - (if ps_bankRSDAccount s = [] then pay_Commission p else 0)"
proof
  assume "res = Inr ()"
  with rpc.payment_run [OF run w [unfolded bank_client_def] p(1,2) first_runD(1) [OF f] first_runD(2) [OF f]
      first_runD(3) [OF f] first_runD(4) [OF f], folded sent_def]
  have "tsum (rpc_balance (fst e')) accts = tsum (rpc_balance (fst e)) accts +
      tsum (\<lambda>(_, _, x). sent (ps_decimals s) x) (payment_moves (ps_bankRSDAccount s) p)"
    by (intro moves_total accts(1)) (use accts in \<open>auto simp: payment_moves_def split: if_splits\<close>)
  moreover have "tsum (\<lambda>(_, _, x). sent (ps_decimals s) x) (payment_moves (ps_bankRSDAccount s) p) =
      - (if ps_bankRSDAccount s = [] then pay_Commission p else 0)"
    using exact p(3,4) by (auto simp: payment_moves_def)
  ultimately show "tsum (rpc_balance (fst e')) accts =
      tsum (rpc_balance (fst e)) accts - (if ps_bankRSDAccount s = [] then pay_Commission p else 0)" by simp
qed

theorem payment_conserves_witness:
  "case ExecutePayment demo_payments (\<lambda>_. None) 9 2 demo_tx (demo_world, 0) of (res, db', e') \<Rightarrow>
     res = Inr () \<longrightarrow> tsum (rpc_balance (fst e')) [''A'', ''B'', ''C''] = 650"
proof -
  obtain res db' e' where run: "ExecutePayment demo_payments (\<lambda>_. None) 9 2 demo_tx (demo_world, 0) = (res, db', e')"
    by (rule prod_cases3)
  have exact: "sent (ps_decimals demo_payments) x = x"
    if "x \<in> {- pay_FinalAmount demo_payment, pay_InitialAmount demo_payment, pay_Commission demo_payment}" for x
    using that by (auto simp: demo_payments_def demo_payment_def sent_def demo_text_def read_amount_def)
  from payment_conserves [OF demo_wired demo_pending _ _ demo_unrun exact _ _ _ _ run, of "[''A'', ''B'', ''C'']"]
  show ?thesis unfolding run prod.case
    by (simp add: demo_payment_def demo_payments_def demo_balances)
qed

section \<open>Repeating an execution\<close>

lemma notify_owner_found: "PaymentByID i (fst (notify_owner client acct msg x)) = PaymentByID i (fst x)"
  using notify_owner_keeps [of client acct msg "fst x" "snd x" _ _ i] by (metis prod.collapse)

lemma notifications_found:
  "PaymentByID i (fst (publishPaymentNotifications s p x)) = PaymentByID i (fst x)"
  "PaymentByID i (fst (publishPaymentFailedNotification s p x)) = PaymentByID i (fst x)"
  by (simp_all add: publishPaymentNotifications_def publishPaymentFailedNotification_def Let_def
        notify_owner_found split: option.split)

text \<open>
  A payment is executed at most once. After one execution of a pending payment, whatever the
  account service and the context did, any further execution leaves the tables and the account
  service untouched: it reports success when the first one succeeded and an error when it failed.
\<close>

theorem payment_executes_once:
  assumes w: "wired s client"
    and p: "PaymentByID i db = Some p" "pay_Status p = ''pending_verification''"
    and run: "ExecutePayment s ctx nano i db e = (res, db', e')"
  shows "ExecutePayment s ctx2 nano2 i db' e2 =
    (if res = Inr () then Inr () else Inl (Plain ''payment is not in status pending_verification''), db', e2)"
  using run w p
proof (cases rule: ExecutePaymentE)
  case (limit reason)
  then show ?thesis by (auto simp: ExecutePayment_def)
next
  case (failed err e1 rn db2 q)
  with notifications_found(2) [of i s q "(db2, (run_world rn, snd (rn_env rn)))"] show ?thesis by (auto simp: ExecutePayment_def)
next
  case (paid e1 rn db2 q)
  with notifications_found(1) [of i s q "(db2, (run_world rn, snd (rn_env rn)))"] show ?thesis by (auto simp: ExecutePayment_def)
qed

theorem payment_executes_once_witness:
  "case ExecutePayment demo_payments (\<lambda>_. None) 9 2 demo_tx (demo_world, 0) of (res, db', e') \<Rightarrow>
     snd (ExecutePayment demo_payments (\<lambda>_. None) 10 2 db' e') = (db', e')"
proof -
  obtain res db' e' where run: "ExecutePayment demo_payments (\<lambda>_. None) 9 2 demo_tx (demo_world, 0) = (res, db', e')"
    by (rule prod_cases3)
  show ?thesis unfolding run prod.case
    by (simp add: payment_executes_once [OF demo_wired demo_pending run])
qed

section \<open>Creating a payment\<close>

lemma payment_checks_reads:
  assumes "payment_checks s ctx p e = (r, e')" "wired s (rpc_client owns fixed4 parse blob)" "rpc_ok (fst e)"
  shows "moved rpc_ok rpc_unused rpc_balance {} (\<lambda>_. 0) (fst e) (fst e')"
proof -
  let ?get = "\<lambda>n. retry_get (ac_GetAccountByNumber (rpc_client owns fixed4 parse blob) n) DefaultRetryConfig ctx"
  obtain f e1 where one: "?get (pay_FromAccountNumber p) e = (f, e1)" by (rule prod.exhaust)
  obtain t e2 where two: "?get (pay_ToAccountNumber p) e1 = (t, e2)" by (rule prod.exhaust)
  note m1 = rpc.retry_get_reads [OF rpc.lookup_reads one assms(3)]
  note m2 = rpc.retry_get_reads [OF rpc.lookup_reads two moved_inv [OF m1]]
  have "e' = e1 \<or> e' = e2"
    using assms(1,2) one two
    by (auto simp: payment_checks_def wired_def split: sum.splits option.splits if_splits)
  with m1 moved_trans [OF m1 m2] show ?thesis by auto
qed

text \<open>
  Creating a payment moves no money and adds at most one row. A request whose idempotency key is
  already on a row answers with that row and changes nothing. An accepted new request has a positive
  amount, its commission is the fee calculated for it, its final amount is the sum of the two, it
  waits for verification, and it is the one row appended to the table, under a key no row had. A
  refused request leaves the table as it was.
\<close>

theorem create_payment_sound:
  assumes w: "wired s (bank_client (ps_decimals s) owns blob)" and ok: "rpc_ok (fst e)"
    and run: "CreatePayment s ctx now p db e = (res, db', e')"
  shows "rpc_ok (fst e') \<and> rpc_balance (fst e') = rpc_balance (fst e) \<and>
    (case if pay_IdempotencyKey p = [] then None else PaymentByIdempotencyKey (pay_IdempotencyKey p) db of
       Some old \<Rightarrow> res = Inr old \<and> db' = db
     | None \<Rightarrow>
         (case res of
            Inl _ \<Rightarrow> db' = db
          | Inr q \<Rightarrow>
              0 < pay_InitialAmount q \<and> pay_InitialAmount q = pay_InitialAmount p \<and>
              CalculateFee (ps_fees s) (pay_InitialAmount p) ''payment''
                (if pay_CurrencyCode p = [] then ''RSD'' else pay_CurrencyCode p) = Inr (pay_Commission q) \<and>
              pay_FinalAmount q = pay_InitialAmount q + pay_Commission q \<and>
              pay_Status q = ''pending_verification'' \<and>
              pay_IdempotencyKey q \<notin> pay_IdempotencyKey ` set (payments db) \<and>
              pay_ID q = seq_payments db \<and>
              db' = db\<lparr>payments := payments db @ [q], seq_payments := Suc (seq_payments db)\<rparr>))"
proof (cases "if pay_IdempotencyKey p = [] then None else PaymentByIdempotencyKey (pay_IdempotencyKey p) db")
  case (Some old)
  then have "pay_IdempotencyKey p \<noteq> []" "PaymentByIdempotencyKey (pay_IdempotencyKey p) db = Some old"
    by (auto split: if_splits)
  with run ok show ?thesis by (simp add: CreatePayment_def)
next
  case None
  define cur where "cur = (if pay_CurrencyCode p = [] then ''RSD'' else pay_CurrencyCode p)"
  let ?p1 = "\<lambda>c. p\<lparr>pay_Commission := c, pay_FinalAmount := pay_InitialAmount p + c, pay_Timestamp := now\<rparr>"
  from None have None': "(if pay_IdempotencyKey p \<noteq> [] then PaymentByIdempotencyKey (pay_IdempotencyKey p) db else None) = None"
    by (simp split: if_splits)
  note run = run [unfolded CreatePayment_def None' Let_def, folded cur_def]
  show ?thesis
  proof (cases "pay_InitialAmount p \<le> 0 \<or> (\<exists>err. CalculateFee (ps_fees s) (pay_InitialAmount p) ''payment'' cur = Inl err)")
    case True
    with run ok show ?thesis unfolding None cur_def [symmetric] option.case by (auto split: if_splits)
  next
    case False
    then obtain c where c: "CalculateFee (ps_fees s) (pay_InitialAmount p) ''payment'' cur = Inr c" "0 < pay_InitialAmount p"
      by (cases "CalculateFee (ps_fees s) (pay_InitialAmount p) ''payment'' cur") auto
    obtain r e1 where chk: "payment_checks s ctx (?p1 c) e = (r, e1)" by (rule prod.exhaust)
    note m = payment_checks_reads [OF chk w [unfolded bank_client_def] ok]
    have e': "e' = e1"
      using run c chk by (auto split: option.splits prod.splits)
    have keep: "rpc_ok (fst e') \<and> rpc_balance (fst e') = rpc_balance (fst e)"
      using m by (auto simp: e' moved_def)
    from run c chk keep show ?thesis unfolding None cur_def [symmetric] option.case
      by (cases r) (auto simp: CreatePaymentRow_def Let_def split: if_splits)
  qed
qed

theorem create_payment_sound_witness:
  "\<exists>res db' e'. CreatePayment demo_payments (\<lambda>_. None) 0 demo_payment empty_tx (demo_world, 0) = (res, db', e') \<and>
     rpc_balance (fst e') = rpc_balance demo_world"
proof -
  obtain res db' e' where run: "CreatePayment demo_payments (\<lambda>_. None) 0 demo_payment empty_tx (demo_world, 0) = (res, db', e')"
    by (rule prod_cases3)
  have "rpc_ok (fst (demo_world, 0))" using sample_ok by (simp add: rpc_ok_def demo_world_def)
  from create_payment_sound [OF demo_wired this run] run show ?thesis by simp
qed

end
