(* ===== verification/Tx_Transfer_Safety.thy ===== *)
theory Tx_Transfer_Safety
  imports Tx_Transfer Tx_Payment_Safety
begin

text \<open>
  What executing a transfer does to the transfer table, the saga log and the balances, and which of
  the bank's accounts a cross-currency transfer is routed through.
\<close>

section \<open>The transfer table\<close>

lemma save_transfer_found:
  assumes "TransferByID i db = Some t" "\<And>q. tr_ID (f q) = tr_ID q"
  shows "\<exists>db'. save_transfer i f db = (Inr (), db') \<and>
    TransferByID i db' = Some ((f t)\<lparr>tr_Version := tr_Version t + 1\<rparr>) \<and> sagas db' = sagas db"
proof -
  have i: "tr_ID t = i" using find_SomeD assms(1) unfolding TransferByID_def by fast
  let ?r = "(f t)\<lparr>tr_Version := tr_Version t + 1\<rparr>"
  have "tr_ID ?r = i" by (simp add: assms(2) i)
  with find_put_row [of tr_ID ?r "transfers db" t] assms(1) show ?thesis
    by (simp add: save_transfer_def TransferByID_def)
qed

lemma UpdateTransferStatus_found:
  assumes "TransferByID i db = Some t"
  shows "\<exists>db'. UpdateTransferStatusWithReason i ''failed'' reason db = (Inr (), db') \<and>
      (\<exists>q. TransferByID i db' = Some q \<and> tr_Status q = ''failed'') \<and> sagas db' = sagas db"
    "\<exists>db'. UpdateTransferStatus i st db = (Inr (), db') \<and>
      TransferByID i db' = Some (t\<lparr>tr_Status := st, tr_Version := tr_Version t + 1\<rparr>) \<and> sagas db' = sagas db"
  using save_transfer_found [OF assms, of "\<lambda>t. t\<lparr>tr_Status := ''failed'', tr_FailureReason := reason\<rparr>"]
    save_transfer_found [OF assms, of "\<lambda>t. t\<lparr>tr_Status := st\<rparr>"]
  by (auto simp: UpdateTransferStatus_def UpdateTransferStatusWithReason_def)

lemma publish_transfers [simp]: "transfers (publish m db) = transfers db"
  by (simp add: publish_def)

lemma TransferByID_cong: "transfers db' = transfers db \<Longrightarrow> TransferByID i db' = TransferByID i db"
  by (simp add: TransferByID_def)

lemma notify_owner_transfers [simp]: "transfers (fst (notify_owner client acct msg x)) = transfers (fst x)"
  by (auto simp: notify_owner_def split: prod.splits sum.splits)

lemma notify_owner_sagas [simp]: "sagas (fst (notify_owner client acct msg x)) = sagas (fst x)"
  by (auto simp: notify_owner_def split: prod.splits sum.splits)

lemma transfer_messages [simp]:
  "transfers (publishTransferFailed s t reason db) = transfers db"
  "sagas (publishTransferFailed s t reason db) = sagas db"
  "transfers (fst (publishTransferNotification s t x)) = transfers (fst x)"
  "sagas (fst (publishTransferNotification s t x)) = sagas (fst x)"
  "transfers (fst (publishTransferFailedNotification s t x)) = transfers (fst x)"
  "sagas (fst (publishTransferFailedNotification s t x)) = sagas (fst x)"
  by (simp_all add: publishTransferFailed_def publishTransferNotification_def
        publishTransferFailedNotification_def split: option.split)

definition transfer_wired :: "'w transfer_service \<Rightarrow> 'w account_client \<Rightarrow> bool" where
  "transfer_wired s client \<longleftrightarrow>
     ts_accountClient s = Some client \<and> ts_retryConfig s = DefaultRetryConfig \<and> ts_sagaRepo s"

lemma fail_transfer_row:
  assumes "fail_transfer s t err reason db e = (res, db', e')" "TransferByID (tr_ID t) db = Some t0"
  shows "res = Inl err" "\<exists>q. TransferByID (tr_ID t) db' = Some q \<and> tr_Status q = ''failed''" "sagas db' = sagas db"
proof -
  from UpdateTransferStatus_found(1) [OF assms(2), of reason] obtain db1 where
    db1: "UpdateTransferStatusWithReason (tr_ID t) ''failed'' reason db = (Inr (), db1)"
    "\<exists>q. TransferByID (tr_ID t) db1 = Some q \<and> tr_Status q = ''failed''" "sagas db1 = sagas db" by blast
  let ?t = "t\<lparr>tr_FailureReason := reason\<rparr>"
  let ?x = "publishTransferFailedNotification s ?t (publishTransferFailed s ?t reason db1, e)"
  have x: "res = Inl err" "?x = (db', e')" using assms(1) db1(1) by (simp_all add: fail_transfer_def Let_def)
  have "transfers (fst ?x) = transfers db1" "sagas (fst ?x) = sagas db1" by simp_all
  then have "transfers db' = transfers db1" "sagas db' = sagas db1" by (simp_all only: x fst_conv)
  from this db1(2,3) show "sagas db' = sagas db" "\<exists>q. TransferByID (tr_ID t) db' = Some q \<and> tr_Status q = ''failed''"
    by (simp_all add: TransferByID_def)
  show "res = Inl err" by (rule x(1))
qed

section \<open>Over a balance port\<close>

context balance_port
begin

lemma fail_transfer_reads:
  assumes "fail_transfer s t err reason db e = (res, db', e')" "transfer_wired s client" "ok (fst e)"
  shows "moved ok unused bal {} (\<lambda>_. 0) (fst e) (fst e')"
proof -
  let ?t = "t\<lparr>tr_FailureReason := reason\<rparr>"
  obtain y where y: "publishTransferFailedNotification s ?t (y, e) = (db', e')"
    using assms(1) by (auto simp: fail_transfer_def Let_def)
  show ?thesis
  proof (cases "ts_producer s")
    case True
    with y assms(2) show ?thesis
      by (auto simp: publishTransferFailedNotification_def transfer_wired_def intro: notify_owner_reads [OF _ assms(3)])
  qed (use y assms in \<open>simp add: publishTransferFailedNotification_def transfer_wired_def moved_refl\<close>)
qed

lemma notification_reads:
  assumes "publishTransferNotification s t (db, e) = (db', e')" "transfer_wired s client" "ok (fst e)"
  shows "moved ok unused bal {} (\<lambda>_. 0) (fst e) (fst e')"
proof (cases "ts_producer s")
  case False
  with assms show ?thesis by (simp add: publishTransferNotification_def transfer_wired_def moved_refl)
next
  case True
  obtain m1 m2 where split: "publishTransferNotification s t (db, e) =
      notify_owner client (tr_ToAccountNumber t) m2 (notify_owner client (tr_FromAccountNumber t) m1 (db, e))"
    using True assms(2) by (simp add: publishTransferNotification_def transfer_wired_def)
  obtain db1 e1 where one: "notify_owner client (tr_FromAccountNumber t) m1 (db, e) = (db1, e1)" by (rule prod.exhaust)
  note r1 = notify_owner_reads [OF one assms(3)]
  have "notify_owner client (tr_ToAccountNumber t) m2 (db1, e1) = (db', e')" using assms(1) split one by simp
  from moved_trans [OF r1 notify_owner_reads [OF this moved_inv [OF r1]]] show ?thesis by simp
qed

text \<open>
  One saga of balance moves for a transfer, with the failure exit: the row and the balances after it.
\<close>

lemma transfer_saga:
  assumes run: "(case run_transfer_saga s ctx nano client t kp ms db e of
        (Inl err, db1, e1) \<Rightarrow> fail_transfer s t err reason db1 e1 | done \<Rightarrow> done) = (res, db', e')"
    and w: "transfer_wired s client" and row: "TransferByID (tr_ID t) db = Some t0"
    and ok: "ok (fst e)" "saga_db_ok (sagas db)"
      "\<And>l. l \<in> set (saga_logs (sagas db)) \<Longrightarrow> sl_SagaID l \<noteq> saga_id ''transfer'' (tr_ID t) nano"
    and names: "distinct (map fst ms)" "\<And>m. m \<in> set ms \<Longrightarrow> fst m \<noteq> [] \<and> last (fst m) \<noteq> CHR ''e''"
    and fresh: "\<And>m. m \<in> set ms \<Longrightarrow> unused (IdempotencyKey kp (fst m)) (fst e) \<and>
        unused (IdempotencyKey (saga_id ''transfer'' (tr_ID t) nano) (fst m) @ '':compensate'') (fst e)"
    and neg: "\<And>x. amount_of (StringFixed4 (ts_decimals s) (- x)) = - amount_of (StringFixed4 (ts_decimals s) x)"
  shows "ok (fst e') \<and>
    (case res of
       Inr _ \<Rightarrow> TransferByID (tr_ID t) db' = Some t0 \<and>
         (\<forall>n. bal (fst e') n = bal (fst e) n + move_effect (\<lambda>x. amount_of (StringFixed4 (ts_decimals s) x)) ms n)
     | Inl _ \<Rightarrow> (\<exists>q. TransferByID (tr_ID t) db' = Some q \<and> tr_Status q = ''failed'') \<and>
         (\<not> open_row (saga_id ''transfer'' (tr_ID t) nano) (sagas db') \<longrightarrow> bal (fst e') = bal (fst e)))"
proof -
  let ?f = "StringFixed4 (ts_decimals s)"
  obtain r rn where sg: "executeWithSaga ?f ctx True (Some client) DefaultRetryConfig nano (tr_ID t) ''transfer''
      (map (balance_step ?f client DefaultRetryConfig kp) ms) (sagas db) e = (r, rn)" by (rule prod.exhaust)
  let ?db1 = "db\<lparr>sagas := rn_rec rn\<rparr>"
  have tr: "run_transfer_saga s ctx nano client t kp ms db e = (r, ?db1, (run_world rn, snd (rn_env rn)))"
    using w sg by (simp add: run_transfer_saga_def transfer_wired_def Let_def)
  have row1: "TransferByID (tr_ID t) ?db1 = Some t0" using row by (simp add: TransferByID_def)
  show ?thesis
  proof (cases r)
    case (Inl err)
    note sf = saga_failure [OF sg [unfolded Inl] ok(1,2) names fresh]
    from run tr Inl have ft: "fail_transfer s t err reason ?db1 (run_world rn, snd (rn_env rn)) = (res, db', e')" by simp
    note m = fail_transfer_reads [OF ft w]
    from fail_transfer_row [OF ft row1] m sf neg show ?thesis by (auto simp: moved_def)
  next
    case (Inr u)
    with sg have sg': "executeWithSaga ?f ctx True (Some client) DefaultRetryConfig nano (tr_ID t) ''transfer''
      (map (balance_step ?f client DefaultRetryConfig kp) ms) (sagas db) e = (Inr (), rn)" by simp
    have "unused (IdempotencyKey kp (fst m)) (fst e)" if "m \<in> set ms" for m using fresh [OF that] by simp
    from saga_success [OF sg' ok names this] run tr Inr row1 show ?thesis by auto
  qed
qed

end

section \<open>Executing\<close>

abbreviation transfer_prefix :: "transfer \<Rightarrow> string" where
  "transfer_prefix t \<equiv> (if isCrossCurrency t then ''transfer-xc-'' else ''transfer-sc-'') @ itoa (tr_ID t)"

text \<open>The steps of a transfer; \<open>banks\<close> are the two bank accounts of a cross-currency one.\<close>

definition transfer_moves :: "transfer \<Rightarrow> string \<times> string \<Rightarrow> balance_move list" where
  "transfer_moves t banks =
     (if isCrossCurrency t then cross_moves t (fst banks) (snd banks) else direct_moves t)"

text \<open>\<open>listing\<close> is what the account service answered when the bank's accounts were listed.\<close>

definition banks_chosen :: "decimal_text \<Rightarrow> transfer \<Rightarrow> account_response list \<Rightarrow> string \<times> string \<Rightarrow> bool" where
  "banks_chosen dt t listing banks \<longleftrightarrow>
     findBankAccountByCurrency listing (tr_FromCurrency t) = Inr (fst banks) \<and>
     findBankAccountByCurrencyWithBalance dt listing (tr_ToCurrency t) (tr_FinalAmount t) = Inr (snd banks)"

lemma transfer_status_irrelevant [simp]:
  "isCrossCurrency (t\<lparr>tr_Status := st\<rparr>) = isCrossCurrency t"
  "transfer_moves (t\<lparr>tr_Status := st\<rparr>) banks = transfer_moves t banks"
  "banks_chosen dt (t\<lparr>tr_Status := st\<rparr>) listing banks = banks_chosen dt t listing banks"
  by (simp_all add: isCrossCurrency_def transfer_moves_def cross_moves_def direct_moves_def banks_chosen_def)

lemma transfer_move_names:
  "distinct (map fst (transfer_moves t banks))"
  "m \<in> set (transfer_moves t banks) \<Longrightarrow> fst m \<noteq> [] \<and> last (fst m) \<noteq> CHR ''e''"
  "map fst (transfer_moves t banks) = map fst (transfer_moves t banks')"
  by (auto simp: transfer_moves_def cross_moves_def direct_moves_def Let_def split: if_splits)

text \<open>
  Where the balance moves of a transfer are decided: either the transfer fails before any saga is
  started, or one saga is run, over moves through bank accounts that the account service has listed.
\<close>

lemma transfer_bodyE:
  assumes run: "(if isCrossCurrency t then execute_cross s ctx nano t db e else execute_direct s ctx nano t db e) = out"
    and w: "transfer_wired s client"
  obtains (refused) err reason ea r where "fail_transfer s t err reason db ea = out"
      "ea = e \<or> retry_get (ac_ListBankAccounts client) DefaultRetryConfig ctx e = (r, ea)"
  | (saga) banks reason ea listing where
      "(case run_transfer_saga s ctx nano client t (transfer_prefix t) (transfer_moves t banks) db ea of
        (Inl err, db1, e1) \<Rightarrow> fail_transfer s t err reason db1 e1 | done \<Rightarrow> done) = out"
      "if isCrossCurrency t
       then retry_get (ac_ListBankAccounts client) DefaultRetryConfig ctx e = (Inr (Some listing), ea) \<and>
         banks_chosen (ts_decimals s) t listing banks
       else ea = e"
proof (cases "isCrossCurrency t")
  case False
  with run w show thesis
    by (intro saga [where ea = e]) (auto simp: execute_direct_def transfer_wired_def transfer_moves_def)
next
  case True
  obtain r e1 where list: "retry_get (ac_ListBankAccounts client) DefaultRetryConfig ctx e = (r, e1)" by (rule prod.exhaust)
  from True run have run: "execute_cross s ctx nano t db e = out" by simp
  show thesis
  proof (cases "ts_bankAccountClient s \<and> (\<exists>listing banks. r = Inr (Some listing) \<and> banks_chosen (ts_decimals s) t listing banks)")
    case False
    with run w list obtain err reason e2 where "fail_transfer s t err reason db e2 = out" "e2 = e \<or> e2 = e1"
      by (auto simp: execute_cross_def transfer_wired_def banks_chosen_def findBankAccountByCurrencyWithBalance_def Let_def
          split: if_splits sum.splits option.splits)
    with refused list show thesis by blast
  next
    case True': True
    then obtain listing banks where l: "r = Inr (Some listing)" "banks_chosen (ts_decimals s) t listing banks"
      "ts_bankAccountClient s" by blast
    with run w list True list show thesis
      by (intro saga [where banks = banks and listing = listing and ea = e1 and reason = "''cross-currency transfer execution failed''"])
        (auto simp: execute_cross_def transfer_wired_def banks_chosen_def transfer_moves_def Let_def)
  qed
qed

lemma ExecuteTransferE:
  assumes run: "ExecuteTransfer s ctx nano i db e = (res, db', e')" and w: "transfer_wired s client"
    and t: "TransferByID i db = Some t" "tr_Status t = ''pending_verification''"
  obtains (limit) reason ea db1 tb where
      "execution_limit (Some client) DefaultRetryConfig (ts_decimals s) ctx (tr_FromAccountNumber t)
         (tr_InitialAmount t + tr_Commission t) e = (Some reason, ea)"
      "fail_transfer s (t\<lparr>tr_Status := ''processing''\<rparr>) (Plain reason) reason db1 ea = (res, db', e')"
      "TransferByID i db1 = Some tb"
  | (ran) ea db1 tb out db2 eb where
      "execution_limit (Some client) DefaultRetryConfig (ts_decimals s) ctx (tr_FromAccountNumber t)
         (tr_InitialAmount t + tr_Commission t) e = (None, ea)"
      "TransferByID i db1 = Some tb" "sagas db1 = sagas db" "tr_CompletedAt tb = tr_CompletedAt t"
      "(if isCrossCurrency (t\<lparr>tr_Status := ''processing''\<rparr>)
        then execute_cross s ctx nano (t\<lparr>tr_Status := ''processing''\<rparr>) db1 ea
        else execute_direct s ctx nano (t\<lparr>tr_Status := ''processing''\<rparr>) db1 ea) = (out, db2, eb)"
      "case out of Inl err \<Rightarrow> (res, db', e') = (Inl err, db2, eb)
       | Inr _ \<Rightarrow> (case UpdateTransferStatus i ''completed'' db2 of
           (Inl err, db3) \<Rightarrow> (res, db', e') = (Inl err, db3, eb)
         | (Inr _, db3) \<Rightarrow> res = Inr () \<and>
             publishTransferNotification s (t\<lparr>tr_Status := ''completed''\<rparr>) (db3, eb) = (db', e'))"
proof -
  have i: "tr_ID t = i" using find_SomeD t(1) unfolding TransferByID_def by fast
  from UpdateTransferStatus_found(2) [OF t(1), of "''processing''"] obtain db1 where
    db1: "UpdateTransferStatus i ''processing'' db = (Inr (), db1)" "sagas db1 = sagas db"
    "TransferByID i db1 = Some (t\<lparr>tr_Status := ''processing'', tr_Version := tr_Version t + 1\<rparr>)"
    by auto
  obtain lim ea where lim: "execution_limit (Some client) DefaultRetryConfig (ts_decimals s) ctx
      (tr_FromAccountNumber t) (tr_InitialAmount t + tr_Commission t) e = (lim, ea)" by (rule prod.exhaust)
  let ?t = "t\<lparr>tr_Status := ''processing''\<rparr>"
  obtain out db2 eb where body: "(if isCrossCurrency ?t then execute_cross s ctx nano ?t db1 ea
      else execute_direct s ctx nano ?t db1 ea) = (out, db2, eb)" by (rule prod_cases3)
  note cl = w [unfolded transfer_wired_def]
  show thesis
  proof (cases lim)
    case (Some reason)
    with run t i db1 lim cl show thesis
      by (intro limit [of reason ea db1]) (auto simp: ExecuteTransfer_def Let_def)
  next
    case None
    obtain r db3 where st: "UpdateTransferStatus i ''completed'' db2 = (r, db3)" by (rule prod.exhaust)
    have "case out of Inl err \<Rightarrow> (res, db', e') = (Inl err, db2, eb)
       | Inr _ \<Rightarrow> (case UpdateTransferStatus i ''completed'' db2 of
           (Inl err, db3) \<Rightarrow> (res, db', e') = (Inl err, db3, eb)
         | (Inr _, db3) \<Rightarrow> res = Inr () \<and>
             publishTransferNotification s (t\<lparr>tr_Status := ''completed''\<rparr>) (db3, eb) = (db', e'))"
      using run t i db1(1) lim None cl body st
      by (cases out; cases r) (auto simp: ExecuteTransfer_def Let_def)
    with None lim db1 body show thesis 
      by (intro ran [of ea db1 "t\<lparr>tr_Status := ''processing'', tr_Version := tr_Version t + 1\<rparr>" out db2 eb]) auto
  qed
qed

text \<open>The bank accounts a cross-currency transfer goes through, as the account service listed them.\<close>

definition banks_listed ::
  "'w transfer_service \<Rightarrow> 'w account_client \<Rightarrow> ctx \<Rightarrow> transfer \<Rightarrow> 'w env \<Rightarrow> string \<times> string \<Rightarrow> bool" where
  "banks_listed s client ctx t e banks \<longleftrightarrow>
     (\<exists>lm ea eb listing.
        execution_limit (Some client) DefaultRetryConfig (ts_decimals s) ctx (tr_FromAccountNumber t)
          (tr_InitialAmount t + tr_Commission t) e = (lm, ea) \<and>
        retry_get (ac_ListBankAccounts client) DefaultRetryConfig ctx ea = (Inr (Some listing), eb) \<and>
        banks_chosen (ts_decimals s) t listing banks)"

context balance_port
begin

lemma transfer_run:
  assumes run: "ExecuteTransfer s ctx nano i db e = (res, db', e')" and w: "transfer_wired s client"
    and t: "TransferByID i db = Some t" "tr_Status t = ''pending_verification''"
    and ok: "ok (fst e)" "saga_db_ok (sagas db)"
      "\<And>l. l \<in> set (saga_logs (sagas db)) \<Longrightarrow> sl_SagaID l \<noteq> saga_id ''transfer'' i nano"
    and fresh: "\<And>m. m \<in> set (transfer_moves t ([], [])) \<Longrightarrow>
        unused (IdempotencyKey (transfer_prefix t) (fst m)) (fst e) \<and>
        unused (IdempotencyKey (saga_id ''transfer'' i nano) (fst m) @ '':compensate'') (fst e)"
    and neg: "\<And>x. amount_of (StringFixed4 (ts_decimals s) (- x)) = - amount_of (StringFixed4 (ts_decimals s) x)"
  shows "ok (fst e') \<and>
    (case res of
       Inr _ \<Rightarrow>
         (\<exists>banks. (isCrossCurrency t \<longrightarrow> banks_listed s client ctx t e banks) \<and>
            (\<forall>n. bal (fst e') n = bal (fst e) n +
               move_effect (\<lambda>x. amount_of (StringFixed4 (ts_decimals s) x)) (transfer_moves t banks) n)) \<and>
         (\<exists>q. TransferByID i db' = Some q \<and> tr_Status q = ''completed'' \<and> tr_CompletedAt q = tr_CompletedAt t)
     | Inl _ \<Rightarrow>
         (\<exists>q. TransferByID i db' = Some q \<and> tr_Status q = ''failed'') \<and>
         (\<not> open_row (saga_id ''transfer'' i nano) (sagas db') \<longrightarrow> bal (fst e') = bal (fst e)))"
proof -
  have i: "tr_ID t = i" using find_SomeD t(1) unfolding TransferByID_def by fast
  let ?t = "t\<lparr>tr_Status := ''processing''\<rparr>"
  have i': "tr_ID ?t = i" using i by simp
  from run w t show ?thesis
  proof (cases rule: ExecuteTransferE)
    case (limit reason ea db1 tb)
    note m1 = execution_limit_reads [OF limit(1) ok(1)]
    from limit(3) have tb: "TransferByID (tr_ID ?t) db1 = Some tb" by (simp add: i)
    have "moved ok unused bal {} (\<lambda>_. 0) (fst e) (fst e')"
      using moved_trans [OF m1 fail_transfer_reads [OF limit(2) w moved_inv [OF m1]]] by simp
    with fail_transfer_row [OF limit(2) tb] show ?thesis by (auto simp: moved_def i)
  next
    case (ran ea db1 tb out db2 eb)
    note m1 = execution_limit_reads [OF ran(1) ok(1)]
    have lists: "moved ok unused bal {} (\<lambda>_. 0) (fst ea) (fst x)"
      if "retry_get (ac_ListBankAccounts client) DefaultRetryConfig ctx ea = (r, x)" for r x
      by (rule retry_get_reads [OF _ that moved_inv [OF m1]]) (rule list_reads)
    from ran(2) have tb: "TransferByID (tr_ID ?t) db1 = Some tb" by (simp add: i)
    from ran(5) w show ?thesis
    proof (cases rule: transfer_bodyE)
      case (refused err reason e1 r)
      have m2: "moved ok unused bal {} (\<lambda>_. 0) (fst ea) (fst e1)"
        using refused(2) lists moved_refl [of ok "fst ea" unused bal, OF moved_inv [OF m1]] by blast
      note m3 = fail_transfer_reads [OF refused(1) w moved_inv [OF m2]]
      have "moved ok unused bal {} (\<lambda>_. 0) (fst e) (fst eb)"
        using moved_trans [OF moved_trans [OF m1 m2] m3] by simp
      with fail_transfer_row [OF refused(1) tb] ran(6) show ?thesis by (auto simp: moved_def i)
    next
      case (saga banks reason e1 listing)
      have m2: "moved ok unused bal {} (\<lambda>_. 0) (fst ea) (fst e1)"
        using saga(2) lists moved_refl [of ok "fst ea" unused bal, OF moved_inv [OF m1]]
        by (auto split: if_splits)
      have m12: "moved ok unused bal {} (\<lambda>_. 0) (fst e) (fst e1)" using moved_trans [OF m1 m2] by simp
      have fresh1: "unused (IdempotencyKey (transfer_prefix ?t) (fst m)) (fst e1) \<and>
          unused (IdempotencyKey (saga_id ''transfer'' (tr_ID ?t) nano) (fst m) @ '':compensate'') (fst e1)"
        if "m \<in> set (transfer_moves ?t banks)" for m
      proof -
        have "fst m \<in> fst ` set (transfer_moves t ([], []))"
          using that transfer_move_names(3) [of t banks "([], [])"]
          by (metis image_eqI image_set transfer_status_irrelevant(2))
        with fresh moved_unused [OF m12] show ?thesis by (auto simp: i)
      qed
      have log: "sl_SagaID l \<noteq> saga_id ''transfer'' (tr_ID ?t) nano" if "l \<in> set (saga_logs (sagas db1))" for l
        using that ok(3) by (simp add: ran(3) i)
      have "saga_db_ok (sagas db1)" using ok(2) by (simp add: ran(3))
      note sg = transfer_saga [OF saga(1) w tb moved_inv [OF m12] this log transfer_move_names(1,2) fresh1 neg]
      have bal1: "bal (fst e1) = bal (fst e)" using m12 by (auto simp: moved_def)
      show ?thesis
      proof (cases out)
        case (Inl err)
        with sg ran(6) bal1 show ?thesis by (simp add: i)
      next
        case (Inr u)
        with sg have tb2: "TransferByID i db2 = Some tb" by (simp add: i)
        from UpdateTransferStatus_found(2) [OF tb2, of "''completed''"] obtain db3 where
          db3: "UpdateTransferStatus i ''completed'' db2 = (Inr (), db3)" "sagas db3 = sagas db2"
          "TransferByID i db3 = Some (tb\<lparr>tr_Status := ''completed'', tr_Version := tr_Version tb + 1\<rparr>)" by auto
        from ran(6) Inr db3(1) have fin: "res = Inr ()"
          "publishTransferNotification s (t\<lparr>tr_Status := ''completed''\<rparr>) (db3, eb) = (db', e')" by simp_all
        have m3: "moved ok unused bal {} (\<lambda>_. 0) (fst eb) (fst e')"
          using notification_reads [OF fin(2) w] sg by simp
        have "transfers db' = transfers db3" using transfer_messages(3) [of s "t\<lparr>tr_Status := ''completed''\<rparr>" "(db3, eb)"] fin(2) by simp
        then have row: "TransferByID i db' = Some (tb\<lparr>tr_Status := ''completed'', tr_Version := tr_Version tb + 1\<rparr>)"
          using db3(3) by (simp add: TransferByID_def)
        have banks: "isCrossCurrency t \<longrightarrow> banks_listed s client ctx t e banks"
          using saga(2) ran(1) unfolding banks_listed_def by (auto split: if_splits)
        have "\<forall>n. bal (fst e') n = bal (fst e) n +
            move_effect (\<lambda>x. amount_of (StringFixed4 (ts_decimals s) x)) (transfer_moves t banks) n"
          using sg Inr moved_amount [OF m3] bal1 by simp
        with banks row ran(4) moved_inv [OF m3] show ?thesis unfolding fin(1) sum.case
          by (intro conjI exI [of _ banks] exI [of _ "tb\<lparr>tr_Status := ''completed'', tr_Version := tr_Version tb + 1\<rparr>"]) simp_all
      qed
    qed
  qed
qed

end

section \<open>The bank's accounts\<close>

text \<open>The choice a reader expects: the first account that can cover the amount, else the first of the currency.\<close>

definition covering :: "decimal_text \<Rightarrow> string \<Rightarrow> decimal \<Rightarrow> account_response \<Rightarrow> bool" where
  "covering dt currency need a \<longleftrightarrow> ar_CurrencyCode a = currency \<and>
     (case NewFromString dt (ar_AvailableBalance a) of None \<Rightarrow> False | Some avail \<Rightarrow> need \<le> avail)"

definition number_of :: "account_response option \<Rightarrow> string result" where
  "number_of r = (case r of None \<Rightarrow> Inl (Plain ''no bank account found for currency'') | Some a \<Rightarrow> Inr (ar_AccountNumber a))"

lemma bank_scan_first:
  assumes "\<And>a. a \<in> set accts \<Longrightarrow> ar_AccountNumber a \<noteq> []"
  shows "bank_scan dt accts currency need firstMatch =
    (case find (covering dt currency need) accts of
       Some a \<Rightarrow> Inr (ar_AccountNumber a)
     | None \<Rightarrow> if firstMatch \<noteq> [] then Inr firstMatch
               else number_of (find (\<lambda>a. ar_CurrencyCode a = currency) accts))"
  using assms
  by (induction accts arbitrary: firstMatch)
    (auto simp: covering_def number_of_def Let_def split: option.splits)

text \<open>
  The scan for a bank account that can pay out a converted amount makes the expected choice: the
  first listed account of the currency whose available balance parses and covers the amount; if there
  is none, the first account of the currency; an error exactly when the bank has no account in that
  currency. The loop keeps the empty string for "nothing matched yet", which is harmless because
  every account number is non-empty.
\<close>

theorem bank_choice:
  assumes "\<And>a. a \<in> set accts \<Longrightarrow> ar_AccountNumber a \<noteq> []"
  shows "findBankAccountByCurrencyWithBalance dt accts currency need =
    number_of (case find (covering dt currency need) accts of
       Some a \<Rightarrow> Some a | None \<Rightarrow> find (\<lambda>a. ar_CurrencyCode a = currency) accts)"
  using bank_scan_first [of accts dt currency need "[]"] assms
  by (simp add: findBankAccountByCurrencyWithBalance_def number_of_def split: option.split)

theorem bank_choice_witness:
  "findBankAccountByCurrencyWithBalance demo_text
     [demo_blob\<lparr>ar_AccountNumber := ''B1'', ar_CurrencyCode := ''EUR'', ar_AvailableBalance := ''-5''\<rparr>,
      demo_blob\<lparr>ar_AccountNumber := ''B2'', ar_CurrencyCode := ''EUR'', ar_AvailableBalance := ''5''\<rparr>] ''EUR'' 4 = Inr ''B2''"
  by (subst bank_choice) (auto simp: covering_def number_of_def demo_text_def)

lemma findBankAccount_listed:
  "findBankAccountByCurrency accts currency = Inr n \<Longrightarrow>
     \<exists>a \<in> set accts. ar_AccountNumber a = n \<and> ar_CurrencyCode a = currency"
  by (induction accts) (auto split: if_splits)

lemma bank_scan_listed:
  "bank_scan dt accts currency need firstMatch = Inr n \<Longrightarrow>
     (\<exists>a \<in> set accts. ar_AccountNumber a = n \<and> ar_CurrencyCode a = currency) \<or> n = firstMatch \<and> n \<noteq> []"
  by (induction accts arbitrary: firstMatch) (auto simp: Let_def split: if_splits option.splits dest!: meta_spec)

lemma retry_get_inv:
  assumes get: "\<And>w r w'. P w \<Longrightarrow> get w = (r, w') \<Longrightarrow> P w'"
    and run: "retry_get get DefaultRetryConfig ctx e = (res, e')" and P: "P (fst e)"
  shows "P (fst e') \<and> (\<forall>x. res = Inr (Some x) \<longrightarrow> (\<exists>w w'. P w \<and> get w = (Inr x, w')))"
proof -
  let ?fn = "\<lambda>((v, w), n). case get w of
                (Inl e, w') \<Rightarrow> (Inl e, ((None, w'), n))
              | (Inr x, w') \<Rightarrow> (Inr (), ((Some x, w'), n))"
  let ?Q = "\<lambda>x. P (snd x) \<and> (\<forall>v. fst x = Some v \<longrightarrow> (\<exists>w w'. P w \<and> get w = (Inr v, w')))"
  obtain r e1 where r: "Retry ctx DefaultRetryConfig ?fn ((None, fst e), snd e) = (r, e1)" by (rule prod.exhaust)
  have step: "?Q (fst e2)" if "?Q (fst e0)" "?fn e0 = (r0, e2)" for e0 r0 e2
    using that get by (auto split: prod.splits sum.splits)
  have "case r of Inl _ \<Rightarrow> ?Q (fst e1) | Inr _ \<Rightarrow> ?Q (fst e1)"
  proof (rule Retry_rule [OF _ _ _ _ r], goal_cases)
    case (1 e0 err e2)
    then show ?case by (rule step)
  next
    case (2 e0 e2)
    then show ?case by (rule step)
  qed (use P in \<open>simp_all add: DefaultRetryConfig_def\<close>)
  then have "?Q (fst e1)" by (cases r) auto
  with run r show ?thesis by (cases e; cases r; cases e1) (auto simp: retry_get_def split: prod.splits)
qed

lemma execution_limit_inv:
  assumes "\<And>w r w'. P w \<Longrightarrow> ac_GetAccountByNumber client acct w = (r, w') \<Longrightarrow> P w'"
    and "execution_limit (Some client) DefaultRetryConfig dt ctx acct x e = (lm, e')" "P (fst e)"
  shows "P (fst e')"
proof -
  obtain g e1 where g: "retry_get (ac_GetAccountByNumber client acct) DefaultRetryConfig ctx e = (g, e1)"
    by (rule prod.exhaust)
  have "P (fst e1)" using retry_get_inv [of P, OF _ g assms(3)] assms(1) by blast
  moreover have "e' = e1" using assms(2) g by (auto simp: execution_limit_def split: sum.splits option.splits)
  ultimately show ?thesis by simp
qed

lemma rpc_banks_listed:
  assumes "banks_listed s (bank_client dt owns blob) ctx t e banks"
  shows "\<exists>a \<in> set (ListBankAccounts (snd (fst e))). \<exists>b \<in> set (ListBankAccounts (snd (fst e))).
    banks = (acc_AccountNumber a, acc_AccountNumber b) \<and>
    acc_CurrencyCode a = tr_FromCurrency t \<and> acc_CurrencyCode b = tr_ToCurrency t"
proof -
  let ?P = "\<lambda>w :: account_world. accounts (snd w) = accounts (snd (fst e))"
  have get: "?P w'" if "?P w" "ac_GetAccountByNumber (bank_client dt owns blob) n w = (r, w')" for w n r w'
    using that by (auto simp: bank_client_def rpc_client_def GetAccountByNumberRPC_def GetAccountByNumber_def
        split: prod.splits sum.splits option.splits if_splits)
  have ls: "?P w'" if "?P w" "ac_ListBankAccounts (bank_client dt owns blob) w = (r, w')" for w r w'
    using that by (auto simp: bank_client_def rpc_client_def ListBankAccountsRPC_def split: prod.splits)
  from assms obtain lm ea eb listing where b:
    "execution_limit (Some (bank_client dt owns blob)) DefaultRetryConfig (ts_decimals s) ctx (tr_FromAccountNumber t)
          (tr_InitialAmount t + tr_Commission t) e = (lm, ea)"
    "retry_get (ac_ListBankAccounts (bank_client dt owns blob)) DefaultRetryConfig ctx ea = (Inr (Some listing), eb)"
    "banks_chosen (ts_decimals s) t listing banks" unfolding banks_listed_def by blast
  have "?P (fst ea)" by (rule execution_limit_inv [of ?P, OF get b(1)]) auto
  from retry_get_inv [of ?P, OF _ b(2) this] ls obtain w w' where
    w: "?P w" "ac_ListBankAccounts (bank_client dt owns blob) w = (Inr listing, w')" by blast
  then have listing: "listing = map (toAccountResponse (StringFixed4 dt)) (ListBankAccounts (snd (fst e)))"
    by (auto simp: bank_client_def rpc_client_def ListBankAccountsRPC_def ListBankAccounts_def live_accounts_def
        split: prod.splits)
  from b(3) findBankAccount_listed [of listing "tr_FromCurrency t" "fst banks"]
    bank_scan_listed [of "ts_decimals s" listing "tr_ToCurrency t" "tr_FinalAmount t" "[]" "snd banks"]
  have "\<exists>a \<in> set listing. ar_AccountNumber a = fst banks \<and> ar_CurrencyCode a = tr_FromCurrency t"
    "\<exists>a \<in> set listing. ar_AccountNumber a = snd banks \<and> ar_CurrencyCode a = tr_ToCurrency t"
    by (auto simp: banks_chosen_def findBankAccountByCurrencyWithBalance_def)
  then show ?thesis by (cases banks) (fastforce simp: listing toAccountResponse_def)
qed

section \<open>The transfer service over the account service\<close>

text \<open>
  C4: Executing a transfer that waits for verification ends in one of two ways. On success the row is
  completed and the balances have moved as follows. In one currency the sender loses the initial
  amount plus the commission and the recipient gains the final amount. Across currencies the bank
  stands in the middle: one of its accounts in the source currency gains what the sender lost, and
  one of its accounts in the target currency pays what the recipient gains, so each currency's total
  is unchanged. No other account moves. On failure the row is failed, and unless the saga log still
  holds an unfinished compensation, no balance has moved.
\<close>

theorem transfer_outcome:
  assumes w: "transfer_wired s (bank_client (ts_decimals s) owns blob)"
    and t: "TransferByID i db = Some t" "tr_Status t = ''pending_verification''"
    and f: "first_run (transfer_prefix t) (saga_id ''transfer'' i nano) (transfer_moves t ([], [])) db (fst e)"
    and neg: "\<And>x. sent (ts_decimals s) (- x) = - sent (ts_decimals s) x"
    and run: "ExecuteTransfer s ctx nano i db e = (res, db', e')"
  shows "rpc_ok (fst e') \<and>
    (case res of
       Inr _ \<Rightarrow>
         (\<exists>q. TransferByID i db' = Some q \<and> tr_Status q = ''completed'') \<and>
         (let out = sent (ts_decimals s) (tr_InitialAmount t + tr_Commission t); paid = sent (ts_decimals s) (tr_FinalAmount t);
              bal = rpc_balance (fst e); bal' = rpc_balance (fst e');
              client_moves = (\<lambda>n. (if n = tr_ToAccountNumber t then paid else 0) - (if n = tr_FromAccountNumber t then out else 0))
          in if isCrossCurrency t
             then \<exists>a \<in> set (ListBankAccounts (snd (fst e))). \<exists>b \<in> set (ListBankAccounts (snd (fst e))).
               acc_CurrencyCode a = tr_FromCurrency t \<and> acc_CurrencyCode b = tr_ToCurrency t \<and>
               (\<forall>n. bal' n = bal n + client_moves n + (if n = acc_AccountNumber a then out else 0)
                  - (if n = acc_AccountNumber b then paid else 0))
             else \<forall>n. bal' n = bal n + client_moves n)
     | Inl _ \<Rightarrow>
         (\<exists>q. TransferByID i db' = Some q \<and> tr_Status q = ''failed'') \<and>
         (\<not> open_row (saga_id ''transfer'' i nano) (sagas db') \<longrightarrow> rpc_balance (fst e') = rpc_balance (fst e)))"
proof -
  have neg': "read_amount (NewFromString (ts_decimals s)) (StringFixed4 (ts_decimals s) (- x)) =
      - read_amount (NewFromString (ts_decimals s)) (StringFixed4 (ts_decimals s) x)" for x
    using neg by (simp add: sent_def)
  note all = rpc.transfer_run [OF run w [unfolded bank_client_def] t first_runD(1) [OF f] first_runD(2) [OF f]
      first_runD(3) [OF f] first_runD(4) [OF f] neg', folded sent_def bank_client_def]
  show ?thesis
  proof (cases res)
    case (Inl err)
    with all show ?thesis by simp
  next
    case (Inr u)
    with all obtain banks where b: "isCrossCurrency t \<Longrightarrow> banks_listed s (bank_client (ts_decimals s) owns blob) ctx t e banks"
      "\<And>n. rpc_balance (fst e') n = rpc_balance (fst e) n + move_effect (sent (ts_decimals s)) (transfer_moves t banks) n"
      "rpc_ok (fst e')" "\<exists>q. TransferByID i db' = Some q \<and> tr_Status q = ''completed''" by auto
    show ?thesis
    proof (cases "isCrossCurrency t")
      case False
      with Inr b(2,3,4) neg [of "tr_InitialAmount t + tr_Commission t"] show ?thesis
        by (simp add: transfer_moves_def direct_moves_def move_effect_def Let_def)
    next
      case True
      from rpc_banks_listed [OF b(1) [OF True]] obtain a c where
        a: "a \<in> set (ListBankAccounts (snd (fst e)))" "c \<in> set (ListBankAccounts (snd (fst e)))"
        "banks = (acc_AccountNumber a, acc_AccountNumber c)"
        "acc_CurrencyCode a = tr_FromCurrency t" "acc_CurrencyCode c = tr_ToCurrency t" by blast
      from True b(2) have "\<forall>n. rpc_balance (fst e') n = rpc_balance (fst e) n +
          ((if n = tr_ToAccountNumber t then sent (ts_decimals s) (tr_FinalAmount t) else 0)
           - (if n = tr_FromAccountNumber t then sent (ts_decimals s) (tr_InitialAmount t + tr_Commission t) else 0))
          + (if n = acc_AccountNumber a then sent (ts_decimals s) (tr_InitialAmount t + tr_Commission t) else 0)
          - (if n = acc_AccountNumber c then sent (ts_decimals s) (tr_FinalAmount t) else 0)"
        using neg [of "tr_InitialAmount t + tr_Commission t"] neg [of "tr_FinalAmount t"]
        by (simp add: transfer_moves_def cross_moves_def move_effect_def Let_def a(3))
      with Inr True a b(3,4) show ?thesis by (auto simp: Let_def)
    qed
  qed
qed

definition demo_transfers :: "account_world transfer_service" where
  "demo_transfers =
     \<lparr>ts_accountClient = Some demo_client, ts_bankAccountClient = True, ts_exchangeClient = None,
      ts_fees = (\<lambda>_ _ _. Inr []), ts_producer = True, ts_sagaRepo = True, ts_retryConfig = DefaultRetryConfig,
      ts_decimals = demo_text\<rparr>"

definition demo_transfer :: transfer where
  "demo_transfer =
     \<lparr>tr_ID = 2, tr_IdempotencyKey = ''k'', tr_ClientID = 1, tr_FromAccountNumber = ''A'', tr_ToAccountNumber = ''D'',
      tr_InitialAmount = 5, tr_FinalAmount = 5, tr_ExchangeRate = 1, tr_Commission = 0, tr_FromCurrency = ''RSD'',
      tr_ToCurrency = ''EUR'', tr_Status = ''pending_verification'', tr_FailureReason = [], tr_Version = 1,
      tr_Timestamp = 0, tr_CompletedAt = None\<rparr>"

definition demo_transfer_tx :: tx_db where
  "demo_transfer_tx = empty_tx\<lparr>transfers := [demo_transfer], seq_transfers := 3\<rparr>"

theorem transfer_outcome_witness:
  "case ExecuteTransfer demo_transfers (\<lambda>_. None) 9 2 demo_transfer_tx (demo_world, 0) of (res, db', e') \<Rightarrow>
     rpc_ok (fst e') \<and>
     (case res of
        Inr _ \<Rightarrow> rpc_balance (fst e') ''A'' = 95 \<and> rpc_balance (fst e') ''B'' = 505 \<and> rpc_balance (fst e') ''C'' = 45
      | Inl _ \<Rightarrow> \<not> open_row (saga_id ''transfer'' 2 9) (sagas db') \<longrightarrow> rpc_balance (fst e') ''A'' = 100)"
proof -
  obtain res db' e' where run: "ExecuteTransfer demo_transfers (\<lambda>_. None) 9 2 demo_transfer_tx (demo_world, 0) = (res, db', e')"
    by (rule prod_cases3)
  have w: "transfer_wired demo_transfers (bank_client (ts_decimals demo_transfers) (\<lambda>_. True) demo_blob)"
    by (simp add: transfer_wired_def demo_transfers_def)
  have t: "TransferByID 2 demo_transfer_tx = Some demo_transfer" "tr_Status demo_transfer = ''pending_verification''"
    by (simp_all add: TransferByID_def demo_transfer_tx_def demo_transfer_def)
  have f: "first_run (transfer_prefix demo_transfer) (saga_id ''transfer'' 2 9) (transfer_moves demo_transfer ([], []))
      demo_transfer_tx (fst (demo_world, 0))"
    using sample_ok
    by (simp add: first_run_def demo_unused rpc_ok_def saga_db_ok_def demo_transfer_tx_def empty_tx_def list_all_iff)
      (simp add: demo_world_def)
  have cross: "isCrossCurrency demo_transfer = True" by (simp add: isCrossCurrency_def demo_transfer_def)
  have sel: "tr_InitialAmount demo_transfer = 5" "tr_FinalAmount demo_transfer = 5" "tr_Commission demo_transfer = 0"
    "tr_FromAccountNumber demo_transfer = ''A''" "tr_ToAccountNumber demo_transfer = ''D''"
    "tr_FromCurrency demo_transfer = ''RSD''" "tr_ToCurrency demo_transfer = ''EUR''"
    by (simp_all add: demo_transfer_def)
  have banks: "ListBankAccounts (snd demo_world) = [sample_account 2 ''B'' ''RSD'' 500 True, sample_account 3 ''C'' ''EUR'' 50 True]"
    by (simp add: demo_world_def ListBankAccounts_def live_accounts_def sample_simps)
  have five: "sent demo_text 5 = 5" by (simp add: sent_def demo_text_def read_amount_def)
  have dt: "ts_decimals demo_transfers = demo_text" by (simp add: demo_transfers_def)
  from transfer_outcome [OF w t f _ run] demo_neg show ?thesis unfolding run prod.case
    unfolding cross if_True by (cases res) (auto simp: banks five dt demo_balances sel Let_def)
qed

end
