(* ===== verification/Tx_Handler_Safety.thy ===== *)
theory Tx_Handler_Safety
  imports Tx_Handler Verification_Safety Tx_Transfer_Safety
begin

text \<open>
  The verification gate in front of the money paths, composed with the life of the challenges, and the
  isolation between the clients' address books.
\<close>

section \<open>The verification gate\<close>

lemma gate_open:
  "verification_gate vdb c = None \<longleftrightarrow> c = 0 \<or> (\<exists>vc. ChallengeByID c vdb = Some vc \<and> vc_Status vc = ''verified'')"
  by (auto simp: verification_gate_def GetChallengeStatus_def split: option.splits)

lemma ChallengeByID_in: "ChallengeByID c vdb = Some vc \<Longrightarrow> vc \<in> set (challenges vdb) \<and> vc_ID vc = c"
  unfolding ChallengeByID_def by (rule find_SomeD)

lemma reachable_challenges:
  "(challenge_step v)\<^sup>*\<^sup>* no_challenges vdb \<Longrightarrow> 0 < vs_maxAttempts v \<Longrightarrow> challenges_ok v vdb"
  by (induction rule: rtranclp_induct) (auto intro: no_challenges_ok challenge_step_keeps)

lemma gated:
  assumes "verification_gate vdb c = Some err"
  shows "ExecutePaymentRPC s vdb ctx nano c i db e = (Inl err, db, e)"
    "ExecuteTransferRPC ts vdb ctx nano c i db e = (Inl err, db, e)"
  using assms by (simp_all add: ExecutePaymentRPC_def ExecuteTransferRPC_def)

lemma ungated:
  assumes "verification_gate vdb c = None" "verification_gate vdb c' = None"
  shows "ExecutePaymentRPC s vdb ctx nano c i db e = ExecutePaymentRPC s vdb ctx nano c' i db e"
    "ExecuteTransferRPC ts vdb ctx nano c i db e = ExecuteTransferRPC ts vdb ctx nano c' i db e"
  using assms by (simp_all add: ExecutePaymentRPC_def ExecuteTransferRPC_def)

text \<open>
  C5: The verification gate of the two execute RPCs, over every reachable state of the verification
  service. A call that names a challenge is let through only if that challenge is verified, for which
  exactly one verification event was published; otherwise it is refused and neither the tables nor
  the account service change. But the gate looks at nothing else: a call without a challenge, and a
  call with any verified challenge, whatever payment, transfer or user it was created for, behave
  exactly alike.
\<close>

theorem execution_gate:
  assumes "(challenge_step v)\<^sup>*\<^sup>* no_challenges vdb" "0 < vs_maxAttempts v"
  shows "(if c = 0 \<or> (\<exists>vc \<in> set (challenges vdb). vc_ID vc = c \<and> vc_Status vc = ''verified'')
     then (c \<noteq> 0 \<longrightarrow> tally (verifies c) (events vdb) = 1) \<and>
       ExecutePaymentRPC s vdb ctx nano c i db e = ExecutePaymentRPC s vdb ctx nano 0 i db e \<and>
       ExecuteTransferRPC ts vdb ctx nano c i db e = ExecuteTransferRPC ts vdb ctx nano 0 i db e
     else \<exists>err. ExecutePaymentRPC s vdb ctx nano c i db e = (Inl err, db, e) \<and>
       ExecuteTransferRPC ts vdb ctx nano c i db e = (Inl err, db, e))"
proof -
  note ok = reachable_challenges [OF assms]
  have look: "ChallengeByID c vdb = Some vc" if "vc \<in> set (challenges vdb)" "vc_ID vc = c" for vc
    unfolding ChallengeByID_def
    by (rule find_unique) (use ok that distinct_key_eq [of vc_ID "challenges vdb"] in \<open>auto simp: challenges_ok_def\<close>)
  have iff: "verification_gate vdb c = None \<longleftrightarrow>
      c = 0 \<or> (\<exists>vc \<in> set (challenges vdb). vc_ID vc = c \<and> vc_Status vc = ''verified'')"
    unfolding gate_open using look ChallengeByID_in by blast
  have open0: "verification_gate vdb 0 = None" by (simp add: gate_open)
  show ?thesis
  proof (cases "verification_gate vdb c")
    case None
    have "tally (verifies c) (events vdb) = 1" if "c \<noteq> 0"
    proof -
      from None that iff obtain vc where "vc \<in> set (challenges vdb)" "vc_ID vc = c" "vc_Status vc = ''verified''" by auto
      with ok show ?thesis by (auto simp: challenges_ok_def challenge_ok_def)
    qed
    with None iff ungated(1) [OF None open0, of s ctx nano i db e] ungated(2) [OF None open0, of ts ctx nano i db e]
    show ?thesis by simp
  next
    case (Some err)
    with iff gated(1) [OF Some, of s ctx nano i db e] gated(2) [OF Some, of ts ctx nano i db e] show ?thesis by auto
  qed
qed

theorem execution_gate_witness:
  "ExecutePaymentRPC demo_payments demo_verified (\<lambda>_. None) 9 1 2 demo_tx (demo_world, 0) =
     ExecutePaymentRPC demo_payments demo_verified (\<lambda>_. None) 9 0 2 demo_tx (demo_world, 0) \<and>
   snd (ExecutePaymentRPC demo_payments demo_created (\<lambda>_. None) 9 1 2 demo_tx (demo_world, 0)) = (demo_tx, demo_world, 0)"
proof -
  have v: "0 < vs_maxAttempts demo_verification" by (simp add: demo_verification_def)
  have one: "\<exists>vc \<in> set (challenges demo_verified). vc_ID vc = 1 \<and> vc_Status vc = ''verified''"
    using demo_verified_row by (auto simp: map_eq_Cons_conv)
  have "(challenge_step demo_verification)\<^sup>*\<^sup>* no_challenges demo_created"
    by (rule r_into_rtranclp) (rule challenge_step.create [OF demo_created_run])
  note two = execution_gate [OF this v, of 1 demo_payments "\<lambda>_. None" 9 2 demo_tx "(demo_world, 0)" demo_transfers]
  have no: "\<not> ((1::nat) = 0 \<or> (\<exists>vc \<in> set (challenges demo_created). vc_ID vc = 1 \<and> vc_Status vc = ''verified''))"
    by (simp add: demo_created_def challenge_eval)
  from two [unfolded if_not_P [OF no]] have "snd (ExecutePaymentRPC demo_payments demo_created (\<lambda>_. None) 9 1 2 demo_tx (demo_world, 0)) = (demo_tx, demo_world, 0)"
    by auto
  moreover from one have yes: "(1::nat) = 0 \<or> (\<exists>vc \<in> set (challenges demo_verified). vc_ID vc = 1 \<and> vc_Status vc = ''verified'')" by blast
  note execution_gate [OF demo_verified_reached v, of 1 demo_payments "\<lambda>_. None" 9 2 demo_tx "(demo_world, 0)" demo_transfers,
      unfolded if_P [OF yes]]
  ultimately show ?thesis by blast
qed

section \<open>Address books\<close>

lemma owned_recipientD:
  assumes "owned_recipient c i db = Inr r"
  shows "r \<in> set (fst db)" "rec_ID r = i" "ownsTxn c (rec_ClientID r)"
  using assms find_SomeD
  by (fastforce simp: owned_recipient_def RecipientByID_def split: option.splits if_splits)+

text \<open>
  A client never sees or touches another client's payment recipients. Every RPC on a recipient of
  somebody else gets the same not-found error as one on an absent id and changes nothing; after any
  update or deletion by a client, the recipients of all other clients are exactly those they were,
  and a recipient it may read is its own. Client ids above the signed range would alias negative
  caller ids, which no client has.
\<close>

theorem recipients_isolated:
  assumes c: "IsClient c" "0 \<le> PrincipalID c" and ids: "distinct (map rec_ID (fst db))" "\<And>r. r \<in> set (fst db) \<Longrightarrow> rec_ClientID r < 2 ^ 63"
    and other: "int other \<noteq> PrincipalID c"
  shows "(\<forall>r. GetPaymentRecipientRPC c i db = Inr r \<longrightarrow> int (rec_ClientID r) = PrincipalID c) \<and>
    (\<forall>e. GetPaymentRecipientRPC c i db = Inl e \<longrightarrow> e = ErrPaymentRecipientNotFound \<and>
       UpdatePaymentRecipientRPC c i name number db = (Inl e, db) \<and> DeletePaymentRecipientRPC c i db = (Inl e, db)) \<and>
    ListRecipientsByClient other (snd (UpdatePaymentRecipientRPC c i name number db)) = ListRecipientsByClient other db \<and>
    ListRecipientsByClient other (snd (DeletePaymentRecipientRPC c i db)) = ListRecipientsByClient other db"
proof -
  have own: "int (rec_ClientID r) = PrincipalID c" if "owned_recipient c i db = Inr r" for r
    using owned_recipientD [OF that] c ids(2) [of r] by (auto simp: ownsTxn_def OwnsResource_def to_int64_def)
  have err: "e = ErrPaymentRecipientNotFound" if "owned_recipient c i db = Inl e" for e
    using that by (auto simp: owned_recipient_def RecipientByID_def split: option.splits if_splits)
  show ?thesis
  proof (cases "owned_recipient c i db")
    case (Inl e)
    with err show ?thesis
      by (simp add: GetPaymentRecipientRPC_def UpdatePaymentRecipientRPC_def DeletePaymentRecipientRPC_def)
  next
    case (Inr r)
    note r = owned_recipientD [OF Inr]
    have mine: "rec_ClientID x \<noteq> other" if "x \<in> set (fst db)" "rec_ID x = i" for x
      using distinct_key_eq [OF ids(1) that(1) r(1)] that r(2) own [OF Inr] other by auto
    obtain r2 where upd: "snd (UpdateRecipient i name number db) = (put_row rec_ID r2 (fst db), snd db)"
      "rec_ID r2 = i" "rec_ClientID r2 = rec_ClientID r"
      using Inr r by (auto simp: UpdateRecipient_def owned_recipient_def Let_def split: sum.splits option.splits if_splits)
    have "filter (\<lambda>x. rec_ClientID x = other) (put_row rec_ID r2 xs) = filter (\<lambda>x. rec_ClientID x = other) xs"
      if "set xs \<subseteq> set (fst db)" for xs
      using that mine upd(2,3) mine [OF r(1,2)] by (induction xs) auto
    then have "ListRecipientsByClient other (snd (UpdateRecipient i name number db)) = ListRecipientsByClient other db"
      by (simp add: ListRecipientsByClient_def upd(1))
    moreover have "ListRecipientsByClient other (snd (DeleteRecipient i db)) = ListRecipientsByClient other db"
      using mine by (auto simp: ListRecipientsByClient_def DeleteRecipient_def intro!: filter_cong)
    ultimately show ?thesis using own Inr
      by (simp add: GetPaymentRecipientRPC_def UpdatePaymentRecipientRPC_def DeletePaymentRecipientRPC_def)
  qed
qed

theorem recipients_isolated_witness:
  "DeletePaymentRecipientRPC \<lparr>PrincipalType = ''client'', PrincipalID = 5, OnBehalfClientID = 0\<rparr> 2
     ([\<lparr>rec_ID = 2, rec_ClientID = 6, rec_RecipientName = ''Ana'', rec_AccountNumber = ''A''\<rparr>], 3) =
   (Inl ErrPaymentRecipientNotFound, ([\<lparr>rec_ID = 2, rec_ClientID = 6, rec_RecipientName = ''Ana'', rec_AccountNumber = ''A''\<rparr>], 3))"
proof -
  let ?c = "\<lparr>PrincipalType = ''client'', PrincipalID = 5, OnBehalfClientID = 0\<rparr>"
  let ?db = "([\<lparr>rec_ID = 2, rec_ClientID = 6, rec_RecipientName = ''Ana'', rec_AccountNumber = ''A''\<rparr>], 3 :: nat)"
  have "GetPaymentRecipientRPC ?c 2 ?db = Inl ErrPaymentRecipientNotFound"
    by (simp add: GetPaymentRecipientRPC_def owned_recipient_def RecipientByID_def ownsTxn_def OwnsResource_def
        IsClient_def to_int64_def)
  with recipients_isolated [of ?c ?db 6 2 None None] show ?thesis by (simp add: IsClient_def)
qed

end
