(* ===== verification/Card_Number.thy ===== *)
theory Card_Number
  imports Account_Number
begin

text \<open>
  Card numbers (\<^verbatim>\<open>src/card-service/internal/service/card_number_generation.go\<close>). The two draws of the
  random source are arguments: the prefix draw of \<^verbatim>\<open>rng.Intn\<close> and the middle of \<^verbatim>\<open>rng.Int63n\<close>. Strings are
  ASCII, so a rune is a byte. The largest power of ten computed is the fourteenth, so no integer wraps.
\<close>

section \<open>Definitions\<close>

definition brandCardLengths :: "string \<Rightarrow> nat" where
  "brandCardLengths brand =
     (if brand = ''visa'' then 16 else if brand = ''mastercard'' then 16
      else if brand = ''dinacard'' then 16 else if brand = ''amex'' then 15 else 0)"

definition brandPrefixes :: "string \<Rightarrow> string" where
  "brandPrefixes brand =
     (if brand = ''visa'' then ''4'' else if brand = ''dinacard'' then ''9891'' else [])"

definition amexPrefixes :: "string list" where
  "amexPrefixes = [''34'', ''37'']"

definition mastercardPrefixMin :: nat where
  "mastercardPrefixMin = 51"

definition mastercardPrefixMax :: nat where
  "mastercardPrefixMax = 55"

fun pow10 :: "nat \<Rightarrow> nat" where
  "pow10 0 = 1"
| "pow10 (Suc n) = pow10 n * 10"

text \<open>\<^verbatim>\<open>%0*d\<close> on a non-negative integer.\<close>

definition zero_pad :: "nat \<Rightarrow> nat \<Rightarrow> string" where
  "zero_pad width n = (let s = itoa n in replicate (width - length s) CHR ''0'' @ s)"

text \<open>One round of the loop that both Luhn functions run: \<open>i\<close> is the index, \<open>parity\<close> the doubled one.\<close>

definition luhn_digit :: "bool \<Rightarrow> int \<Rightarrow> int" where
  "luhn_digit doubled d = (if doubled then (if d * 2 > 9 then d * 2 - 9 else d * 2) else d)"

fun luhn_loop :: "nat \<Rightarrow> nat \<Rightarrow> string \<Rightarrow> int" where
  "luhn_loop parity i [] = 0"
| "luhn_loop parity i (c # cs) =
     luhn_digit (i mod 2 = parity) (int (of_char c) - 48) + luhn_loop parity (Suc i) cs"

text \<open>Go's remainder takes the sign of the dividend.\<close>

definition go_rem :: "int \<Rightarrow> int \<Rightarrow> int" where
  "go_rem a b = (if a < 0 then - ((- a) mod b) else a mod b)"

definition LuhnCheck :: "string \<Rightarrow> bool" where
  "LuhnCheck number \<longleftrightarrow> go_rem (luhn_loop (length number mod 2) 0 number) 10 = 0"

definition luhnCheckDigit :: "string \<Rightarrow> int" where
  "luhnCheckDigit partial =
     go_rem (10 - go_rem (luhn_loop ((length partial + 1) mod 2) 0 partial) 10) 10"

definition card_prefix :: "string \<Rightarrow> nat \<Rightarrow> string" where
  "card_prefix brand draw =
     (if brand = ''mastercard'' then itoa (mastercardPrefixMin + draw)
      else if brand = ''amex'' then amexPrefixes ! draw
      else if brandPrefixes brand = [] then ''4'' else brandPrefixes brand)"

definition total_length :: "string \<Rightarrow> nat" where
  "total_length brand = (if brandCardLengths brand = 0 then 16 else brandCardLengths brand)"

definition card_remaining :: "string \<Rightarrow> nat \<Rightarrow> nat" where
  "card_remaining brand draw = total_length brand - 1 - length (card_prefix brand draw)"

definition card_partial :: "string \<Rightarrow> nat \<Rightarrow> nat \<Rightarrow> string" where
  "card_partial brand draw middle = card_prefix brand draw @ zero_pad (card_remaining brand draw) middle"

definition GenerateCardNumber :: "string \<Rightarrow> nat \<Rightarrow> nat \<Rightarrow> string" where
  "GenerateCardNumber brand draw middle =
     card_partial brand draw middle @ itoa (nat (luhnCheckDigit (card_partial brand draw middle)))"

definition MaskCardNumber :: "string \<Rightarrow> string" where
  "MaskCardNumber full =
     (if length full < 8 then full else take 4 full @ ''********'' @ drop (length full - 4) full)"

definition GenerateCVV :: "nat \<Rightarrow> string" where
  "GenerateCVV draw = zero_pad 3 draw"

section \<open>Reference definition\<close>

text \<open>
  The Luhn rule as it is usually stated: from the right, every second digit is doubled, a two-digit
  product is replaced by the sum of its digits, and the total is a multiple of ten.
\<close>

fun luhn_total :: "bool \<Rightarrow> int list \<Rightarrow> int" where
  "luhn_total doubled [] = 0"
| "luhn_total doubled (d # ds) =
     (if doubled then 2 * d div 10 + 2 * d mod 10 else d) + luhn_total (\<not> doubled) ds"

definition digit_values :: "string \<Rightarrow> int list" where
  "digit_values s = map (\<lambda>c. int (of_char c) - 48) s"

definition luhn_valid :: "string \<Rightarrow> bool" where
  "luhn_valid s \<longleftrightarrow> luhn_total False (rev (digit_values s)) mod 10 = 0"

section \<open>Lemmas\<close>

lemma pow10_eq: "pow10 n = 10 ^ n"
  by (induction n) simp_all

lemma zero_pad_length: "n < 10 ^ w \<Longrightarrow> 0 < w \<Longrightarrow> length (zero_pad w n) = w"
  using length_digits_of [of n w] by (simp add: zero_pad_def Let_def itoa_def)

lemma zero_pad_digits: "list_all is_digit (zero_pad w n)"
  using itoa_digits [of n] by (auto simp: zero_pad_def Let_def list_all_iff is_digit_def)

lemma go_rem_nonneg [simp]: "0 \<le> a \<Longrightarrow> go_rem a b = a mod b"
  by (simp add: go_rem_def)

lemma go_rem_zero: "go_rem a b = 0 \<longleftrightarrow> a mod b = 0"
  by (simp add: go_rem_def mod_eq_0_iff_dvd)

lemma digit_values_range: "list_all is_digit s \<Longrightarrow> d \<in> set (digit_values s) \<Longrightarrow> 0 \<le> d \<and> d \<le> 9"
  by (auto simp: digit_values_def list_all_iff is_digit_def)

lemma luhn_digit_nonneg: "0 \<le> d \<Longrightarrow> 0 \<le> luhn_digit b d"
  by (simp add: luhn_digit_def)

lemma luhn_digit_cross_sum:
  assumes "0 \<le> d" "d \<le> 9"
  shows "luhn_digit True d = 2 * d div 10 + 2 * d mod 10"
proof -
  from assms have "d = 0 \<or> d = 1 \<or> d = 2 \<or> d = 3 \<or> d = 4 \<or> d = 5 \<or> d = 6 \<or> d = 7 \<or> d = 8 \<or> d = 9"
    by arith
  then show ?thesis by (auto simp: luhn_digit_def)
qed

text \<open>The loop is a weighted sum of the digit values.\<close>

fun luhn_sum :: "bool \<Rightarrow> int list \<Rightarrow> int" where
  "luhn_sum b [] = 0"
| "luhn_sum b (d # ds) = luhn_digit b d + luhn_sum (\<not> b) ds"

lemma luhn_loop_sum: "p < 2 \<Longrightarrow> luhn_loop p i s = luhn_sum (i mod 2 = p) (digit_values s)"
proof (induction s arbitrary: i)
  case (Cons c s)
  have "(Suc i mod 2 = p) = (\<not> (i mod 2 = p))" using Cons.prems by presburger
  with Cons show ?case by (simp add: digit_values_def)
qed (simp add: digit_values_def)

lemma luhn_sum_append:
  "luhn_sum b (xs @ ys) = luhn_sum b xs + luhn_sum (b = even (length xs)) ys"
proof (induction xs arbitrary: b)
  case (Cons x xs)
  have "((\<not> b) = even (length xs)) = (b = even (length (x # xs)))" by auto
  with Cons [of "\<not> b"] show ?case by (simp only: append_Cons luhn_sum.simps)
qed simp

lemma luhn_sum_rev:
  "(\<And>d. d \<in> set ds \<Longrightarrow> 0 \<le> d \<and> d \<le> 9) \<Longrightarrow>
    luhn_total b ds = luhn_sum (b = odd (length ds)) (rev ds)"
proof (induction ds arbitrary: b)
  case (Cons d ds)
  have "(if b then 2 * d div 10 + 2 * d mod 10 else d) = luhn_digit b d"
    using luhn_digit_cross_sum [of d] Cons.prems [of d] by (auto simp: luhn_digit_def)
  moreover have "((b = even (length ds)) = even (length ds)) = b" by auto
  ultimately show ?case using Cons.IH [of "\<not> b"] Cons.prems by (simp add: luhn_sum_append)
qed simp

lemma LuhnCheck_sum: "LuhnCheck s \<longleftrightarrow> luhn_sum (even (length s)) (digit_values s) mod 10 = 0"
  by (auto simp: LuhnCheck_def go_rem_zero luhn_loop_sum even_iff_mod_2_eq_zero)

lemma luhnCheckDigit_sum:
  assumes "list_all is_digit s"
  shows "luhnCheckDigit s = (- luhn_sum (odd (length s)) (digit_values s)) mod 10"
proof -
  let ?t = "luhn_sum (odd (length s)) (digit_values s)"
  have "0 \<le> luhn_sum b ds" if "\<And>d. d \<in> set ds \<Longrightarrow> 0 \<le> d" for b ds
    using that by (induction ds arbitrary: b) (auto simp: luhn_digit_nonneg)
  then have t: "0 \<le> ?t" using digit_values_range [OF assms] by blast
  have "luhn_loop ((length s + 1) mod 2) 0 s = ?t"
  proof -
    have "(0 mod 2 = (length s + 1) mod 2) = odd (length s)" by presburger
    then show ?thesis using luhn_loop_sum [of "(length s + 1) mod 2" 0 s] by simp
  qed
  then have "luhnCheckDigit s = go_rem (10 - ?t mod 10) 10"
    using t by (simp add: luhnCheckDigit_def)
  also have "\<dots> = (10 - ?t mod 10) mod 10"
    using pos_mod_bound [of 10 ?t] by (intro go_rem_nonneg) linarith
  also have "\<dots> = (- ?t + 10) mod 10" by (simp add: mod_diff_right_eq mod_minus_eq)
  also have "\<dots> = (- ?t) mod 10" by (rule mod_add_self2)
  finally show ?thesis .
qed

text \<open>A digit weighs differently from every other digit in the same place.\<close>

lemma luhn_digit_inj:
  assumes "0 \<le> d" "d \<le> 9" "0 \<le> e" "e \<le> 9" "(luhn_digit b d - luhn_digit b e) mod 10 = 0"
  shows "d = e"
  using assms by (cases b) (simp_all add: luhn_digit_def split: if_splits, presburger+)

lemma luhn_sum_update:
  "i < length ds \<Longrightarrow>
    luhn_sum b (ds[i := e]) = luhn_sum b ds - luhn_digit (b = even i) (ds ! i) + luhn_digit (b = even i) e"
proof (induction ds arbitrary: b i)
  case (Cons d ds)
  show ?case
  proof (cases i)
    case (Suc j)
    have "((\<not> b) = even j) = (b = even (Suc j))" by auto
    with Cons.IH [of j "\<not> b"] Cons.prems Suc show ?thesis by (simp del: even_Suc)
  qed simp
qed simp

lemma digit_values_update: "digit_values (s[i := c]) = (digit_values s)[i := int (of_char c) - 48]"
  by (simp add: digit_values_def map_update)

lemma luhn_balance:
  fixes d t :: int
  assumes "0 \<le> d" "d \<le> 9"
  shows "(t + d) mod 10 = 0 \<longleftrightarrow> d = (- t) mod 10"
proof -
  have "d mod 10 = d" using assms by simp
  then have "d = (- t) mod 10 \<longleftrightarrow> 10 dvd d - (- t)" using mod_eq_dvd_iff [of d 10 "- t"] by simp
  then show ?thesis by (simp add: mod_eq_0_iff_dvd add.commute)
qed

lemma luhn_shift:
  fixes t d e :: int
  assumes "(t - d + e) mod 10 = 0" "t mod 10 = 0"
  shows "(e - d) mod 10 = 0"
proof -
  have "10 dvd (t - d + e) - t" using assms by (intro dvd_diff) (simp_all add: mod_eq_0_iff_dvd)
  then show ?thesis by (simp add: mod_eq_0_iff_dvd algebra_simps)
qed

lemma luhn_append_digit:
  assumes "list_all is_digit s" "is_digit c"
  shows "LuhnCheck (s @ [c]) \<longleftrightarrow> int (of_char c) - 48 = luhnCheckDigit s"
proof -
  let ?t = "luhn_sum (odd (length s)) (digit_values s)" and ?d = "int (of_char c) - 48"
  have d: "0 \<le> ?d" "?d \<le> 9" using assms(2) by (auto simp: is_digit_def)
  have "LuhnCheck (s @ [c]) \<longleftrightarrow> (?t + ?d) mod 10 = 0"
    by (simp add: LuhnCheck_sum digit_values_def luhn_sum_append luhn_digit_def)
  also have "\<dots> \<longleftrightarrow> ?d = (- ?t) mod 10" by (rule luhn_balance [OF d])
  finally show ?thesis by (simp add: luhnCheckDigit_sum [OF assms(1)])
qed

text \<open>What \<^verbatim>\<open>rng.Intn\<close> and \<^verbatim>\<open>rng.Int63n\<close> may return: the values below their argument.\<close>

definition prefix_choices :: "string \<Rightarrow> nat" where
  "prefix_choices brand =
     (if brand = ''mastercard'' then mastercardPrefixMax - mastercardPrefixMin + 1
      else if brand = ''amex'' then length amexPrefixes else 1)"

definition draws_ok :: "string \<Rightarrow> nat \<Rightarrow> nat \<Rightarrow> bool" where
  "draws_ok brand draw middle \<longleftrightarrow>
     draw < prefix_choices brand \<and> middle < pow10 (card_remaining brand draw)"

text \<open>The issuer prefixes of the four brands.\<close>

definition issuer_prefixes :: "string \<Rightarrow> string list" where
  "issuer_prefixes brand =
     (if brand = ''visa'' then [''4'']
      else if brand = ''mastercard'' then [''51'', ''52'', ''53'', ''54'', ''55'']
      else if brand = ''dinacard'' then [''9891'']
      else if brand = ''amex'' then [''34'', ''37''] else [])"

abbreviation card_brands :: "string list" where
  "card_brands \<equiv> [''visa'', ''mastercard'', ''dinacard'', ''amex'']"

lemma itoa_two: "10 \<le> n \<Longrightarrow> n < 100 \<Longrightarrow> itoa n = [digit_char (n div 10), digit_char (n mod 10)]"
proof -
  assume n: "10 \<le> n" "n < 100"
  then have "n div 10 < 10" by (simp add: div_less_iff_less_mult)
  with n show ?thesis by (simp add: itoa_def digits_of.simps [of n] digits_of.simps [of "n div 10"])
qed

lemma mastercard_prefix_text:
  "itoa 51 = ''51''" "itoa 52 = ''52''" "itoa 53 = ''53''" "itoa 54 = ''54''" "itoa 55 = ''55''"
  by code_simp+

lemma card_prefix_issuer:
  assumes "brand \<in> set card_brands" "draw < prefix_choices brand"
  shows "card_prefix brand draw \<in> set (issuer_prefixes brand)"
proof (cases "brand = ''mastercard''")
  case True
  with assms(2) have "draw = 0 \<or> draw = 1 \<or> draw = 2 \<or> draw = 3 \<or> draw = 4"
    by (simp add: prefix_choices_def mastercardPrefixMin_def mastercardPrefixMax_def) arith
  then have "itoa (51 + draw) \<in> {''51'', ''52'', ''53'', ''54'', ''55''}"
    by (elim disjE) (simp_all add: mastercard_prefix_text)
  with True show ?thesis by (simp add: card_prefix_def issuer_prefixes_def mastercardPrefixMin_def)
next
  case False
  show ?thesis
  proof (cases "brand = ''amex''")
    case True
    with assms(2) have "draw = 0 \<or> draw = 1" by (auto simp: prefix_choices_def amexPrefixes_def)
    with True show ?thesis by (auto simp: card_prefix_def issuer_prefixes_def amexPrefixes_def)
  next
    case other: False
    with False assms(1) show ?thesis
      by (auto simp: card_prefix_def issuer_prefixes_def brandPrefixes_def)
  qed
qed

lemma issuer_prefix_shape:
  "p \<in> set (issuer_prefixes brand) \<Longrightarrow> list_all is_digit p \<and> 0 < length p \<and> length p \<le> 4"
  by (auto simp: issuer_prefixes_def is_digit_def split: if_splits)

lemma card_total_length:
  "brand \<in> set card_brands \<Longrightarrow> total_length brand = (if brand = ''amex'' then 15 else 16)"
  by (auto simp: total_length_def brandCardLengths_def)

lemma check_digit_char:
  assumes "0 \<le> d" "d < 10"
  shows "itoa (nat d) = [digit_char (nat d)]" "is_digit (digit_char (nat d))"
    "int (of_char (digit_char (nat d))) - 48 = d"
  using assms digit_char_digit [of "nat d"] digit_char_code [of "nat d"]
  by (simp_all add: itoa_def digits_of.simps)

lemma luhnCheckDigit_range: "list_all is_digit s \<Longrightarrow> 0 \<le> luhnCheckDigit s \<and> luhnCheckDigit s < 10"
  by (simp add: luhnCheckDigit_sum)

lemma card_partial_shape:
  assumes "brand \<in> set card_brands" "draws_ok brand draw middle"
  shows "list_all is_digit (card_partial brand draw middle)"
    "length (card_partial brand draw middle) = total_length brand - 1"
proof -
  let ?p = "card_prefix brand draw"
  have p: "list_all is_digit ?p" "0 < length ?p" "length ?p \<le> 4"
    using issuer_prefix_shape [OF card_prefix_issuer [OF assms(1)]] assms(2) by (simp_all add: draws_ok_def)
  have r: "0 < card_remaining brand draw"
    using p(3) card_total_length [OF assms(1)] by (auto simp: card_remaining_def)
  have "length (zero_pad (card_remaining brand draw) middle) = card_remaining brand draw"
    using assms(2) r by (intro zero_pad_length) (simp_all add: draws_ok_def pow10_eq)
  then show "length (card_partial brand draw middle) = total_length brand - 1"
    using p(3) card_total_length [OF assms(1)] by (auto simp: card_partial_def card_remaining_def)
  show "list_all is_digit (card_partial brand draw middle)"
    using p(1) zero_pad_digits by (simp add: card_partial_def)
qed

lemma generated_luhn:
  assumes "brand \<in> set card_brands" "draws_ok brand draw middle"
  shows "LuhnCheck (GenerateCardNumber brand draw middle)"
  using luhn_append_digit check_digit_char luhnCheckDigit_range card_partial_shape(1) [OF assms]
  by (simp add: GenerateCardNumber_def)

section \<open>Properties\<close>

text \<open>
  Generated card numbers. For each of the four brands and every outcome of the random draws,
  \<^verbatim>\<open>GenerateCardNumber\<close> gives a number of the brand's length (15 digits for amex, 16 otherwise) made of
  decimal digits, with an issuer prefix of the brand, that passes \<^verbatim>\<open>LuhnCheck\<close>; the masked form stored
  beside it has 16 characters and shows the first and the last four digits and no other.
\<close>

theorem card_number_valid:
  assumes "brand \<in> set card_brands" and "draws_ok brand draw middle"
  shows "let number = GenerateCardNumber brand draw middle; masked = MaskCardNumber number in
     length number = (if brand = ''amex'' then 15 else 16) \<and> list_all is_digit number \<and>
     (\<exists>p rest. p \<in> set (issuer_prefixes brand) \<and> number = p @ rest) \<and> LuhnCheck number \<and>
     length masked = 16 \<and> take 4 masked = take 4 number \<and> drop 12 masked = drop (length number - 4) number \<and>
     take 8 (drop 4 masked) = ''********''"
proof -
  let ?s = "card_partial brand draw middle" and ?n = "GenerateCardNumber brand draw middle"
  let ?c = "digit_char (nat (luhnCheckDigit ?s))"
  note shape = card_partial_shape [OF assms]
  note c = check_digit_char [of "luhnCheckDigit ?s"] luhnCheckDigit_range [OF shape(1)]
  have n: "?n = ?s @ [?c]" using c by (simp add: GenerateCardNumber_def)
  have len: "length ?n = (if brand = ''amex'' then 15 else 16)"
    using n shape(2) card_total_length [OF assms(1)] by simp
  have digits: "list_all is_digit ?n" using n shape(1) c by simp
  have prefix: "\<exists>p rest. p \<in> set (issuer_prefixes brand) \<and> ?n = p @ rest"
    using card_prefix_issuer [OF assms(1), of draw] assms(2)
    by (auto simp: draws_ok_def GenerateCardNumber_def card_partial_def)
  note luhn = generated_luhn [OF assms]
  have mask: "MaskCardNumber ?n = take 4 ?n @ ''********'' @ drop (length ?n - 4) ?n"
    using len by (simp add: MaskCardNumber_def)
  show ?thesis
    unfolding Let_def mask using len digits prefix luhn by (simp split: if_splits)
qed

theorem card_number_valid_witness:
  "length (GenerateCardNumber ''mastercard'' 4 1234567890123) = 16 \<and>
   LuhnCheck (GenerateCardNumber ''mastercard'' 4 1234567890123)"
proof -
  have "draws_ok ''mastercard'' 4 1234567890123"
    by (simp add: draws_ok_def prefix_choices_def mastercardPrefixMin_def mastercardPrefixMax_def pow10_eq
        card_remaining_def total_length_def brandCardLengths_def card_prefix_def itoa_two)
  with card_number_valid [of "''mastercard''" 4 1234567890123] show ?thesis by (simp add: Let_def)
qed

text \<open>
  C26: the Luhn rule. On strings of digits \<^verbatim>\<open>LuhnCheck\<close>, which runs from the left with a parity trick,
  agrees with the rule stated from the right; \<^verbatim>\<open>luhnCheckDigit\<close> is the one digit that completes a
  partial number; and no mistyped digit, in whatever place, is accepted.
\<close>

theorem luhn_sound:
  assumes "list_all is_digit s"
  shows "(LuhnCheck s \<longleftrightarrow> luhn_valid s) \<and>
     (\<forall>c. is_digit c \<longrightarrow> (LuhnCheck (s @ [c]) \<longleftrightarrow> int (of_char c) - 48 = luhnCheckDigit s)) \<and>
     (\<forall>i c. LuhnCheck s \<and> i < length s \<and> is_digit c \<and> c \<noteq> s ! i \<longrightarrow> \<not> LuhnCheck (s[i := c]))"
proof (intro conjI allI impI)
  let ?ds = "digit_values s"
  have range: "0 \<le> d \<and> d \<le> 9" if "d \<in> set ?ds" for d using digit_values_range [OF assms that] .
  have "luhn_total False (rev ?ds) = luhn_sum (even (length s)) ?ds"
    using luhn_sum_rev [of "rev ?ds" False] range by (simp add: digit_values_def)
  then show "LuhnCheck s \<longleftrightarrow> luhn_valid s" by (simp add: LuhnCheck_sum luhn_valid_def)
  show "LuhnCheck (s @ [c]) \<longleftrightarrow> int (of_char c) - 48 = luhnCheckDigit s" if "is_digit c" for c
    by (rule luhn_append_digit [OF assms that])
  fix i c
  assume a: "LuhnCheck s \<and> i < length s \<and> is_digit c \<and> c \<noteq> s ! i"
  let ?b = "even (length s) = even i" and ?e = "int (of_char c) - 48"
  show "\<not> LuhnCheck (s[i := c])"
  proof
    assume "LuhnCheck (s[i := c])"
    then have "(luhn_sum (even (length s)) ?ds - luhn_digit ?b (?ds ! i) + luhn_digit ?b ?e) mod 10 = 0"
      using a luhn_sum_update [of i ?ds "even (length s)" ?e]
      by (simp add: LuhnCheck_sum digit_values_update) (simp add: digit_values_def)
    moreover have "luhn_sum (even (length s)) ?ds mod 10 = 0" using a by (simp add: LuhnCheck_sum)
    ultimately have "(luhn_digit ?b ?e - luhn_digit ?b (?ds ! i)) mod 10 = 0"
      by (rule luhn_shift)
    moreover have "0 \<le> ?ds ! i" "?ds ! i \<le> 9" using range [of "?ds ! i"] a by (simp_all add: digit_values_def)
    moreover have "0 \<le> ?e" "?e \<le> 9" using a by (simp_all add: is_digit_def)
    ultimately have "?e = ?ds ! i" by (intro luhn_digit_inj [of ?e "?ds ! i" ?b])
    then have "(of_char c :: nat) = of_char (s ! i)" using a by (simp add: digit_values_def)
    with a show False by simp
  qed
qed

theorem luhn_sound_witness:
  "luhn_valid ''79927398713'' \<and> \<not> LuhnCheck ''89927398713''"
proof -
  let ?s = "''79927398713''"
  have d: "list_all is_digit ?s" by (simp add: is_digit_def)
  have ok: "LuhnCheck ?s" by (simp add: LuhnCheck_def go_rem_def luhn_digit_def)
  from luhn_sound [OF d] have "LuhnCheck ?s \<longleftrightarrow> luhn_valid ?s"
    and "LuhnCheck ?s \<and> 0 < length ?s \<and> is_digit CHR ''8'' \<and> CHR ''8'' \<noteq> ?s ! 0 \<longrightarrow> \<not> LuhnCheck (?s[0 := CHR ''8''])"
    by blast+
  with ok show ?thesis by (simp add: is_digit_def)
qed

end
