(* ===== verification/Calendar.thy ===== *)
theory Calendar
  imports Prelude
begin

text \<open>
  The calendar arithmetic of Go's \<^verbatim>\<open>time\<close> package that the services use: \<^verbatim>\<open>t.Date()\<close>, \<^verbatim>\<open>time.Date\<close> and
  \<^verbatim>\<open>t.AddDate\<close> on instants in seconds since the epoch, in UTC. \<^verbatim>\<open>time.Date\<close> normalises a month outside
  1 to 12 and lets a day past the end of the month run into the next one.
\<close>

definition days_from_civil :: "int \<Rightarrow> int \<Rightarrow> int \<Rightarrow> int" where
  "days_from_civil y m d =
     (let y' = (if m \<le> 2 then y - 1 else y);
          yoe = y' mod 400;
          doy = (153 * (if m > 2 then m - 3 else m + 9) + 2) div 5 + d - 1
      in y' div 400 * 146097 + (yoe * 365 + yoe div 4 - yoe div 100 + doy) - 719468)"

definition civil_from_days :: "int \<Rightarrow> int \<times> int \<times> int" where
  "civil_from_days days =
     (let z = days + 719468;
          era = z div 146097;
          doe = z mod 146097;
          yoe = (doe - doe div 1460 + doe div 36524 - doe div 146096) div 365;
          doy = doe - (365 * yoe + yoe div 4 - yoe div 100);
          mp = (5 * doy + 2) div 153;
          d = doy - (153 * mp + 2) div 5 + 1;
          m = (if mp < 10 then mp + 3 else mp - 9);
          y = yoe + era * 400
      in (if m \<le> 2 then y + 1 else y, m, d))"

definition date_days :: "int \<Rightarrow> int \<Rightarrow> int \<Rightarrow> int" where
  "date_days y m d = days_from_civil (y + (m - 1) div 12) ((m - 1) mod 12 + 1) 1 + (d - 1)"

definition AddDate :: "int \<Rightarrow> int \<Rightarrow> int \<Rightarrow> int \<Rightarrow> int" where
  "AddDate years months days t =
     (case civil_from_days (t div 86400) of
        (y, m, d) \<Rightarrow> date_days (y + years) (m + months) (d + days) * 86400 + t mod 86400)"

lemma epoch_date: "civil_from_days 0 = (1970, 1, 1)" "days_from_civil 2024 2 29 = 19782"
  by code_simp+

lemma end_of_january: "civil_from_days (AddDate 0 1 0 (days_from_civil 2023 1 31 * 86400) div 86400) = (2023, 3, 3)"
  by code_simp

section \<open>Month steps\<close>

text \<open>The days before the first of March of a year, counted from the first of March of year zero.\<close>

definition days_before_year :: "int \<Rightarrow> int" where
  "days_before_year y = y div 400 * 146097 + (y mod 400 * 365 + y mod 400 div 4 - y mod 400 div 100)"

lemma div_next:
  fixes a k :: int
  assumes "0 < k"
  shows "(a + 1) div k = a div k + (if k dvd a + 1 then 1 else 0)"
proof (cases "k dvd a + 1")
  case True
  then obtain c where c: "a + 1 = k * c" by blast
  with assms have "a = k * (c - 1) + (k - 1)" by (simp add: algebra_simps)
  then have "a div k = c - 1" using assms by (intro int_div_pos_eq [of _ _ _ "k - 1"]) simp_all
  with c True assms show ?thesis by simp
next
  case False
  define m where "m = a mod k"
  have m: "0 \<le> m" "m < k" using assms by (simp_all add: m_def)
  have a: "a = k * (a div k) + m" by (simp add: m_def)
  have "m + 1 \<noteq> k"
  proof
    assume "m + 1 = k"
    then have "a + 1 = k * (a div k + 1)" using a by (simp add: algebra_simps)
    with False show False by (metis dvd_triv_left)
  qed
  then have "(a + 1) div k = a div k" using a m by (intro int_div_pos_eq [of _ _ _ "m + 1"]) linarith+
  with False show ?thesis by simp
qed

lemma year_length: "days_before_year (y + 1) - days_before_year y \<in> {365, 366}"
proof -
  define r where "r = y mod 400"
  have r: "0 \<le> r" "r < 400" by (simp_all add: r_def)
  have d: "100 dvd r + 1 \<Longrightarrow> 4 dvd r + 1" by (rule dvd_trans [of _ 100]) simp_all
  show ?thesis
  proof (cases "r = 399")
    case True
    then have "(y + 1) mod 400 = 0" unfolding r_def by (simp add: mod_add_eq [symmetric])
    moreover from this have "(y + 1) div 400 = y div 400 + 1" by (simp add: div_next mod_eq_0_iff_dvd)
    ultimately show ?thesis using True by (simp add: days_before_year_def r_def [symmetric])
  next
    case False
    with r have "(y + 1) mod 400 = r + 1" unfolding r_def by (simp add: mod_add_eq [symmetric, of y])
    moreover from this r have "(y + 1) div 400 = y div 400" by (simp add: div_next mod_eq_0_iff_dvd [symmetric])
    ultimately show ?thesis using d by (auto simp: days_before_year_def r_def [symmetric] div_next)
  qed
qed

lemma days_from_civil_year:
  "days_from_civil y m d =
     days_before_year (if m \<le> 2 then y - 1 else y) + (153 * (if m > 2 then m - 3 else m + 9) + 2) div 5 + d - 719469"
  by (simp add: days_from_civil_def days_before_year_def Let_def)

lemma month_length:
  "28 \<le> date_days y (m + 1) d - date_days y m d \<and> date_days y (m + 1) d - date_days y m d \<le> 31"
proof -
  define Y k where "Y = y + (m - 1) div 12" and "k = (m - 1) mod 12"
  have k: "0 \<le> k" "k < 12" by (simp_all add: k_def)
  have feb: "days_before_year Y - days_before_year (Y - 1) \<in> {365, 366}" using year_length [of "Y - 1"] by simp
  show ?thesis
  proof (cases "k = 11")
    case True
    then have n: "m mod 12 = 0" "m div 12 = (m - 1) div 12 + 1" unfolding k_def by presburger+
    with n have "date_days y (m + 1) d = days_from_civil (Y + 1) 1 1 + (d - 1)"
      by (simp add: date_days_def Y_def add.assoc)
    moreover have "date_days y m d = days_from_civil Y 12 1 + (d - 1)"
      using True by (simp add: date_days_def Y_def k_def)
    ultimately show ?thesis by (simp add: days_from_civil_year)
  next
    case False
    then have "\<not> 12 dvd m" unfolding k_def by presburger
    then have q: "m div 12 = (m - 1) div 12" using div_next [of 12 "m - 1"] by simp
    have "m = 12 * (m div 12) + m mod 12" "m - 1 = 12 * ((m - 1) div 12) + k" by (simp_all add: k_def)
    with q have n: "m mod 12 = k + 1" by linarith
    with q have a: "date_days y (m + 1) d = days_from_civil Y (k + 2) 1 + (d - 1)"
      by (simp add: date_days_def Y_def add.assoc)
    have b: "date_days y m d = days_from_civil Y (k + 1) 1 + (d - 1)"
      by (simp add: date_days_def Y_def k_def)
    from k False have "k \<in> {0, 1, 2, 3, 4, 5, 6, 7, 8, 9, 10}" unfolding insert_iff empty_iff by presburger
    then show ?thesis using feb by (elim insertE) (auto simp: a b days_from_civil_year)
  qed
qed

lemma AddDate_month_step:
  "28 * 86400 \<le> AddDate 0 (k + 1) 0 t - AddDate 0 k 0 t \<and> AddDate 0 (k + 1) 0 t - AddDate 0 k 0 t \<le> 31 * 86400"
proof -
  obtain y m d where c: "civil_from_days (t div 86400) = (y, m, d)" by (rule prod_cases3)
  from month_length [of y "m + k" d] show ?thesis by (simp add: AddDate_def c algebra_simps)
qed

end
