(* ===== verification/Card.thy ===== *)
theory Card
  imports Card_Number Calendar
begin

text \<open>
  The card service: \<^verbatim>\<open>model/\<close>, \<^verbatim>\<open>repository/\<close>, \<^verbatim>\<open>service/card_service.go\<close>, \<^verbatim>\<open>service/card_request_service.go\<close>,
  \<^verbatim>\<open>service/card_cron.go\<close> and the client replica under \<^verbatim>\<open>src/card-service/internal/\<close>.

  The state is the tables, the Redis cache (absent when none was reachable at start) and the published
  messages; publishing and the cache calls do not fail the caller. Clock readings (seconds) and random
  draws are arguments, and one operation reads the clock once. The bcrypt functions are arguments too. \<^verbatim>\<open>UpdatedAt\<close> is written by the mapper and never read, and is left out. The advisory lock and
  \<^verbatim>\<open>SELECT FOR UPDATE\<close> make each transaction one step, so a \<^verbatim>\<open>Save\<close> always finds the version it read.
  An error text that interpolates values is represented by its sentinel.
\<close>

section \<open>Errors\<close>

definition ErrCardNotFound :: go_error where
  "ErrCardNotFound = Status NotFound ''card not found''"

definition ErrCardForbidden :: go_error where
  "ErrCardForbidden = Status PermissionDenied ''forbidden''"

definition ErrCardBlocked :: go_error where
  "ErrCardBlocked = Status FailedPrecondition ''card is blocked''"

definition ErrCardLocked :: go_error where
  "ErrCardLocked = Status PermissionDenied ''card locked from too many failed PIN attempts''"

definition ErrInvalidPIN :: go_error where
  "ErrInvalidPIN = Status InvalidArgument ''PIN must be 4 digits''"

definition ErrSingleUseAlreadyUsed :: go_error where
  "ErrSingleUseAlreadyUsed = Status FailedPrecondition ''single-use virtual card already used''"

definition ErrInvalidCard :: go_error where
  "ErrInvalidCard = Status InvalidArgument ''invalid card configuration''"

definition ErrCardLimitReached :: go_error where
  "ErrCardLimitReached = Status FailedPrecondition ''card limit reached for account/person''"

definition ErrCardAccountInactive :: go_error where
  "ErrCardAccountInactive = Status FailedPrecondition ''account is not active''"

definition ErrCardDeactivated :: go_error where
  "ErrCardDeactivated = Status FailedPrecondition ''card is deactivated''"

definition ErrCardNotBlocked :: go_error where
  "ErrCardNotBlocked = Status FailedPrecondition ''card is not blocked''"

definition ErrCardRequestNotFound :: go_error where
  "ErrCardRequestNotFound = Status NotFound ''card request not found''"

definition ErrCardRequestAlreadyDecided :: go_error where
  "ErrCardRequestAlreadyDecided = Status FailedPrecondition ''card request already decided''"

definition ErrInvalidBlockDuration :: go_error where
  "ErrInvalidBlockDuration = Status InvalidArgument ''invalid block duration''"

section \<open>Data\<close>

record card =
  cd_ID :: nat
  cd_CardNumber :: string
  cd_CardNumberFull :: string
  cd_CVV :: string
  cd_CardType :: string
  cd_CardName :: string
  cd_CardBrand :: string
  cd_AccountNumber :: string
  cd_OwnerID :: nat
  cd_OwnerType :: string
  cd_CardLimit :: decimal
  cd_Status :: string
  cd_Version :: int
  cd_ExpiresAt :: int
  cd_IsVirtual :: bool
  cd_UsageType :: string
  cd_MaxUses :: int
  cd_UsesRemaining :: int
  cd_PinHash :: string
  cd_PinAttempts :: int
  cd_CreatedAt :: int

record card_block =
  cb_ID :: nat
  cb_CardID :: nat
  cb_Reason :: string
  cb_BlockedAt :: int
  cb_ExpiresAt :: "int option"
  cb_Active :: bool

record card_request =
  cq_ID :: nat
  cq_ClientID :: nat
  cq_AccountNumber :: string
  cq_CardBrand :: string
  cq_CardType :: string
  cq_CardName :: string
  cq_Status :: string
  cq_Reason :: string
  cq_ApprovedBy :: nat
  cq_CreatedAt :: int

record client_replica =
  rep_ID :: nat
  rep_Email :: string
  rep_FirstName :: string
  rep_LastName :: string
  rep_JMBG :: string
  rep_Version :: int

record status_change_row =
  sc_EntityType :: string
  sc_EntityID :: nat
  sc_Action :: string
  sc_FieldName :: string
  sc_OldValue :: string
  sc_NewValue :: string
  sc_ChangedBy :: int
  sc_ChangedAt :: int
  sc_Reason :: string

datatype card_message =
    CardCreated nat string string
  | CardStatusChanged nat string string
  | CardTemporaryBlocked nat int string
  | VirtualCardCreated nat string string int
  | CardRequestCreated nat nat string string
  | CardRequestApproved nat nat nat
  | CardRequestRejected nat nat string
  | CardNotification nat string "(string \<times> string) list" string nat
  | CardEmail string "(string \<times> string) list"

record card_db =
  cards :: "card list"
  seq_cards :: nat
  card_blocks :: "card_block list"
  seq_card_blocks :: nat
  card_requests :: "card_request list"
  seq_card_requests :: nat
  card_changes :: "status_change_row list"
  card_cache :: "(nat \<rightharpoonup> card) option"
  card_messages :: "card_message list"
  client_replicas :: "client_replica list"

definition publish_card :: "card_message \<Rightarrow> card_db \<Rightarrow> card_db" where
  "publish_card m db = db\<lparr>card_messages := card_messages db @ [m]\<rparr>"

section \<open>Repositories\<close>

text \<open>
  An insert: zero values of columns with a default take the default, the key is the next of the sequence,
  and the unique index on the masked number refuses a second card with the same one.
\<close>

definition card_defaults :: "card \<Rightarrow> card" where
  "card_defaults c =
     c\<lparr>cd_CardLimit := (if cd_CardLimit c = 0 then 1000000 else cd_CardLimit c),
       cd_Version := (if cd_Version c = 0 then 1 else cd_Version c),
       cd_UsageType := (if cd_UsageType c = [] then ''unlimited'' else cd_UsageType c)\<rparr>"

definition CreateCardRow :: "int \<Rightarrow> card \<Rightarrow> card_db \<Rightarrow> go_error + (card \<times> card_db)" where
  "CreateCardRow now c db =
     (if cd_CardNumber c \<in> cd_CardNumber ` set (cards db) then Inl ErrDuplicateKey
      else let row = (card_defaults c)\<lparr>cd_ID := seq_cards db, cd_CreatedAt := now\<rparr>
           in Inr (row, db\<lparr>cards := cards db @ [row], seq_cards := Suc (seq_cards db)\<rparr>))"

definition CardByID :: "nat \<Rightarrow> card_db \<Rightarrow> card option" where
  "CardByID i db = find (\<lambda>c. cd_ID c = i) (cards db)"

definition SaveCard :: "card \<Rightarrow> card_db \<Rightarrow> card_db" where
  "SaveCard c db = db\<lparr>cards := put_row cd_ID (c\<lparr>cd_Version := cd_Version c + 1\<rparr>) (cards db)\<rparr>"

definition ListCardsByAccount :: "string \<Rightarrow> card_db \<Rightarrow> card list" where
  "ListCardsByAccount accountNumber db = filter (\<lambda>c. cd_AccountNumber c = accountNumber) (cards db)"

definition ListCardsByClient :: "nat \<Rightarrow> card_db \<Rightarrow> card list" where
  "ListCardsByClient clientID db =
     filter (\<lambda>c. cd_OwnerID c = clientID \<and> cd_OwnerType c = ''client'') (cards db)"

definition FindExpiredVirtual :: "int \<Rightarrow> card_db \<Rightarrow> card list" where
  "FindExpiredVirtual now db =
     filter (\<lambda>c. cd_IsVirtual c \<and> cd_Status c = ''active'' \<and> cd_ExpiresAt c \<le> now) (cards db)"

definition CountByAccount :: "string \<Rightarrow> card_db \<Rightarrow> nat" where
  "CountByAccount accountNumber db =
     length (filter (\<lambda>c. cd_AccountNumber c = accountNumber \<and> cd_Status c \<noteq> ''deactivated'') (cards db))"

definition CountByAccountAndOwner :: "string \<Rightarrow> nat \<Rightarrow> card_db \<Rightarrow> nat" where
  "CountByAccountAndOwner accountNumber ownerID db =
     length (filter (\<lambda>c. cd_AccountNumber c = accountNumber \<and> cd_OwnerID c = ownerID \<and> cd_Status c \<noteq> ''deactivated'')
       (cards db))"

definition FindExpiredActive :: "int \<Rightarrow> card_db \<Rightarrow> card_block list" where
  "FindExpiredActive now db =
     filter (\<lambda>b. cb_Active b \<and> (case cb_ExpiresAt b of None \<Rightarrow> False | Some t \<Rightarrow> t \<le> now)) (card_blocks db)"

definition CreateBlockRow :: "card_block \<Rightarrow> card_db \<Rightarrow> card_db" where
  "CreateBlockRow b db =
     db\<lparr>card_blocks := card_blocks db @ [b\<lparr>cb_ID := seq_card_blocks db\<rparr>],
        seq_card_blocks := Suc (seq_card_blocks db)\<rparr>"

definition DeactivateBlock :: "nat \<Rightarrow> card_db \<Rightarrow> card_db" where
  "DeactivateBlock i db =
     db\<lparr>card_blocks := upd_rows (\<lambda>b. cb_ID b = i) (\<lambda>b. b\<lparr>cb_Active := False\<rparr>) (card_blocks db)\<rparr>"

definition CreateRequestRow :: "int \<Rightarrow> card_request \<Rightarrow> card_db \<Rightarrow> card_request \<times> card_db" where
  "CreateRequestRow now q db =
     (let row = q\<lparr>cq_ID := seq_card_requests db, cq_CreatedAt := now\<rparr>
      in (row, db\<lparr>card_requests := card_requests db @ [row], seq_card_requests := Suc (seq_card_requests db)\<rparr>))"

definition RequestByID :: "nat \<Rightarrow> card_db \<Rightarrow> card_request option" where
  "RequestByID i db = find (\<lambda>q. cq_ID q = i) (card_requests db)"

definition UpdateRequestStatus :: "nat \<Rightarrow> string \<Rightarrow> string \<Rightarrow> nat \<Rightarrow> card_db \<Rightarrow> card_db" where
  "UpdateRequestStatus i status reason approvedBy db =
     db\<lparr>card_requests := upd_rows (\<lambda>q. cq_ID q = i)
          (\<lambda>q. q\<lparr>cq_Status := status, cq_Reason := reason, cq_ApprovedBy := approvedBy\<rparr>) (card_requests db)\<rparr>"

text \<open>A page of the requests, newest first; the handlers make both numbers positive.\<close>

definition page_of_requests :: "nat \<Rightarrow> nat \<Rightarrow> card_request list \<Rightarrow> card_request list" where
  "page_of_requests page pageSize qs = take pageSize (drop ((page - 1) * pageSize) (sort_key (\<lambda>q. - cq_CreatedAt q) qs))"

definition ListRequests :: "string \<Rightarrow> nat \<Rightarrow> nat \<Rightarrow> card_db \<Rightarrow> card_request list \<times> nat" where
  "ListRequests status page pageSize db =
     (let qs = (if status \<noteq> [] then filter (\<lambda>q. cq_Status q = status) (card_requests db) else card_requests db)
      in (page_of_requests page pageSize qs, length qs))"

definition ListRequestsByClient :: "nat \<Rightarrow> nat \<Rightarrow> nat \<Rightarrow> card_db \<Rightarrow> card_request list \<times> nat" where
  "ListRequestsByClient clientID page pageSize db =
     (let qs = filter (\<lambda>q. cq_ClientID q = clientID) (card_requests db) in (page_of_requests page pageSize qs, length qs))"

definition ReplicaByID :: "nat \<Rightarrow> card_db \<Rightarrow> client_replica option" where
  "ReplicaByID i db = find (\<lambda>r. rep_ID r = i) (client_replicas db)"

definition UpsertReplica :: "client_replica \<Rightarrow> card_db \<Rightarrow> card_db" where
  "UpsertReplica r db =
     (case ReplicaByID (rep_ID r) db of
        None \<Rightarrow> db\<lparr>client_replicas := client_replicas db @ [r]\<rparr>
      | Some existing \<Rightarrow>
          if rep_Version r \<le> rep_Version existing then db
          else db\<lparr>client_replicas := put_row rep_ID
                 (existing\<lparr>rep_Email := rep_Email r, rep_FirstName := rep_FirstName r,
                    rep_LastName := rep_LastName r, rep_JMBG := rep_JMBG r, rep_Version := rep_Version r\<rparr>)
                 (client_replicas db)\<rparr>)"

section \<open>Cache and change log\<close>

text \<open>What the JSON form of a card keeps: the fields tagged \<^verbatim>\<open>json:"-"\<close> are lost.\<close>

definition json_card :: "card \<Rightarrow> card" where
  "json_card c = c\<lparr>cd_CVV := [], cd_PinHash := [], cd_PinAttempts := 0\<rparr>"

definition invalidateCardCache :: "nat \<Rightarrow> card_db \<Rightarrow> card_db" where
  "invalidateCardCache i db = db\<lparr>card_cache := map_option (\<lambda>m. m(i := None)) (card_cache db)\<rparr>"

text \<open>\<^verbatim>\<open>json.Marshal\<close> of a string without characters to escape.\<close>

definition json_text :: "string \<Rightarrow> string" where
  "json_text s = CHR 0x22 # s @ [CHR 0x22]"

definition NewStatusChangeEntry ::
  "int \<Rightarrow> string \<Rightarrow> nat \<Rightarrow> int \<Rightarrow> string \<Rightarrow> string \<Rightarrow> string \<Rightarrow> status_change_row" where
  "NewStatusChangeEntry now entityType entityID changedBy old new reason =
     \<lparr>sc_EntityType = entityType, sc_EntityID = entityID, sc_Action = ''status_change'', sc_FieldName = ''status'',
      sc_OldValue = json_text old, sc_NewValue = json_text new, sc_ChangedBy = changedBy, sc_ChangedAt = now,
      sc_Reason = reason\<rparr>"

definition log_card_change :: "status_change_row \<Rightarrow> card_db \<Rightarrow> card_db" where
  "log_card_change row db = db\<lparr>card_changes := card_changes db @ [row]\<rparr>"

definition GetCard :: "nat \<Rightarrow> card_db \<Rightarrow> card result \<times> card_db" where
  "GetCard i db =
     (case Option.bind (card_cache db) (\<lambda>m. m i) of
        Some c \<Rightarrow> (Inr c, db)
      | None \<Rightarrow>
          (case CardByID i db of
             None \<Rightarrow> (Inl ErrRecordNotFound, db)
           | Some c \<Rightarrow> (Inr c, db\<lparr>card_cache := map_option (\<lambda>m. m(i \<mapsto> json_card c)) (card_cache db)\<rparr>)))"

section \<open>Issuing\<close>

definition validBrands :: "string \<Rightarrow> bool" where
  "validBrands brand \<longleftrightarrow> brand \<in> set [''visa'', ''mastercard'', ''dinacard'', ''amex'']"

definition validOwnerTypes :: "string \<Rightarrow> bool" where
  "validOwnerTypes ownerType \<longleftrightarrow> ownerType \<in> set [''client'', ''authorized_person'']"

text \<open>The clock and the random draws of one creation.\<close>

record card_draws =
  dr_prefix :: nat
  dr_middle :: nat
  dr_cvv :: nat

record card_env =
  ce_now :: int
  ce_draws :: card_draws

definition new_card :: "card_env \<Rightarrow> string \<Rightarrow> nat \<Rightarrow> string \<Rightarrow> string \<Rightarrow> int \<Rightarrow> card" where
  "new_card env accountNumber ownerID ownerType cardBrand expiresAt =
     (let cardNumber = GenerateCardNumber cardBrand (dr_prefix (ce_draws env)) (dr_middle (ce_draws env))
      in \<lparr>cd_ID = 0, cd_CardNumber = MaskCardNumber cardNumber, cd_CardNumberFull = cardNumber,
          cd_CVV = GenerateCVV (dr_cvv (ce_draws env)), cd_CardType = ''debit'', cd_CardName = [],
          cd_CardBrand = cardBrand, cd_AccountNumber = accountNumber, cd_OwnerID = ownerID,
          cd_OwnerType = ownerType, cd_CardLimit = 0, cd_Status = ''active'', cd_Version = 0,
          cd_ExpiresAt = expiresAt, cd_IsVirtual = False, cd_UsageType = [], cd_MaxUses = 0,
          cd_UsesRemaining = 0, cd_PinHash = [], cd_PinAttempts = 0, cd_CreatedAt = 0\<rparr>)"

definition create_card_body :: "int \<Rightarrow> card \<Rightarrow> card_db \<Rightarrow> go_error + (card \<times> card_db)" where
  "create_card_body now c db =
     (if (if cd_OwnerType c = ''authorized_person''
          then CountByAccountAndOwner (cd_AccountNumber c) (cd_OwnerID c) db \<ge> 1
          else CountByAccount (cd_AccountNumber c) db \<ge> 2)
      then Inl ErrCardLimitReached
      else case CreateCardRow now c db of
             Inl _ \<Rightarrow> Inl ErrCardAccountInactive
           | Inr r \<Rightarrow> Inr r)"

definition CreateCard ::
  "card_env \<Rightarrow> string \<Rightarrow> nat \<Rightarrow> string \<Rightarrow> string \<Rightarrow> card_db \<Rightarrow> (card \<times> string) result \<times> card_db" where
  "CreateCard env accountNumber ownerID ownerType cardBrand db =
     (if \<not> validBrands cardBrand then (Inl ErrInvalidCard, db)
      else if \<not> validOwnerTypes ownerType then (Inl ErrInvalidCard, db)
      else
        let c = new_card env accountNumber ownerID ownerType cardBrand (AddDate 3 0 0 (ce_now env))
        in case transaction (create_card_body (ce_now env) c) db of
             (Inl e, db') \<Rightarrow> (Inl e, db')
           | (Inr row, db') \<Rightarrow> (Inr (row, cd_CVV c), db'))"

definition virtual_card ::
  "card_env \<Rightarrow> string \<Rightarrow> nat \<Rightarrow> string \<Rightarrow> string \<Rightarrow> int \<Rightarrow> int \<Rightarrow> decimal \<Rightarrow> card" where
  "virtual_card env accountNumber ownerID cardBrand usageType uses expiryMonths l =
     (new_card env accountNumber ownerID ''client'' cardBrand (AddDate 0 expiryMonths 0 (ce_now env)))
       \<lparr>cd_CardLimit := l, cd_IsVirtual := True, cd_UsageType := usageType,
        cd_MaxUses := uses, cd_UsesRemaining := uses\<rparr>"

text \<open>\<open>limit\<close> is what \<^verbatim>\<open>decimal.NewFromString\<close> makes of the text, \<open>None\<close> on a parse error.\<close>

definition CreateVirtualCard ::
  "card_env \<Rightarrow> string \<Rightarrow> nat \<Rightarrow> string \<Rightarrow> string \<Rightarrow> int \<Rightarrow> int \<Rightarrow> decimal option \<Rightarrow> card_db \<Rightarrow>
     (card \<times> string) result \<times> card_db" where
  "CreateVirtualCard env accountNumber ownerID cardBrand usageType maxUses expiryMonths limit db =
     (if usageType \<notin> set [''single_use'', ''multi_use''] then (Inl ErrInvalidCard, db)
      else if expiryMonths < 1 \<or> expiryMonths > 3 then (Inl ErrInvalidCard, db)
      else if usageType = ''multi_use'' \<and> maxUses < 2 then (Inl ErrInvalidCard, db)
      else
        let uses = (if usageType = ''single_use'' then 1 else maxUses)
        in case limit of
             None \<Rightarrow> (Inl ErrInvalidCard, db)
           | Some l \<Rightarrow>
               if l \<le> 0 then (Inl ErrInvalidCard, db)
               else if \<not> validBrands cardBrand then (Inl ErrInvalidCard, db)
               else
                 let c = virtual_card env accountNumber ownerID cardBrand usageType uses expiryMonths l
                 in case CreateCardRow (ce_now env) c db of
                      Inl e \<Rightarrow> (Inl e, db)
                    | Inr (row, db1) \<Rightarrow>
                        (Inr (row, cd_CVV c),
                         publish_card (VirtualCardCreated (cd_ID row) (cd_AccountNumber row) (cd_UsageType row)
                           (cd_MaxUses row)) db1))"

section \<open>Status changes\<close>

definition block_body :: "nat \<Rightarrow> card_db \<Rightarrow> go_error + ((card \<times> string) \<times> card_db)" where
  "block_body i db =
     (case CardByID i db of
        None \<Rightarrow> Inl ErrCardNotFound
      | Some c \<Rightarrow>
          if cd_Status c = ''blocked'' then Inl ErrCardBlocked
          else if cd_Status c = ''deactivated'' then Inl ErrCardDeactivated
          else let c' = c\<lparr>cd_Status := ''blocked''\<rparr> in Inr ((c', cd_Status c), SaveCard c' db))"

definition unblock_body :: "nat \<Rightarrow> card_db \<Rightarrow> go_error + ((card \<times> string) \<times> card_db)" where
  "unblock_body i db =
     (case CardByID i db of
        None \<Rightarrow> Inl ErrCardNotFound
      | Some c \<Rightarrow>
          if cd_Status c \<noteq> ''blocked'' then Inl ErrCardNotBlocked
          else let c' = c\<lparr>cd_Status := ''active''\<rparr> in Inr ((c', ''blocked''), SaveCard c' db))"

definition deactivate_body :: "nat \<Rightarrow> card_db \<Rightarrow> go_error + ((card \<times> string) \<times> card_db)" where
  "deactivate_body i db =
     (case CardByID i db of
        None \<Rightarrow> Inl ErrCardNotFound
      | Some c \<Rightarrow>
          if cd_Status c = ''deactivated'' then Inl ErrCardDeactivated
          else let c' = c\<lparr>cd_Status := ''deactivated''\<rparr> in Inr ((c', cd_Status c), SaveCard c' db))"

text \<open>What the three operations do around their transaction.\<close>

definition status_change ::
  "(card_db \<Rightarrow> go_error + ((card \<times> string) \<times> card_db)) \<Rightarrow> string \<Rightarrow> int \<Rightarrow> nat \<Rightarrow> int \<Rightarrow> card_db \<Rightarrow>
     card result \<times> card_db" where
  "status_change body new now i changedBy db =
     (case transaction body db of
        (Inl e, db') \<Rightarrow> (Inl e, db')
      | (Inr (c, old), db') \<Rightarrow>
          (Inr c, log_card_change (NewStatusChangeEntry now ''card'' i changedBy old new []) (invalidateCardCache i db')))"

definition BlockCard :: "int \<Rightarrow> nat \<Rightarrow> int \<Rightarrow> card_db \<Rightarrow> card result \<times> card_db" where
  "BlockCard now i changedBy = status_change (block_body i) ''blocked'' now i changedBy"

definition UnblockCard :: "int \<Rightarrow> nat \<Rightarrow> int \<Rightarrow> card_db \<Rightarrow> card result \<times> card_db" where
  "UnblockCard now i changedBy = status_change (unblock_body i) ''active'' now i changedBy"

definition DeactivateCard :: "int \<Rightarrow> nat \<Rightarrow> int \<Rightarrow> card_db \<Rightarrow> card result \<times> card_db" where
  "DeactivateCard now i changedBy = status_change (deactivate_body i) ''deactivated'' now i changedBy"

definition temporary_block_body ::
  "nat \<Rightarrow> string \<Rightarrow> int \<Rightarrow> int \<Rightarrow> card_db \<Rightarrow> go_error + (card \<times> card_db)" where
  "temporary_block_body i reason now expiresAt db =
     (case CardByID i db of
        None \<Rightarrow> Inl ErrRecordNotFound
      | Some c \<Rightarrow>
          let c' = c\<lparr>cd_Status := ''blocked''\<rparr>
          in Inr (c', CreateBlockRow \<lparr>cb_ID = 0, cb_CardID = i, cb_Reason = reason, cb_BlockedAt = now,
                        cb_ExpiresAt = Some expiresAt, cb_Active = True\<rparr> (SaveCard c' db)))"

text \<open>\<open>rfc3339\<close> formats an instant.\<close>

definition notifyTemporaryBlock :: "(int \<Rightarrow> string) \<Rightarrow> card \<Rightarrow> int \<Rightarrow> string \<Rightarrow> card_db \<Rightarrow> card_db" where
  "notifyTemporaryBlock rfc3339 c expiresAt reason db =
     (if cd_OwnerType c \<noteq> ''client'' then db
      else publish_card (CardNotification (cd_OwnerID c) ''CARD_TEMPORARY_BLOCKED''
             [(''expires_at'', rfc3339 expiresAt), (''reason'', reason)] ''card'' (cd_ID c)) db)"

definition TemporaryBlockCard ::
  "(int \<Rightarrow> string) \<Rightarrow> int \<Rightarrow> nat \<Rightarrow> int \<Rightarrow> string \<Rightarrow> card_db \<Rightarrow> card result \<times> card_db" where
  "TemporaryBlockCard rfc3339 now i durationHours reason db =
     (if durationHours \<le> 0 \<or> durationHours > 720 then (Inl ErrInvalidBlockDuration, db)
      else
        let expiresAt = now + durationHours * 3600
        in case transaction (temporary_block_body i reason now expiresAt) db of
             (Inl e, db') \<Rightarrow> (Inl e, db')
           | (Inr c, db') \<Rightarrow>
               (Inr c, notifyTemporaryBlock rfc3339 c expiresAt reason
                  (publish_card (CardTemporaryBlocked (cd_ID c) expiresAt reason) (invalidateCardCache i db'))))"

section \<open>PIN and use\<close>

text \<open>
  \<open>hash\<close> is \<^verbatim>\<open>bcrypt.GenerateFromPassword\<close> and \<open>matches h p\<close> says that
  \<^verbatim>\<open>bcrypt.CompareHashAndPassword(h, p)\<close> returns nil.
\<close>

definition SetPin :: "(string \<Rightarrow> string result) \<Rightarrow> nat \<Rightarrow> string \<Rightarrow> card_db \<Rightarrow> unit result \<times> card_db" where
  "SetPin hash i pin db =
     (if \<not> (length pin = 4 \<and> list_all is_digit pin) then (Inl ErrInvalidPIN, db)
      else case CardByID i db of
             None \<Rightarrow> (Inl ErrRecordNotFound, db)
           | Some c \<Rightarrow>
               (case hash pin of
                  Inl e \<Rightarrow> (Inl e, db)
                | Inr h \<Rightarrow>
                    (Inr (), invalidateCardCache i (SaveCard (c\<lparr>cd_PinHash := h, cd_PinAttempts := 0\<rparr>) db))))"

definition verify_pin_body ::
  "(string \<Rightarrow> string \<Rightarrow> bool) \<Rightarrow> nat \<Rightarrow> string \<Rightarrow> card_db \<Rightarrow> go_error + (bool \<times> card_db)" where
  "verify_pin_body matches i pin db =
     (case CardByID i db of
        None \<Rightarrow> Inl ErrRecordNotFound
      | Some c \<Rightarrow>
          if cd_PinAttempts c \<ge> 3 then Inl ErrCardLocked
          else if \<not> matches (cd_PinHash c) pin then
            let c1 = c\<lparr>cd_PinAttempts := cd_PinAttempts c + 1\<rparr>;
                c2 = (if cd_PinAttempts c1 \<ge> 3 then c1\<lparr>cd_Status := ''blocked''\<rparr> else c1)
            in Inr (False, SaveCard c2 db)
          else Inr (True, SaveCard (c\<lparr>cd_PinAttempts := 0\<rparr>) db))"

definition VerifyPin :: "(string \<Rightarrow> string \<Rightarrow> bool) \<Rightarrow> nat \<Rightarrow> string \<Rightarrow> card_db \<Rightarrow> bool result \<times> card_db" where
  "VerifyPin matches i pin = transaction (verify_pin_body matches i pin)"

definition use_body :: "nat \<Rightarrow> card_db \<Rightarrow> go_error + (unit \<times> card_db)" where
  "use_body i db =
     (case CardByID i db of
        None \<Rightarrow> Inl ErrRecordNotFound
      | Some c \<Rightarrow>
          if \<not> cd_IsVirtual c \<or> cd_UsageType c = ''unlimited'' then Inr ((), db)
          else if cd_UsesRemaining c \<le> 0 then Inl ErrSingleUseAlreadyUsed
          else
            let c1 = c\<lparr>cd_UsesRemaining := cd_UsesRemaining c - 1\<rparr>;
                c2 = (if cd_UsesRemaining c1 = 0 then c1\<lparr>cd_Status := ''deactivated''\<rparr> else c1)
            in Inr ((), SaveCard c2 db))"

definition UseCard :: "nat \<Rightarrow> card_db \<Rightarrow> unit result \<times> card_db" where
  "UseCard i db =
     (case transaction (use_body i) db of
        (Inl e, db') \<Rightarrow> (Inl e, db')
      | (Inr u, db') \<Rightarrow> (Inr u, invalidateCardCache i db'))"

section \<open>Maintenance tick\<close>

definition unblock_expired_body :: "card_block \<Rightarrow> card_db \<Rightarrow> go_error + (unit \<times> card_db)" where
  "unblock_expired_body b db =
     (let db1 = DeactivateBlock (cb_ID b) db
      in case CardByID (cb_CardID b) db1 of
           None \<Rightarrow> Inl ErrRecordNotFound
         | Some c \<Rightarrow> Inr ((), SaveCard (c\<lparr>cd_Status := ''active''\<rparr>) db1))"

definition expire_virtual_body :: "card \<Rightarrow> card_db \<Rightarrow> go_error + (unit \<times> card_db)" where
  "expire_virtual_body c db =
     (case CardByID (cd_ID c) db of
        None \<Rightarrow> Inl ErrRecordNotFound
      | Some locked \<Rightarrow>
          if cd_Status locked = ''deactivated'' then Inr ((), db)
          else Inr ((), SaveCard (locked\<lparr>cd_Status := ''deactivated''\<rparr>) db))"

definition runCardCronTick :: "int \<Rightarrow> card_db \<Rightarrow> card_db" where
  "runCardCronTick now db =
     (let db1 = fold (\<lambda>b d. snd (transaction (unblock_expired_body b) d)) (FindExpiredActive now db) db
      in fold (\<lambda>c d. snd (transaction (expire_virtual_body c) d)) (FindExpiredVirtual now db1) db1)"

section \<open>Card requests\<close>

definition notifyRequest :: "card_request \<Rightarrow> string \<Rightarrow> (string \<times> string) list \<Rightarrow> card_db \<Rightarrow> card_db" where
  "notifyRequest q kind data db = publish_card (CardNotification (cq_ClientID q) kind data ''card_request'' (cq_ID q)) db"

definition CreateRequest :: "int \<Rightarrow> card_request \<Rightarrow> card_db \<Rightarrow> card_request result \<times> card_db" where
  "CreateRequest now q db =
     (if \<not> validBrands (cq_CardBrand q) then (Inl ErrInvalidCard, db)
      else
        case CreateRequestRow now
               (q\<lparr>cq_CardType := (if cq_CardType q = [] then ''debit'' else cq_CardType q), cq_Status := ''pending''\<rparr>) db of
          (row, db1) \<Rightarrow>
            (Inr row, notifyRequest row ''CARD_REQUEST_CREATED'' [(''card_brand'', cq_CardBrand row)]
               (publish_card (CardRequestCreated (cq_ID row) (cq_ClientID row) (cq_AccountNumber row) (cq_CardBrand row)) db1)))"

definition ApproveRequest :: "card_env \<Rightarrow> nat \<Rightarrow> nat \<Rightarrow> card_db \<Rightarrow> card result \<times> card_db" where
  "ApproveRequest env i employeeID db =
     (case RequestByID i db of
        None \<Rightarrow> (Inl ErrCardRequestNotFound, db)
      | Some q \<Rightarrow>
          if cq_Status q \<noteq> ''pending'' then (Inl ErrCardRequestAlreadyDecided, db)
          else
            case CreateCard env (cq_AccountNumber q) (cq_ClientID q) ''client'' (cq_CardBrand q) db of
              (Inl e, db1) \<Rightarrow> (Inl e, db1)
            | (Inr (c, _), db1) \<Rightarrow>
                (Inr c, notifyRequest q ''CARD_REQUEST_APPROVED'' [(''card_brand'', cq_CardBrand q)]
                   (publish_card (CardRequestApproved i (cd_ID c) employeeID)
                      (UpdateRequestStatus i ''approved'' [] employeeID db1))))"

definition RejectRequest :: "nat \<Rightarrow> nat \<Rightarrow> string \<Rightarrow> card_db \<Rightarrow> unit result \<times> card_db" where
  "RejectRequest i employeeID reason db =
     (case RequestByID i db of
        None \<Rightarrow> (Inl ErrCardRequestNotFound, db)
      | Some q \<Rightarrow>
          if cq_Status q \<noteq> ''pending'' then (Inl ErrCardRequestAlreadyDecided, db)
          else
            (Inr (), notifyRequest q ''CARD_REQUEST_REJECTED'' [(''reason'', reason)]
               (publish_card (CardRequestRejected i employeeID reason)
                  (UpdateRequestStatus i ''rejected'' reason employeeID db))))"

end
