(* ===== verification/Card_Safety.thy ===== *)
theory Card_Safety
  imports Card
begin

text \<open>
  The life of a card. \<open>card_step\<close> is one operation of the card service on its state; the invariant
  \<open>cards_ok\<close> holds in every reachable state. The other properties describe issuing under the card limits,
  the PIN lock, the maintenance tick, the card requests and the client replica.
\<close>

section \<open>Invariant\<close>

text \<open>The fields of a card that no operation changes.\<close>

definition card_identity :: "card \<Rightarrow> nat \<times> string \<times> string \<times> string \<times> string \<times> nat \<times> string \<times> decimal \<times> int \<times> bool \<times> string \<times> int" where
  "card_identity c =
     (cd_ID c, cd_CardNumber c, cd_CardNumberFull c, cd_CardBrand c, cd_AccountNumber c, cd_OwnerID c, cd_OwnerType c,
      cd_CardLimit c, cd_ExpiresAt c, cd_IsVirtual c, cd_UsageType c, cd_MaxUses c)"

lemma card_identity_eq:
  "card_identity c = card_identity d \<longleftrightarrow>
     cd_ID c = cd_ID d \<and> cd_CardNumber c = cd_CardNumber d \<and> cd_CardNumberFull c = cd_CardNumberFull d \<and>
     cd_CardBrand c = cd_CardBrand d \<and> cd_AccountNumber c = cd_AccountNumber d \<and> cd_OwnerID c = cd_OwnerID d \<and>
     cd_OwnerType c = cd_OwnerType d \<and> cd_CardLimit c = cd_CardLimit d \<and> cd_ExpiresAt c = cd_ExpiresAt d \<and>
     cd_IsVirtual c = cd_IsVirtual d \<and> cd_UsageType c = cd_UsageType d \<and> cd_MaxUses c = cd_MaxUses d"
  by (simp add: card_identity_def)

definition known_status :: "string \<Rightarrow> bool" where
  "known_status s \<longleftrightarrow> s \<in> {''active'', ''blocked'', ''deactivated''}"

definition uses_ok :: "card \<Rightarrow> bool" where
  "uses_ok c \<longleftrightarrow>
     (if cd_IsVirtual c
      then cd_UsageType c \<in> {''single_use'', ''multi_use''} \<and> 1 \<le> cd_MaxUses c \<and>
           0 \<le> cd_UsesRemaining c \<and> cd_UsesRemaining c \<le> cd_MaxUses c \<and>
           (cd_UsageType c = ''single_use'' \<longrightarrow> cd_MaxUses c = 1)
      else cd_UsageType c = ''unlimited'')"

definition number_ok :: "card \<Rightarrow> bool" where
  "number_ok c \<longleftrightarrow>
     LuhnCheck (cd_CardNumberFull c) \<and> cd_CardNumber c = MaskCardNumber (cd_CardNumberFull c) \<and>
     validBrands (cd_CardBrand c) \<and> validOwnerTypes (cd_OwnerType c) \<and> 0 < cd_CardLimit c"

definition card_ok :: "card \<Rightarrow> bool" where
  "card_ok c \<longleftrightarrow>
     known_status (cd_Status c) \<and> 0 \<le> cd_PinAttempts c \<and> cd_PinAttempts c \<le> 3 \<and> uses_ok c \<and> number_ok c"

definition card_keys_ok :: "card_db \<Rightarrow> bool" where
  "card_keys_ok db \<longleftrightarrow>
     distinct (map cd_ID (cards db)) \<and> distinct (map cd_CardNumber (cards db)) \<and>
     (\<forall>c \<in> set (cards db). cd_ID c < seq_cards db)"

definition blocks_ok :: "card_db \<Rightarrow> bool" where
  "blocks_ok db \<longleftrightarrow>
     distinct (map cb_ID (card_blocks db)) \<and> (\<forall>b \<in> set (card_blocks db). cb_ID b < seq_card_blocks db) \<and>
     (\<forall>b \<in> set (card_blocks db). cb_CardID b \<in> cd_ID ` set (cards db))"

definition requests_ok :: "card_db \<Rightarrow> bool" where
  "requests_ok db \<longleftrightarrow>
     distinct (map cq_ID (card_requests db)) \<and> (\<forall>q \<in> set (card_requests db). cq_ID q < seq_card_requests db) \<and>
     (\<forall>q \<in> set (card_requests db). cq_Status q \<in> {''pending'', ''approved'', ''rejected''} \<and> validBrands (cq_CardBrand q))"

text \<open>A cached card may be stale, but never in the fields that decide about access.\<close>

definition cache_ok :: "card_db \<Rightarrow> bool" where
  "cache_ok db \<longleftrightarrow>
     (\<forall>m i c. card_cache db = Some m \<and> m i = Some c \<longrightarrow>
        (\<exists>r \<in> set (cards db). cd_ID r = i \<and> card_identity c = card_identity r))"

definition cards_ok :: "card_db \<Rightarrow> bool" where
  "cards_ok db \<longleftrightarrow>
     card_keys_ok db \<and> (\<forall>c \<in> set (cards db). card_ok c) \<and> blocks_ok db \<and> requests_ok db \<and> cache_ok db"

lemma CardByID_in: "CardByID i db = Some c \<Longrightarrow> c \<in> set (cards db) \<and> cd_ID c = i"
  unfolding CardByID_def by (drule find_SomeD) simp

lemma CardByID_unique: "card_keys_ok db \<Longrightarrow> c \<in> set (cards db) \<Longrightarrow> CardByID (cd_ID c) db = Some c"
  unfolding CardByID_def card_keys_ok_def by (rule find_unique) (auto dest: distinct_key_eq)

text \<open>Writes to one row.\<close>

lemma SaveCard_fields [simp]:
  "seq_cards (SaveCard c db) = seq_cards db" "card_blocks (SaveCard c db) = card_blocks db"
  "seq_card_blocks (SaveCard c db) = seq_card_blocks db" "card_requests (SaveCard c db) = card_requests db"
  "seq_card_requests (SaveCard c db) = seq_card_requests db" "card_cache (SaveCard c db) = card_cache db"
  "card_changes (SaveCard c db) = card_changes db" "card_messages (SaveCard c db) = card_messages db"
  "client_replicas (SaveCard c db) = client_replicas db"
  "cards (SaveCard c db) = put_row cd_ID (c\<lparr>cd_Version := cd_Version c + 1\<rparr>) (cards db)"
  by (simp_all add: SaveCard_def)

lemma card_identity_version [simp]: "card_identity (c\<lparr>cd_Version := v\<rparr>) = card_identity c"
  by (simp add: card_identity_def)

lemma card_ok_version [simp]: "card_ok (c\<lparr>cd_Version := v\<rparr>) = card_ok c"
  by (simp add: card_ok_def uses_ok_def number_ok_def)

lemma SaveCard_identities:
  assumes "card_keys_ok db" "c \<in> set (cards db)" "card_identity c' = card_identity c"
  shows "map card_identity (cards (SaveCard c' db)) = map card_identity (cards db)"
proof -
  have "card_identity x = card_identity c'" if "x \<in> set (cards db)" "cd_ID x = cd_ID c'" for x
    using that assms distinct_key_eq [of cd_ID "cards db" x c]
    by (auto simp: card_keys_ok_def card_identity_eq)
  then show ?thesis by (simp add: map_other_put_row)
qed

text \<open>Everything that the other parts of the invariant need of the table is in the identities.\<close>

lemma identities_images:
  assumes "map card_identity xs = map card_identity ys"
  shows "map cd_ID xs = map cd_ID ys" "map cd_CardNumber xs = map cd_CardNumber ys"
proof -
  have "map (\<lambda>t. fst t) (map card_identity xs) = map (\<lambda>t. fst t) (map card_identity ys)"
    using assms by simp
  then show "map cd_ID xs = map cd_ID ys" by (simp add: card_identity_def comp_def)
  have "map (\<lambda>t. fst (snd t)) (map card_identity xs) = map (\<lambda>t. fst (snd t)) (map card_identity ys)"
    using assms by simp
  then show "map cd_CardNumber xs = map cd_CardNumber ys" by (simp add: card_identity_def comp_def)
qed

lemma same_image_member: "f ` A = f ` B \<Longrightarrow> x \<in> B \<Longrightarrow> \<exists>y \<in> A. f y = f x"
  by (metis imageE imageI)

lemma cards_ok_same_identities:
  assumes ok: "cards_ok db" and ids: "map card_identity (cards db') = map card_identity (cards db)"
    and rows: "\<And>c. c \<in> set (cards db') \<Longrightarrow> card_ok c"
    and same: "seq_cards db' = seq_cards db" "card_blocks db' = card_blocks db" "seq_card_blocks db' = seq_card_blocks db"
      "card_requests db' = card_requests db" "seq_card_requests db' = seq_card_requests db" "card_cache db' = card_cache db"
  shows "cards_ok db'"
proof -
  note im = identities_images [OF ids]
  have set_ids: "cd_ID ` set (cards db') = cd_ID ` set (cards db)"
    using arg_cong [OF im(1), of set] by simp
  have ident: "card_identity ` set (cards db') = card_identity ` set (cards db)"
    using arg_cong [OF ids, of set] by simp
  have keys: "card_keys_ok db'"
  proof -
    have "cd_ID c < seq_cards db'" if "c \<in> set (cards db')" for c
    proof -
      from that obtain d where "d \<in> set (cards db)" "cd_ID d = cd_ID c"
        using same_image_member [OF set_ids [symmetric]] by blast
      with ok same(1) show ?thesis by (auto simp: cards_ok_def card_keys_ok_def)
    qed
    with ok im show ?thesis by (simp add: cards_ok_def card_keys_ok_def)
  qed
  have "cache_ok db'"
    unfolding cache_ok_def
  proof (intro allI impI)
    fix m i c assume "card_cache db' = Some m \<and> m i = Some c"
    with same(6) have "card_cache db = Some m \<and> m i = Some c" by simp
    moreover have "cache_ok db" using ok by (simp add: cards_ok_def)
    ultimately obtain r where r: "r \<in> set (cards db)" "cd_ID r = i" "card_identity c = card_identity r"
      unfolding cache_ok_def by blast
    obtain r' where "r' \<in> set (cards db')" "card_identity r' = card_identity r"
      using same_image_member [OF ident r(1)] by blast
    with r show "\<exists>r \<in> set (cards db'). cd_ID r = i \<and> card_identity c = card_identity r"
      by (intro bexI [of _ r']) (auto simp: card_identity_eq)
  qed
  moreover have "blocks_ok db'" using ok same(2,3) set_ids by (simp add: cards_ok_def blocks_ok_def)
  moreover have "requests_ok db'" using ok same(4,5) by (simp add: cards_ok_def requests_ok_def)
  ultimately show ?thesis using keys rows by (simp add: cards_ok_def)
qed

lemma SaveCard_ok:
  assumes "cards_ok db" "c \<in> set (cards db)" "card_identity c' = card_identity c" "card_ok c'"
  shows "cards_ok (SaveCard c' db)"
proof (rule cards_ok_same_identities [OF assms(1)])
  show "map card_identity (cards (SaveCard c' db)) = map card_identity (cards db)"
    using assms by (intro SaveCard_identities) (simp_all add: cards_ok_def)
  show "card_ok d" if "d \<in> set (cards (SaveCard c' db))" for d
    using that assms by (auto simp: cards_ok_def dest!: in_put_rowD)
qed simp_all

section \<open>Every operation keeps the invariant\<close>

lemmas cards_ok_parts = cards_ok_def card_keys_ok_def blocks_ok_def requests_ok_def cache_ok_def

lemma cards_ok_quiet [simp]:
  "cards_ok (publish_card m db) = cards_ok db" "cards_ok (log_card_change row db) = cards_ok db"
  "cards_ok (db\<lparr>client_replicas := rs\<rparr>) = cards_ok db"
  by (simp_all add: publish_card_def log_card_change_def cards_ok_parts)

lemma cards_ok_evict: "cards_ok db \<Longrightarrow> cards_ok (invalidateCardCache i db)"
  by (auto simp: invalidateCardCache_def cards_ok_parts split: if_splits)

lemma cards_ok_expire: "cards_ok db \<Longrightarrow> cards_ok (db\<lparr>card_cache := map_option (\<lambda>m. m(i := None)) (card_cache db)\<rparr>)"
  using cards_ok_evict [of db i] by (simp add: invalidateCardCache_def)

lemma GetCard_ok:
  assumes "cards_ok db"
  shows "cards_ok (snd (GetCard i db))"
proof (cases "Option.bind (card_cache db) (\<lambda>m. m i)")
  case None
  show ?thesis
  proof (cases "CardByID i db")
    case (Some c)
    then have "c \<in> set (cards db)" "cd_ID c = i" using CardByID_in by blast+
    moreover have "card_identity (json_card c) = card_identity c" by (simp add: json_card_def card_identity_def)
    ultimately show ?thesis
      using assms None Some by (auto simp: GetCard_def cards_ok_parts split: if_splits)
  qed (use assms None in \<open>simp add: GetCard_def\<close>)
qed (use assms in \<open>simp add: GetCard_def\<close>)

text \<open>
  \<open>kept xs db\<close>: the invariant, and the cards known under \<open>xs\<close> are all still there with the same identity.
\<close>

definition kept :: "(nat \<times> string \<times> string \<times> string \<times> string \<times> nat \<times> string \<times> decimal \<times> int \<times> bool \<times> string \<times> int) list \<Rightarrow> card_db \<Rightarrow> bool" where
  "kept xs db \<longleftrightarrow> cards_ok db \<and> (\<exists>zs. map card_identity (cards db) = xs @ zs)"

lemma kept_ok: "kept xs db \<Longrightarrow> cards_ok db"
  by (simp add: kept_def)

lemma kept_same: "kept xs db \<Longrightarrow> cards_ok db' \<Longrightarrow> cards db' = cards db \<Longrightarrow> kept xs db'"
  by (simp add: kept_def)

lemma kept_quiet [simp]:
  "kept xs (publish_card m db) = kept xs db" "kept xs (log_card_change row db) = kept xs db"
  "kept xs (db\<lparr>client_replicas := rs\<rparr>) = kept xs db"
  by (simp_all add: kept_def) (simp_all add: publish_card_def log_card_change_def)

lemma kept_evict: "kept xs db \<Longrightarrow> kept xs (invalidateCardCache i db)"
  by (rule kept_same) (auto simp: invalidateCardCache_def kept_def intro: cards_ok_expire)

lemma kept_GetCard: "kept xs db \<Longrightarrow> kept xs (snd (GetCard i db))"
proof (rule kept_same)
  show "kept xs db \<Longrightarrow> cards_ok (snd (GetCard i db))" by (rule GetCard_ok [OF kept_ok])
  show "cards (snd (GetCard i db)) = cards db" by (simp add: GetCard_def split: option.split)
qed

lemma kept_SaveCard:
  assumes "kept xs db" "c \<in> set (cards db)" "card_identity c' = card_identity c" "card_ok c'"
  shows "kept xs (SaveCard c' db)"
proof -
  have ok: "cards_ok db" by (rule kept_ok [OF assms(1)])
  moreover have "map card_identity (cards (SaveCard c' db)) = map card_identity (cards db)"
    using ok assms(2,3) by (intro SaveCard_identities) (simp_all add: cards_ok_def)
  ultimately show ?thesis using assms SaveCard_ok [OF ok assms(2-4)] by (simp add: kept_def)
qed

lemma CreateCardRow_shape:
  assumes "CreateCardRow now c db = Inr (row, db')"
  shows "row = (card_defaults c)\<lparr>cd_ID := seq_cards db, cd_CreatedAt := now\<rparr>"
    "db' = db\<lparr>cards := cards db @ [row], seq_cards := Suc (seq_cards db)\<rparr>"
    "cd_CardNumber c \<notin> cd_CardNumber ` set (cards db)"
  using assms by (auto simp: CreateCardRow_def Let_def split: if_splits)

lemma CreateCardRow_ok:
  assumes "cards_ok db" "CreateCardRow now c db = Inr (row, db')" "card_ok row"
  shows "cards_ok db'"
proof -
  note shape = CreateCardRow_shape [OF assms(2)]
  have "cd_CardNumber row = cd_CardNumber c" "cd_ID row = seq_cards db"
    using shape(1) by (simp_all add: card_defaults_def)
  then show ?thesis
    using assms(1,3) shape(2,3)
    by (auto simp: cards_ok_parts less_Suc_eq image_iff)
qed

lemma kept_CreateCardRow:
  assumes "kept xs db" "CreateCardRow now c db = Inr (row, db')" "card_ok row"
  shows "kept xs db'"
  using assms CreateCardRow_ok [OF kept_ok [OF assms(1)] assms(2,3)] CreateCardRow_shape(2) [OF assms(2)]
  by (auto simp: kept_def)

lemma new_card_ok:
  assumes "validBrands brand" "validOwnerTypes ownerType" "draws_ok brand (dr_prefix (ce_draws env)) (dr_middle (ce_draws env))"
  shows "card_ok ((card_defaults (new_card env acc owner ownerType brand expires))\<lparr>cd_ID := i, cd_CreatedAt := now\<rparr>)"
proof -
  have "LuhnCheck (GenerateCardNumber brand (dr_prefix (ce_draws env)) (dr_middle (ce_draws env)))"
    using generated_luhn assms(1,3) by (simp add: validBrands_def)
  with assms(1,2) show ?thesis
    by (simp add: card_ok_def known_status_def uses_ok_def number_ok_def new_card_def card_defaults_def Let_def)
qed

lemma new_virtual_card_ok:
  assumes "validBrands brand" "draws_ok brand (dr_prefix (ce_draws env)) (dr_middle (ce_draws env))" "0 < l"
    "usage = ''single_use'' \<and> uses = 1 \<or> usage = ''multi_use'' \<and> 2 \<le> uses"
  shows "card_ok ((card_defaults (virtual_card env acc owner brand usage uses months l))\<lparr>cd_ID := i, cd_CreatedAt := now\<rparr>)"
proof -
  have "LuhnCheck (GenerateCardNumber brand (dr_prefix (ce_draws env)) (dr_middle (ce_draws env)))"
    using generated_luhn assms(1,2) by (simp add: validBrands_def)
  with assms(1,3,4) show ?thesis
    by (auto simp: card_ok_def known_status_def uses_ok_def number_ok_def virtual_card_def new_card_def
        card_defaults_def Let_def validOwnerTypes_def)
qed

text \<open>The draws of the random source stay below what was asked for.\<close>

definition env_ok :: "string \<Rightarrow> card_env \<Rightarrow> bool" where
  "env_ok brand env \<longleftrightarrow> draws_ok brand (dr_prefix (ce_draws env)) (dr_middle (ce_draws env))"

lemma kept_CreateCard:
  assumes "kept xs db" "validBrands brand \<Longrightarrow> env_ok brand env"
  shows "kept xs (snd (CreateCard env acc owner ownerType brand db))"
proof (cases "validBrands brand \<and> validOwnerTypes ownerType")
  case True
  define c where "c = new_card env acc owner ownerType brand (AddDate 3 0 0 (ce_now env))"
  show ?thesis
  proof (cases rule: transaction_cases [of "create_card_body (ce_now env) c" db])
    case (commit row db')
    then have created: "CreateCardRow (ce_now env) c db = Inr (row, db')"
      by (auto simp: create_card_body_def split: if_splits sum.splits)
    have "card_ok row"
      using new_card_ok [of brand ownerType env] True assms(2) CreateCardRow_shape(1) [OF created]
      by (simp add: env_ok_def c_def)
    with kept_CreateCardRow [OF assms(1) created] commit True show ?thesis
      by (simp add: CreateCard_def Let_def c_def [symmetric])
  qed (use assms(1) True in \<open>simp add: CreateCard_def Let_def c_def [symmetric]\<close>)
next
  case False
  with assms(1) show ?thesis by (auto simp: CreateCard_def)
qed

text \<open>A virtual card is refused before anything is written, or its arguments are in order.\<close>

lemma CreateVirtualCard_cases:
  obtains (refused) "CreateVirtualCard env acc owner brand usage maxUses months limit db = (Inl ErrInvalidCard, db)"
  | (duplicate) e where "CreateVirtualCard env acc owner brand usage maxUses months limit db = (Inl e, db)"
  | (created) l uses row db1 where "limit = Some l" "0 < l" "validBrands brand" "1 \<le> months" "months \<le> 3"
      "usage = ''single_use'' \<and> uses = 1 \<or> usage = ''multi_use'' \<and> uses = maxUses \<and> 2 \<le> uses"
      "CreateCardRow (ce_now env) (virtual_card env acc owner brand usage uses months l) db = Inr (row, db1)"
      "CreateVirtualCard env acc owner brand usage maxUses months limit db =
         (Inr (row, cd_CVV (virtual_card env acc owner brand usage uses months l)),
          publish_card (VirtualCardCreated (cd_ID row) (cd_AccountNumber row) (cd_UsageType row) (cd_MaxUses row)) db1)"
proof (cases "usage \<in> set [''single_use'', ''multi_use''] \<and> \<not> (months < 1 \<or> months > 3) \<and>
    \<not> (usage = ''multi_use'' \<and> maxUses < 2) \<and> validBrands brand \<and> (\<exists>l. limit = Some l \<and> 0 < l)")
  case True
  then obtain l where l: "limit = Some l" "0 < l" by blast
  define uses where "uses = (if usage = ''single_use'' then 1 else maxUses)"
  have run: "CreateVirtualCard env acc owner brand usage maxUses months limit db =
    (case CreateCardRow (ce_now env) (virtual_card env acc owner brand usage uses months l) db of
       Inl e \<Rightarrow> (Inl e, db)
     | Inr (row, db1) \<Rightarrow> (Inr (row, cd_CVV (virtual_card env acc owner brand usage uses months l)),
          publish_card (VirtualCardCreated (cd_ID row) (cd_AccountNumber row) (cd_UsageType row) (cd_MaxUses row)) db1))"
    using True l unfolding CreateVirtualCard_def uses_def Let_def by auto
  show ?thesis
  proof (cases "CreateCardRow (ce_now env) (virtual_card env acc owner brand usage uses months l) db")
    case (Inl e)
    with run show ?thesis by (intro duplicate) simp
  next
    case (Inr p)
    obtain row db1 where "p = (row, db1)" by (rule prod.exhaust)
    with run Inr True l show ?thesis by (intro created [of l uses row db1]) (auto simp: uses_def)
  qed
next
  case False
  then show ?thesis by (intro refused) (auto simp: CreateVirtualCard_def Let_def split: option.split)
qed

lemma kept_CreateVirtualCard:
  assumes "kept xs db" "validBrands brand \<Longrightarrow> env_ok brand env"
  shows "kept xs (snd (CreateVirtualCard env acc owner brand usage maxUses months limit db))"
proof (cases rule: CreateVirtualCard_cases [of env acc owner brand usage maxUses months limit db])
  case (created l uses row db1)
  have "card_ok row"
    using new_virtual_card_ok [of brand env l usage uses] created(2,3,6) assms(2) CreateCardRow_shape(1) [OF created(7)]
    by (auto simp: env_ok_def)
  from kept_CreateCardRow [OF assms(1) created(7) this] created(8) show ?thesis by simp
qed (simp_all add: assms(1))

lemma card_identity_updates [simp]:
  "card_identity (c\<lparr>cd_Status := s\<rparr>) = card_identity c"
  "card_identity (c\<lparr>cd_PinAttempts := n\<rparr>) = card_identity c"
  "card_identity (c\<lparr>cd_PinHash := h\<rparr>) = card_identity c"
  "card_identity (c\<lparr>cd_UsesRemaining := u\<rparr>) = card_identity c"
  by (simp_all add: card_identity_def)

lemma card_ok_updates:
  "card_ok c \<Longrightarrow> known_status s \<Longrightarrow> card_ok (c\<lparr>cd_Status := s\<rparr>)"
  "card_ok c \<Longrightarrow> 0 \<le> n \<Longrightarrow> n \<le> 3 \<Longrightarrow> card_ok (c\<lparr>cd_PinAttempts := n\<rparr>)"
  "card_ok c \<Longrightarrow> card_ok (c\<lparr>cd_PinHash := h\<rparr>)"
  "card_ok c \<Longrightarrow> 0 \<le> u \<Longrightarrow> u \<le> cd_UsesRemaining c \<Longrightarrow> card_ok (c\<lparr>cd_UsesRemaining := u\<rparr>)"
  by (auto simp: card_ok_def uses_ok_def number_ok_def)

lemma known_statuses [simp]:
  "known_status ''active''" "known_status ''blocked''" "known_status ''deactivated''"
  by (simp_all add: known_status_def)

lemma found_card_ok: "kept xs db \<Longrightarrow> CardByID i db = Some c \<Longrightarrow> card_ok c \<and> c \<in> set (cards db) \<and> cd_ID c = i"
  using CardByID_in [of i db c] by (auto simp: kept_def cards_ok_def)

text \<open>A transaction whose body saves one row that keeps the invariant keeps it.\<close>

lemma transaction_keeps:
  assumes "P s" "\<And>x s'. body s = Inr (x, s') \<Longrightarrow> P s'"
  shows "P (snd (transaction body s))"
  using assms by (cases rule: transaction_cases [of body s]) simp_all

lemma kept_status_bodies:
  assumes "kept xs db"
  shows "block_body i db = Inr (x, db') \<Longrightarrow> kept xs db'"
    "unblock_body i db = Inr (x, db') \<Longrightarrow> kept xs db'"
    "deactivate_body i db = Inr (x, db') \<Longrightarrow> kept xs db'"
  using assms found_card_ok [OF assms, of i]
  by (auto simp: block_body_def unblock_body_def deactivate_body_def Let_def
      split: option.splits if_splits intro!: kept_SaveCard card_ok_updates)

lemma kept_status_change:
  assumes "kept xs db" "\<And>x db'. body db = Inr (x, db') \<Longrightarrow> kept xs db'"
  shows "kept xs (snd (status_change body new now i by db))"
  using assms by (cases rule: transaction_cases [of body db]) (auto simp: status_change_def split: prod.split intro: kept_evict)

lemma kept_CreateBlockRow:
  assumes "kept xs db" "cb_CardID b \<in> cd_ID ` set (cards db)"
  shows "kept xs (CreateBlockRow b db)"
  using assms by (auto simp: CreateBlockRow_def kept_def cards_ok_parts less_Suc_eq image_iff)

lemma kept_TemporaryBlockCard:
  assumes "kept xs db"
  shows "kept xs (snd (TemporaryBlockCard fmt now i hours reason db))"
proof -
  have body: "kept xs db'" if run: "temporary_block_body i reason now e db = Inr (c', db')" for e c' db'
  proof -
    from run obtain c where c: "CardByID i db = Some c"
      by (auto simp: temporary_block_body_def split: option.splits)
    let ?c = "c\<lparr>cd_Status := ''blocked''\<rparr>"
    note ok = found_card_ok [OF assms c]
    have "kept xs (SaveCard ?c db)" using ok assms by (intro kept_SaveCard card_ok_updates) auto
    moreover have "i \<in> cd_ID ` set (cards (SaveCard ?c db))"
      using ok in_put_row_new [of c "cards db" cd_ID "?c\<lparr>cd_Version := cd_Version ?c + 1\<rparr>"]
      by (intro image_eqI [of _ _ "?c\<lparr>cd_Version := cd_Version ?c + 1\<rparr>"]) simp_all
    ultimately show ?thesis using run c by (auto simp: temporary_block_body_def Let_def intro!: kept_CreateBlockRow)
  qed
  show ?thesis
    using assms body [of "now + hours * 3600"]
    by (cases rule: transaction_cases [of "temporary_block_body i reason now (now + hours * 3600)" db])
      (auto simp: TemporaryBlockCard_def Let_def notifyTemporaryBlock_def intro: kept_evict)
qed

lemma kept_SetPin: "kept xs db \<Longrightarrow> kept xs (snd (SetPin hash i pin db))"
  using found_card_ok [of _ db i]
  by (auto simp: SetPin_def split: option.split sum.split intro!: kept_evict kept_SaveCard card_ok_updates)

lemma kept_VerifyPin:
  assumes "kept xs db"
  shows "kept xs (snd (VerifyPin matches i pin db))"
  unfolding VerifyPin_def
proof (rule transaction_keeps [of "kept xs", OF assms])
  fix r db' assume run: "verify_pin_body matches i pin db = Inr (r, db')"
  then obtain c where c: "CardByID i db = Some c" by (auto simp: verify_pin_body_def split: option.splits)
  note ok = found_card_ok [OF assms c]
  then have "0 \<le> cd_PinAttempts c" by (simp add: card_ok_def)
  with run c ok show "kept xs db'"
    by (auto simp: verify_pin_body_def Let_def split: if_splits intro!: kept_SaveCard [OF assms, of c] card_ok_updates)
qed

lemma kept_UseCard:
  assumes "kept xs db"
  shows "kept xs (snd (UseCard i db))"
proof -
  have "kept xs (snd (transaction (use_body i) db))"
  proof (rule transaction_keeps [of "kept xs", OF assms])
    fix r db' assume run: "use_body i db = Inr (r, db')"
    then obtain c where c: "CardByID i db = Some c" by (auto simp: use_body_def split: option.splits)
    with run found_card_ok [OF assms c] assms show "kept xs db'"
      by (auto simp: use_body_def Let_def split: if_splits intro!: kept_SaveCard [OF assms, of c] card_ok_updates)
  qed
  then show ?thesis
    by (cases "transaction (use_body i) db") (auto simp: UseCard_def split: sum.split intro: kept_evict)
qed

lemma kept_DeactivateBlock: "kept xs db \<Longrightarrow> kept xs (DeactivateBlock i db)"
  by (auto simp: DeactivateBlock_def kept_def cards_ok_parts map_upd_rows elim!: in_upd_rowsE)

lemma kept_unblock_expired:
  assumes "kept xs db"
  shows "kept xs (snd (transaction (unblock_expired_body b) db))"
proof (rule transaction_keeps [of "kept xs", OF assms])
  fix r db' assume run: "unblock_expired_body b db = Inr (r, db')"
  note ok = kept_DeactivateBlock [OF assms, of "cb_ID b"]
  from run show "kept xs db'"
    using found_card_ok [OF ok, of "cb_CardID b"]
    by (auto simp: unblock_expired_body_def Let_def split: option.splits intro!: kept_SaveCard ok card_ok_updates)
qed

lemma kept_expire_virtual:
  assumes "kept xs db"
  shows "kept xs (snd (transaction (expire_virtual_body c) db))"
proof (rule transaction_keeps [of "kept xs", OF assms])
  fix r db' assume "expire_virtual_body c db = Inr (r, db')"
  then show "kept xs db'"
    using found_card_ok [OF assms, of "cd_ID c"] assms
    by (auto simp: expire_virtual_body_def split: option.splits if_splits intro!: kept_SaveCard [OF assms] card_ok_updates)
qed

lemma fold_keeps: "P s \<Longrightarrow> (\<And>x s. P s \<Longrightarrow> P (f x s)) \<Longrightarrow> P (fold f xs s)"
  by (induction xs arbitrary: s) auto

lemma kept_tick:
  assumes "kept xs db"
  shows "kept xs (runCardCronTick now db)"
proof -
  note fold_cards = fold_keeps [of "kept xs"]
  have "kept xs (fold (\<lambda>b d. snd (transaction (unblock_expired_body b) d)) bs db)" for bs
    using assms by (rule fold_cards) (rule kept_unblock_expired)
  then have "kept xs (fold (\<lambda>c d. snd (transaction (expire_virtual_body c) d)) cs
      (fold (\<lambda>b d. snd (transaction (unblock_expired_body b) d)) bs db))" for bs cs
    by (rule fold_cards) (rule kept_expire_virtual)
  then show ?thesis by (simp add: runCardCronTick_def Let_def)
qed

lemma kept_UpdateRequestStatus:
  assumes "kept xs db" "status \<in> {''approved'', ''rejected''}"
  shows "kept xs (UpdateRequestStatus i status reason by db)"
  using assms by (auto simp: UpdateRequestStatus_def kept_def cards_ok_parts map_upd_rows elim!: in_upd_rowsE)

lemma kept_CreateRequest: "kept xs db \<Longrightarrow> kept xs (snd (CreateRequest now q db))"
  by (auto simp: CreateRequest_def CreateRequestRow_def notifyRequest_def Let_def)
    (auto simp: kept_def cards_ok_parts less_Suc_eq image_iff)

lemma kept_ApproveRequest:
  assumes "kept xs db" "\<And>q. RequestByID i db = Some q \<Longrightarrow> env_ok (cq_CardBrand q) env"
  shows "kept xs (snd (ApproveRequest env i employee db))"
proof (cases "RequestByID i db")
  case (Some q)
  let ?run = "CreateCard env (cq_AccountNumber q) (cq_ClientID q) ''client'' (cq_CardBrand q) db"
  have "kept xs (snd ?run)" using assms Some by (intro kept_CreateCard)
  with Some assms(1) show ?thesis
    by (cases ?run) (auto simp: ApproveRequest_def notifyRequest_def split: sum.split intro!: kept_UpdateRequestStatus)
qed (simp add: ApproveRequest_def assms(1))

lemma kept_RejectRequest: "kept xs db \<Longrightarrow> kept xs (snd (RejectRequest i employee reason db))"
  by (auto simp: RejectRequest_def notifyRequest_def split: option.split intro!: kept_UpdateRequestStatus)

lemma kept_UpsertReplica: "kept xs db \<Longrightarrow> kept xs (UpsertReplica r db)"
  by (auto simp: UpsertReplica_def split: option.split)

section \<open>The card service as a state machine\<close>

text \<open>
  One step is one call of the service with arbitrary arguments, one tick of the maintenance job, one replica
  event, or the expiry of a cache entry.
\<close>

inductive card_step :: "card_db \<Rightarrow> card_db \<Rightarrow> bool" where
  create: "env_ok brand env \<Longrightarrow>
     card_step db (snd (CreateCard env acc owner ownerType brand db))"
| create_virtual: "env_ok brand env \<Longrightarrow>
     card_step db (snd (CreateVirtualCard env acc owner brand usage maxUses months limit db))"
| get: "card_step db (snd (GetCard i db))"
| block: "card_step db (snd (BlockCard now i author db))"
| unblock: "card_step db (snd (UnblockCard now i author db))"
| deactivate: "card_step db (snd (DeactivateCard now i author db))"
| block_temporarily: "card_step db (snd (TemporaryBlockCard fmt now i hours reason db))"
| set_pin: "card_step db (snd (SetPin hash i pin db))"
| verify_pin: "card_step db (snd (VerifyPin matches i pin db))"
| use: "card_step db (snd (UseCard i db))"
| tick: "card_step db (runCardCronTick now db)"
| create_request: "card_step db (snd (CreateRequest now q db))"
| approve: "(\<And>q. RequestByID i db = Some q \<Longrightarrow> env_ok (cq_CardBrand q) env) \<Longrightarrow>
     card_step db (snd (ApproveRequest env i employee db))"
| reject: "card_step db (snd (RejectRequest i employee reason db))"
| replica: "card_step db (UpsertReplica r db)"
| cache_expiry: "card_step db (invalidateCardCache i db)"

definition empty_card_db :: "(nat \<rightharpoonup> card) option \<Rightarrow> card_db" where
  "empty_card_db cache =
     \<lparr>cards = [], seq_cards = 1, card_blocks = [], seq_card_blocks = 1, card_requests = [], seq_card_requests = 1,
      card_changes = [], card_cache = cache, card_messages = [], client_replicas = []\<rparr>"

lemma card_step_kept: "card_step db db' \<Longrightarrow> kept xs db \<Longrightarrow> kept xs db'"
proof (induction rule: card_step.induct)
  case (block db now i author)
  then show ?case unfolding BlockCard_def
    by (intro kept_status_change) (auto intro: kept_status_bodies)
next
  case (unblock db now i author)
  then show ?case unfolding UnblockCard_def
    by (intro kept_status_change) (auto intro: kept_status_bodies)
next
  case (deactivate db now i author)
  then show ?case unfolding DeactivateCard_def
    by (intro kept_status_change) (auto intro: kept_status_bodies)
qed (simp_all add: kept_CreateCard kept_CreateVirtualCard kept_GetCard kept_TemporaryBlockCard kept_SetPin
    kept_VerifyPin kept_UseCard kept_tick kept_CreateRequest kept_ApproveRequest kept_RejectRequest
    kept_UpsertReplica kept_evict)

lemma card_run_kept: "card_step\<^sup>*\<^sup>* db db' \<Longrightarrow> kept xs db \<Longrightarrow> kept xs db'"
  by (induction rule: rtranclp_induct) (auto intro: card_step_kept)

text \<open>
  C22: the life of a card. From an empty table every run of the card service stays in states where keys and
  masked numbers are unique, each card has a known status, at most three failed PIN attempts, a valid number
  with its masked form beside it and, when virtual, between zero and its maximum of uses left; every temporary
  block refers to a card, every request is pending, approved or rejected; and no later step removes a card or
  changes its number, account, owner, limit, expiry or kind of use. A cached card can be stale in status and
  counters only.
\<close>

theorem card_lifecycle:
  assumes "card_step\<^sup>*\<^sup>* (empty_card_db (map_option (\<lambda>_. Map.empty) redis)) db" "card_step\<^sup>*\<^sup>* db db'"
  shows "cards_ok db \<and> (\<exists>zs. map card_identity (cards db') = map card_identity (cards db) @ zs)"
proof -
  have start: "kept [] (empty_card_db (map_option (\<lambda>_. Map.empty) redis))"
    by (cases redis) (simp_all add: kept_def empty_card_db_def cards_ok_parts)
  have ok: "cards_ok db" by (rule kept_ok [OF card_run_kept [OF assms(1) start]])
  then have "kept (map card_identity (cards db)) db" by (simp add: kept_def)
  from card_run_kept [OF assms(2) this] ok show ?thesis by (simp add: kept_def)
qed

section \<open>Examples\<close>

definition demo_card_env :: card_env where
  "demo_card_env = \<lparr>ce_now = 0, ce_draws = \<lparr>dr_prefix = 0, dr_middle = 12345, dr_cvv = 42\<rparr>\<rparr>"

abbreviation demo_empty :: card_db where
  "demo_empty \<equiv> empty_card_db (Some Map.empty)"

definition demo_card_db :: card_db where
  "demo_card_db = snd (CreateCard demo_card_env ''265-1'' 7 ''client'' ''visa'' demo_empty)"

lemma demo_env_ok: "env_ok ''visa'' demo_card_env"
  by (simp add: env_ok_def draws_ok_def demo_card_env_def prefix_choices_def card_remaining_def total_length_def
      brandCardLengths_def card_prefix_def brandPrefixes_def pow10_eq)

lemma demo_card_reachable: "card_step\<^sup>*\<^sup>* demo_empty demo_card_db"
  unfolding demo_card_db_def by (rule r_into_rtranclp, rule create, rule demo_env_ok)

definition demo_card :: card where
  "demo_card = (card_defaults (new_card demo_card_env ''265-1'' 7 ''client'' ''visa'' (AddDate 3 0 0 0)))
     \<lparr>cd_ID := 1, cd_CreatedAt := 0\<rparr>"

lemma demo_card_db_cards: "cards demo_card_db = [demo_card]"
proof -
  define c where "c = new_card demo_card_env ''265-1'' 7 ''client'' ''visa'' (AddDate 3 0 0 0)"
  have "cd_OwnerType c = ''client''" "cd_AccountNumber c = ''265-1''"
    by (simp_all add: c_def new_card_def Let_def)
  then have "create_card_body 0 c demo_empty = Inr (demo_card, demo_empty\<lparr>cards := [demo_card], seq_cards := 2\<rparr>)"
    by (simp add: create_card_body_def CountByAccount_def CreateCardRow_def empty_card_db_def demo_card_def c_def Let_def)
  moreover have "ce_now demo_card_env = 0" by (simp add: demo_card_env_def)
  ultimately show ?thesis
    by (simp add: demo_card_db_def CreateCard_def validBrands_def validOwnerTypes_def c_def Let_def)
qed

theorem card_lifecycle_witness:
  "cards_ok demo_card_db \<and> length (cards demo_card_db) = 1 \<and>
   (\<exists>zs. map card_identity (cards (snd (BlockCard 0 1 9 demo_card_db))) = map card_identity (cards demo_card_db) @ zs)"
proof -
  have reach: "card_step\<^sup>*\<^sup>* (empty_card_db (map_option (\<lambda>_. Map.empty) (Some ()))) demo_card_db"
    using demo_card_reachable by simp
  have "card_step\<^sup>*\<^sup>* demo_card_db (snd (BlockCard 0 1 9 demo_card_db))"
    by (rule r_into_rtranclp, rule block)
  from card_lifecycle [OF reach this] show ?thesis by (simp add: demo_card_db_cards)
qed

section \<open>Issuing\<close>

definition limit_reached :: "string \<Rightarrow> nat \<Rightarrow> string \<Rightarrow> card_db \<Rightarrow> bool" where
  "limit_reached acc owner ownerType db \<longleftrightarrow>
     (if ownerType = ''authorized_person'' then 1 \<le> CountByAccountAndOwner acc owner db else 2 \<le> CountByAccount acc db)"

lemma new_card_fields [simp]:
  "cd_OwnerType (new_card env acc owner ownerType brand e) = ownerType"
  "cd_AccountNumber (new_card env acc owner ownerType brand e) = acc"
  "cd_OwnerID (new_card env acc owner ownerType brand e) = owner"
  "cd_Status (new_card env acc owner ownerType brand e) = ''active''"
  "cd_CardNumber (new_card env acc owner ownerType brand e) =
     MaskCardNumber (GenerateCardNumber brand (dr_prefix (ce_draws env)) (dr_middle (ce_draws env)))"
  by (simp_all add: new_card_def Let_def)

lemma card_defaults_fields [simp]:
  "cd_OwnerType (card_defaults c) = cd_OwnerType c" "cd_AccountNumber (card_defaults c) = cd_AccountNumber c"
  "cd_OwnerID (card_defaults c) = cd_OwnerID c" "cd_Status (card_defaults c) = cd_Status c"
  "cd_CVV (card_defaults c) = cd_CVV c" "cd_CardNumber (card_defaults c) = cd_CardNumber c"
  by (simp_all add: card_defaults_def)

lemma create_card_facts:
  "case CreateCard env acc owner ownerType brand db of
     (Inl e, db') \<Rightarrow> db' = db \<and>
       (if \<not> (validBrands brand \<and> validOwnerTypes ownerType) then e = ErrInvalidCard
        else if limit_reached acc owner ownerType db then e = ErrCardLimitReached
        else e = ErrCardAccountInactive \<and>
          MaskCardNumber (GenerateCardNumber brand (dr_prefix (ce_draws env)) (dr_middle (ce_draws env)))
            \<in> cd_CardNumber ` set (cards db))
   | (Inr (c, cvv), db') \<Rightarrow>
       validBrands brand \<and> validOwnerTypes ownerType \<and> db' = db\<lparr>cards := cards db @ [c], seq_cards := Suc (seq_cards db)\<rparr> \<and>
       cd_ID c = seq_cards db \<and> cd_AccountNumber c = acc \<and> cd_OwnerID c = owner \<and> cd_OwnerType c = ownerType \<and>
       cd_Status c = ''active'' \<and> cvv = cd_CVV c \<and>
       (if ownerType = ''authorized_person'' then CountByAccountAndOwner acc owner db' = 1 else CountByAccount acc db' \<le> 2)"
proof (cases "validBrands brand \<and> validOwnerTypes ownerType")
  case True
  define c where "c = new_card env acc owner ownerType brand (AddDate 3 0 0 (ce_now env))"
  have fields: "cd_OwnerType c = ownerType" "cd_AccountNumber c = acc" "cd_OwnerID c = owner" "cd_Status c = ''active''"
    "cd_CardNumber c = MaskCardNumber (GenerateCardNumber brand (dr_prefix (ce_draws env)) (dr_middle (ce_draws env)))"
    by (simp_all add: c_def)
  have run: "CreateCard env acc owner ownerType brand db =
    (case transaction (create_card_body (ce_now env) c) db of
       (Inl e, db') \<Rightarrow> (Inl e, db') | (Inr row, db') \<Rightarrow> (Inr (row, cd_CVV c), db'))"
    using True unfolding c_def by (simp add: CreateCard_def Let_def)
  show ?thesis
  proof (cases rule: transaction_cases [of "create_card_body (ce_now env) c" db])
    case (rollback e)
    then show ?thesis
      using True fields unfolding run
      by (auto simp: create_card_body_def limit_reached_def CreateCardRow_def Let_def split: if_splits sum.splits)
  next
    case (commit row db')
    then have made: "\<not> limit_reached acc owner ownerType db" "CreateCardRow (ce_now env) c db = Inr (row, db')"
      using fields by (auto simp: create_card_body_def limit_reached_def split: if_splits sum.splits)
    note shape = CreateCardRow_shape [OF made(2)]
    have "CountByAccountAndOwner acc owner db = 0" if "ownerType = ''authorized_person''"
      using made(1) that by (simp add: limit_reached_def not_le)
    moreover have "CountByAccount acc db \<le> 1" if "ownerType \<noteq> ''authorized_person''"
      using made(1) that by (simp add: limit_reached_def)
    moreover have row: "cd_OwnerType row = ownerType" "cd_AccountNumber row = acc" "cd_OwnerID row = owner"
      "cd_Status row = ''active''" "cd_ID row = seq_cards db" "cd_CVV row = cd_CVV c"
      using shape(1) fields by simp_all
    ultimately have "if ownerType = ''authorized_person'' then CountByAccountAndOwner acc owner db' = 1
        else CountByAccount acc db' \<le> 2"
      by (simp add: shape(2) CountByAccount_def CountByAccountAndOwner_def)
    with commit True row shape(2) show ?thesis unfolding run by (auto split: if_splits)
  qed
qed (auto simp: CreateCard_def)

text \<open>
  Issuing a card. \<^verbatim>\<open>CreateCard\<close> refuses an unknown brand or owner type, refuses when the account already
  has two live cards (a client's card) or the person already has one there (an authorized person's card), and
  refuses when the masked number is taken; a refusal changes nothing. Otherwise exactly one active card with
  the given owner and account is added, the returned security code is the stored one, and the limits still
  hold: at most two live cards on the account, exactly one of an authorized person.
\<close>

theorem create_card_sound:
  "case CreateCard env acc owner ownerType brand db of
     (Inl e, db') \<Rightarrow> db' = db \<and>
       (if \<not> (validBrands brand \<and> validOwnerTypes ownerType) then e = ErrInvalidCard
        else if limit_reached acc owner ownerType db then e = ErrCardLimitReached
        else e = ErrCardAccountInactive \<and>
          MaskCardNumber (GenerateCardNumber brand (dr_prefix (ce_draws env)) (dr_middle (ce_draws env)))
            \<in> cd_CardNumber ` set (cards db))
   | (Inr (c, cvv), db') \<Rightarrow>
       validBrands brand \<and> validOwnerTypes ownerType \<and> db' = db\<lparr>cards := cards db @ [c], seq_cards := Suc (seq_cards db)\<rparr> \<and>
       cd_ID c = seq_cards db \<and> cd_AccountNumber c = acc \<and> cd_OwnerID c = owner \<and> cd_OwnerType c = ownerType \<and>
       cd_Status c = ''active'' \<and> cvv = cd_CVV c \<and>
       (if ownerType = ''authorized_person'' then CountByAccountAndOwner acc owner db' = 1 else CountByAccount acc db' \<le> 2)"
  by (rule create_card_facts)

theorem create_card_sound_witness:
  "limit_reached ''265-1'' 7 ''client'' (demo_card_db\<lparr>cards := [demo_card, demo_card]\<rparr>) \<and>
   fst (CreateCard demo_card_env ''265-1'' 7 ''client'' ''visa'' (demo_card_db\<lparr>cards := [demo_card, demo_card]\<rparr>)) =
     Inl ErrCardLimitReached"
proof -
  let ?db = "demo_card_db\<lparr>cards := [demo_card, demo_card]\<rparr>"
  have full: "limit_reached ''265-1'' 7 ''client'' ?db"
    by (simp add: limit_reached_def CountByAccount_def demo_card_def)
  have "\<not> CountByAccount ''265-1'' (?db\<lparr>cards := cards ?db @ [c], seq_cards := n\<rparr>) \<le> 2"
    if "cd_AccountNumber c = ''265-1''" "cd_Status c = ''active''" for c n
    using that by (simp add: CountByAccount_def demo_card_def)
  with create_card_sound [where env = demo_card_env and acc = "''265-1''" and owner = 7 and ownerType = "''client''"
      and brand = "''visa''" and db = ?db] full show ?thesis
    by (auto simp: validBrands_def validOwnerTypes_def split: prod.splits sum.splits)
qed

end
