(* ===== verification/Card_Behaviour.thy ===== *)
theory Card_Behaviour
  imports Card_Safety
begin

text \<open>
  What the PIN check, the maintenance tick, the use of virtual cards, the card requests and the client replica
  do over several calls.
\<close>

section \<open>Reading back a saved card\<close>

lemma CardByID_SaveCard:
  assumes "CardByID (cd_ID c) db \<noteq> None"
  shows "CardByID i (SaveCard c db) =
     (if i = cd_ID c then Some (c\<lparr>cd_Version := cd_Version c + 1\<rparr>) else CardByID i db)"
proof (cases "i = cd_ID c")
  case True
  have "find (\<lambda>x. cd_ID x = cd_ID c) (put_row cd_ID (c\<lparr>cd_Version := v\<rparr>) xs) = Some (c\<lparr>cd_Version := v\<rparr>)"
    if "find (\<lambda>x. cd_ID x = cd_ID c) xs \<noteq> None" for xs v
    using that by (induction xs) auto
  with assms True show ?thesis by (simp add: CardByID_def)
next
  case False
  have "find (\<lambda>x. cd_ID x = i) (put_row cd_ID (c\<lparr>cd_Version := v\<rparr>) xs) = find (\<lambda>x. cd_ID x = i) xs" for xs v
    using False by (induction xs) auto
  with False show ?thesis by (simp add: CardByID_def)
qed

lemma CardByID_frame [simp]:
  "CardByID i (invalidateCardCache j db) = CardByID i db" "CardByID i (publish_card m db) = CardByID i db"
  "CardByID i (log_card_change r db) = CardByID i db" "CardByID i (DeactivateBlock j db) = CardByID i db"
  "CardByID i (CreateBlockRow b db) = CardByID i db"
  by (simp_all add: CardByID_def invalidateCardCache_def publish_card_def log_card_change_def DeactivateBlock_def
      CreateBlockRow_def)

section \<open>PIN\<close>

lemma verify_wrong:
  assumes "CardByID i db = Some c" "cd_PinAttempts c < 3" "\<not> matches (cd_PinHash c) pin"
  shows "\<exists>c'. VerifyPin matches i pin db = (Inr False, SaveCard c' db) \<and>
     CardByID i (SaveCard c' db) = Some (c'\<lparr>cd_Version := cd_Version c' + 1\<rparr>) \<and>
     cd_PinAttempts c' = cd_PinAttempts c + 1 \<and> cd_PinHash c' = cd_PinHash c \<and>
     cd_Status c' = (if cd_PinAttempts c = 2 then ''blocked'' else cd_Status c)"
proof -
  let ?c1 = "c\<lparr>cd_PinAttempts := cd_PinAttempts c + 1\<rparr>"
  let ?c' = "if cd_PinAttempts c + 1 \<ge> 3 then ?c1\<lparr>cd_Status := ''blocked''\<rparr> else ?c1"
  have id: "cd_ID ?c' = i" using CardByID_in [OF assms(1)] by simp
  have "CardByID i (SaveCard ?c' db) = Some (?c'\<lparr>cd_Version := cd_Version ?c' + 1\<rparr>)"
    using CardByID_SaveCard [of ?c' db i] assms(1) id by simp
  moreover have "VerifyPin matches i pin db = (Inr False, SaveCard ?c' db)"
    using assms by (simp add: VerifyPin_def verify_pin_body_def Let_def)
  ultimately show ?thesis using assms(2) by (intro exI [of _ ?c']) auto
qed

definition try_pins :: "(string \<Rightarrow> string \<Rightarrow> bool) \<Rightarrow> nat \<Rightarrow> string list \<Rightarrow> card_db \<Rightarrow> card_db" where
  "try_pins matches i = fold (\<lambda>pin db. snd (VerifyPin matches i pin db))"

lemma wrong_pins_lock:
  assumes "CardByID i db = Some c" "cd_PinAttempts c + int (length pins) = 3" "pins \<noteq> []"
    "list_all (\<lambda>pin. \<not> matches (cd_PinHash c) pin) pins"
  shows "\<exists>c'. CardByID i (try_pins matches i pins db) = Some c' \<and> cd_Status c' = ''blocked'' \<and> cd_PinAttempts c' = 3"
  using assms
proof (induction pins arbitrary: db c)
  case (Cons pin pins)
  then obtain c' where c': "VerifyPin matches i pin db = (Inr False, SaveCard c' db)"
    "CardByID i (SaveCard c' db) = Some (c'\<lparr>cd_Version := cd_Version c' + 1\<rparr>)"
    "cd_PinAttempts c' = cd_PinAttempts c + 1" "cd_PinHash c' = cd_PinHash c"
    "cd_Status c' = (if cd_PinAttempts c = 2 then ''blocked'' else cd_Status c)"
    using verify_wrong [of i db c matches pin] by auto
  show ?case
  proof (cases pins)
    case Nil
    with Cons.prems(2) c' show ?thesis by (simp add: try_pins_def)
  next
    case (Cons p ps)
    then show ?thesis
      using Cons.IH [OF c'(2)] Cons.prems c' by (simp add: try_pins_def)
  qed
qed simp

text \<open>
  C23: the PIN lock. A card with less than three failed attempts is blocked and locked by the wrong PINs that
  complete three in a row; from then on every PIN, the right one included, is refused with the lock error and
  nothing changes, and lifting the block does not lift the lock. Setting a PIN does: the new PIN is accepted
  at once if the hash function made a hash that it recognises. Before the lock a right PIN is accepted and
  clears the count.
\<close>

theorem pin_lock:
  assumes card: "CardByID i db = Some c" "cd_PinAttempts c < 3"
    and wrong: "list_all (\<lambda>p. \<not> matches (cd_PinHash c) p) pins" "cd_PinAttempts c + int (length pins) = 3"
    and new: "length pin = 4" "list_all is_digit pin" "hash pin = Inr h" "matches h pin"
    and db': "db' = try_pins matches i pins db"
  shows "(\<exists>c'. CardByID i db' = Some c' \<and> cd_Status c' = ''blocked'' \<and> cd_PinAttempts c' = 3) \<and>
     (\<forall>p. VerifyPin matches i p db' = (Inl ErrCardLocked, db')) \<and>
     (\<forall>now author p. fst (VerifyPin matches i p (snd (UnblockCard now i author db'))) = Inl ErrCardLocked) \<and>
     fst (SetPin hash i pin db') = Inr () \<and> fst (VerifyPin matches i pin (snd (SetPin hash i pin db'))) = Inr True \<and>
     (\<forall>p. matches (cd_PinHash c) p \<longrightarrow>
        (\<exists>c'. VerifyPin matches i p db = (Inr True, SaveCard c' db) \<and> cd_PinAttempts c' = 0 \<and> cd_Status c' = cd_Status c))"
proof -
  have "pins \<noteq> []" using card(2) wrong(2) by auto
  then obtain d where d: "CardByID i db' = Some d" "cd_Status d = ''blocked''" "cd_PinAttempts d = 3"
    using wrong_pins_lock [where matches = matches, OF card(1) wrong(2) _ wrong(1)] db' by blast
  have id: "cd_ID d = i" using CardByID_in [OF d(1)] by simp
  have locked: "VerifyPin matches i p e = (Inl ErrCardLocked, e)" if "CardByID i e = Some x" "cd_PinAttempts x = 3" for p e x
    using that by (simp add: VerifyPin_def verify_pin_body_def)
  let ?u = "d\<lparr>cd_Status := ''active''\<rparr>"
  have unblocked: "CardByID i (snd (UnblockCard now i author db')) = Some (?u\<lparr>cd_Version := cd_Version d + 1\<rparr>)" for now author
    using d id CardByID_SaveCard [of ?u db' i]
    by (simp add: UnblockCard_def status_change_def unblock_body_def Let_def)
  let ?n = "d\<lparr>cd_PinHash := h, cd_PinAttempts := 0\<rparr>"
  have set_pin: "SetPin hash i pin db' = (Inr (), invalidateCardCache i (SaveCard ?n db'))"
    using d new by (simp add: SetPin_def)
  have "CardByID i (SaveCard ?n db') = Some (?n\<lparr>cd_Version := cd_Version d + 1\<rparr>)"
    using d(1) id CardByID_SaveCard [of ?n db' i] by simp
  then have accepted: "fst (VerifyPin matches i pin (snd (SetPin hash i pin db'))) = Inr True"
    using new(4) set_pin by (simp add: VerifyPin_def verify_pin_body_def)
  have good: "\<exists>c'. VerifyPin matches i p db = (Inr True, SaveCard c' db) \<and> cd_PinAttempts c' = 0 \<and> cd_Status c' = cd_Status c"
    if "matches (cd_PinHash c) p" for p
    using that card by (intro exI [of _ "c\<lparr>cd_PinAttempts := 0\<rparr>"]) (simp add: VerifyPin_def verify_pin_body_def)
  have still: "fst (VerifyPin matches i p (snd (UnblockCard now i author db'))) = Inl ErrCardLocked" for now author p
    using locked [OF unblocked [of now author], of p] d(3) by simp
  show ?thesis
    using d locked [OF d(1) d(3)] still set_pin accepted good by auto
qed

lemma demo_card_found: "CardByID 1 demo_card_db = Some demo_card"
proof -
  have "cd_ID demo_card = 1" by (simp add: demo_card_def)
  then show ?thesis by (simp add: CardByID_def demo_card_db_cards)
qed

theorem pin_lock_witness:
  "VerifyPin (=) 1 [] (try_pins (=) 1 [''1111'', ''2222'', ''3333''] demo_card_db) =
     (Inl ErrCardLocked, try_pins (=) 1 [''1111'', ''2222'', ''3333''] demo_card_db)"
proof -
  have c: "cd_PinAttempts demo_card = 0" "cd_PinHash demo_card = []"
    by (simp_all add: demo_card_def card_defaults_def new_card_def Let_def)
  have "cd_PinAttempts demo_card < 3" using c by simp
  moreover have "list_all (\<lambda>p. \<not> (cd_PinHash demo_card = p)) [''1111'', ''2222'', ''3333'']"
    "cd_PinAttempts demo_card + int (length [''1111'', ''2222'', ''3333'']) = 3" using c by simp_all
  moreover have "length ''1234'' = 4" "list_all is_digit ''1234''" by (simp_all add: is_digit_def)
  ultimately show ?thesis
    using pin_lock [where matches = "(=)" and hash = Inr and h = "''1234''" and pin = "''1234''", OF demo_card_found]
    by blast
qed

section \<open>The maintenance tick\<close>

text \<open>What the tick is about: the identity of a card and its status.\<close>

definition card_view :: "nat \<Rightarrow> card_db \<Rightarrow> (card \<times> string) option" where
  "card_view i db = map_option (\<lambda>c. (c\<lparr>cd_Status := [], cd_Version := 0\<rparr>, cd_Status c)) (CardByID i db)"

lemma card_view_SaveCard:
  assumes "CardByID i db = Some c"
  shows "card_view j (SaveCard (c\<lparr>cd_Status := s\<rparr>) db) =
     map_option (\<lambda>(d, st). (d, if j = i then s else st)) (card_view j db)"
  using CardByID_SaveCard [of "c\<lparr>cd_Status := s\<rparr>" db j] assms CardByID_in [OF assms]
  by (cases "CardByID j db") (auto simp: card_view_def)

lemma card_view_DeactivateBlock [simp]: "card_view j (DeactivateBlock i db) = card_view j db"
  by (simp add: card_view_def)

lemma view_None: "card_view i db = None \<longleftrightarrow> CardByID i db = None"
  by (simp add: card_view_def)

lemma upd_rows_union:
  assumes "\<And>x. f (f x) = f x" "\<And>x. p (f x) = p x"
  shows "upd_rows p f (upd_rows q f xs) = upd_rows (\<lambda>x. p x \<or> q x) f xs"
  using assms by (induction xs) auto

abbreviation release_blocks :: "card_block list \<Rightarrow> card_db \<Rightarrow> card_db" where
  "release_blocks \<equiv> fold (\<lambda>b d. snd (transaction (unblock_expired_body b) d))"

abbreviation expire_cards :: "card list \<Rightarrow> card_db \<Rightarrow> card_db" where
  "expire_cards \<equiv> fold (\<lambda>c d. snd (transaction (expire_virtual_body c) d))"

lemma release_blocks_effect:
  assumes "\<And>b. b \<in> set bs \<Longrightarrow> CardByID (cb_CardID b) db \<noteq> None"
  shows "card_blocks (release_blocks bs db) =
      upd_rows (\<lambda>b. cb_ID b \<in> cb_ID ` set bs) (\<lambda>b. b\<lparr>cb_Active := False\<rparr>) (card_blocks db)"
    and "card_view i (release_blocks bs db) =
      map_option (\<lambda>(d, s). (d, if i \<in> cb_CardID ` set bs then ''active'' else s)) (card_view i db)"
proof -
  have "card_blocks (release_blocks bs db) =
      upd_rows (\<lambda>b. cb_ID b \<in> cb_ID ` set bs) (\<lambda>b. b\<lparr>cb_Active := False\<rparr>) (card_blocks db) \<and>
    card_view i (release_blocks bs db) =
      map_option (\<lambda>(d, s). (d, if i \<in> cb_CardID ` set bs then ''active'' else s)) (card_view i db)"
    using assms
  proof (induction bs arbitrary: db)
    case Nil
    then show ?case by (cases "card_view i db") (simp_all add: upd_rows_absent)
  next
    case (Cons b bs)
    then obtain c where c: "CardByID (cb_CardID b) db = Some c" by fastforce
    let ?base = "DeactivateBlock (cb_ID b) db"
    let ?d = "SaveCard (c\<lparr>cd_Status := ''active''\<rparr>) ?base"
    have step: "snd (transaction (unblock_expired_body b) db) = ?d"
      using c by (simp add: unblock_expired_body_def Let_def)
    have view: "card_view j ?d = map_option (\<lambda>(d, st). (d, if j = cb_CardID b then ''active'' else st)) (card_view j db)" for j
      using card_view_SaveCard [of "cb_CardID b" ?base c j "''active''"] c by simp
    have "CardByID (cb_CardID b') ?d \<noteq> None" if "b' \<in> set bs" for b'
      using Cons.prems [of b'] that view [of "cb_CardID b'"] by (simp add: view_None [symmetric])
    from Cons.IH [of ?d, OF this] view [of i] show ?case
      by (cases "card_view i db")
        (simp_all add: step DeactivateBlock_def upd_rows_union split: prod.splits, simp_all add: disj_commute)
  qed
  then show "card_blocks (release_blocks bs db) =
      upd_rows (\<lambda>b. cb_ID b \<in> cb_ID ` set bs) (\<lambda>b. b\<lparr>cb_Active := False\<rparr>) (card_blocks db)"
    and "card_view i (release_blocks bs db) =
      map_option (\<lambda>(d, s). (d, if i \<in> cb_CardID ` set bs then ''active'' else s)) (card_view i db)" by simp_all
qed

lemma expire_cards_effect:
  assumes "\<And>c. c \<in> set cs \<Longrightarrow> CardByID (cd_ID c) db \<noteq> None"
  shows "card_blocks (expire_cards cs db) = card_blocks db \<and>
    card_view i (expire_cards cs db) =
      map_option (\<lambda>(d, s). (d, if i \<in> cd_ID ` set cs then ''deactivated'' else s)) (card_view i db)"
  using assms
proof (induction cs arbitrary: db)
  case Nil
  then show ?case by (cases "card_view i db") simp_all
next
  case (Cons x xs)
  then obtain c where c: "CardByID (cd_ID x) db = Some c" by fastforce
  let ?d = "snd (transaction (expire_virtual_body x) db)"
  have step: "?d = (if cd_Status c = ''deactivated'' then db else SaveCard (c\<lparr>cd_Status := ''deactivated''\<rparr>) db)"
    using c by (simp add: expire_virtual_body_def)
  have view: "card_view j ?d = map_option (\<lambda>(d, st). (d, if j = cd_ID x then ''deactivated'' else st)) (card_view j db)" for j
    using card_view_SaveCard [of "cd_ID x" db c j "''deactivated''"] c
    by (cases "card_view j db") (auto simp: step card_view_def split: if_splits)
  have "CardByID (cd_ID y) ?d \<noteq> None" if "y \<in> set xs" for y
    using Cons.prems [of y] that view [of "cd_ID y"] by (simp add: view_None [symmetric])
  from Cons.IH [of ?d, OF this] view [of i] show ?case
    by (cases "card_view i db") (auto simp: step split: prod.splits)
qed

definition block_expired :: "int \<Rightarrow> nat \<Rightarrow> card_db \<Rightarrow> bool" where
  "block_expired now i db \<longleftrightarrow>
     (\<exists>b \<in> set (card_blocks db). cb_CardID b = i \<and> cb_Active b \<and> (\<exists>t. cb_ExpiresAt b = Some t \<and> t \<le> now))"

lemma FindExpiredActive_iff:
  "b \<in> set (FindExpiredActive now db) \<longleftrightarrow>
     b \<in> set (card_blocks db) \<and> cb_Active b \<and> (\<exists>t. cb_ExpiresAt b = Some t \<and> t \<le> now)"
  by (auto simp: FindExpiredActive_def split: option.splits)

lemma FindExpiredVirtual_iff:
  "c \<in> set (FindExpiredVirtual now db) \<longleftrightarrow>
     c \<in> set (cards db) \<and> cd_IsVirtual c \<and> cd_Status c = ''active'' \<and> cd_ExpiresAt c \<le> now"
  by (auto simp: FindExpiredVirtual_def)

lemma view_fields:
  assumes "card_view i db = Some (d, s)"
  obtains c where "CardByID i db = Some c" "d = c\<lparr>cd_Status := [], cd_Version := 0\<rparr>" "s = cd_Status c"
    "cd_IsVirtual d = cd_IsVirtual c" "cd_ExpiresAt d = cd_ExpiresAt c" "c \<in> set (cards db)" "cd_ID c = i"
proof -
  from assms obtain c where c: "CardByID i db = Some c" "d = c\<lparr>cd_Status := [], cd_Version := 0\<rparr>" "s = cd_Status c"
    unfolding card_view_def by auto
  with CardByID_in [OF c(1)] show thesis by (intro that [of c]) simp_all
qed

text \<open>The two halves of a tick.\<close>

lemma release_stage:
  fixes now :: int and i :: nat and db :: card_db
  assumes "cards_ok db"
  defines "mid \<equiv> release_blocks (FindExpiredActive now db) db"
  shows "cards_ok mid" "FindExpiredActive now mid = []"
    "card_view i mid = map_option (\<lambda>(d, s). (d, if block_expired now i db then ''active'' else s)) (card_view i db)"
proof -
  let ?bs = "FindExpiredActive now db"
  have bs_found: "CardByID (cb_CardID b) db \<noteq> None" if "b \<in> set ?bs" for b
  proof -
    have "cb_CardID b \<in> cd_ID ` set (cards db)"
      using that assms(1) by (auto simp: FindExpiredActive_def cards_ok_def blocks_ok_def)
    then show ?thesis by (auto simp: CardByID_def find_None_iff)
  qed
  have blocks: "card_blocks mid =
      upd_rows (\<lambda>b. cb_ID b \<in> cb_ID ` set ?bs) (\<lambda>b. b\<lparr>cb_Active := False\<rparr>) (card_blocks db)"
    unfolding mid_def by (rule release_blocks_effect(1)) (rule bs_found)
  have "b \<notin> set (FindExpiredActive now mid)" for b
    using blocks by (auto simp: FindExpiredActive_iff image_iff elim!: in_upd_rowsE)
  then show "FindExpiredActive now mid = []" by (metis list.set_intros(1) neq_Nil_conv)
  have "kept [] db" using assms(1) by (simp add: kept_def)
  then show "cards_ok mid"
    unfolding mid_def by (intro kept_ok [of "[]"] fold_keeps [of "kept []"]) (auto intro: kept_unblock_expired)
  have "i \<in> cb_CardID ` set ?bs \<longleftrightarrow> block_expired now i db"
    by (auto simp: block_expired_def FindExpiredActive_iff image_iff)
  then show "card_view i mid = map_option (\<lambda>(d, s). (d, if block_expired now i db then ''active'' else s)) (card_view i db)"
    using release_blocks_effect(2) [of ?bs db i, OF bs_found] by (simp add: mid_def)
qed

lemma expire_stage:
  fixes now :: int and i :: nat and db :: card_db
  assumes "cards_ok db"
  defines "fin \<equiv> expire_cards (FindExpiredVirtual now db) db"
  shows "FindExpiredActive now fin = FindExpiredActive now db"
    "card_view i fin = map_option (\<lambda>(d, s).
       (d, if cd_IsVirtual d \<and> s = ''active'' \<and> cd_ExpiresAt d \<le> now then ''deactivated'' else s)) (card_view i db)"
proof -
  let ?cs = "FindExpiredVirtual now db"
  have found: "CardByID (cd_ID c) db \<noteq> None" if "c \<in> set ?cs" for c
    using that CardByID_unique [of db c] assms(1) by (simp add: FindExpiredVirtual_def cards_ok_def)
  have fin: "card_blocks fin = card_blocks db \<and> card_view i fin =
      map_option (\<lambda>(d, s). (d, if i \<in> cd_ID ` set ?cs then ''deactivated'' else s)) (card_view i db)"
    unfolding fin_def by (rule expire_cards_effect) (rule found)
  then show "FindExpiredActive now fin = FindExpiredActive now db" by (simp add: FindExpiredActive_def)
  have "i \<in> cd_ID ` set ?cs \<longleftrightarrow> cd_IsVirtual d \<and> s = ''active'' \<and> cd_ExpiresAt d \<le> now"
    if view: "card_view i db = Some (d, s)" for d s
  proof -
    from view obtain c where c: "CardByID i db = Some c" "d = c\<lparr>cd_Status := [], cd_Version := 0\<rparr>" "s = cd_Status c"
      "cd_IsVirtual d = cd_IsVirtual c" "cd_ExpiresAt d = cd_ExpiresAt c" "c \<in> set (cards db)" "cd_ID c = i"
      by (rule view_fields)
    have only: "x = c" if "x \<in> set (cards db)" "cd_ID x = i" for x
      using that c(6,7) assms(1) distinct_key_eq [of cd_ID "cards db" x c] by (simp add: cards_ok_def card_keys_ok_def)
    have "i \<in> cd_ID ` set ?cs \<longleftrightarrow> c \<in> set ?cs"
      using only c(7) by (auto simp: FindExpiredVirtual_iff)
    also have "\<dots> \<longleftrightarrow> cd_IsVirtual d \<and> s = ''active'' \<and> cd_ExpiresAt d \<le> now"
      using c by (simp add: FindExpiredVirtual_iff)
    finally show ?thesis .
  qed
  then show "card_view i fin = map_option (\<lambda>(d, s).
       (d, if cd_IsVirtual d \<and> s = ''active'' \<and> cd_ExpiresAt d \<le> now then ''deactivated'' else s)) (card_view i db)"
    using fin by (cases "card_view i db") auto
qed

text \<open>
  C24: the maintenance tick. After a tick no active block is past its time and no active virtual card is past
  its expiry. Each card keeps everything but its status and version; the new status is active when one of its
  blocks had run out, whatever it was before (also for a card that was deactivated or that the PIN lock
  blocked), and a virtual card past its expiry that is then active is deactivated.
\<close>

theorem tick_effect:
  assumes "cards_ok db"
  shows "FindExpiredActive now (runCardCronTick now db) = [] \<and> FindExpiredVirtual now (runCardCronTick now db) = [] \<and>
     (\<forall>i. card_view i (runCardCronTick now db) =
        map_option (\<lambda>(d, s).
          let s' = (if block_expired now i db then ''active'' else s)
          in (d, if cd_IsVirtual d \<and> s' = ''active'' \<and> cd_ExpiresAt d \<le> now then ''deactivated'' else s'))
          (card_view i db))"
proof -
  let ?mid = "release_blocks (FindExpiredActive now db) db" and ?after = "runCardCronTick now db"
  have after_def: "?after = expire_cards (FindExpiredVirtual now ?mid) ?mid" by (simp add: runCardCronTick_def Let_def)
  note mid = release_stage [OF assms, where now = now]
  note fin = expire_stage [OF mid(1), where now = now, folded after_def]
  have view: "card_view i ?after = map_option (\<lambda>(d, s).
      let s' = (if block_expired now i db then ''active'' else s)
      in (d, if cd_IsVirtual d \<and> s' = ''active'' \<and> cd_ExpiresAt d \<le> now then ''deactivated'' else s')) (card_view i db)" for i
    using fin(2) [of i] mid(3) [of i] by (cases "card_view i db") (auto simp: Let_def split: prod.splits)
  have ok_end: "cards_ok ?after"
    using card_step_kept [OF tick, of "[]" db now] assms by (simp add: kept_def)
  have "c \<notin> set (FindExpiredVirtual now ?after)" for c
  proof
    assume "c \<in> set (FindExpiredVirtual now ?after)"
    then have c: "c \<in> set (cards ?after)" "cd_IsVirtual c" "cd_Status c = ''active''" "cd_ExpiresAt c \<le> now"
      by (simp_all add: FindExpiredVirtual_iff)
    have "CardByID (cd_ID c) ?after = Some c" using c(1) ok_end by (intro CardByID_unique) (simp_all add: cards_ok_def)
    then have v: "card_view (cd_ID c) ?after = Some (c\<lparr>cd_Status := [], cd_Version := 0\<rparr>, ''active'')"
      using c(3) by (simp add: card_view_def)
    then show False using view [of "cd_ID c"] c(2,4)
      by (cases "card_view (cd_ID c) db") (auto simp: Let_def split: prod.splits if_splits)
  qed
  then have "FindExpiredVirtual now ?after = []" by (metis list.set_intros(1) neq_Nil_conv)
  with view fin(1) mid(2) show ?thesis by simp
qed

lemma TemporaryBlockCard_found:
  assumes "CardByID i db = Some c" "0 < hours" "hours \<le> 720"
  shows "CardByID i (snd (TemporaryBlockCard fmt now i hours reason db)) =
      Some (c\<lparr>cd_Status := ''blocked'', cd_Version := cd_Version c + 1\<rparr>)"
    "card_blocks (snd (TemporaryBlockCard fmt now i hours reason db)) = card_blocks db @
      [\<lparr>cb_ID = seq_card_blocks db, cb_CardID = i, cb_Reason = reason, cb_BlockedAt = now,
        cb_ExpiresAt = Some (now + hours * 3600), cb_Active = True\<rparr>]"
proof -
  let ?c = "c\<lparr>cd_Status := ''blocked''\<rparr>"
  have "CardByID i (SaveCard ?c db) = Some (?c\<lparr>cd_Version := cd_Version c + 1\<rparr>)"
    using CardByID_SaveCard [of ?c db i] CardByID_in [OF assms(1)] assms(1) by simp
  then show "CardByID i (snd (TemporaryBlockCard fmt now i hours reason db)) =
      Some (c\<lparr>cd_Status := ''blocked'', cd_Version := cd_Version c + 1\<rparr>)"
    using assms by (simp add: TemporaryBlockCard_def Let_def temporary_block_body_def notifyTemporaryBlock_def)
  show "card_blocks (snd (TemporaryBlockCard fmt now i hours reason db)) = card_blocks db @
      [\<lparr>cb_ID = seq_card_blocks db, cb_CardID = i, cb_Reason = reason, cb_BlockedAt = now,
        cb_ExpiresAt = Some (now + hours * 3600), cb_Active = True\<rparr>]"
    using assms by (simp add: TemporaryBlockCard_def Let_def temporary_block_body_def notifyTemporaryBlock_def
        CreateBlockRow_def invalidateCardCache_def publish_card_def)
qed

text \<open>A deactivated card that is blocked for a day is active again after it.\<close>

theorem tick_effect_witness:
  "card_view 1 (snd (DeactivateCard 0 1 9 demo_card_db)) = Some (demo_card\<lparr>cd_Status := [], cd_Version := 0\<rparr>, ''deactivated'') \<and>
   card_view 1 (runCardCronTick 86400 (snd (TemporaryBlockCard (\<lambda>_. []) 0 1 24 [] (snd (DeactivateCard 0 1 9 demo_card_db))))) =
     Some (demo_card\<lparr>cd_Status := [], cd_Version := 0\<rparr>, ''active'')"
proof -
  let ?dead = "snd (DeactivateCard 0 1 9 demo_card_db)"
  let ?blocked = "snd (TemporaryBlockCard (\<lambda>_. []) 0 1 24 [] ?dead)"
  let ?c = "demo_card\<lparr>cd_Status := ''deactivated''\<rparr>"
  have demo: "cd_ID demo_card = 1" "cd_Status demo_card = ''active''" "\<not> cd_IsVirtual demo_card"
    by (simp_all add: demo_card_def card_defaults_def) (simp add: new_card_def Let_def)
  have dead: "CardByID 1 ?dead = Some (?c\<lparr>cd_Version := cd_Version demo_card + 1\<rparr>)"
    using demo_card_found demo CardByID_SaveCard [of ?c demo_card_db 1]
    by (simp add: DeactivateCard_def status_change_def deactivate_body_def Let_def)
  note blocked = TemporaryBlockCard_found [OF dead, of 24 "\<lambda>_. []" 0 "[]", simplified]
  have "card_step\<^sup>*\<^sup>* demo_empty ?blocked"
    using demo_card_reachable deactivate [of demo_card_db 0 1 9] block_temporarily [of ?dead "\<lambda>_. []" 0 1 24 "[]"]
    by (meson rtranclp.rtrancl_into_rtrancl)
  moreover have "kept [] demo_empty" by (simp add: kept_def empty_card_db_def cards_ok_parts)
  ultimately have "cards_ok ?blocked" using card_run_kept kept_ok by blast
  from tick_effect [OF this, of 86400]
  have "card_view 1 (runCardCronTick 86400 ?blocked) = map_option (\<lambda>(d, s).
      let s' = (if block_expired 86400 1 ?blocked then ''active'' else s)
      in (d, if cd_IsVirtual d \<and> s' = ''active'' \<and> cd_ExpiresAt d \<le> 86400 then ''deactivated'' else s')) (card_view 1 ?blocked)"
    by blast
  moreover have "block_expired 86400 1 ?blocked" by (simp add: block_expired_def blocked(2))
  ultimately show ?thesis using dead blocked(1) demo(3) by (simp add: card_view_def Let_def)
qed

section \<open>Virtual cards\<close>

lemma use_once:
  assumes "CardByID i db = Some c" "cd_IsVirtual c" "cd_UsageType c \<noteq> ''unlimited''" "0 < cd_UsesRemaining c"
  shows "\<exists>c'. UseCard i db = (Inr (), invalidateCardCache i (SaveCard c' db)) \<and>
     CardByID i (snd (UseCard i db)) = Some (c'\<lparr>cd_Version := cd_Version c' + 1\<rparr>) \<and>
     cd_IsVirtual c' \<and> cd_UsageType c' = cd_UsageType c \<and> cd_UsesRemaining c' = cd_UsesRemaining c - 1 \<and>
     cd_Status c' = (if cd_UsesRemaining c = 1 then ''deactivated'' else cd_Status c)"
proof -
  let ?u = "c\<lparr>cd_UsesRemaining := cd_UsesRemaining c - 1\<rparr>"
  let ?c = "if cd_UsesRemaining c - 1 = 0 then ?u\<lparr>cd_Status := ''deactivated''\<rparr> else ?u"
  have run: "UseCard i db = (Inr (), invalidateCardCache i (SaveCard ?c db))"
    using assms by (simp add: UseCard_def use_body_def Let_def)
  have "CardByID i (SaveCard ?c db) = Some (?c\<lparr>cd_Version := cd_Version ?c + 1\<rparr>)"
    using CardByID_SaveCard [of ?c db i] CardByID_in [OF assms(1)] assms(1) by simp
  with run assms show ?thesis by (intro exI [of _ ?c]) auto
qed

fun use_times :: "nat \<Rightarrow> nat \<Rightarrow> card_db \<Rightarrow> card_db" where
  "use_times 0 i db = db"
| "use_times (Suc n) i db = use_times n i (snd (UseCard i db))"

text \<open>
  The uses of a virtual card. A virtual card with \<open>n\<close> uses left accepts exactly \<open>n\<close> further uses, whatever
  its status; the last one deactivates it, and every use after that is refused without a change.
\<close>

theorem virtual_card_uses:
  assumes "CardByID i db = Some c" "cd_IsVirtual c" "cd_UsageType c \<noteq> ''unlimited''" "cd_UsesRemaining c = int n"
  shows "(\<forall>k < n. fst (UseCard i (use_times k i db)) = Inr ()) \<and>
     (\<exists>c'. CardByID i (use_times n i db) = Some c' \<and> cd_UsesRemaining c' = 0 \<and>
        cd_Status c' = (if 0 < n then ''deactivated'' else cd_Status c)) \<and>
     UseCard i (use_times n i db) = (Inl ErrSingleUseAlreadyUsed, use_times n i db)"
  using assms
proof (induction n arbitrary: db c)
  case 0
  then show ?case by (simp add: UseCard_def use_body_def)
next
  case (Suc n)
  obtain c' where c': "fst (UseCard i db) = Inr ()"
    "CardByID i (snd (UseCard i db)) = Some (c'\<lparr>cd_Version := cd_Version c' + 1\<rparr>)"
    "cd_IsVirtual c'" "cd_UsageType c' = cd_UsageType c" "cd_UsesRemaining c' = cd_UsesRemaining c - 1"
    "cd_Status c' = (if cd_UsesRemaining c = 1 then ''deactivated'' else cd_Status c)"
    using use_once [OF Suc.prems(1-3)] Suc.prems(4) by auto
  have "fst (UseCard i (use_times k i db)) = Inr ()" if "k < Suc n" for k
    using that Suc.IH [OF c'(2)] c' Suc.prems by (cases k) simp_all
  with Suc.IH [OF c'(2)] c' Suc.prems show ?case by auto
qed

theorem virtual_card_uses_witness:
  "\<exists>c. fst (CreateVirtualCard demo_card_env ''265-1'' 7 ''visa'' ''single_use'' 0 1 (Some 100) demo_empty) = Inr c \<and>
     UseCard 1 (use_times 1 1 (snd (CreateVirtualCard demo_card_env ''265-1'' 7 ''visa'' ''single_use'' 0 1 (Some 100) demo_empty))) =
       (Inl ErrSingleUseAlreadyUsed,
        use_times 1 1 (snd (CreateVirtualCard demo_card_env ''265-1'' 7 ''visa'' ''single_use'' 0 1 (Some 100) demo_empty)))"
proof -
  let ?run = "CreateVirtualCard demo_card_env ''265-1'' 7 ''visa'' ''single_use'' 0 1 (Some 100) demo_empty"
  let ?v = "virtual_card demo_card_env ''265-1'' 7 ''visa'' ''single_use'' 1 1 100"
  let ?row = "(card_defaults ?v)\<lparr>cd_ID := 1, cd_CreatedAt := 0\<rparr>"
  have "ce_now demo_card_env = 0" by (simp add: demo_card_env_def)
  then have run: "?run = (Inr (?row, cd_CVV ?v),
      publish_card (VirtualCardCreated 1 (cd_AccountNumber ?row) (cd_UsageType ?row) (cd_MaxUses ?row))
        (demo_empty\<lparr>cards := [?row], seq_cards := 2\<rparr>))"
    by (simp add: CreateVirtualCard_def validBrands_def CreateCardRow_def empty_card_db_def Let_def)
  have found: "CardByID 1 (snd ?run) = Some ?row" by (simp add: run CardByID_def publish_card_def)
  have "cd_IsVirtual ?row" "cd_UsageType ?row \<noteq> ''unlimited''" "cd_UsesRemaining ?row = int 1"
    by (simp_all add: card_defaults_def virtual_card_def)
  from virtual_card_uses [OF found this] have "UseCard 1 (use_times 1 1 (snd ?run)) = (Inl ErrSingleUseAlreadyUsed, use_times 1 1 (snd ?run))"
    by blast
  moreover have "fst ?run = Inr (?row, cd_CVV ?v)" by (simp add: run)
  ultimately show ?thesis by blast
qed

section \<open>Card requests\<close>

lemma RequestByID_frame [simp]:
  "RequestByID i (publish_card m db) = RequestByID i db" "RequestByID i (notifyRequest q kind data db) = RequestByID i db"
  by (simp_all add: RequestByID_def publish_card_def notifyRequest_def)

lemma RequestByID_update:
  "RequestByID i (UpdateRequestStatus i s r e db) =
     map_option (\<lambda>q. q\<lparr>cq_Status := s, cq_Reason := r, cq_ApprovedBy := e\<rparr>) (RequestByID i db)"
proof -
  have "find (\<lambda>q. cq_ID q = i) (upd_rows (\<lambda>q. cq_ID q = i)
      (\<lambda>q. q\<lparr>cq_Status := s, cq_Reason := r, cq_ApprovedBy := e\<rparr>) xs) =
    map_option (\<lambda>q. q\<lparr>cq_Status := s, cq_Reason := r, cq_ApprovedBy := e\<rparr>) (find (\<lambda>q. cq_ID q = i) xs)" for xs
    by (induction xs) auto
  then show ?thesis by (simp add: RequestByID_def UpdateRequestStatus_def)
qed

lemma decided_refused:
  assumes "RequestByID i db = Some q" "cq_Status q \<noteq> ''pending''"
  shows "ApproveRequest env i e db = (Inl ErrCardRequestAlreadyDecided, db)"
    "RejectRequest i e reason db = (Inl ErrCardRequestAlreadyDecided, db)"
  using assms by (simp_all add: ApproveRequest_def RejectRequest_def)

lemma CreateCard_frame:
  assumes "CreateCard env acc owner ownerType brand db = (Inr (c, cvv), db')"
  shows "cards db' = cards db @ [c]" "card_requests db' = card_requests db" "cd_OwnerID c = owner" "cd_AccountNumber c = acc"
    "cd_OwnerType c = ownerType"
  using create_card_facts [where env = env and acc = acc and owner = owner and ownerType = ownerType and brand = brand and db = db]
    assms by auto

lemma CreateCard_failed: "CreateCard env acc owner ownerType brand db = (Inl e, db') \<Longrightarrow> db' = db"
  using create_card_facts [where env = env and acc = acc and owner = owner and ownerType = ownerType and brand = brand and db = db]
  by auto

text \<open>
  A card request is decided once. Approving a pending request issues exactly one card, for the client and
  the account of the request; when no card can be issued the request stays as it is and nothing changes.
  Rejecting issues none. After either, both decisions are refused and change nothing.
\<close>

theorem request_decided_once:
  assumes "RequestByID i db = Some q" "cq_Status q = ''pending''"
  shows "(case ApproveRequest env i e db of
       (Inl _, db') \<Rightarrow> db' = db
     | (Inr c, db') \<Rightarrow> cards db' = cards db @ [c] \<and> cd_OwnerID c = cq_ClientID q \<and> cd_OwnerType c = ''client'' \<and>
         cd_AccountNumber c = cq_AccountNumber q \<and>
         (\<forall>env' e' r. ApproveRequest env' i e' db' = (Inl ErrCardRequestAlreadyDecided, db') \<and>
            RejectRequest i e' r db' = (Inl ErrCardRequestAlreadyDecided, db'))) \<and>
     (case RejectRequest i e reason db of
       (Inl _, _) \<Rightarrow> False
     | (Inr _, db') \<Rightarrow> cards db' = cards db \<and>
         (\<forall>env' e' r. ApproveRequest env' i e' db' = (Inl ErrCardRequestAlreadyDecided, db') \<and>
            RejectRequest i e' r db' = (Inl ErrCardRequestAlreadyDecided, db')))"
proof (intro conjI)
  let ?run = "CreateCard env (cq_AccountNumber q) (cq_ClientID q) ''client'' (cq_CardBrand q) db"
  obtain res db1 where run: "?run = (res, db1)" by (rule prod.exhaust)
  show "case ApproveRequest env i e db of
       (Inl _, db') \<Rightarrow> db' = db
     | (Inr c, db') \<Rightarrow> cards db' = cards db @ [c] \<and> cd_OwnerID c = cq_ClientID q \<and> cd_OwnerType c = ''client'' \<and>
         cd_AccountNumber c = cq_AccountNumber q \<and>
         (\<forall>env' e' r. ApproveRequest env' i e' db' = (Inl ErrCardRequestAlreadyDecided, db') \<and>
            RejectRequest i e' r db' = (Inl ErrCardRequestAlreadyDecided, db'))"
  proof (cases res)
    case (Inl err)
    with run assms CreateCard_failed [of env "cq_AccountNumber q" "cq_ClientID q" "''client''" "cq_CardBrand q" db err db1]
    show ?thesis by (simp add: ApproveRequest_def)
  next
    case (Inr p)
    obtain c cvv where p: "p = (c, cvv)" by (rule prod.exhaust)
    note made = CreateCard_frame [OF run [unfolded Inr p]]
    let ?after = "notifyRequest q ''CARD_REQUEST_APPROVED'' [(''card_brand'', cq_CardBrand q)]
      (publish_card (CardRequestApproved i (cd_ID c) e) (UpdateRequestStatus i ''approved'' [] e db1))"
    have "RequestByID i db1 = Some q" using assms(1) made(2) by (simp add: RequestByID_def)
    then have decided: "RequestByID i ?after = Some (q\<lparr>cq_Status := ''approved'', cq_Reason := [], cq_ApprovedBy := e\<rparr>)"
      by (simp add: RequestByID_update)
    have "cards ?after = cards db @ [c]"
      using made(1) by (simp add: notifyRequest_def publish_card_def UpdateRequestStatus_def)
    with made(3-5) run Inr p assms decided_refused [OF decided] show ?thesis
      by (simp add: ApproveRequest_def)
  qed
next
  let ?after = "notifyRequest q ''CARD_REQUEST_REJECTED'' [(''reason'', reason)]
    (publish_card (CardRequestRejected i e reason) (UpdateRequestStatus i ''rejected'' reason e db))"
  have decided: "RequestByID i ?after = Some (q\<lparr>cq_Status := ''rejected'', cq_Reason := reason, cq_ApprovedBy := e\<rparr>)"
    using assms(1) by (simp add: RequestByID_update)
  have "cards ?after = cards db" by (simp add: notifyRequest_def publish_card_def UpdateRequestStatus_def)
  with assms decided_refused [OF decided] show "case RejectRequest i e reason db of
       (Inl _, _) \<Rightarrow> False
     | (Inr _, db') \<Rightarrow> cards db' = cards db \<and>
         (\<forall>env' e' r. ApproveRequest env' i e' db' = (Inl ErrCardRequestAlreadyDecided, db') \<and>
            RejectRequest i e' r db' = (Inl ErrCardRequestAlreadyDecided, db'))"
    by (simp add: RejectRequest_def)
qed

definition demo_request :: card_request where
  "demo_request = \<lparr>cq_ID = 0, cq_ClientID = 7, cq_AccountNumber = ''265-1'', cq_CardBrand = ''visa'', cq_CardType = [],
     cq_CardName = [], cq_Status = [], cq_Reason = [], cq_ApprovedBy = 0, cq_CreatedAt = 0\<rparr>"

theorem request_decided_once_witness:
  "case RejectRequest 1 5 ''no'' (snd (CreateRequest 0 demo_request demo_empty)) of
     (Inl _, _) \<Rightarrow> False
   | (Inr _, db') \<Rightarrow> ApproveRequest demo_card_env 1 5 db' = (Inl ErrCardRequestAlreadyDecided, db')"
proof -
  let ?db = "snd (CreateRequest 0 demo_request demo_empty)"
  let ?q = "demo_request\<lparr>cq_ID := 1, cq_CardType := ''debit'', cq_Status := ''pending''\<rparr>"
  have "RequestByID 1 ?db = Some ?q"
    by (simp add: CreateRequest_def CreateRequestRow_def demo_request_def empty_card_db_def validBrands_def Let_def)
      (simp add: RequestByID_def)
  moreover have "cq_Status ?q = ''pending''" by simp
  ultimately show ?thesis
    using conjunct2 [OF request_decided_once [of 1 ?db ?q demo_card_env 5 "''no''"]]
    by (auto split: prod.splits sum.splits)
qed

section \<open>The client replica\<close>

text \<open>The newest event of one client; the first one among equal versions.\<close>

fun newest :: "nat \<Rightarrow> client_replica list \<Rightarrow> client_replica option" where
  "newest i [] = None"
| "newest i (r # rs) =
     (if rep_ID r \<noteq> i then newest i rs
      else case newest i rs of
             None \<Rightarrow> Some r
           | Some s \<Rightarrow> if rep_Version s \<le> rep_Version r then Some r else Some s)"

lemma newest_None: "newest i rs = None \<longleftrightarrow> (\<forall>s \<in> set rs. rep_ID s \<noteq> i)"
  by (induction rs) (auto split: option.splits)

lemma newest_max:
  "newest i rs = Some r \<Longrightarrow> r \<in> set rs \<and> rep_ID r = i \<and> (\<forall>s \<in> set rs. rep_ID s = i \<longrightarrow> rep_Version s \<le> rep_Version r)"
proof (induction rs arbitrary: r)
  case (Cons x xs)
  show ?case
  proof (cases "newest i xs")
    case None
    with Cons.prems newest_None [of i xs] show ?thesis by (auto split: if_splits)
  next
    case (Some y)
    with Cons.prems Cons.IH [OF Some] show ?thesis by (auto split: if_splits intro: order_trans)
  qed
qed simp

lemma ReplicaByID_Upsert:
  "ReplicaByID i (UpsertReplica r db) =
     (if rep_ID r \<noteq> i then ReplicaByID i db
      else case ReplicaByID i db of
             None \<Rightarrow> Some r
           | Some s \<Rightarrow> if rep_Version r \<le> rep_Version s then Some s else Some r)"
proof (cases "ReplicaByID (rep_ID r) db")
  case None
  then show ?thesis by (auto simp: UpsertReplica_def ReplicaByID_def split: option.split)
next
  case (Some s)
  have id: "rep_ID s = rep_ID r" using Some find_holds unfolding ReplicaByID_def by fastforce
  have new: "s\<lparr>rep_Email := rep_Email r, rep_FirstName := rep_FirstName r, rep_LastName := rep_LastName r,
      rep_JMBG := rep_JMBG r, rep_Version := rep_Version r\<rparr> = r"
    using id by (cases s, cases r) simp
  have other: "find (\<lambda>x. rep_ID x = i) (put_row rep_ID r xs) = find (\<lambda>x. rep_ID x = i) xs" if "rep_ID r \<noteq> i" for xs
    using that by (induction xs) auto
  have hit: "find (\<lambda>x. rep_ID x = rep_ID r) (put_row rep_ID r xs) = Some r"
    if "find (\<lambda>x. rep_ID x = rep_ID r) xs = Some s" for xs
    using that by (induction xs) (auto split: if_splits)
  show ?thesis
    using Some new other hit by (auto simp: UpsertReplica_def ReplicaByID_def)
qed

lemma replica_after_events:
  "ReplicaByID i (fold UpsertReplica es db) =
     (case ReplicaByID i db of
        None \<Rightarrow> newest i es
      | Some s \<Rightarrow> (case newest i es of
                     None \<Rightarrow> Some s
                   | Some r \<Rightarrow> if rep_Version r \<le> rep_Version s then Some s else Some r))"
  by (induction es arbitrary: db) (auto simp: ReplicaByID_Upsert split: option.splits)

text \<open>
  The client replica converges. When two streams carry the same events, in any order and with any
  repetitions, and no two different events of one client have the same version, applying either of them to
  the same replica table leaves every client with the same row: the newest one seen.
\<close>

theorem replica_converges:
  assumes "set es = set fs"
    and "\<forall>r \<in> set es. \<forall>s \<in> set es. rep_ID r = rep_ID s \<and> rep_Version r = rep_Version s \<longrightarrow> r = s"
  shows "ReplicaByID i (fold UpsertReplica es db) = ReplicaByID i (fold UpsertReplica fs db) \<and>
     (\<forall>r \<in> set es. rep_ID r = i \<longrightarrow>
        (\<exists>s. ReplicaByID i (fold UpsertReplica es db) = Some s \<and> rep_Version r \<le> rep_Version s))"
proof -
  have "newest i es = newest i fs"
  proof (cases "newest i es")
    case None
    with assms(1) have "newest i fs = None" by (simp add: newest_None)
    with None show ?thesis by simp
  next
    case (Some r)
    then have "newest i fs \<noteq> None" using assms(1) newest_None [of i es] newest_None [of i fs] by auto
    then obtain s where s: "newest i fs = Some s" by blast
    note rs = newest_max [OF Some] newest_max [OF s]
    with assms(1) have "rep_Version r = rep_Version s" by (simp add: order_antisym)
    with rs assms have "r = s" by auto
    with Some s show ?thesis by simp
  qed
  then have "ReplicaByID i (fold UpsertReplica es db) = ReplicaByID i (fold UpsertReplica fs db)"
    unfolding replica_after_events by (rule arg_cong)
  moreover have "\<exists>s. ReplicaByID i (fold UpsertReplica es db) = Some s \<and> rep_Version r \<le> rep_Version s"
    if "r \<in> set es" "rep_ID r = i" for r
  proof (cases "newest i es")
    case None
    with that show ?thesis by (simp add: newest_None)
  next
    case (Some s)
    with that newest_max [OF Some] have "rep_Version r \<le> rep_Version s" by blast
    with Some show ?thesis by (auto simp: replica_after_events split: option.split)
  qed
  ultimately show ?thesis by blast
qed

theorem replica_converges_witness:
  "ReplicaByID 3 (fold UpsertReplica
       [\<lparr>rep_ID = 3, rep_Email = ''new'', rep_FirstName = [], rep_LastName = [], rep_JMBG = [], rep_Version = 2\<rparr>,
        \<lparr>rep_ID = 3, rep_Email = ''old'', rep_FirstName = [], rep_LastName = [], rep_JMBG = [], rep_Version = 1\<rparr>] demo_empty) =
   ReplicaByID 3 (fold UpsertReplica
       [\<lparr>rep_ID = 3, rep_Email = ''old'', rep_FirstName = [], rep_LastName = [], rep_JMBG = [], rep_Version = 1\<rparr>,
        \<lparr>rep_ID = 3, rep_Email = ''new'', rep_FirstName = [], rep_LastName = [], rep_JMBG = [], rep_Version = 2\<rparr>] demo_empty)"
  (is "ReplicaByID 3 (fold _ [?a, ?b] _) = _")
proof -
  have "set [?a, ?b] = set [?b, ?a]" by auto
  moreover have "\<forall>r \<in> set [?a, ?b]. \<forall>s \<in> set [?a, ?b]. rep_ID r = rep_ID s \<and> rep_Version r = rep_Version s \<longrightarrow> r = s"
    by simp
  ultimately show ?thesis using replica_converges [of "[?a, ?b]" "[?b, ?a]" 3 demo_empty] by blast
qed

end
