(* ===== verification/Card_Handler.thy ===== *)
theory Card_Handler
  imports Tx_Handler Card_Behaviour
begin

text \<open>
  The gRPC front of the card service: \<^verbatim>\<open>handler/ownership.go\<close>, \<^verbatim>\<open>handler/grpc_handler.go\<close>,
  \<^verbatim>\<open>handler/virtual_card_handler.go\<close> and \<^verbatim>\<open>handler/card_request_handler.go\<close> under \<^verbatim>\<open>src/card-service/internal/\<close>.
  The caller is the identity in the call's metadata. \<open>fmt\<close> formats an instant, \<open>get_client\<close> is the client
  service's \<^verbatim>\<open>GetClient\<close>, \<open>None\<close> when no client is wired. The producer and the replica are wired, as in \<^verbatim>\<open>main\<close>.
\<close>

section \<open>Responses\<close>

record card_response =
  crs_Id :: nat
  crs_CardNumber :: string
  crs_CardNumberFull :: string
  crs_CardType :: string
  crs_CardName :: string
  crs_CardBrand :: string
  crs_AccountNumber :: string
  crs_CardLimit :: string
  crs_Status :: string
  crs_OwnerType :: string
  crs_OwnerId :: nat
  crs_ExpiresAt :: string
  crs_CreatedAt :: string
  crs_Cvv :: string

definition toCardResponse :: "decimal_text \<Rightarrow> (int \<Rightarrow> string) \<Rightarrow> card \<Rightarrow> card_response" where
  "toCardResponse dt fmt c =
     \<lparr>crs_Id = cd_ID c, crs_CardNumber = cd_CardNumber c, crs_CardNumberFull = cd_CardNumberFull c,
      crs_CardType = cd_CardType c, crs_CardName = cd_CardName c, crs_CardBrand = cd_CardBrand c,
      crs_AccountNumber = cd_AccountNumber c, crs_CardLimit = StringFixed4 dt (cd_CardLimit c), crs_Status = cd_Status c,
      crs_OwnerType = cd_OwnerType c, crs_OwnerId = cd_OwnerID c, crs_ExpiresAt = fmt (cd_ExpiresAt c),
      crs_CreatedAt = fmt (cd_CreatedAt c), crs_Cvv = []\<rparr>"

record card_request_response =
  rrs_Id :: nat
  rrs_ClientId :: nat
  rrs_AccountNumber :: string
  rrs_CardBrand :: string
  rrs_CardType :: string
  rrs_CardName :: string
  rrs_Status :: string
  rrs_Reason :: string
  rrs_ApprovedBy :: nat
  rrs_CreatedAt :: string

definition toCardRequestResponse :: "(int \<Rightarrow> string) \<Rightarrow> card_request \<Rightarrow> card_request_response" where
  "toCardRequestResponse fmt q =
     \<lparr>rrs_Id = cq_ID q, rrs_ClientId = cq_ClientID q, rrs_AccountNumber = cq_AccountNumber q,
      rrs_CardBrand = cq_CardBrand q, rrs_CardType = cq_CardType q, rrs_CardName = cq_CardName q,
      rrs_Status = cq_Status q, rrs_Reason = cq_Reason q, rrs_ApprovedBy = cq_ApprovedBy q,
      rrs_CreatedAt = fmt (cq_CreatedAt q)\<rparr>"

definition maskLastFour :: "string \<Rightarrow> string" where
  "maskLastFour cardNumber = (if length cardNumber < 4 then cardNumber else drop (length cardNumber - 4) cardNumber)"

section \<open>Ownership\<close>

definition ownsCard :: "caller \<Rightarrow> nat \<Rightarrow> bool" where
  "ownsCard cl ownerID = OwnsResource cl (to_int64 ownerID)"

text \<open>\<open>None\<close> stands for a nil error; the read through the cache may fill it.\<close>

definition requireCardOwnerByID :: "caller \<Rightarrow> nat \<Rightarrow> card_db \<Rightarrow> go_error option \<times> card_db" where
  "requireCardOwnerByID cl i db =
     (case GetCard i db of
        (Inl e, db1) \<Rightarrow> (Some (if e = ErrRecordNotFound then ErrCardNotFound else e), db1)
      | (Inr c, db1) \<Rightarrow> (if ownsCard cl (cd_OwnerID c) then None else Some ErrCardNotFound, db1))"

section \<open>Card RPCs\<close>

definition resolveClientEmail ::
  "(nat \<Rightarrow> client_replica result) option \<Rightarrow> nat \<Rightarrow> card_db \<Rightarrow> string \<times> card_db" where
  "resolveClientEmail get_client ownerID db =
     (case ReplicaByID ownerID db of
        Some rep \<Rightarrow> (rep_Email rep, db)
      | None \<Rightarrow>
          (case get_client of
             None \<Rightarrow> ([], db)
           | Some call \<Rightarrow>
               (case call ownerID of
                  Inl _ \<Rightarrow> ([], db)
                | Inr resp \<Rightarrow> (rep_Email resp, UpsertReplica (resp\<lparr>rep_ID := ownerID, rep_Version := 0\<rparr>) db))))"

text \<open>The in-app notification of a client's card.\<close>

definition notify_card_owner :: "string \<Rightarrow> (string \<times> string) list \<Rightarrow> card \<Rightarrow> card_db \<Rightarrow> card_db" where
  "notify_card_owner kind data c db =
     (if cd_OwnerType c = ''client'' then publish_card (CardNotification (cd_OwnerID c) kind data ''card'' (cd_ID c)) db else db)"

text \<open>What the three status RPCs do after the service call succeeded.\<close>

definition announce_status :: "(nat \<Rightarrow> client_replica result) option \<Rightarrow> card \<Rightarrow> card_db \<Rightarrow> card_db" where
  "announce_status get_client c db =
     (let db1 = notify_card_owner ''CARD_STATUS_CHANGED'' [(''new_status'', cd_Status c)] c
                  (publish_card (CardStatusChanged (cd_ID c) (cd_AccountNumber c) (cd_Status c)) db)
      in case resolveClientEmail get_client (cd_OwnerID c) db1 of
           (email, db2) \<Rightarrow>
             if email \<noteq> [] then
               publish_card (CardEmail email [(''card_last_four'', maskLastFour (cd_CardNumber c)),
                 (''new_status'', cd_Status c), (''account_number'', cd_AccountNumber c)]) db2
             else db2)"

definition CreateCardRPC ::
  "decimal_text \<Rightarrow> (int \<Rightarrow> string) \<Rightarrow> card_env \<Rightarrow> string \<Rightarrow> nat \<Rightarrow> string \<Rightarrow> string \<Rightarrow> card_db \<Rightarrow>
     card_response result \<times> card_db" where
  "CreateCardRPC dt fmt env accountNumber ownerID ownerType cardBrand db =
     (case CreateCard env accountNumber ownerID ownerType cardBrand db of
        (Inl e, db1) \<Rightarrow> (Inl e, db1)
      | (Inr (c, cvv), db1) \<Rightarrow>
          (Inr ((toCardResponse dt fmt c)\<lparr>crs_Cvv := cvv\<rparr>),
           notify_card_owner ''CARD_CREATED'' [(''card_brand'', cd_CardBrand c)] c
             (publish_card (CardCreated (cd_ID c) (cd_AccountNumber c) (cd_CardBrand c)) db1)))"

definition GetCardRPC :: "decimal_text \<Rightarrow> (int \<Rightarrow> string) \<Rightarrow> caller \<Rightarrow> nat \<Rightarrow> card_db \<Rightarrow> card_response result \<times> card_db" where
  "GetCardRPC dt fmt cl i db =
     (case GetCard i db of
        (Inl e, db1) \<Rightarrow> (Inl (if e = ErrRecordNotFound then Status NotFound ''card not found'' else e), db1)
      | (Inr c, db1) \<Rightarrow>
          (if \<not> ownsCard cl (cd_OwnerID c) then Inl ErrCardNotFound else Inr (toCardResponse dt fmt c), db1))"

definition ListCardsByAccountRPC :: "decimal_text \<Rightarrow> (int \<Rightarrow> string) \<Rightarrow> string \<Rightarrow> card_db \<Rightarrow> card_response list result" where
  "ListCardsByAccountRPC dt fmt accountNumber db = Inr (map (toCardResponse dt fmt) (ListCardsByAccount accountNumber db))"

definition ListCardsByClientRPC ::
  "decimal_text \<Rightarrow> (int \<Rightarrow> string) \<Rightarrow> caller \<Rightarrow> nat \<Rightarrow> card_db \<Rightarrow> card_response list result" where
  "ListCardsByClientRPC dt fmt cl clientID db =
     (if \<not> ownsCard cl clientID then Inl ErrCardForbidden
      else Inr (map (toCardResponse dt fmt) (ListCardsByClient clientID db)))"

text \<open>The service calls already answer a missing card with \<open>ErrCardNotFound\<close>.\<close>

definition status_reply ::
  "decimal_text \<Rightarrow> (int \<Rightarrow> string) \<Rightarrow> (nat \<Rightarrow> client_replica result) option \<Rightarrow> card result \<times> card_db \<Rightarrow>
     card_response result \<times> card_db" where
  "status_reply dt fmt get_client r =
     (case r of
        (Inl e, db1) \<Rightarrow> (Inl (if e = ErrRecordNotFound then Status NotFound ''card not found'' else e), db1)
      | (Inr c, db1) \<Rightarrow> (Inr (toCardResponse dt fmt c), announce_status get_client c db1))"

definition BlockCardRPC ::
  "decimal_text \<Rightarrow> (int \<Rightarrow> string) \<Rightarrow> (nat \<Rightarrow> client_replica result) option \<Rightarrow> int \<Rightarrow> caller \<Rightarrow> int \<Rightarrow> nat \<Rightarrow> card_db \<Rightarrow>
     card_response result \<times> card_db" where
  "BlockCardRPC dt fmt get_client now cl changedBy i db =
     (case requireCardOwnerByID cl i db of
        (Some e, db1) \<Rightarrow> (Inl e, db1)
      | (None, db1) \<Rightarrow> status_reply dt fmt get_client (BlockCard now i changedBy db1))"

definition UnblockCardRPC ::
  "decimal_text \<Rightarrow> (int \<Rightarrow> string) \<Rightarrow> (nat \<Rightarrow> client_replica result) option \<Rightarrow> int \<Rightarrow> int \<Rightarrow> nat \<Rightarrow> card_db \<Rightarrow>
     card_response result \<times> card_db" where
  "UnblockCardRPC dt fmt get_client now changedBy i db = status_reply dt fmt get_client (UnblockCard now i changedBy db)"

definition DeactivateCardRPC ::
  "decimal_text \<Rightarrow> (int \<Rightarrow> string) \<Rightarrow> (nat \<Rightarrow> client_replica result) option \<Rightarrow> int \<Rightarrow> int \<Rightarrow> nat \<Rightarrow> card_db \<Rightarrow>
     card_response result \<times> card_db" where
  "DeactivateCardRPC dt fmt get_client now changedBy i db = status_reply dt fmt get_client (DeactivateCard now i changedBy db)"

section \<open>Virtual cards and PIN\<close>

definition CreateVirtualCardRPC ::
  "decimal_text \<Rightarrow> (int \<Rightarrow> string) \<Rightarrow> card_env \<Rightarrow> string \<Rightarrow> nat \<Rightarrow> string \<Rightarrow> string \<Rightarrow> int \<Rightarrow> int \<Rightarrow> string \<Rightarrow> card_db \<Rightarrow>
     card_response result \<times> card_db" where
  "CreateVirtualCardRPC dt fmt env accountNumber ownerID cardBrand usageType maxUses expiryMonths limit db =
     (case CreateVirtualCard env accountNumber ownerID cardBrand usageType maxUses expiryMonths (NewFromString dt limit) db of
        (Inl e, db1) \<Rightarrow> (Inl e, db1)
      | (Inr (c, cvv), db1) \<Rightarrow>
          (Inr ((toCardResponse dt fmt c)\<lparr>crs_Cvv := cvv\<rparr>),
           notify_card_owner ''VIRTUAL_CARD_CREATED'' [(''usage_type'', cd_UsageType c)] c db1))"

definition SetCardPinRPC ::
  "(string \<Rightarrow> string result) \<Rightarrow> caller \<Rightarrow> nat \<Rightarrow> string \<Rightarrow> card_db \<Rightarrow> (bool \<times> string) result \<times> card_db" where
  "SetCardPinRPC hash cl i pin db =
     (case requireCardOwnerByID cl i db of
        (Some e, db1) \<Rightarrow> (Inl e, db1)
      | (None, db1) \<Rightarrow>
          (case SetPin hash i pin db1 of
             (Inl e, db2) \<Rightarrow> (Inl e, db2)
           | (Inr _, db2) \<Rightarrow> (Inr (True, ''PIN set successfully''), db2)))"

definition VerifyCardPinRPC ::
  "(string \<Rightarrow> string \<Rightarrow> bool) \<Rightarrow> caller \<Rightarrow> nat \<Rightarrow> string \<Rightarrow> card_db \<Rightarrow> (bool \<times> string) result \<times> card_db" where
  "VerifyCardPinRPC matches cl i pin db =
     (case requireCardOwnerByID cl i db of
        (Some e, db1) \<Rightarrow> (Inl e, db1)
      | (None, db1) \<Rightarrow>
          (case VerifyPin matches i pin db1 of
             (Inl e, db2) \<Rightarrow> (Inl (Status FailedPrecondition ''VerifyPin''), db2)
           | (Inr valid, db2) \<Rightarrow> (Inr (valid, if \<not> valid then ''incorrect PIN'' else ''PIN verified''), db2)))"

definition TemporaryBlockCardRPC ::
  "decimal_text \<Rightarrow> (int \<Rightarrow> string) \<Rightarrow> (int \<Rightarrow> string) \<Rightarrow> int \<Rightarrow> caller \<Rightarrow> nat \<Rightarrow> int \<Rightarrow> string \<Rightarrow> card_db \<Rightarrow>
     card_response result \<times> card_db" where
  "TemporaryBlockCardRPC dt fmt rfc3339 now cl i durationHours reason db =
     (case requireCardOwnerByID cl i db of
        (Some e, db1) \<Rightarrow> (Inl e, db1)
      | (None, db1) \<Rightarrow>
          (case TemporaryBlockCard rfc3339 now i durationHours reason db1 of
             (Inl e, db2) \<Rightarrow> (Inl (if e = ErrRecordNotFound then Status NotFound ''card not found'' else e), db2)
           | (Inr c, db2) \<Rightarrow> (Inr (toCardResponse dt fmt c), db2)))"

definition UseCardRPC :: "nat \<Rightarrow> card_db \<Rightarrow> bool result \<times> card_db" where
  "UseCardRPC i db =
     (case UseCard i db of
        (Inl _, db1) \<Rightarrow> (Inl (Status FailedPrecondition ''failed to use card''), db1)
      | (Inr _, db1) \<Rightarrow> (Inr True, db1))"

section \<open>Request RPCs\<close>

definition CreateCardRequestRPC ::
  "(int \<Rightarrow> string) \<Rightarrow> int \<Rightarrow> nat \<Rightarrow> string \<Rightarrow> string \<Rightarrow> string \<Rightarrow> string \<Rightarrow> card_db \<Rightarrow>
     card_request_response result \<times> card_db" where
  "CreateCardRequestRPC fmt now clientID accountNumber cardBrand cardType cardName db =
     (case CreateRequest now \<lparr>cq_ID = 0, cq_ClientID = clientID, cq_AccountNumber = accountNumber,
             cq_CardBrand = cardBrand, cq_CardType = cardType, cq_CardName = cardName, cq_Status = [], cq_Reason = [],
             cq_ApprovedBy = 0, cq_CreatedAt = 0\<rparr> db of
        (Inl e, db1) \<Rightarrow> (Inl e, db1)
      | (Inr q, db1) \<Rightarrow> (Inr (toCardRequestResponse fmt q), db1))"

definition GetCardRequestRPC :: "(int \<Rightarrow> string) \<Rightarrow> caller \<Rightarrow> nat \<Rightarrow> card_db \<Rightarrow> card_request_response result" where
  "GetCardRequestRPC fmt cl i db =
     (case RequestByID i db of
        None \<Rightarrow> Inl (Status NotFound ''card request not found'')
      | Some q \<Rightarrow> if \<not> ownsCard cl (cq_ClientID q) then Inl ErrCardRequestNotFound else Inr (toCardRequestResponse fmt q))"

definition page_args :: "int \<Rightarrow> int \<Rightarrow> nat \<times> nat" where
  "page_args page pageSize = (nat (if page < 1 then 1 else page), nat (if pageSize < 1 then 20 else pageSize))"

definition ListCardRequestsRPC ::
  "(int \<Rightarrow> string) \<Rightarrow> string \<Rightarrow> int \<Rightarrow> int \<Rightarrow> card_db \<Rightarrow> card_request_response list \<times> nat" where
  "ListCardRequestsRPC fmt status page pageSize db =
     (case page_args page pageSize of
        (p, n) \<Rightarrow> (case ListRequests status p n db of (qs, total_rows) \<Rightarrow> (map (toCardRequestResponse fmt) qs, total_rows)))"

definition ListCardRequestsByClientRPC ::
  "(int \<Rightarrow> string) \<Rightarrow> caller \<Rightarrow> nat \<Rightarrow> int \<Rightarrow> int \<Rightarrow> card_db \<Rightarrow> (card_request_response list \<times> nat) result" where
  "ListCardRequestsByClientRPC fmt cl clientID page pageSize db =
     (if \<not> ownsCard cl clientID then Inl ErrCardForbidden
      else case page_args page pageSize of
             (p, n) \<Rightarrow>
               (case ListRequestsByClient clientID p n db of
                  (qs, total_rows) \<Rightarrow> Inr (map (toCardRequestResponse fmt) qs, total_rows)))"

definition ApproveCardRequestRPC ::
  "decimal_text \<Rightarrow> (int \<Rightarrow> string) \<Rightarrow> card_env \<Rightarrow> nat \<Rightarrow> nat \<Rightarrow> card_db \<Rightarrow>
     (card_request_response \<times> card_response) result \<times> card_db" where
  "ApproveCardRequestRPC dt fmt env i employeeID db =
     (case ApproveRequest env i employeeID db of
        (Inl e, db1) \<Rightarrow> (Inl e, db1)
      | (Inr c, db1) \<Rightarrow>
          (case RequestByID i db1 of
             None \<Rightarrow> (Inl (Status Internal ''failed to fetch updated card request''), db1)
           | Some q \<Rightarrow> (Inr (toCardRequestResponse fmt q, toCardResponse dt fmt c), db1)))"

definition RejectCardRequestRPC ::
  "(int \<Rightarrow> string) \<Rightarrow> nat \<Rightarrow> nat \<Rightarrow> string \<Rightarrow> card_db \<Rightarrow> card_request_response result \<times> card_db" where
  "RejectCardRequestRPC fmt i employeeID reason db =
     (case RejectRequest i employeeID reason db of
        (Inl e, db1) \<Rightarrow> (Inl e, db1)
      | (Inr _, db1) \<Rightarrow>
          (case RequestByID i db1 of
             None \<Rightarrow> (Inl (Status Internal ''failed to fetch updated card request''), db1)
           | Some q \<Rightarrow> (Inr (toCardRequestResponse fmt q), db1)))"

section \<open>Access\<close>

text \<open>The owner of a card read through the cache is the owner in the table.\<close>

lemma GetCard_owner:
  assumes "cards_ok db" "CardByID i db = Some c"
  obtains d db1 where "GetCard i db = (Inr d, db1)" "cd_OwnerID d = cd_OwnerID c"
proof (cases "Option.bind (card_cache db) (\<lambda>m. m i)")
  case None
  with assms(2) show thesis by (intro that [of c]) (simp_all add: GetCard_def)
next
  case (Some d)
  then obtain m where "card_cache db = Some m" "m i = Some d" by (cases "card_cache db") auto
  with assms(1) obtain r where r: "r \<in> set (cards db)" "cd_ID r = i" "card_identity d = card_identity r"
    unfolding cards_ok_def cache_ok_def by blast
  moreover have "r = c"
    using r assms CardByID_in [OF assms(2)] distinct_key_eq [of cd_ID "cards db" r c]
    by (simp add: cards_ok_def card_keys_ok_def)
  ultimately show thesis using Some by (intro that [of d]) (simp_all add: GetCard_def card_identity_eq)
qed

lemma GetCard_tables:
  "cards (snd (GetCard i db)) = cards db" "card_blocks (snd (GetCard i db)) = card_blocks db"
  "card_messages (snd (GetCard i db)) = card_messages db" "card_changes (snd (GetCard i db)) = card_changes db"
  by (simp_all add: GetCard_def split: option.split)

lemma owner_gate:
  assumes "cards_ok db" "CardByID i db = Some c"
  shows "requireCardOwnerByID cl i db =
     (if ownsCard cl (cd_OwnerID c) then None else Some ErrCardNotFound, snd (GetCard i db))"
proof -
  obtain d db1 where "GetCard i db = (Inr d, db1)" "cd_OwnerID d = cd_OwnerID c"
    by (rule GetCard_owner [OF assms])
  then show ?thesis by (simp add: requireCardOwnerByID_def)
qed



end
