(* ===== verification/Loan_Rates.thy ===== *)
theory Loan_Rates
  imports Prelude "HOL-Library.List_Lexorder" "HOL-Library.Char_ord"
begin

text \<open>
  Interest rates of the credit service: \<^verbatim>\<open>service/interest_rate.go\<close>, \<^verbatim>\<open>service/rate_config_service.go\<close>,
  \<^verbatim>\<open>service/errors.go\<close> and the repositories of tiers and margins under \<^verbatim>\<open>src/credit-service/internal/\<close>.
  The propagation of a changed rate to loans is in the theory \<open>Loan\<close>.

  The decimal library divides and raises to negative powers with a bounded number of digits. Its
  \<^verbatim>\<open>Div\<close> and \<^verbatim>\<open>Pow\<close> are the arguments \<open>dv\<close> and \<open>pw\<close> of the definitions that use them. Row timestamps are
  left out.
\<close>

section \<open>Errors\<close>

definition ErrLoanNotFound :: go_error where
  "ErrLoanNotFound = Status NotFound ''loan not found''"

definition ErrLoanRequestNotFound :: go_error where
  "ErrLoanRequestNotFound = Status NotFound ''loan request not found''"

definition ErrLoanForbidden :: go_error where
  "ErrLoanForbidden = Status PermissionDenied ''forbidden''"

definition ErrLoanRequestNotPending :: go_error where
  "ErrLoanRequestNotPending = Status FailedPrecondition ''loan request is not pending''"

definition ErrAmountExceedsApprovalLimit :: go_error where
  "ErrAmountExceedsApprovalLimit = Status FailedPrecondition ''amount exceeds employee approval limit''"

definition ErrInvalidLoanType :: go_error where
  "ErrInvalidLoanType = Status InvalidArgument ''invalid loan type''"

definition ErrInvalidInterestType :: go_error where
  "ErrInvalidInterestType = Status InvalidArgument ''invalid interest type''"

definition ErrInvalidLoanAmount :: go_error where
  "ErrInvalidLoanAmount = Status InvalidArgument ''loan amount must be positive''"

definition ErrInvalidRepaymentPeriod :: go_error where
  "ErrInvalidRepaymentPeriod = Status InvalidArgument ''invalid repayment period for loan type''"

definition ErrLoanCurrencyMismatch :: go_error where
  "ErrLoanCurrencyMismatch = Status InvalidArgument ''loan currency does not match account currency''"

definition ErrAccountVerificationFailed :: go_error where
  "ErrAccountVerificationFailed = Status Unavailable ''account verification failed''"

definition ErrLoanPersistFailed :: go_error where
  "ErrLoanPersistFailed = Status Internal ''failed to persist loan''"

definition ErrInterestRateTierNotFound :: go_error where
  "ErrInterestRateTierNotFound = Status NotFound ''interest rate tier not found''"

definition ErrBankMarginNotFound :: go_error where
  "ErrBankMarginNotFound = Status NotFound ''bank margin not found''"

definition ErrInvalidRateConfig :: go_error where
  "ErrInvalidRateConfig = Status InvalidArgument ''invalid rate config''"

section \<open>Formulas\<close>

definition monthly_rate :: "(decimal \<Rightarrow> decimal \<Rightarrow> decimal) \<Rightarrow> decimal \<Rightarrow> decimal" where
  "monthly_rate dv rate = dv (dv rate 100) 12"

definition CalculateEffectiveInterestRate ::
  "(decimal \<Rightarrow> decimal \<Rightarrow> decimal) \<Rightarrow> (decimal \<Rightarrow> int \<Rightarrow> decimal) \<Rightarrow> decimal \<Rightarrow> int \<Rightarrow> decimal" where
  "CalculateEffectiveInterestRate dv pw nominalRate periodsPerYear =
     (pw (1 + monthly_rate dv nominalRate) periodsPerYear - 1) * 100"

definition CalculateMonthlyInstallment ::
  "(decimal \<Rightarrow> decimal \<Rightarrow> decimal) \<Rightarrow> (decimal \<Rightarrow> int \<Rightarrow> decimal) \<Rightarrow> decimal \<Rightarrow> decimal \<Rightarrow> int \<Rightarrow> decimal" where
  "CalculateMonthlyInstallment dv pw amount annualRatePercent months =
     (if months \<le> 0 then 0
      else
        let r = monthly_rate dv annualRatePercent
        in if r = 0 then dv amount (of_int months)
           else let numerator = amount * r;
                    denominator = 1 - pw (1 + r) (- months)
                in dv numerator denominator)"

section \<open>Tiers and margins\<close>

record interest_rate_tier =
  it_ID :: nat
  it_AmountFrom :: decimal
  it_AmountTo :: decimal
  it_FixedRate :: decimal
  it_VariableBase :: decimal
  it_Active :: bool

record bank_margin =
  mg_ID :: nat
  mg_LoanType :: string
  mg_Margin :: decimal
  mg_Active :: bool

record rate_db =
  rate_tiers :: "interest_rate_tier list"
  seq_rate_tiers :: nat
  bank_margins :: "bank_margin list"
  seq_bank_margins :: nat

definition tier_covers :: "decimal \<Rightarrow> interest_rate_tier \<Rightarrow> bool" where
  "tier_covers amount t \<longleftrightarrow>
     it_Active t \<and> it_AmountFrom t \<le> amount \<and> (it_AmountTo t = 0 \<or> it_AmountTo t > amount)"

definition FindByAmount :: "decimal \<Rightarrow> rate_db \<Rightarrow> interest_rate_tier option" where
  "FindByAmount amount db = find (tier_covers amount) (rate_tiers db)"

definition FindByLoanType :: "string \<Rightarrow> rate_db \<Rightarrow> bank_margin option" where
  "FindByLoanType loanType db = find (\<lambda>m. mg_Active m \<and> mg_LoanType m = loanType) (bank_margins db)"

definition TierByID :: "nat \<Rightarrow> rate_db \<Rightarrow> interest_rate_tier option" where
  "TierByID i db = find (\<lambda>t. it_ID t = i) (rate_tiers db)"

definition MarginByID :: "nat \<Rightarrow> rate_db \<Rightarrow> bank_margin option" where
  "MarginByID i db = find (\<lambda>m. mg_ID m = i) (bank_margins db)"

definition CreateTierRow :: "interest_rate_tier \<Rightarrow> rate_db \<Rightarrow> interest_rate_tier \<times> rate_db" where
  "CreateTierRow t db =
     (let row = t\<lparr>it_ID := seq_rate_tiers db\<rparr>
      in (row, db\<lparr>rate_tiers := rate_tiers db @ [row], seq_rate_tiers := Suc (seq_rate_tiers db)\<rparr>))"

definition UpdateTierRow :: "interest_rate_tier \<Rightarrow> rate_db \<Rightarrow> rate_db" where
  "UpdateTierRow t db = db\<lparr>rate_tiers := put_row it_ID t (rate_tiers db)\<rparr>"

definition DeleteTierRow :: "nat \<Rightarrow> rate_db \<Rightarrow> rate_db" where
  "DeleteTierRow i db = db\<lparr>rate_tiers := filter (\<lambda>t. it_ID t \<noteq> i) (rate_tiers db)\<rparr>"

text \<open>The unique index on the loan type refuses a second margin for the same type.\<close>

definition CreateMarginRow :: "bank_margin \<Rightarrow> rate_db \<Rightarrow> unit result \<times> rate_db" where
  "CreateMarginRow m db =
     (if mg_LoanType m \<in> mg_LoanType ` set (bank_margins db) then (Inl ErrDuplicateKey, db)
      else (Inr (), db\<lparr>bank_margins := bank_margins db @ [m\<lparr>mg_ID := seq_bank_margins db\<rparr>],
                       seq_bank_margins := Suc (seq_bank_margins db)\<rparr>))"

definition UpdateMarginRow :: "bank_margin \<Rightarrow> rate_db \<Rightarrow> rate_db" where
  "UpdateMarginRow m db = db\<lparr>bank_margins := put_row mg_ID m (bank_margins db)\<rparr>"

definition ListTiers :: "rate_db \<Rightarrow> interest_rate_tier list" where
  "ListTiers db = sort_key it_AmountFrom (filter it_Active (rate_tiers db))"

definition ListMargins :: "rate_db \<Rightarrow> bank_margin list" where
  "ListMargins db = sort_key mg_LoanType (filter mg_Active (bank_margins db))"

section \<open>The configuration service\<close>

definition mk_tier :: "decimal \<Rightarrow> decimal \<Rightarrow> decimal \<Rightarrow> interest_rate_tier" where
  "mk_tier from to rate =
     \<lparr>it_ID = 0, it_AmountFrom = from, it_AmountTo = to, it_FixedRate = rate, it_VariableBase = rate, it_Active = True\<rparr>"

definition defaultTiers :: "interest_rate_tier list" where
  "defaultTiers =
     [mk_tier 0 500000 (625 / 100), mk_tier 500000 1000000 (600 / 100), mk_tier 1000000 2000000 (575 / 100),
      mk_tier 2000000 5000000 (550 / 100), mk_tier 5000000 10000000 (525 / 100),
      mk_tier 10000000 20000000 (500 / 100), mk_tier 20000000 0 (475 / 100)]"

definition mk_margin :: "string \<Rightarrow> decimal \<Rightarrow> bank_margin" where
  "mk_margin loanType x = \<lparr>mg_ID = 0, mg_LoanType = loanType, mg_Margin = x, mg_Active = True\<rparr>"

definition defaultMargins :: "bank_margin list" where
  "defaultMargins =
     [mk_margin ''cash'' (175 / 100), mk_margin ''housing'' (150 / 100), mk_margin ''auto'' (125 / 100),
      mk_margin ''refinancing'' (100 / 100), mk_margin ''student'' (75 / 100)]"

fun seed_margins :: "bank_margin list \<Rightarrow> rate_db \<Rightarrow> unit result \<times> rate_db" where
  "seed_margins [] db = (Inr (), db)"
| "seed_margins (m # ms) db =
     (case CreateMarginRow m db of
        (Inl e, db') \<Rightarrow> (Inl e, db')
      | (Inr _, db') \<Rightarrow> seed_margins ms db')"

definition SeedDefaults :: "rate_db \<Rightarrow> unit result \<times> rate_db" where
  "SeedDefaults db =
     (let db1 = (if rate_tiers db = [] then fold (\<lambda>t d. snd (CreateTierRow t d)) defaultTiers db else db)
      in if bank_margins db1 = [] then seed_margins defaultMargins db1 else (Inr (), db1))"

definition base_rate :: "string \<Rightarrow> interest_rate_tier \<Rightarrow> decimal" where
  "base_rate interestType t = (if interestType = ''fixed'' then it_FixedRate t else it_VariableBase t)"

definition GetNominalRate :: "string \<Rightarrow> string \<Rightarrow> decimal \<Rightarrow> rate_db \<Rightarrow> decimal result" where
  "GetNominalRate loanType interestType amountRSD db =
     (case FindByAmount amountRSD db of
        None \<Rightarrow> Inl ErrInterestRateTierNotFound
      | Some tier \<Rightarrow>
          (case FindByLoanType loanType db of
             None \<Rightarrow> Inl ErrBankMarginNotFound
           | Some margin \<Rightarrow> Inr (base_rate interestType tier + mg_Margin margin)))"

definition GetNominalRateComponents ::
  "string \<Rightarrow> string \<Rightarrow> decimal \<Rightarrow> rate_db \<Rightarrow> (decimal \<times> decimal \<times> decimal) result" where
  "GetNominalRateComponents loanType interestType amountRSD db =
     (case FindByAmount amountRSD db of
        None \<Rightarrow> Inl ErrInterestRateTierNotFound
      | Some tier \<Rightarrow>
          (case FindByLoanType loanType db of
             None \<Rightarrow> Inl ErrBankMarginNotFound
           | Some margin \<Rightarrow>
               Inr (base_rate interestType tier, mg_Margin margin, base_rate interestType tier + mg_Margin margin)))"

definition tier_refused :: "interest_rate_tier \<Rightarrow> bool" where
  "tier_refused t \<longleftrightarrow>
     it_FixedRate t < 0 \<or> it_VariableBase t < 0 \<or> it_AmountFrom t < 0 \<or> it_AmountTo t < 0 \<or>
     it_AmountTo t \<noteq> 0 \<and> it_AmountTo t \<le> it_AmountFrom t"

definition CreateTier :: "interest_rate_tier \<Rightarrow> rate_db \<Rightarrow> interest_rate_tier result \<times> rate_db" where
  "CreateTier t db =
     (if tier_refused t then (Inl ErrInvalidRateConfig, db)
      else case CreateTierRow (t\<lparr>it_Active := True\<rparr>) db of (row, db') \<Rightarrow> (Inr row, db'))"

definition UpdateTier :: "interest_rate_tier \<Rightarrow> rate_db \<Rightarrow> interest_rate_tier result \<times> rate_db" where
  "UpdateTier t db =
     (case TierByID (it_ID t) db of
        None \<Rightarrow> (Inl ErrInterestRateTierNotFound, db)
      | Some existing \<Rightarrow>
          if tier_refused t then (Inl ErrInvalidRateConfig, db)
          else
            let row = existing\<lparr>it_AmountFrom := it_AmountFrom t, it_AmountTo := it_AmountTo t,
                        it_FixedRate := it_FixedRate t, it_VariableBase := it_VariableBase t\<rparr>
            in (Inr row, UpdateTierRow row db))"

definition DeleteTier :: "nat \<Rightarrow> rate_db \<Rightarrow> unit result \<times> rate_db" where
  "DeleteTier i db =
     (case TierByID i db of
        None \<Rightarrow> (Inl ErrInterestRateTierNotFound, db)
      | Some _ \<Rightarrow> (Inr (), DeleteTierRow i db))"

definition UpdateMargin :: "bank_margin \<Rightarrow> rate_db \<Rightarrow> bank_margin result \<times> rate_db" where
  "UpdateMargin m db =
     (case MarginByID (mg_ID m) db of
        None \<Rightarrow> (Inl ErrBankMarginNotFound, db)
      | Some existing \<Rightarrow>
          if mg_Margin m < 0 then (Inl ErrInvalidRateConfig, db)
          else let row = existing\<lparr>mg_Margin := mg_Margin m\<rparr> in (Inr row, UpdateMarginRow row db))"


section \<open>The default configuration\<close>

lemma seeded_tiers:
  assumes "rate_tiers db = []"
  shows "rate_tiers (snd (SeedDefaults db)) = map (\<lambda>(t, i). t\<lparr>it_ID := seq_rate_tiers db + i\<rparr>) (zip defaultTiers [0, 1, 2, 3, 4, 5, 6])"
  using assms
  by (auto simp: SeedDefaults_def defaultTiers_def defaultMargins_def CreateTierRow_def CreateMarginRow_def Let_def mk_margin_def)

lemma seeded_margins:
  assumes "bank_margins db = []"
  shows "bank_margins (snd (SeedDefaults db)) =
      map (\<lambda>(m, i). m\<lparr>mg_ID := seq_bank_margins db + i\<rparr>) (zip defaultMargins [0, 1, 2, 3, 4]) \<and> fst (SeedDefaults db) = Inr ()"
  using assms
  by (auto simp: SeedDefaults_def defaultTiers_def defaultMargins_def CreateTierRow_def CreateMarginRow_def Let_def mk_margin_def)

text \<open>The base rate that the default tiers give for an amount.\<close>

definition default_base :: "decimal \<Rightarrow> decimal" where
  "default_base a =
     (if a < 500000 then 625 / 100 else if a < 1000000 then 6 else if a < 2000000 then 575 / 100
      else if a < 5000000 then 550 / 100 else if a < 10000000 then 525 / 100 else if a < 20000000 then 5 else 475 / 100)"

lemma default_base_antimono: "a \<le> b \<Longrightarrow> default_base b \<le> default_base a"
  by (auto simp: default_base_def)

lemma default_base_range: "475 / 100 \<le> default_base a" "default_base a \<le> 625 / 100"
  by (auto simp: default_base_def)

lemma default_tier:
  assumes "rate_tiers db = []" "0 \<le> a"
  shows "\<exists>t. filter (tier_covers a) (rate_tiers (snd (SeedDefaults db))) = [t] \<and> base_rate ty t = default_base a"
proof -
  consider "a < 500000" | "500000 \<le> a" "a < 1000000" | "1000000 \<le> a" "a < 2000000" | "2000000 \<le> a" "a < 5000000"
    | "5000000 \<le> a" "a < 10000000" | "10000000 \<le> a" "a < 20000000" | "20000000 \<le> a" by linarith
  then show ?thesis using assms(2)
    by cases (simp_all add: seeded_tiers [OF assms(1)] defaultTiers_def mk_tier_def tier_covers_def base_rate_def default_base_def)
qed

lemma find_filter: "find p xs = (case filter p xs of [] \<Rightarrow> None | x # _ \<Rightarrow> Some x)"
  by (induction xs) auto

lemma default_margin:
  assumes "bank_margins db = []" "lt \<in> set [''cash'', ''housing'', ''auto'', ''refinancing'', ''student'']"
  shows "\<exists>m. FindByLoanType lt (snd (SeedDefaults db)) = Some m \<and> 75 / 100 \<le> mg_Margin m \<and> mg_Margin m \<le> 175 / 100"
  using assms(2) by (auto simp: FindByLoanType_def seeded_margins [OF assms(1)] defaultMargins_def mk_margin_def)

text \<open>
  The rates after the first start. \<^verbatim>\<open>SeedDefaults\<close> on empty tables succeeds, and a second start changes
  nothing. Every amount from zero up then falls into exactly one tier, and for every loan type the service accepts
  \<^verbatim>\<open>GetNominalRate\<close> answers a rate between 5.5 and 8 per cent that does not go up with the amount.
\<close>

theorem default_rates:
  assumes empty: "rate_tiers db = []" "bank_margins db = []"
    and lt: "lt \<in> set [''cash'', ''housing'', ''auto'', ''refinancing'', ''student'']"
    and ab: "0 \<le> a" "a \<le> b" and db': "db' = snd (SeedDefaults db)"
  shows "fst (SeedDefaults db) = Inr () \<and> SeedDefaults db' = (Inr (), db') \<and>
    length (filter (tier_covers a) (rate_tiers db')) = 1 \<and>
    (\<exists>x y. GetNominalRate lt ty a db' = Inr x \<and> GetNominalRate lt ty b db' = Inr y \<and>
       55 / 10 \<le> y \<and> y \<le> x \<and> x \<le> 8)"
proof -
  obtain t where t: "filter (tier_covers a) (rate_tiers db') = [t]" "base_rate ty t = default_base a"
    using default_tier [OF empty(1) ab(1)] db' by blast
  obtain u where u: "filter (tier_covers b) (rate_tiers db') = [u]" "base_rate ty u = default_base b"
    using default_tier [OF empty(1), of b] ab db' by fastforce
  obtain m where m: "FindByLoanType lt db' = Some m" "75 / 100 \<le> mg_Margin m" "mg_Margin m \<le> 175 / 100"
    using default_margin [OF empty(2) lt] db' by blast
  have "GetNominalRate lt ty a db' = Inr (default_base a + mg_Margin m)"
    "GetNominalRate lt ty b db' = Inr (default_base b + mg_Margin m)"
    by (simp_all add: GetNominalRate_def FindByAmount_def find_filter t u m)
  moreover have "SeedDefaults db' = (Inr (), db')"
    using seeded_tiers [OF empty(1)] seeded_margins [OF empty(2)] db'
    by (auto simp: SeedDefaults_def Let_def defaultTiers_def defaultMargins_def)
  ultimately show ?thesis
    using seeded_margins [OF empty(2)] t(1) m(2,3) default_base_antimono [OF ab(2)]
      default_base_range(2) [of a] default_base_range(1) [of b] by auto
qed

definition empty_rates :: rate_db where
  "empty_rates = \<lparr>rate_tiers = [], seq_rate_tiers = 1, bank_margins = [], seq_bank_margins = 1\<rparr>"

theorem default_rates_witness:
  "length (filter (tier_covers 750000) (rate_tiers (snd (SeedDefaults empty_rates)))) = 1"
  using default_rates [of empty_rates "''cash''" 750000 750000 "snd (SeedDefaults empty_rates)"]
  by (simp add: empty_rates_def)

section \<open>Amortisation\<close>

text \<open>The debt that is left after the payments \<open>xs\<close>, one a month, on a debt that bears the monthly rate \<open>r\<close>.\<close>

fun debt_after :: "decimal \<Rightarrow> decimal list \<Rightarrow> decimal \<Rightarrow> decimal" where
  "debt_after r [] d = d"
| "debt_after r (x # xs) d = debt_after r xs (d * (1 + r) - x)"

lemma debt_after_replicate:
  "r \<noteq> 0 \<Longrightarrow> debt_after r (replicate n x) d = d * (1 + r) ^ n - x * (((1 + r) ^ n - 1) / r)"
proof (induction n arbitrary: d)
  case (Suc n)
  from Suc.prems have "(d * (1 + r) - x) * q - x * ((q - 1) / r) = d * ((1 + r) * q) - x * (((1 + r) * q - 1) / r)" for q
    by (simp add: field_simps)
  then show ?case by (simp add: Suc.IH [OF Suc.prems])
qed simp

lemma debt_after_zero_rate: "debt_after 0 (replicate n x) d = d - of_nat n * x"
  by (induction n arbitrary: d) (simp_all add: algebra_simps)

text \<open>
  The rounding of the decimal library as the formulas meet it: quotients are within \<open>eps\<close> of the exact ones, powers
  with a negative exponent within \<open>delta\<close>.
\<close>

definition rounds_within ::
  "(decimal \<Rightarrow> decimal \<Rightarrow> decimal) \<Rightarrow> (decimal \<Rightarrow> int \<Rightarrow> decimal) \<Rightarrow> decimal \<Rightarrow> decimal \<Rightarrow> bool" where
  "rounds_within dv pw eps delta \<longleftrightarrow>
     (\<forall>a b. b \<noteq> 0 \<longrightarrow> \<bar>dv a b - a / b\<bar> \<le> eps) \<and> (\<forall>x n. x > 0 \<longrightarrow> \<bar>pw x (- int n) - 1 / x ^ n\<bar> \<le> delta)"

lemma annuity_error:
  fixes P r x eps delta d d' :: rat
  assumes r: "0 < r" and d: "d = 1 - 1 / (1 + r) ^ n" and d': "0 < d'" "\<bar>d' - d\<bar> \<le> delta"
    and x: "\<bar>x - P * r / d'\<bar> \<le> eps" and P: "0 \<le> P"
  shows "\<bar>P * (1 + r) ^ n - x * (((1 + r) ^ n - 1) / r)\<bar> \<le> (1 + r) ^ n * (P * delta / d' + eps * d / r)"
proof -
  define q where "q = (1 + r) ^ n"
  have q: "1 \<le> q" "q > 0" using r by (simp_all add: q_def one_le_power)
  have dq: "q - 1 = q * d" and d0: "0 \<le> d" using q by (simp_all add: d q_def [symmetric] field_simps)
  define e where "e = x - P * r / d'"
  have e: "x = P * r / d' + e" by (simp add: e_def)
  have "P * q - x * ((q - 1) / r) = q * (P * (d' - d) / d' - e * d / r)"
    using r d'(1) by (simp add: dq e field_simps)
  then have "\<bar>P * q - x * ((q - 1) / r)\<bar> = q * \<bar>P * (d' - d) / d' - e * d / r\<bar>"
    using q by (simp add: abs_mult)
  also have "\<dots> \<le> q * (P * delta / d' + eps * d / r)"
  proof (rule mult_left_mono)
    have a: "\<bar>P * (d' - d) / d'\<bar> \<le> P * delta / d'"
      using P d' by (simp add: abs_mult divide_right_mono mult_left_mono)
    have b: "\<bar>e * d / r\<bar> \<le> eps * d / r"
      using r d0 x by (simp add: abs_mult e_def divide_right_mono mult_right_mono)
    from a b show "\<bar>P * (d' - d) / d' - e * d / r\<bar> \<le> P * delta / d' + eps * d / r" by linarith
  qed (use q in simp)
  finally show ?thesis by (simp add: q_def)
qed

definition amortisation_error :: "decimal \<Rightarrow> decimal \<Rightarrow> decimal \<Rightarrow> decimal \<Rightarrow> nat \<Rightarrow> decimal" where
  "amortisation_error eps delta P r n =
     (if r = 0 then of_nat n * eps
      else let d = 1 - 1 / (1 + r) ^ n in (1 + r) ^ n * (P * delta / (d - delta) + eps * d / r))"

lemma installment_amortises:
  assumes rounds: "rounds_within dv pw eps delta" and n: "0 < n" and P: "0 \<le> P"
    and r: "r = monthly_rate dv rate" "0 \<le> r" "0 < r \<Longrightarrow> delta < 1 - 1 / (1 + r) ^ n"
  shows "\<bar>debt_after r (replicate n (CalculateMonthlyInstallment dv pw P rate (int n))) P\<bar> \<le> amortisation_error eps delta P r n"
proof (cases "r = 0")
  case True
  define x where "x = dv P (of_nat n)"
  have "\<bar>x - P / of_nat n\<bar> \<le> eps" using rounds n by (simp add: rounds_within_def x_def)
  then have "of_nat n * \<bar>x - P / of_nat n\<bar> \<le> of_nat n * eps" by (intro mult_left_mono) simp_all
  moreover have eq: "of_nat n * x - P = of_nat n * (x - P / of_nat n)" using n by (simp add: right_diff_distrib)
  ultimately have "\<bar>P - of_nat n * x\<bar> \<le> of_nat n * eps" by (simp only: abs_minus_commute [of P] eq abs_mult abs_of_nat)
  then show ?thesis
    using True n r(1) by (simp add: CalculateMonthlyInstallment_def amortisation_error_def debt_after_zero_rate x_def)
next
  case False
  with r have pos: "0 < r" by simp
  define d d' where "d = 1 - 1 / (1 + r) ^ n" and "d' = 1 - pw (1 + r) (- int n)"
  have e: "\<bar>d' - d\<bar> \<le> delta" using rounds pos by (simp add: rounds_within_def d_def d'_def abs_minus_commute)
  have dd: "d - delta > 0" using r(3) [OF pos] by (simp add: d_def)
  with e have d': "0 < d'" "d - delta \<le> d'" by linarith+
  define x where "x = dv (P * r) d'"
  have x: "\<bar>x - P * r / d'\<bar> \<le> eps" using rounds d' by (simp add: rounds_within_def x_def)
  have del: "0 \<le> delta" using e by linarith
  have "\<bar>P * (1 + r) ^ n - x * (((1 + r) ^ n - 1) / r)\<bar> \<le> (1 + r) ^ n * (P * delta / d' + eps * d / r)"
    by (rule annuity_error [OF pos d_def d'(1) e x P])
  also have "\<dots> \<le> (1 + r) ^ n * (P * delta / (d - delta) + eps * d / r)"
    using pos P del dd d' by (intro mult_left_mono add_right_mono divide_left_mono) simp_all
  finally show ?thesis
    using False n by (simp add: CalculateMonthlyInstallment_def r(1) [symmetric] Let_def debt_after_replicate
      amortisation_error_def x_def d_def d'_def)
qed

section \<open>Rounding as the library does it\<close>

text \<open>Sixteen digits after the point, as \<^verbatim>\<open>DivisionPrecision\<close> and \<^verbatim>\<open>PowPrecisionNegativeExponent\<close> are set.\<close>

definition round16 :: "decimal \<Rightarrow> decimal" where
  "round16 x = of_int (round (x * 10 ^ 16)) / 10 ^ 16"

definition div16 :: "decimal \<Rightarrow> decimal \<Rightarrow> decimal" where
  "div16 a b = round16 (a / b)"

definition pow16 :: "decimal \<Rightarrow> int \<Rightarrow> decimal" where
  "pow16 x n = (if n \<ge> 0 then x ^ nat n else round16 (1 / x ^ nat (- n)))"

lemma round16_error: "\<bar>round16 x - x\<bar> \<le> 5 / 10 ^ 17"
proof -
  have "\<bar>of_int (round (x * 10 ^ 16)) - x * 10 ^ 16\<bar> \<le> 1 / 2" by (rule of_int_round_abs_le)
  then show ?thesis by (simp add: round16_def abs_le_iff field_simps)
qed

lemma rounds16: "rounds_within div16 pow16 (5 / 10 ^ 17) (5 / 10 ^ 17)"
proof -
  have "\<bar>pow16 x (- int n) - 1 / x ^ n\<bar> \<le> 5 / 10 ^ 17" if "x > 0" for x n
    using round16_error [of "1 / x ^ n"] by (cases "n = 0") (simp_all add: pow16_def)
  then show ?thesis using round16_error by (simp add: rounds_within_def div16_def)
qed

end
