(* ===== verification/Loan.thy ===== *)
theory Loan
  imports Loan_Rates Card Tx_Saga
begin

text \<open>
  Loans, loan requests and instalments of the credit service: \<^verbatim>\<open>model/\<close>, \<^verbatim>\<open>repository/\<close>,
  \<^verbatim>\<open>service/loan_request_service.go\<close> up to the disbursement, \<^verbatim>\<open>service/installment_service.go\<close>,
  \<^verbatim>\<open>service/loan_service.go\<close> and the rate propagation of \<^verbatim>\<open>service/rate_config_service.go\<close> under
  \<^verbatim>\<open>src/credit-service/internal/\<close>.

  The state is the tables and the published messages. The optional collaborators of the services are the ones
  \<^verbatim>\<open>main.go\<close> sets. Clock readings in seconds, random digits and the library's division and power are in
  \<open>credit_env\<close>; one operation reads the clock once. Instants are in UTC. Answers of the user service are arguments.
  An error text that interpolates values is represented by its sentinel. The client replica and the change-log row
  have the same columns as in the card service and share its types.
\<close>

section \<open>Data\<close>

record loan_request =
  lq_ID :: nat
  lq_ClientID :: nat
  lq_LoanType :: string
  lq_InterestType :: string
  lq_Amount :: decimal
  lq_CurrencyCode :: string
  lq_Purpose :: string
  lq_MonthlySalary :: decimal
  lq_EmploymentStatus :: string
  lq_EmploymentPeriod :: int
  lq_RepaymentPeriod :: int
  lq_Phone :: string
  lq_AccountNumber :: string
  lq_Status :: string
  lq_Version :: int
  lq_CreatedAt :: int

record loan =
  ln_ID :: nat
  ln_LoanNumber :: string
  ln_LoanType :: string
  ln_AccountNumber :: string
  ln_Amount :: decimal
  ln_RepaymentPeriod :: int
  ln_NominalInterestRate :: decimal
  ln_EffectiveInterestRate :: decimal
  ln_ContractDate :: int
  ln_MaturityDate :: int
  ln_NextInstallmentAmount :: decimal
  ln_NextInstallmentDate :: int
  ln_RemainingDebt :: decimal
  ln_CurrencyCode :: string
  ln_Status :: string
  ln_InterestType :: string
  ln_BaseRate :: decimal
  ln_BankMargin :: decimal
  ln_CurrentRate :: decimal
  ln_ClientID :: nat
  ln_Version :: int
  ln_CreatedAt :: int

record installment =
  im_ID :: nat
  im_LoanID :: nat
  im_Amount :: decimal
  im_InterestRate :: decimal
  im_CurrencyCode :: string
  im_ExpectedDate :: int
  im_ActualDate :: "int option"
  im_Status :: string
  im_Version :: int

record employee_limit_replica =
  el_EmployeeID :: nat
  el_MaxLoanApprovalAmount :: decimal
  el_MaxSingleTransaction :: decimal
  el_MaxDailyTransaction :: decimal
  el_MaxClientDailyLimit :: decimal
  el_MaxClientMonthlyLimit :: decimal
  el_Version :: int

datatype credit_message =
    LoanRequested nat string string string
  | LoanApproved nat string string string
  | LoanRejected nat string string string
  | LoanDisbursed nat string nat string string string
  | InstallmentFailed nat string go_error string
  | InstallmentCollected nat string
  | InstallmentFailedEmail string "(string \<times> string) list"
  | CreditNotification nat string "(string \<times> string) list" string nat

record credit_db =
  loan_rates :: rate_db
  loan_requests :: "loan_request list"
  seq_loan_requests :: nat
  loans :: "loan list"
  seq_loans :: nat
  installments :: "installment list"
  seq_installments :: nat
  limit_replicas :: "employee_limit_replica list"
  credit_clients :: "client_replica list"
  credit_changes :: "status_change_row list"
  credit_messages :: "credit_message list"

record credit_env =
  cv_now :: int
  cv_digits :: "nat list"
  cv_div :: "decimal \<Rightarrow> decimal \<Rightarrow> decimal"
  cv_pow :: "decimal \<Rightarrow> int \<Rightarrow> decimal"

abbreviation installment_amount :: "credit_env \<Rightarrow> decimal \<Rightarrow> decimal \<Rightarrow> int \<Rightarrow> decimal" where
  "installment_amount env \<equiv> CalculateMonthlyInstallment (cv_div env) (cv_pow env)"

definition publish_credit :: "credit_message \<Rightarrow> credit_db \<Rightarrow> credit_db" where
  "publish_credit m db = db\<lparr>credit_messages := credit_messages db @ [m]\<rparr>"

definition log_credit_change :: "status_change_row \<Rightarrow> credit_db \<Rightarrow> credit_db" where
  "log_credit_change row db = db\<lparr>credit_changes := credit_changes db @ [row]\<rparr>"

section \<open>Repositories\<close>

definition LoanRequestByID :: "nat \<Rightarrow> credit_db \<Rightarrow> loan_request option" where
  "LoanRequestByID i db = find (\<lambda>q. lq_ID q = i) (loan_requests db)"

text \<open>An insert: zero values of columns with a default take the default.\<close>

definition CreateLoanRequestRow :: "int \<Rightarrow> loan_request \<Rightarrow> credit_db \<Rightarrow> loan_request \<times> credit_db" where
  "CreateLoanRequestRow now q db =
     (let row = q\<lparr>lq_ID := seq_loan_requests db, lq_CreatedAt := now,
                  lq_Status := (if lq_Status q = [] then ''pending'' else lq_Status q),
                  lq_Version := (if lq_Version q = 0 then 1 else lq_Version q)\<rparr>
      in (row, db\<lparr>loan_requests := loan_requests db @ [row], seq_loan_requests := Suc (seq_loan_requests db)\<rparr>))"

text \<open>
  \<^verbatim>\<open>Save\<close> with the \<^verbatim>\<open>BeforeUpdate\<close> hook: the row is written where its stored version is the one that was read. The
  hook counts up the version of the record in memory either way.
\<close>

definition SaveLoanRequest :: "loan_request \<Rightarrow> credit_db \<Rightarrow> unit result \<times> loan_request \<times> credit_db" where
  "SaveLoanRequest q db =
     (let q' = q\<lparr>lq_Version := lq_Version q + 1\<rparr>
      in if \<exists>r \<in> set (loan_requests db). lq_ID r = lq_ID q \<and> lq_Version r = lq_Version q
         then (Inr (), q', db\<lparr>loan_requests := put_row lq_ID q' (loan_requests db)\<rparr>)
         else (Inl ErrLoanPersistFailed, q', db))"

definition LoanByID :: "nat \<Rightarrow> credit_db \<Rightarrow> loan option" where
  "LoanByID i db = find (\<lambda>l. ln_ID l = i) (loans db)"

definition GenerateLoanNumber :: "nat list \<Rightarrow> string" where
  "GenerateLoanNumber digits = ''LN'' @ map digit_char digits"

definition CreateLoanRow :: "int \<Rightarrow> loan \<Rightarrow> credit_db \<Rightarrow> go_error + (loan \<times> credit_db)" where
  "CreateLoanRow now l db =
     (if ln_LoanNumber l \<in> ln_LoanNumber ` set (loans db) then Inl ErrDuplicateKey
      else let row = l\<lparr>ln_ID := seq_loans db, ln_CreatedAt := now,
                       ln_Version := (if ln_Version l = 0 then 1 else ln_Version l)\<rparr>
           in Inr (row, db\<lparr>loans := loans db @ [row], seq_loans := Suc (seq_loans db)\<rparr>))"

definition UpdateLoan :: "loan \<Rightarrow> credit_db \<Rightarrow> unit result \<times> loan \<times> credit_db" where
  "UpdateLoan l db =
     (let l' = l\<lparr>ln_Version := ln_Version l + 1\<rparr>
      in if \<exists>r \<in> set (loans db). ln_ID r = ln_ID l \<and> ln_Version r = ln_Version l
         then (Inr (), l', db\<lparr>loans := put_row ln_ID l' (loans db)\<rparr>)
         else (Inl (Plain ''optimistic lock conflict''), l', db))"

definition credit_page :: "int \<Rightarrow> int \<Rightarrow> 'a list \<Rightarrow> 'a list" where
  "credit_page page pageSize xs =
     (let offset = (if (page - 1) * pageSize < 0 then 0 else (page - 1) * pageSize);
          rest = drop (nat offset) xs
      in if pageSize < 0 then rest else take (nat pageSize) rest)"

definition ListLoans :: "nat \<Rightarrow> int \<Rightarrow> int \<Rightarrow> credit_db \<Rightarrow> loan list \<times> nat" where
  "ListLoans clientID page pageSize db =
     (let ls = filter (\<lambda>l. ln_ClientID l = clientID) (loans db) in (credit_page page pageSize ls, length ls))"

definition ListAllLoans :: "string \<Rightarrow> string \<Rightarrow> string \<Rightarrow> int \<Rightarrow> int \<Rightarrow> credit_db \<Rightarrow> loan list \<times> nat" where
  "ListAllLoans typeFilter accountFilter statusFilter page pageSize db =
     (let ls = filter (\<lambda>l. (typeFilter = [] \<or> ln_LoanType l = typeFilter) \<and>
                           (accountFilter = [] \<or> ln_AccountNumber l = accountFilter) \<and>
                           (statusFilter = [] \<or> ln_Status l = statusFilter)) (loans db)
      in (credit_page page pageSize ls, length ls))"

definition ListLoanRequests ::
  "string \<Rightarrow> string \<Rightarrow> string \<Rightarrow> nat \<Rightarrow> int \<Rightarrow> int \<Rightarrow> credit_db \<Rightarrow> loan_request list \<times> nat" where
  "ListLoanRequests typeFilter accountFilter statusFilter clientID page pageSize db =
     (let qs = filter (\<lambda>q. (clientID = 0 \<or> lq_ClientID q = clientID) \<and>
                           (typeFilter = [] \<or> lq_LoanType q = typeFilter) \<and>
                           (accountFilter = [] \<or> lq_AccountNumber q = accountFilter) \<and>
                           (statusFilter = [] \<or> lq_Status q = statusFilter)) (loan_requests db)
      in (credit_page page pageSize qs, length qs))"

definition FindActiveVariableLoansInAmountRange :: "decimal \<Rightarrow> decimal \<Rightarrow> credit_db \<Rightarrow> loan list" where
  "FindActiveVariableLoansInAmountRange amountFrom amountTo db =
     filter (\<lambda>l. ln_Status l = ''active'' \<and> ln_InterestType l = ''variable'' \<and> ln_Amount l \<ge> amountFrom \<and>
                 (amountTo = 0 \<or> ln_Amount l < amountTo)) (loans db)"

text \<open>A batch insert gives the rows consecutive keys, in order.\<close>

fun CreateInstallmentRows :: "installment list \<Rightarrow> credit_db \<Rightarrow> credit_db" where
  "CreateInstallmentRows [] db = db"
| "CreateInstallmentRows (i # is) db =
     CreateInstallmentRows is
       (db\<lparr>installments := installments db @ [i\<lparr>im_ID := seq_installments db,
             im_Version := (if im_Version i = 0 then 1 else im_Version i)\<rparr>],
           seq_installments := Suc (seq_installments db)\<rparr>)"

definition ListInstallments :: "nat \<Rightarrow> credit_db \<Rightarrow> installment list" where
  "ListInstallments loanID db = sort_key im_ExpectedDate (filter (\<lambda>i. im_LoanID i = loanID) (installments db))"

definition ErrInstallmentNotFound :: go_error where
  "ErrInstallmentNotFound = Plain ''installment not found''"

definition ErrInstallmentAlreadyPaid :: go_error where
  "ErrInstallmentAlreadyPaid = Plain ''installment already paid''"

definition MarkPaid :: "int \<Rightarrow> nat \<Rightarrow> credit_db \<Rightarrow> unit result \<times> credit_db" where
  "MarkPaid now i db =
     (if \<exists>r \<in> set (installments db). im_ID r = i
      then (Inr (), db\<lparr>installments := upd_rows (\<lambda>r. im_ID r = i)
              (\<lambda>r. r\<lparr>im_Status := ''paid'', im_ActualDate := Some now\<rparr>) (installments db)\<rparr>)
      else case find (\<lambda>r. im_ID r = i) (installments db) of
             None \<Rightarrow> (Inl ErrInstallmentNotFound, db)
           | Some r \<Rightarrow>
               if im_Status r = ''paid'' then (Inl ErrInstallmentAlreadyPaid, db)
               else (Inl (Plain ''mark paid failed''), db))"

definition MarkOverdue :: "int \<Rightarrow> credit_db \<Rightarrow> credit_db" where
  "MarkOverdue now db =
     db\<lparr>installments := upd_rows (\<lambda>r. im_Status r = ''unpaid'' \<and> im_ExpectedDate r < now)
          (\<lambda>r. r\<lparr>im_Status := ''overdue''\<rparr>) (installments db)\<rparr>"

definition GetDueInstallments :: "int \<Rightarrow> credit_db \<Rightarrow> installment list" where
  "GetDueInstallments now db = filter (\<lambda>r. im_Status r = ''unpaid'' \<and> im_ExpectedDate r \<le> now) (installments db)"

definition CountUnpaidByLoan :: "nat \<Rightarrow> credit_db \<Rightarrow> nat" where
  "CountUnpaidByLoan loanID db = length (filter (\<lambda>r. im_LoanID r = loanID \<and> im_Status r = ''unpaid'') (installments db))"

definition UpdateUnpaidByLoan :: "nat \<Rightarrow> decimal \<Rightarrow> decimal \<Rightarrow> credit_db \<Rightarrow> credit_db" where
  "UpdateUnpaidByLoan loanID newAmount newRate db =
     db\<lparr>installments := upd_rows (\<lambda>r. im_LoanID r = loanID \<and> im_Status r = ''unpaid'')
          (\<lambda>r. r\<lparr>im_Amount := newAmount, im_InterestRate := newRate\<rparr>) (installments db)\<rparr>"

definition LimitReplicaByID :: "nat \<Rightarrow> credit_db \<Rightarrow> employee_limit_replica option" where
  "LimitReplicaByID i db = find (\<lambda>r. el_EmployeeID r = i) (limit_replicas db)"

definition UpsertLimitReplica :: "employee_limit_replica \<Rightarrow> credit_db \<Rightarrow> credit_db" where
  "UpsertLimitReplica r db =
     (case LimitReplicaByID (el_EmployeeID r) db of
        None \<Rightarrow> db\<lparr>limit_replicas := limit_replicas db @ [r]\<rparr>
      | Some existing \<Rightarrow>
          if el_Version r \<le> el_Version existing then db
          else db\<lparr>limit_replicas := put_row el_EmployeeID r (limit_replicas db)\<rparr>)"

definition ClientReplicaByID :: "nat \<Rightarrow> credit_db \<Rightarrow> client_replica option" where
  "ClientReplicaByID i db = find (\<lambda>r. rep_ID r = i) (credit_clients db)"

definition UpsertClientReplica :: "client_replica \<Rightarrow> credit_db \<Rightarrow> credit_db" where
  "UpsertClientReplica r db =
     (case ClientReplicaByID (rep_ID r) db of
        None \<Rightarrow> db\<lparr>credit_clients := credit_clients db @ [r]\<rparr>
      | Some existing \<Rightarrow>
          if rep_Version r \<le> rep_Version existing then db
          else db\<lparr>credit_clients := put_row rep_ID r (credit_clients db)\<rparr>)"

section \<open>Schedules\<close>

text \<open>\<open>startDate\<close> is what \<^verbatim>\<open>time.Parse\<close> makes of the date text, \<open>None\<close> on a parse error.\<close>

definition CreateInstallmentSchedule ::
  "credit_env \<Rightarrow> decimal \<Rightarrow> decimal \<Rightarrow> int \<Rightarrow> string \<Rightarrow> int option \<Rightarrow> installment list" where
  "CreateInstallmentSchedule env amount annualRate months currency startDate =
     (let monthlyPayment = installment_amount env amount annualRate months;
          start = (case startDate of None \<Rightarrow> cv_now env | Some t \<Rightarrow> t)
      in map (\<lambda>i. \<lparr>im_ID = 0, im_LoanID = 0, im_Amount = monthlyPayment, im_InterestRate = annualRate,
                   im_CurrencyCode = currency, im_ExpectedDate = AddDate 0 (int i + 1) 0 start,
                   im_ActualDate = None, im_Status = ''unpaid'', im_Version = 0\<rparr>) [0..<nat months])"

text \<open>Formatting an instant as a date and parsing the text again gives midnight of its day.\<close>

definition midnight :: "int \<Rightarrow> int" where
  "midnight t = t div 86400 * 86400"

section \<open>Requests\<close>

definition validLoanTypes :: "string \<Rightarrow> bool" where
  "validLoanTypes t \<longleftrightarrow> t \<in> set [''cash'', ''housing'', ''auto'', ''refinancing'', ''student'']"

definition validInterestTypes :: "string \<Rightarrow> bool" where
  "validInterestTypes t \<longleftrightarrow> t \<in> set [''fixed'', ''variable'']"

definition allowedRepaymentPeriods :: "string \<Rightarrow> int list option" where
  "allowedRepaymentPeriods t =
     (if t = ''cash'' then Some [12, 24, 36, 48, 60, 72, 84]
      else if t = ''housing'' then Some [60, 120, 180, 240, 300, 360]
      else if t = ''auto'' then Some [12, 24, 36, 48, 60, 72, 84]
      else if t = ''refinancing'' then Some [12, 24, 36, 48, 60, 72, 84]
      else if t = ''student'' then Some [12, 24, 36, 48, 60, 72, 84]
      else None)"

definition validateRepaymentPeriod :: "string \<Rightarrow> int \<Rightarrow> unit result" where
  "validateRepaymentPeriod loanType period =
     (case allowedRepaymentPeriods loanType of
        None \<Rightarrow> Inl ErrInvalidLoanType
      | Some allowed \<Rightarrow> if period \<in> set allowed then Inr () else Inl ErrInvalidRepaymentPeriod)"

definition CreateLoanRequest ::
  "'w account_client \<Rightarrow> int \<Rightarrow> loan_request \<Rightarrow> credit_db \<times> 'w \<Rightarrow> loan_request result \<times> credit_db \<times> 'w" where
  "CreateLoanRequest client now req = (\<lambda>(db, w).
     if \<not> validLoanTypes (lq_LoanType req) then (Inl ErrInvalidLoanType, db, w)
     else if \<not> validInterestTypes (lq_InterestType req) then (Inl ErrInvalidInterestType, db, w)
     else if lq_Amount req \<le> 0 then (Inl ErrInvalidLoanAmount, db, w)
     else case validateRepaymentPeriod (lq_LoanType req) (lq_RepaymentPeriod req) of
            Inl e \<Rightarrow> (Inl e, db, w)
          | Inr _ \<Rightarrow>
              (case ac_GetAccountByNumber client (lq_AccountNumber req) w of
                 (Inl _, w') \<Rightarrow> (Inl ErrAccountVerificationFailed, db, w')
               | (Inr account, w') \<Rightarrow>
                   if ar_CurrencyCode account \<noteq> lq_CurrencyCode req then (Inl ErrLoanCurrencyMismatch, db, w')
                   else case CreateLoanRequestRow now req db of (row, db') \<Rightarrow> (Inr row, db', w')))"

definition GetLoanRequest :: "nat \<Rightarrow> credit_db \<Rightarrow> loan_request result" where
  "GetLoanRequest i db = (case LoanRequestByID i db of None \<Rightarrow> Inl ErrLoanRequestNotFound | Some q \<Rightarrow> Inr q)"

definition GetLoan :: "nat \<Rightarrow> credit_db \<Rightarrow> loan result" where
  "GetLoan i db = (case LoanByID i db of None \<Rightarrow> Inl ErrLoanNotFound | Some l \<Rightarrow> Inr l)"

record employee_limits =
  lr_MaxLoanApprovalAmount :: string
  lr_MaxSingleTransaction :: string
  lr_MaxDailyTransaction :: string
  lr_MaxClientDailyLimit :: string
  lr_MaxClientMonthlyLimit :: string

definition parseDecimalOrZeroLR :: "(string \<Rightarrow> decimal option) \<Rightarrow> string \<Rightarrow> decimal" where
  "parseDecimalOrZeroLR parse s = (if s = [] then 0 else case parse s of None \<Rightarrow> 0 | Some d \<Rightarrow> d)"

definition resolveMaxLoanApproval ::
  "(string \<Rightarrow> decimal option) \<Rightarrow> (nat \<Rightarrow> employee_limits result) \<Rightarrow> nat \<Rightarrow> credit_db \<Rightarrow> decimal option \<times> credit_db" where
  "resolveMaxLoanApproval parse getLimits employeeID db =
     (case LimitReplicaByID employeeID db of
        Some rep \<Rightarrow> (Some (el_MaxLoanApprovalAmount rep), db)
      | None \<Rightarrow>
          (case getLimits employeeID of
             Inl _ \<Rightarrow> (None, db)
           | Inr resp \<Rightarrow>
               (let num = parseDecimalOrZeroLR parse;
                    maxLoan = num (lr_MaxLoanApprovalAmount resp)
                in (Some maxLoan,
                    UpsertLimitReplica
                      \<lparr>el_EmployeeID = employeeID, el_MaxLoanApprovalAmount = maxLoan,
                       el_MaxSingleTransaction = num (lr_MaxSingleTransaction resp),
                       el_MaxDailyTransaction = num (lr_MaxDailyTransaction resp),
                       el_MaxClientDailyLimit = num (lr_MaxClientDailyLimit resp),
                       el_MaxClientMonthlyLimit = num (lr_MaxClientMonthlyLimit resp), el_Version = 0\<rparr> db))))"

definition new_loan :: "credit_env \<Rightarrow> decimal \<times> decimal \<times> decimal \<Rightarrow> loan_request \<Rightarrow> loan" where
  "new_loan env = (\<lambda>(baseRate, bankMargin, nominalRate) locked.
     \<lparr>ln_ID = 0, ln_LoanNumber = GenerateLoanNumber (cv_digits env), ln_LoanType = lq_LoanType locked,
      ln_AccountNumber = lq_AccountNumber locked, ln_Amount = lq_Amount locked,
      ln_RepaymentPeriod = lq_RepaymentPeriod locked, ln_NominalInterestRate = nominalRate,
      ln_EffectiveInterestRate = CalculateEffectiveInterestRate (cv_div env) (cv_pow env) nominalRate 12,
      ln_ContractDate = cv_now env, ln_MaturityDate = AddDate 0 (lq_RepaymentPeriod locked) 0 (cv_now env),
      ln_NextInstallmentAmount =
        installment_amount env (lq_Amount locked) nominalRate (lq_RepaymentPeriod locked),
      ln_NextInstallmentDate = AddDate 0 1 0 (cv_now env), ln_RemainingDebt = lq_Amount locked,
      ln_CurrencyCode = lq_CurrencyCode locked, ln_Status = ''approved'', ln_InterestType = lq_InterestType locked,
      ln_BaseRate = baseRate, ln_BankMargin = bankMargin, ln_CurrentRate = nominalRate,
      ln_ClientID = lq_ClientID locked, ln_Version = 0, ln_CreatedAt = 0\<rparr>)"

definition approve_body ::
  "credit_env \<Rightarrow> decimal \<times> decimal \<times> decimal \<Rightarrow> nat \<Rightarrow> credit_db \<Rightarrow> go_error + (loan \<times> credit_db)" where
  "approve_body env rates requestID db =
     (case LoanRequestByID requestID db of
        None \<Rightarrow> Inl ErrLoanRequestNotFound
      | Some locked \<Rightarrow>
          if lq_Status locked \<noteq> ''pending'' then Inl ErrLoanRequestNotPending
          else case CreateLoanRow (cv_now env) (new_loan env rates locked) db of
                 Inl _ \<Rightarrow> Inl ErrLoanPersistFailed
               | Inr (loan, db1) \<Rightarrow>
                   (let schedule = CreateInstallmentSchedule env (lq_Amount locked) (snd (snd rates))
                          (lq_RepaymentPeriod locked) (lq_CurrencyCode locked) (Some (midnight (cv_now env)));
                        db2 = CreateInstallmentRows (map (\<lambda>i. i\<lparr>im_LoanID := ln_ID loan\<rparr>) schedule) db1
                    in case SaveLoanRequest (locked\<lparr>lq_Status := ''approved''\<rparr>) db2 of
                         (Inl e, _, _) \<Rightarrow> Inl e
                       | (Inr _, _, db3) \<Rightarrow> Inr (loan, db3)))"

text \<open>\<^verbatim>\<open>ApproveLoanRequest\<close> up to and including its transaction and the change-log entry.\<close>

definition approve_loan ::
  "(string \<Rightarrow> decimal option) \<Rightarrow> (nat \<Rightarrow> employee_limits result) \<Rightarrow> credit_env \<Rightarrow> nat \<Rightarrow> nat \<Rightarrow> credit_db \<Rightarrow>
     loan result \<times> credit_db" where
  "approve_loan parse getLimits env requestID employeeID db =
     (case LoanRequestByID requestID db of
        None \<Rightarrow> (Inl ErrLoanRequestNotFound, db)
      | Some req \<Rightarrow>
          if lq_Status req \<noteq> ''pending'' then (Inl ErrLoanRequestNotPending, db)
          else
            case (if employeeID > 0 then resolveMaxLoanApproval parse getLimits employeeID db else (None, db)) of
              (limit, db1) \<Rightarrow>
                if (case limit of None \<Rightarrow> False | Some maxAmount \<Rightarrow> maxAmount > 0 \<and> lq_Amount req > maxAmount)
                then (Inl ErrAmountExceedsApprovalLimit, db1)
                else case GetNominalRateComponents (lq_LoanType req) (lq_InterestType req) (lq_Amount req) (loan_rates db1) of
                       Inl e \<Rightarrow> (Inl e, db1)
                     | Inr rates \<Rightarrow>
                         (case transaction (approve_body env rates requestID) db1 of
                            (Inl e, db2) \<Rightarrow> (Inl e, db2)
                          | (Inr loan, db2) \<Rightarrow>
                              (Inr loan,
                               log_credit_change (NewStatusChangeEntry (cv_now env) ''loan_request'' requestID
                                 (int employeeID) ''pending'' ''approved'' []) db2)))"

definition reject_body :: "nat \<Rightarrow> credit_db \<Rightarrow> go_error + (loan_request \<times> credit_db)" where
  "reject_body requestID db =
     (case LoanRequestByID requestID db of
        None \<Rightarrow> Inl ErrLoanRequestNotFound
      | Some locked \<Rightarrow>
          if lq_Status locked \<noteq> ''pending'' then Inl ErrLoanRequestNotPending
          else case SaveLoanRequest (locked\<lparr>lq_Status := ''rejected''\<rparr>) db of
                 (Inl e, _, _) \<Rightarrow> Inl e
               | (Inr _, q, db') \<Rightarrow> Inr (q, db'))"

definition RejectLoanRequest ::
  "int \<Rightarrow> nat \<Rightarrow> int \<Rightarrow> string \<Rightarrow> credit_db \<Rightarrow> loan_request result \<times> credit_db" where
  "RejectLoanRequest now requestID changedBy reason db =
     (case transaction (reject_body requestID) db of
        (Inl e, db') \<Rightarrow> (Inl e, db')
      | (Inr q, db') \<Rightarrow>
          (Inr q, log_credit_change (NewStatusChangeEntry now ''loan_request'' requestID changedBy
             ''pending'' ''rejected'' reason) db'))"

section \<open>Changes of a variable rate\<close>

text \<open>The transaction that gives a loan a new rate and its unpaid instalments a new amount.\<close>

definition rate_update_body :: "loan \<Rightarrow> decimal \<Rightarrow> decimal \<Rightarrow> credit_db \<Rightarrow> go_error + (unit \<times> credit_db)" where
  "rate_update_body loan newMonthly newNominalRate db =
     (case UpdateLoan loan db of
        (Inl e, _, _) \<Rightarrow> Inl e
      | (Inr _, _, db1) \<Rightarrow> Inr ((), UpdateUnpaidByLoan (ln_ID loan) newMonthly newNominalRate db1))"

definition rerated :: "credit_env \<Rightarrow> decimal \<Rightarrow> decimal \<Rightarrow> loan \<Rightarrow> loan" where
  "rerated env newBaseRate newMonthly loan =
     (let newNominalRate = newBaseRate + ln_BankMargin loan
      in loan\<lparr>ln_BaseRate := newBaseRate, ln_CurrentRate := newNominalRate, ln_NominalInterestRate := newNominalRate,
              ln_EffectiveInterestRate := CalculateEffectiveInterestRate (cv_div env) (cv_pow env) newNominalRate 12,
              ln_NextInstallmentAmount := newMonthly\<rparr>)"

definition update_loan_rate :: "credit_env \<Rightarrow> interest_rate_tier \<Rightarrow> loan \<Rightarrow> nat \<times> credit_db \<Rightarrow> nat \<times> credit_db" where
  "update_loan_rate env tier loan = (\<lambda>(count, db).
     let newBaseRate = it_VariableBase tier;
         newNominalRate = newBaseRate + ln_BankMargin loan;
         unpaidCount = CountUnpaidByLoan (ln_ID loan) db
     in if unpaidCount = 0 then (count, db)
        else
          let newMonthly = installment_amount env (ln_RemainingDebt loan) newNominalRate (int unpaidCount)
          in case transaction (rate_update_body (rerated env newBaseRate newMonthly loan) newMonthly newNominalRate) db of
               (Inl _, db') \<Rightarrow> (count, db')
             | (Inr _, db') \<Rightarrow> (count + 1, db'))"

definition ApplyVariableRateUpdate :: "credit_env \<Rightarrow> nat \<Rightarrow> credit_db \<Rightarrow> nat result \<times> credit_db" where
  "ApplyVariableRateUpdate env tierID db =
     (case TierByID tierID (loan_rates db) of
        None \<Rightarrow> (Inl ErrInterestRateTierNotFound, db)
      | Some tier \<Rightarrow>
          (case fold (update_loan_rate env tier)
                  (FindActiveVariableLoansInAmountRange (it_AmountFrom tier) (it_AmountTo tier) db) (0, db) of
             (count, db') \<Rightarrow> (Inr count, db')))"

end
