(* ===== verification/Loan_Saga.thy ===== *)
theory Loan_Saga
  imports Loan
begin

text \<open>
  Disbursement of loans: \<^verbatim>\<open>internal/saga/recorder.go\<close>, \<^verbatim>\<open>repository/saga_log_repository.go\<close>,
  \<^verbatim>\<open>service/loan_disbursement_saga.go\<close>, the whole of \<^verbatim>\<open>ApproveLoanRequest\<close> and
  \<^verbatim>\<open>service/compensation_recovery.go\<close> under \<^verbatim>\<open>src/credit-service/internal/\<close>, with the two bank-account calls of the
  account service (\<^verbatim>\<open>handler/bank_account_handler.go\<close>, \<^verbatim>\<open>service/account_service.go\<close>) that it uses.

  The closures of the saga share the loan record in memory, the service's tables and the account service behind the
  clients; \<open>disburse_world\<close> holds the three. \<open>fixed4\<close> stands for \<^verbatim>\<open>decimal.StringFixed(4)\<close> and \<open>parse\<close> for
  \<^verbatim>\<open>decimal.NewFromString\<close>.
\<close>

section \<open>Bank accounts of the account service\<close>

record bank_op_request =
  bq_Currency :: string
  bq_Amount :: string
  bq_Reference :: string
  bq_Reason :: string

definition DebitBankAccount ::
  "(string \<Rightarrow> decimal option) \<Rightarrow> (decimal \<Rightarrow> decimal) \<Rightarrow> string \<Rightarrow> string \<Rightarrow> string \<Rightarrow> string \<Rightarrow> account_db \<Rightarrow>
     bank_op_result result \<times> account_db" where
  "DebitBankAccount parse round4 currency amountStr reference reason s =
     (case parse amountStr of
        None \<Rightarrow> (Inl (Plain ''invalid amount''), s)
      | Some amount \<Rightarrow> DebitBank round4 currency amount reference reason s)"

definition CreditBankAccount ::
  "(string \<Rightarrow> decimal option) \<Rightarrow> (decimal \<Rightarrow> decimal) \<Rightarrow> string \<Rightarrow> string \<Rightarrow> string \<Rightarrow> string \<Rightarrow> account_db \<Rightarrow>
     bank_op_result result \<times> account_db" where
  "CreditBankAccount parse round4 currency amountStr reference reason s =
     (case parse amountStr of
        None \<Rightarrow> (Inl (Plain ''invalid amount''), s)
      | Some amount \<Rightarrow> CreditBank round4 currency amount reference reason s)"

definition DebitBankAccountRPC ::
  "(string \<Rightarrow> decimal option) \<Rightarrow> (decimal \<Rightarrow> decimal) \<Rightarrow> bank_op_request \<Rightarrow> account_db \<Rightarrow>
     bank_op_result result \<times> account_db" where
  "DebitBankAccountRPC parse round4 req s =
     (case DebitBankAccount parse round4 (bq_Currency req) (bq_Amount req) (bq_Reference req) (bq_Reason req) s of
        (Inl e, s') \<Rightarrow>
          (Inl (if e = ErrInsufficientBankLiquidity then Status FailedPrecondition ''bank has insufficient liquidity''
                else if e = ErrBankAccountNotFound then Status NotFound ''no bank sentinel account for currency''
                else Status Internal ''debit bank''), s')
      | (Inr r, s') \<Rightarrow> (Inr r, s'))"

definition CreditBankAccountRPC ::
  "(string \<Rightarrow> decimal option) \<Rightarrow> (decimal \<Rightarrow> decimal) \<Rightarrow> bank_op_request \<Rightarrow> account_db \<Rightarrow>
     bank_op_result result \<times> account_db" where
  "CreditBankAccountRPC parse round4 req s =
     (case CreditBankAccount parse round4 (bq_Currency req) (bq_Amount req) (bq_Reference req) (bq_Reason req) s of
        (Inl e, s') \<Rightarrow>
          (Inl (if e = ErrBankAccountNotFound then Status NotFound ''no bank sentinel account for currency''
                else Status Internal ''credit bank''), s')
      | (Inr r, s') \<Rightarrow> (Inr r, s'))"

record 'w bank_client =
  bk_DebitBankAccount :: "bank_op_request \<Rightarrow> 'w \<Rightarrow> unit result \<times> 'w"
  bk_CreditBankAccount :: "bank_op_request \<Rightarrow> 'w \<Rightarrow> unit result \<times> 'w"

text \<open>The bank-account service behind the client, over the state of \<open>rpc_client\<close>.\<close>

definition rpc_bank :: "(string \<Rightarrow> decimal option) \<Rightarrow> (decimal \<Rightarrow> decimal) \<Rightarrow> account_world bank_client" where
  "rpc_bank parse round4 =
     \<lparr>bk_DebitBankAccount = (\<lambda>req (tbl, s). case DebitBankAccountRPC parse round4 req s of
        (Inl e, s') \<Rightarrow> (Inl e, (tbl, s')) | (Inr _, s') \<Rightarrow> (Inr (), (tbl, s'))),
      bk_CreditBankAccount = (\<lambda>req (tbl, s). case CreditBankAccountRPC parse round4 req s of
        (Inl e, s') \<Rightarrow> (Inl e, (tbl, s')) | (Inr _, s') \<Rightarrow> (Inr (), (tbl, s')))\<rparr>"

section \<open>The saga log\<close>

record credit_log =
  cl_ID :: nat
  cl_SagaID :: string
  cl_LoanID :: nat
  cl_StepNumber :: int
  cl_StepName :: string
  cl_Status :: string
  cl_IsCompensation :: bool
  cl_AccountNumber :: string
  cl_Amount :: decimal
  cl_ErrorMessage :: "go_error option"
  cl_CompensationOf :: "nat option"
  cl_RetryCount :: nat
  cl_CreatedAt :: int
  cl_CompletedAt :: "int option"

record credit_saga_db =
  credit_logs :: "credit_log list"
  seq_credit_logs :: nat
  credit_now :: int

definition credit_RecordStep :: "credit_log \<Rightarrow> credit_saga_db \<Rightarrow> nat result \<times> credit_saga_db" where
  "credit_RecordStep row db =
     (Inr (seq_credit_logs db),
      db\<lparr>credit_logs := credit_logs db @ [row\<lparr>cl_ID := seq_credit_logs db,
            cl_Status := (if cl_Status row = [] then ''pending'' else cl_Status row)\<rparr>],
         seq_credit_logs := Suc (seq_credit_logs db)\<rparr>)"

definition update_credit_log ::
  "nat \<Rightarrow> (credit_log \<Rightarrow> credit_log) \<Rightarrow> credit_saga_db \<Rightarrow> unit result \<times> credit_saga_db" where
  "update_credit_log i f db = (Inr (), db\<lparr>credit_logs := upd_rows (\<lambda>l. cl_ID l = i) f (credit_logs db)\<rparr>)"

definition credit_CompleteStep :: "nat \<Rightarrow> credit_saga_db \<Rightarrow> unit result \<times> credit_saga_db" where
  "credit_CompleteStep i db =
     update_credit_log i (\<lambda>l. l\<lparr>cl_Status := ''completed'', cl_CompletedAt := Some (credit_now db)\<rparr>) db"

definition credit_FailStep :: "nat \<Rightarrow> go_error \<Rightarrow> credit_saga_db \<Rightarrow> unit result \<times> credit_saga_db" where
  "credit_FailStep i errMsg = update_credit_log i (\<lambda>l. l\<lparr>cl_Status := ''failed'', cl_ErrorMessage := Some errMsg\<rparr>)"

definition credit_SetErrorMessage :: "nat \<Rightarrow> go_error \<Rightarrow> credit_saga_db \<Rightarrow> unit result \<times> credit_saga_db" where
  "credit_SetErrorMessage i errMsg = update_credit_log i (\<lambda>l. l\<lparr>cl_ErrorMessage := Some errMsg\<rparr>)"

definition credit_FindPendingCompensations :: "credit_saga_db \<Rightarrow> credit_log list" where
  "credit_FindPendingCompensations db = filter (\<lambda>l. cl_Status l = ''compensating'') (credit_logs db)"

definition credit_IncrementRetryCount :: "nat \<Rightarrow> credit_saga_db \<Rightarrow> unit result \<times> credit_saga_db" where
  "credit_IncrementRetryCount i = update_credit_log i (\<lambda>l. l\<lparr>cl_RetryCount := cl_RetryCount l + 1\<rparr>)"

text \<open>The message written back is the one read before, so an empty column stays empty.\<close>

definition credit_MarkDeadLetter :: "nat \<Rightarrow> go_error option \<Rightarrow> credit_saga_db \<Rightarrow> unit result \<times> credit_saga_db" where
  "credit_MarkDeadLetter i errMsg =
     update_credit_log i (\<lambda>l. l\<lparr>cl_Status := ''dead_letter'', cl_ErrorMessage := errMsg\<rparr>)"

definition credit_IsForwardCompleted :: "string \<Rightarrow> string \<Rightarrow> credit_saga_db \<Rightarrow> bool result" where
  "credit_IsForwardCompleted sagaID stepName db =
     Inr (length (filter (\<lambda>l. cl_SagaID l = sagaID \<and> cl_StepName l = stepName \<and>
            cl_Status l = ''completed'' \<and> \<not> cl_IsCompensation l) (credit_logs db)) > 0)"

definition credit_buildRow ::
  "nat \<Rightarrow> string \<Rightarrow> string \<Rightarrow> int \<Rightarrow> state_val saga_state \<Rightarrow> int \<Rightarrow> credit_log" where
  "credit_buildRow loanID sagaID stepName stepNumber st now =
     \<lparr>cl_ID = 0, cl_SagaID = sagaID, cl_LoanID = loanID, cl_StepNumber = stepNumber, cl_StepName = stepName,
      cl_Status = [], cl_IsCompensation = False,
      cl_AccountNumber = (case st (stepAccountKey stepName) of None \<Rightarrow> [] | Some v \<Rightarrow> as_string v),
      cl_Amount = (case st (stepAmountKey stepName) of None \<Rightarrow> 0 | Some v \<Rightarrow> as_dec v),
      cl_ErrorMessage = None, cl_CompensationOf = None, cl_RetryCount = 0, cl_CreatedAt = now,
      cl_CompletedAt = None\<rparr>"

definition credit_RecordForward ::
  "nat \<Rightarrow> string \<Rightarrow> string \<Rightarrow> int \<Rightarrow> state_val saga_state \<Rightarrow> credit_saga_db \<Rightarrow> step_handle result \<times> credit_saga_db" where
  "credit_RecordForward loanID sagaID stepName stepNumber st db =
     (let row = (credit_buildRow loanID sagaID stepName stepNumber st (credit_now db))
                  \<lparr>cl_Status := SagaStatusPending, cl_IsCompensation := False\<rparr>
      in case credit_RecordStep row db of
           (Inl e, db') \<Rightarrow> (Inl e, db')
         | (Inr i, db') \<Rightarrow> (Inr \<lparr>h_ID = i, h_Version = 0\<rparr>, db'))"

definition credit_RecordCompensation ::
  "nat \<Rightarrow> string \<Rightarrow> string \<Rightarrow> int \<Rightarrow> step_handle \<Rightarrow> state_val saga_state \<Rightarrow> credit_saga_db \<Rightarrow>
     step_handle result \<times> credit_saga_db" where
  "credit_RecordCompensation loanID sagaID stepName stepNumber forward st db =
     (let row = (credit_buildRow loanID sagaID stepName stepNumber st (credit_now db))
                  \<lparr>cl_Status := SagaStatusCompensating, cl_IsCompensation := True,
                   cl_CompensationOf := (if h_ID forward \<noteq> 0 then Some (h_ID forward) else None)\<rparr>
      in case credit_RecordStep (row\<lparr>cl_Amount := - cl_Amount row\<rparr>) db of
           (Inl e, db') \<Rightarrow> (Inl e, db')
         | (Inr i, db') \<Rightarrow> (Inr \<lparr>h_ID = i, h_Version = 0\<rparr>, db'))"

definition credit_recorder :: "nat \<Rightarrow> (credit_saga_db, state_val) recorder" where
  "credit_recorder loanID =
     \<lparr>RecordForward = credit_RecordForward loanID,
      MarkCompleted = (\<lambda>h. credit_CompleteStep (h_ID h)),
      MarkFailed = (\<lambda>h. credit_FailStep (h_ID h)),
      RecordCompensation = credit_RecordCompensation loanID,
      MarkCompensated = (\<lambda>h. credit_CompleteStep (h_ID h)),
      MarkCompensationFailed = (\<lambda>h. credit_SetErrorMessage (h_ID h)),
      IsCompleted = credit_IsForwardCompleted\<rparr>"

section \<open>The disbursement\<close>

definition StepDebitBank :: string where "StepDebitBank = ''debit_bank''"
definition StepCreditBorrower :: string where "StepCreditBorrower = ''credit_borrower''"
definition StepMarkLoanActive :: string where "StepMarkLoanActive = ''mark_loan_active''"

record 'w disburse_world =
  dw_loan :: loan
  dw_db :: credit_db
  dw_acc :: 'w

definition on_accounts ::
  "('w \<Rightarrow> unit result \<times> 'w) \<Rightarrow> ('v, 'w disburse_world) step_fn" where
  "on_accounts call = (\<lambda>ctx ((st, w), n).
     case call (dw_acc w) of (r, a) \<Rightarrow> (r, ((st, w\<lparr>dw_acc := a\<rparr>), n)))"

definition on_loan :: "string \<Rightarrow> ('v, 'w disburse_world) step_fn" where
  "on_loan status = (\<lambda>ctx ((st, w), n).
     case UpdateLoan ((dw_loan w)\<lparr>ln_Status := status\<rparr>) (dw_db w) of
       (r, l, db) \<Rightarrow> (r, ((st, w\<lparr>dw_loan := l, dw_db := db\<rparr>), n)))"

definition disbursement_id :: "loan \<Rightarrow> string" where
  "disbursement_id loan = ''loan-disbursement-'' @ itoa (ln_ID loan)"

definition bank_request :: "(decimal \<Rightarrow> string) \<Rightarrow> loan \<Rightarrow> string \<Rightarrow> string \<Rightarrow> bank_op_request" where
  "bank_request fixed4 loan suffix reason =
     \<lparr>bq_Currency = ln_CurrencyCode loan, bq_Amount = fixed4 (ln_Amount loan),
      bq_Reference = disbursement_id loan @ suffix, bq_Reason = reason\<rparr>"

definition debit_bank_step :: "(decimal \<Rightarrow> string) \<Rightarrow> 'w bank_client \<Rightarrow> loan \<Rightarrow> ('v, 'w disburse_world) step" where
  "debit_bank_step fixed4 bank loan =
     \<lparr>st_Name = StepDebitBank,
      st_Forward = Some (on_accounts (bk_DebitBankAccount bank
        (bank_request fixed4 loan '':debit'' (''loan '' @ itoa (ln_ID loan) @ '' disbursement'')))),
      st_Backward = Some (on_accounts (bk_CreditBankAccount bank
        (bank_request fixed4 loan '':debit-comp'' (''loan '' @ itoa (ln_ID loan) @ '' disbursement compensation'')))),
      st_Pivot = False\<rparr>"

definition credit_borrower_step ::
  "(decimal \<Rightarrow> string) \<Rightarrow> 'w account_client \<Rightarrow> loan \<Rightarrow> ('v, 'w disburse_world) step" where
  "credit_borrower_step fixed4 client loan =
     \<lparr>st_Name = StepCreditBorrower,
      st_Forward = Some (on_accounts (ac_UpdateBalance client
        (balance_request (ln_AccountNumber loan) (fixed4 (ln_Amount loan)) (disbursement_id loan @ '':credit'')))),
      st_Backward = Some (on_accounts (ac_UpdateBalance client
        (balance_request (ln_AccountNumber loan) (fixed4 (- ln_Amount loan)) (disbursement_id loan @ '':credit-comp'')))),
      st_Pivot = False\<rparr>"

definition mark_active_step :: "('v, 'w disburse_world) step" where
  "mark_active_step =
     \<lparr>st_Name = StepMarkLoanActive, st_Forward = Some (on_loan ''active''),
      st_Backward = Some (on_loan ''disbursement_failed''), st_Pivot = False\<rparr>"

definition disbursement_saga ::
  "(decimal \<Rightarrow> string) \<Rightarrow> 'w account_client \<Rightarrow> 'w bank_client \<Rightarrow> loan \<Rightarrow>
     (credit_saga_db, state_val, 'w disburse_world) saga" where
  "disbursement_saga fixed4 client bank loan =
     Add mark_active_step
       (Add (credit_borrower_step fixed4 client loan)
         (Add (debit_bank_step fixed4 bank loan)
           (NewSagaWithID (disbursement_id loan) (Some (credit_recorder (ln_ID loan))))))"

definition disbursement_state :: "loan \<Rightarrow> state_val saga_state" where
  "disbursement_state loan =
     SetState (''step:'' @ StepCreditBorrower @ '':amount'') (VDec (ln_Amount loan))
       (SetState (''step:'' @ StepCreditBorrower @ '':account_number'') (VString (ln_AccountNumber loan))
         (SetState (''step:'' @ StepDebitBank @ '':amount'') (VDec (- ln_Amount loan))
           (SetState (''step:'' @ StepDebitBank @ '':account_number'') (VString (''bank:'' @ ln_CurrencyCode loan))
             NewState)))"

definition Disburse ::
  "(decimal \<Rightarrow> string) \<Rightarrow> 'w account_client \<Rightarrow> 'w bank_client \<Rightarrow> ctx \<Rightarrow> loan \<Rightarrow> credit_db \<Rightarrow> credit_saga_db \<Rightarrow> 'w env \<Rightarrow>
     unit result \<times> (credit_saga_db, state_val, 'w disburse_world) run" where
  "Disburse fixed4 client bank ctx loan db sdb e =
     (let w = \<lparr>dw_loan = loan, dw_db = db, dw_acc = fst e\<rparr>
      in if ln_Status loan = ''active''
         then (Inr (), \<lparr>rn_rec = sdb, rn_events = [], rn_env = ((NewState, w), snd e)\<rparr>)
         else Execute (disbursement_saga fixed4 client bank loan) ctx
                \<lparr>rn_rec = sdb, rn_events = [], rn_env = ((disbursement_state loan, w), snd e)\<rparr>)"

section \<open>Approval\<close>

record 'w credit_system =
  cy_db :: credit_db
  cy_sagas :: credit_saga_db
  cy_acc :: "'w env"

definition ApproveLoanRequest ::
  "(decimal \<Rightarrow> string) \<Rightarrow> (string \<Rightarrow> decimal option) \<Rightarrow> (nat \<Rightarrow> employee_limits result) \<Rightarrow> 'w account_client \<Rightarrow>
     'w bank_client \<Rightarrow> credit_env \<Rightarrow> ctx \<Rightarrow> nat \<Rightarrow> nat \<Rightarrow> 'w credit_system \<Rightarrow> loan result \<times> 'w credit_system" where
  "ApproveLoanRequest fixed4 parse getLimits client bank env ctx requestID employeeID s =
     (case approve_loan parse getLimits env requestID employeeID (cy_db s) of
        (Inl e, db) \<Rightarrow> (Inl e, s\<lparr>cy_db := db\<rparr>)
      | (Inr loan, db) \<Rightarrow>
          (case Disburse fixed4 client bank ctx loan db (cy_sagas s) (cy_acc s) of
             (Inr _, rn) \<Rightarrow>
               (Inr (dw_loan (run_world rn)),
                \<lparr>cy_db = dw_db (run_world rn), cy_sagas = rn_rec rn,
                 cy_acc = (dw_acc (run_world rn), snd (rn_env rn))\<rparr>)
           | (Inl err, rn) \<Rightarrow>
               (let l = dw_loan (run_world rn);
                    db' = (if ln_Status l \<noteq> ''disbursement_failed''
                           then snd (snd (UpdateLoan (l\<lparr>ln_Status := ''disbursement_failed''\<rparr>) (dw_db (run_world rn))))
                           else dw_db (run_world rn))
                in (Inl err,
                    \<lparr>cy_db = db', cy_sagas = rn_rec rn,
                     cy_acc = (dw_acc (run_world rn), snd (rn_env rn))\<rparr>))))"

section \<open>Recovery\<close>

definition ErrUnknownCompensationStep :: go_error where
  "ErrUnknownCompensationStep = Plain ''unknown compensation step''"

definition RetryStuckCompensation ::
  "(decimal \<Rightarrow> string) \<Rightarrow> 'w account_client \<Rightarrow> 'w bank_client \<Rightarrow> loan \<Rightarrow> string \<Rightarrow> credit_db \<times> 'w \<Rightarrow>
     unit result \<times> credit_db \<times> 'w" where
  "RetryStuckCompensation fixed4 client bank loan stepName = (\<lambda>(db, w).
     if stepName = StepDebitBank then
       (case bk_CreditBankAccount bank (bank_request fixed4 loan '':debit-comp''
               (''loan '' @ itoa (ln_ID loan) @ '' disbursement compensation (recovery)'')) w of (r, w') \<Rightarrow> (r, db, w'))
     else if stepName = StepCreditBorrower then
       (case ac_UpdateBalance client (balance_request (ln_AccountNumber loan) (fixed4 (- ln_Amount loan))
               (disbursement_id loan @ '':credit-comp'')) w of (r, w') \<Rightarrow> (r, db, w'))
     else if stepName = StepMarkLoanActive then
       (case LoanByID (ln_ID loan) db of
          None \<Rightarrow> (Inl ErrRecordNotFound, db, w)
        | Some fresh \<Rightarrow>
            (case UpdateLoan (fresh\<lparr>ln_Status := ''disbursement_failed''\<rparr>) db of (r, _, db') \<Rightarrow> (r, db', w)))
     else (Inl ErrUnknownCompensationStep, db, w))"

definition maxLoanCompensationRetries :: nat where
  "maxLoanCompensationRetries = 10"

record credit_dead_letter =
  cx_SagaLogID :: nat
  cx_SagaID :: string
  cx_StepName :: string
  cx_RetryCount :: nat
  cx_LastError :: "go_error option"

type_synonym 'w credit_recovery = "credit_saga_db \<times> credit_dead_letter list \<times> credit_db \<times> 'w"

definition recover_compensation ::
  "(decimal \<Rightarrow> string) \<Rightarrow> 'w account_client \<Rightarrow> 'w bank_client \<Rightarrow> credit_log \<Rightarrow> 'w credit_recovery \<Rightarrow> 'w credit_recovery" where
  "recover_compensation fixed4 client bank row = (\<lambda>(sdb, published, db, w).
     if cl_RetryCount row \<ge> maxLoanCompensationRetries then
       (case credit_MarkDeadLetter (cl_ID row) (cl_ErrorMessage row) sdb of
          (Inl _, sdb') \<Rightarrow> (sdb', published, db, w)
        | (Inr _, sdb') \<Rightarrow>
            (sdb', published @ [\<lparr>cx_SagaLogID = cl_ID row, cx_SagaID = cl_SagaID row, cx_StepName = cl_StepName row,
               cx_RetryCount = cl_RetryCount row, cx_LastError = cl_ErrorMessage row\<rparr>], db, w))
     else case LoanByID (cl_LoanID row) db of
            None \<Rightarrow> (snd (credit_IncrementRetryCount (cl_ID row) sdb), published, db, w)
          | Some loan \<Rightarrow>
              (case RetryStuckCompensation fixed4 client bank loan (cl_StepName row) (db, w) of
                 (Inl _, db', w') \<Rightarrow> (snd (credit_IncrementRetryCount (cl_ID row) sdb), published, db', w')
               | (Inr _, db', w') \<Rightarrow> (snd (credit_CompleteStep (cl_ID row) sdb), published, db', w')))"

definition credit_runRecoveryTick ::
  "(decimal \<Rightarrow> string) \<Rightarrow> 'w account_client \<Rightarrow> 'w bank_client \<Rightarrow> 'w credit_recovery \<Rightarrow> 'w credit_recovery" where
  "credit_runRecoveryTick fixed4 client bank = (\<lambda>(sdb, published, db, w).
     fold (recover_compensation fixed4 client bank) (credit_FindPendingCompensations sdb) (sdb, published, db, w))"

end
