(* ===== verification/Loan_Cron.thy ===== *)
theory Loan_Cron
  imports Loan_Saga
begin

text \<open>
  Collection of instalments: \<^verbatim>\<open>service/cron_service.go\<close> under \<^verbatim>\<open>src/credit-service/internal/\<close>. The state is the
  service's tables and the account service behind the client, which the retry helper calls through the context.
  \<open>getClient\<close> is the answer of the client service, \<open>rfc3339\<close> formats an instant, \<open>ymd\<close> a date.
\<close>

type_synonym 'w cron_state = "credit_db \<times> 'w env"

record credit_texts =
  tx_fixed4 :: "decimal \<Rightarrow> string"
  tx_parse :: "string \<Rightarrow> decimal option"
  tx_rfc3339 :: "int \<Rightarrow> string"
  tx_ymd :: "int \<Rightarrow> string"

definition notifyInstallment ::
  "loan \<Rightarrow> nat \<Rightarrow> string \<Rightarrow> string \<Rightarrow> string \<Rightarrow> credit_db \<Rightarrow> credit_db" where
  "notifyInstallment loan installmentID notifType amount retryDeadline =
     publish_credit (CreditNotification (ln_ClientID loan) notifType
       ((''amount'', amount) # (if retryDeadline \<noteq> [] then [(''retry_deadline'', retryDeadline)] else []))
       ''installment'' installmentID)"

definition resolveBorrowerEmail ::
  "(nat \<Rightarrow> client_replica result) \<Rightarrow> nat \<Rightarrow> credit_db \<Rightarrow> string \<times> credit_db" where
  "resolveBorrowerEmail getClient clientID db =
     (case ClientReplicaByID clientID db of
        Some rep \<Rightarrow> (rep_Email rep, db)
      | None \<Rightarrow>
          (case getClient clientID of
             Inl _ \<Rightarrow> ([], db)
           | Inr resp \<Rightarrow> (rep_Email resp, UpsertClientReplica (resp\<lparr>rep_ID := clientID, rep_Version := 0\<rparr>) db)))"

definition send_failure_mail ::
  "(nat \<Rightarrow> client_replica result) \<Rightarrow> loan \<Rightarrow> string \<Rightarrow> string \<Rightarrow> string \<Rightarrow> string \<Rightarrow> credit_db \<Rightarrow> credit_db" where
  "send_failure_mail getClient loan amount currencyCode dueDate retryDeadline db =
     (case resolveBorrowerEmail getClient (ln_ClientID loan) db of
        (email, db') \<Rightarrow>
          if email = [] then db'
          else publish_credit (InstallmentFailedEmail email
                 [(''loan_number'', ln_LoanNumber loan), (''amount'', amount), (''currency'', currencyCode),
                  (''due_date'', dueDate), (''retry_deadline'', retryDeadline)]) db')"

text \<open>The penalty of a failed debit on a loan with a variable rate.\<close>

definition late_penalty :: "credit_env \<Rightarrow> loan \<Rightarrow> credit_db \<Rightarrow> credit_db" where
  "late_penalty env loan db =
     (if ln_InterestType loan \<noteq> ''variable'' then db
      else
        let base = ln_BaseRate loan + 5 / 100;
            newNominalRate = base + ln_BankMargin loan;
            remainingMonths = int (CountUnpaidByLoan (ln_ID loan) db);
            newMonthlyAmount = installment_amount env (ln_RemainingDebt loan) newNominalRate remainingMonths;
            loan' = loan\<lparr>ln_BaseRate := base, ln_NominalInterestRate := newNominalRate,
                         ln_CurrentRate := newNominalRate, ln_NextInstallmentAmount := newMonthlyAmount\<rparr>
        in snd (transaction (rate_update_body loan' newMonthlyAmount newNominalRate) db))"

definition failed_debit ::
  "credit_env \<Rightarrow> (nat \<Rightarrow> client_replica result) \<Rightarrow> loan \<Rightarrow> nat \<Rightarrow> string \<Rightarrow> string \<Rightarrow> string \<Rightarrow> string \<Rightarrow> go_error \<Rightarrow>
     credit_db \<Rightarrow> credit_db" where
  "failed_debit env getClient loan installmentID amount currencyCode dueDate retryDeadline debitErr db =
     late_penalty env loan
       (notifyInstallment loan installmentID ''INSTALLMENT_FAILED'' amount retryDeadline
         (publish_credit (InstallmentFailed (ln_ID loan) amount debitErr retryDeadline)
           (send_failure_mail getClient loan amount currencyCode dueDate retryDeadline db)))"

definition update_call ::
  "'w account_client \<Rightarrow> string \<Rightarrow> string \<Rightarrow> string \<Rightarrow> 'w env \<Rightarrow> unit result \<times> 'w env" where
  "update_call client acct amount key e =
     (case ac_UpdateBalance client (balance_request acct amount key) (fst e) of (r, w) \<Rightarrow> (r, (w, snd e)))"

text \<open>The end of \<^verbatim>\<open>processInstallment\<close>: the instalment is marked paid, or both postings are taken back.\<close>

definition settle_installment ::
  "credit_texts \<Rightarrow> credit_env \<Rightarrow> 'w account_client \<Rightarrow> string \<Rightarrow> loan \<Rightarrow> nat \<Rightarrow> string \<Rightarrow> 'w cron_state \<Rightarrow> 'w cron_state" where
  "settle_installment tx env client bankRSDAccount loan installmentID amount = (\<lambda>(db, e).
     case tx_parse tx amount of
       None \<Rightarrow> (db, e)
     | Some amtDecimal \<Rightarrow>
         (case MarkPaid (cv_now env) installmentID db of
            (Inr _, db1) \<Rightarrow>
              (notifyInstallment loan installmentID ''INSTALLMENT_COLLECTED'' amount []
                 (publish_credit (InstallmentCollected (ln_ID loan) amount) db1), e)
          | (Inl err, db1) \<Rightarrow>
              if err = ErrInstallmentAlreadyPaid then (db1, e)
              else
                let ref = ''installment:'' @ itoa installmentID;
                    e1 = (if bankRSDAccount \<noteq> []
                          then snd (update_call client bankRSDAccount (tx_fixed4 tx (- amtDecimal))
                                 (ref @ '':bank-credit-compensate'') e)
                          else e)
                in (db1, snd (update_call client (ln_AccountNumber loan) (tx_fixed4 tx amtDecimal)
                                (ref @ '':debit-compensate-2'') e1))))"

definition processInstallment ::
  "credit_texts \<Rightarrow> credit_env \<Rightarrow> (nat \<Rightarrow> client_replica result) \<Rightarrow> 'w account_client \<Rightarrow> string \<Rightarrow> ctx \<Rightarrow>
     nat \<Rightarrow> nat \<Rightarrow> string \<Rightarrow> string \<Rightarrow> string \<Rightarrow> 'w cron_state \<Rightarrow> 'w cron_state" where
  "processInstallment tx env getClient client bankRSDAccount ctx installmentID loanID amount currencyCode dueDate =
     (\<lambda>(db, e).
     case LoanByID loanID db of
       None \<Rightarrow> (db, e)
     | Some loan \<Rightarrow>
         (let retryDeadline = tx_rfc3339 tx (cv_now env + 72 * 3600);
              installRef = ''installment:'' @ itoa installmentID
          in case retry_update client DefaultRetryConfig
                    (balance_request (ln_AccountNumber loan) (''-'' @ amount) (installRef @ '':debit'')) ctx e of
               (Inl debitErr, e1) \<Rightarrow>
                 (failed_debit env getClient loan installmentID amount currencyCode dueDate retryDeadline debitErr db, e1)
             | (Inr _, e1) \<Rightarrow>
                 (if bankRSDAccount = []
                  then settle_installment tx env client bankRSDAccount loan installmentID amount (db, e1)
                  else case update_call client bankRSDAccount amount (installRef @ '':bank-credit'') e1 of
                         (Inl _, e2) \<Rightarrow>
                           (db, snd (update_call client (ln_AccountNumber loan) amount (installRef @ '':debit-compensate'') e2))
                       | (Inr _, e2) \<Rightarrow>
                           settle_installment tx env client bankRSDAccount loan installmentID amount (db, e2))))"

text \<open>The sweep and the query read the clock one after the other.\<close>

definition collectDueInstallments ::
  "credit_texts \<Rightarrow> credit_env \<Rightarrow> int \<Rightarrow> (nat \<Rightarrow> client_replica result) \<Rightarrow> 'w account_client \<Rightarrow> string \<Rightarrow> ctx \<Rightarrow>
     'w cron_state \<Rightarrow> 'w cron_state" where
  "collectDueInstallments tx env later getClient client bankRSDAccount ctx = (\<lambda>(db, e).
     let db1 = MarkOverdue (cv_now env) db
     in fold (\<lambda>i. processInstallment tx env getClient client bankRSDAccount ctx (im_ID i) (im_LoanID i)
                   (tx_fixed4 tx (im_Amount i)) (im_CurrencyCode i) (tx_ymd tx (im_ExpectedDate i)))
          (GetDueInstallments later db1) (db1, e))"

end
