(* ===== verification/Loan_Safety.thy ===== *)
theory Loan_Safety
  imports Loan_Cron Saga_Safety
begin

text \<open>
  The life of loans and loan requests: the invariant \<open>loans_ok\<close> of the credit service's tables, what never changes
  about the rows (\<open>credit_le\<close>), and that every operation keeps both, whatever the account service answers.
\<close>

section \<open>The invariant\<close>

definition period_allowed :: "string \<Rightarrow> int \<Rightarrow> bool" where
  "period_allowed t p \<longleftrightarrow> (case allowedRepaymentPeriods t of None \<Rightarrow> False | Some ps \<Rightarrow> p \<in> set ps)"

definition request_ok :: "loan_request \<Rightarrow> bool" where
  "request_ok q \<longleftrightarrow> 0 < lq_Amount q \<and> period_allowed (lq_LoanType q) (lq_RepaymentPeriod q) \<and>
     validInterestTypes (lq_InterestType q)"

definition loan_ok :: "loan \<Rightarrow> bool" where
  "loan_ok l \<longleftrightarrow> 0 < ln_Amount l \<and> period_allowed (ln_LoanType l) (ln_RepaymentPeriod l) \<and>
     ln_RemainingDebt l = ln_Amount l \<and> ln_Status l \<in> {''approved'', ''active'', ''disbursement_failed''}"

definition schedule_count :: "credit_db \<Rightarrow> nat \<Rightarrow> nat" where
  "schedule_count db i = length (filter (\<lambda>r. im_LoanID r = i) (installments db))"

definition loans_ok :: "credit_db \<Rightarrow> bool" where
  "loans_ok db \<longleftrightarrow>
     distinct (map lq_ID (loan_requests db)) \<and>
     (\<forall>q \<in> set (loan_requests db). lq_ID q < seq_loan_requests db \<and> request_ok q \<and>
        lq_Status q \<in> {''pending'', ''approved'', ''rejected''}) \<and>
     distinct (map ln_ID (loans db)) \<and>
     (\<forall>l \<in> set (loans db). ln_ID l < seq_loans db \<and> loan_ok l \<and>
        schedule_count db (ln_ID l) = nat (ln_RepaymentPeriod l)) \<and>
     distinct (map im_ID (installments db)) \<and>
     (\<forall>r \<in> set (installments db). im_ID r < seq_installments db \<and> im_LoanID r < seq_loans db \<and>
        im_Status r \<in> {''unpaid'', ''overdue'', ''paid''}) \<and>
     length (loans db) = length (filter (\<lambda>q. lq_Status q = ''approved'') (loan_requests db))"

text \<open>The columns that no operation writes after the insert.\<close>

definition request_terms :: "loan_request \<Rightarrow> loan_request" where
  "request_terms q = q\<lparr>lq_Status := [], lq_Version := 0\<rparr>"

definition loan_terms :: "loan \<Rightarrow> loan" where
  "loan_terms l = l\<lparr>ln_Status := [], ln_Version := 0, ln_NominalInterestRate := 0, ln_EffectiveInterestRate := 0,
     ln_NextInstallmentAmount := 0, ln_BaseRate := 0, ln_CurrentRate := 0\<rparr>"

definition installment_terms :: "installment \<Rightarrow> installment" where
  "installment_terms r = r\<lparr>im_Amount := 0, im_InterestRate := 0, im_ActualDate := None, im_Status := []\<rparr>"

definition credit_le :: "credit_db \<Rightarrow> credit_db \<Rightarrow> bool" where
  "credit_le db db' \<longleftrightarrow>
     prefix (map request_terms (loan_requests db)) (map request_terms (loan_requests db')) \<and>
     (\<forall>q \<in> set (loan_requests db). lq_Status q \<noteq> ''pending'' \<longrightarrow> q \<in> set (loan_requests db')) \<and>
     prefix (map loan_terms (loans db)) (map loan_terms (loans db')) \<and>
     prefix (map installment_terms (installments db)) (map installment_terms (installments db')) \<and>
     (\<forall>r \<in> set (installments db). im_Status r = ''paid'' \<longrightarrow>
        (\<exists>r' \<in> set (installments db'). im_ID r' = im_ID r \<and> im_Status r' = ''paid'' \<and> im_Amount r' = im_Amount r))"

definition credit_kept :: "credit_db \<Rightarrow> credit_db \<Rightarrow> bool" where
  "credit_kept db0 db \<longleftrightarrow> loans_ok db \<and> credit_le db0 db"

lemma credit_le_refl: "credit_le db db"
  by (auto simp: credit_le_def)

lemma credit_le_trans:
  assumes "credit_le a b" "credit_le b c"
  shows "credit_le a c"
proof -
  note A = assms(1) [unfolded credit_le_def] and B = assms(2) [unfolded credit_le_def]
  have "\<exists>r' \<in> set (installments c). im_ID r' = im_ID r \<and> im_Status r' = ''paid'' \<and> im_Amount r' = im_Amount r"
    if r: "r \<in> set (installments a)" "im_Status r = ''paid''" for r
  proof -
    from A r obtain s where s: "s \<in> set (installments b)" "im_Status s = ''paid''" "im_ID s = im_ID r" "im_Amount s = im_Amount r"
      by blast
    from B s(1,2) obtain t where "t \<in> set (installments c)" "im_Status t = ''paid''" "im_ID t = im_ID s" "im_Amount t = im_Amount s"
      by blast
    with s(3,4) show ?thesis by auto
  qed
  with A B show ?thesis unfolding credit_le_def by (auto intro: prefix_order.trans)
qed

lemma credit_keptI: "credit_kept db0 db \<Longrightarrow> loans_ok db' \<Longrightarrow> credit_le db db' \<Longrightarrow> credit_kept db0 db'"
  unfolding credit_kept_def using credit_le_trans by blast

lemmas loans_okD =
  loans_ok_def [THEN iffD1, THEN conjunct1]
  loans_ok_def [THEN iffD1, THEN conjunct2, THEN conjunct1, rule_format]
  loans_ok_def [THEN iffD1, THEN conjunct2, THEN conjunct2, THEN conjunct1]
  loans_ok_def [THEN iffD1, THEN conjunct2, THEN conjunct2, THEN conjunct2, THEN conjunct1, rule_format]

text \<open>Tables that the invariant does not look at.\<close>

definition same_loans :: "credit_db \<Rightarrow> credit_db \<Rightarrow> bool" where
  "same_loans db db' \<longleftrightarrow> loan_requests db' = loan_requests db \<and> seq_loan_requests db' = seq_loan_requests db \<and>
     loans db' = loans db \<and> seq_loans db' = seq_loans db \<and>
     installments db' = installments db \<and> seq_installments db' = seq_installments db"

lemma same_loans_kept: "same_loans db db' \<Longrightarrow> credit_kept db0 db' = credit_kept db0 db"
  by (simp add: same_loans_def credit_kept_def loans_ok_def credit_le_def schedule_count_def)

lemma same_loans_trans: "same_loans a b \<Longrightarrow> same_loans b c \<Longrightarrow> same_loans a c"
  by (simp add: same_loans_def)

lemma quiet_writes [simp]:
  "same_loans db db" "same_loans db (publish_credit m db)" "same_loans db (log_credit_change row db)"
  "same_loans db (UpsertLimitReplica r db)" "same_loans db (UpsertClientReplica c db)" "same_loans db (db\<lparr>loan_rates := rs\<rparr>)"
  by (auto simp: same_loans_def publish_credit_def log_credit_change_def UpsertLimitReplica_def UpsertClientReplica_def
    split: option.splits)

lemmas quiet_kept [simp] = quiet_writes(2-6) [THEN same_loans_kept]

section \<open>Row writes\<close>

lemma in_put_row_iff:
  "distinct (map key xs) \<Longrightarrow> x \<in> set xs \<Longrightarrow> key r = key x \<Longrightarrow> y \<in> set (put_row key r xs) \<longleftrightarrow> y = r \<or> y \<in> set xs \<and> y \<noteq> x"
  by (simp add: set_put_row)

lemma loan_terms_sel:
  "ln_ID (loan_terms l) = ln_ID l" "ln_LoanType (loan_terms l) = ln_LoanType l" "ln_Amount (loan_terms l) = ln_Amount l"
  "ln_RepaymentPeriod (loan_terms l) = ln_RepaymentPeriod l" "ln_RemainingDebt (loan_terms l) = ln_RemainingDebt l"
  by (simp_all add: loan_terms_def)

lemma loan_terms_eq:
  assumes "loan_terms a = loan_terms b"
  shows "ln_ID a = ln_ID b \<and> ln_LoanType a = ln_LoanType b \<and> ln_Amount a = ln_Amount b \<and>
     ln_RepaymentPeriod a = ln_RepaymentPeriod b \<and> ln_RemainingDebt a = ln_RemainingDebt b"
  using arg_cong [OF assms, of ln_ID] arg_cong [OF assms, of ln_LoanType] arg_cong [OF assms, of ln_Amount]
    arg_cong [OF assms, of ln_RepaymentPeriod] arg_cong [OF assms, of ln_RemainingDebt]
  by (simp add: loan_terms_sel)

text \<open>A loan row is written over one with the same terms.\<close>

lemma UpdateLoan_kept:
  assumes ok: "loans_ok db" and r: "r \<in> set (loans db)" "loan_terms l = loan_terms r"
    and st: "ln_Status l \<in> {''approved'', ''active'', ''disbursement_failed''}"
    and run: "UpdateLoan l db = (res, l', db')"
  shows "loans_ok db' \<and> credit_le db db' \<and> loan_terms l' = loan_terms l \<and> (\<exists>r \<in> set (loans db'). loan_terms r = loan_terms l)"
proof -
  define l1 where "l1 = l\<lparr>ln_Version := ln_Version l + 1\<rparr>"
  have t: "loan_terms l1 = loan_terms r" using r(2) by (simp add: l1_def loan_terms_def)
  note e = loan_terms_eq [OF t]
  have same: "map loan_terms (put_row ln_ID l1 (loans db)) = map loan_terms (loans db)"
    using loans_okD(3) [OF ok] r(1) t e by (intro map_other_put_row) (metis distinct_key_eq)
  have ok1: "loans_ok (db\<lparr>loans := put_row ln_ID l1 (loans db)\<rparr>)"
    using ok loans_okD(4) [OF ok r(1)] e st
    by (auto simp: loans_ok_def loan_ok_def schedule_count_def l1_def dest!: in_put_rowD)
  from run have "db' = db \<and> l' = l1 \<or> db' = db\<lparr>loans := put_row ln_ID l1 (loans db)\<rparr> \<and> l' = l1"
    by (auto simp: UpdateLoan_def Let_def l1_def split: if_splits)
  then show ?thesis
  proof
    assume "db' = db \<and> l' = l1"
    with ok r t show ?thesis by (auto simp: credit_le_refl)
  next
    assume a: "db' = db\<lparr>loans := put_row ln_ID l1 (loans db)\<rparr> \<and> l' = l1"
    have "l1 \<in> set (put_row ln_ID l1 (loans db))" using r(1) e by (intro in_put_row_new) auto
    with a ok1 same r(2) t show ?thesis by (auto simp: credit_le_def)
  qed
qed

section \<open>Instalment rows\<close>

text \<open>An update of instalment rows that leaves paid rows paid and their amounts alone.\<close>

lemma upd_installments_kept:
  assumes ok: "loans_ok db" and db': "db' = db\<lparr>installments := upd_rows p f (installments db)\<rparr>"
    and f: "\<And>r. r \<in> set (installments db) \<Longrightarrow> p r \<Longrightarrow> installment_terms (f r) = installment_terms r \<and>
      im_Status (f r) \<in> {''unpaid'', ''overdue'', ''paid''} \<and>
      (im_Status r = ''paid'' \<longrightarrow> im_Status (f r) = ''paid'' \<and> im_Amount (f r) = im_Amount r)"
  shows "loans_ok db' \<and> credit_le db db'"
proof -
  have sel: "im_ID (f r) = im_ID r \<and> im_LoanID (f r) = im_LoanID r" if "r \<in> set (installments db)" "p r" for r
    using arg_cong [OF conjunct1 [OF f [OF that]], of im_ID] arg_cong [OF conjunct1 [OF f [OF that]], of im_LoanID]
    by (simp add: installment_terms_def)
  have terms: "map installment_terms (upd_rows p f (installments db)) = map installment_terms (installments db)"
    using f by (intro map_upd_rows) blast
  have ids: "map im_ID (upd_rows p f (installments db)) = map im_ID (installments db)"
    "map im_LoanID (upd_rows p f (installments db)) = map im_LoanID (installments db)"
    using sel by (auto intro!: map_upd_rows)
  have count: "schedule_count db' i = schedule_count db i" for i
    using arg_cong [OF ids(2), of "\<lambda>xs. length (filter (\<lambda>j. j = i) xs)"]
    by (simp add: schedule_count_def db' filter_map comp_def)
  have "im_ID r < seq_installments db \<and> im_LoanID r < seq_loans db \<and> im_Status r \<in> {''unpaid'', ''overdue'', ''paid''}"
    if "r \<in> set (upd_rows p f (installments db))" for r
    using that
  proof (cases rule: in_upd_rowsE)
    case (changed x)
    with f [of x] sel [of x] ok show ?thesis by (auto simp: loans_ok_def)
  next
    case kept
    with ok show ?thesis by (simp add: loans_ok_def)
  qed
  with ok have "loans_ok db'" by (auto simp: loans_ok_def count) (auto simp: db' ids)
  moreover have "\<exists>r' \<in> set (upd_rows p f (installments db)). im_ID r' = im_ID r \<and> im_Status r' = ''paid'' \<and> im_Amount r' = im_Amount r"
    if "r \<in> set (installments db)" "im_Status r = ''paid''" for r
    using that f [of r] sel [of r] by (cases "p r") (force simp: upd_rows_def)+
  ultimately show ?thesis using terms by (auto simp: credit_le_def db')
qed

lemma MarkOverdue_kept: "loans_ok db \<Longrightarrow> loans_ok (MarkOverdue now db) \<and> credit_le db (MarkOverdue now db)"
  by (rule upd_installments_kept [OF _ MarkOverdue_def]) (auto simp: installment_terms_def)

lemma MarkPaid_kept: "loans_ok db \<Longrightarrow> MarkPaid now i db = (res, db') \<Longrightarrow> loans_ok db' \<and> credit_le db db'"
proof (cases "\<exists>r \<in> set (installments db). im_ID r = i")
  case True
  assume "loans_ok db" "MarkPaid now i db = (res, db')"
  with True show ?thesis
    by (intro upd_installments_kept [where f = "\<lambda>r. r\<lparr>im_Status := ''paid'', im_ActualDate := Some now\<rparr>" and p = "\<lambda>r. im_ID r = i"])
      (auto simp: MarkPaid_def installment_terms_def)
next
  case False
  assume "loans_ok db" "MarkPaid now i db = (res, db')"
  with False show ?thesis
    by (auto simp: MarkPaid_def credit_le_refl split: option.splits if_splits)
qed

lemma UpdateUnpaid_kept: "loans_ok db \<Longrightarrow> loans_ok (UpdateUnpaidByLoan i x y db) \<and> credit_le db (UpdateUnpaidByLoan i x y db)"
  by (rule upd_installments_kept [OF _ UpdateUnpaidByLoan_def]) (auto simp: installment_terms_def)

lemma rate_update_kept:
  assumes ok: "loans_ok db" "r \<in> set (loans db)" "loan_terms l = loan_terms r"
    and "ln_Status l \<in> {''approved'', ''active'', ''disbursement_failed''}"
    and run: "transaction (rate_update_body l x y) db = (res, db')"
  shows "loans_ok db' \<and> credit_le db db'"
proof -
  obtain u l1 db1 where u: "UpdateLoan l db = (u, l1, db1)" by (rule prod_cases3)
  note k = UpdateLoan_kept [OF assms(1-4) u]
  from k UpdateUnpaid_kept [of db1 "ln_ID l" x y] credit_le_trans
  have "loans_ok (UpdateUnpaidByLoan (ln_ID l) x y db1)" "credit_le db (UpdateUnpaidByLoan (ln_ID l) x y db1)" by blast+
  with run u ok(1) show ?thesis by (cases u) (auto simp: transaction_def rate_update_body_def credit_le_refl)
qed

fun number_rows :: "nat \<Rightarrow> installment list \<Rightarrow> installment list" where
  "number_rows n [] = []"
| "number_rows n (i # is) =
     i\<lparr>im_ID := n, im_Version := (if im_Version i = 0 then 1 else im_Version i)\<rparr> # number_rows (Suc n) is"

lemma CreateInstallmentRows_eq:
  "CreateInstallmentRows is db = db\<lparr>installments := installments db @ number_rows (seq_installments db) is,
     seq_installments := seq_installments db + length is\<rparr>"
  by (induction "is" arbitrary: db) simp_all

lemma number_rows_maps:
  "map im_ID (number_rows n is) = [n..<n + length is]" "map im_LoanID (number_rows n is) = map im_LoanID is"
  "map im_Status (number_rows n is) = map im_Status is" "map im_Amount (number_rows n is) = map im_Amount is"
  "map im_ExpectedDate (number_rows n is) = map im_ExpectedDate is"
  by (induction "is" arbitrary: n) (simp_all add: upt_conv_Cons del: upt_Suc)

lemma schedule_rows:
  "length (CreateInstallmentSchedule env x r m c d) = nat m"
  "s \<in> set (CreateInstallmentSchedule env x r m c d) \<Longrightarrow> im_Status s = ''unpaid''"
  by (auto simp: CreateInstallmentSchedule_def Let_def)

section \<open>Requests\<close>

lemma CreateLoanRequestRow_kept:
  assumes "loans_ok db" "request_ok q" "lq_Status q = []" "CreateLoanRequestRow now q db = (row, db')"
  shows "loans_ok db' \<and> credit_le db db'"
proof -
  have fresh: "seq_loan_requests db \<notin> lq_ID ` set (loan_requests db)" using loans_okD(2) [OF assms(1)] by fastforce
  have row: "lq_ID row = seq_loan_requests db" "request_ok row" "lq_Status row = ''pending''"
    "db' = db\<lparr>loan_requests := loan_requests db @ [row], seq_loan_requests := Suc (seq_loan_requests db)\<rparr>"
    using assms(2-4) by (auto simp: CreateLoanRequestRow_def Let_def request_ok_def)
  have "\<forall>q \<in> set (loan_requests db). lq_ID q < Suc (seq_loan_requests db)"
    using loans_okD(2) [OF assms(1)] by (auto intro: less_SucI)
  with assms(1) fresh row show ?thesis by (auto simp: loans_ok_def credit_le_def schedule_count_def)
qed

lemma LoanRequestByID_unique:
  "loans_ok db \<Longrightarrow> LoanRequestByID i db = Some q \<Longrightarrow> q' \<in> set (loan_requests db) \<Longrightarrow> lq_ID q' = i \<Longrightarrow> q' = q"
  using find_SomeD [of "\<lambda>q. lq_ID q = i" "loan_requests db" q] loans_okD(1) [of db]
  by (auto simp: LoanRequestByID_def dest: distinct_key_eq)

lemma count_put_row:
  assumes "distinct (map key xs)" "x \<in> set xs" "key r = key x" "\<not> p x"
  shows "length (filter p (put_row key r xs)) = length (filter p xs) + (if p r then 1 else 0)"
  using assms by (induction xs) (auto simp: put_row_absent)

text \<open>Deciding a pending request.\<close>

lemma decide_request:
  assumes ok: "loans_ok db" and q: "LoanRequestByID i db = Some q" "lq_Status q = ''pending''"
    and db1: "loan_requests db1 = loan_requests db"
    and run: "SaveLoanRequest (q\<lparr>lq_Status := s\<rparr>) db1 = (res, q', db')" and s: "s \<in> {''approved'', ''rejected''}"
  defines "row \<equiv> q\<lparr>lq_Status := s, lq_Version := lq_Version q + 1\<rparr>"
  shows "res = Inr () \<and> q' = row \<and> db' = db1\<lparr>loan_requests := put_row lq_ID row (loan_requests db)\<rparr> \<and>
    map request_terms (put_row lq_ID row (loan_requests db)) = map request_terms (loan_requests db) \<and>
    (\<forall>x \<in> set (loan_requests db). lq_Status x \<noteq> ''pending'' \<longrightarrow> x \<in> set (put_row lq_ID row (loan_requests db))) \<and>
    (\<forall>x \<in> set (put_row lq_ID row (loan_requests db)). lq_ID x < seq_loan_requests db \<and> request_ok x \<and>
        lq_Status x \<in> {''pending'', ''approved'', ''rejected''}) \<and>
    length (filter (\<lambda>x. lq_Status x = ''approved'') (put_row lq_ID row (loan_requests db))) =
      length (filter (\<lambda>x. lq_Status x = ''approved'') (loan_requests db)) + (if s = ''approved'' then 1 else 0)"
proof -
  have m: "q \<in> set (loan_requests db)" using q(1) find_SomeD [of "\<lambda>q. lq_ID q = i"] by (auto simp: LoanRequestByID_def)
  have row: "lq_ID row = lq_ID q" "request_terms row = request_terms q" "lq_Status row = s"
    by (simp_all add: row_def request_terms_def)
  have uniq: "x = q" if "x \<in> set (loan_requests db)" "lq_ID x = lq_ID q" for x
    using distinct_key_eq [OF loans_okD(1) [OF ok] that(1) m that(2)] .
  have "res = Inr ()" "q' = row" "db' = db1\<lparr>loan_requests := put_row lq_ID row (loan_requests db)\<rparr>"
    using run m by (auto simp: SaveLoanRequest_def Let_def db1 row_def split: if_splits)
  moreover have "map request_terms (put_row lq_ID row (loan_requests db)) = map request_terms (loan_requests db)"
    using uniq row by (intro map_other_put_row) auto
  moreover have "x \<in> set (put_row lq_ID row (loan_requests db))" if "x \<in> set (loan_requests db)" "lq_Status x \<noteq> ''pending''" for x
    using that uniq [of x] q(2) row(1) by (intro in_put_row_other) auto
  moreover have "lq_ID x < seq_loan_requests db \<and> request_ok x \<and> lq_Status x \<in> {''pending'', ''approved'', ''rejected''}"
    if "x \<in> set (put_row lq_ID row (loan_requests db))" for x
    using in_put_rowD [OF that] loans_okD(2) [OF ok] m s row(1) by (auto simp: row_def request_ok_def)
  moreover have "length (filter (\<lambda>x. lq_Status x = ''approved'') (put_row lq_ID row (loan_requests db))) =
      length (filter (\<lambda>x. lq_Status x = ''approved'') (loan_requests db)) + (if s = ''approved'' then 1 else 0)"
    using count_put_row [OF loans_okD(1) [OF ok] m row(1), of "\<lambda>x. lq_Status x = ''approved''"] q(2) by (simp add: row(3))
  ultimately show ?thesis by blast
qed

lemma reject_kept:
  assumes "loans_ok db" "transaction (reject_body i) db = (res, db')"
  shows "loans_ok db' \<and> credit_le db db'"
proof (cases "\<exists>q. LoanRequestByID i db = Some q \<and> lq_Status q = ''pending''")
  case False
  with assms show ?thesis
    by (auto simp: transaction_def reject_body_def credit_le_refl split: option.splits if_splits)
next
  case True
  then obtain q where q: "LoanRequestByID i db = Some q" "lq_Status q = ''pending''" by blast
  obtain r q' d where sv: "SaveLoanRequest (q\<lparr>lq_Status := ''rejected''\<rparr>) db = (r, q', d)" by (rule prod_cases3)
  note k = decide_request [OF assms(1) q refl sv]
  from assms(2) q sv k have "db' = d" by (auto simp: transaction_def reject_body_def)
  with k assms(1) show ?thesis by (auto simp: loans_ok_def credit_le_def schedule_count_def)
qed

text \<open>What a committed approval adds: one loan, its schedule, and the decision.\<close>

definition new_rows :: "credit_env \<Rightarrow> decimal \<Rightarrow> loan_request \<Rightarrow> loan \<Rightarrow> credit_db \<Rightarrow> installment list" where
  "new_rows env rate q l db = number_rows (seq_installments db)
     (map (\<lambda>r. r\<lparr>im_LoanID := ln_ID l\<rparr>) (CreateInstallmentSchedule env (lq_Amount q) rate
        (lq_RepaymentPeriod q) (lq_CurrencyCode q) (Some (midnight (cv_now env)))))"

definition approved_db :: "credit_env \<Rightarrow> decimal \<times> decimal \<times> decimal \<Rightarrow> loan_request \<Rightarrow> loan \<Rightarrow> credit_db \<Rightarrow> credit_db" where
  "approved_db env rates q l db =
     db\<lparr>loans := loans db @ [l], seq_loans := Suc (seq_loans db),
        installments := installments db @ new_rows env (snd (snd rates)) q l db,
        seq_installments := seq_installments db + nat (lq_RepaymentPeriod q),
        loan_requests := put_row lq_ID (q\<lparr>lq_Status := ''approved'', lq_Version := lq_Version q + 1\<rparr>) (loan_requests db)\<rparr>"

lemma new_rows_maps:
  "map im_ID (new_rows env rate q l db) = [seq_installments db..<seq_installments db + nat (lq_RepaymentPeriod q)]"
  "map im_LoanID (new_rows env rate q l db) = replicate (nat (lq_RepaymentPeriod q)) (ln_ID l)"
  "map im_Status (new_rows env rate q l db) = replicate (nat (lq_RepaymentPeriod q)) ''unpaid''"
  "map im_Amount (new_rows env rate q l db) =
     replicate (nat (lq_RepaymentPeriod q)) (installment_amount env (lq_Amount q) rate (lq_RepaymentPeriod q))"
  unfolding new_rows_def number_rows_maps
  by (simp_all add: schedule_rows CreateInstallmentSchedule_def Let_def comp_def map_replicate_const)

lemma new_rows_member:
  assumes "x \<in> set (new_rows env rate q l db)"
  shows "im_ID x \<ge> seq_installments db \<and> im_ID x < seq_installments db + nat (lq_RepaymentPeriod q) \<and>
      im_LoanID x = ln_ID l \<and> im_Status x = ''unpaid''"
  using assms arg_cong [OF new_rows_maps(1), of set env rate q l db] arg_cong [OF new_rows_maps(2), of set env rate q l db]
    arg_cong [OF new_rows_maps(3), of set env rate q l db] by (auto split: if_splits)

lemma approved_db_simps [simp]:
  "loans (approved_db env rates q l db) = loans db @ [l]" "seq_loans (approved_db env rates q l db) = Suc (seq_loans db)"
  "installments (approved_db env rates q l db) = installments db @ new_rows env (snd (snd rates)) q l db"
  "seq_installments (approved_db env rates q l db) = seq_installments db + nat (lq_RepaymentPeriod q)"
  "seq_loan_requests (approved_db env rates q l db) = seq_loan_requests db"
  "loan_requests (approved_db env rates q l db) =
     put_row lq_ID (q\<lparr>lq_Status := ''approved'', lq_Version := lq_Version q + 1\<rparr>) (loan_requests db)"
  by (simp_all add: approved_db_def)

lemma approve_bodyE:
  assumes ok: "loans_ok db" and run: "approve_body env rates i db = Inr (l, db')"
  obtains q where "LoanRequestByID i db = Some q" "lq_Status q = ''pending''"
    "l = (new_loan env rates q)\<lparr>ln_ID := seq_loans db, ln_CreatedAt := cv_now env, ln_Version := 1\<rparr>"
    "ln_LoanNumber l \<notin> ln_LoanNumber ` set (loans db)"
    "db' = approved_db env rates q l db"
proof -
  from run obtain q where q: "LoanRequestByID i db = Some q" "lq_Status q = ''pending''"
    by (auto simp: approve_body_def split: option.splits if_splits)
  define l0 where "l0 = (new_loan env rates q)\<lparr>ln_ID := seq_loans db, ln_CreatedAt := cv_now env, ln_Version := 1\<rparr>"
  have v: "ln_Version (new_loan env rates q) = 0" "ln_LoanNumber l0 = ln_LoanNumber (new_loan env rates q)"
    by (simp_all add: new_loan_def l0_def split: prod.split)
  from run q obtain d1 where c: "CreateLoanRow (cv_now env) (new_loan env rates q) db = Inr (l0, d1)"
    by (auto simp: approve_body_def CreateLoanRow_def Let_def v l0_def split: if_splits)
  then have d1: "d1 = db\<lparr>loans := loans db @ [l0], seq_loans := Suc (seq_loans db)\<rparr>"
    "ln_LoanNumber l0 \<notin> ln_LoanNumber ` set (loans db)"
    by (auto simp: CreateLoanRow_def Let_def v l0_def split: if_splits)
  define rows where "rows = map (\<lambda>r. r\<lparr>im_LoanID := ln_ID l0\<rparr>) (CreateInstallmentSchedule env (lq_Amount q) (snd (snd rates))
            (lq_RepaymentPeriod q) (lq_CurrencyCode q) (Some (midnight (cv_now env))))"
  define d2 where "d2 = CreateInstallmentRows rows d1"
  have len: "length rows = nat (lq_RepaymentPeriod q)" by (simp add: rows_def schedule_rows)
  have d2_rq: "loan_requests d2 = loan_requests db" by (simp add: d2_def CreateInstallmentRows_eq d1)
  obtain r q' d3 where sv: "SaveLoanRequest (q\<lparr>lq_Status := ''approved''\<rparr>) d2 = (r, q', d3)" by (rule prod_cases3)
  note k = decide_request [OF ok q d2_rq sv]
  from run q c sv k have "l = l0" "db' = d3"
    by (auto simp: approve_body_def d2_def rows_def)
  moreover have "d3 = d2\<lparr>loan_requests := put_row lq_ID (q\<lparr>lq_Status := ''approved'', lq_Version := lq_Version q + 1\<rparr>) (loan_requests db)\<rparr>"
    using k by simp
  ultimately show thesis
    using d1 len by (intro that [OF q]) (simp_all add: l0_def [symmetric] d2_def CreateInstallmentRows_eq approved_db_def new_rows_def rows_def [symmetric])
qed

lemma new_loan_ok: "request_ok q \<Longrightarrow> loan_ok (new_loan env rates q)"
  by (auto simp: new_loan_def loan_ok_def request_ok_def split: prod.split)

lemma new_loan_sel:
  "ln_RepaymentPeriod (new_loan env rates q) = lq_RepaymentPeriod q" "ln_Amount (new_loan env rates q) = lq_Amount q"
  "ln_Status (new_loan env rates q) = ''approved''" "ln_AccountNumber (new_loan env rates q) = lq_AccountNumber q"
  "ln_CurrencyCode (new_loan env rates q) = lq_CurrencyCode q" "ln_ClientID (new_loan env rates q) = lq_ClientID q"
  by (auto simp: new_loan_def split: prod.split)

lemma approved_count:
  "schedule_count (approved_db env rates q l db) x =
     schedule_count db x + (if x = ln_ID l then nat (lq_RepaymentPeriod q) else 0)"
  using arg_cong [OF new_rows_maps(2), of "\<lambda>xs. length (filter (\<lambda>j. j = x) xs)" env "snd (snd rates)" q l db]
  by (simp add: schedule_count_def filter_map comp_def)

lemma approved_loans:
  assumes ok: "loans_ok db" and l: "ln_ID l = seq_loans db" "loan_ok l" "ln_RepaymentPeriod l = lq_RepaymentPeriod q"
    and x: "x \<in> set (loans (approved_db env rates q l db))"
  shows "ln_ID x < Suc (seq_loans db) \<and> loan_ok x \<and> schedule_count (approved_db env rates q l db) (ln_ID x) = nat (ln_RepaymentPeriod x)"
proof -
  have none: "schedule_count db (seq_loans db) = 0" using ok by (auto simp: schedule_count_def loans_ok_def filter_empty_conv)
  from x consider "x = l" | "x \<in> set (loans db)" by auto
  then show ?thesis
  proof cases
    case 1
    with l none show ?thesis by (simp add: approved_count)
  next
    case 2
    from loans_okD(4) [OF ok 2] l show ?thesis by (simp add: approved_count)
  qed
qed

lemma approve_body_kept:
  assumes ok: "loans_ok db" and run: "approve_body env rates i db = Inr (l, db')"
  shows "loans_ok db' \<and> credit_le db db' \<and> l \<in> set (loans db')"
proof -
  from approve_bodyE [OF ok run] obtain q where q: "LoanRequestByID i db = Some q" "lq_Status q = ''pending''"
    and l: "l = (new_loan env rates q)\<lparr>ln_ID := seq_loans db, ln_CreatedAt := cv_now env, ln_Version := 1\<rparr>"
    and db': "db' = approved_db env rates q l db" .
  obtain r q' d where sv: "SaveLoanRequest (q\<lparr>lq_Status := ''approved''\<rparr>) db = (r, q', d)" by (rule prod_cases3)
  note k = decide_request [OF ok q refl sv, simplified]
  have req: "request_ok q" using loans_okD(2) [OF ok] q(1) find_in_set by (fastforce simp: LoanRequestByID_def)
  have l': "ln_ID l = seq_loans db" "loan_ok l" "ln_RepaymentPeriod l = lq_RepaymentPeriod q"
    using new_loan_ok [OF req, of env rates] by (simp_all add: l new_loan_sel loan_ok_def)
  have fresh: "seq_loans db \<notin> ln_ID ` set (loans db)" using loans_okD(4) [OF ok] by fastforce
  have rows: "im_ID x < seq_installments db \<and> im_LoanID x < seq_loans db \<and> im_Status x \<in> {''unpaid'', ''overdue'', ''paid''}"
    if "x \<in> set (installments db)" for x using ok that by (simp add: loans_ok_def)
  have "loans_ok db'"
    unfolding loans_ok_def
  proof (intro conjI ballI)
    show "distinct (map ln_ID (loans db'))" using loans_okD(3) [OF ok] fresh by (simp add: db' l')
    show "distinct (map im_ID (installments db'))"
      using ok rows by (fastforce simp: db' loans_ok_def new_rows_maps(1) dest: new_rows_member)
    show "im_ID x < seq_installments db'" "im_LoanID x < seq_loans db'" "im_Status x \<in> {''unpaid'', ''overdue'', ''paid''}"
      if "x \<in> set (installments db')" for x
      using that rows [of x] new_rows_member [of x env "snd (snd rates)" q l db] by (auto simp: db' l')
  qed (use ok k approved_loans [OF ok l'] in \<open>auto simp: loans_ok_def db'\<close>)
  moreover have "credit_le db db'" using k by (auto simp: credit_le_def db')
  ultimately show ?thesis by (simp add: db')
qed

lemma same_loans_sym: "same_loans a b \<Longrightarrow> same_loans b a"
  by (simp add: same_loans_def)

lemma resolve_quiet:
  "resolveMaxLoanApproval parse g e db = (x, db') \<Longrightarrow> same_loans db db' \<and> loan_rates db' = loan_rates db \<and>
     (\<forall>rep. LimitReplicaByID e db = Some rep \<longrightarrow> x = Some (el_MaxLoanApprovalAmount rep))"
  by (auto simp: resolveMaxLoanApproval_def Let_def UpsertLimitReplica_def split: option.splits sum.splits)
    (auto simp: same_loans_def)

text \<open>The approval limit that the replica holds for an employee, when it holds a positive one.\<close>

definition within_limit :: "nat \<Rightarrow> decimal \<Rightarrow> credit_db \<Rightarrow> bool" where
  "within_limit e amount db \<longleftrightarrow>
     (\<forall>rep. e > 0 \<and> LimitReplicaByID e db = Some rep \<and> 0 < el_MaxLoanApprovalAmount rep \<longrightarrow>
        amount \<le> el_MaxLoanApprovalAmount rep)"

lemma credit_keptD: "credit_kept db0 db \<Longrightarrow> loans_ok db"
  by (simp add: credit_kept_def)

lemma approve_loanE:
  assumes run: "approve_loan parse g env i e db = (res, db')"
  obtains (refused) err where "res = Inl err" "same_loans db db'"
  | (approved) q d rates l d' where "LoanRequestByID i db = Some q" "same_loans db d"
      "loan_rates d = loan_rates db" "within_limit e (lq_Amount q) db"
      "GetNominalRateComponents (lq_LoanType q) (lq_InterestType q) (lq_Amount q) (loan_rates d) = Inr rates"
      "approve_body env rates i d = Inr (l, d')" "res = Inr l" "same_loans d' db'"
proof -
  obtain x d where x: "(if e > 0 then resolveMaxLoanApproval parse g e db else (None, db)) = (x, d)" by (rule prod.exhaust)
  have d: "same_loans db d" "loan_rates d = loan_rates db"
    "\<And>rep. e > 0 \<Longrightarrow> LimitReplicaByID e db = Some rep \<Longrightarrow> x = Some (el_MaxLoanApprovalAmount rep)"
    using x resolve_quiet [of parse g e db x d] by (auto split: if_splits)
  show thesis
  proof (cases "\<exists>q. LoanRequestByID i db = Some q \<and> lq_Status q = ''pending''")
    case False
    with run show thesis
      by (intro refused [of "case LoanRequestByID i db of None \<Rightarrow> ErrLoanRequestNotFound | _ \<Rightarrow> ErrLoanRequestNotPending"])
        (auto simp: approve_loan_def split: option.splits)
  next
    case True
    then obtain q where q: "LoanRequestByID i db = Some q" "lq_Status q = ''pending''" by blast
    let ?over = "case x of None \<Rightarrow> False | Some m \<Rightarrow> m > 0 \<and> lq_Amount q > m"
    show thesis
    proof (cases ?over)
      case True
      with run q x d show thesis by (intro refused) (auto simp: approve_loan_def)
    next
      case False
      with d(3) have w: "within_limit e (lq_Amount q) db" by (force simp: within_limit_def)
      show thesis
      proof (cases "GetNominalRateComponents (lq_LoanType q) (lq_InterestType q) (lq_Amount q) (loan_rates d)")
        case (Inl err)
        with run q x d False show thesis by (intro refused) (auto simp: approve_loan_def)
      next
        case (Inr rates)
        show thesis
        proof (rule transaction_cases [of "approve_body env rates i" d])
          fix err assume "approve_body env rates i d = Inl err" "transaction (approve_body env rates i) d = (Inl err, d)"
          with run q x d False Inr show thesis by (intro refused) (auto simp: approve_loan_def)
        next
          fix l d' assume "approve_body env rates i d = Inr (l, d')" "transaction (approve_body env rates i) d = (Inr l, d')"
          with run q x False Inr show thesis by (intro approved [OF q(1) d(1,2) w Inr]) (auto simp: approve_loan_def)
        qed
      qed
    qed
  qed
qed

lemma approve_loan_kept:
  assumes k: "credit_kept db0 db" and run: "approve_loan parse g env i e db = (res, db')"
  shows "credit_kept db0 db' \<and> (\<forall>l. res = Inr l \<longrightarrow> l \<in> set (loans db') \<and> ln_Status l = ''approved'')"
  using run
proof (cases rule: approve_loanE)
  case (refused err)
  with k show ?thesis by (simp add: same_loans_kept)
next
  case (approved q d rates l d')
  from k approved(2) have kd: "credit_kept db0 d" by (simp add: same_loans_kept)
  note kb = approve_body_kept [OF credit_keptD [OF kd] approved(6)]
  then have "credit_kept db0 d'" using credit_keptI [OF kd] by blast
  moreover have "ln_Status l = ''approved''"
    by (rule approve_bodyE [OF credit_keptD [OF kd] approved(6)]) (simp add: new_loan_sel)
  moreover have "loans db' = loans d'" using approved(8) by (simp add: same_loans_def)
  ultimately show ?thesis using kb approved(7,8) by (simp add: same_loans_kept)
qed

section \<open>Disbursement and recovery\<close>

definition disburse_kept :: "credit_db \<Rightarrow> 'w disburse_world \<Rightarrow> bool" where
  "disburse_kept db0 w \<longleftrightarrow> credit_kept db0 (dw_db w) \<and> (\<exists>r \<in> set (loans (dw_db w)). loan_terms r = loan_terms (dw_loan w))"

lemma status_terms: "loan_terms (l\<lparr>ln_Status := s\<rparr>) = loan_terms l"
  by (simp add: loan_terms_def)

lemma UpdateLoan_keeps:
  assumes "credit_kept db0 db" "r \<in> set (loans db)" "loan_terms r = loan_terms l"
    and "ln_Status l \<in> {''approved'', ''active'', ''disbursement_failed''}" "UpdateLoan l db = (res, l', db')"
  shows "credit_kept db0 db' \<and> loan_terms l' = loan_terms l \<and> (\<exists>r \<in> set (loans db'). loan_terms r = loan_terms l)"
  using UpdateLoan_kept [OF credit_keptD [OF assms(1)] assms(2) assms(3) [symmetric] assms(4,5)] credit_keptI [OF assms(1)]
  by blast

lemma on_loan_keeps:
  assumes "disburse_kept db0 w" "s \<in> {''approved'', ''active'', ''disbursement_failed''}"
  shows "disburse_kept db0 (snd (fst (snd (on_loan s ctx ((st, w), n)))))"
proof -
  obtain u l d where u: "UpdateLoan ((dw_loan w)\<lparr>ln_Status := s\<rparr>) (dw_db w) = (u, l, d)" by (rule prod_cases3)
  from assms(1) obtain r where r: "credit_kept db0 (dw_db w)" "r \<in> set (loans (dw_db w))" "loan_terms r = loan_terms (dw_loan w)"
    by (auto simp: disburse_kept_def)
  from UpdateLoan_keeps [OF r(1,2) _ _ u] r(3) assms(2)
  show ?thesis by (simp add: on_loan_def u disburse_kept_def status_terms)
qed

lemma on_accounts_keeps: "disburse_kept db0 w \<Longrightarrow> disburse_kept db0 (snd (fst (snd (on_accounts call ctx ((st, w), n)))))"
  by (simp add: on_accounts_def disburse_kept_def split: prod.split)

lemma disbursement_steps:
  "sg_steps (disbursement_saga fixed4 client bank loan) =
     [debit_bank_step fixed4 bank loan, credit_borrower_step fixed4 client loan, mark_active_step]"
  "sg_id (disbursement_saga fixed4 client bank loan) = disbursement_id loan"
  "sg_recorder (disbursement_saga fixed4 client bank loan) = credit_recorder (ln_ID loan)"
  "sg_retry (disbursement_saga fixed4 client bank loan) = \<lparr>MaxAttempts = 0\<rparr>"
  by (simp_all add: disbursement_saga_def Add_def NewSagaWithID_def debit_bank_step_def credit_borrower_step_def
    mark_active_step_def StepDebitBank_def StepCreditBorrower_def StepMarkLoanActive_def)

lemma disbursement_step_keeps:
  assumes "st \<in> set (sg_steps (disbursement_saga fixed4 client bank loan))"
  shows "step_keeps (disburse_kept db0) ctx st"
  using assms
  by (auto simp: disbursement_steps step_keeps_def debit_bank_step_def credit_borrower_step_def mark_active_step_def
    intro!: on_accounts_keeps on_loan_keeps)

lemma Disburse_keeps:
  assumes "credit_kept db0 db" "loan \<in> set (loans db)" "Disburse fixed4 client bank ctx loan db sdb e = (res, rn)"
  shows "disburse_kept db0 (run_world rn)"
proof (cases "ln_Status loan = ''active''")
  case True
  with assms show ?thesis by (auto simp: Disburse_def disburse_kept_def Let_def)
next
  case False
  with assms(3) have "Execute (disbursement_saga fixed4 client bank loan) ctx
      \<lparr>rn_rec = sdb, rn_events = [], rn_env = ((disbursement_state loan, \<lparr>dw_loan = loan, dw_db = db, dw_acc = fst e\<rparr>), snd e)\<rparr> =
      (res, rn)" by (simp add: Disburse_def Let_def)
  from execute_keeps [of "disbursement_saga fixed4 client bank loan" "disburse_kept db0" ctx,
      OF disbursement_step_keeps [of _ fixed4 client bank loan] _ this]
    assms(1,2) show ?thesis by (auto simp: disburse_kept_def)
qed

lemma ApproveLoanRequest_keeps:
  assumes k: "credit_kept db0 (cy_db s)"
    and run: "ApproveLoanRequest fixed4 parse g client bank env ctx i e s = (res, s')"
  shows "credit_kept db0 (cy_db s')"
proof -
  obtain r d where a: "approve_loan parse g env i e (cy_db s) = (r, d)" by (rule prod.exhaust)
  note ka = approve_loan_kept [OF k a]
  show ?thesis
  proof (cases r)
    case (Inl err)
    with run a ka show ?thesis by (auto simp: ApproveLoanRequest_def)
  next
    case (Inr l)
    obtain dr rn where dr: "Disburse fixed4 client bank ctx l d (cy_sagas s) (cy_acc s) = (dr, rn)" by (rule prod.exhaust)
    from Disburse_keeps [OF _ _ dr] ka Inr have kd: "disburse_kept db0 (run_world rn)" by simp
    obtain u l' d' where u: "UpdateLoan ((dw_loan (run_world rn))\<lparr>ln_Status := ''disbursement_failed''\<rparr>) (dw_db (run_world rn)) = (u, l', d')"
      by (rule prod_cases3)
    from kd obtain x where x: "credit_kept db0 (dw_db (run_world rn))" "x \<in> set (loans (dw_db (run_world rn)))"
      "loan_terms x = loan_terms (dw_loan (run_world rn))" by (auto simp: disburse_kept_def)
    from UpdateLoan_keeps [OF x(1,2) _ _ u] x(3) have "credit_kept db0 d'" by (simp add: status_terms)
    with x(1) run a Inr dr u show ?thesis
      by (cases dr) (auto simp: ApproveLoanRequest_def Let_def split: if_splits)
  qed
qed

lemma LoanByID_D: "LoanByID i db = Some l \<Longrightarrow> l \<in> set (loans db) \<and> ln_ID l = i"
  using find_SomeD [of "\<lambda>l. ln_ID l = i" "loans db" l] by (simp add: LoanByID_def)

lemma retry_stuck_keeps:
  assumes k: "credit_kept db0 db" and run: "RetryStuckCompensation fixed4 client bank loan name (db, w) = (res, db', w')"
  shows "credit_kept db0 db'"
proof (cases "name = StepMarkLoanActive \<and> name \<noteq> StepDebitBank \<and> name \<noteq> StepCreditBorrower")
  case False
  with k run show ?thesis by (auto simp: RetryStuckCompensation_def split: prod.splits if_splits)
next
  case True
  show ?thesis
  proof (cases "LoanByID (ln_ID loan) db")
    case None
    with True k run show ?thesis by (auto simp: RetryStuckCompensation_def)
  next
    case (Some l)
    obtain u l' d where u: "UpdateLoan (l\<lparr>ln_Status := ''disbursement_failed''\<rparr>) db = (u, l', d)" by (rule prod_cases3)
    from UpdateLoan_keeps [OF k _ _ _ u, of l] LoanByID_D [OF Some] have "credit_kept db0 d" by (simp add: status_terms)
    with True Some u run show ?thesis by (auto simp: RetryStuckCompensation_def)
  qed
qed

lemma fold_invariant: "(\<And>x s. x \<in> set xs \<Longrightarrow> P s \<Longrightarrow> P (f x s)) \<Longrightarrow> P s \<Longrightarrow> P (fold f xs s)"
  by (induction xs arbitrary: s) auto

lemma recovery_keeps:
  assumes "credit_kept db0 db" "credit_runRecoveryTick fixed4 client bank (sdb, pub, db, w) = (sdb', pub', db', w')"
  shows "credit_kept db0 db'"
proof -
  have step: "credit_kept db0 (fst (snd (snd (recover_compensation fixed4 client bank row st))))"
    if "credit_kept db0 (fst (snd (snd st)))" for row and st :: "'a credit_recovery"
  proof -
    obtain sd pb d v where st: "st = (sd, pb, d, v)" by (metis prod_cases4)
    show ?thesis
    proof (cases "LoanByID (cl_LoanID row) d")
      case None
      with that show ?thesis by (simp add: st recover_compensation_def credit_MarkDeadLetter_def update_credit_log_def)
    next
      case (Some l)
      obtain r d1 v1 where r: "RetryStuckCompensation fixed4 client bank l (cl_StepName row) (d, v) = (r, d1, v1)"
        by (rule prod_cases3)
      from that st have "credit_kept db0 d" by simp
      from retry_stuck_keeps [OF this r] that Some r show ?thesis
        by (cases r) (simp_all add: st recover_compensation_def credit_MarkDeadLetter_def update_credit_log_def)
    qed
  qed
  have "credit_kept db0 (fst (snd (snd (fold (recover_compensation fixed4 client bank)
      (credit_FindPendingCompensations sdb) (sdb, pub, db, w)))))"
    by (rule fold_invariant [where P = "\<lambda>st. credit_kept db0 (fst (snd (snd st)))"]) (use step assms(1) in auto)
  with assms(2) show ?thesis by (simp add: credit_runRecoveryTick_def)
qed

section \<open>Rates and collection\<close>

text \<open>A loan that was read from the table still has its terms there later on.\<close>

lemma terms_stay:
  assumes "credit_le db db'" "l \<in> set (loans db)"
  shows "\<exists>r \<in> set (loans db'). loan_terms r = loan_terms l"
proof -
  have p: "prefix (map loan_terms (loans db)) (map loan_terms (loans db'))" using assms(1) by (simp add: credit_le_def)
  have "loan_terms l \<in> loan_terms ` set (loans db')" using set_mono_prefix [OF p] assms(2) by auto
  then show ?thesis by (metis imageE)
qed

lemma rate_update_keeps:
  assumes k: "credit_kept db0 db" "r \<in> set (loans db)" "loan_terms r = loan_terms l"
    and "ln_Status l \<in> {''approved'', ''active'', ''disbursement_failed''}"
  shows "credit_kept db0 (snd (transaction (rate_update_body l x y) db))"
proof -
  obtain res d where t: "transaction (rate_update_body l x y) db = (res, d)" by (rule prod.exhaust)
  from rate_update_kept [OF credit_keptD [OF k(1)] k(2) k(3) [symmetric] assms(4) t] credit_keptI [OF k(1)] t
  show ?thesis by simp
qed

lemma late_penalty_keeps:
  assumes "credit_kept db0 db" "r \<in> set (loans db)" "loan_terms r = loan_terms l" "loan_ok l"
  shows "credit_kept db0 (late_penalty env l db)"
proof (cases "ln_InterestType l = ''variable''")
  case True
  then show ?thesis using rate_update_keeps [OF assms(1,2)] assms(3,4)
    by (simp add: late_penalty_def Let_def loan_ok_def loan_terms_def)
qed (use assms in \<open>simp add: late_penalty_def\<close>)

lemma loan_ok_member: "credit_kept db0 db \<Longrightarrow> l \<in> set (loans db) \<Longrightarrow> loan_ok l"
  using loans_okD(4) by (auto simp: credit_kept_def)

lemma update_loan_rate_snd:
  "snd (update_loan_rate env tier l s) =
     (let m = installment_amount env (ln_RemainingDebt l) (it_VariableBase tier + ln_BankMargin l)
                (int (CountUnpaidByLoan (ln_ID l) (snd s)))
      in if CountUnpaidByLoan (ln_ID l) (snd s) = 0 then snd s
         else snd (transaction (rate_update_body (rerated env (it_VariableBase tier) m l) m
                (it_VariableBase tier + ln_BankMargin l)) (snd s)))"
  by (cases s) (auto simp: update_loan_rate_def Let_def split: prod.splits sum.splits)

lemma variable_rate_keeps:
  assumes k: "credit_kept db0 db" and run: "ApplyVariableRateUpdate env t db = (res, db')"
  shows "credit_kept db0 db'"
proof (cases "TierByID t (loan_rates db)")
  case None
  with k run show ?thesis by (simp add: ApplyVariableRateUpdate_def)
next
  case (Some tier)
  let ?ls = "FindActiveVariableLoansInAmountRange (it_AmountFrom tier) (it_AmountTo tier) db"
  let ?P = "\<lambda>s. credit_kept db0 (snd s) \<and> credit_kept db (snd s)"
  have ok: "credit_kept db db" using k by (simp add: credit_kept_def credit_le_refl)
  have "?P (update_loan_rate env tier l s)" if l: "l \<in> set ?ls" and s: "?P s" for l s
  proof -
    have m: "l \<in> set (loans db)" using l by (simp add: FindActiveVariableLoansInAmountRange_def)
    from terms_stay [OF _ m] s obtain r where r: "r \<in> set (loans (snd s))" "loan_terms r = loan_terms l"
      by (auto simp: credit_kept_def)
    have st: "loan_ok l" using loan_ok_member [OF k m] .
    have "loan_terms (rerated env b x l) = loan_terms l" "ln_Status (rerated env b x l) = ln_Status l" for b x
      by (simp_all add: rerated_def Let_def loan_terms_def)
    with rate_update_keeps [OF _ r(1)] s r(2) st show ?thesis
      by (auto simp: update_loan_rate_snd Let_def loan_ok_def)
  qed
  then have "?P (fold (update_loan_rate env tier) ?ls (0, db))"
    by (intro fold_invariant [of _ ?P]) (use k ok in auto)
  with run Some show ?thesis by (auto simp: ApplyVariableRateUpdate_def split: prod.splits)
qed

lemma mail_quiet: "same_loans db (send_failure_mail g l a c d t db)"
  by (auto simp: send_failure_mail_def resolveBorrowerEmail_def split: option.splits sum.splits
    intro: same_loans_trans [OF quiet_writes(5) quiet_writes(2)])

lemma failed_debit_keeps:
  assumes "credit_kept db0 db" "l \<in> set (loans db)"
  shows "credit_kept db0 (failed_debit env g l i a c d t err db)"
proof -
  define db1 where "db1 = notifyInstallment l i ''INSTALLMENT_FAILED'' a t
         (publish_credit (InstallmentFailed (ln_ID l) a err t) (send_failure_mail g l a c d t db))"
  have q: "same_loans db db1"
    unfolding db1_def notifyInstallment_def
    by (rule same_loans_trans [OF same_loans_trans [OF mail_quiet quiet_writes(2)] quiet_writes(2)])
  with assms have "credit_kept db0 db1" "l \<in> set (loans db1)" by (simp_all add: same_loans_kept) (simp add: same_loans_def)
  from late_penalty_keeps [OF this refl loan_ok_member [OF assms]] show ?thesis by (simp add: failed_debit_def db1_def)
qed

lemma settle_keeps:
  assumes "credit_kept db0 db"
  shows "credit_kept db0 (fst (settle_installment tx env client b l i a (db, e)))"
proof -
  obtain r d where m: "MarkPaid (cv_now env) i db = (r, d)" by (rule prod.exhaust)
  have "credit_kept db0 d" using MarkPaid_kept [OF credit_keptD [OF assms] m] credit_keptI [OF assms] by blast
  then show ?thesis using assms m
    by (cases r) (auto simp: settle_installment_def notifyInstallment_def Let_def split: option.splits)
qed

lemma processInstallment_keeps:
  assumes "credit_kept db0 (fst s)"
  shows "credit_kept db0 (fst (processInstallment tx env g client b ctx i l a c d s))"
proof -
  obtain db e where s: "s = (db, e)" by (rule prod.exhaust)
  show ?thesis
  proof (cases "LoanByID l db")
    case None
    with assms show ?thesis by (simp add: s processInstallment_def)
  next
    case (Some ln)
    have k: "credit_kept db0 db" "ln \<in> set (loans db)" using assms LoanByID_D [OF Some] by (simp_all add: s)
    show ?thesis
      using settle_keeps [OF k(1)] failed_debit_keeps [OF k] k(1)
      by (auto simp: s processInstallment_def Some Let_def split: sum.splits prod.splits)
  qed
qed

lemma collect_keeps:
  assumes "credit_kept db0 db"
  shows "credit_kept db0 (fst (collectDueInstallments tx env later g client b ctx (db, e)))"
proof -
  have "credit_kept db0 (MarkOverdue (cv_now env) db)"
    using MarkOverdue_kept [OF credit_keptD [OF assms]] credit_keptI [OF assms] by blast
  then show ?thesis unfolding collectDueInstallments_def Let_def split
    by (intro fold_invariant [of _ "\<lambda>s. credit_kept db0 (fst s)"] processInstallment_keeps) auto
qed

section \<open>All runs\<close>

text \<open>
  One operation of the credit service on its tables. The calls on the account service, the user and client services, the saga log,
  clocks, contexts and random digits are arbitrary in every step.
\<close>

inductive credit_step :: "credit_db \<Rightarrow> credit_db \<Rightarrow> bool" where
  create: "lq_Status q = [] \<Longrightarrow> CreateLoanRequest client now q (db, w :: account_world) = (res, db', w') \<Longrightarrow> credit_step db db'"
| approve: "ApproveLoanRequest fixed4 parse g client bank env ctx i e (s :: account_world credit_system) = (res, s') \<Longrightarrow> credit_step (cy_db s) (cy_db s')"
| reject: "RejectLoanRequest now i author reason db = (res, db') \<Longrightarrow> credit_step db db'"
| configure: "credit_step db (db\<lparr>loan_rates := rs\<rparr>)"
| propagate: "ApplyVariableRateUpdate env t db = (res, db') \<Longrightarrow> credit_step db db'"
| collect: "collectDueInstallments tx env later g client b ctx (db, e :: account_world env) = (db', e') \<Longrightarrow> credit_step db db'"
| recover: "credit_runRecoveryTick fixed4 client bank (sdb, pub, db, w :: account_world) = (sdb', pub', db', w') \<Longrightarrow> credit_step db db'"
| limits: "credit_step db (UpsertLimitReplica r db)"
| clients: "credit_step db (UpsertClientReplica c db)"
| message: "credit_step db (publish_credit m db)"

definition empty_credit_db :: "rate_db \<Rightarrow> credit_db" where
  "empty_credit_db rs =
     \<lparr>loan_rates = rs, loan_requests = [], seq_loan_requests = 1, loans = [], seq_loans = 1, installments = [],
      seq_installments = 1, limit_replicas = [], credit_clients = [], credit_changes = [], credit_messages = []\<rparr>"

lemma create_request_keeps:
  assumes k: "credit_kept db0 db" and q: "lq_Status q = []"
    and run: "CreateLoanRequest client now q (db, w) = (res, db', w')"
  shows "credit_kept db0 db'"
proof (cases "\<exists>row. res = Inr row \<and> CreateLoanRequestRow now q db = (row, db') \<and> request_ok q")
  case True
  then obtain row where "CreateLoanRequestRow now q db = (row, db')" "request_ok q" by blast
  from CreateLoanRequestRow_kept [OF credit_keptD [OF k] this(2) q this(1)] credit_keptI [OF k] show ?thesis by blast
next
  case False
  with run k show ?thesis
    by (auto simp: CreateLoanRequest_def validateRepaymentPeriod_def request_ok_def period_allowed_def
      split: if_splits option.splits prod.splits sum.splits)
qed

lemma reject_keeps:
  assumes "credit_kept db0 db" "RejectLoanRequest now i author reason db = (res, db')"
  shows "credit_kept db0 db'"
proof -
  obtain r d where t: "transaction (reject_body i) db = (r, d)" by (rule prod.exhaust)
  have "credit_kept db0 d" using reject_kept [OF credit_keptD [OF assms(1)] t] credit_keptI [OF assms(1)] by blast
  with assms(2) t show ?thesis by (cases r) (auto simp: RejectLoanRequest_def)
qed

lemma credit_step_keeps: "credit_step db db' \<Longrightarrow> credit_kept db0 db \<Longrightarrow> credit_kept db0 db'"
proof (induction rule: credit_step.induct)
  case (create q client now db w res db' w')
  show ?case by (rule create_request_keeps [OF create(3,1,2)])
next
  case (approve fixed4 parse g client bank env ctx i e s res s')
  show ?case by (rule ApproveLoanRequest_keeps [OF approve(2,1)])
next
  case (reject now i by' reason db res db')
  show ?case by (rule reject_keeps [OF reject(2,1)])
next
  case (propagate env t db res db')
  show ?case by (rule variable_rate_keeps [OF propagate(2,1)])
next
  case (collect tx env later g client b ctx db e db' e')
  from collect_keeps [OF collect(2), of tx env later g client b ctx e] collect(1) show ?case by simp
next
  case (recover fixed4 client bank sdb pub db w sdb' pub' db' w')
  show ?case by (rule recovery_keeps [OF recover(2,1)])
qed simp_all

lemma credit_run_keeps: "credit_step\<^sup>*\<^sup>* db db' \<Longrightarrow> credit_kept db0 db \<Longrightarrow> credit_kept db0 db'"
  by (induction rule: rtranclp_induct) (auto intro: credit_step_keeps)

text \<open>
  C27: loans and requests over any run of the credit service, whatever the other services answer. In every reachable state
  a request has a positive amount and a period its type allows and is pending, approved or rejected; there are as many
  loans as approved requests; a loan has one instalment per month of its period. From there on a decided request stays
  as it is, the terms of a loan stay, among them its remaining debt, which remains the whole amount, instalments keep
  their due dates, and a paid instalment stays paid with its amount.
\<close>

theorem loan_lifecycle:
  assumes "credit_step\<^sup>*\<^sup>* (empty_credit_db rs) db" "credit_step\<^sup>*\<^sup>* db db'"
  shows "loans_ok db \<and> credit_le db db'"
proof -
  have "credit_kept (empty_credit_db rs) (empty_credit_db rs)"
    by (simp add: credit_kept_def credit_le_refl) (simp add: loans_ok_def empty_credit_db_def)
  from credit_run_keeps [OF assms(1) this] have ok: "loans_ok db" by (rule credit_keptD)
  then have "credit_kept db db" by (simp add: credit_kept_def credit_le_refl)
  from credit_run_keeps [OF assms(2) this] ok show ?thesis by (simp add: credit_kept_def)
qed

section \<open>Examples\<close>

definition demo_loan_request :: loan_request where
  "demo_loan_request =
     \<lparr>lq_ID = 0, lq_ClientID = 7, lq_LoanType = ''cash'', lq_InterestType = ''fixed'', lq_Amount = 120000,
      lq_CurrencyCode = ''RSD'', lq_Purpose = [], lq_MonthlySalary = 0, lq_EmploymentStatus = [], lq_EmploymentPeriod = 0,
      lq_RepaymentPeriod = 12, lq_Phone = [], lq_AccountNumber = ''A'', lq_Status = [], lq_Version = 0, lq_CreatedAt = 0\<rparr>"

definition demo_account_client :: "account_world account_client" where
  "demo_account_client =
     \<lparr>ac_UpdateBalance = (\<lambda>_ w. (Inr (), w)),
      ac_GetAccountByNumber = (\<lambda>n w. (Inr \<lparr>ar_AccountNumber = n, ar_OwnerId = 7, ar_AccountCategory = [],
         ar_CurrencyCode = ''RSD'', ar_AvailableBalance = [], ar_DailyLimit = [], ar_MonthlyLimit = [],
         ar_DailySpending = [], ar_MonthlySpending = []\<rparr>, w)),
      ac_ListBankAccounts = (\<lambda>w. (Inr [], w))\<rparr>"

definition demo_credit_db :: credit_db where
  "demo_credit_db = (empty_credit_db (snd (SeedDefaults empty_rates)))
     \<lparr>loan_requests := [demo_loan_request\<lparr>lq_ID := 1, lq_Status := ''pending'', lq_Version := 1\<rparr>], seq_loan_requests := 2\<rparr>"

lemma demo_requested:
  "CreateLoanRequest demo_account_client 0 demo_loan_request (empty_credit_db (snd (SeedDefaults empty_rates)), (Map.empty, empty_db)) =
     (Inr (demo_loan_request\<lparr>lq_ID := 1, lq_Status := ''pending'', lq_Version := 1\<rparr>), demo_credit_db, (Map.empty, empty_db))"
  by (simp add: CreateLoanRequest_def demo_loan_request_def demo_account_client_def validLoanTypes_def validInterestTypes_def
    validateRepaymentPeriod_def allowedRepaymentPeriods_def CreateLoanRequestRow_def Let_def demo_credit_db_def empty_credit_db_def)

lemma demo_credit_reachable: "credit_step\<^sup>*\<^sup>* (empty_credit_db (snd (SeedDefaults empty_rates))) demo_credit_db"
  by (rule r_into_rtranclp, rule create [OF _ demo_requested]) (simp add: demo_loan_request_def)

theorem loan_lifecycle_witness:
  "loans_ok demo_credit_db \<and> length (loan_requests demo_credit_db) = 1 \<and>
   credit_le demo_credit_db (snd (RejectLoanRequest 0 1 9 [] demo_credit_db))"
proof -
  have "credit_step\<^sup>*\<^sup>* demo_credit_db (snd (RejectLoanRequest 0 1 9 [] demo_credit_db))"
    by (rule r_into_rtranclp, rule reject [OF surjective_pairing])
  from loan_lifecycle [OF demo_credit_reachable this] show ?thesis by (simp add: demo_credit_db_def)
qed

end
