(* ===== verification/Loan_Behaviour.thy ===== *)
theory Loan_Behaviour
  imports Loan_Safety
begin

text \<open>
  What single operations of the credit service do: repayment schedules, decisions on requests, and the collection of
  instalments.
\<close>

section \<open>Schedules\<close>

lemma schedule_amounts:
  "map im_Amount (CreateInstallmentSchedule env x r m c d) = replicate (nat m) (installment_amount env x r m)"
  by (simp add: CreateInstallmentSchedule_def Let_def comp_def map_replicate_const)

lemma schedule_dates:
  "i < nat m \<Longrightarrow> im_ExpectedDate (CreateInstallmentSchedule env x r m c (Some t) ! i) = AddDate 0 (int i + 1) 0 t"
  by (simp add: CreateInstallmentSchedule_def Let_def)


definition demo_credit_env :: credit_env where
  "demo_credit_env = \<lparr>cv_now = 1700000000, cv_digits = [1, 2, 3, 4, 5, 6, 7, 8, 9, 0], cv_div = div16, cv_pow = pow16\<rparr>"

lemma demo_monthly_rate: "monthly_rate div16 6 = 5 / 1000"
  by code_simp


section \<open>Decisions\<close>

lemma nominal_components:
  "GetNominalRateComponents t ty a db = Inr rates \<Longrightarrow> GetNominalRate t ty a db = Inr (snd (snd rates))"
  by (auto simp: GetNominalRateComponents_def GetNominalRate_def split: option.splits)

lemma decided_refuses:
  assumes "LoanRequestByID i db = Some q" "lq_Status q \<noteq> ''pending''"
  shows "approve_loan parse g env i e db = (Inl ErrLoanRequestNotPending, db)"
    "RejectLoanRequest now i a r db = (Inl ErrLoanRequestNotPending, db)"
  using assms by (simp_all add: approve_loan_def RejectLoanRequest_def reject_body_def transaction_def)

lemma new_loan_rates:
  "ln_NominalInterestRate (new_loan env rates q) = snd (snd rates)"
  "ln_NextInstallmentAmount (new_loan env rates q) =
     installment_amount env (lq_Amount q) (snd (snd rates)) (lq_RepaymentPeriod q)"
  by (auto simp: new_loan_def split: prod.split)

lemma schedule_of_new_loan:
  assumes ok: "loans_ok d" and run: "approve_body env rates i d = Inr (l, d')"
  shows "map im_Amount (filter (\<lambda>r. im_LoanID r = ln_ID l) (installments d')) =
    replicate (nat (ln_RepaymentPeriod l)) (ln_NextInstallmentAmount l)"
proof -
  from approve_bodyE [OF assms] obtain q where
    l: "l = (new_loan env rates q)\<lparr>ln_ID := seq_loans d, ln_CreatedAt := cv_now env, ln_Version := 1\<rparr>"
    and d': "d' = approved_db env rates q l d" .
  have "filter (\<lambda>r. im_LoanID r = ln_ID l) (installments d) = []"
    using ok by (auto simp: l loans_ok_def filter_empty_conv)
  moreover have "filter (\<lambda>r. im_LoanID r = ln_ID l) (new_rows env (snd (snd rates)) q l d) = new_rows env (snd (snd rates)) q l d"
    by (simp add: filter_id_conv new_rows_member)
  ultimately show ?thesis by (simp add: d' new_rows_maps(4)) (simp add: l new_loan_sel new_loan_rates)
qed

text \<open>
  C28: an approval. When \<^verbatim>\<open>ApproveLoanRequest\<close> commits, the request was pending and within the positive limit that the
  replica holds for the employee; the loan has the amount, period, account, currency and client of the request and the
  configured nominal rate, and exactly one loan and one instalment per month, each of the stored next amount, were
  added. From then on every approval and rejection of that request is refused as not pending and changes nothing.
\<close>

theorem loan_approval:
  assumes ok: "loans_ok db" and run: "approve_loan parse g env i e db = (Inr l, db')"
  shows "\<exists>q. LoanRequestByID i db = Some q \<and> lq_Status q = ''pending'' \<and> within_limit e (lq_Amount q) db \<and>
      ln_Amount l = lq_Amount q \<and> ln_RepaymentPeriod l = lq_RepaymentPeriod q \<and> ln_AccountNumber l = lq_AccountNumber q \<and>
      ln_CurrencyCode l = lq_CurrencyCode q \<and> ln_ClientID l = lq_ClientID q \<and>
      GetNominalRate (lq_LoanType q) (lq_InterestType q) (lq_Amount q) (loan_rates db) = Inr (ln_NominalInterestRate l) \<and>
      loans db' = loans db @ [l] \<and>
      map im_Amount (filter (\<lambda>r. im_LoanID r = ln_ID l) (installments db')) =
        replicate (nat (ln_RepaymentPeriod l)) (ln_NextInstallmentAmount l) \<and>
      (\<forall>parse' g' env' e'. approve_loan parse' g' env' i e' db' = (Inl ErrLoanRequestNotPending, db')) \<and>
      (\<forall>now author reason. RejectLoanRequest now i author reason db' = (Inl ErrLoanRequestNotPending, db'))"
  using run
proof (cases rule: approve_loanE)
  case (approved q d rates l' d')
  have okd: "loans_ok d" using ok approved(2) same_loans_kept [of db d db] by (simp add: credit_kept_def credit_le_refl)
  have l: "l' = l" using approved(7) by simp
  note sched = schedule_of_new_loan [OF okd approved(6)]
  have tabs: "loans db' = loans d'" "installments db' = installments d'" "loan_requests db' = loan_requests d'"
    "loans d = loans db" "LoanRequestByID i d = Some q"
    using approved(1,2,8) by (simp_all add: same_loans_def LoanRequestByID_def)
  show ?thesis
  proof (rule approve_bodyE [OF okd approved(6)])
    fix q' assume q': "LoanRequestByID i d = Some q'" "lq_Status q' = ''pending''"
      and l': "l' = (new_loan env rates q')\<lparr>ln_ID := seq_loans d, ln_CreatedAt := cv_now env, ln_Version := 1\<rparr>"
      and d': "d' = approved_db env rates q' l' d"
    have q: "q' = q" using q'(1) tabs(5) by simp
    have "lq_ID q = i" using tabs(5) find_SomeD [of "\<lambda>q. lq_ID q = i"] by (auto simp: LoanRequestByID_def)
    with tabs(5) have "LoanRequestByID i db' = Some (q\<lparr>lq_Status := ''approved'', lq_Version := lq_Version q + 1\<rparr>)"
      by (simp add: LoanRequestByID_def tabs(3) d' q find_put_row_key)
    note refused = decided_refuses [OF this]
    have new: "ln_Amount l = lq_Amount q" "ln_RepaymentPeriod l = lq_RepaymentPeriod q" "ln_AccountNumber l = lq_AccountNumber q"
      "ln_CurrencyCode l = lq_CurrencyCode q" "ln_ClientID l = lq_ClientID q" "ln_NominalInterestRate l = snd (snd rates)"
      using l' by (simp_all add: l q new_loan_sel new_loan_rates)
    have "loans db' = loans db @ [l]" by (simp add: tabs(1,4) d' l)
    with q'(2) q approved(1,3,4) nominal_components [OF approved(5)] new refused sched l
    show ?thesis by (intro exI [of _ q]) (simp add: tabs(2))
  qed
qed simp

lemma demo_credit_ok: "loans_ok demo_credit_db"
  by (simp add: loans_ok_def demo_credit_db_def empty_credit_db_def demo_loan_request_def request_ok_def period_allowed_def
    allowedRepaymentPeriods_def validInterestTypes_def)

lemma demo_approved: "\<exists>l db'. approve_loan parse g demo_credit_env 1 0 demo_credit_db = (Inr l, db')"
proof -
  have r: "LoanRequestByID 1 demo_credit_db = Some (demo_loan_request\<lparr>lq_ID := 1, lq_Status := ''pending'', lq_Version := 1\<rparr>)"
    by (simp add: LoanRequestByID_def demo_credit_db_def)
  have t: "\<exists>t. FindByAmount 120000 (loan_rates demo_credit_db) = Some t"
    using default_tier [of empty_rates 120000 "''fixed''"]
    by (auto simp: FindByAmount_def find_filter demo_credit_db_def empty_credit_db_def empty_rates_def)
  have m: "\<exists>m. FindByLoanType ''cash'' (loan_rates demo_credit_db) = Some m"
    using default_margin [of empty_rates "''cash''"] by (auto simp: demo_credit_db_def empty_credit_db_def empty_rates_def)
  obtain rates where rates: "GetNominalRateComponents ''cash'' ''fixed'' 120000 (loan_rates demo_credit_db) = Inr rates"
    using t m by (auto simp: GetNominalRateComponents_def)
  have "\<exists>p. approve_body demo_credit_env rates 1 demo_credit_db = Inr p"
    by (simp add: approve_body_def r CreateLoanRow_def SaveLoanRequest_def CreateInstallmentRows_eq Let_def del: One_nat_def)
      (simp add: demo_credit_db_def empty_credit_db_def demo_loan_request_def)
  with r rates show ?thesis
    by (auto simp: approve_loan_def demo_loan_request_def transaction_def split: sum.splits simp del: One_nat_def)
qed

theorem loan_approval_witness:
  "\<exists>l db'. approve_loan (\<lambda>_. None) (\<lambda>_. Inl CtxDone) demo_credit_env 1 0 demo_credit_db = (Inr l, db') \<and>
     loans db' = loans demo_credit_db @ [l]"
  using demo_approved loan_approval [OF demo_credit_ok] by metis

end
