(* ===== verification/Loan_Collection.thy ===== *)
theory Loan_Collection
  imports Loan_Behaviour Tx_Payment_Safety
begin

text \<open>
  What the collection of instalments does to the accounts: the effect of \<^verbatim>\<open>processInstallment\<close> on every balance, whatever
  the account service answers and whether the debit is new or repeated, and which instalments a run takes up at all.
\<close>

section \<open>Balance calls with new and with spent keys\<close>

context balance_port
begin

lemma request_moves:
  assumes ok: "ok w" "rq_UpdateAvailable req" and call: "ac_UpdateBalance client req w = (res, w')"
  shows "case res of Inl _ \<Rightarrow> moved ok unused bal {} (\<lambda>_. 0) w w'
     | Inr _ \<Rightarrow> moved ok unused bal {rq_IdempotencyKey req}
         (\<lambda>n. if n = rq_AccountNumber req \<and> unused (rq_IdempotencyKey req) w then amount_of (rq_Amount req) else 0) w w'"
proof (cases res)
  case (Inl err)
  with refused [OF ok] call show ?thesis by simp
next
  case (Inr u)
  show ?thesis
  proof (cases "unused (rq_IdempotencyKey req) w")
    case True
    with applies [OF ok True] call Inr show ?thesis by (simp cong: if_cong)
  next
    case False
    with replays [OF ok False call] Inr show ?thesis by (simp add: moved_def)
  qed
qed

lemma update_call_moves:
  assumes "ok (fst e)" "update_call client acct x k e = (res, e')"
  shows "case res of Inl _ \<Rightarrow> moved ok unused bal {} (\<lambda>_. 0) (fst e) (fst e')
     | Inr _ \<Rightarrow> moved ok unused bal {k} (\<lambda>n. if n = acct \<and> unused k (fst e) then amount_of x else 0) (fst e) (fst e')"
proof -
  obtain r w where c: "ac_UpdateBalance client (balance_request acct x k) (fst e) = (r, w)" by (rule prod.exhaust)
  with assms(2) have "res = r" "fst e' = w" by (auto simp: update_call_def)
  with request_moves [OF assms(1) _ c] show ?thesis by (cases r) (simp_all cong: if_cong)
qed

lemma retry_update_moves:
  assumes ok: "ok (fst e)"
    and run: "retry_update client DefaultRetryConfig (balance_request acct x k) ctx e = (res, e')"
  shows "case res of Inl _ \<Rightarrow> moved ok unused bal {} (\<lambda>_. 0) (fst e) (fst e')
     | Inr _ \<Rightarrow> moved ok unused bal {k} (\<lambda>n. if n = acct \<and> unused k (fst e) then amount_of x else 0) (fst e) (fst e')"
proof (cases "unused k (fst e)")
  case True
  with retry_moves [OF ok _ _ run] show ?thesis by (cases res) (simp_all cong: if_cong)
next
  case False
  let ?P = "moved ok unused bal {} (\<lambda>_. 0) (fst e)"
  have "case res of Inl _ \<Rightarrow> ?P (fst e') | Inr _ \<Rightarrow> ?P (fst e')"
  proof (rule Retry_rule [OF _ _ _ _ run [unfolded retry_update_def]])
    show "?P (fst e2)" if "?P (fst e1)"
      "(\<lambda>(w, n). case ac_UpdateBalance client (balance_request acct x k) w of (r, w') \<Rightarrow> (r, (w', n))) e1 = (r, e2)" for e1 r e2
    proof -
      from that(2) have c: "ac_UpdateBalance client (balance_request acct x k) (fst e1) = (r, fst e2)"
        by (cases e1) (auto split: prod.splits)
      have "\<not> unused k (fst e1)" using moved_unused [OF that(1)] False by simp
      with replays [OF moved_inv [OF that(1)] _ _ c] show ?thesis by (intro moved_trans [OF that(1)]) auto
    qed
    then show "?P (fst e2)" if "?P (fst e1)"
      "(\<lambda>(w, n). case ac_UpdateBalance client (balance_request acct x k) w of (r, w') \<Rightarrow> (r, (w', n))) e1 = (Inr (), e2)" for e1 e2
      using that by blast
  qed (use ok in \<open>simp_all add: moved_refl DefaultRetryConfig_def\<close>)
  with False show ?thesis by (cases res) (simp_all add: moved_def)
qed


end

section \<open>One instalment\<close>

abbreviation install_key :: "nat \<Rightarrow> string \<Rightarrow> string" where
  "install_key i what \<equiv> (''installment:'' @ itoa i) @ what"

lemma MarkPaid_row:
  assumes "i \<in> im_ID ` set (installments db)"
  obtains db' where "MarkPaid now i db = (Inr (), db')" "\<exists>r \<in> set (installments db'). im_ID r = i \<and> im_Status r = ''paid''"
proof -
  from assms obtain r where "r \<in> set (installments db)" "im_ID r = i" by blast
  then have "r\<lparr>im_Status := ''paid'', im_ActualDate := Some now\<rparr> \<in> set (installments (snd (MarkPaid now i db)))"
    "fst (MarkPaid now i db) = Inr ()"
    by (force simp: MarkPaid_def upd_rows_def)+
  with \<open>im_ID r = i\<close> show thesis
    by (intro that [of "snd (MarkPaid now i db)"] bexI [of _ "r\<lparr>im_Status := ''paid'', im_ActualDate := Some now\<rparr>"])
      (simp_all add: prod_eq_iff)
qed

lemma late_penalty_status:
  "map im_Status (installments (late_penalty env loan db)) = map im_Status (installments db)"
proof -
  have "map im_Status (installments (snd (transaction (rate_update_body l x r) db))) = map im_Status (installments db)" for l x r
    by (auto simp: transaction_def rate_update_body_def UpdateLoan_def Let_def UpdateUnpaidByLoan_def upd_rows_def
      split: sum.splits prod.splits if_splits)
  then show ?thesis by (simp add: late_penalty_def Let_def)
qed

lemma failed_debit_status:
  "map im_Status (installments (failed_debit env gc loan i x cur due dl err db)) = map im_Status (installments db)"
proof -
  have "installments (send_failure_mail gc loan x cur due dl db) = installments db"
    using mail_quiet [of db gc loan x cur due dl] by (simp add: same_loans_def)
  then show ?thesis by (simp add: failed_debit_def late_penalty_status notifyInstallment_def publish_credit_def)
qed

context balance_port
begin

lemma process_moves:
  assumes loan: "LoanByID lid db = Some loan" and inst: "i \<in> im_ID ` set (installments db)"
    and ok: "ok (fst e)" and amt: "tx_parse tx amount = Some a" "amount_of amount = a" "amount_of (''-'' @ amount) = - a"
    and bank: "bank \<noteq> []"
    and keys: "unused (install_key i '':bank-credit'') (fst e)"
      "unused (install_key i '':debit-compensate'') (fst e) = unused (install_key i '':debit'') (fst e)"
    and d: "d = (if unused (install_key i '':debit'') (fst e) then a else 0)"
    and run: "processInstallment tx env gc client bank ctx i lid amount cur due (db, e) = (db', e')"
  shows "ok (fst e') \<and>
    ((\<exists>r \<in> set (installments db'). im_ID r = i \<and> im_Status r = ''paid'') \<and>
       (\<forall>n. bal (fst e') n = bal (fst e) n + (if n = bank then a else 0) - (if n = ln_AccountNumber loan then d else 0)) \<or>
     map im_Status (installments db') = map im_Status (installments db) \<and>
       ((\<forall>n. bal (fst e') n = bal (fst e) n) \<or>
        (\<forall>n. bal (fst e') n = bal (fst e) n - (if n = ln_AccountNumber loan then d else 0))))"
proof -
  let ?acct = "ln_AccountNumber loan" and ?K = "install_key i"
  obtain r1 e1 where r1: "retry_update client DefaultRetryConfig (balance_request ?acct (''-'' @ amount) (?K '':debit'')) ctx e = (r1, e1)"
    by (rule prod.exhaust)
  note m1 = retry_update_moves [OF ok r1, unfolded amt]
  show ?thesis
  proof (cases r1)
    case (Inl err)
    with run r1 loan have "e' = e1" "map im_Status (installments db') = map im_Status (installments db)"
      by (auto simp: processInstallment_def Let_def failed_debit_status)
    with m1 Inl show ?thesis by (simp add: moved_def)
  next
    case (Inr u)
    from m1 Inr have m1': "moved ok unused bal {?K '':debit''} (\<lambda>n. if n = ?acct then - d else 0) (fst e) (fst e1)"
      by (simp add: d cong: if_cong) (auto simp: moved_def)
    then have ok1: "ok (fst e1)" by (rule moved_inv)
    obtain r2 e2 where r2: "update_call client bank amount (?K '':bank-credit'') e1 = (r2, e2)" by (rule prod.exhaust)
    note m2 = update_call_moves [OF ok1 r2]
    have u2: "unused (?K '':bank-credit'') (fst e1)" using moved_unused [OF m1'] keys(1) by simp
    show ?thesis
    proof (cases r2)
      case (Inl err)
      obtain r3 e3 where r3: "update_call client ?acct amount (?K '':debit-compensate'') e2 = (r3, e3)" by (rule prod.exhaust)
      from m2 Inl have m2': "moved ok unused bal {?K '':debit''} (\<lambda>n. if n = ?acct then - d else 0) (fst e) (fst e2)"
        by (intro moved_trans [OF m1']) auto
      from run r1 \<open>r1 = Inr u\<close> loan r2 Inl r3 bank have "db' = db" "e' = e3"
        by (auto simp: processInstallment_def Let_def)
      moreover note update_call_moves [OF moved_inv [OF m2'] r3] moved_unused [OF m2', of "?K '':debit-compensate''"] m2'
      ultimately show ?thesis using keys(2) amt(2) by (cases r3) (auto simp: moved_def d)
    next
      case (Inr v)
      from m2 Inr u2 amt(2) have m2': "moved ok unused bal {?K '':bank-credit''} (\<lambda>n. if n = bank then a else 0) (fst e1) (fst e2)"
        by (simp cong: if_cong)
      obtain db1 where mp: "MarkPaid (cv_now env) i db = (Inr (), db1)"
        "\<exists>r \<in> set (installments db1). im_ID r = i \<and> im_Status r = ''paid''" by (rule MarkPaid_row [OF inst])
      from run r1 \<open>r1 = Inr u\<close> loan r2 Inr bank amt(1) mp(1)
      have "installments db' = installments db1" "e' = e2"
        by (auto simp: processInstallment_def Let_def settle_installment_def notifyInstallment_def publish_credit_def)
      with mp(2) m1' m2' show ?thesis by (auto simp: moved_def)
    qed
  qed
qed

end


section \<open>What a run takes up\<close>

lemma due_in_window:
  assumes "r \<in> set (GetDueInstallments later (MarkOverdue now db))"
  shows "now \<le> im_ExpectedDate r \<and> im_ExpectedDate r \<le> later \<and> im_Status r = ''unpaid'' \<and> r \<in> set (installments db)"
  using assms by (auto simp: GetDueInstallments_def MarkOverdue_def upd_rows_def split: if_splits)


section \<open>Examples\<close>

definition demo_loan :: loan where
  "demo_loan = (new_loan demo_credit_env (6, 1, 7) demo_loan_request)\<lparr>ln_ID := 1\<rparr>"

definition demo_installment :: installment where
  "demo_installment =
     \<lparr>im_ID = 3, im_LoanID = 1, im_Amount = 5, im_InterestRate = 7, im_CurrencyCode = ''RSD'', im_ExpectedDate = 1000,
      im_ActualDate = None, im_Status = ''unpaid'', im_Version = 1\<rparr>"

definition demo_lent_db :: credit_db where
  "demo_lent_db = demo_credit_db\<lparr>loans := [demo_loan], seq_loans := 2, installments := [demo_installment], seq_installments := 4\<rparr>"

definition demo_texts :: credit_texts where
  "demo_texts = \<lparr>tx_fixed4 = StringFixed4 demo_text, tx_parse = NewFromString demo_text, tx_rfc3339 = (\<lambda>_. []), tx_ymd = (\<lambda>_. [])\<rparr>"



end
