(* ===== verification/Loan_Disbursement.thy ===== *)
theory Loan_Disbursement
  imports Loan_Collection
begin

text \<open>
  Disbursement of loans over the account service. The locale \<open>bank_port\<close> is what the disbursement relies on: the balance
  updates of \<open>balance_port\<close> and the debit and credit of the bank's account in one currency. The steps of the saga are
  compensable over it, and it is interpreted on the account service's own RPCs, so the outcome of
  \<^verbatim>\<open>ApproveLoanRequest\<close> is about the composed services.
\<close>

section \<open>The port\<close>

locale bank_port = balance_port client amount_of ok unused bal
  for client :: "'w account_client"
    and amount_of :: "string \<Rightarrow> decimal"
    and ok :: "'w \<Rightarrow> bool"
    and unused :: "string \<Rightarrow> 'w \<Rightarrow> bool"
    and bal :: "'w \<Rightarrow> string \<Rightarrow> decimal" +
  fixes bank :: "'w bank_client"
    and unspent :: "string \<Rightarrow> 'w \<Rightarrow> bool"
    and cur :: string
    and house :: "string option"
  assumes update_spends_none: "ok w \<Longrightarrow> ac_UpdateBalance client upd w = (res, w') \<Longrightarrow> unspent k w' = unspent k w"
    and debit_refused: "ok w \<Longrightarrow> bk_DebitBankAccount bank req w = (Inl err, w') \<Longrightarrow> w' = w"
    and credit_refused: "ok w \<Longrightarrow> bk_CreditBankAccount bank req w = (Inl err, w') \<Longrightarrow> w' = w"
    and debit_applies: "ok w \<Longrightarrow> bq_Currency req = cur \<Longrightarrow> unspent (bq_Reference req) w \<Longrightarrow>
      bk_DebitBankAccount bank req w = (Inr (), w') \<Longrightarrow>
      moved ok unused bal {} (\<lambda>n. if house = Some n then - amount_of (bq_Amount req) else 0) w w' \<and>
      (\<forall>k. k \<noteq> bq_Reference req \<longrightarrow> unspent k w' = unspent k w)"
    and credit_applies: "ok w \<Longrightarrow> bq_Currency req = cur \<Longrightarrow> unspent (bq_Reference req) w \<Longrightarrow>
      bk_CreditBankAccount bank req w = (Inr (), w') \<Longrightarrow>
      moved ok unused bal {} (\<lambda>n. if house = Some n then amount_of (bq_Amount req) else 0) w w' \<and>
      (\<forall>k. k \<noteq> bq_Reference req \<longrightarrow> unspent k w' = unspent k w)"

section \<open>The account service as the port\<close>

definition bank_of :: "string \<Rightarrow> account_db \<Rightarrow> string option" where
  "bank_of cur s = map_option acc_AccountNumber
     (find (\<lambda>a. acc_IsBankAccount a \<and> acc_CurrencyCode a = cur) (live_accounts s))"

definition bank_ok :: "string \<Rightarrow> string option \<Rightarrow> account_world \<Rightarrow> bool" where
  "bank_ok cur house w \<longleftrightarrow> rpc_ok w \<and> bank_of cur (snd w) = house"

definition op_unspent :: "string \<Rightarrow> account_world \<Rightarrow> bool" where
  "op_unspent k w \<longleftrightarrow> (\<forall>op \<in> set (bank_ops (snd w)). op_Reference op \<noteq> k)"

definition account_face :: "account \<Rightarrow> string \<times> string \<times> bool \<times> bool" where
  "account_face a = (acc_AccountNumber a, acc_CurrencyCode a, acc_IsBankAccount a, acc_Deleted a)"

lemma bank_of_face:
  assumes "map account_face (accounts s') = map account_face (accounts s)"
  shows "bank_of cur s' = bank_of cur s"
proof -
  have "map_option acc_AccountNumber (find P (filter Q ys)) = map_option acc_AccountNumber (find P (filter Q xs))"
    if "map account_face ys = map account_face xs"
      and "P = (\<lambda>a. acc_IsBankAccount a \<and> acc_CurrencyCode a = cur)" "Q = (\<lambda>a. \<not> acc_Deleted a)" for xs ys P Q
    using that
  proof (induction xs arbitrary: ys)
    case (Cons x xs)
    then obtain y zs where "ys = y # zs" "account_face y = account_face x" "map account_face zs = map account_face xs" by auto
    moreover from this(2) have "acc_AccountNumber y = acc_AccountNumber x" "acc_CurrencyCode y = acc_CurrencyCode x"
      "acc_IsBankAccount y = acc_IsBankAccount x" "acc_Deleted y = acc_Deleted x" by (simp_all add: account_face_def)
    ultimately show ?case using Cons.IH [of zs] Cons.prems(2,3) by simp
  qed simp
  from this [OF assms refl refl] show ?thesis by (simp add: bank_of_def live_accounts_def)
qed

lemma put_row_face:
  assumes "keys_ok s" "a \<in> set (accounts s)" "same_row a b"
  shows "map account_face (put_row acc_ID b (accounts s)) = map account_face (accounts s)"
proof (rule map_other_put_row)
  fix x assume "x \<in> set (accounts s)" "acc_ID x = acc_ID b"
  with assms have "x = a" by (auto simp: same_row_def dest: keys_okD(1) intro: distinct_key_eq)
  with assms(3) show "account_face x = account_face b" by (simp add: same_row_def account_face_def)
qed

lemma lookup_tables:
  "GetAccountByNumber n s = (r, s') \<Longrightarrow> accounts s' = accounts s \<and> bank_ops s' = bank_ops s"
  by (auto simp: GetAccountByNumber_def split: option.splits)

lemma execute_face:
  assumes ok: "funds_ok s" and run: "executeUpdateBalance parse to_resp req s = (res, s')"
  shows "map account_face (accounts s') = map account_face (accounts s) \<and> bank_ops s' = bank_ops s"
proof -
  define n where "n = rq_AccountNumber req"
  define x where "x = (case parse (rq_Amount req) of None \<Rightarrow> 0 | Some d \<Rightarrow> d)"
  define opts where "opts = \<lparr>ub_Memo = rq_Memo req, ub_IdempotencyKey = rq_IdempotencyKey req\<rparr>"
  obtain r t where ub: "UpdateBalance n x (rq_UpdateAvailable req) opts s = (r, t)" by (rule prod.exhaust)
  obtain r1 s1 where up: "UpdateBalanceWithOpts n x (rq_UpdateAvailable req) opts s = (r1, s1)" by (rule prod.exhaust)
  obtain g s2 where g: "GetAccountByNumber n s1 = (g, s2)" by (rule prod.exhaust)
  have "accounts s' = accounts s1 \<and> bank_ops s' = bank_ops s1"
    using run up g lookup_tables [OF g]
    by (auto simp: executeUpdateBalance_def Let_def n_def [symmetric] x_def [symmetric] opts_def [symmetric]
      split: sum.splits)
  moreover have "accounts s1 = accounts t \<and> bank_ops s1 = bank_ops t"
    using up ub by (auto simp: UpdateBalanceWithOpts_def split: sum.splits)
  moreover from funds_okD(1) [OF ok] ub have "map account_face (accounts t) = map account_face (accounts s) \<and> bank_ops t = bank_ops s"
  proof (cases rule: UpdateBalanceE)
    case (fresh e a)
    from GetByNumberD [OF fresh(3)] have "a \<in> set (accounts s)" by blast
    from put_row_face [OF funds_okD(1) [OF ok] this, of "balance_update x (rq_UpdateAvailable req) a"]
    show ?thesis by (simp add: fresh(7) after_balance_def balance_update_def Let_def same_row_def)
  qed simp_all
  ultimately show ?thesis by simp
qed

lemma rpc_update_face:
  assumes "rpc_ok w" "ac_UpdateBalance (rpc_client owns fixed4 parse blob) req w = (res, w')"
  shows "bank_of cur (snd w') = bank_of cur (snd w) \<and> bank_ops (snd w') = bank_ops (snd w)"
proof -
  obtain tbl s tbl' s' where w: "w = (tbl, s)" "w' = (tbl', s')" by (metis surj_pair)
  from assms(2) [unfolded w] show ?thesis
    by (cases rule: rpc_runs)
      (use assms(1) in \<open>auto simp: w rpc_ok_def dest!: execute_face intro: bank_of_face\<close>)
qed

lemma bank_op_effect:
  assumes ok: "funds_ok s" and x: "0 \<le> x \<longrightarrow> d = (if dir = ''debit'' then - x else x)"
    and op: "applyBankOp round4 cur x ref reason dir s = (Inr out, s')"
    and fresh: "\<forall>o' \<in> set (bank_ops s). op_Reference o' \<noteq> ref"
  shows "funds_ok s' \<and> bank_of cur s' = bank_of cur s \<and>
    (\<forall>n. balance_of s' n = balance_of s n + (if bank_of cur s = Some n then d else 0)) \<and>
    (\<forall>k. key_seen k s' = key_seen k s) \<and>
    (\<forall>k. k \<noteq> ref \<longrightarrow> (\<forall>o' \<in> set (bank_ops s'). op_Reference o' \<noteq> k) = (\<forall>o' \<in> set (bank_ops s). op_Reference o' \<noteq> k))"
  using op
proof (cases rule: applyBankOpE)
  case (ok out')
  note keys = funds_okD(1) [OF assms(1)]
  from ok(3) show ?thesis
  proof (cases rule: bank_op_txE)
    case (replay o')
    with fresh find_SomeD [OF replay(1)] show ?thesis by blast
  next
    case (fresh a d' b e)
    from find_SomeD [OF fresh(2)] have m: "a \<in> set (accounts s)" by (auto simp: live_accounts_iff)
    have row: "same_row a b" by (simp add: fresh(4) same_row_def)
    have d: "d' = d" using fresh(3) x ok(2) by auto
    have house: "bank_of cur s = Some (acc_AccountNumber a)" by (simp add: bank_of_def fresh(2))
    have "bank_of cur s' = bank_of cur s" by (rule bank_of_face) (simp add: fresh(6) put_row_face [OF keys m row])
    moreover have "balance_of s' n = balance_of s n + (if bank_of cur s = Some n then d else 0)" for n
      using balance_of_write [OF keys m row, of s' n] balance_of_member [OF keys m]
      by (auto simp: fresh(4,6) house d)
    moreover have "key_seen k s' = key_seen k s" for k by (auto simp: key_seen_def fresh(5,6))
    moreover have "funds_ok s'" using applyBankOp_keeps [OF assms(1) op] by simp
    ultimately show ?thesis by (auto simp: fresh(6))
  qed
qed simp

lemma rpc_bank_runs:
  assumes "bk_DebitBankAccount (rpc_bank parse round4) req w = (res, w')"
  shows "\<exists>r. DebitBankAccountRPC parse round4 req (snd w) = (r, snd w') \<and> fst w' = fst w \<and> (res = Inr ()) = (\<exists>out. r = Inr out)"
  using assms by (cases w) (auto simp: rpc_bank_def split: prod.splits sum.splits)

lemma rpc_bank_credits:
  assumes "bk_CreditBankAccount (rpc_bank parse round4) req w = (res, w')"
  shows "\<exists>r. CreditBankAccountRPC parse round4 req (snd w) = (r, snd w') \<and> fst w' = fst w \<and> (res = Inr ()) = (\<exists>out. r = Inr out)"
  using assms by (cases w) (auto simp: rpc_bank_def split: prod.splits sum.splits)

lemma bank_rpc_cases:
  assumes "DebitBankAccountRPC parse round4 req s = (r, s') \<and> dir = ''debit'' \<or>
      CreditBankAccountRPC parse round4 req s = (r, s') \<and> dir = ''credit''"
  obtains (refused) err where "r = Inl err" "s' = s"
  | (posted) x out where "r = Inr out" "parse (bq_Amount req) = Some x"
      "applyBankOp round4 (bq_Currency req) x (bq_Reference req) (bq_Reason req) dir s = (Inr out, s')"
proof (cases "parse (bq_Amount req)")
  case None
  with assms refused show thesis
    by (auto simp: DebitBankAccountRPC_def CreditBankAccountRPC_def DebitBankAccount_def CreditBankAccount_def)
next
  case (Some x)
  obtain r0 s0 where op: "applyBankOp round4 (bq_Currency req) x (bq_Reference req) (bq_Reason req) dir s = (r0, s0)"
    by (rule prod.exhaust)
  with assms Some have eq: "s' = s0" "(\<exists>err. r0 = Inl err \<and> (\<exists>err'. r = Inl err')) \<or> r = r0"
    by (auto simp: DebitBankAccountRPC_def CreditBankAccountRPC_def DebitBankAccount_def CreditBankAccount_def
      DebitBank_def CreditBank_def split: sum.splits)
  from op show thesis
  proof (cases rule: applyBankOpE)
    case (error e)
    with eq refused show thesis by auto
  next
    case (ok out)
    with eq op Some posted show thesis by auto
  qed
qed

lemma bank_rpc_moves:
  assumes ok: "bank_ok cur house w" and req: "bq_Currency req = cur" "op_unspent (bq_Reference req) w"
    and run: "DebitBankAccountRPC parse round4 req (snd w) = (Inr out, snd w') \<and> dir = ''debit'' \<or>
      CreditBankAccountRPC parse round4 req (snd w) = (Inr out, snd w') \<and> dir = ''credit''" and tbl: "fst w' = fst w"
    and d: "d = (if dir = ''debit'' then - read_amount parse (bq_Amount req) else read_amount parse (bq_Amount req))"
  shows "moved (bank_ok cur house) rpc_unused rpc_balance {} (\<lambda>n. if house = Some n then d else 0) w w' \<and>
      (\<forall>k. k \<noteq> bq_Reference req \<longrightarrow> op_unspent k w' = op_unspent k w)"
  using run
proof (cases rule: bank_rpc_cases)
  case (posted x out')
  have f: "funds_ok (snd w)" using ok by (simp add: bank_ok_def rpc_ok_def)
  have "0 \<le> x \<longrightarrow> d = (if dir = ''debit'' then - x else x)" using d by (simp add: read_amount_def posted(2))
  from bank_op_effect [OF f this posted(3)] req have e: "funds_ok (snd w') \<and> bank_of cur (snd w') = bank_of cur (snd w) \<and>
    (\<forall>n. balance_of (snd w') n = balance_of (snd w) n + (if bank_of cur (snd w) = Some n then d else 0)) \<and>
    (\<forall>k. key_seen k (snd w') = key_seen k (snd w)) \<and>
    (\<forall>k. k \<noteq> bq_Reference req \<longrightarrow> (\<forall>o' \<in> set (bank_ops (snd w')). op_Reference o' \<noteq> k) =
       (\<forall>o' \<in> set (bank_ops (snd w)). op_Reference o' \<noteq> k))"
    by (simp add: op_unspent_def)
  with ok tbl show ?thesis by (simp add: moved_def bank_ok_def rpc_ok_def rpc_unused_def rpc_balance_def op_unspent_def)
qed simp

lemma rpc_moved_bank:
  assumes "bank_ok cur house w" "moved rpc_ok rpc_unused rpc_balance K d w w'" "bank_of cur (snd w') = bank_of cur (snd w)"
  shows "moved (bank_ok cur house) rpc_unused rpc_balance K d w w'"
  using assms by (simp add: moved_def bank_ok_def)

lemma rpc_reads_face:
  "ac_GetAccountByNumber (rpc_client owns fixed4 parse blob) acct w = (got, w') \<Longrightarrow> accounts (snd w') = accounts (snd w)"
  "ac_ListBankAccounts (rpc_client owns fixed4 parse blob) w = (listed, w') \<Longrightarrow> w' = w"
  by (cases w; auto simp: rpc_client_def GetAccountByNumberRPC_def ListBankAccountsRPC_def
    dest: lookup_tables split: sum.splits prod.splits if_splits)+

interpretation bank_rpc: bank_port "rpc_client owns fixed4 parse blob" "read_amount parse" "bank_ok cur house" rpc_unused rpc_balance
  "rpc_bank parse round4" op_unspent cur house
  for owns fixed4 parse blob round4 cur house
proof (unfold_locales, goal_cases)
  case (1 w req err w')
  from 1(1) have ok: "rpc_ok w" by (simp add: bank_ok_def)
  from rpc_moved_bank [OF 1(1) rpc.refused [OF ok 1(2,3)]] rpc_update_face [OF ok 1(3)] show ?case by blast
next
  case (2 w req w')
  from 2(1) have ok: "rpc_ok w" by (simp add: bank_ok_def)
  from rpc_moved_bank [OF 2(1) rpc.applies [OF ok 2(2-4)]] rpc_update_face [OF ok 2(4)] show ?case by blast
next
  case (3 w req res w')
  from 3(1) have ok: "rpc_ok w" by (simp add: bank_ok_def)
  from rpc_moved_bank [OF 3(1) rpc.replays [OF ok 3(2-4)]] rpc_update_face [OF ok 3(4)] show ?case by blast
next
  case (4 w acct got w')
  from 4(1) have ok: "rpc_ok w" by (simp add: bank_ok_def)
  from rpc_moved_bank [OF 4(1) rpc.lookup_reads [OF ok 4(2)]] rpc_reads_face(1) [OF 4(2)] bank_of_face show ?case by metis
next
  case (5 w listed w')
  from rpc_reads_face(2) [OF 5(2)] 5(1) show ?case by (simp add: moved_refl)
next
  case (6 w upd res w' k)
  from 6(1) have "rpc_ok w" by (simp add: bank_ok_def)
  from rpc_update_face [OF this 6(2)] show ?case by (simp add: op_unspent_def)
next
  case (7 w req err w')
  from rpc_bank_runs [OF 7(2)] obtain r where r: "DebitBankAccountRPC parse round4 req (snd w) = (r, snd w')" "fst w' = fst w" "\<forall>out. r \<noteq> Inr out"
    by auto
  from disjI1 [OF conjI [OF r(1) refl]] show ?case by (cases rule: bank_rpc_cases) (use r in \<open>auto intro: prod_eqI\<close>)
next
  case (8 w req err w')
  from rpc_bank_credits [OF 8(2)] obtain r where r: "CreditBankAccountRPC parse round4 req (snd w) = (r, snd w')" "fst w' = fst w" "\<forall>out. r \<noteq> Inr out"
    by auto
  from disjI2 [OF conjI [OF r(1) refl]] show ?case by (cases rule: bank_rpc_cases) (use r in \<open>auto intro: prod_eqI\<close>)
next
  case (9 w req w')
  from rpc_bank_runs [OF 9(4)] obtain out where "DebitBankAccountRPC parse round4 req (snd w) = (Inr out, snd w')" "fst w' = fst w"
    by auto
  from bank_rpc_moves [OF 9(1-3) disjI1 [OF conjI [OF this(1) refl]] this(2) refl] show ?case by (simp cong: if_cong)
next
  case (10 w req w')
  from rpc_bank_credits [OF 10(4)] obtain out where "CreditBankAccountRPC parse round4 req (snd w) = (Inr out, snd w')" "fst w' = fst w"
    by auto
  from bank_rpc_moves [OF 10(1-3) disjI2 [OF conjI [OF this(1) refl]] this(2) refl] show ?case by (simp cong: if_cong)
qed

section \<open>The steps\<close>

datatype disburse_step = DDebit | DCredit | DMark

definition disburse_mk ::
  "(decimal \<Rightarrow> string) \<Rightarrow> 'w account_client \<Rightarrow> 'w bank_client \<Rightarrow> loan \<Rightarrow> disburse_step \<Rightarrow> (state_val, 'w disburse_world) step" where
  "disburse_mk fixed4 client bank loan p =
     (case p of DDebit \<Rightarrow> debit_bank_step fixed4 bank loan | DCredit \<Rightarrow> credit_borrower_step fixed4 client loan
      | DMark \<Rightarrow> mark_active_step)"

definition disburse_unused ::
  "(string \<Rightarrow> 'w \<Rightarrow> bool) \<Rightarrow> (string \<Rightarrow> 'w \<Rightarrow> bool) \<Rightarrow> loan \<Rightarrow> string \<Rightarrow> 'w disburse_world \<Rightarrow> bool" where
  "disburse_unused unused unspent loan k w =
     (if k \<in> {disbursement_id loan @ '':debit'', disbursement_id loan @ '':debit-comp''} then unspent k (dw_acc w)
      else k \<in> {''mark'', ''unmark''} \<or> unused k (dw_acc w))"

definition forward_key :: "loan \<Rightarrow> disburse_step \<Rightarrow> string" where
  "forward_key loan p =
     (case p of DDebit \<Rightarrow> disbursement_id loan @ '':debit'' | DCredit \<Rightarrow> disbursement_id loan @ '':credit'' | DMark \<Rightarrow> ''mark'')"

definition backward_key :: "loan \<Rightarrow> disburse_step \<Rightarrow> string" where
  "backward_key loan p =
     (case p of DDebit \<Rightarrow> disbursement_id loan @ '':debit-comp'' | DCredit \<Rightarrow> disbursement_id loan @ '':credit-comp''
      | DMark \<Rightarrow> ''unmark'')"

definition step_moves :: "string option \<Rightarrow> string \<Rightarrow> decimal \<Rightarrow> disburse_step \<Rightarrow> string \<Rightarrow> decimal" where
  "step_moves house acct x p n =
     (case p of DDebit \<Rightarrow> if house = Some n then - x else 0 | DCredit \<Rightarrow> if n = acct then x else 0 | DMark \<Rightarrow> 0)"

lemma disburse_keys_distinct:
  "distinct (map (forward_key loan) [DDebit, DCredit, DMark] @ map (backward_key loan) [DDebit, DCredit, DMark])"
  by (simp add: forward_key_def backward_key_def disbursement_id_def)

context bank_port
begin

lemma on_update_moves:
  assumes ok: "ok (dw_acc w)" and k: "k \<notin> {disbursement_id loan @ '':debit'', disbursement_id loan @ '':debit-comp'', ''mark'', ''unmark''}"
    and run: "on_accounts (ac_UpdateBalance client (balance_request acct x k)) ctx ((st, w), n) = (res, ((st', w'), n'))"
  shows "case res of Inl _ \<Rightarrow> moved (\<lambda>w. ok (dw_acc w)) (disburse_unused unused unspent loan) (\<lambda>w. bal (dw_acc w)) {} (\<lambda>_. 0) w w'
    | Inr _ \<Rightarrow> disburse_unused unused unspent loan k w \<longrightarrow>
        moved (\<lambda>w. ok (dw_acc w)) (disburse_unused unused unspent loan) (\<lambda>w. bal (dw_acc w)) {k}
          (\<lambda>n. if n = acct then amount_of x else 0) w w'"
proof -
  obtain r a where c: "ac_UpdateBalance client (balance_request acct x k) (dw_acc w) = (r, a)" by (rule prod.exhaust)
  from run c have w': "w' = w\<lparr>dw_acc := a\<rparr>" "res = r" by (auto simp: on_accounts_def)
  have "unspent k' a = unspent k' (dw_acc w)" for k' using update_spends_none [OF ok c] .
  with request_moves [OF ok _ c] k show ?thesis
    by (cases r) (auto simp: w' moved_def disburse_unused_def)
qed

lemma on_bank_moves:
  assumes ok: "ok (dw_acc w)" and k: "k \<in> {disbursement_id loan @ '':debit'', disbursement_id loan @ '':debit-comp''}"
    and refused: "\<And>v err v'. ok v \<Longrightarrow> call v = (Inl err, v') \<Longrightarrow> v' = v"
    and applies: "\<And>v v'. ok v \<Longrightarrow> unspent k v \<Longrightarrow> call v = (Inr (), v') \<Longrightarrow>
      moved ok unused bal {} (\<lambda>n. if house = Some n then x else 0) v v' \<and> (\<forall>k'. k' \<noteq> k \<longrightarrow> unspent k' v' = unspent k' v)"
    and run: "on_accounts call ctx ((st, w), n) = (res, ((st', w'), n'))"
  shows "case res of Inl _ \<Rightarrow> moved (\<lambda>w. ok (dw_acc w)) (disburse_unused unused unspent loan) (\<lambda>w. bal (dw_acc w)) {} (\<lambda>_. 0) w w'
    | Inr _ \<Rightarrow> disburse_unused unused unspent loan k w \<longrightarrow>
        moved (\<lambda>w. ok (dw_acc w)) (disburse_unused unused unspent loan) (\<lambda>w. bal (dw_acc w)) {k}
          (\<lambda>n. if house = Some n then x else 0) w w'"
proof -
  obtain r a where c: "call (dw_acc w) = (r, a)" by (rule prod.exhaust)
  from run c have w': "w' = w\<lparr>dw_acc := a\<rparr>" "res = r" by (auto simp: on_accounts_def)
  show ?thesis
  proof (cases r)
    case (Inl err)
    with refused [OF ok] c ok show ?thesis by (simp add: w' moved_refl)
  next
    case (Inr u)
    have "moved (\<lambda>w. ok (dw_acc w)) (disburse_unused unused unspent loan) (\<lambda>w. bal (dw_acc w)) {k}
        (\<lambda>n. if house = Some n then x else 0) w (w\<lparr>dw_acc := a\<rparr>)" if "disburse_unused unused unspent loan k w"
    proof -
      from that k have "unspent k (dw_acc w)" by (auto simp: disburse_unused_def)
      from applies [OF ok this] c Inr have m: "moved ok unused bal {} (\<lambda>n. if house = Some n then x else 0) (dw_acc w) a"
        "\<forall>k'. k' \<noteq> k \<longrightarrow> unspent k' a = unspent k' (dw_acc w)" by simp_all
      from m(1) have "ok a" "\<forall>n. bal a n = bal (dw_acc w) n + (if house = Some n then x else 0)"
        "\<forall>k'. unused k' a = unused k' (dw_acc w)" by (simp_all add: moved_def)
      with m(2) show ?thesis by (simp add: moved_def disburse_unused_def)
    qed
    then show ?thesis by (simp add: w' Inr)
  qed
qed

lemma bank_request_sel:
  "bq_Currency (bank_request fixed4 loan k reason) = ln_CurrencyCode loan"
  "bq_Amount (bank_request fixed4 loan k reason) = fixed4 (ln_Amount loan)"
  "bq_Reference (bank_request fixed4 loan k reason) = disbursement_id loan @ k"
  by (simp_all add: bank_request_def)

lemma bank_step_moves:
  assumes ok: "ok (dw_acc w)" and loan: "ln_CurrencyCode loan = cur"
    and k: "k \<in> {'':debit'', '':debit-comp''}"
  shows "on_accounts (bk_DebitBankAccount bank (bank_request fixed4 loan k reason)) ctx ((st, w), n) = (res, ((st', w'), n')) \<Longrightarrow>
      case res of Inl _ \<Rightarrow> moved (\<lambda>w. ok (dw_acc w)) (disburse_unused unused unspent loan) (\<lambda>w. bal (dw_acc w)) {} (\<lambda>_. 0) w w'
      | Inr _ \<Rightarrow> disburse_unused unused unspent loan (disbursement_id loan @ k) w \<longrightarrow>
          moved (\<lambda>w. ok (dw_acc w)) (disburse_unused unused unspent loan) (\<lambda>w. bal (dw_acc w)) {disbursement_id loan @ k}
            (\<lambda>n. if house = Some n then - amount_of (fixed4 (ln_Amount loan)) else 0) w w'" (is "PROP ?A")
    and "on_accounts (bk_CreditBankAccount bank (bank_request fixed4 loan k reason)) ctx ((st, w), n) = (res, ((st', w'), n')) \<Longrightarrow>
      case res of Inl _ \<Rightarrow> moved (\<lambda>w. ok (dw_acc w)) (disburse_unused unused unspent loan) (\<lambda>w. bal (dw_acc w)) {} (\<lambda>_. 0) w w'
      | Inr _ \<Rightarrow> disburse_unused unused unspent loan (disbursement_id loan @ k) w \<longrightarrow>
          moved (\<lambda>w. ok (dw_acc w)) (disburse_unused unused unspent loan) (\<lambda>w. bal (dw_acc w)) {disbursement_id loan @ k}
            (\<lambda>n. if house = Some n then amount_of (fixed4 (ln_Amount loan)) else 0) w w'" (is "PROP ?B")
proof -
  have key: "disbursement_id loan @ k \<in> {disbursement_id loan @ '':debit'', disbursement_id loan @ '':debit-comp''}" using k by auto
  note laws = debit_applies [of _ "bank_request fixed4 loan k reason", unfolded bank_request_sel loan, OF _ refl]
    credit_applies [of _ "bank_request fixed4 loan k reason", unfolded bank_request_sel loan, OF _ refl]
  show "PROP ?A" by (rule on_bank_moves [OF ok key debit_refused laws(1)])
  show "PROP ?B" by (rule on_bank_moves [OF ok key credit_refused laws(2)])
qed

lemma on_loan_moves:
  assumes "ok (dw_acc w)" "on_loan status ctx ((st, w), n) = (res, ((st', w'), n'))"
  shows "moved (\<lambda>w. ok (dw_acc w)) (disburse_unused unused unspent loan) (\<lambda>w. bal (dw_acc w)) K (\<lambda>_. 0) w w'"
  using assms by (auto simp: on_loan_def moved_def disburse_unused_def split: prod.splits)

lemma disbursement_compensable:
  assumes loan: "ln_CurrencyCode loan = cur"
    and neg: "amount_of (fixed4 (- ln_Amount loan)) = - amount_of (fixed4 (ln_Amount loan))"
    and x: "x = amount_of (fixed4 (ln_Amount loan))"
  shows "compensable (disburse_mk fixed4 client bank loan) (\<lambda>w. ok (dw_acc w)) (disburse_unused unused unspent loan)
     (\<lambda>w. bal (dw_acc w)) (step_moves house (ln_AccountNumber loan) x) (\<lambda>p n. - step_moves house (ln_AccountNumber loan) x p n)
     (forward_key loan) (backward_key loan)"
proof -
  note defs = disburse_mk_def debit_bank_step_def credit_borrower_step_def mark_active_step_def
  have keys: "disbursement_id loan @ '':credit'' \<notin> {disbursement_id loan @ '':debit'', disbursement_id loan @ '':debit-comp'', ''mark'', ''unmark''}"
    "disbursement_id loan @ '':credit-comp'' \<notin> {disbursement_id loan @ '':debit'', disbursement_id loan @ '':debit-comp'', ''mark'', ''unmark''}"
    by (simp_all add: disbursement_id_def)
  let ?moved = "moved (\<lambda>w. ok (dw_acc w)) (disburse_unused unused unspent loan) (\<lambda>w. bal (dw_acc w))"
    and ?d = "step_moves house (ln_AccountNumber loan) x" and ?u = "disburse_unused unused unspent loan"
  have undo: "(\<lambda>n. - ?d DDebit n) = (\<lambda>n. if house = Some n then x else 0)" "(\<lambda>n. - ?d DCredit n) = (\<lambda>n. if n = ln_AccountNumber loan then - x else 0)"
    "(\<lambda>n. - ?d DMark n) = (\<lambda>_. 0)" "?d DMark = (\<lambda>_. 0)" "?d DDebit = (\<lambda>n. if house = Some n then - x else 0)"
    "?d DCredit = (\<lambda>n. if n = ln_AccountNumber loan then x else 0)"
    by (auto simp: step_moves_def)
  have fwd: "case res of Inl _ \<Rightarrow> ?moved {} (\<lambda>_. 0) w w' | Inr _ \<Rightarrow> ?u (forward_key loan p) w \<longrightarrow> ?moved {forward_key loan p} (?d p) w w'"
    if "st_Forward (disburse_mk fixed4 client bank loan p) = Some f" "ok (dw_acc w)" "f ctx ((st, w), n) = (res, ((st', w'), n'))"
    for p f w ctx st n res st' w' n'
  proof (cases p)
    case DDebit
    with that(1,3) have "on_accounts (bk_DebitBankAccount bank (bank_request fixed4 loan '':debit''
        (''loan '' @ itoa (ln_ID loan) @ '' disbursement''))) ctx ((st, w), n) = (res, ((st', w'), n'))" by (simp add: defs)
    from bank_step_moves(1) [OF that(2) loan _ this] show ?thesis by (cases res) (simp_all add: DDebit undo forward_key_def x [symmetric] cong: if_cong)
  next
    case DCredit
    with that(1,3) have "on_accounts (ac_UpdateBalance client (balance_request (ln_AccountNumber loan) (fixed4 (ln_Amount loan))
        (disbursement_id loan @ '':credit''))) ctx ((st, w), n) = (res, ((st', w'), n'))" by (simp add: defs)
    from on_update_moves [OF that(2) keys(1) this] show ?thesis by (cases res) (simp_all add: DCredit undo forward_key_def x [symmetric] cong: if_cong)
  next
    case DMark
    with that(1,3) have "on_loan ''active'' ctx ((st, w), n) = (res, ((st', w'), n'))" by (simp add: defs)
    from on_loan_moves [OF that(2) this] show ?thesis by (cases res) (simp_all add: DMark undo)
  qed
  have bwd: "case res of Inl _ \<Rightarrow> ?moved {} (\<lambda>_. 0) w w'
      | Inr _ \<Rightarrow> ?u (backward_key loan p) w \<longrightarrow> ?moved {backward_key loan p} (\<lambda>n. - ?d p n) w w'"
    if "st_Backward (disburse_mk fixed4 client bank loan p) = Some f" "ok (dw_acc w)" "f ctx ((st, w), n) = (res, ((st', w'), n'))"
    for p f w ctx st n res st' w' n'
  proof (cases p)
    case DDebit
    with that(1,3) have "on_accounts (bk_CreditBankAccount bank (bank_request fixed4 loan '':debit-comp''
        (''loan '' @ itoa (ln_ID loan) @ '' disbursement compensation''))) ctx ((st, w), n) = (res, ((st', w'), n'))" by (simp add: defs)
    from bank_step_moves(2) [OF that(2) loan _ this] show ?thesis by (cases res) (simp_all add: DDebit undo(1) backward_key_def x [symmetric] cong: if_cong)
  next
    case DCredit
    with that(1,3) have "on_accounts (ac_UpdateBalance client (balance_request (ln_AccountNumber loan) (fixed4 (- ln_Amount loan))
        (disbursement_id loan @ '':credit-comp''))) ctx ((st, w), n) = (res, ((st', w'), n'))" by (simp add: defs)
    from on_update_moves [OF that(2) keys(2) this] show ?thesis
      by (cases res) (simp_all add: DCredit undo(2) backward_key_def neg x [symmetric] cong: if_cong)
  next
    case DMark
    with that(1,3) have "on_loan ''disbursement_failed'' ctx ((st, w), n) = (res, ((st', w'), n'))" by (simp add: defs)
    from on_loan_moves [OF that(2) this] show ?thesis by (cases res) (simp_all add: DMark undo(3))
  qed
  show ?thesis
    by unfold_locales
      (use fwd [where res = "Inl _"] fwd [where res = "Inr ()"] bwd [where res = "Inl _"] bwd [where res = "Inr ()"] in
        \<open>auto simp: defs split: disburse_step.splits\<close>)
qed

end

section \<open>The saga log\<close>

definition credit_saga_ok :: "credit_saga_db \<Rightarrow> bool" where
  "credit_saga_ok db \<longleftrightarrow> (\<forall>l \<in> set (credit_logs db). cl_ID l < seq_credit_logs db)"

text \<open>A compensation that did not go through leaves its row open for the recovery.\<close>

definition credit_open :: "string \<Rightarrow> credit_saga_db \<Rightarrow> bool" where
  "credit_open sid db \<longleftrightarrow> (\<exists>l \<in> set (credit_logs db). cl_SagaID l = sid \<and> cl_Status l = ''compensating'')"

lemma update_credit_log_rows:
  "credit_logs (snd (update_credit_log i f db)) = upd_rows (\<lambda>l. cl_ID l = i) f (credit_logs db)"
  "seq_credit_logs (snd (update_credit_log i f db)) = seq_credit_logs db"
  by (simp_all add: update_credit_log_def)

lemmas credit_recorder_defs = credit_recorder_def credit_CompleteStep_def credit_FailStep_def credit_SetErrorMessage_def
  update_credit_log_rows

interpretation loan_log: saga_table "credit_recorder loanID" credit_logs seq_credit_logs cl_ID cl_SagaID cl_StepName cl_Status
  cl_IsCompensation credit_saga_ok credit_open for loanID
proof (unfold_locales, goal_cases)
  case (5 h r)
  show ?case by (rule exI [of _ "\<lambda>l. l\<lparr>cl_Status := ''completed'', cl_CompletedAt := Some (credit_now r)\<rparr>"]) (simp add: credit_recorder_defs)
next
  case (6 h err r)
  show ?case by (rule exI [of _ "\<lambda>l. l\<lparr>cl_Status := ''failed'', cl_ErrorMessage := Some err\<rparr>"]) (simp add: credit_recorder_defs)
next
  case (7 h r)
  show ?case by (rule exI [of _ "\<lambda>l. l\<lparr>cl_Status := ''completed'', cl_CompletedAt := Some (credit_now r)\<rparr>"]) (simp add: credit_recorder_defs)
next
  case (8 h err r)
  show ?case by (rule exI [of _ "\<lambda>l. l\<lparr>cl_ErrorMessage := Some err\<rparr>"]) (simp add: credit_recorder_defs)
next
  case (9 sid n r)
  show ?case by (simp add: credit_recorder_def credit_IsForwardCompleted_def filter_empty_conv) blast
qed (simp_all add: credit_saga_ok_def credit_open_def credit_recorder_def credit_RecordForward_def credit_RecordCompensation_def
  credit_RecordStep_def credit_buildRow_def SagaStatusCompensating_def Let_def)

section \<open>The last step\<close>

context recorder_port
begin

text \<open>A saga without earlier records that returns nil ran its last step, and the world is what that step left.\<close>

lemma loop_runs_last:
  assumes "step_loop s ctx i (sts @ [st]) ds rn = (Inr (), rn')" "sg_recorder s = rc" "wf (rn_rec rn)"
    and "\<And>x. x \<in> set (sts @ [st]) \<Longrightarrow> IsCompleted rc (sg_id s) (st_Name x) (rn_rec rn) \<noteq> Inr True"
    and "distinct (map st_Name (sts @ [st]))" "\<And>x. x \<in> set sts \<Longrightarrow> step_keeps P ctx x" "P (run_world rn)"
  shows "\<exists>e0 e1. runForward s ctx st e0 = (Inr (), e1) \<and> P (snd (fst e0)) \<and> run_world rn' = snd (fst e1)"
  using assms
proof (induction sts arbitrary: i ds rn)
  case Nil
  from Nil.prems(1) have "step_loop s ctx i (st # []) ds rn = (Inr (), rn')" by simp
  then show ?case
  proof (cases rule: step_loopE)
    case (applied e0 e1 h r1)
    from applied(4) have "run_world rn' = snd (fst e1)" by auto
    with applied(1,3) Nil.prems(7) show ?thesis by (intro exI [of _ e0] exI [of _ e1]) simp
  next
    case (skip e0)
    with Nil.prems(2,4) show ?thesis by simp
  qed (simp_all add: abort_def split: prod.splits)
next
  case (Cons x sts)
  from Cons.prems(1) have "step_loop s ctx i (x # (sts @ [st])) ds rn = (Inr (), rn')" by simp
  then show ?case
  proof (cases rule: step_loopE)
    case (applied e0 e1 h r1)
    define rn1 where "rn1 = rn\<lparr>rn_env := e1, rn_rec := snd (MarkCompleted (sg_recorder s) h r1)\<rparr>"
    from step_recorded [OF Cons.prems(3) applied(2) [unfolded Cons.prems(2)]] Cons.prems(2)
    have r: "wf (rn_rec rn1)"
      "\<And>n. n \<noteq> st_Name x \<Longrightarrow> IsCompleted rc (sg_id s) n (rn_rec rn1) = IsCompleted rc (sg_id s) n (rn_rec rn)"
      by (simp_all add: rn1_def)
    have "P (run_world rn1)"
      using run_step_keeps(1) [of P ctx x e0 s] Cons.prems(6,7) applied(1,3) by (simp add: rn1_def)
    moreover have "IsCompleted rc (sg_id s) (st_Name y) (rn_rec rn1) \<noteq> Inr True" if "y \<in> set (sts @ [st])" for y
    proof -
      have "st_Name y \<noteq> st_Name x" using distinct_map_Cons_ne [of st_Name x "sts @ [st]"] Cons.prems(5) that by simp
      with r(2) Cons.prems(4) [of y] that show ?thesis by auto
    qed
    ultimately show ?thesis
      using Cons.IH [OF applied(4) [folded rn1_def] Cons.prems(2) r(1)] Cons.prems(5,6) by simp
  next
    case (skip e0)
    with Cons.prems(2) Cons.prems(4) [of x] show ?thesis by simp
  qed (simp_all add: abort_def split: prod.splits)
qed

lemma execute_runs_last:
  assumes "Execute s ctx rn = (Inr (), rn')" "sg_steps s = sts @ [st]" "sg_recorder s = rc" "wf (rn_rec rn)"
    and "\<And>x. x \<in> set (sts @ [st]) \<Longrightarrow> IsCompleted rc (sg_id s) (st_Name x) (rn_rec rn) \<noteq> Inr True"
    and "distinct (map st_Name (sts @ [st]))" "\<And>x. x \<in> set sts \<Longrightarrow> step_keeps P ctx x" "P (run_world rn)"
  shows "\<exists>e0 e1. runForward s ctx st e0 = (Inr (), e1) \<and> P (snd (fst e0)) \<and> run_world rn' = snd (fst e1)"
  using loop_runs_last [of s ctx 0 sts st "[]" "emit (OnStarted (sg_id s)) rn" rn' P] assms
  by (auto simp: Execute_def split: if_splits)

end

section \<open>The outcome\<close>

definition loan_stored :: "'w disburse_world \<Rightarrow> bool" where
  "loan_stored w \<longleftrightarrow> dw_loan w \<in> set (loans (dw_db w))"

lemma UpdateLoan_stored:
  assumes "r \<in> set (loans db)" "ln_ID r = ln_ID l" "ln_Version r = ln_Version l"
  shows "\<exists>l' db'. UpdateLoan l db = (Inr (), l', db') \<and> l' = l\<lparr>ln_Version := ln_Version l + 1\<rparr> \<and> l' \<in> set (loans db')"
  using assms in_put_row_new [of r "loans db" ln_ID "l\<lparr>ln_Version := ln_Version l + 1\<rparr>"]
  by (auto simp: UpdateLoan_def Let_def)

lemma on_loan_stored:
  assumes "loan_stored w"
  shows "\<exists>w'. on_loan status ctx ((st, w), n) = (Inr (), ((st, w'), n)) \<and> loan_stored w' \<and>
    ln_ID (dw_loan w') = ln_ID (dw_loan w) \<and> ln_Status (dw_loan w') = status"
  using UpdateLoan_stored [of "dw_loan w" "dw_db w" "(dw_loan w)\<lparr>ln_Status := status\<rparr>"] assms
  by (auto simp: on_loan_def loan_stored_def)

definition stored_as :: "nat \<Rightarrow> 'w disburse_world \<Rightarrow> bool" where
  "stored_as i w \<longleftrightarrow> loan_stored w \<and> ln_ID (dw_loan w) = i"

lemma disburse_steps_keep_loan:
  assumes "st \<in> set (sg_steps (disbursement_saga fixed4 client bank loan))"
  shows "step_keeps (stored_as i) ctx st"
proof -
  have acc: "stored_as i (snd (fst (snd (on_accounts call ctx ((s, w), n)))))" if "stored_as i w" for call s w n
    using that by (auto simp: on_accounts_def stored_as_def loan_stored_def split: prod.split)
  have ln: "stored_as i (snd (fst (snd (on_loan status ctx ((s, w), n)))))" if "stored_as i w" for status s w n
  proof -
    from that have "loan_stored w" by (simp add: stored_as_def)
    from on_loan_stored [OF this, of status ctx s n] that show ?thesis by (auto simp: stored_as_def)
  qed
  show ?thesis using assms
    by (auto simp: disbursement_steps step_keeps_def debit_bank_step_def credit_borrower_step_def mark_active_step_def
      intro!: acc ln)
qed

lemma disburse_saga_mk:
  "sg_steps (disbursement_saga fixed4 client bank loan) = map (disburse_mk fixed4 client bank loan) [DDebit, DCredit, DMark]"
  by (simp add: disbursement_steps disburse_mk_def)

lemma disburse_names:
  "map (\<lambda>p. st_Name (disburse_mk fixed4 client bank loan p)) [DDebit, DCredit, DMark] =
     [StepDebitBank, StepCreditBorrower, StepMarkLoanActive]"
  "distinct [StepDebitBank, StepCreditBorrower, StepMarkLoanActive]"
  by (simp_all add: disburse_mk_def debit_bank_step_def credit_borrower_step_def mark_active_step_def StepDebitBank_def
    StepCreditBorrower_def StepMarkLoanActive_def)

text \<open>The call is the first for this loan: none of its keys is spent and the saga log has no row of it.\<close>

definition first_disbursal ::
  "(string \<Rightarrow> 'w \<Rightarrow> bool) \<Rightarrow> (string \<Rightarrow> 'w \<Rightarrow> bool) \<Rightarrow> loan \<Rightarrow> credit_saga_db \<Rightarrow> 'w \<Rightarrow> bool" where
  "first_disbursal unused unspent loan sdb w \<longleftrightarrow> credit_saga_ok sdb \<and>
     (\<forall>l \<in> set (credit_logs sdb). cl_SagaID l \<noteq> disbursement_id loan) \<and>
     unspent (disbursement_id loan @ '':debit'') w \<and> unspent (disbursement_id loan @ '':debit-comp'') w \<and>
     unused (disbursement_id loan @ '':credit'') w \<and> unused (disbursement_id loan @ '':credit-comp'') w"

context bank_port
begin

lemma disburse_outcome:
  assumes ok: "ok (fst e)" and loan: "ln_CurrencyCode loan = cur" "ln_Status loan \<noteq> ''active''" "loan \<in> set (loans db)"
    and neg: "amount_of (fixed4 (- ln_Amount loan)) = - x" and x: "amount_of (fixed4 (ln_Amount loan)) = x"
    and first: "first_disbursal unused unspent loan sdb (fst e)"
    and run: "Disburse fixed4 client bank ctx loan db sdb e = (res, rn)"
  shows "ok (dw_acc (run_world rn)) \<and> stored_as (ln_ID loan) (run_world rn) \<and>
    (case res of
       Inr _ \<Rightarrow> ln_Status (dw_loan (run_world rn)) = ''active'' \<and>
         (\<forall>n. bal (dw_acc (run_world rn)) n =
            bal (fst e) n + (if n = ln_AccountNumber loan then x else 0) - (if house = Some n then x else 0))
     | Inl _ \<Rightarrow> \<not> credit_open (disbursement_id loan) (rn_rec rn) \<longrightarrow> bal (dw_acc (run_world rn)) = bal (fst e))"
proof -
  let ?s = "disbursement_saga fixed4 client bank loan"
  let ?rn = "\<lparr>rn_rec = sdb, rn_events = [], rn_env = ((disbursement_state loan, \<lparr>dw_loan = loan, dw_db = db, dw_acc = fst e\<rparr>), snd e)\<rparr>"
  from run loan(2) have ex: "Execute ?s ctx ?rn = (res, rn)" by (simp add: Disburse_def Let_def)
  have kept: "stored_as (ln_ID loan) (run_world rn)"
    using execute_keeps [of ?s "stored_as (ln_ID loan)" ctx, OF disburse_steps_keep_loan _ ex] loan(3)
    by (simp add: stored_as_def loan_stored_def)
  note comp = disbursement_compensable [OF loan(1) _ refl, of fixed4, unfolded x neg, OF refl]
  note saga = recorded_saga.intro [OF comp loan_log.recorder_port_axioms [of "ln_ID loan"]]
  have keys: "disburse_unused unused unspent loan (forward_key loan p) (run_world ?rn) \<and>
      disburse_unused unused unspent loan (backward_key loan p) (run_world ?rn)" for p
    using first by (cases p) (auto simp: first_disbursal_def disburse_unused_def forward_key_def backward_key_def)
  have log: "IsCompleted (credit_recorder (ln_ID loan)) (sg_id ?s) n (rn_rec ?rn) \<noteq> Inr True" for n
    using first by (auto simp: first_disbursal_def loan_log.completed_reads disbursement_steps)
  have sdb: "credit_saga_ok (rn_rec ?rn)" using first by (simp add: first_disbursal_def)
  have names: "distinct (map (\<lambda>p. st_Name (disburse_mk fixed4 client bank loan p)) [DDebit, DCredit, DMark])"
    unfolding disburse_names(1) by (rule disburse_names(2))
  have dist: "distinct (map (forward_key loan) [DDebit, DCredit, DMark])" using disburse_keys_distinct [of loan] by simp
  show ?thesis
  proof (cases res)
    case (Inr u)
    with ex have ex': "Execute ?s ctx ?rn = (Inr (), rn)" by simp
    note suc = recorded_saga.execute_success [OF saga ex' disburse_saga_mk disbursement_steps(3) sdb _ _ dist _ names]
    have eff: "ok (dw_acc (run_world rn))" "bal (dw_acc (run_world rn)) n =
        bal (fst e) n + (if n = ln_AccountNumber loan then x else 0) - (if house = Some n then x else 0)" for n
      using suc keys log ok by (simp_all add: step_moves_def)
    have split: "sg_steps ?s = [debit_bank_step fixed4 bank loan, credit_borrower_step fixed4 client loan] @ [mark_active_step]"
      by (simp add: disbursement_steps)
    have keep: "step_keeps (stored_as (ln_ID loan)) ctx y"
      if "y \<in> set [debit_bank_step fixed4 bank loan, credit_borrower_step fixed4 client loan]" for y :: "(state_val, 'w disburse_world) step"
      by (rule disburse_steps_keep_loan [of y fixed4 client bank loan]) (use that in \<open>auto simp: disbursement_steps\<close>)
    have names': "distinct (map st_Name ([debit_bank_step fixed4 bank loan, credit_borrower_step fixed4 client loan] @ [mark_active_step :: (state_val, 'w disburse_world) step]))"
      using names by (simp add: disburse_mk_def)
    have "stored_as (ln_ID loan) (run_world ?rn)" using loan(3) by (simp add: stored_as_def loan_stored_def)
    from loan_log.execute_runs_last [OF ex' split disbursement_steps(3) sdb log names' keep this] obtain e0 e1
      where last: "runForward ?s ctx mark_active_step e0 = (Inr (), e1)" "stored_as (ln_ID loan) (snd (fst e0))"
        "run_world rn = snd (fst e1)" by blast
    obtain st w n where e0: "e0 = ((st, w), n)" by (metis surj_pair)
    from last(1) have "on_loan ''active'' ctx ((st, w), n) = (Inr (), e1)"
      by (simp add: e0 runForward_def mark_active_step_def call_step_def disbursement_steps(4))
    with on_loan_stored [of w "''active''" ctx st n] last(2,3) have "ln_Status (dw_loan (run_world rn)) = ''active''"
      by (auto simp: e0 stored_as_def)
    with eff kept Inr show ?thesis by simp
  next
    case (Inl err)
    note fail = compensable.execute_failure [OF comp ex [unfolded Inl] disburse_saga_mk _ _ disburse_keys_distinct]
    have eff: "ok (dw_acc (run_world rn))" "net_effect (stuck_event (disbursement_id loan) \<in> set (rn_events rn)) (\<lambda>w. bal (dw_acc w))
        (step_moves house (ln_AccountNumber loan) x) (\<lambda>p n. - step_moves house (ln_AccountNumber loan) x p n) []
        [DDebit, DCredit, DMark] (run_world ?rn) (run_world rn)"
      using fail keys ok by (simp_all add: disbursement_steps(2))
    have "bal (dw_acc (run_world rn)) = bal (fst e)" if "\<not> credit_open (disbursement_id loan) (rn_rec rn)"
    proof -
      have s: "(stuck_event (disbursement_id loan) \<in> set (rn_events rn)) = False"
        using loan_log.execute_leaves_row [OF ex disbursement_steps(3) sdb] that by (auto simp: disbursement_steps(2))
      from net_effect_clean [OF eff(2) [unfolded s]] show ?thesis by simp
    qed
    with eff(1) kept Inl show ?thesis by simp
  qed
qed

end

lemma approved_terms:
  assumes ok: "loans_ok db" and run: "approve_loan parse g env i e db = (Inr l, db')" and q: "LoanRequestByID i db = Some q"
  shows "ln_Amount l = lq_Amount q \<and> ln_AccountNumber l = lq_AccountNumber q \<and> ln_CurrencyCode l = lq_CurrencyCode q \<and>
    ln_ID l = seq_loans db"
  using run
proof (cases rule: approve_loanE)
  case (approved q' d rates l' d')
  have okd: "loans_ok d" using ok approved(2) same_loans_kept [of db d db] by (simp add: credit_kept_def credit_le_refl)
  have "LoanRequestByID i d = Some q" "seq_loans d = seq_loans db" using approved(2) q by (simp_all add: same_loans_def LoanRequestByID_def)
  moreover from okd approved(6) obtain q2 where "LoanRequestByID i d = Some q2"
    "l' = (new_loan env rates q2)\<lparr>ln_ID := seq_loans d, ln_CreatedAt := cv_now env, ln_Version := 1\<rparr>" by (rule approve_bodyE)
  ultimately show ?thesis using approved(7) by (simp add: new_loan_sel)
qed simp

text \<open>
  C30: disbursement of an approved loan. Once the approval has committed, \<^verbatim>\<open>ApproveLoanRequest\<close> either succeeds, and then the
  loan is active, the borrower's account has gained the amount and the first live bank account of the loan's currency has
  lost it, every other balance being as before; or it fails, and then the loan is stored as \<^verbatim>\<open>disbursement_failed\<close> and no
  balance has changed unless the saga log shows an open compensation. Assumed are amounts that survive the text round
  trip and keys that no earlier call has spent.
\<close>

theorem loan_disbursement:
  assumes ok: "loans_ok (cy_db s)" "rpc_ok (fst (cy_acc s))"
    and approve: "approve_loan parse g env i emp (cy_db s) = (Inr l, db)"
    and amt: "parse (fixed4 (ln_Amount l)) = Some (ln_Amount l)" "parse (fixed4 (- ln_Amount l)) = Some (- ln_Amount l)"
    and first: "first_disbursal rpc_unused op_unspent l (cy_sagas s) (fst (cy_acc s))"
    and run: "ApproveLoanRequest fixed4 parse g (rpc_client owns fixed4 parse blob) (rpc_bank parse round4) env ctx i emp s = (res, s')"
  shows "rpc_ok (fst (cy_acc s')) \<and>
    (case res of
       Inr l' \<Rightarrow> l' \<in> set (loans (cy_db s')) \<and> ln_ID l' = ln_ID l \<and> ln_Status l' = ''active'' \<and>
         (\<forall>n. rpc_balance (fst (cy_acc s')) n = rpc_balance (fst (cy_acc s)) n + (if n = ln_AccountNumber l then ln_Amount l else 0)
            - (if bank_of (ln_CurrencyCode l) (snd (fst (cy_acc s))) = Some n then ln_Amount l else 0))
     | Inl _ \<Rightarrow> (\<exists>l' \<in> set (loans (cy_db s')). ln_ID l' = ln_ID l \<and> ln_Status l' = ''disbursement_failed'') \<and>
         (\<not> credit_open (disbursement_id l) (cy_sagas s') \<longrightarrow>
            (\<forall>n. rpc_balance (fst (cy_acc s')) n = rpc_balance (fst (cy_acc s)) n)))"
proof -
  obtain r rn where dis: "Disburse fixed4 (rpc_client owns fixed4 parse blob) (rpc_bank parse round4) ctx l db (cy_sagas s) (cy_acc s) = (r, rn)"
    by (rule prod.exhaust)
  from ok(1) have "credit_kept (cy_db s) (cy_db s)" by (simp add: credit_kept_def credit_le_refl)
  from approve_loan_kept [OF this approve] have l: "l \<in> set (loans db)" "ln_Status l \<noteq> ''active''" by auto
  have bank: "bank_ok (ln_CurrencyCode l) (bank_of (ln_CurrencyCode l) (snd (fst (cy_acc s)))) (fst (cy_acc s))"
    using ok(2) by (simp add: bank_ok_def)
  note out = bank_rpc.disburse_outcome [OF bank refl l(2,1) _ _ first dis, of "ln_Amount l"]
  let ?w = "run_world rn"
  have out: "rpc_ok (dw_acc ?w)" "stored_as (ln_ID l) ?w"
    "case r of Inr _ \<Rightarrow> ln_Status (dw_loan ?w) = ''active'' \<and>
       (\<forall>n. rpc_balance (dw_acc ?w) n = rpc_balance (fst (cy_acc s)) n + (if n = ln_AccountNumber l then ln_Amount l else 0)
            - (if bank_of (ln_CurrencyCode l) (snd (fst (cy_acc s))) = Some n then ln_Amount l else 0))
     | Inl _ \<Rightarrow> \<not> credit_open (disbursement_id l) (rn_rec rn) \<longrightarrow> rpc_balance (dw_acc ?w) = rpc_balance (fst (cy_acc s))"
    using out amt by (simp_all add: read_amount_def bank_ok_def)
  show ?thesis
  proof (cases r)
    case (Inr u)
    with run approve dis have "res = Inr (dw_loan ?w)" "cy_db s' = dw_db ?w" "fst (cy_acc s') = dw_acc ?w"
      by (auto simp: ApproveLoanRequest_def)
    with out Inr show ?thesis by (simp add: stored_as_def loan_stored_def)
  next
    case (Inl err)
    define l1 where "l1 = (dw_loan ?w)\<lparr>ln_Status := ''disbursement_failed''\<rparr>"
    from out(2) have "dw_loan ?w \<in> set (loans (dw_db ?w))" "ln_ID l1 = ln_ID (dw_loan ?w)" "ln_Version l1 = ln_Version (dw_loan ?w)"
      "ln_ID (dw_loan ?w) = ln_ID l" by (simp_all add: stored_as_def loan_stored_def l1_def)
    with UpdateLoan_stored [of "dw_loan ?w" "dw_db ?w" l1] obtain l' d where
      u: "UpdateLoan l1 (dw_db ?w) = (Inr (), l', d)" "l' \<in> set (loans d)" "l' = l1\<lparr>ln_Version := ln_Version l1 + 1\<rparr>" by auto
    from run approve dis Inl u(1) have s': "res = Inl err" "fst (cy_acc s') = dw_acc ?w" "cy_sagas s' = rn_rec rn"
      "cy_db s' = (if ln_Status (dw_loan ?w) \<noteq> ''disbursement_failed'' then d else dw_db ?w)"
      by (auto simp: ApproveLoanRequest_def Let_def l1_def [symmetric])
    have "\<exists>l' \<in> set (loans (cy_db s')). ln_ID l' = ln_ID l \<and> ln_Status l' = ''disbursement_failed''"
    proof (cases "ln_Status (dw_loan ?w) = ''disbursement_failed''")
      case True
      with out(2) show ?thesis by (auto simp: s'(4) stored_as_def loan_stored_def)
    next
      case False
      with u(2,3) out(2) show ?thesis by (intro bexI [of _ l']) (auto simp: s'(4) l1_def stored_as_def)
    qed
    with out(1,3) Inl show ?thesis by (simp add: s'(1-3))
  qed
qed

section \<open>Example\<close>

definition demo_fixed :: "decimal \<Rightarrow> string" where
  "demo_fixed x = (if x < 0 then ''-120000'' else ''120000'')"

definition demo_read :: "string \<Rightarrow> decimal option" where
  "demo_read t = (if t = ''120000'' then Some 120000 else if t = ''-120000'' then Some (- 120000) else None)"

definition demo_system :: "account_world credit_system" where
  "demo_system = \<lparr>cy_db = demo_credit_db, cy_sagas = \<lparr>credit_logs = [], seq_credit_logs = 1, credit_now = 0\<rparr>, cy_acc = (demo_world, 0)\<rparr>"

theorem loan_disbursement_witness:
  "case ApproveLoanRequest demo_fixed demo_read (\<lambda>_. Inl CtxDone) (rpc_client (\<lambda>_. True) demo_fixed demo_read demo_blob)
      (rpc_bank demo_read id) demo_credit_env (\<lambda>_. None) 1 0 demo_system of (res, s') \<Rightarrow>
     rpc_ok (fst (cy_acc s')) \<and> rpc_balance (fst (cy_acc s')) ''A'' \<in> (case res of Inr _ \<Rightarrow> {120100} | Inl _ \<Rightarrow>
       if credit_open ''loan-disbursement-1'' (cy_sagas s') then UNIV else {100})"
proof -
  obtain res s' where run: "ApproveLoanRequest demo_fixed demo_read (\<lambda>_. Inl CtxDone) (rpc_client (\<lambda>_. True) demo_fixed demo_read demo_blob)
      (rpc_bank demo_read id) demo_credit_env (\<lambda>_. None) 1 0 demo_system = (res, s')" by (rule prod.exhaust)
  have db: "cy_db demo_system = demo_credit_db" by (simp add: demo_system_def)
  obtain l d where a: "approve_loan demo_read (\<lambda>_. Inl CtxDone) demo_credit_env 1 0 demo_credit_db = (Inr l, d)" using demo_approved by blast
  have "LoanRequestByID 1 demo_credit_db = Some (demo_loan_request\<lparr>lq_ID := 1, lq_Status := ''pending'', lq_Version := 1\<rparr>)"
    by (simp add: LoanRequestByID_def demo_credit_db_def)
  from approved_terms [OF demo_credit_ok a this] have l: "ln_Amount l = 120000" "ln_AccountNumber l = ''A''"
    "ln_CurrencyCode l = ''RSD''" "ln_ID l = 1"
    by (simp_all add: demo_loan_request_def demo_credit_db_def empty_credit_db_def)
  have "itoa 1 = ''1''" by code_simp
  then have id: "disbursement_id l = ''loan-disbursement-1''" by (simp add: disbursement_id_def l)
  have "bank_of ''RSD'' (snd demo_world) = Some ''B''" by (simp add: bank_of_def demo_world_def live_accounts_def sample_simps)
  moreover have "rpc_ok demo_world" using sample_ok by (simp add: rpc_ok_def demo_world_def)
  moreover have "first_disbursal rpc_unused op_unspent l (cy_sagas demo_system) demo_world"
  proof -
    have "op_unspent k demo_world" for k by (simp add: op_unspent_def demo_world_def sample_simps)
    then show ?thesis by (simp add: first_disbursal_def demo_unused credit_saga_ok_def demo_system_def)
  qed
  moreover have "demo_read (demo_fixed (ln_Amount l)) = Some (ln_Amount l)" "demo_read (demo_fixed (- ln_Amount l)) = Some (- ln_Amount l)"
    by (simp_all add: l demo_read_def demo_fixed_def)
  ultimately have "rpc_ok (fst (cy_acc s')) \<and> (case res of Inr _ \<Rightarrow> rpc_balance (fst (cy_acc s')) ''A'' = 120100
      | Inl _ \<Rightarrow> \<not> credit_open ''loan-disbursement-1'' (cy_sagas s') \<longrightarrow> rpc_balance (fst (cy_acc s')) ''A'' = 100)"
    using loan_disbursement [OF _ _ a [folded db] _ _ _ run] demo_credit_ok
    by (cases res) (auto simp: db l id demo_balances demo_system_def)
  then show ?thesis unfolding run by (cases res) auto
qed

end
