(* ===== verification/Loan_Handler.thy ===== *)
theory Loan_Handler
  imports Tx_Handler Loan_Disbursement
begin

text \<open>
  The gRPC front of the credit service: \<^verbatim>\<open>handler/ownership.go\<close> and \<^verbatim>\<open>handler/grpc_handler.go\<close> under
  \<^verbatim>\<open>src/credit-service/internal/\<close>. The caller is the identity in the call's metadata, \<open>fmt\<close> formats an instant, \<open>dt\<close> holds
  the decimal library's conversions. The rows of the rate tables carry no time stamps here.
\<close>

section \<open>Responses\<close>

record loan_request_response =
  qrs_Id :: nat
  qrs_ClientId :: nat
  qrs_LoanType :: string
  qrs_InterestType :: string
  qrs_Amount :: string
  qrs_CurrencyCode :: string
  qrs_Purpose :: string
  qrs_MonthlySalary :: string
  qrs_EmploymentStatus :: string
  qrs_EmploymentPeriod :: int
  qrs_RepaymentPeriod :: int
  qrs_Phone :: string
  qrs_AccountNumber :: string
  qrs_Status :: string
  qrs_CreatedAt :: string

text \<open>The conversion of an \<^verbatim>\<open>int\<close> to \<^verbatim>\<open>int32\<close> wraps around.\<close>

definition to_int32 :: "int \<Rightarrow> int" where
  "to_int32 n = (n + 2 ^ 31) mod 2 ^ 32 - 2 ^ 31"

definition toLoanRequestResponse :: "decimal_text \<Rightarrow> (int \<Rightarrow> string) \<Rightarrow> loan_request \<Rightarrow> loan_request_response" where
  "toLoanRequestResponse dt fmt r =
     \<lparr>qrs_Id = lq_ID r, qrs_ClientId = lq_ClientID r, qrs_LoanType = lq_LoanType r, qrs_InterestType = lq_InterestType r,
      qrs_Amount = StringFixed4 dt (lq_Amount r), qrs_CurrencyCode = lq_CurrencyCode r, qrs_Purpose = lq_Purpose r,
      qrs_MonthlySalary = StringFixed4 dt (lq_MonthlySalary r), qrs_EmploymentStatus = lq_EmploymentStatus r,
      qrs_EmploymentPeriod = to_int32 (lq_EmploymentPeriod r), qrs_RepaymentPeriod = to_int32 (lq_RepaymentPeriod r),
      qrs_Phone = lq_Phone r, qrs_AccountNumber = lq_AccountNumber r, qrs_Status = lq_Status r,
      qrs_CreatedAt = fmt (lq_CreatedAt r)\<rparr>"

record loan_response =
  lrs_Id :: nat
  lrs_LoanNumber :: string
  lrs_LoanType :: string
  lrs_AccountNumber :: string
  lrs_Amount :: string
  lrs_RepaymentPeriod :: int
  lrs_NominalInterestRate :: string
  lrs_EffectiveInterestRate :: string
  lrs_ContractDate :: string
  lrs_MaturityDate :: string
  lrs_NextInstallmentAmount :: string
  lrs_NextInstallmentDate :: string
  lrs_RemainingDebt :: string
  lrs_CurrencyCode :: string
  lrs_Status :: string
  lrs_InterestType :: string
  lrs_CreatedAt :: string
  lrs_ClientId :: nat

definition toLoanResponse :: "decimal_text \<Rightarrow> (int \<Rightarrow> string) \<Rightarrow> loan \<Rightarrow> loan_response" where
  "toLoanResponse dt fmt l =
     \<lparr>lrs_Id = ln_ID l, lrs_LoanNumber = ln_LoanNumber l, lrs_LoanType = ln_LoanType l,
      lrs_AccountNumber = ln_AccountNumber l, lrs_Amount = StringFixed4 dt (ln_Amount l),
      lrs_RepaymentPeriod = to_int32 (ln_RepaymentPeriod l),
      lrs_NominalInterestRate = StringFixed4 dt (ln_NominalInterestRate l),
      lrs_EffectiveInterestRate = StringFixed4 dt (ln_EffectiveInterestRate l), lrs_ContractDate = fmt (ln_ContractDate l),
      lrs_MaturityDate = fmt (ln_MaturityDate l), lrs_NextInstallmentAmount = StringFixed4 dt (ln_NextInstallmentAmount l),
      lrs_NextInstallmentDate = fmt (ln_NextInstallmentDate l), lrs_RemainingDebt = StringFixed4 dt (ln_RemainingDebt l),
      lrs_CurrencyCode = ln_CurrencyCode l, lrs_Status = ln_Status l, lrs_InterestType = ln_InterestType l,
      lrs_CreatedAt = fmt (ln_CreatedAt l), lrs_ClientId = ln_ClientID l\<rparr>"

record installment_response =
  irs_Id :: nat
  irs_LoanId :: nat
  irs_Amount :: string
  irs_InterestRate :: string
  irs_CurrencyCode :: string
  irs_ExpectedDate :: string
  irs_ActualDate :: string
  irs_Status :: string

definition toInstallmentResponse :: "decimal_text \<Rightarrow> (int \<Rightarrow> string) \<Rightarrow> installment \<Rightarrow> installment_response" where
  "toInstallmentResponse dt fmt i =
     \<lparr>irs_Id = im_ID i, irs_LoanId = im_LoanID i, irs_Amount = StringFixed4 dt (im_Amount i),
      irs_InterestRate = StringFixed4 dt (im_InterestRate i), irs_CurrencyCode = im_CurrencyCode i,
      irs_ExpectedDate = fmt (im_ExpectedDate i),
      irs_ActualDate = (case im_ActualDate i of None \<Rightarrow> [] | Some t \<Rightarrow> fmt t), irs_Status = im_Status i\<rparr>"

record tier_response =
  trs_Id :: nat
  trs_AmountFrom :: string
  trs_AmountTo :: string
  trs_FixedRate :: string
  trs_VariableBase :: string
  trs_Active :: bool

definition toInterestRateTierResponse :: "decimal_text \<Rightarrow> interest_rate_tier \<Rightarrow> tier_response" where
  "toInterestRateTierResponse dt t =
     \<lparr>trs_Id = it_ID t, trs_AmountFrom = StringFixed4 dt (it_AmountFrom t), trs_AmountTo = StringFixed4 dt (it_AmountTo t),
      trs_FixedRate = StringFixed4 dt (it_FixedRate t), trs_VariableBase = StringFixed4 dt (it_VariableBase t),
      trs_Active = it_Active t\<rparr>"

record margin_response =
  mrs_Id :: nat
  mrs_LoanType :: string
  mrs_Margin :: string
  mrs_Active :: bool

definition toBankMarginResponse :: "decimal_text \<Rightarrow> bank_margin \<Rightarrow> margin_response" where
  "toBankMarginResponse dt m =
     \<lparr>mrs_Id = mg_ID m, mrs_LoanType = mg_LoanType m, mrs_Margin = StringFixed4 dt (mg_Margin m), mrs_Active = mg_Active m\<rparr>"

section \<open>Loan requests\<close>

definition ownsLoan :: "caller \<Rightarrow> nat \<Rightarrow> bool" where
  "ownsLoan cl clientID = OwnsResource cl (to_int64 clientID)"

record create_loan_request_req =
  cr_ClientId :: nat
  cr_LoanType :: string
  cr_InterestType :: string
  cr_Amount :: string
  cr_CurrencyCode :: string
  cr_Purpose :: string
  cr_MonthlySalary :: string
  cr_EmploymentStatus :: string
  cr_EmploymentPeriod :: int
  cr_RepaymentPeriod :: int
  cr_Phone :: string
  cr_AccountNumber :: string

text \<open>A number that does not parse is zero (\<open>num\<close>).\<close>

definition loan_request_of :: "decimal_text \<Rightarrow> create_loan_request_req \<Rightarrow> loan_request" where
  "loan_request_of dt r =
     \<lparr>lq_ID = 0, lq_ClientID = cr_ClientId r, lq_LoanType = cr_LoanType r, lq_InterestType = cr_InterestType r,
      lq_Amount = num dt (cr_Amount r), lq_CurrencyCode = cr_CurrencyCode r, lq_Purpose = cr_Purpose r,
      lq_MonthlySalary = num dt (cr_MonthlySalary r), lq_EmploymentStatus = cr_EmploymentStatus r,
      lq_EmploymentPeriod = cr_EmploymentPeriod r, lq_RepaymentPeriod = cr_RepaymentPeriod r, lq_Phone = cr_Phone r,
      lq_AccountNumber = cr_AccountNumber r, lq_Status = [], lq_Version = 0, lq_CreatedAt = 0\<rparr>"

definition CreateLoanRequestRPC ::
  "decimal_text \<Rightarrow> (int \<Rightarrow> string) \<Rightarrow> 'w account_client \<Rightarrow> int \<Rightarrow> create_loan_request_req \<Rightarrow> credit_db \<times> 'w \<Rightarrow>
     loan_request_response result \<times> credit_db \<times> 'w" where
  "CreateLoanRequestRPC dt fmt client now req = (\<lambda>(db, w).
     case CreateLoanRequest client now (loan_request_of dt req) (db, w) of
       (Inl e, db1, w1) \<Rightarrow> (Inl e, db1, w1)
     | (Inr q, db1, w1) \<Rightarrow>
         (Inr (toLoanRequestResponse dt fmt q),
          publish_credit (CreditNotification (lq_ClientID q) ''LOAN_REQUEST_SUBMITTED''
              [(''loan_type'', lq_LoanType q), (''amount'', StringFixed2 dt (lq_Amount q))] ''loan_request'' (lq_ID q))
            (publish_credit (LoanRequested (lq_ID q) (lq_LoanType q) (StringFixed4 dt (lq_Amount q)) (lq_Status q)) db1), w1))"

definition GetLoanRequestRPC ::
  "decimal_text \<Rightarrow> (int \<Rightarrow> string) \<Rightarrow> caller \<Rightarrow> nat \<Rightarrow> credit_db \<Rightarrow> loan_request_response result" where
  "GetLoanRequestRPC dt fmt cl i db =
     (case GetLoanRequest i db of
        Inl e \<Rightarrow> Inl e
      | Inr q \<Rightarrow> if \<not> ownsLoan cl (lq_ClientID q) then Inl ErrLoanRequestNotFound else Inr (toLoanRequestResponse dt fmt q))"

definition ListLoanRequestsRPC ::
  "decimal_text \<Rightarrow> (int \<Rightarrow> string) \<Rightarrow> caller \<Rightarrow> string \<Rightarrow> string \<Rightarrow> string \<Rightarrow> nat \<Rightarrow> int \<Rightarrow> int \<Rightarrow> credit_db \<Rightarrow>
     (loan_request_response list \<times> nat) result" where
  "ListLoanRequestsRPC dt fmt cl typeFilter accountFilter statusFilter clientID page pageSize db =
     (if \<not> ownsLoan cl clientID then Inl ErrLoanForbidden
      else case ListLoanRequests typeFilter accountFilter statusFilter clientID page pageSize db of
             (qs, n) \<Rightarrow> Inr (map (toLoanRequestResponse dt fmt) qs, n))"

text \<open>What the approval announces; the loan is active when the disbursement ran.\<close>

definition announce_approval :: "decimal_text \<Rightarrow> nat \<Rightarrow> loan \<Rightarrow> credit_db \<Rightarrow> credit_db" where
  "announce_approval dt requestID l db =
     (let amount4 = StringFixed4 dt (ln_Amount l);
          amount2 = StringFixed2 dt (ln_Amount l);
          db1 = publish_credit (LoanApproved requestID (ln_LoanType l) amount4 (ln_Status l)) db;
          db2 = (if ln_Status l = ''active''
                 then publish_credit (CreditNotification (ln_ClientID l) ''LOAN_DISBURSED''
                          [(''loan_number'', ln_LoanNumber l), (''amount'', amount2), (''currency'', ln_CurrencyCode l)]
                          ''loan'' (ln_ID l))
                        (publish_credit (LoanDisbursed (ln_ID l) (ln_LoanNumber l) (ln_ClientID l) (ln_AccountNumber l)
                           amount4 (ln_CurrencyCode l)) db1)
                 else db1)
      in case GetLoanRequest requestID db2 of
           Inl _ \<Rightarrow> db2
         | Inr q \<Rightarrow> publish_credit (CreditNotification (lq_ClientID q) ''LOAN_REQUEST_APPROVED''
                      [(''loan_type'', ln_LoanType l), (''amount'', amount2)] ''loan'' (ln_ID l)) db2)"

definition ApproveLoanRequestRPC ::
  "decimal_text \<Rightarrow> (int \<Rightarrow> string) \<Rightarrow> (nat \<Rightarrow> employee_limits result) \<Rightarrow> 'w account_client \<Rightarrow> 'w bank_client \<Rightarrow> credit_env \<Rightarrow>
     ctx \<Rightarrow> nat \<Rightarrow> nat \<Rightarrow> 'w credit_system \<Rightarrow> loan_response result \<times> 'w credit_system" where
  "ApproveLoanRequestRPC dt fmt getLimits client bank env ctx requestID employeeID s =
     (case ApproveLoanRequest (StringFixed4 dt) (NewFromString dt) getLimits client bank env ctx requestID employeeID s of
        (Inl e, s1) \<Rightarrow> (Inl e, s1)
      | (Inr l, s1) \<Rightarrow> (Inr (toLoanResponse dt fmt l), s1\<lparr>cy_db := announce_approval dt requestID l (cy_db s1)\<rparr>))"

definition RejectLoanRequestRPC ::
  "decimal_text \<Rightarrow> (int \<Rightarrow> string) \<Rightarrow> int \<Rightarrow> int \<Rightarrow> nat \<Rightarrow> credit_db \<Rightarrow> loan_request_response result \<times> credit_db" where
  "RejectLoanRequestRPC dt fmt now changedBy requestID db =
     (case RejectLoanRequest now requestID changedBy [] db of
        (Inl e, db1) \<Rightarrow> (Inl e, db1)
      | (Inr q, db1) \<Rightarrow>
          (Inr (toLoanRequestResponse dt fmt q),
           publish_credit (CreditNotification (lq_ClientID q) ''LOAN_REQUEST_REJECTED''
               [(''loan_type'', lq_LoanType q), (''amount'', StringFixed2 dt (lq_Amount q))] ''loan_request'' (lq_ID q))
             (publish_credit (LoanRejected requestID (lq_LoanType q) (StringFixed4 dt (lq_Amount q)) (lq_Status q)) db1)))"

section \<open>Loans\<close>

definition GetLoanRPC :: "decimal_text \<Rightarrow> (int \<Rightarrow> string) \<Rightarrow> caller \<Rightarrow> nat \<Rightarrow> credit_db \<Rightarrow> loan_response result" where
  "GetLoanRPC dt fmt cl i db =
     (case GetLoan i db of
        Inl e \<Rightarrow> Inl e
      | Inr l \<Rightarrow> if \<not> ownsLoan cl (ln_ClientID l) then Inl ErrLoanNotFound else Inr (toLoanResponse dt fmt l))"

definition ListLoansByClientRPC ::
  "decimal_text \<Rightarrow> (int \<Rightarrow> string) \<Rightarrow> caller \<Rightarrow> nat \<Rightarrow> int \<Rightarrow> int \<Rightarrow> credit_db \<Rightarrow> (loan_response list \<times> nat) result" where
  "ListLoansByClientRPC dt fmt cl clientID page pageSize db =
     (if \<not> ownsLoan cl clientID then Inl ErrLoanForbidden
      else case ListLoans clientID page pageSize db of (ls, n) \<Rightarrow> Inr (map (toLoanResponse dt fmt) ls, n))"

definition ListAllLoansRPC ::
  "decimal_text \<Rightarrow> (int \<Rightarrow> string) \<Rightarrow> string \<Rightarrow> string \<Rightarrow> string \<Rightarrow> int \<Rightarrow> int \<Rightarrow> credit_db \<Rightarrow> (loan_response list \<times> nat) result" where
  "ListAllLoansRPC dt fmt typeFilter accountFilter statusFilter page pageSize db =
     (case ListAllLoans typeFilter accountFilter statusFilter page pageSize db of
        (ls, n) \<Rightarrow> Inr (map (toLoanResponse dt fmt) ls, n))"

definition GetInstallmentsByLoanRPC ::
  "decimal_text \<Rightarrow> (int \<Rightarrow> string) \<Rightarrow> caller \<Rightarrow> nat \<Rightarrow> credit_db \<Rightarrow> installment_response list result" where
  "GetInstallmentsByLoanRPC dt fmt cl loanID db =
     (case GetLoan loanID db of
        Inl e \<Rightarrow> Inl e
      | Inr l \<Rightarrow>
          if \<not> ownsLoan cl (ln_ClientID l) then Inl ErrLoanNotFound
          else Inr (map (toInstallmentResponse dt fmt) (ListInstallments loanID db)))"

section \<open>Rates\<close>

definition tier_of :: "decimal_text \<Rightarrow> nat \<Rightarrow> string \<Rightarrow> string \<Rightarrow> string \<Rightarrow> string \<Rightarrow> interest_rate_tier" where
  "tier_of dt i from to fixed base =
     \<lparr>it_ID = i, it_AmountFrom = num dt from, it_AmountTo = num dt to,
      it_FixedRate = num dt fixed, it_VariableBase = num dt base, it_Active = False\<rparr>"

definition ListInterestRateTiersRPC :: "decimal_text \<Rightarrow> rate_db \<Rightarrow> tier_response list result" where
  "ListInterestRateTiersRPC dt db = Inr (map (toInterestRateTierResponse dt) (ListTiers db))"

definition CreateInterestRateTierRPC ::
  "decimal_text \<Rightarrow> string \<Rightarrow> string \<Rightarrow> string \<Rightarrow> string \<Rightarrow> rate_db \<Rightarrow> tier_response result \<times> rate_db" where
  "CreateInterestRateTierRPC dt from to fixed base db =
     (case CreateTier (tier_of dt 0 from to fixed base) db of
        (Inl e, db1) \<Rightarrow> (Inl e, db1) | (Inr t, db1) \<Rightarrow> (Inr (toInterestRateTierResponse dt t), db1))"

definition UpdateInterestRateTierRPC ::
  "decimal_text \<Rightarrow> nat \<Rightarrow> string \<Rightarrow> string \<Rightarrow> string \<Rightarrow> string \<Rightarrow> rate_db \<Rightarrow> tier_response result \<times> rate_db" where
  "UpdateInterestRateTierRPC dt i from to fixed base db =
     (case UpdateTier (tier_of dt i from to fixed base) db of
        (Inl e, db1) \<Rightarrow> (Inl e, db1) | (Inr t, db1) \<Rightarrow> (Inr (toInterestRateTierResponse dt t), db1))"

definition DeleteInterestRateTierRPC :: "nat \<Rightarrow> rate_db \<Rightarrow> bool result \<times> rate_db" where
  "DeleteInterestRateTierRPC i db =
     (case DeleteTier i db of (Inl e, db1) \<Rightarrow> (Inl e, db1) | (Inr _, db1) \<Rightarrow> (Inr True, db1))"

definition ListBankMarginsRPC :: "decimal_text \<Rightarrow> rate_db \<Rightarrow> margin_response list result" where
  "ListBankMarginsRPC dt db = Inr (map (toBankMarginResponse dt) (ListMargins db))"

definition UpdateBankMarginRPC :: "decimal_text \<Rightarrow> nat \<Rightarrow> string \<Rightarrow> rate_db \<Rightarrow> margin_response result \<times> rate_db" where
  "UpdateBankMarginRPC dt i margin db =
     (case UpdateMargin \<lparr>mg_ID = i, mg_LoanType = [], mg_Margin = num dt margin, mg_Active = False\<rparr> db of
        (Inl e, db1) \<Rightarrow> (Inl e, db1) | (Inr m, db1) \<Rightarrow> (Inr (toBankMarginResponse dt m), db1))"

definition ApplyVariableRateUpdateRPC :: "credit_env \<Rightarrow> nat \<Rightarrow> credit_db \<Rightarrow> int result \<times> credit_db" where
  "ApplyVariableRateUpdateRPC env tierID db =
     (case ApplyVariableRateUpdate env tierID db of
        (Inl e, db1) \<Rightarrow> (Inl e, db1) | (Inr n, db1) \<Rightarrow> (Inr (to_int32 (int n)), db1))"

section \<open>Access\<close>

lemma set_credit_page: "x \<in> set (credit_page page sz xs) \<Longrightarrow> x \<in> set xs"
  by (auto simp: credit_page_def Let_def dest: in_set_takeD in_set_dropD split: if_splits)



end
