(* ===== verification/Exchange.thy ===== *)
theory Exchange
  imports Tx_Payment "HOL-Library.Multiset"
begin

text \<open>
  The exchange service: \<^verbatim>\<open>model/exchange_rate.go\<close>, \<^verbatim>\<open>repository/exchange_rate_repository.go\<close>,
  \<^verbatim>\<open>service/exchange_service.go\<close> and \<^verbatim>\<open>handler/grpc_handler.go\<close> under \<^verbatim>\<open>src/exchange-service/internal/\<close>. The Redis cache
  of single rates stands beside the table. \<open>dv\<close> is the decimal library's division, the answer of the rate provider is an
  argument, and the order in which a sync visits the rates is that of its list, as the one of a Go map is not fixed. Entries of the cache do not expire here; a
  lookup that misses is the case of an empty cache.
\<close>

section \<open>Rows and cache\<close>

record exchange_rate =
  xr_ID :: nat
  xr_FromCurrency :: string
  xr_ToCurrency :: string
  xr_BuyRate :: decimal
  xr_SellRate :: decimal
  xr_Version :: int
  xr_UpdatedAt :: int

record exchange_db =
  exchange_rates :: "exchange_rate list"
  seq_exchange_rates :: nat
  rate_cache :: "string \<times> string \<rightharpoonup> exchange_rate"

text \<open>The columns of the rates are \<^verbatim>\<open>numeric(18,8)\<close>: the database keeps eight digits and rounds a tie away from zero.\<close>

definition numeric8 :: "decimal \<Rightarrow> decimal" where
  "numeric8 x = sgn x * of_int \<lfloor>\<bar>x\<bar> * 10 ^ 8 + 1 / 2\<rfloor> / 10 ^ 8"

record exchange_config =
  xc_commissionRate :: decimal
  xc_spread :: decimal

definition ErrRateNotFound :: go_error where
  "ErrRateNotFound = Status NotFound ''exchange rate not found''"

definition ErrExchangeInvalidAmount :: go_error where
  "ErrExchangeInvalidAmount = Status InvalidArgument ''amount must be positive''"

definition ErrUnsupportedCurrency :: go_error where
  "ErrUnsupportedCurrency = Status InvalidArgument ''unsupported currency code''"

definition GetByPair :: "string \<Rightarrow> string \<Rightarrow> exchange_db \<Rightarrow> exchange_rate option" where
  "GetByPair from to db = find (\<lambda>r. xr_FromCurrency r = from \<and> xr_ToCurrency r = to) (exchange_rates db)"

definition save_rate :: "exchange_rate \<Rightarrow> exchange_db \<Rightarrow> go_error + exchange_db" where
  "save_rate r db =
     (if \<exists>x \<in> set (exchange_rates db). xr_ID x = xr_ID r \<and> xr_Version x = xr_Version r
      then Inr (db\<lparr>exchange_rates := put_row xr_ID (r\<lparr>xr_Version := xr_Version r + 1\<rparr>) (exchange_rates db)\<rparr>)
      else Inl (Plain ''optimistic lock conflict on exchange rate''))"

definition UpsertInTx :: "int \<Rightarrow> string \<Rightarrow> string \<Rightarrow> decimal \<Rightarrow> decimal \<Rightarrow> exchange_db \<Rightarrow> go_error + exchange_db" where
  "UpsertInTx now from to buy sell db =
     (case GetByPair from to db of
        None \<Rightarrow>
          Inr (db\<lparr>exchange_rates := exchange_rates db @
                 [\<lparr>xr_ID = seq_exchange_rates db, xr_FromCurrency = from, xr_ToCurrency = to, xr_BuyRate = numeric8 buy,
                   xr_SellRate = numeric8 sell, xr_Version = 1, xr_UpdatedAt = now\<rparr>],
                 seq_exchange_rates := Suc (seq_exchange_rates db)\<rparr>)
      | Some existing \<Rightarrow>
          save_rate (existing\<lparr>xr_BuyRate := numeric8 buy, xr_SellRate := numeric8 sell, xr_UpdatedAt := now\<rparr>) db)"

definition UpsertRate :: "int \<Rightarrow> string \<Rightarrow> string \<Rightarrow> decimal \<Rightarrow> decimal \<Rightarrow> exchange_db \<Rightarrow> unit result \<times> exchange_db" where
  "UpsertRate now from to buy sell =
     transaction (\<lambda>db. case UpsertInTx now from to buy sell db of Inl e \<Rightarrow> Inl e | Inr db' \<Rightarrow> Inr ((), db'))"

section \<open>The default rates\<close>

definition default_exchange_rates :: "(string \<times> string \<times> decimal \<times> decimal) list" where
  "default_exchange_rates =
     [(''EUR'', ''RSD'', 116, 118), (''RSD'', ''EUR'', 844 / 100000, 862 / 100000),
      (''USD'', ''RSD'', 106, 108), (''RSD'', ''USD'', 920 / 100000, 940 / 100000),
      (''CHF'', ''RSD'', 119, 121), (''RSD'', ''CHF'', 823 / 100000, 840 / 100000),
      (''GBP'', ''RSD'', 134, 137), (''RSD'', ''GBP'', 727 / 100000, 743 / 100000),
      (''JPY'', ''RSD'', 70 / 100, 72 / 100), (''RSD'', ''JPY'', 138 / 100, 142 / 100),
      (''CAD'', ''RSD'', 78, 80), (''RSD'', ''CAD'', 1245 / 100000, 1282 / 100000),
      (''AUD'', ''RSD'', 68, 70), (''RSD'', ''AUD'', 1420 / 100000, 1470 / 100000)]"

definition SeedDefaultRates :: "int \<Rightarrow> exchange_db \<Rightarrow> exchange_db" where
  "SeedDefaultRates now =
     fold (\<lambda>(from, to, buy, sell) db.
       case GetByPair from to db of Some _ \<Rightarrow> db | None \<Rightarrow> snd (UpsertRate now from to buy sell db)) default_exchange_rates"

section \<open>The rate provider's answer\<close>

text \<open>
  What the HTTP call brings back: no answer, or a status with the body, \<open>None\<close> if it cannot be read and parsed. A rate is
  the decimal that the floating-point number of the body stands for.
\<close>

record api_response =
  ar_Result :: string
  ar_Rates :: "string \<rightharpoonup> decimal"

datatype http_answer = NoAnswer | HTTPAnswer int "api_response option"

definition SupportedCurrencies :: "string list" where
  "SupportedCurrencies = [''EUR'', ''CHF'', ''USD'', ''GBP'', ''JPY'', ''CAD'', ''AUD'']"

definition FetchRatesFromRSD :: "http_answer \<Rightarrow> (string \<times> decimal) list result" where
  "FetchRatesFromRSD answer =
     (case answer of
        NoAnswer \<Rightarrow> Inl (Plain ''exchange rate API request failed'')
      | HTTPAnswer status body \<Rightarrow>
          if status \<noteq> 200 then Inl (Plain ''exchange rate API returned HTTP'')
          else case body of
                 None \<Rightarrow> Inl (Plain ''parsing exchange rate API response'')
               | Some apiResp \<Rightarrow>
                   if ar_Result apiResp \<noteq> ''success'' then Inl (Plain ''exchange rate API returned result'')
                   else (let rates = List.map_filter (\<lambda>code. case ar_Rates apiResp code of
                                        None \<Rightarrow> None
                                      | Some raw \<Rightarrow> if raw \<le> 0 then None else Some (code, raw)) SupportedCurrencies
                         in if rates = [] then Inl (Plain ''exchange rate API: no supported currencies in response'')
                            else Inr rates))"

section \<open>Service\<close>

definition getCachedRate :: "string \<Rightarrow> string \<Rightarrow> exchange_db \<Rightarrow> exchange_rate result \<times> exchange_db" where
  "getCachedRate from to db =
     (case rate_cache db (from, to) of
        Some cached \<Rightarrow> (Inr cached, db)
      | None \<Rightarrow>
          (case GetByPair from to db of
             None \<Rightarrow> (Inl ErrRateNotFound, db)
           | Some rate \<Rightarrow> (Inr rate, db\<lparr>rate_cache := (rate_cache db)((from, to) \<mapsto> rate)\<rparr>)))"

fun sync_body ::
  "(decimal \<Rightarrow> decimal \<Rightarrow> decimal) \<Rightarrow> exchange_config \<Rightarrow> int \<Rightarrow> (string \<times> decimal) list \<Rightarrow> exchange_db \<Rightarrow>
     go_error + (unit \<times> exchange_db)" where
  "sync_body dv cfg now [] db = Inr ((), db)"
| "sync_body dv cfg now ((code, midRsdToC) # rates) db =
     (if midRsdToC = 0 then sync_body dv cfg now rates db
      else case UpsertInTx now ''RSD'' code (midRsdToC * (1 - xc_spread cfg)) (midRsdToC * (1 + xc_spread cfg)) db of
             Inl e \<Rightarrow> Inl e
           | Inr db1 \<Rightarrow>
               (let midCToRsd = dv 1 midRsdToC
                in case UpsertInTx now code ''RSD'' (midCToRsd * (1 - xc_spread cfg)) (midCToRsd * (1 + xc_spread cfg)) db1 of
                     Inl e \<Rightarrow> Inl e
                   | Inr db2 \<Rightarrow> sync_body dv cfg now rates db2))"

definition SyncRates ::
  "(decimal \<Rightarrow> decimal \<Rightarrow> decimal) \<Rightarrow> exchange_config \<Rightarrow> int \<Rightarrow> (string \<times> decimal) list result \<Rightarrow> exchange_db \<Rightarrow>
     unit result \<times> exchange_db" where
  "SyncRates dv cfg now fetched db =
     (case fetched of
        Inl e \<Rightarrow> (Inl e, db)
      | Inr rates \<Rightarrow>
          (case transaction (sync_body dv cfg now rates) db of
             (Inl e, db1) \<Rightarrow> (Inl e, db1)
           | (Inr _, db1) \<Rightarrow> (Inr (), db1\<lparr>rate_cache := Map.empty\<rparr>)))"

definition singleLeg :: "string \<Rightarrow> string \<Rightarrow> decimal \<Rightarrow> exchange_db \<Rightarrow> (decimal \<times> decimal) result \<times> exchange_db" where
  "singleLeg from to amount db =
     (case getCachedRate from to db of
        (Inl e, db1) \<Rightarrow> (Inl e, db1)
      | (Inr rate, db1) \<Rightarrow> (Inr (amount * xr_SellRate rate, xr_SellRate rate), db1))"

definition twoLeg :: "string \<Rightarrow> string \<Rightarrow> decimal \<Rightarrow> exchange_db \<Rightarrow> (decimal \<times> decimal) result \<times> exchange_db" where
  "twoLeg from to amount db =
     (case getCachedRate from ''RSD'' db of
        (Inl e, db1) \<Rightarrow> (Inl e, db1)
      | (Inr rateFromRSD, db1) \<Rightarrow>
          (let rsdAmount = amount * xr_SellRate rateFromRSD
           in case getCachedRate ''RSD'' to db1 of
                (Inl e, db2) \<Rightarrow> (Inl e, db2)
              | (Inr rateToTarget, db2) \<Rightarrow>
                  (Inr (rsdAmount * xr_SellRate rateToTarget, xr_SellRate rateFromRSD * xr_SellRate rateToTarget), db2)))"

definition Convert :: "string \<Rightarrow> string \<Rightarrow> decimal \<Rightarrow> exchange_db \<Rightarrow> (decimal \<times> decimal) result \<times> exchange_db" where
  "Convert from to amount db =
     (if from = to then (Inr (amount, 1), db)
      else if from = ''RSD'' then singleLeg ''RSD'' to amount db
      else if to = ''RSD'' then singleLeg from ''RSD'' amount db
      else twoLeg from to amount db)"

definition Calculate ::
  "exchange_config \<Rightarrow> string \<Rightarrow> string \<Rightarrow> decimal \<Rightarrow> exchange_db \<Rightarrow> (decimal \<times> decimal \<times> decimal) result \<times> exchange_db" where
  "Calculate cfg from to amount db =
     (if from = to then (Inr (amount, 0, 1), db)
      else if from = ''RSD'' \<or> to = ''RSD'' then
        (case Convert from to amount db of
           (Inl e, db1) \<Rightarrow> (Inl e, db1)
         | (Inr (gross, effRate), db1) \<Rightarrow>
             (Inr (gross - gross * xc_commissionRate cfg, xc_commissionRate cfg, effRate), db1))
      else
        (case getCachedRate from ''RSD'' db of
           (Inl e, db1) \<Rightarrow> (Inl e, db1)
         | (Inr rateStep1, db1) \<Rightarrow>
             (let grossRSD = amount * xr_SellRate rateStep1;
                  netRSD = grossRSD - grossRSD * xc_commissionRate cfg
              in case getCachedRate ''RSD'' to db1 of
                   (Inl e, db2) \<Rightarrow> (Inl e, db2)
                 | (Inr rateStep2, db2) \<Rightarrow>
                     (let grossTarget = netRSD * xr_SellRate rateStep2
                      in (Inr (grossTarget - grossTarget * xc_commissionRate cfg, xc_commissionRate cfg,
                               xr_SellRate rateStep1 * xr_SellRate rateStep2), db2)))))"

section \<open>Handler\<close>

definition validateCurrency :: "string \<Rightarrow> bool" where
  "validateCurrency code \<longleftrightarrow>
     code \<in> set [''RSD'', ''EUR'', ''CHF'', ''USD'', ''GBP'', ''JPY'', ''CAD'', ''AUD'']"

record rate_response =
  rr_FromCurrency :: string
  rr_ToCurrency :: string
  rr_BuyRate :: string
  rr_SellRate :: string
  rr_UpdatedAt :: string

text \<open>\<open>fixed6\<close> is \<^verbatim>\<open>StringFixed(6)\<close>, \<open>plain\<close> is \<^verbatim>\<open>String()\<close> of the decimal library.\<close>

record exchange_text =
  et_dt :: decimal_text
  et_fixed6 :: "decimal \<Rightarrow> string"
  et_plain :: "decimal \<Rightarrow> string"
  et_rfc3339 :: "int \<Rightarrow> string"

definition rateToProto :: "exchange_text \<Rightarrow> exchange_rate \<Rightarrow> rate_response" where
  "rateToProto et r =
     \<lparr>rr_FromCurrency = xr_FromCurrency r, rr_ToCurrency = xr_ToCurrency r, rr_BuyRate = et_fixed6 et (xr_BuyRate r),
      rr_SellRate = et_fixed6 et (xr_SellRate r), rr_UpdatedAt = et_rfc3339 et (xr_UpdatedAt r)\<rparr>"

definition ListRatesRPC :: "exchange_text \<Rightarrow> exchange_db \<Rightarrow> rate_response list result" where
  "ListRatesRPC et db = Inr (map (rateToProto et) (exchange_rates db))"

definition GetRateRPC :: "exchange_text \<Rightarrow> string \<Rightarrow> string \<Rightarrow> exchange_db \<Rightarrow> rate_response result \<times> exchange_db" where
  "GetRateRPC et from to db =
     (case getCachedRate from to db of (Inl e, db1) \<Rightarrow> (Inl e, db1) | (Inr r, db1) \<Rightarrow> (Inr (rateToProto et r), db1))"

text \<open>The checks that the two conversion calls share.\<close>

definition conversion_args :: "exchange_text \<Rightarrow> string \<Rightarrow> string \<Rightarrow> string \<Rightarrow> decimal result" where
  "conversion_args et from to amount =
     (case NewFromString (et_dt et) amount of
        None \<Rightarrow> Inl ErrExchangeInvalidAmount
      | Some x \<Rightarrow>
          if x \<le> 0 then Inl ErrExchangeInvalidAmount
          else if \<not> validateCurrency from then Inl ErrUnsupportedCurrency
          else if \<not> validateCurrency to then Inl ErrUnsupportedCurrency
          else Inr x)"

record calculate_response =
  car_FromCurrency :: string
  car_ToCurrency :: string
  car_InputAmount :: string
  car_ConvertedAmount :: string
  car_CommissionRate :: string
  car_EffectiveRate :: string

definition CalculateRPC ::
  "exchange_text \<Rightarrow> exchange_config \<Rightarrow> string \<Rightarrow> string \<Rightarrow> string \<Rightarrow> exchange_db \<Rightarrow> calculate_response result \<times> exchange_db" where
  "CalculateRPC et cfg from to amount db =
     (case conversion_args et from to amount of
        Inl e \<Rightarrow> (Inl e, db)
      | Inr x \<Rightarrow>
          (case Calculate cfg from to x db of
             (Inl e, db1) \<Rightarrow> (Inl e, db1)
           | (Inr (net, commRate, effRate), db1) \<Rightarrow>
               (Inr \<lparr>car_FromCurrency = from, car_ToCurrency = to, car_InputAmount = StringFixed4 (et_dt et) x,
                     car_ConvertedAmount = StringFixed4 (et_dt et) net, car_CommissionRate = et_plain et commRate,
                     car_EffectiveRate = et_fixed6 et effRate\<rparr>, db1)))"

definition ConvertRPC ::
  "exchange_text \<Rightarrow> string \<Rightarrow> string \<Rightarrow> string \<Rightarrow> exchange_db \<Rightarrow> (string \<times> string) result \<times> exchange_db" where
  "ConvertRPC et from to amount db =
     (case conversion_args et from to amount of
        Inl e \<Rightarrow> (Inl e, db)
      | Inr x \<Rightarrow>
          (case Convert from to x db of
             (Inl e, db1) \<Rightarrow> (Inl e, db1)
           | (Inr (converted, effRate), db1) \<Rightarrow>
               (Inr (StringFixed4 (et_dt et) converted, et_fixed6 et effRate), db1)))"

section \<open>The table as a map of quotes\<close>

text \<open>What the rest of the program sees of the table: the buying and selling rate of a pair.\<close>

definition quote :: "exchange_db \<Rightarrow> string \<times> string \<rightharpoonup> decimal \<times> decimal" where
  "quote db = (\<lambda>(from, to). map_option (\<lambda>r. (xr_BuyRate r, xr_SellRate r)) (GetByPair from to db))"

definition rate_rows_ok :: "exchange_db \<Rightarrow> bool" where
  "rate_rows_ok db \<longleftrightarrow> distinct (map xr_ID (exchange_rates db)) \<and> (\<forall>r \<in> set (exchange_rates db). xr_ID r < seq_exchange_rates db) \<and>
     distinct (map (\<lambda>r. (xr_FromCurrency r, xr_ToCurrency r)) (exchange_rates db))"

definition cache_true :: "exchange_db \<Rightarrow> bool" where
  "cache_true db \<longleftrightarrow> (\<forall>from to r. rate_cache db (from, to) = Some r \<longrightarrow> GetByPair from to db = Some r)"

fun synced :: "(decimal \<Rightarrow> decimal \<Rightarrow> decimal) \<Rightarrow> decimal \<Rightarrow> (string \<times> decimal) list \<Rightarrow>
    (string \<times> string \<rightharpoonup> decimal \<times> decimal) \<Rightarrow> (string \<times> string \<rightharpoonup> decimal \<times> decimal)" where
  "synced dv s [] q = q"
| "synced dv s ((c, m) # rates) q =
     synced dv s rates
       (if m = 0 then q
        else q((''RSD'', c) \<mapsto> (numeric8 (m * (1 - s)), numeric8 (m * (1 + s))),
               (c, ''RSD'') \<mapsto> (numeric8 (dv 1 m * (1 - s)), numeric8 (dv 1 m * (1 + s)))))"

definition convert_quote :: "(string \<times> string \<rightharpoonup> decimal \<times> decimal) \<Rightarrow> string \<Rightarrow> string \<Rightarrow> (decimal) option" where
  "convert_quote q from to =
     (if from = to then Some 1
      else if from = ''RSD'' \<or> to = ''RSD'' then map_option snd (q (from, to))
      else case (q (from, ''RSD''), q (''RSD'', to)) of (Some a, Some b) \<Rightarrow> Some (snd a * snd b) | _ \<Rightarrow> None)"

lemma UpsertInTx_quote:
  assumes ok: "rate_rows_ok db"
  obtains db' where "UpsertInTx now from to b s db = Inr db'" "rate_rows_ok db'" "quote db' = (quote db)((from, to) \<mapsto> (numeric8 b, numeric8 s))"
proof (cases "GetByPair from to db")
  case None
  define r where "r = \<lparr>xr_ID = seq_exchange_rates db, xr_FromCurrency = from, xr_ToCurrency = to, xr_BuyRate = numeric8 b,
      xr_SellRate = numeric8 s, xr_Version = 1, xr_UpdatedAt = now\<rparr>"
  define db' where "db' = db\<lparr>exchange_rates := exchange_rates db @ [r], seq_exchange_rates := Suc (seq_exchange_rates db)\<rparr>"
  have up: "UpsertInTx now from to b s db = Inr db'" by (simp add: UpsertInTx_def None db'_def r_def)
  have new: "(from, to) \<notin> (\<lambda>r. (xr_FromCurrency r, xr_ToCurrency r)) ` set (exchange_rates db)"
    using find_NoneD [OF None [unfolded GetByPair_def]] by auto
  have ok': "rate_rows_ok db'" using ok new by (auto simp: rate_rows_ok_def db'_def r_def)
  have "quote db' k = ((quote db)((from, to) \<mapsto> (numeric8 b, numeric8 s))) k" for k
    using None by (cases k) (auto simp: quote_def GetByPair_def db'_def r_def split: option.splits)
  from that [OF up ok' ext [OF this]] show thesis .
next
  case (Some x)
  let ?p = "\<lambda>r. xr_FromCurrency r = from \<and> xr_ToCurrency r = to"
  from find_SomeD [OF Some [unfolded GetByPair_def]] have x: "x \<in> set (exchange_rates db)" "xr_FromCurrency x = from" "xr_ToCurrency x = to"
    by auto
  define r where "r = x\<lparr>xr_BuyRate := numeric8 b, xr_SellRate := numeric8 s, xr_UpdatedAt := now, xr_Version := xr_Version x + 1\<rparr>"
  define db' where "db' = db\<lparr>exchange_rates := put_row xr_ID r (exchange_rates db)\<rparr>"
  have up: "UpsertInTx now from to b s db = Inr db'"
    using x by (auto simp: UpsertInTx_def Some save_rate_def db'_def r_def)
  have keys: "map xr_ID (exchange_rates db') = map xr_ID (exchange_rates db)"
    "map (\<lambda>r. (xr_FromCurrency r, xr_ToCurrency r)) (exchange_rates db') =
       map (\<lambda>r. (xr_FromCurrency r, xr_ToCurrency r)) (exchange_rates db)"
  proof -
    have same: "y = x" if "y \<in> set (exchange_rates db)" "xr_ID y = xr_ID r" for y
      using that x(1) ok by (auto simp: rate_rows_ok_def r_def intro: distinct_key_eq)
    show "map xr_ID (exchange_rates db') = map xr_ID (exchange_rates db)" by (simp add: db'_def)
    show "map (\<lambda>r. (xr_FromCurrency r, xr_ToCurrency r)) (exchange_rates db') =
       map (\<lambda>r. (xr_FromCurrency r, xr_ToCurrency r)) (exchange_rates db)"
      unfolding db'_def by (simp, rule map_other_put_row) (auto simp: r_def dest: same)
  qed
  have ok': "rate_rows_ok db'"
  proof -
    have "\<forall>r \<in> set (exchange_rates db'). xr_ID r < seq_exchange_rates db'"
      using ok x(1) by (auto simp: rate_rows_ok_def db'_def r_def dest!: in_put_rowD)
    with ok show ?thesis unfolding rate_rows_ok_def keys by simp
  qed
  have q: "GetByPair f t db' = (if f = from \<and> t = to then Some r else GetByPair f t db)" for f t
  proof (cases "f = from \<and> t = to")
    case True
    have r: "r \<in> set (exchange_rates db')" "xr_FromCurrency r = from" "xr_ToCurrency r = to"
      using x by (auto simp: db'_def r_def intro: in_put_row_new [OF x(1)])
    have "y = r" if "y \<in> set (exchange_rates db')" "?p y" for y
      using distinct_key_eq [of "\<lambda>r. (xr_FromCurrency r, xr_ToCurrency r)" "exchange_rates db'" y r] that r ok'
      by (simp add: rate_rows_ok_def)
    then have "find ?p (exchange_rates db') = Some r" by (rule find_unique [where p = ?p, OF r(1) conjI [OF r(2,3)]])
    with True show ?thesis by (simp add: GetByPair_def)
  next
    case False
    have "find (\<lambda>r. xr_FromCurrency r = f \<and> xr_ToCurrency r = t) (put_row xr_ID r (exchange_rates db)) =
        find (\<lambda>r. xr_FromCurrency r = f \<and> xr_ToCurrency r = t) (exchange_rates db)"
    proof (rule find_put_row_other)
      fix y assume "y \<in> set (exchange_rates db)" "xr_ID y = xr_ID r"
      then have "y = x" using x(1) ok by (auto simp: rate_rows_ok_def r_def intro: distinct_key_eq)
      with False x show "\<not> (xr_FromCurrency y = f \<and> xr_ToCurrency y = t)" by auto
    qed (use False x in \<open>auto simp: r_def\<close>)
    with False show ?thesis by (auto simp: GetByPair_def db'_def)
  qed
  have "quote db' k = ((quote db)((from, to) \<mapsto> (numeric8 b, numeric8 s))) k" for k
    by (cases k) (auto simp: quote_def q r_def)
  from that [OF up ok' ext [OF this]] show thesis .
qed

lemma sync_body_quote:
  assumes "rate_rows_ok db"
  shows "\<exists>db'. sync_body dv cfg now rates db = Inr ((), db') \<and> rate_rows_ok db' \<and> quote db' = synced dv (xc_spread cfg) rates (quote db)"
  using assms
proof (induction rates arbitrary: db)
  case (Cons r rates)
  obtain c m where r: "r = (c, m)" by (rule prod.exhaust)
  show ?case
  proof (cases "m = 0")
    case True
    with Cons r show ?thesis by simp
  next
    case False
    obtain db1 where u1: "UpsertInTx now ''RSD'' c (m * (1 - xc_spread cfg)) (m * (1 + xc_spread cfg)) db = Inr db1" "rate_rows_ok db1"
      "quote db1 = (quote db)((''RSD'', c) \<mapsto> (numeric8 (m * (1 - xc_spread cfg)), numeric8 (m * (1 + xc_spread cfg))))"
      using UpsertInTx_quote [OF Cons.prems] by blast
    obtain db2 where u2: "UpsertInTx now c ''RSD'' (dv 1 m * (1 - xc_spread cfg)) (dv 1 m * (1 + xc_spread cfg)) db1 = Inr db2"
      "rate_rows_ok db2" "quote db2 = (quote db1)((c, ''RSD'') \<mapsto> (numeric8 (dv 1 m * (1 - xc_spread cfg)), numeric8 (dv 1 m * (1 + xc_spread cfg))))"
      using UpsertInTx_quote [OF u1(2)] by blast
    have "sync_body dv cfg now (r # rates) db = sync_body dv cfg now rates db2"
      using False u1(1) u2(1) by (simp add: r Let_def)
    moreover have "synced dv (xc_spread cfg) (r # rates) (quote db) = synced dv (xc_spread cfg) rates (quote db2)"
      using False by (simp only: r synced.simps if_False u2(3) u1(3))
    ultimately show ?thesis using Cons.IH [OF u2(2)] by (simp only:)
  qed
qed simp

lemma getCachedRate_quote:
  assumes ok: "cache_true db" and run: "getCachedRate from to db = (res, db')"
  shows "cache_true db' \<and> quote db' = quote db \<and> exchange_rates db' = exchange_rates db \<and>
    seq_exchange_rates db' = seq_exchange_rates db \<and>
    (case quote db (from, to) of None \<Rightarrow> res = Inl ErrRateNotFound
     | Some (b, s) \<Rightarrow> \<exists>r. res = Inr r \<and> xr_BuyRate r = b \<and> xr_SellRate r = s)"
proof (cases "rate_cache db (from, to)")
  case (Some r)
  with ok have "GetByPair from to db = Some r" by (simp add: cache_true_def)
  with Some run ok show ?thesis by (auto simp: getCachedRate_def quote_def)
next
  case None
  show ?thesis
  proof (cases "GetByPair from to db")
    case None
    with \<open>rate_cache db (from, to) = None\<close> run ok show ?thesis by (auto simp: getCachedRate_def quote_def)
  next
    case (Some r)
    with None run have res: "res = Inr r" "db' = db\<lparr>rate_cache := (rate_cache db)((from, to) \<mapsto> r)\<rparr>" by (simp_all add: getCachedRate_def)
    have g: "GetByPair f t db' = GetByPair f t db" for f t by (simp add: res(2) GetByPair_def)
    have "cache_true db'" using ok Some by (auto simp: cache_true_def g) (auto simp: res(2) split: if_splits)
    moreover have "quote db' = quote db" by (simp add: quote_def g)
    ultimately show ?thesis using res Some by (simp add: quote_def)
  qed
qed

definition exchange_ok :: "exchange_db \<Rightarrow> bool" where
  "exchange_ok db \<longleftrightarrow> rate_rows_ok db \<and> cache_true db"

lemma getCachedRate_ok:
  assumes "exchange_ok db" "getCachedRate from to db = (res, db')"
  shows "exchange_ok db'" "quote db' = quote db"
  using getCachedRate_quote [OF _ assms(2)] assms(1) by (auto simp: exchange_ok_def rate_rows_ok_def)

lemma getCachedRateE:
  assumes "exchange_ok db" "getCachedRate from to db = (res, db')"
  obtains (missing) "quote db (from, to) = None" "res = Inl ErrRateNotFound" "exchange_ok db'" "quote db' = quote db"
  | (found) r b where "quote db (from, to) = Some (b, xr_SellRate r)" "res = Inr r" "exchange_ok db'" "quote db' = quote db"
  using getCachedRate_quote [OF _ assms(2)] getCachedRate_ok [OF assms] assms(1)
  by (cases "quote db (from, to)") (auto simp: exchange_ok_def)

lemma Convert_quote:
  assumes ok: "exchange_ok db" and run: "Convert from to x db = (res, db')"
  shows "exchange_ok db' \<and> quote db' = quote db \<and>
    res = (case convert_quote (quote db) from to of None \<Rightarrow> Inl ErrRateNotFound | Some k \<Rightarrow> Inr (x * k, k))"
proof (cases "from = to \<or> from = ''RSD'' \<or> to = ''RSD''")
  case True
  show ?thesis
  proof (cases "from = to")
    case False
    obtain r d where g: "getCachedRate from to db = (r, d)" by (rule prod.exhaust)
    with run True False have "(res, db') = (case r of Inl e \<Rightarrow> (Inl e, d) | Inr rate \<Rightarrow> (Inr (x * xr_SellRate rate, xr_SellRate rate), d))"
      by (auto simp: Convert_def singleLeg_def split: sum.splits if_splits)
    from ok g show ?thesis
      by (cases rule: getCachedRateE) (use True False \<open>(res, db') = _\<close> in \<open>auto simp: convert_quote_def\<close>)
  qed (use run ok in \<open>auto simp: Convert_def convert_quote_def\<close>)
next
  case False
  obtain r1 d1 where g1: "getCachedRate from ''RSD'' db = (r1, d1)" by (rule prod.exhaust)
  obtain r2 d2 where g2: "getCachedRate ''RSD'' to d1 = (r2, d2)" by (rule prod.exhaust)
  from run False have two: "twoLeg from to x db = (res, db')" by (simp add: Convert_def)
  from ok g1 show ?thesis
  proof (cases rule: getCachedRateE)
    case missing
    with two g1 False show ?thesis by (auto simp: twoLeg_def convert_quote_def)
  next
    case (found a b1)
    from found(3) g2 show ?thesis
      by (cases rule: getCachedRateE) (use two g1 g2 found False in \<open>auto simp: twoLeg_def convert_quote_def mult.assoc\<close>)
  qed
qed

section \<open>Synchronisation\<close>

lemma synced_other: "from \<noteq> ''RSD'' \<Longrightarrow> to \<noteq> ''RSD'' \<Longrightarrow> synced dv s rates q (from, to) = q (from, to)"
  by (induction rates arbitrary: q) auto

lemma synced_skip:
  "c \<notin> fst ` set rates \<Longrightarrow> c \<noteq> ''RSD'' \<Longrightarrow> synced dv s rates q (''RSD'', c) = q (''RSD'', c) \<and> synced dv s rates q (c, ''RSD'') = q (c, ''RSD'')"
  by (induction rates arbitrary: q) auto

lemma synced_at:
  assumes "distinct (map fst rates)" "''RSD'' \<notin> fst ` set rates" "(c, m) \<in> set rates" "m \<noteq> 0"
  shows "synced dv s rates q (''RSD'', c) = Some (numeric8 (m * (1 - s)), numeric8 (m * (1 + s)))"
    "synced dv s rates q (c, ''RSD'') = Some (numeric8 (dv 1 m * (1 - s)), numeric8 (dv 1 m * (1 + s)))"
  using assms
proof (induction rates arbitrary: q)
  case (Cons r rates)
  obtain d n where r: "r = (d, n)" by (rule prod.exhaust)
  { case 1
    then show ?case using Cons.IH(1) synced_skip [of c rates dv s] by (cases "c = d") (auto simp: r image_iff)
  next
    case 2
    then show ?case using Cons.IH(2) synced_skip [of c rates dv s] by (cases "c = d") (auto simp: r image_iff) }
qed simp_all

lemma FetchRatesFromRSD_rates:
  assumes "FetchRatesFromRSD answer = Inr rates"
  shows "distinct (map fst rates)" "''RSD'' \<notin> fst ` set rates" "rates \<noteq> []" "(c, m) \<in> set rates \<Longrightarrow> 0 < m"
proof -
  from assms obtain f where f: "rates = List.map_filter (\<lambda>code. case f code of
      None \<Rightarrow> None | Some raw \<Rightarrow> if raw \<le> 0 then None else Some (code, raw)) SupportedCurrencies" "rates \<noteq> []"
    by (auto simp: FetchRatesFromRSD_def Let_def split: http_answer.splits if_splits option.splits)
  let ?g = "\<lambda>code. case f code of None \<Rightarrow> None | Some raw \<Rightarrow> if raw \<le> 0 then None else Some (code, raw)"
  have sub: "fst ` set (List.map_filter ?g cs) \<subseteq> set cs" for cs
    by (induction cs) (auto simp: map_filter_simps split: option.splits)
  have "distinct cs \<Longrightarrow> distinct (map fst (List.map_filter ?g cs))" for cs
    using sub by (induction cs) (force simp: map_filter_simps split: option.splits)+
  moreover have "distinct SupportedCurrencies" by (simp add: SupportedCurrencies_def)
  ultimately show "distinct (map fst rates)" by (simp only: f(1))
  show "''RSD'' \<notin> fst ` set rates" using sub [of SupportedCurrencies] by (auto simp: f(1) SupportedCurrencies_def)
  have "(c, m) \<in> set (List.map_filter ?g cs) \<Longrightarrow> 0 < m" for cs
    by (induction cs) (auto simp: map_filter_simps split: option.splits if_splits)
  then show "(c, m) \<in> set rates \<Longrightarrow> 0 < m" by (simp add: f(1))
qed (use assms in \<open>auto simp: FetchRatesFromRSD_def Let_def split: http_answer.splits if_splits option.splits\<close>)

lemma SyncRates_quote:
  assumes "exchange_ok db"
  obtains db' where "SyncRates dv cfg now (Inr rates) db = (Inr (), db')" "exchange_ok db'"
    "quote db' = synced dv (xc_spread cfg) rates (quote db)"
proof -
  from assms have "rate_rows_ok db" by (simp add: exchange_ok_def)
  from sync_body_quote [OF this] obtain d where d: "sync_body dv cfg now rates db = Inr ((), d)" "rate_rows_ok d"
    "quote d = synced dv (xc_spread cfg) rates (quote db)" by blast
  show thesis
  proof (rule that)
    show "SyncRates dv cfg now (Inr rates) db = (Inr (), d\<lparr>rate_cache := Map.empty\<rparr>)"
      by (simp add: SyncRates_def transaction_def d(1))
    show "exchange_ok (d\<lparr>rate_cache := Map.empty\<rparr>)" using d(2) by (simp add: exchange_ok_def rate_rows_ok_def cache_true_def)
    have "quote (d\<lparr>rate_cache := Map.empty\<rparr>) = quote d" by (simp add: quote_def GetByPair_def)
    then show "quote (d\<lparr>rate_cache := Map.empty\<rparr>) = synced dv (xc_spread cfg) rates (quote db)" by (simp add: d(3))
  qed
qed

text \<open>What a sync promises of the table: both directions of every quoted currency, and nothing else.\<close>

definition sync_spec :: "(decimal \<Rightarrow> decimal \<Rightarrow> decimal) \<Rightarrow> decimal \<Rightarrow> (string \<rightharpoonup> decimal) \<Rightarrow>
    (string \<times> string \<rightharpoonup> decimal \<times> decimal) \<Rightarrow> (string \<times> string \<rightharpoonup> decimal \<times> decimal)" where
  "sync_spec dv s mid q = (\<lambda>(from, to).
     if from = ''RSD'' then case mid to of None \<Rightarrow> q (from, to) | Some m \<Rightarrow> Some (numeric8 (m * (1 - s)), numeric8 (m * (1 + s)))
     else if to = ''RSD'' then
       case mid from of None \<Rightarrow> q (from, to) | Some m \<Rightarrow> Some (numeric8 (dv 1 m * (1 - s)), numeric8 (dv 1 m * (1 + s)))
     else q (from, to))"

lemma synced_RSD: "''RSD'' \<notin> fst ` set rates \<Longrightarrow> synced dv s rates q (''RSD'', ''RSD'') = q (''RSD'', ''RSD'')"
  by (induction rates arbitrary: q) auto

lemma synced_spec:
  assumes "distinct (map fst rates)" "''RSD'' \<notin> fst ` set rates" "\<And>c m. (c, m) \<in> set rates \<Longrightarrow> m \<noteq> 0"
  shows "synced dv s rates q = sync_spec dv s (map_of rates) q"
proof
  fix k :: "string \<times> string"
  obtain f t where k: "k = (f, t)" by (rule prod.exhaust)
  define c where "c = (if f = ''RSD'' then t else f)"
  consider "f \<noteq> ''RSD'' \<and> t \<noteq> ''RSD''" | "f = ''RSD'' \<and> t = ''RSD''"
    | "(f = ''RSD'' \<and> t = c \<or> f = c \<and> t = ''RSD'')" "c \<noteq> ''RSD''" by (cases "f = ''RSD''") (auto simp: c_def)
  then show "synced dv s rates q k = sync_spec dv s (map_of rates) q k"
  proof cases
    case 1
    then show ?thesis by (simp add: k sync_spec_def synced_other)
  next
    case 2
    with assms(2) have "map_of rates ''RSD'' = None" by (simp add: map_of_eq_None_iff)
    with 2 assms(2) show ?thesis by (simp add: k sync_spec_def synced_RSD)
  next
    case 3
    show ?thesis
    proof (cases "map_of rates c")
      case None
      then have "c \<notin> fst ` set rates" by (simp add: map_of_eq_None_iff)
      with 3 None synced_skip [of c rates dv s q] show ?thesis by (auto simp: k sync_spec_def)
    next
      case (Some m)
      then have "(c, m) \<in> set rates" by (rule map_of_SomeD)
      with 3 Some synced_at [OF assms(1,2) this assms(3) [OF this], of dv s q] show ?thesis by (auto simp: k sync_spec_def)
    qed
  qed
qed

lemma map_of_order:
  assumes "distinct (map fst xs)" "mset ys = mset xs"
  shows "map_of ys = map_of xs" "distinct (map fst ys)" "set ys = set xs"
proof -
  show s: "set ys = set xs" using assms(2) by (metis set_mset_mset)
  show d: "distinct (map fst ys)" using assms by (metis mset_map mset_eq_imp_distinct_iff)
  show "map_of ys = map_of xs" using d assms(1) s by (simp add: map_of_inject_set)
qed

lemma fetched_sync:
  assumes ok: "exchange_ok db" and f: "FetchRatesFromRSD answer = Inr rates" and ord: "mset order = mset rates"
  obtains db' where "SyncRates dv cfg now (Inr order) db = (Inr (), db')" "exchange_ok db'"
    "quote db' = sync_spec dv (xc_spread cfg) (map_of rates) (quote db)"
proof -
  note r = FetchRatesFromRSD_rates [OF f] and o = map_of_order [OF FetchRatesFromRSD_rates(1) [OF f] ord]
  have "synced dv (xc_spread cfg) order (quote db) = sync_spec dv (xc_spread cfg) (map_of order) (quote db)"
    using r(2) r(4) o(2,3) by (intro synced_spec) (auto dest: less_imp_neq)
  with SyncRates_quote [OF ok, of dv cfg now order] that show thesis by (metis o(1))
qed

text \<open>
  C34: a synchronisation refines a replacement of quotes. Whatever the provider answers and in whatever order the rates are
  visited, a failed fetch changes nothing; otherwise the sync succeeds, both directions of every quoted currency carry
  the mid rate less and plus the spread, all other pairs are as before, the table has one row per pair, no stale rate
  stays cached, and every conversion that follows is answered from the new quotes or with the missing-rate error.
\<close>

theorem rates_sync:
  assumes ok: "exchange_ok db"
    and fetched: "case FetchRatesFromRSD answer of Inl e \<Rightarrow> fetched = Inl e
      | Inr rates \<Rightarrow> \<exists>order. fetched = Inr order \<and> mset order = mset rates"
    and run: "SyncRates dv cfg now fetched db = (res, db')"
  shows "exchange_ok db' \<and>
    (case FetchRatesFromRSD answer of Inl e \<Rightarrow> res = Inl e \<and> db' = db
     | Inr rates \<Rightarrow> res = Inr () \<and> quote db' = sync_spec dv (xc_spread cfg) (map_of rates) (quote db)) \<and>
    fst (Convert from to x db') =
      (case convert_quote (quote db') from to of None \<Rightarrow> Inl ErrRateNotFound | Some k \<Rightarrow> Inr (x * k, k))"
proof -
  have "exchange_ok db' \<and>
    (case FetchRatesFromRSD answer of Inl e \<Rightarrow> res = Inl e \<and> db' = db
     | Inr rates \<Rightarrow> res = Inr () \<and> quote db' = sync_spec dv (xc_spread cfg) (map_of rates) (quote db))"
  proof (cases "FetchRatesFromRSD answer")
    case (Inl e)
    with fetched run ok show ?thesis by (simp add: SyncRates_def)
  next
    case (Inr rates)
    with fetched obtain order where o: "fetched = Inr order" "mset order = mset rates" by auto
    obtain d where "SyncRates dv cfg now (Inr order) db = (Inr (), d)" "exchange_ok d"
      "quote d = sync_spec dv (xc_spread cfg) (map_of rates) (quote db)" using fetched_sync [OF ok Inr o(2)] .
    with run o(1) Inr show ?thesis by simp
  qed
  moreover obtain r d where "Convert from to x db' = (r, d)" by (rule prod.exhaust)
  ultimately show ?thesis using Convert_quote [of db' "from" to x r d] by simp
qed

definition demo_answer :: http_answer where
  "demo_answer = HTTPAnswer 200 (Some \<lparr>ar_Result = ''success'', ar_Rates = [''EUR'' \<mapsto> 85 / 10000, ''USD'' \<mapsto> 95 / 10000]\<rparr>)"

definition demo_exchange_db :: exchange_db where
  "demo_exchange_db = \<lparr>exchange_rates = [], seq_exchange_rates = 1, rate_cache = Map.empty\<rparr>"

definition demo_exchange_config :: exchange_config where
  "demo_exchange_config = \<lparr>xc_commissionRate = 5 / 1000, xc_spread = 3 / 1000\<rparr>"

lemma demo_fetched: "FetchRatesFromRSD demo_answer = Inr [(''EUR'', 85 / 10000), (''USD'', 95 / 10000)]"
  by (simp add: FetchRatesFromRSD_def demo_answer_def SupportedCurrencies_def map_filter_simps)

lemma demo_exchange_ok: "exchange_ok demo_exchange_db"
  by (simp add: exchange_ok_def rate_rows_ok_def cache_true_def demo_exchange_db_def)

theorem rates_sync_witness:
  "\<exists>db'. SyncRates (/) demo_exchange_config 0 (Inr [(''USD'', 95 / 10000), (''EUR'', 85 / 10000)]) demo_exchange_db = (Inr (), db') \<and>
     quote db' (''RSD'', ''USD'') = Some (numeric8 (95 / 10000 * (1 - 3 / 1000)), numeric8 (95 / 10000 * (1 + 3 / 1000)))"
proof -
  let ?o = "[(''USD'', 95 / 10000), (''EUR'', 85 / 10000)] :: (string \<times> decimal) list"
  obtain res db' where run: "SyncRates (/) demo_exchange_config 0 (Inr ?o) demo_exchange_db = (res, db')" by (rule prod.exhaust)
  have "case FetchRatesFromRSD demo_answer of Inl e \<Rightarrow> Inr ?o = Inl e | Inr rates \<Rightarrow> \<exists>order. Inr ?o = Inr order \<and> mset order = mset rates"
    by (simp add: demo_fetched)
  from rates_sync [OF demo_exchange_ok this run] run show ?thesis
    by (simp add: demo_fetched sync_spec_def demo_exchange_config_def)
qed

section \<open>A conversion and its way back\<close>

lemma numeric8_near: "0 \<le> x \<Longrightarrow> x - 1 / (2 * 10 ^ 8) \<le> numeric8 x"
proof -
  assume x: "0 \<le> x"
  have "x * 10 ^ 8 + 1 / 2 < of_int \<lfloor>x * 10 ^ 8 + 1 / 2\<rfloor> + 1" by linarith
  then have "x * 10 ^ 8 - 1 / 2 \<le> of_int \<lfloor>x * 10 ^ 8 + 1 / 2\<rfloor>" by linarith
  then have "(x * 10 ^ 8 - 1 / 2) / 10 ^ 8 \<le> of_int \<lfloor>x * 10 ^ 8 + 1 / 2\<rfloor> / 10 ^ 8" by (rule divide_right_mono) simp
  moreover have "x = 0 \<or> sgn x = 1" using x by (auto simp: sgn_if)
  ultimately show ?thesis using x by (auto simp: numeric8_def field_simps)
qed

lemma stored_rate_gains:
  assumes "0 \<le> m" "1 / 10 ^ 8 \<le> s * m"
  shows "m * (1 + s / 2) \<le> numeric8 (m * (1 + s))"
proof -
  have "0 \<le> m * (1 + s)" using assms by (simp add: algebra_simps)
  from numeric8_near [OF this] assms(2) show ?thesis by (simp add: algebra_simps)
qed

text \<open>
  C35: after a sync a conversion and its way back gain. Both directions are multiplied by their selling rate, which is the
  mid rate plus the spread, so an amount that goes from dinars to a foreign currency and back comes out larger by at least
  half of the spread. Assumed is a spread that is not lost in the eight digits of the columns, and a quotient of the
  decimal library that is not too small.
\<close>

theorem exchange_roundtrip:
  assumes ok: "exchange_ok db" and f: "FetchRatesFromRSD answer = Inr rates" and ord: "mset order = mset rates"
    and c: "(c, m) \<in> set rates" and s: "0 < xc_spread cfg" and x: "0 \<le> x"
    and digits: "1 / 10 ^ 8 \<le> xc_spread cfg * m" "1 / 10 ^ 8 \<le> xc_spread cfg * dv 1 m"
    and quot: "1 \<le> m * dv 1 m * (1 + xc_spread cfg / 2)"
    and run: "SyncRates dv cfg now (Inr order) db = (res, db1)"
  shows "\<exists>y r1 db2 z r2 db3. Convert ''RSD'' c x db1 = (Inr (y, r1), db2) \<and> Convert c ''RSD'' y db2 = (Inr (z, r2), db3) \<and>
    x * (1 + xc_spread cfg / 2) \<le> z"
proof -
  let ?s = "xc_spread cfg" and ?a = "numeric8 (m * (1 + xc_spread cfg))" and ?b = "numeric8 (dv 1 m * (1 + xc_spread cfg))"
  note fr = FetchRatesFromRSD_rates [OF f]
  obtain d0 where "SyncRates dv cfg now (Inr order) db = (Inr (), d0)" "exchange_ok d0"
    "quote d0 = sync_spec dv ?s (map_of rates) (quote db)" using fetched_sync [OF ok f ord] .
  with run have ok1: "exchange_ok db1" and q1: "quote db1 = sync_spec dv ?s (map_of rates) (quote db)" by simp_all
  have m: "map_of rates c = Some m" "0 < m" "c \<noteq> ''RSD''"
    using fr(1,2) fr(4) [OF c] c by (auto simp: image_iff)
  have k: "convert_quote (quote db1) ''RSD'' c = Some ?a" "convert_quote (quote db1) c ''RSD'' = Some ?b"
    using m by (simp_all add: convert_quote_def q1 sync_spec_def)
  obtain r d where c1: "Convert ''RSD'' c x db1 = (r, d)" by (rule prod.exhaust)
  from Convert_quote [OF ok1 c1] k(1) have d: "r = Inr (x * ?a, ?a)" "exchange_ok d" "quote d = quote db1" by simp_all
  obtain r' d' where c2: "Convert c ''RSD'' (x * ?a) d = (r', d')" by (rule prod.exhaust)
  from Convert_quote [OF d(2) c2] k(2) d(3) have r': "r' = Inr (x * ?a * ?b, ?b)" by simp
  have "0 < ?s * dv 1 m" using digits(2) by (rule less_le_trans [rotated]) simp
  then have dpos: "0 \<le> dv 1 m" using s by (simp add: zero_less_mult_iff)
  have "x * (1 + ?s / 2) \<le> x * ((m * dv 1 m * (1 + ?s / 2)) * (1 + ?s / 2))"
    using quot s x by (intro mult_left_mono) (simp_all add: mult_right_mono [of 1])
  also have "\<dots> = x * ((m * (1 + ?s / 2)) * (dv 1 m * (1 + ?s / 2)))" by (simp add: algebra_simps)
  also have "\<dots> \<le> x * (?a * ?b)"
  proof (intro mult_left_mono [OF _ x] mult_mono)
    show a: "m * (1 + ?s / 2) \<le> ?a" by (rule stored_rate_gains [OF less_imp_le [OF m(2)] digits(1)])
    show "dv 1 m * (1 + ?s / 2) \<le> ?b" by (rule stored_rate_gains [OF dpos digits(2)])
    show "0 \<le> dv 1 m * (1 + ?s / 2)" using dpos s by simp
    have "0 \<le> m * (1 + ?s / 2)" using m(2) s by simp
    with a show "0 \<le> ?a" by (rule order.trans [rotated])
  qed
  finally have "x * (1 + ?s / 2) \<le> x * ?a * ?b" by (simp add: mult.assoc)
  with c1 c2 d(1) r' show ?thesis by blast
qed

theorem exchange_roundtrip_witness:
  "\<exists>db1 y r1 db2 z r2 db3.
     SyncRates (/) demo_exchange_config 0 (Inr [(''USD'', 95 / 10000), (''EUR'', 85 / 10000)]) demo_exchange_db = (Inr (), db1) \<and>
     Convert ''RSD'' ''EUR'' 1000 db1 = (Inr (y, r1), db2) \<and> Convert ''EUR'' ''RSD'' y db2 = (Inr (z, r2), db3) \<and> 1001 < z"
proof -
  let ?o = "[(''USD'', 95 / 10000), (''EUR'', 85 / 10000)] :: (string \<times> decimal) list"
  have ord: "mset ?o = mset [(''EUR'', 85 / 10000), (''USD'', 95 / 10000)]" by simp
  obtain db1 where run: "SyncRates (/) demo_exchange_config 0 (Inr ?o) demo_exchange_db = (Inr (), db1)"
    using SyncRates_quote [OF demo_exchange_ok] by blast
  have "\<exists>y r1 db2 z r2 db3. Convert ''RSD'' ''EUR'' 1000 db1 = (Inr (y, r1), db2) \<and>
      Convert ''EUR'' ''RSD'' y db2 = (Inr (z, r2), db3) \<and> 1000 * (1 + xc_spread demo_exchange_config / 2) \<le> z"
    by (rule exchange_roundtrip [OF demo_exchange_ok demo_fetched ord _ _ _ _ _ _ run, where m = "85 / 10000"])
      (simp_all add: demo_exchange_config_def)
  with run show ?thesis by (fastforce simp: demo_exchange_config_def)
qed

end
