(* ===== verification/Holding.thy ===== *)
theory Holding
  imports Prelude "HOL-Library.Word"
begin

text \<open>
  Share holdings of the stock service and the locks on them: \<^verbatim>\<open>model/holding.go\<close>, \<^verbatim>\<open>model/fund_holding.go\<close>,
  \<^verbatim>\<open>model/holding_reservation.go\<close>, \<^verbatim>\<open>repository/holding_repository.go\<close>, \<^verbatim>\<open>repository/fund_holding_repository.go\<close>,
  \<^verbatim>\<open>repository/holding_reservation_repository.go\<close> and \<^verbatim>\<open>service/holding_reservation_service.go\<close> under
  \<^verbatim>\<open>src/stock-service/internal/\<close>. A reservation locks shares for a sell order, a fund's sell order, an option contract of this
  bank, an option contract with a peer bank, or a vote on a transaction between banks. Quantities are \<^verbatim>\<open>int64\<close>: sums and
  differences that Go computes wrap around (\<open>i64\<close>), those that the database computes do not. Keys come from 63-bit
  sequences, so adding a constant to one does not wrap. The time stamps of the rows are left out.
\<close>

unbundle bit_operations_syntax

section \<open>Rows\<close>

definition i64 :: "int \<Rightarrow> int" where
  "i64 x = (x + 2 ^ 63) mod 2 ^ 64 - 2 ^ 63"

record holding =
  hd_ID :: nat
  hd_OwnerType :: string
  hd_OwnerID :: "nat option"
  hd_UserFirstName :: string
  hd_UserLastName :: string
  hd_SecurityType :: string
  hd_SecurityID :: nat
  hd_ListingID :: nat
  hd_Ticker :: string
  hd_Name :: string
  hd_Quantity :: int
  hd_AveragePrice :: decimal
  hd_ReservedQuantity :: int
  hd_AccountID :: nat
  hd_Version :: int
  hd_SagaID :: "string option"
  hd_SagaStep :: "string option"

record fund_holding =
  fh_ID :: nat
  fh_FundID :: nat
  fh_SecurityType :: string
  fh_SecurityID :: nat
  fh_Quantity :: int
  fh_ReservedQuantity :: int
  fh_AveragePriceRSD :: decimal
  fh_Version :: int

record holding_reservation =
  hr_ID :: nat
  hr_HoldingID :: nat
  hr_FundHoldingID :: "nat option"
  hr_OrderID :: "nat option"
  hr_OTCContractID :: "nat option"
  hr_PeerOptionContractID :: "nat option"
  hr_CrossbankTxID :: "string option"
  hr_Quantity :: int
  hr_Status :: string
  hr_Version :: int

record holding_settlement =
  hs_ID :: nat
  hs_HoldingReservationID :: nat
  hs_OrderTransactionID :: nat
  hs_Quantity :: int

text \<open>Of an option contract the exercise of a peer option reads and writes these columns.\<close>

record option_contract =
  oc_ID :: nat
  oc_Local :: bool
  oc_Status :: string

record stock_db =
  holdings :: "holding list"
  seq_holdings :: nat
  fund_holdings :: "fund_holding list"
  seq_fund_holdings :: nat
  holding_reservations :: "holding_reservation list"
  seq_holding_reservations :: nat
  holding_settlements :: "holding_settlement list"
  seq_holding_settlements :: nat
  credit_markers :: "string list"
  option_contracts :: "option_contract list"
  stock_ids :: "string \<rightharpoonup> nat"

definition HoldingReservationStatusActive :: string where
  "HoldingReservationStatusActive = ''active''"

definition HoldingReservationStatusReleased :: string where
  "HoldingReservationStatusReleased = ''released''"

definition HoldingReservationStatusSettled :: string where
  "HoldingReservationStatusSettled = ''settled''"

definition ValidateOwner :: "string \<Rightarrow> nat option \<Rightarrow> unit result" where
  "ValidateOwner t i =
     (if t \<noteq> ''client'' \<and> t \<noteq> ''bank'' then Inl (Plain ''invalid owner_type'')
      else if t = ''bank'' \<and> i \<noteq> None then Inl (Plain ''bank owner must have nil owner_id'')
      else if t = ''client'' \<and> i = None then Inl (Plain ''client owner must have non-nil owner_id'')
      else Inr ())"

text \<open>The key of the unique index on holdings: \<^verbatim>\<open>COALESCE(owner_id, 0)\<close> stands for a missing owner.\<close>

definition holding_key :: "holding \<Rightarrow> string \<times> nat \<times> string \<times> nat" where
  "holding_key h = (hd_OwnerType h, case hd_OwnerID h of None \<Rightarrow> 0 | Some i \<Rightarrow> i, hd_SecurityType h, hd_SecurityID h)"

definition create_holding :: "holding \<Rightarrow> stock_db \<Rightarrow> go_error + stock_db" where
  "create_holding h db =
     (case ValidateOwner (hd_OwnerType h) (hd_OwnerID h) of
        Inl e \<Rightarrow> Inl e
      | Inr _ \<Rightarrow>
          if \<exists>x \<in> set (holdings db). holding_key x = holding_key h then Inl ErrDuplicateKey
          else Inr (db\<lparr>holdings := holdings db @ [h\<lparr>hd_ID := seq_holdings db, hd_Version := 1\<rparr>],
                       seq_holdings := Suc (seq_holdings db)\<rparr>))"

definition save_holding :: "holding \<Rightarrow> stock_db \<Rightarrow> go_error + stock_db" where
  "save_holding h db =
     (case ValidateOwner (hd_OwnerType h) (hd_OwnerID h) of
        Inl e \<Rightarrow> Inl e
      | Inr _ \<Rightarrow>
          if \<exists>x \<in> set (holdings db). hd_ID x = hd_ID h \<and> hd_Version x = hd_Version h
          then Inr (db\<lparr>holdings := put_row hd_ID (h\<lparr>hd_Version := hd_Version h + 1\<rparr>) (holdings db)\<rparr>)
          else Inl ErrOptimisticLock)"

definition save_fund_holding :: "fund_holding \<Rightarrow> stock_db \<Rightarrow> go_error + stock_db" where
  "save_fund_holding h db =
     (if \<exists>x \<in> set (fund_holdings db). fh_ID x = fh_ID h \<and> fh_Version x = fh_Version h
      then Inr (db\<lparr>fund_holdings := put_row fh_ID (h\<lparr>fh_Version := fh_Version h + 1\<rparr>) (fund_holdings db)\<rparr>)
      else Inl ErrOptimisticLock)"

section \<open>Repository of reservations\<close>

text \<open>A reservation is created under exactly one key.\<close>

datatype hold_key = OrderKey nat | OTCKey nat | PeerKey nat | CrossKey string

fun has_hold_key :: "hold_key \<Rightarrow> holding_reservation \<Rightarrow> bool" where
  "has_hold_key (OrderKey i) r \<longleftrightarrow> hr_OrderID r = Some i"
| "has_hold_key (OTCKey i) r \<longleftrightarrow> hr_OTCContractID r = Some i"
| "has_hold_key (PeerKey i) r \<longleftrightarrow> hr_PeerOptionContractID r = Some i"
| "has_hold_key (CrossKey t) r \<longleftrightarrow> hr_CrossbankTxID r = Some t"

definition new_reservation :: "hold_key \<Rightarrow> nat \<Rightarrow> nat option \<Rightarrow> int \<Rightarrow> holding_reservation" where
  "new_reservation k hid fund qty =
     \<lparr>hr_ID = 0, hr_HoldingID = hid, hr_FundHoldingID = fund,
      hr_OrderID = (case k of OrderKey i \<Rightarrow> Some i | _ \<Rightarrow> None), hr_OTCContractID = (case k of OTCKey i \<Rightarrow> Some i | _ \<Rightarrow> None),
      hr_PeerOptionContractID = (case k of PeerKey i \<Rightarrow> Some i | _ \<Rightarrow> None),
      hr_CrossbankTxID = (case k of CrossKey t \<Rightarrow> Some t | _ \<Rightarrow> None),
      hr_Quantity = qty, hr_Status = HoldingReservationStatusActive, hr_Version = 0\<rparr>"

definition BeforeCreateReservation :: "holding_reservation \<Rightarrow> unit result" where
  "BeforeCreateReservation r =
     (let count = length (filter id [hr_OrderID r \<noteq> None, hr_OTCContractID r \<noteq> None,
                                     hr_PeerOptionContractID r \<noteq> None, hr_CrossbankTxID r \<noteq> None])
      in if count \<noteq> 1 then Inl (Plain ''holding_reservation requires exactly one of order_id, otc_contract_id, peer_option_contract_id, or crossbank_tx_id'')
         else Inr ())"

text \<open>The conflict column is the one of the key that is set; \<open>NULL\<close> never conflicts.\<close>

definition conflicts_with :: "holding_reservation \<Rightarrow> holding_reservation \<Rightarrow> bool" where
  "conflicts_with r x \<longleftrightarrow>
     (if hr_OTCContractID r \<noteq> None then hr_OTCContractID x = hr_OTCContractID r
      else if hr_PeerOptionContractID r \<noteq> None then hr_PeerOptionContractID x = hr_PeerOptionContractID r
      else if hr_CrossbankTxID r \<noteq> None then hr_CrossbankTxID x = hr_CrossbankTxID r
      else hr_OrderID r \<noteq> None \<and> hr_OrderID x = hr_OrderID r)"

definition InsertReservationIfAbsent :: "holding_reservation \<Rightarrow> stock_db \<Rightarrow> go_error + (bool \<times> holding_reservation) \<times> stock_db" where
  "InsertReservationIfAbsent r db =
     (case BeforeCreateReservation r of
        Inl e \<Rightarrow> Inl e
      | Inr _ \<Rightarrow>
          (case find (conflicts_with r) (holding_reservations db) of
             Some existing \<Rightarrow> Inr ((False, existing), db)
           | None \<Rightarrow>
               (let row = r\<lparr>hr_ID := seq_holding_reservations db\<rparr>
                in Inr ((True, row), db\<lparr>holding_reservations := holding_reservations db @ [row],
                                        seq_holding_reservations := Suc (seq_holding_reservations db)\<rparr>))))"

definition GetReservationForUpdate :: "hold_key \<Rightarrow> stock_db \<Rightarrow> holding_reservation option" where
  "GetReservationForUpdate k db = find (has_hold_key k) (holding_reservations db)"

definition UpdateReservation :: "holding_reservation \<Rightarrow> stock_db \<Rightarrow> go_error + stock_db" where
  "UpdateReservation r db =
     (if \<exists>x \<in> set (holding_reservations db). hr_ID x = hr_ID r \<and> hr_Version x = hr_Version r
      then if \<exists>x \<in> set (holding_reservations db). hr_ID x \<noteq> hr_ID r \<and> hr_PeerOptionContractID r \<noteq> None \<and>
                hr_PeerOptionContractID x = hr_PeerOptionContractID r
           then Inl ErrDuplicateKey
           else Inr (db\<lparr>holding_reservations :=
                  put_row hr_ID (r\<lparr>hr_Version := hr_Version r + 1\<rparr>) (holding_reservations db)\<rparr>)
      else Inl ErrOptimisticLock)"

definition SumHoldingSettlements :: "nat \<Rightarrow> stock_db \<Rightarrow> int" where
  "SumHoldingSettlements rid db = tsum hs_Quantity (filter (\<lambda>t. hs_HoldingReservationID t = rid) (holding_settlements db))"

definition create_settlement :: "nat \<Rightarrow> nat \<Rightarrow> int \<Rightarrow> stock_db \<Rightarrow> bool \<times> stock_db" where
  "create_settlement rid txn qty db =
     (if \<exists>t \<in> set (holding_settlements db). hs_OrderTransactionID t = txn then (False, db)
      else (True, db\<lparr>holding_settlements := holding_settlements db @
                       [\<lparr>hs_ID = seq_holding_settlements db, hs_HoldingReservationID = rid, hs_OrderTransactionID = txn, hs_Quantity = qty\<rparr>],
                     seq_holding_settlements := Suc (seq_holding_settlements db)\<rparr>))"

section \<open>Locking shares\<close>

record reserve_holding_result =
  rh_ReservationID :: nat
  rh_ReservedQuantity :: int
  rh_AvailableQuantity :: int

record release_holding_result =
  lh_ReleasedQuantity :: int
  lh_ReservedQuantity :: int

record settle_holding_result =
  sh_SettledQuantity :: int
  sh_RemainingReserved :: int
  sh_QuantityAfter :: int
  sh_AveragePriceBefore :: decimal
  sh_AlreadySettled :: bool

definition owned_by :: "string \<Rightarrow> nat option \<Rightarrow> holding \<Rightarrow> bool" where
  "owned_by t i h \<longleftrightarrow> hd_OwnerType h = t \<and> hd_OwnerID h = i"

text \<open>
  What the four reserve operations on holdings do inside their transaction. The increment is one \<^verbatim>\<open>UPDATE\<close> that
  checks the available quantity again.
\<close>

definition reserve_shares :: "(holding \<Rightarrow> bool) \<Rightarrow> hold_key \<Rightarrow> int \<Rightarrow> stock_db \<Rightarrow> go_error + reserve_holding_result \<times> stock_db" where
  "reserve_shares p k qty db =
     (case find p (holdings db) of
        None \<Rightarrow> Inl (Status FailedPrecondition ''holding not found'')
      | Some h \<Rightarrow>
          if i64 (hd_Quantity h - hd_ReservedQuantity h) < qty then Inl (Status FailedPrecondition ''insufficient available quantity'')
          else (case InsertReservationIfAbsent (new_reservation k (hd_ID h) None qty) db of
                  Inl e \<Rightarrow> Inl e
                | Inr ((inserted, row), db1) \<Rightarrow>
                    if \<not> inserted
                    then Inr (\<lparr>rh_ReservationID = hr_ID row, rh_ReservedQuantity = hd_ReservedQuantity h,
                               rh_AvailableQuantity = i64 (hd_Quantity h - hd_ReservedQuantity h)\<rparr>, db1)
                    else if \<exists>x \<in> set (holdings db1). hd_ID x = hd_ID h \<and> hd_Quantity x - hd_ReservedQuantity x \<ge> qty
                    then Inr (\<lparr>rh_ReservationID = hr_ID row, rh_ReservedQuantity = i64 (hd_ReservedQuantity h + qty),
                               rh_AvailableQuantity = i64 (hd_Quantity h - i64 (hd_ReservedQuantity h + qty))\<rparr>,
                          db1\<lparr>holdings := upd_rows (\<lambda>x. hd_ID x = hd_ID h \<and> hd_Quantity x - hd_ReservedQuantity x \<ge> qty)
                            (\<lambda>x. x\<lparr>hd_ReservedQuantity := hd_ReservedQuantity x + qty, hd_Version := hd_Version x + 1\<rparr>)
                            (holdings db1)\<rparr>)
                    else Inl (Status FailedPrecondition ''insufficient available quantity'')))"

definition ReserveHolding ::
  "string \<Rightarrow> nat option \<Rightarrow> string \<Rightarrow> nat \<Rightarrow> nat \<Rightarrow> int \<Rightarrow> stock_db \<Rightarrow> reserve_holding_result result \<times> stock_db" where
  "ReserveHolding ownerType ownerID securityType securityID orderID qty db =
     (if qty \<le> 0 then (Inl (Status InvalidArgument ''qty must be > 0''), db)
      else transaction (reserve_shares
        (\<lambda>h. hd_SecurityType h = securityType \<and> hd_SecurityID h = securityID \<and> owned_by ownerType ownerID h) (OrderKey orderID) qty) db)"

definition reserve_fund_shares :: "nat \<Rightarrow> string \<Rightarrow> nat \<Rightarrow> nat \<Rightarrow> int \<Rightarrow> stock_db \<Rightarrow> go_error + reserve_holding_result \<times> stock_db" where
  "reserve_fund_shares fundID securityType securityID orderID qty db =
     (case find (\<lambda>h. fh_FundID h = fundID \<and> fh_SecurityType h = securityType \<and> fh_SecurityID h = securityID) (fund_holdings db) of
        None \<Rightarrow> Inl (Status FailedPrecondition ''fund holding not found'')
      | Some h \<Rightarrow>
          if i64 (fh_Quantity h - fh_ReservedQuantity h) < qty then Inl (Status FailedPrecondition ''insufficient available fund quantity'')
          else (case InsertReservationIfAbsent (new_reservation (OrderKey orderID) 0 (Some (fh_ID h)) qty) db of
                  Inl e \<Rightarrow> Inl e
                | Inr ((inserted, row), db1) \<Rightarrow>
                    if \<not> inserted
                    then Inr (\<lparr>rh_ReservationID = hr_ID row, rh_ReservedQuantity = fh_ReservedQuantity h,
                               rh_AvailableQuantity = i64 (fh_Quantity h - fh_ReservedQuantity h)\<rparr>, db1)
                    else if \<exists>x \<in> set (fund_holdings db1). fh_ID x = fh_ID h \<and> fh_Quantity x - fh_ReservedQuantity x \<ge> qty
                    then Inr (\<lparr>rh_ReservationID = hr_ID row, rh_ReservedQuantity = i64 (fh_ReservedQuantity h + qty),
                               rh_AvailableQuantity = i64 (fh_Quantity h - i64 (fh_ReservedQuantity h + qty))\<rparr>,
                          db1\<lparr>fund_holdings := upd_rows (\<lambda>x. fh_ID x = fh_ID h \<and> fh_Quantity x - fh_ReservedQuantity x \<ge> qty)
                            (\<lambda>x. x\<lparr>fh_ReservedQuantity := fh_ReservedQuantity x + qty, fh_Version := fh_Version x + 1\<rparr>)
                            (fund_holdings db1)\<rparr>)
                    else Inl (Status FailedPrecondition ''insufficient available fund quantity'')))"

definition ReserveFund :: "nat \<Rightarrow> string \<Rightarrow> nat \<Rightarrow> nat \<Rightarrow> int \<Rightarrow> stock_db \<Rightarrow> reserve_holding_result result \<times> stock_db" where
  "ReserveFund fundID securityType securityID orderID qty db =
     (if qty \<le> 0 then (Inl (Status InvalidArgument ''qty must be > 0''), db)
      else transaction (reserve_fund_shares fundID securityType securityID orderID qty) db)"

text \<open>\<^verbatim>\<open>strings.ToUpper\<close> on the letters of ASCII, which tickers consist of.\<close>

definition to_upper :: "string \<Rightarrow> string" where
  "to_upper = map (\<lambda>c. if of_char c \<ge> (97 :: nat) \<and> of_char c \<le> (122 :: nat) then char_of (of_char c - 32 :: nat) else c)"

definition ReserveForPeerOptionContract ::
  "string \<Rightarrow> nat option \<Rightarrow> string \<Rightarrow> string \<Rightarrow> nat \<Rightarrow> int \<Rightarrow> stock_db \<Rightarrow> reserve_holding_result result \<times> stock_db" where
  "ReserveForPeerOptionContract ownerType ownerID securityType ticker contractID qty db =
     (if qty \<le> 0 then (Inl (Status InvalidArgument ''qty must be > 0''), db)
      else transaction (reserve_shares
        (\<lambda>h. hd_SecurityType h = securityType \<and> hd_Ticker h = to_upper ticker \<and> owned_by ownerType ownerID h) (PeerKey contractID) qty) db)"

definition ReserveForOTCContract ::
  "string \<Rightarrow> nat option \<Rightarrow> string \<Rightarrow> nat \<Rightarrow> nat \<Rightarrow> int \<Rightarrow> stock_db \<Rightarrow> reserve_holding_result result \<times> stock_db" where
  "ReserveForOTCContract ownerType ownerID securityType securityID contractID qty db =
     (if qty \<le> 0 then (Inl (Status InvalidArgument ''qty must be > 0''), db)
      else transaction (reserve_shares
        (\<lambda>h. hd_SecurityType h = securityType \<and> hd_SecurityID h = securityID \<and> owned_by ownerType ownerID h) (OTCKey contractID) qty) db)"

definition ReserveForCrossBankNewTx ::
  "string \<Rightarrow> nat option \<Rightarrow> string \<Rightarrow> string \<Rightarrow> string \<Rightarrow> int \<Rightarrow> stock_db \<Rightarrow> reserve_holding_result result \<times> stock_db" where
  "ReserveForCrossBankNewTx ownerType ownerID securityType ticker crossbankTxID qty db =
     (if qty \<le> 0 then (Inl (Status InvalidArgument ''qty must be > 0''), db)
      else if crossbankTxID = [] then (Inl (Status InvalidArgument ''crossbankTxID required''), db)
      else transaction (reserve_shares
        (\<lambda>h. hd_SecurityType h = securityType \<and> hd_Ticker h = to_upper ticker \<and> owned_by ownerType ownerID h) (CrossKey crossbankTxID) qty) db)"

section \<open>Giving locked shares back\<close>

definition release_holding_reserved :: "nat \<Rightarrow> int \<Rightarrow> stock_db \<Rightarrow> go_error + int \<times> stock_db" where
  "release_holding_reserved hid remaining db =
     (case find (\<lambda>h. hd_ID h = hid) (holdings db) of
        None \<Rightarrow> Inl ErrRecordNotFound
      | Some h \<Rightarrow>
          (let r = max 0 (i64 (hd_ReservedQuantity h - remaining))
           in case save_holding (h\<lparr>hd_ReservedQuantity := r\<rparr>) db of Inl e \<Rightarrow> Inl e | Inr db' \<Rightarrow> Inr (r, db')))"

definition releaseFundHoldingReserved :: "nat \<Rightarrow> int \<Rightarrow> stock_db \<Rightarrow> go_error + int \<times> stock_db" where
  "releaseFundHoldingReserved fid remaining db =
     (case find (\<lambda>h. fh_ID h = fid) (fund_holdings db) of
        None \<Rightarrow> Inl ErrRecordNotFound
      | Some h \<Rightarrow>
          (let r = max 0 (i64 (fh_ReservedQuantity h - remaining))
           in case save_fund_holding (h\<lparr>fh_ReservedQuantity := r\<rparr>) db of Inl e \<Rightarrow> Inl e | Inr db' \<Rightarrow> Inr (r, db')))"

definition nothing_released :: release_holding_result where
  "nothing_released = \<lparr>lh_ReleasedQuantity = 0, lh_ReservedQuantity = 0\<rparr>"

text \<open>\<open>unlock\<close> returns the remaining shares to the position that the reservation locks.\<close>

definition release_shares ::
  "(holding_reservation \<Rightarrow> int \<Rightarrow> stock_db \<Rightarrow> go_error + int \<times> stock_db) \<Rightarrow> hold_key \<Rightarrow> stock_db \<Rightarrow>
     go_error + release_holding_result \<times> stock_db" where
  "release_shares unlock k db =
     (case GetReservationForUpdate k db of
        None \<Rightarrow> Inr (nothing_released, db)
      | Some res \<Rightarrow>
          if hr_Status res \<noteq> HoldingReservationStatusActive then Inr (nothing_released, db)
          else (let remaining = max 0 (i64 (hr_Quantity res - SumHoldingSettlements (hr_ID res) db))
                in case unlock res remaining db of
                     Inl e \<Rightarrow> Inl e
                   | Inr (reserved, db1) \<Rightarrow>
                       (case UpdateReservation (res\<lparr>hr_Status := HoldingReservationStatusReleased\<rparr>) db1 of
                          Inl e \<Rightarrow> Inl e
                        | Inr db2 \<Rightarrow> Inr (\<lparr>lh_ReleasedQuantity = remaining, lh_ReservedQuantity = reserved\<rparr>, db2))))"

definition unlock_order :: "holding_reservation \<Rightarrow> int \<Rightarrow> stock_db \<Rightarrow> go_error + int \<times> stock_db" where
  "unlock_order res remaining db =
     (case hr_FundHoldingID res of
        Some fid \<Rightarrow> releaseFundHoldingReserved fid remaining db
      | None \<Rightarrow> release_holding_reserved (hr_HoldingID res) remaining db)"

definition unlock_contract :: "holding_reservation \<Rightarrow> int \<Rightarrow> stock_db \<Rightarrow> go_error + int \<times> stock_db" where
  "unlock_contract res remaining db = release_holding_reserved (hr_HoldingID res) remaining db"

definition ReleaseHolding :: "nat \<Rightarrow> stock_db \<Rightarrow> release_holding_result result \<times> stock_db" where
  "ReleaseHolding orderID = transaction (release_shares unlock_order (OrderKey orderID))"

definition ReleaseForOTCContract :: "nat \<Rightarrow> stock_db \<Rightarrow> release_holding_result result \<times> stock_db" where
  "ReleaseForOTCContract contractID = transaction (release_shares unlock_contract (OTCKey contractID))"

definition ReleaseForPeerOptionContract :: "nat \<Rightarrow> stock_db \<Rightarrow> release_holding_result result \<times> stock_db" where
  "ReleaseForPeerOptionContract contractID = transaction (release_shares unlock_contract (PeerKey contractID))"

definition ReleaseForCrossBankNewTx :: "string \<Rightarrow> stock_db \<Rightarrow> release_holding_result result \<times> stock_db" where
  "ReleaseForCrossBankNewTx crossbankTxID = transaction (release_shares unlock_contract (CrossKey crossbankTxID))"

section \<open>Shares that leave a position\<close>

text \<open>What a first settlement does to the locked row; a replay only reads it.\<close>

definition draw_holding :: "nat \<Rightarrow> bool \<Rightarrow> int \<Rightarrow> stock_db \<Rightarrow> go_error + (int \<times> int) \<times> stock_db" where
  "draw_holding hid replay qty db =
     (case find (\<lambda>h. hd_ID h = hid) (holdings db) of
        None \<Rightarrow> Inl ErrRecordNotFound
      | Some h \<Rightarrow>
          if replay then Inr ((hd_ReservedQuantity h, hd_Quantity h), db)
          else (let h' = h\<lparr>hd_ReservedQuantity := max 0 (i64 (hd_ReservedQuantity h - qty)), hd_Quantity := i64 (hd_Quantity h - qty)\<rparr>
                in case save_holding h' db of Inl e \<Rightarrow> Inl e | Inr db' \<Rightarrow> Inr ((hd_ReservedQuantity h', hd_Quantity h'), db')))"

definition draw_fund_holding :: "nat \<Rightarrow> bool \<Rightarrow> int \<Rightarrow> stock_db \<Rightarrow> go_error + (int \<times> int) \<times> stock_db" where
  "draw_fund_holding fid replay qty db =
     (case find (\<lambda>h. fh_ID h = fid) (fund_holdings db) of
        None \<Rightarrow> Inl ErrRecordNotFound
      | Some h \<Rightarrow>
          if replay then Inr ((fh_ReservedQuantity h, fh_Quantity h), db)
          else (let h' = h\<lparr>fh_ReservedQuantity := max 0 (i64 (fh_ReservedQuantity h - qty)), fh_Quantity := i64 (fh_Quantity h - qty)\<rparr>
                in case save_fund_holding h' db of Inl e \<Rightarrow> Inl e | Inr db' \<Rightarrow> Inr ((fh_ReservedQuantity h', fh_Quantity h'), db')))"

text \<open>A reservation is closed once its whole quantity has been settled.\<close>

definition close_if_full :: "int \<Rightarrow> holding_reservation \<Rightarrow> stock_db \<Rightarrow> go_error + stock_db" where
  "close_if_full settled res db =
     (if settled = hr_Quantity res then UpdateReservation (res\<lparr>hr_Status := HoldingReservationStatusSettled\<rparr>) db else Inr db)"

definition partial_settle :: "nat \<Rightarrow> nat \<Rightarrow> int \<Rightarrow> stock_db \<Rightarrow> go_error + settle_holding_result \<times> stock_db" where
  "partial_settle orderID txn qty db =
     (case GetReservationForUpdate (OrderKey orderID) db of
        None \<Rightarrow> Inl (Status FailedPrecondition ''holding reservation not found'')
      | Some res \<Rightarrow>
          if hr_Status res \<noteq> HoldingReservationStatusActive then Inl (Status FailedPrecondition ''reservation status'')
          else (let settled = SumHoldingSettlements (hr_ID res) db
                in if i64 (settled + qty) > hr_Quantity res then Inl (Status FailedPrecondition ''settlement would exceed reservation'')
                   else (case create_settlement (hr_ID res) txn qty db of
                           (first, db1) \<Rightarrow>
                             (case (case hr_FundHoldingID res of
                                      Some fid \<Rightarrow> draw_fund_holding fid (\<not> first) qty db1
                                    | None \<Rightarrow> draw_holding (hr_HoldingID res) (\<not> first) qty db1) of
                                Inl e \<Rightarrow> Inl e
                              | Inr ((reserved, quantity), db2) \<Rightarrow>
                                  (case (if first then close_if_full (i64 (settled + qty)) res db2 else Inr db2) of
                                     Inl e \<Rightarrow> Inl e
                                   | Inr db3 \<Rightarrow>
                                       Inr (\<lparr>sh_SettledQuantity = qty, sh_RemainingReserved = reserved, sh_QuantityAfter = quantity,
                                             sh_AveragePriceBefore = 0, sh_AlreadySettled = False\<rparr>, db3))))))"

definition PartialSettleHolding :: "nat \<Rightarrow> nat \<Rightarrow> int \<Rightarrow> stock_db \<Rightarrow> settle_holding_result result \<times> stock_db" where
  "PartialSettleHolding orderID txn qty db =
     (if qty \<le> 0 then (Inl (Status InvalidArgument ''qty must be > 0''), db)
      else transaction (partial_settle orderID txn qty) db)"

text \<open>The exercise of an option consumes the seller's locked shares; both kinds of contract do the same to the tables.\<close>

definition consume_shares :: "hold_key \<Rightarrow> string \<Rightarrow> nat \<Rightarrow> int \<Rightarrow> stock_db \<Rightarrow> go_error + settle_holding_result \<times> stock_db" where
  "consume_shares k missing txn qty db =
     (case GetReservationForUpdate k db of
        None \<Rightarrow> Inl (Status FailedPrecondition missing)
      | Some res \<Rightarrow>
          if hr_Status res \<noteq> HoldingReservationStatusActive then Inl (Status FailedPrecondition ''reservation status'')
          else (case find (\<lambda>h. hd_ID h = hr_HoldingID res) (holdings db) of
                  None \<Rightarrow> Inl ErrRecordNotFound
                | Some h \<Rightarrow>
                    (let settled = SumHoldingSettlements (hr_ID res) db
                     in if i64 (settled + qty) > hr_Quantity res then Inl (Status FailedPrecondition ''settlement would exceed reservation'')
                        else (case create_settlement (hr_ID res) txn qty db of
                                (False, db1) \<Rightarrow>
                                  Inr (\<lparr>sh_SettledQuantity = qty, sh_RemainingReserved = hd_ReservedQuantity h, sh_QuantityAfter = hd_Quantity h,
                                        sh_AveragePriceBefore = hd_AveragePrice h, sh_AlreadySettled = True\<rparr>, db1)
                              | (True, db1) \<Rightarrow>
                                  (case draw_holding (hr_HoldingID res) False qty db1 of
                                     Inl e \<Rightarrow> Inl e
                                   | Inr ((reserved, quantity), db2) \<Rightarrow>
                                       (case close_if_full (i64 (settled + qty)) res db2 of
                                          Inl e \<Rightarrow> Inl e
                                        | Inr db3 \<Rightarrow>
                                            Inr (\<lparr>sh_SettledQuantity = qty, sh_RemainingReserved = reserved, sh_QuantityAfter = quantity,
                                                  sh_AveragePriceBefore = hd_AveragePrice h, sh_AlreadySettled = False\<rparr>, db3)))))))"

definition ConsumeForOTCContract :: "nat \<Rightarrow> int \<Rightarrow> nat \<Rightarrow> stock_db \<Rightarrow> settle_holding_result result \<times> stock_db" where
  "ConsumeForOTCContract contractID qty syntheticTxnID db =
     (if qty \<le> 0 then (Inl (Status InvalidArgument ''qty must be > 0''), db)
      else case transaction (consume_shares (OTCKey contractID) ''OTC reservation not found'' syntheticTxnID qty) db of
             (Inl e, db') \<Rightarrow> (Inl e, db')
           | (Inr out, db') \<Rightarrow> (Inr (out\<lparr>sh_AveragePriceBefore := 0, sh_AlreadySettled := False\<rparr>), db'))"

definition peerOTCSettlementOffset :: nat where
  "peerOTCSettlementOffset = 1000000000000000"

definition ConsumeForPeerOptionContract :: "nat \<Rightarrow> int \<Rightarrow> stock_db \<Rightarrow> settle_holding_result result \<times> stock_db" where
  "ConsumeForPeerOptionContract contractID qty db =
     (if qty \<le> 0 then (Inl (Status InvalidArgument ''qty must be > 0''), db)
      else transaction (consume_shares (PeerKey contractID) ''peer option reservation not found'' (contractID + peerOTCSettlementOffset) qty) db)"

definition restore_shares :: "nat \<Rightarrow> nat \<Rightarrow> stock_db \<Rightarrow> go_error + unit \<times> stock_db" where
  "restore_shares contractID txn db =
     (case find (\<lambda>t. hs_OrderTransactionID t = txn) (holding_settlements db) of
        None \<Rightarrow> Inr ((), db)
      | Some t \<Rightarrow>
          (case GetReservationForUpdate (OTCKey contractID) db of
             None \<Rightarrow> Inl ErrRecordNotFound
           | Some res \<Rightarrow>
               (case find (\<lambda>h. hd_ID h = hr_HoldingID res) (holdings db) of
                  None \<Rightarrow> Inl ErrRecordNotFound
                | Some h \<Rightarrow>
                    (case save_holding (h\<lparr>hd_Quantity := i64 (hd_Quantity h + hs_Quantity t),
                                          hd_ReservedQuantity := i64 (hd_ReservedQuantity h + hs_Quantity t)\<rparr>) db of
                       Inl e \<Rightarrow> Inl e
                     | Inr db1 \<Rightarrow>
                         (let db2 = db1\<lparr>holding_settlements := filter (\<lambda>x. hs_ID x \<noteq> hs_ID t) (holding_settlements db1)\<rparr>
                          in if hr_Status res = HoldingReservationStatusSettled
                             then (case UpdateReservation (res\<lparr>hr_Status := HoldingReservationStatusActive\<rparr>) db2 of
                                     Inl e \<Rightarrow> Inl e | Inr db3 \<Rightarrow> Inr ((), db3))
                             else Inr ((), db2))))))"

definition RestoreForOTCContract :: "nat \<Rightarrow> nat \<Rightarrow> stock_db \<Rightarrow> unit result \<times> stock_db" where
  "RestoreForOTCContract contractID syntheticTxnID = transaction (restore_shares contractID syntheticTxnID)"

definition AttachCrossBankReservationToContract :: "string \<Rightarrow> nat \<Rightarrow> stock_db \<Rightarrow> unit result \<times> stock_db" where
  "AttachCrossBankReservationToContract crossbankTxID contractID =
     transaction (\<lambda>db.
       case GetReservationForUpdate (CrossKey crossbankTxID) db of
         None \<Rightarrow> Inl (Status NotFound ''no vote-time share reservation for this crossbank_tx_id'')
       | Some res \<Rightarrow>
           if hr_PeerOptionContractID res = Some contractID then Inr ((), db)
           else (case UpdateReservation (res\<lparr>hr_PeerOptionContractID := Some contractID\<rparr>) db of
                   Inl e \<Rightarrow> Inl e | Inr db' \<Rightarrow> Inr ((), db')))"

section \<open>Shares that arrive\<close>

text \<open>The 64-bit FNV-1a hash, and the security number that stands for a ticker the catalogue does not have.\<close>

definition fnv1a :: "string \<Rightarrow> 64 word" where
  "fnv1a t = fold (\<lambda>c h. (h XOR word_of_nat (of_char c)) * 1099511628211) t 14695981039346656037"

definition syntheticSecurityID :: "string \<Rightarrow> nat" where
  "syntheticSecurityID ticker = 9000000000000 + unat (fnv1a (to_upper ticker)) mod 1000000000000"

text \<open>\<open>dv\<close> is the division of the decimal library.\<close>

definition creditBuyerHoldingTx ::
  "(decimal \<Rightarrow> decimal \<Rightarrow> decimal) \<Rightarrow> string \<Rightarrow> nat option \<Rightarrow> string \<Rightarrow> int \<Rightarrow> decimal \<Rightarrow> stock_db \<Rightarrow> go_error + stock_db" where
  "creditBuyerHoldingTx dv ownerType ownerID ticker qty strikePrice db =
     (case find (\<lambda>h. hd_SecurityType h = ''stock'' \<and> hd_Ticker h = ticker \<and> owned_by ownerType ownerID h) (holdings db) of
        Some h \<Rightarrow>
          (let totalQty = i64 (hd_Quantity h + qty)
           in save_holding (h\<lparr>hd_AveragePrice := dv (hd_AveragePrice h * of_int (hd_Quantity h) + strikePrice * of_int qty) (of_int totalQty),
                              hd_Quantity := totalQty\<rparr>) db)
      | None \<Rightarrow>
          (let secID = (case stock_ids db ticker of Some i \<Rightarrow> if i = 0 then syntheticSecurityID ticker else i | None \<Rightarrow> syntheticSecurityID ticker)
           in create_holding \<lparr>hd_ID = 0, hd_OwnerType = ownerType, hd_OwnerID = ownerID, hd_UserFirstName = [], hd_UserLastName = [],
                hd_SecurityType = ''stock'', hd_SecurityID = secID, hd_ListingID = 0, hd_Ticker = ticker, hd_Name = ticker,
                hd_Quantity = qty, hd_AveragePrice = strikePrice, hd_ReservedQuantity = 0, hd_AccountID = 0, hd_Version = 0,
                hd_SagaID = None, hd_SagaStep = None\<rparr> db))"

definition CreditBuyerHoldingForPeerOption ::
  "(decimal \<Rightarrow> decimal \<Rightarrow> decimal) \<Rightarrow> string \<Rightarrow> nat option \<Rightarrow> string \<Rightarrow> int \<Rightarrow> decimal \<Rightarrow> stock_db \<Rightarrow> unit result \<times> stock_db" where
  "CreditBuyerHoldingForPeerOption dv ownerType ownerID ticker qty strikePrice db =
     (if qty \<le> 0 then (Inl (Status InvalidArgument ''qty must be > 0''), db)
      else transaction (\<lambda>db. case creditBuyerHoldingTx dv ownerType ownerID ticker qty strikePrice db of
                               Inl e \<Rightarrow> Inl e | Inr db' \<Rightarrow> Inr ((), db')) db)"

definition exercise_credit ::
  "(decimal \<Rightarrow> decimal \<Rightarrow> decimal) \<Rightarrow> nat \<Rightarrow> string \<Rightarrow> nat option \<Rightarrow> string \<Rightarrow> int \<Rightarrow> decimal \<Rightarrow> stock_db \<Rightarrow> go_error + unit \<times> stock_db" where
  "exercise_credit dv contractID ownerType ownerID ticker qty strikePrice db =
     (case find (\<lambda>c. oc_ID c = contractID \<and> \<not> oc_Local c) (option_contracts db) of
        None \<Rightarrow> Inl (Status FailedPrecondition ''peer option contract not found (must be a remote/cross-bank contract)'')
      | Some c \<Rightarrow>
          if oc_Status c = ''exercised'' then Inr ((), db)
          else if oc_Status c \<noteq> ''active'' \<and> oc_Status c \<noteq> ''exercising''
          then Inl (Status FailedPrecondition ''cannot exercise contract in this status'')
          else (case creditBuyerHoldingTx dv ownerType ownerID ticker qty strikePrice db of
                  Inl e \<Rightarrow> Inl e
                | Inr db1 \<Rightarrow>
                    Inr ((), db1\<lparr>option_contracts := upd_rows (\<lambda>x. oc_ID x = oc_ID c) (\<lambda>x. x\<lparr>oc_Status := ''exercised''\<rparr>)
                                 (option_contracts db1)\<rparr>)))"

definition ExerciseBuyerCreditForPeerOption ::
  "(decimal \<Rightarrow> decimal \<Rightarrow> decimal) \<Rightarrow> nat \<Rightarrow> string \<Rightarrow> nat option \<Rightarrow> string \<Rightarrow> int \<Rightarrow> decimal \<Rightarrow> stock_db \<Rightarrow> unit result \<times> stock_db" where
  "ExerciseBuyerCreditForPeerOption dv contractID ownerType ownerID ticker qty strikePrice db =
     (if qty \<le> 0 then (Inl (Status InvalidArgument ''qty must be > 0''), db)
      else transaction (exercise_credit dv contractID ownerType ownerID ticker qty strikePrice) db)"

section \<open>Repository of holdings\<close>

text \<open>The saga that a context carries: its identifier and step.\<close>

definition stampHoldingSaga :: "string option \<times> string option \<Rightarrow> holding \<Rightarrow> holding" where
  "stampHoldingSaga ctx h =
     (let h1 = (case fst ctx of Some i \<Rightarrow> if i = [] then h else h\<lparr>hd_SagaID := Some i\<rparr> | None \<Rightarrow> h)
      in case snd ctx of Some t \<Rightarrow> if t = [] then h1 else h1\<lparr>hd_SagaStep := Some t\<rparr> | None \<Rightarrow> h1)"

definition GetByOwnerAndSecurity :: "string \<Rightarrow> nat option \<Rightarrow> string \<Rightarrow> nat \<Rightarrow> stock_db \<Rightarrow> holding option" where
  "GetByOwnerAndSecurity ownerType ownerID securityType securityID db =
     find (\<lambda>h. hd_SecurityType h = securityType \<and> hd_SecurityID h = securityID \<and> owned_by ownerType ownerID h) (holdings db)"

definition GetByOwnerAndTicker :: "string \<Rightarrow> nat option \<Rightarrow> string \<Rightarrow> string \<Rightarrow> stock_db \<Rightarrow> holding option" where
  "GetByOwnerAndTicker ownerType ownerID securityType ticker db =
     find (\<lambda>h. hd_SecurityType h = securityType \<and> hd_Ticker h = ticker \<and> owned_by ownerType ownerID h) (holdings db)"

text \<open>The row that a buy merges into: weighted average price, and the given display fields where they are set.\<close>

definition merged_holding :: "(decimal \<Rightarrow> decimal \<Rightarrow> decimal) \<Rightarrow> holding \<Rightarrow> holding \<Rightarrow> holding" where
  "merged_holding dv h x =
     (let totalQty = i64 (hd_Quantity x + hd_Quantity h)
      in x\<lparr>hd_AveragePrice := (if totalQty > 0
               then dv (hd_AveragePrice x * of_int (hd_Quantity x) + hd_AveragePrice h * of_int (hd_Quantity h)) (of_int totalQty)
               else hd_AveragePrice x),
           hd_Quantity := totalQty,
           hd_ListingID := (if hd_ListingID h \<noteq> 0 then hd_ListingID h else hd_ListingID x),
           hd_Ticker := (if hd_Ticker h \<noteq> [] then hd_Ticker h else hd_Ticker x),
           hd_Name := (if hd_Name h \<noteq> [] then hd_Name h else hd_Name x),
           hd_AccountID := (if hd_AccountID h \<noteq> 0 then hd_AccountID h else hd_AccountID x)\<rparr>)"

definition upsert_holding ::
  "(decimal \<Rightarrow> decimal \<Rightarrow> decimal) \<Rightarrow> string option \<times> string option \<Rightarrow> holding \<Rightarrow> stock_db \<Rightarrow> go_error + unit \<times> stock_db" where
  "upsert_holding dv ctx h db =
     (case GetByOwnerAndSecurity (hd_OwnerType h) (hd_OwnerID h) (hd_SecurityType h) (hd_SecurityID h) db of
        None \<Rightarrow> (case create_holding (stampHoldingSaga ctx h) db of Inl e \<Rightarrow> Inl e | Inr db' \<Rightarrow> Inr ((), db'))
      | Some x \<Rightarrow>
          (case save_holding (stampHoldingSaga ctx (merged_holding dv h x)) db of Inl e \<Rightarrow> Inl e | Inr db' \<Rightarrow> Inr ((), db')))"

definition UpsertHolding ::
  "(decimal \<Rightarrow> decimal \<Rightarrow> decimal) \<Rightarrow> string option \<times> string option \<Rightarrow> holding \<Rightarrow> stock_db \<Rightarrow> unit result \<times> stock_db" where
  "UpsertHolding dv ctx h = transaction (upsert_holding dv ctx h)"

definition UpsertIdempotent ::
  "(decimal \<Rightarrow> decimal \<Rightarrow> decimal) \<Rightarrow> string option \<times> string option \<Rightarrow> holding \<Rightarrow> string \<Rightarrow> stock_db \<Rightarrow> unit result \<times> stock_db" where
  "UpsertIdempotent dv ctx h idemKey =
     transaction (\<lambda>db. if idemKey \<in> set (credit_markers db) then Inr ((), db)
                       else upsert_holding dv ctx h (db\<lparr>credit_markers := credit_markers db @ [idemKey]\<rparr>))"

definition decrement_for_owner :: "string \<Rightarrow> nat option \<Rightarrow> string \<Rightarrow> nat \<Rightarrow> int \<Rightarrow> stock_db \<Rightarrow> go_error + unit \<times> stock_db" where
  "decrement_for_owner ownerType ownerID securityType securityID qty db =
     (case GetByOwnerAndSecurity ownerType ownerID securityType securityID db of
        None \<Rightarrow> Inr ((), db)
      | Some h \<Rightarrow>
          (let q = i64 (hd_Quantity h - qty)
           in if q \<le> 0 then Inr ((), db\<lparr>holdings := filter (\<lambda>x. hd_ID x \<noteq> hd_ID h) (holdings db)\<rparr>)
              else (case save_holding (h\<lparr>hd_Quantity := q\<rparr>) db of Inl e \<Rightarrow> Inl e | Inr db' \<Rightarrow> Inr ((), db'))))"

definition DecrementForOwner :: "string \<Rightarrow> nat option \<Rightarrow> string \<Rightarrow> nat \<Rightarrow> int \<Rightarrow> stock_db \<Rightarrow> unit result \<times> stock_db" where
  "DecrementForOwner ownerType ownerID securityType securityID qty =
     transaction (decrement_for_owner ownerType ownerID securityType securityID qty)"

definition DecrementForOwnerIdempotent ::
  "string \<Rightarrow> nat option \<Rightarrow> string \<Rightarrow> nat \<Rightarrow> int \<Rightarrow> string \<Rightarrow> stock_db \<Rightarrow> unit result \<times> stock_db" where
  "DecrementForOwnerIdempotent ownerType ownerID securityType securityID qty idemKey =
     transaction (\<lambda>db. if idemKey \<notin> set (credit_markers db) then Inr ((), db)
                       else case decrement_for_owner ownerType ownerID securityType securityID qty db of
                              Inl e \<Rightarrow> Inl e
                            | Inr (_, db') \<Rightarrow> Inr ((), db'\<lparr>credit_markers := filter (\<lambda>k. k \<noteq> idemKey) (credit_markers db')\<rparr>))"

definition ListBySecurityID :: "nat \<Rightarrow> stock_db \<Rightarrow> holding list" where
  "ListBySecurityID securityID db = filter (\<lambda>h. hd_SecurityID h = securityID \<and> hd_Quantity h > 0) (holdings db)"

section \<open>Repository of fund holdings\<close>

text \<open>\<open>sdv\<close> is the division of the database; a sum of zero makes the price \<open>NULL\<close>, which the column refuses.\<close>

definition upsert_fund_holding :: "(decimal \<Rightarrow> decimal \<Rightarrow> decimal) \<Rightarrow> fund_holding \<Rightarrow> stock_db \<Rightarrow> go_error + unit \<times> stock_db" where
  "upsert_fund_holding sdv h db =
     (case find (\<lambda>x. fh_FundID x = fh_FundID h \<and> fh_SecurityType x = fh_SecurityType h \<and> fh_SecurityID x = fh_SecurityID h) (fund_holdings db) of
        None \<Rightarrow> Inr ((), db\<lparr>fund_holdings := fund_holdings db @ [h\<lparr>fh_ID := seq_fund_holdings db\<rparr>],
                            seq_fund_holdings := Suc (seq_fund_holdings db)\<rparr>)
      | Some x \<Rightarrow>
          if fh_Quantity x + fh_Quantity h = 0 then Inl (Plain ''null value in column average_price_rsd'')
          else Inr ((), db\<lparr>fund_holdings := put_row fh_ID (x\<lparr>fh_Quantity := fh_Quantity x + fh_Quantity h,
                 fh_AveragePriceRSD := sdv (fh_AveragePriceRSD x * of_int (fh_Quantity x) + fh_AveragePriceRSD h * of_int (fh_Quantity h))
                                           (of_int (fh_Quantity x + fh_Quantity h)),
                 fh_Version := fh_Version x + 1\<rparr>) (fund_holdings db)\<rparr>))"

definition UpsertFundIdempotent :: "(decimal \<Rightarrow> decimal \<Rightarrow> decimal) \<Rightarrow> fund_holding \<Rightarrow> string \<Rightarrow> stock_db \<Rightarrow> unit result \<times> stock_db" where
  "UpsertFundIdempotent sdv h idemKey =
     transaction (\<lambda>db. if idemKey \<in> set (credit_markers db) then Inr ((), db)
                       else upsert_fund_holding sdv h (db\<lparr>credit_markers := credit_markers db @ [idemKey]\<rparr>))"

definition DecrementQuantity :: "nat \<Rightarrow> int \<Rightarrow> stock_db \<Rightarrow> go_error + unit \<times> stock_db" where
  "DecrementQuantity hid q db =
     (if \<exists>x \<in> set (fund_holdings db). fh_ID x = hid \<and> fh_Quantity x \<ge> q
      then Inr ((), db\<lparr>fund_holdings := upd_rows (\<lambda>x. fh_ID x = hid \<and> fh_Quantity x \<ge> q)
             (\<lambda>x. x\<lparr>fh_Quantity := fh_Quantity x - q, fh_Version := fh_Version x + 1\<rparr>) (fund_holdings db)\<rparr>)
      else Inl ErrRecordNotFound)"

definition DecrementForFundSecurity :: "nat \<Rightarrow> string \<Rightarrow> nat \<Rightarrow> int \<Rightarrow> stock_db \<Rightarrow> go_error + unit \<times> stock_db" where
  "DecrementForFundSecurity fundID securityType securityID qty db =
     (case find (\<lambda>x. fh_FundID x = fundID \<and> fh_SecurityType x = securityType \<and> fh_SecurityID x = securityID) (fund_holdings db) of
        None \<Rightarrow> Inr ((), db)
      | Some h \<Rightarrow> DecrementQuantity (fh_ID h) qty db)"

definition DecrementForFundSecurityIdempotent :: "nat \<Rightarrow> string \<Rightarrow> nat \<Rightarrow> int \<Rightarrow> string \<Rightarrow> stock_db \<Rightarrow> unit result \<times> stock_db" where
  "DecrementForFundSecurityIdempotent fundID securityType securityID qty idemKey =
     transaction (\<lambda>db. if idemKey \<notin> set (credit_markers db) then Inr ((), db)
                       else case DecrementForFundSecurity fundID securityType securityID qty db of
                              Inl e \<Rightarrow> Inl e
                            | Inr (_, db') \<Rightarrow> Inr ((), db'\<lparr>credit_markers := filter (\<lambda>k. k \<noteq> idemKey) (credit_markers db')\<rparr>))"

end
