(* ===== verification/Holding_Safety.thy ===== *)
theory Holding_Safety
  imports Holding
begin

text \<open>
  The invariant of the share tables: the reserved quantity of every position is what its open reservations say, and
  never more than the position has. Every operation keeps it; the two that take shares back without a look at the
  reservations keep it when the shares are free.
\<close>

section \<open>Open reservations\<close>

lemma i64_id [simp]: "- (2 ^ 63) \<le> x \<Longrightarrow> x < 2 ^ 63 \<Longrightarrow> i64 x = x"
  by (simp add: i64_def)

text \<open>The position that a reservation locks: a holding or a fund holding.\<close>

definition lock_pos :: "holding_reservation \<Rightarrow> nat + nat" where
  "lock_pos r = (case hr_FundHoldingID r of None \<Rightarrow> Inl (hr_HoldingID r) | Some f \<Rightarrow> Inr f)"

lemma lock_pos_update [simp]:
  "lock_pos (r\<lparr>hr_Status := s\<rparr>) = lock_pos r" "lock_pos (r\<lparr>hr_Version := v\<rparr>) = lock_pos r"
  "lock_pos (r\<lparr>hr_PeerOptionContractID := c\<rparr>) = lock_pos r" "lock_pos (r\<lparr>hr_ID := i\<rparr>) = lock_pos r"
  by (simp_all add: lock_pos_def cong: option.case_cong)

abbreviation settled_of :: "stock_db \<Rightarrow> holding_reservation \<Rightarrow> int" where
  "settled_of db r \<equiv> SumHoldingSettlements (hr_ID r) db"

definition open_of :: "stock_db \<Rightarrow> holding_reservation \<Rightarrow> int" where
  "open_of db r = (if hr_Status r = HoldingReservationStatusActive then hr_Quantity r - settled_of db r else 0)"

definition locked :: "nat + nat \<Rightarrow> stock_db \<Rightarrow> int" where
  "locked pos db = tsum (\<lambda>r. if lock_pos r = pos then open_of db r else 0) (holding_reservations db)"

definition position_exists :: "stock_db \<Rightarrow> nat + nat \<Rightarrow> bool" where
  "position_exists db pos = (case pos of Inl i \<Rightarrow> i \<in> hd_ID ` set (holdings db) | Inr i \<Rightarrow> i \<in> fh_ID ` set (fund_holdings db))"

definition position_limit :: "stock_db \<Rightarrow> nat + nat \<Rightarrow> bool" where
  "position_limit db pos = (case pos of Inl i \<Rightarrow> i < seq_holdings db | Inr i \<Rightarrow> i < seq_fund_holdings db)"

definition reservation_ok :: "stock_db \<Rightarrow> holding_reservation \<Rightarrow> bool" where
  "reservation_ok db r \<longleftrightarrow>
     0 \<le> settled_of db r \<and> settled_of db r \<le> hr_Quantity r \<and> hr_Quantity r < 2 ^ 62 \<and> position_limit db (lock_pos r) \<and>
     (hr_Status r = HoldingReservationStatusActive \<longrightarrow> settled_of db r < hr_Quantity r \<and> position_exists db (lock_pos r)) \<and>
     (hr_Status r = HoldingReservationStatusSettled \<longrightarrow> settled_of db r = hr_Quantity r) \<and>
     (hr_FundHoldingID r \<noteq> None \<longrightarrow> hr_OTCContractID r = None \<and> hr_PeerOptionContractID r = None \<and> hr_CrossbankTxID r = None)"

definition position_keys_ok :: "stock_db \<Rightarrow> bool" where
  "position_keys_ok db \<longleftrightarrow>
     distinct (map hd_ID (holdings db)) \<and> distinct (map holding_key (holdings db)) \<and> (\<forall>h \<in> set (holdings db). hd_ID h < seq_holdings db) \<and>
     distinct (map fh_ID (fund_holdings db)) \<and> (\<forall>h \<in> set (fund_holdings db). fh_ID h < seq_fund_holdings db)"

definition reservation_keys_ok :: "stock_db \<Rightarrow> bool" where
  "reservation_keys_ok db \<longleftrightarrow>
     distinct (map hr_ID (holding_reservations db)) \<and> (\<forall>r \<in> set (holding_reservations db). hr_ID r < seq_holding_reservations db) \<and>
     distinct (map hs_ID (holding_settlements db)) \<and> (\<forall>t \<in> set (holding_settlements db). hs_ID t < seq_holding_settlements db) \<and>
     (\<forall>t \<in> set (holding_settlements db). hs_HoldingReservationID t < seq_holding_reservations db \<and> 0 < hs_Quantity t)"

text \<open>The unique index on the contract with a peer bank.\<close>

definition peer_keys_ok :: "stock_db \<Rightarrow> bool" where
  "peer_keys_ok db \<longleftrightarrow> distinct (filter (\<lambda>c. c \<noteq> None) (map hr_PeerOptionContractID (holding_reservations db)))"

definition positions_ok :: "stock_db \<Rightarrow> bool" where
  "positions_ok db \<longleftrightarrow>
     (\<forall>h \<in> set (holdings db). hd_ReservedQuantity h = locked (Inl (hd_ID h)) db \<and> hd_ReservedQuantity h \<le> hd_Quantity h \<and>
        hd_Quantity h < 2 ^ 62 \<and> ValidateOwner (hd_OwnerType h) (hd_OwnerID h) = Inr ()) \<and>
     (\<forall>h \<in> set (fund_holdings db). fh_ReservedQuantity h = locked (Inr (fh_ID h)) db \<and> fh_ReservedQuantity h \<le> fh_Quantity h \<and>
        fh_Quantity h < 2 ^ 62)"

definition stock_ok :: "stock_db \<Rightarrow> bool" where
  "stock_ok db \<longleftrightarrow> position_keys_ok db \<and> reservation_keys_ok db \<and> peer_keys_ok db \<and> (\<forall>r \<in> set (holding_reservations db). reservation_ok db r) \<and> positions_ok db"

lemma stock_okD:
  assumes "stock_ok db"
  shows "position_keys_ok db" "r \<in> set (holding_reservations db) \<Longrightarrow> reservation_ok db r" "positions_ok db" "reservation_keys_ok db" "peer_keys_ok db"
  using assms by (auto simp: stock_ok_def)

lemma open_nonneg: "stock_ok db \<Longrightarrow> r \<in> set (holding_reservations db) \<Longrightarrow> 0 \<le> open_of db r"
  by (auto dest: stock_okD(2) simp: open_of_def reservation_ok_def)

lemma locked_nonneg: "stock_ok db \<Longrightarrow> 0 \<le> locked pos db"
  unfolding locked_def by (rule tsum_nonneg) (auto intro: open_nonneg)

lemma open_le_locked: "stock_ok db \<Longrightarrow> r \<in> set (holding_reservations db) \<Longrightarrow> open_of db r \<le> locked (lock_pos r) db"
  unfolding locked_def
  using tsum_member_le [of "holding_reservations db" "\<lambda>x. if lock_pos x = lock_pos r then open_of db x else 0" r] open_nonneg by auto

text \<open>The bounds that keep the arithmetic of a row within 64 bits.\<close>

lemma holding_bounds:
  assumes "stock_ok db" "h \<in> set (holdings db)"
  shows "hd_ReservedQuantity h = locked (Inl (hd_ID h)) db" "0 \<le> hd_ReservedQuantity h" "hd_ReservedQuantity h \<le> hd_Quantity h"
    "hd_Quantity h < 2 ^ 62" "ValidateOwner (hd_OwnerType h) (hd_OwnerID h) = Inr ()"
  using assms stock_okD(3) [OF assms(1)] locked_nonneg [OF assms(1), of "Inl (hd_ID h)"] by (auto simp: positions_ok_def)

lemma fund_holding_bounds:
  assumes "stock_ok db" "h \<in> set (fund_holdings db)"
  shows "fh_ReservedQuantity h = locked (Inr (fh_ID h)) db" "0 \<le> fh_ReservedQuantity h" "fh_ReservedQuantity h \<le> fh_Quantity h"
    "fh_Quantity h < 2 ^ 62"
  using assms stock_okD(3) [OF assms(1)] locked_nonneg [OF assms(1), of "Inr (fh_ID h)"] by (auto simp: positions_ok_def)

section \<open>What a change of the reservations does to the locked quantities\<close>

lemma settled_none:
  assumes "reservation_keys_ok db" "seq_holding_reservations db \<le> i"
  shows "SumHoldingSettlements i db = 0"
proof -
  have "filter (\<lambda>t. hs_HoldingReservationID t = i) (holding_settlements db) = []"
    using assms by (fastforce simp: filter_empty_conv reservation_keys_ok_def)
  then show ?thesis by (simp add: SumHoldingSettlements_def)
qed

lemma settled_cong: "holding_settlements db' = holding_settlements db \<Longrightarrow> SumHoldingSettlements i db' = SumHoldingSettlements i db"
  by (simp add: SumHoldingSettlements_def)

lemma locked_cong:
  "holding_reservations db' = holding_reservations db \<Longrightarrow> holding_settlements db' = holding_settlements db \<Longrightarrow> locked pos db' = locked pos db"
  by (simp add: locked_def open_of_def SumHoldingSettlements_def cong: if_cong)

lemma locked_insert:
  assumes "reservation_keys_ok db" "holding_reservations db' = holding_reservations db @ [r]" "holding_settlements db' = holding_settlements db"
    and "hr_ID r = seq_holding_reservations db" "hr_Status r = HoldingReservationStatusActive"
  shows "locked pos db' = locked pos db + (if lock_pos r = pos then hr_Quantity r else 0)"
  using assms settled_none [OF assms(1), of "hr_ID r"]
  by (simp add: locked_def open_of_def settled_cong [OF assms(3)] cong: if_cong)

text \<open>One reservation is rewritten, and the settlements of no other one are touched.\<close>

lemma locked_put:
  assumes ok: "reservation_keys_ok db" and r: "r \<in> set (holding_reservations db)" "hr_ID r' = hr_ID r" "lock_pos r' = lock_pos r"
    and put: "holding_reservations db' = put_row hr_ID r' (holding_reservations db)"
    and other: "\<And>i. i \<noteq> hr_ID r \<Longrightarrow> SumHoldingSettlements i db' = SumHoldingSettlements i db"
  shows "locked pos db' = locked pos db + (if lock_pos r = pos then open_of db' r' - open_of db r else 0)"
proof -
  let ?f = "\<lambda>d x. if lock_pos x = pos then open_of d x else 0"
  have d: "distinct (map hr_ID (holding_reservations db))" using ok by (simp add: reservation_keys_ok_def)
  have "tsum (?f db') (put_row hr_ID r' (holding_reservations db)) = tsum (?f db') (holding_reservations db) - ?f db' r + ?f db' r'"
    by (rule tsum_put_row [OF d r(1,2)])
  also have "tsum (?f db') (holding_reservations db) = tsum (?f db) (holding_reservations db) - ?f db r + ?f db' r"
    by (rule tsum_change_one [OF d r(1)]) (simp add: open_of_def other)
  finally show ?thesis using r(3) by (simp add: locked_def put)
qed

lemma settled_insert:
  assumes "create_settlement rid txn qty db = (True, db')"
  shows "SumHoldingSettlements i db' = SumHoldingSettlements i db + (if i = rid then qty else 0)"
    "holdings db' = holdings db" "fund_holdings db' = fund_holdings db" "holding_reservations db' = holding_reservations db"
  using assms by (auto simp: create_settlement_def SumHoldingSettlements_def split: if_splits)

section \<open>The invariant under one change\<close>

lemma reservations_insert:
  assumes ok: "stock_ok db" and ins: "holding_reservations db' = holding_reservations db @ [r]" "holding_settlements db' = holding_settlements db"
    and seqs: "seq_holding_reservations db' = Suc (seq_holding_reservations db)" "seq_holding_settlements db' = seq_holding_settlements db"
    and r: "hr_ID r = seq_holding_reservations db" "hr_Status r = HoldingReservationStatusActive" "0 < hr_Quantity r" "hr_Quantity r < 2 ^ 62"
      "position_exists db' (lock_pos r)"
      "hr_FundHoldingID r \<noteq> None \<longrightarrow> hr_OTCContractID r = None \<and> hr_PeerOptionContractID r = None \<and> hr_CrossbankTxID r = None"
    and pos: "\<And>pos. position_exists db' pos = position_exists db pos" "\<And>pos. position_limit db' pos = position_limit db pos" "position_limit db (lock_pos r)"
    and new: "\<And>x. x \<in> set (holding_reservations db) \<Longrightarrow> hr_PeerOptionContractID r \<noteq> None \<Longrightarrow> hr_PeerOptionContractID x \<noteq> hr_PeerOptionContractID r"
  shows "reservation_keys_ok db'" "peer_keys_ok db'" "\<forall>x \<in> set (holding_reservations db'). reservation_ok db' x"
proof -
  note keys = stock_okD(4) [OF ok]
  have none: "SumHoldingSettlements (hr_ID r) db = 0" using settled_none [OF keys] r(1) by simp
  have "distinct (map hr_ID (holding_reservations db'))" using keys r(1) by (force simp: reservation_keys_ok_def ins)
  then show "reservation_keys_ok db'" using keys r(1) by (auto simp: reservation_keys_ok_def ins seqs less_Suc_eq)
  show "peer_keys_ok db'" using stock_okD(5) [OF ok] new by (auto simp: peer_keys_ok_def ins)
  show "\<forall>x \<in> set (holding_reservations db'). reservation_ok db' x"
    using stock_okD(2) [OF ok] r none
    by (auto simp: ins reservation_ok_def settled_cong [OF ins(2)] pos HoldingReservationStatusActive_def HoldingReservationStatusSettled_def)
qed

lemma reservations_put:
  assumes ok: "stock_ok db" and r: "r \<in> set (holding_reservations db)" "hr_ID r' = hr_ID r"
    and put: "holding_reservations db' = put_row hr_ID r' (holding_reservations db)"
    and other: "\<And>i. i \<noteq> hr_ID r \<Longrightarrow> SumHoldingSettlements i db' = SumHoldingSettlements i db"
    and r': "reservation_ok db' r'"
    and pos: "\<And>pos. position_exists db' pos = position_exists db pos" "\<And>pos. position_limit db' pos = position_limit db pos"
  shows "\<forall>x \<in> set (holding_reservations db'). reservation_ok db' x"
proof
  fix x assume "x \<in> set (holding_reservations db')"
  then consider "x = r'" | "x \<in> set (holding_reservations db)" "hr_ID x \<noteq> hr_ID r" using r(2) by (auto simp: put dest: in_put_rowD)
  then show "reservation_ok db' x"
  proof cases
    case 2
    from stock_okD(2) [OF ok 2(1)] other [OF 2(2)] show ?thesis by (simp add: reservation_ok_def pos)
  qed (simp add: r')
qed

lemma holding_put:
  assumes ok: "stock_ok db" and h: "h \<in> set (holdings db)" "hd_ID h' = hd_ID h" "holding_key h' = holding_key h"
      "hd_OwnerType h' = hd_OwnerType h" "hd_OwnerID h' = hd_OwnerID h"
    and put: "holdings db' = put_row hd_ID h' (holdings db)" "fund_holdings db' = fund_holdings db"
      "seq_holdings db' = seq_holdings db" "seq_fund_holdings db' = seq_fund_holdings db"
    and lock: "\<And>pos. locked pos db' = locked pos db + (if Inl (hd_ID h) = pos then hd_ReservedQuantity h' - hd_ReservedQuantity h else 0)"
    and bounds: "hd_ReservedQuantity h' \<le> hd_Quantity h'" "hd_Quantity h' < 2 ^ 62"
  shows "position_keys_ok db'" "positions_ok db'" "position_exists db' = position_exists db" "position_limit db' = position_limit db"
proof -
  note keys = stock_okD(1) [OF ok]
  have d: "distinct (map hd_ID (holdings db))" using keys by (simp add: position_keys_ok_def)
  have k: "map holding_key (put_row hd_ID h' (holdings db)) = map holding_key (holdings db)"
    using h d by (intro map_other_put_row) (auto dest: distinct_key_eq [OF d])
  have "\<forall>x \<in> set (put_row hd_ID h' (holdings db)). hd_ID x < seq_holdings db"
    using keys h(1,2) by (auto simp: position_keys_ok_def dest!: in_put_rowD)
  then show "position_keys_ok db'" using keys k by (simp add: position_keys_ok_def put)
  show "position_exists db' = position_exists db"
    by (rule ext) (simp add: position_exists_def put flip: set_map split: sum.splits)
  show "position_limit db' = position_limit db" by (rule ext) (simp add: position_limit_def put split: sum.split)
  show "positions_ok db'"
    unfolding positions_ok_def put
  proof (intro conjI ballI)
    fix x assume "x \<in> set (put_row hd_ID h' (holdings db))"
    then consider "x = h'" | "x \<in> set (holdings db)" "hd_ID x \<noteq> hd_ID h" using h(2) by (auto dest: in_put_rowD)
    then have "hd_ReservedQuantity x = locked (Inl (hd_ID x)) db' \<and> hd_ReservedQuantity x \<le> hd_Quantity x \<and>
        hd_Quantity x < 2 ^ 62 \<and> ValidateOwner (hd_OwnerType x) (hd_OwnerID x) = Inr ()"
      using holding_bounds [OF ok h(1)] holding_bounds [OF ok] bounds h by cases (auto simp: lock)
    then show "hd_ReservedQuantity x = locked (Inl (hd_ID x)) db'" "hd_ReservedQuantity x \<le> hd_Quantity x"
      "hd_Quantity x < 2 ^ 62" "ValidateOwner (hd_OwnerType x) (hd_OwnerID x) = Inr ()" by blast+
  qed (use fund_holding_bounds [OF ok] lock in auto)
qed

lemma fund_holding_put:
  assumes ok: "stock_ok db" and h: "h \<in> set (fund_holdings db)" "fh_ID h' = fh_ID h"
    and put: "fund_holdings db' = put_row fh_ID h' (fund_holdings db)" "holdings db' = holdings db"
      "seq_holdings db' = seq_holdings db" "seq_fund_holdings db' = seq_fund_holdings db"
    and lock: "\<And>pos. locked pos db' = locked pos db + (if Inr (fh_ID h) = pos then fh_ReservedQuantity h' - fh_ReservedQuantity h else 0)"
    and bounds: "fh_ReservedQuantity h' \<le> fh_Quantity h'" "fh_Quantity h' < 2 ^ 62"
  shows "position_keys_ok db'" "positions_ok db'" "position_exists db' = position_exists db" "position_limit db' = position_limit db"
proof -
  note keys = stock_okD(1) [OF ok]
  have "\<forall>x \<in> set (put_row fh_ID h' (fund_holdings db)). fh_ID x < seq_fund_holdings db"
    using keys h(1,2) by (auto simp: position_keys_ok_def dest!: in_put_rowD)
  then show "position_keys_ok db'" using keys by (simp add: position_keys_ok_def put)
  show "position_exists db' = position_exists db"
    by (rule ext) (simp add: position_exists_def put flip: set_map split: sum.splits)
  show "position_limit db' = position_limit db" by (rule ext) (simp add: position_limit_def put split: sum.split)
  show "positions_ok db'"
    unfolding positions_ok_def put
  proof (intro conjI ballI)
    fix x assume "x \<in> set (put_row fh_ID h' (fund_holdings db))"
    then consider "x = h'" | "x \<in> set (fund_holdings db)" "fh_ID x \<noteq> fh_ID h" using h(2) by (auto dest: in_put_rowD)
    then have "fh_ReservedQuantity x = locked (Inr (fh_ID x)) db' \<and> fh_ReservedQuantity x \<le> fh_Quantity x \<and> fh_Quantity x < 2 ^ 62"
      using fund_holding_bounds [OF ok h(1)] fund_holding_bounds [OF ok] bounds h by cases (auto simp: lock)
    then show "fh_ReservedQuantity x = locked (Inr (fh_ID x)) db'" "fh_ReservedQuantity x \<le> fh_Quantity x" "fh_Quantity x < 2 ^ 62" by blast+
  qed (use holding_bounds [OF ok] lock in auto)
qed

section \<open>Every operation keeps the invariant\<close>

lemma new_reservation_row [simp]:
  "BeforeCreateReservation (new_reservation k i f q) = Inr ()"
  "hr_Status (new_reservation k i f q) = HoldingReservationStatusActive" "hr_Quantity (new_reservation k i f q) = q"
  "hr_HoldingID (new_reservation k i f q) = i" "hr_FundHoldingID (new_reservation k i f q) = f"
  by (cases k; simp add: new_reservation_def BeforeCreateReservation_def)+

lemma lock_pos_new [simp]: "lock_pos (new_reservation k i f q) = (case f of None \<Rightarrow> Inl i | Some j \<Rightarrow> Inr j)"
  by (simp add: lock_pos_def split: option.split)

lemma conflicts_new: "conflicts_with (new_reservation k i f q) = has_hold_key k"
  by (cases k) (auto simp: fun_eq_iff conflicts_with_def new_reservation_def)

lemma InsertReservationIfAbsentE:
  assumes "InsertReservationIfAbsent (new_reservation k i f q) db = Inr ((b, row), db')"
  obtains (old) "\<not> b" "db' = db" "GetReservationForUpdate k db = Some row"
  | (new) "b" "GetReservationForUpdate k db = None" "row = (new_reservation k i f q)\<lparr>hr_ID := seq_holding_reservations db\<rparr>"
    "db' = db\<lparr>holding_reservations := holding_reservations db @ [row], seq_holding_reservations := Suc (seq_holding_reservations db)\<rparr>"
proof -
  show thesis
  proof (cases "GetReservationForUpdate k db")
    case (Some e)
    with assms show thesis by (intro old) (auto simp: conflicts_new InsertReservationIfAbsent_def GetReservationForUpdate_def)
  next
    case None
    with assms show thesis by (intro new) (auto simp: conflicts_new InsertReservationIfAbsent_def GetReservationForUpdate_def Let_def)
  qed
qed

lemma new_peer_key:
  assumes "GetReservationForUpdate k db = None" "x \<in> set (holding_reservations db)"
    "hr_PeerOptionContractID (new_reservation k i f q) \<noteq> None"
  shows "hr_PeerOptionContractID x \<noteq> hr_PeerOptionContractID (new_reservation k i f q)"
  using assms find_NoneD [of "has_hold_key k" "holding_reservations db" x]
  by (cases k) (auto simp: new_reservation_def GetReservationForUpdate_def)

text \<open>Reserving either finds an older reservation and changes nothing, or locks free shares of one holding.\<close>

lemma reserve_sharesE:
  assumes ok: "stock_ok db" and run: "reserve_shares p k q db = Inr (x, db')" and q: "0 < q"
  obtains (replay) r where "db' = db" "GetReservationForUpdate k db = Some r" "rh_ReservationID x = hr_ID r"
  | (lock) h r where "GetReservationForUpdate k db = None" "rh_ReservationID x = hr_ID r" "h \<in> set (holdings db)" "p h" "q \<le> hd_Quantity h - hd_ReservedQuantity h"
    "r = (new_reservation k (hd_ID h) None q)\<lparr>hr_ID := seq_holding_reservations db\<rparr>"
    "db' = db\<lparr>holdings := put_row hd_ID (h\<lparr>hd_ReservedQuantity := hd_ReservedQuantity h + q, hd_Version := hd_Version h + 1\<rparr>) (holdings db),
      holding_reservations := holding_reservations db @ [r], seq_holding_reservations := Suc (seq_holding_reservations db)\<rparr>"
proof -
  from run obtain h where f: "find p (holdings db) = Some h" by (auto simp: reserve_shares_def split: option.splits)
  note h = find_SomeD [OF f]
  from run f obtain b row db1 where ins: "InsertReservationIfAbsent (new_reservation k (hd_ID h) None q) db = Inr ((b, row), db1)"
    by (auto simp: reserve_shares_def split: if_splits sum.splits prod.splits)
  have av: "q \<le> hd_Quantity h - hd_ReservedQuantity h"
    using run f holding_bounds [OF ok, of h] h by (auto simp: reserve_shares_def split: if_splits)
  have d: "distinct (map hd_ID (holdings db))" using stock_okD(1) [OF ok] by (simp add: position_keys_ok_def)
  from ins show thesis
  proof (cases rule: InsertReservationIfAbsentE)
    case old
    with run f ins show thesis by (intro replay [of row]) (auto simp: reserve_shares_def split: if_splits)
  next
    case new
    have "upd_rows (\<lambda>x. hd_ID x = hd_ID h \<and> hd_Quantity x - hd_ReservedQuantity x \<ge> q)
        (\<lambda>x. x\<lparr>hd_ReservedQuantity := hd_ReservedQuantity x + q, hd_Version := hd_Version x + 1\<rparr>) (holdings db) =
      put_row hd_ID (h\<lparr>hd_ReservedQuantity := hd_ReservedQuantity h + q, hd_Version := hd_Version h + 1\<rparr>) (holdings db)"
      by (rule upd_rows_put [OF d, of h, THEN trans]) (use h av in auto)
    with run f ins new h av show thesis by (intro lock [of row h]) (auto simp: reserve_shares_def split: if_splits)
  qed
qed

lemma reserve_shares_ok:
  assumes ok: "stock_ok db" and run: "reserve_shares p k q db = Inr (x, db')" and q: "0 < q"
  shows "stock_ok db'"
  using assms
proof (cases rule: reserve_sharesE)
  case (lock h r)
  let ?h = "h\<lparr>hd_ReservedQuantity := hd_ReservedQuantity h + q, hd_Version := hd_Version h + 1\<rparr>"
  have pos: "lock_pos r = Inl (hd_ID h)" by (simp add: lock(6) lock_pos_def)
  have lk: "locked p db' = locked p db + (if Inl (hd_ID h) = p then hd_ReservedQuantity ?h - hd_ReservedQuantity h else 0)" for p
    using locked_insert [OF stock_okD(4) [OF ok], of db' r p] by (simp add: lock(6,7))
  note b = holding_bounds [OF ok lock(3)]
  note put = holding_put [OF ok lock(3), of ?h db', OF _ _ _ _ _ _ _ _ lk]
  have ex: "position_exists db (lock_pos r)" "position_limit db (lock_pos r)"
    using lock(3) stock_okD(1) [OF ok] by (auto simp: position_exists_def position_limit_def pos position_keys_ok_def)
  have p: "position_keys_ok db'" "positions_ok db'" "position_exists db' = position_exists db" "position_limit db' = position_limit db"
    by (rule put; use lock(5,7) b in \<open>simp add: holding_key_def\<close>)+
  have "reservation_keys_ok db'" "peer_keys_ok db'" "\<forall>x \<in> set (holding_reservations db'). reservation_ok db' x"
    by (rule reservations_insert [OF ok, of db' r]; use lock q p(3,4) ex b in \<open>auto simp: new_peer_key\<close>)+
  with p show ?thesis by (simp add: stock_ok_def)
qed (use ok in simp)

lemma reserve_fund_sharesE:
  assumes ok: "stock_ok db" and run: "reserve_fund_shares fund t i oid q db = Inr (x, db')" and q: "0 < q"
  obtains (replay) r where "db' = db" "GetReservationForUpdate (OrderKey oid) db = Some r" "rh_ReservationID x = hr_ID r"
  | (lock) h r where "GetReservationForUpdate (OrderKey oid) db = None" "rh_ReservationID x = hr_ID r" "h \<in> set (fund_holdings db)" "q \<le> fh_Quantity h - fh_ReservedQuantity h"
    "r = (new_reservation (OrderKey oid) 0 (Some (fh_ID h)) q)\<lparr>hr_ID := seq_holding_reservations db\<rparr>"
    "db' = db\<lparr>fund_holdings := put_row fh_ID (h\<lparr>fh_ReservedQuantity := fh_ReservedQuantity h + q, fh_Version := fh_Version h + 1\<rparr>) (fund_holdings db),
      holding_reservations := holding_reservations db @ [r], seq_holding_reservations := Suc (seq_holding_reservations db)\<rparr>"
proof -
  from run obtain h where f: "find (\<lambda>h. fh_FundID h = fund \<and> fh_SecurityType h = t \<and> fh_SecurityID h = i) (fund_holdings db) = Some h"
    by (auto simp: reserve_fund_shares_def split: option.splits)
  note h = find_in_set [OF f]
  from run f obtain b row db1 where ins: "InsertReservationIfAbsent (new_reservation (OrderKey oid) 0 (Some (fh_ID h)) q) db = Inr ((b, row), db1)"
    by (auto simp: reserve_fund_shares_def split: if_splits sum.splits prod.splits)
  have av: "q \<le> fh_Quantity h - fh_ReservedQuantity h"
    using run f fund_holding_bounds [OF ok h] by (auto simp: reserve_fund_shares_def split: if_splits)
  have d: "distinct (map fh_ID (fund_holdings db))" using stock_okD(1) [OF ok] by (simp add: position_keys_ok_def)
  from ins show thesis
  proof (cases rule: InsertReservationIfAbsentE)
    case old
    with run f ins show thesis by (intro replay [of row]) (auto simp: reserve_fund_shares_def split: if_splits)
  next
    case new
    have "upd_rows (\<lambda>x. fh_ID x = fh_ID h \<and> fh_Quantity x - fh_ReservedQuantity x \<ge> q)
        (\<lambda>x. x\<lparr>fh_ReservedQuantity := fh_ReservedQuantity x + q, fh_Version := fh_Version x + 1\<rparr>) (fund_holdings db) =
      put_row fh_ID (h\<lparr>fh_ReservedQuantity := fh_ReservedQuantity h + q, fh_Version := fh_Version h + 1\<rparr>) (fund_holdings db)"
      by (rule upd_rows_put [OF d, of h, THEN trans]) (use h av in auto)
    with run f ins new h av show thesis by (intro lock [of row h]) (auto simp: reserve_fund_shares_def split: if_splits)
  qed
qed

lemma reserve_fund_shares_ok:
  assumes ok: "stock_ok db" and run: "reserve_fund_shares fund t i oid q db = Inr (x, db')" and q: "0 < q"
  shows "stock_ok db'"
  using assms
proof (cases rule: reserve_fund_sharesE)
  case (lock h r)
  let ?h = "h\<lparr>fh_ReservedQuantity := fh_ReservedQuantity h + q, fh_Version := fh_Version h + 1\<rparr>"
  have pos: "lock_pos r = Inr (fh_ID h)" by (simp add: lock(5) lock_pos_def)
  have lk: "locked p db' = locked p db + (if Inr (fh_ID h) = p then fh_ReservedQuantity ?h - fh_ReservedQuantity h else 0)" for p
    using locked_insert [OF stock_okD(4) [OF ok], of db' r p] by (simp add: lock(5,6))
  note b = fund_holding_bounds [OF ok lock(3)]
  note put = fund_holding_put [OF ok lock(3), of ?h db', OF _ _ _ _ _ lk]
  have ex: "position_exists db (lock_pos r)" "position_limit db (lock_pos r)"
    using lock(3) stock_okD(1) [OF ok] by (auto simp: position_exists_def position_limit_def pos position_keys_ok_def)
  have p: "position_keys_ok db'" "positions_ok db'" "position_exists db' = position_exists db" "position_limit db' = position_limit db"
    by (rule put; use lock(4,6) b in simp)+
  have "reservation_keys_ok db'" "peer_keys_ok db'" "\<forall>x \<in> set (holding_reservations db'). reservation_ok db' x"
    by (rule reservations_insert [OF ok, of db' r]; use lock q p(3,4) ex b in \<open>simp add: new_reservation_def\<close>)+
  with p show ?thesis by (simp add: stock_ok_def)
qed (use ok in simp)

subsection \<open>Rewriting the locked row and its reservation\<close>

lemma save_holdingD:
  assumes "save_holding h' db = Inr db'"
  shows "db' = db\<lparr>holdings := put_row hd_ID (h'\<lparr>hd_Version := hd_Version h' + 1\<rparr>) (holdings db)\<rparr>"
  using assms by (auto simp: save_holding_def split: sum.splits if_splits)

lemma save_fund_holdingD:
  assumes "save_fund_holding h' db = Inr db'"
  shows "db' = db\<lparr>fund_holdings := put_row fh_ID (h'\<lparr>fh_Version := fh_Version h' + 1\<rparr>) (fund_holdings db)\<rparr>"
  using assms by (auto simp: save_fund_holding_def split: if_splits)

lemma UpdateReservationD:
  assumes "UpdateReservation r' db = Inr db'"
  shows "db' = db\<lparr>holding_reservations := put_row hr_ID (r'\<lparr>hr_Version := hr_Version r' + 1\<rparr>) (holding_reservations db)\<rparr>"
  using assms by (auto simp: UpdateReservation_def split: if_splits)

text \<open>
  One settlement of the reservation \<open>r\<close> may come or go, \<open>r\<close> may change its status, and the position that it locks changes its
  reserved quantity by as much as \<open>r\<close> changes what it has open.
\<close>

definition share_move :: "stock_db \<Rightarrow> stock_db \<Rightarrow> holding_reservation \<Rightarrow> holding_reservation \<Rightarrow> bool" where
  "share_move db db' r r' \<longleftrightarrow>
     stock_ok db \<and> r \<in> set (holding_reservations db) \<and> hr_ID r' = hr_ID r \<and> lock_pos r' = lock_pos r \<and>
     holding_reservations db' = put_row hr_ID r' (holding_reservations db) \<and>
     (\<forall>i. i \<noteq> hr_ID r \<longrightarrow> SumHoldingSettlements i db' = SumHoldingSettlements i db) \<and>
     peer_keys_ok db' \<and> seq_holdings db' = seq_holdings db \<and> seq_fund_holdings db' = seq_fund_holdings db \<and>
     seq_holding_reservations db' = seq_holding_reservations db \<and>
     distinct (map hs_ID (holding_settlements db')) \<and> (\<forall>t \<in> set (holding_settlements db'). hs_ID t < seq_holding_settlements db' \<and>
       hs_HoldingReservationID t < seq_holding_reservations db \<and> 0 < hs_Quantity t) \<and>
     (position_exists db' = position_exists db \<longrightarrow> position_limit db' = position_limit db \<longrightarrow> reservation_ok db' r')"

lemma share_move_keys: "share_move db db' r r' \<Longrightarrow> reservation_keys_ok db'"
proof -
  assume m: "share_move db db' r r'"
  then have "\<forall>x \<in> set (put_row hr_ID r' (holding_reservations db)). hr_ID x < seq_holding_reservations db"
    by (auto simp: share_move_def reservation_keys_ok_def dest!: stock_okD(4) in_put_rowD)
  with m show ?thesis by (auto simp: share_move_def reservation_keys_ok_def dest!: stock_okD(4))
qed

lemma peer_keys_put:
  assumes ok: "stock_ok db" and r: "r \<in> set (holding_reservations db)" "hr_ID r' = hr_ID r" "hr_PeerOptionContractID r' = hr_PeerOptionContractID r"
    and put: "holding_reservations db' = put_row hr_ID r' (holding_reservations db)"
  shows "peer_keys_ok db'"
proof -
  have "map hr_PeerOptionContractID (put_row hr_ID r' (holding_reservations db)) = map hr_PeerOptionContractID (holding_reservations db)"
    by (rule map_other_put_row) (use r stock_okD(4) [OF ok] in \<open>auto simp: reservation_keys_ok_def dest: distinct_key_eq\<close>)
  with stock_okD(5) [OF ok] show ?thesis by (simp only: peer_keys_ok_def put)
qed

text \<open>A reservation may be given a contract that no other one has.\<close>

lemma peer_keys_attach:
  assumes d: "distinct (map hr_ID rs)" "distinct (filter (\<lambda>c. c \<noteq> None) (map hr_PeerOptionContractID rs))"
    and new: "\<forall>x \<in> set rs. hr_ID x \<noteq> hr_ID r' \<longrightarrow> hr_PeerOptionContractID x \<noteq> hr_PeerOptionContractID r'"
  shows "distinct (filter (\<lambda>c. c \<noteq> None) (map hr_PeerOptionContractID (put_row hr_ID r' rs)))"
  using assms
proof (induction rs)
  case (Cons x rs)
  show ?case
  proof (cases "hr_ID x = hr_ID r'")
    case True
    with Cons.prems(1) have "hr_ID r' \<notin> hr_ID ` set rs" by auto
    then have e: "put_row hr_ID r' rs = rs" by (rule put_row_absent)
    have "\<forall>y \<in> set rs. hr_PeerOptionContractID y \<noteq> hr_PeerOptionContractID r'"
      using Cons.prems(3) \<open>hr_ID r' \<notin> _\<close> by (metis image_eqI list.set_intros(2))
    then have "hr_PeerOptionContractID r' \<notin> hr_PeerOptionContractID ` set rs" by force
    with Cons.prems(2) True e show ?thesis by (auto split: if_splits)
  next
    case False
    with Cons have "distinct (filter (\<lambda>c. c \<noteq> None) (map hr_PeerOptionContractID (put_row hr_ID r' rs)))" by (auto split: if_splits)
    moreover have "hr_PeerOptionContractID x \<notin> hr_PeerOptionContractID ` set (put_row hr_ID r' rs)" if "hr_PeerOptionContractID x \<noteq> None"
      using Cons.prems(2,3) False that by (auto dest!: in_put_rowD)
    ultimately show ?thesis using False by auto
  qed
qed simp

lemma share_move_locked:
  assumes "share_move db db' r r'"
  shows "locked pos db' = locked pos db + (if lock_pos r = pos then open_of db' r' - open_of db r else 0)"
  using assms by (intro locked_put) (auto simp: share_move_def dest: stock_okD(4))

lemma share_move_reservations:
  assumes "share_move db db' r r'" "position_exists db' = position_exists db" "position_limit db' = position_limit db"
  shows "\<forall>x \<in> set (holding_reservations db'). reservation_ok db' x"
  using assms by (intro reservations_put [of db r r' db']) (auto simp: share_move_def)

lemma share_move_holding:
  assumes m: "share_move db db' r r'" and h: "h \<in> set (holdings db)" "lock_pos r = Inl (hd_ID h)" "hd_ID h' = hd_ID h" "holding_key h' = holding_key h"
      "hd_OwnerType h' = hd_OwnerType h" "hd_OwnerID h' = hd_OwnerID h"
    and tab: "holdings db' = put_row hd_ID h' (holdings db)" "fund_holdings db' = fund_holdings db"
    and moves: "hd_ReservedQuantity h' = hd_ReservedQuantity h + (open_of db' r' - open_of db r)"
      "hd_ReservedQuantity h' \<le> hd_Quantity h'" "hd_Quantity h' < 2 ^ 62"
  shows "stock_ok db'"
proof -
  have lk: "locked pos db' = locked pos db + (if Inl (hd_ID h) = pos then hd_ReservedQuantity h' - hd_ReservedQuantity h else 0)" for pos
    using share_move_locked [OF m, of pos] h(2) moves(1) by auto
  from m have ok: "stock_ok db" "seq_holdings db' = seq_holdings db" "seq_fund_holdings db' = seq_fund_holdings db"
    by (auto simp: share_move_def)
  note p = holding_put [OF ok(1) h(1,3-6) tab ok(2,3) lk moves(2,3)]
  from p share_move_keys [OF m] share_move_reservations [OF m p(3,4)] m show ?thesis by (simp add: stock_ok_def share_move_def)
qed

lemma share_move_fund_holding:
  assumes m: "share_move db db' r r'" and h: "h \<in> set (fund_holdings db)" "lock_pos r = Inr (fh_ID h)" "fh_ID h' = fh_ID h"
    and tab: "fund_holdings db' = put_row fh_ID h' (fund_holdings db)" "holdings db' = holdings db"
    and moves: "fh_ReservedQuantity h' = fh_ReservedQuantity h + (open_of db' r' - open_of db r)"
      "fh_ReservedQuantity h' \<le> fh_Quantity h'" "fh_Quantity h' < 2 ^ 62"
  shows "stock_ok db'"
proof -
  have lk: "locked pos db' = locked pos db + (if Inr (fh_ID h) = pos then fh_ReservedQuantity h' - fh_ReservedQuantity h else 0)" for pos
    using share_move_locked [OF m, of pos] h(2) moves(1) by auto
  from m have ok: "stock_ok db" "seq_holdings db' = seq_holdings db" "seq_fund_holdings db' = seq_fund_holdings db"
    by (auto simp: share_move_def)
  note p = fund_holding_put [OF ok(1) h(1,3) tab ok(2,3) lk moves(2,3)]
  from p share_move_keys [OF m] share_move_reservations [OF m p(3,4)] m show ?thesis by (simp add: stock_ok_def share_move_def)
qed

lemmas reservation_statuses = HoldingReservationStatusActive_def HoldingReservationStatusReleased_def HoldingReservationStatusSettled_def

lemma GetReservationForUpdateD:
  assumes "stock_ok db" "GetReservationForUpdate k db = Some r"
  shows "r \<in> set (holding_reservations db)" "has_hold_key k r" "reservation_ok db r"
    "(\<forall>i. k \<noteq> OrderKey i) \<Longrightarrow> hr_FundHoldingID r = None"
proof -
  from assms(2) find_SomeD [of _ _ r] show r: "r \<in> set (holding_reservations db)" "has_hold_key k r" by (auto simp: GetReservationForUpdate_def)
  from stock_okD(2) [OF assms(1) r(1)] show "reservation_ok db r" .
  with r(2) show "(\<forall>i. k \<noteq> OrderKey i) \<Longrightarrow> hr_FundHoldingID r = None" by (cases k) (auto simp: reservation_ok_def)
qed

lemma settlement_keys:
  assumes "reservation_keys_ok db" "holding_settlements db' = holding_settlements db"
    "seq_holding_settlements db' = seq_holding_settlements db"
  shows "distinct (map hs_ID (holding_settlements db'))" "\<forall>t \<in> set (holding_settlements db'). hs_ID t < seq_holding_settlements db' \<and>
       hs_HoldingReservationID t < seq_holding_reservations db \<and> 0 < hs_Quantity t"
  using assms by (auto simp: reservation_keys_ok_def)

text \<open>A release gives exactly what is open back to the position that the reservation locks.\<close>

lemma release_sharesE:
  assumes ok: "stock_ok db" and run: "release_shares unlock_order k db = Inr (x, db')"
  obtains (nothing) "db' = db" "x = nothing_released"
  | (holding) r h where "GetReservationForUpdate k db = Some r" "hr_Status r = HoldingReservationStatusActive" "hr_FundHoldingID r = None"
    "h \<in> set (holdings db)" "hd_ID h = hr_HoldingID r" "lh_ReleasedQuantity x = open_of db r"
    "db' = db\<lparr>holdings := put_row hd_ID (h\<lparr>hd_ReservedQuantity := hd_ReservedQuantity h - open_of db r, hd_Version := hd_Version h + 1\<rparr>) (holdings db),
      holding_reservations := put_row hr_ID (r\<lparr>hr_Status := HoldingReservationStatusReleased, hr_Version := hr_Version r + 1\<rparr>) (holding_reservations db)\<rparr>"
  | (fund) r h where "GetReservationForUpdate k db = Some r" "hr_Status r = HoldingReservationStatusActive" "hr_FundHoldingID r = Some (fh_ID h)"
    "h \<in> set (fund_holdings db)" "lh_ReleasedQuantity x = open_of db r"
    "db' = db\<lparr>fund_holdings := put_row fh_ID (h\<lparr>fh_ReservedQuantity := fh_ReservedQuantity h - open_of db r, fh_Version := fh_Version h + 1\<rparr>) (fund_holdings db),
      holding_reservations := put_row hr_ID (r\<lparr>hr_Status := HoldingReservationStatusReleased, hr_Version := hr_Version r + 1\<rparr>) (holding_reservations db)\<rparr>"
proof (cases "\<exists>r. GetReservationForUpdate k db = Some r \<and> hr_Status r = HoldingReservationStatusActive")
  case False
  with run have "db' = db" "x = nothing_released" by (auto simp: release_shares_def split: option.splits)
  then show thesis by (rule nothing)
next
  case True
  then obtain r where r: "GetReservationForUpdate k db = Some r" "hr_Status r = HoldingReservationStatusActive" by blast
  note g = GetReservationForUpdateD [OF ok r(1)]
  have rem: "max 0 (i64 (hr_Quantity r - settled_of db r)) = open_of db r" using g(3) r(2) by (auto simp: reservation_ok_def open_of_def)
  from run r rem obtain n db1 where u: "unlock_order r (open_of db r) db = Inr (n, db1)" "lh_ReleasedQuantity x = open_of db r"
    "UpdateReservation (r\<lparr>hr_Status := HoldingReservationStatusReleased\<rparr>) db1 = Inr db'"
    by (auto simp: release_shares_def Let_def split: sum.splits prod.splits)
  note d' = UpdateReservationD [OF u(3)]
  have le: "open_of db r \<le> locked (lock_pos r) db" by (rule open_le_locked [OF ok g(1)])
  show thesis
  proof (cases "hr_FundHoldingID r")
    case None
    from u(1) None obtain h where h: "find (\<lambda>h. hd_ID h = hr_HoldingID r) (holdings db) = Some h"
      "save_holding (h\<lparr>hd_ReservedQuantity := max 0 (i64 (hd_ReservedQuantity h - open_of db r))\<rparr>) db = Inr db1"
      by (auto simp: unlock_order_def release_holding_reserved_def Let_def split: option.splits sum.splits)
    note hh = find_SomeD [OF h(1)]
    have "max 0 (i64 (hd_ReservedQuantity h - open_of db r)) = hd_ReservedQuantity h - open_of db r"
      using holding_bounds [OF ok, of h] hh le None open_nonneg [OF ok g(1)] by (auto simp: lock_pos_def)
    with save_holdingD [OF h(2)] d' r None hh u(2) show thesis by (intro holding [of r h]) (auto simp:)
  next
    case (Some f)
    from u(1) Some obtain h where h: "find (\<lambda>h. fh_ID h = f) (fund_holdings db) = Some h"
      "save_fund_holding (h\<lparr>fh_ReservedQuantity := max 0 (i64 (fh_ReservedQuantity h - open_of db r))\<rparr>) db = Inr db1"
      by (auto simp: unlock_order_def releaseFundHoldingReserved_def Let_def split: option.splits sum.splits)
    note hh = find_SomeD [OF h(1)]
    have "max 0 (i64 (fh_ReservedQuantity h - open_of db r)) = fh_ReservedQuantity h - open_of db r"
      using fund_holding_bounds [OF ok, of h] hh le Some open_nonneg [OF ok g(1)] by (auto simp: lock_pos_def)
    with save_fund_holdingD [OF h(2)] d' r Some hh u(2) show thesis by (intro fund [of r h]) (auto simp:)
  qed
qed

lemma release_move:
  assumes ok: "stock_ok db" and r: "r \<in> set (holding_reservations db)"
    and tab: "holding_reservations db' = put_row hr_ID (r\<lparr>hr_Status := HoldingReservationStatusReleased, hr_Version := v\<rparr>) (holding_reservations db)"
      "holding_settlements db' = holding_settlements db" "seq_holdings db' = seq_holdings db" "seq_fund_holdings db' = seq_fund_holdings db"
      "seq_holding_reservations db' = seq_holding_reservations db" "seq_holding_settlements db' = seq_holding_settlements db"
  shows "share_move db db' r (r\<lparr>hr_Status := HoldingReservationStatusReleased, hr_Version := v\<rparr>)"
    "open_of db' (r\<lparr>hr_Status := HoldingReservationStatusReleased, hr_Version := v\<rparr>) = 0"
proof -
  note s = settled_cong [OF tab(2)]
  show "share_move db db' r (r\<lparr>hr_Status := HoldingReservationStatusReleased, hr_Version := v\<rparr>)"
    using settlement_keys [OF stock_okD(4) [OF ok] tab(2,6)] stock_okD(2) [OF ok r] ok r
      peer_keys_put [OF ok r _ _ tab(1)]
    by (simp add: share_move_def tab(1,3,4,5) s reservation_ok_def) (simp add: reservation_statuses)
  show "open_of db' (r\<lparr>hr_Status := HoldingReservationStatusReleased, hr_Version := v\<rparr>) = 0"
    by (simp add: open_of_def reservation_statuses)
qed

lemma release_shares_ok:
  assumes ok: "stock_ok db" and run: "release_shares unlock_order k db = Inr (x, db')"
  shows "stock_ok db'"
  using assms
proof (cases rule: release_sharesE)
  case (holding r h)
  note g = GetReservationForUpdateD [OF ok holding(1)]
  note m = release_move [OF ok g(1), of db' "hr_Version r + 1"]
  show ?thesis
    by (rule share_move_holding [OF m(1) holding(4), of "h\<lparr>hd_ReservedQuantity := hd_ReservedQuantity h - open_of db r, hd_Version := hd_Version h + 1\<rparr>"])
      (use holding m(2) holding_bounds [OF ok holding(4)] open_nonneg [OF ok g(1)] in \<open>simp_all add: lock_pos_def holding_key_def\<close>)
next
  case (fund r h)
  note g = GetReservationForUpdateD [OF ok fund(1)]
  note m = release_move [OF ok g(1), of db' "hr_Version r + 1"]
  show ?thesis
    by (rule share_move_fund_holding [OF m(1) fund(4), of "h\<lparr>fh_ReservedQuantity := fh_ReservedQuantity h - open_of db r, fh_Version := fh_Version h + 1\<rparr>"])
      (use fund m(2) fund_holding_bounds [OF ok fund(4)] open_nonneg [OF ok g(1)] in \<open>simp_all add: lock_pos_def\<close>)
qed (use ok in simp)

text \<open>A reservation under a contract key never locks a fund holding.\<close>

lemma release_contract:
  assumes "stock_ok db" "\<forall>i. k \<noteq> OrderKey i"
  shows "release_shares unlock_contract k db = release_shares unlock_order k db"
  using GetReservationForUpdateD(4) [OF assms(1) _ assms(2)]
  by (auto simp: release_shares_def unlock_order_def unlock_contract_def split: option.splits)

subsection \<open>Settlements\<close>

text \<open>A settlement within the reservation, and the reservation that it leaves, closed when nothing is open any more.\<close>

definition settled_reservation :: "int \<Rightarrow> holding_reservation \<Rightarrow> holding_reservation" where
  "settled_reservation n r =
     (if n = hr_Quantity r then r\<lparr>hr_Status := HoldingReservationStatusSettled, hr_Version := hr_Version r + 1\<rparr> else r)"

lemma settled_reservation_keeps [simp]:
  "hr_ID (settled_reservation n r) = hr_ID r" "hr_PeerOptionContractID (settled_reservation n r) = hr_PeerOptionContractID r" "lock_pos (settled_reservation n r) = lock_pos r"
  by (simp_all add: settled_reservation_def)

lemma close_if_fullD:
  assumes ok: "distinct (map hr_ID (holding_reservations db))" "r \<in> set (holding_reservations db)" and run: "close_if_full n r db = Inr db'"
  shows "db' = db\<lparr>holding_reservations := put_row hr_ID (settled_reservation n r) (holding_reservations db)\<rparr>"
  using run put_row_self [OF ok] by (auto simp: close_if_full_def settled_reservation_def dest: UpdateReservationD split: if_splits)

lemma settle_move:
  assumes ok: "stock_ok db" and r: "r \<in> set (holding_reservations db)" "hr_Status r = HoldingReservationStatusActive"
    and q: "0 < q" "settled_of db r + q \<le> hr_Quantity r"
    and c: "create_settlement (hr_ID r) txn q db = (True, db1)"
    and tab: "holding_reservations db' = put_row hr_ID (settled_reservation (settled_of db r + q) r) (holding_reservations db)"
      "holding_settlements db' = holding_settlements db1" "seq_holdings db' = seq_holdings db" "seq_fund_holdings db' = seq_fund_holdings db"
      "seq_holding_reservations db' = seq_holding_reservations db" "seq_holding_settlements db' = seq_holding_settlements db1"
  shows "share_move db db' r (settled_reservation (settled_of db r + q) r)"
    "open_of db' (settled_reservation (settled_of db r + q) r) = open_of db r - q"
proof -
  note k = stock_okD(4) [OF ok] and s = settled_cong [OF tab(2)] and i = settled_insert(1) [OF c]
  have st: "distinct (map hs_ID (holding_settlements db'))" "\<forall>t \<in> set (holding_settlements db'). hs_ID t < seq_holding_settlements db' \<and>
       hs_HoldingReservationID t < seq_holding_reservations db \<and> 0 < hs_Quantity t"
    using k c q(1) r(1) by (auto simp: tab create_settlement_def reservation_keys_ok_def less_Suc_eq split: if_splits) (metis less_irrefl)
  show "share_move db db' r (settled_reservation (settled_of db r + q) r)"
    using st stock_okD(2) [OF ok r(1)] ok r q peer_keys_put [OF ok r(1) _ _ tab(1)]
    by (simp add: share_move_def tab(1,3,4,5) s i reservation_ok_def) (simp add: settled_reservation_def reservation_statuses)
  show "open_of db' (settled_reservation (settled_of db r + q) r) = open_of db r - q"
    using r(2) q by (simp add: open_of_def s i settled_reservation_def reservation_statuses)
qed

lemma settle_holdingE:
  assumes ok: "stock_ok db" and r: "r \<in> set (holding_reservations db)" "hr_Status r = HoldingReservationStatusActive" "hr_FundHoldingID r = None"
    and q: "0 < q" "settled_of db r + q \<le> hr_Quantity r"
    and c: "create_settlement (hr_ID r) txn q db = (True, db1)" and d: "draw_holding (hr_HoldingID r) False q db1 = Inr (x, db2)"
    and cl: "close_if_full (settled_of db r + q) r db2 = Inr db'"
  obtains h where "h \<in> set (holdings db)" "hd_ID h = hr_HoldingID r" "q \<le> hd_ReservedQuantity h"
    "db' = db1\<lparr>holdings := put_row hd_ID (h\<lparr>hd_ReservedQuantity := hd_ReservedQuantity h - q, hd_Quantity := hd_Quantity h - q,
        hd_Version := hd_Version h + 1\<rparr>) (holdings db),
      holding_reservations := put_row hr_ID (settled_reservation (settled_of db r + q) r) (holding_reservations db)\<rparr>"
proof -
  note i = settled_insert [OF c]
  from d obtain h where h: "find (\<lambda>h. hd_ID h = hr_HoldingID r) (holdings db) = Some h"
    "save_holding (h\<lparr>hd_ReservedQuantity := max 0 (i64 (hd_ReservedQuantity h - q)), hd_Quantity := i64 (hd_Quantity h - q)\<rparr>) db1 = Inr db2"
    by (auto simp: draw_holding_def Let_def i(2) split: option.splits sum.splits)
  note hh = find_SomeD [OF h(1)]
  note b = holding_bounds [OF ok, of h]
  have qo: "q \<le> open_of db r" using r(2) q(2) by (simp add: open_of_def)
  have le: "q \<le> hd_ReservedQuantity h" using open_le_locked [OF ok r(1)] qo b hh r(3) by (simp add: lock_pos_def)
  have nums: "max 0 (i64 (hd_ReservedQuantity h - q)) = hd_ReservedQuantity h - q" "i64 (hd_Quantity h - q) = hd_Quantity h - q"
    using b hh le q(1) by auto
  let ?h = "h\<lparr>hd_ReservedQuantity := hd_ReservedQuantity h - q, hd_Quantity := hd_Quantity h - q, hd_Version := hd_Version h + 1\<rparr>"
  have db2: "db2 = db1\<lparr>holdings := put_row hd_ID ?h (holdings db)\<rparr>"
    using save_holdingD [OF h(2)] nums by (simp add: i(2))
  have dist: "distinct (map hr_ID (holding_reservations db2))" "r \<in> set (holding_reservations db2)"
    using stock_okD(4) [OF ok] r(1) by (auto simp: db2 i(4) reservation_keys_ok_def)
  from close_if_fullD [OF dist cl] hh le show thesis by (intro that [of h]) (simp_all add: db2 i(4))
qed

lemma settle_holding_ok:
  assumes ok: "stock_ok db" and r: "r \<in> set (holding_reservations db)" "hr_Status r = HoldingReservationStatusActive" "hr_FundHoldingID r = None"
    and q: "0 < q" "settled_of db r + q \<le> hr_Quantity r"
    and c: "create_settlement (hr_ID r) txn q db = (True, db1)" and d: "draw_holding (hr_HoldingID r) False q db1 = Inr (x, db2)"
    and cl: "close_if_full (settled_of db r + q) r db2 = Inr db'"
  shows "stock_ok db'"
  using assms
proof (cases rule: settle_holdingE)
  case (1 h)
  have seqs: "seq_holdings db1 = seq_holdings db" "seq_fund_holdings db1 = seq_fund_holdings db" "seq_holding_reservations db1 = seq_holding_reservations db"
    using c by (auto simp: create_settlement_def split: if_splits)
  note m = settle_move [OF ok r(1,2) q c, of db']
  show ?thesis
    by (rule share_move_holding [OF m(1), of h "h\<lparr>hd_ReservedQuantity := hd_ReservedQuantity h - q, hd_Quantity := hd_Quantity h - q, hd_Version := hd_Version h + 1\<rparr>"])
      (use m(2) 1 holding_bounds [OF ok 1(1)] r(3) settled_insert [OF c] seqs q in \<open>simp_all add: lock_pos_def holding_key_def\<close>)
qed

lemma settle_fund_holding_ok:
  assumes ok: "stock_ok db" and r: "r \<in> set (holding_reservations db)" "hr_Status r = HoldingReservationStatusActive" "hr_FundHoldingID r = Some f"
    and q: "0 < q" "settled_of db r + q \<le> hr_Quantity r"
    and c: "create_settlement (hr_ID r) txn q db = (True, db1)" and d: "draw_fund_holding f False q db1 = Inr (x, db2)"
    and cl: "close_if_full (settled_of db r + q) r db2 = Inr db'"
  shows "stock_ok db'"
proof -
  note i = settled_insert [OF c]
  from d obtain h where h: "find (\<lambda>h. fh_ID h = f) (fund_holdings db) = Some h"
    "save_fund_holding (h\<lparr>fh_ReservedQuantity := max 0 (i64 (fh_ReservedQuantity h - q)), fh_Quantity := i64 (fh_Quantity h - q)\<rparr>) db1 = Inr db2"
    by (auto simp: draw_fund_holding_def Let_def i(3) split: option.splits sum.splits)
  note hh = find_SomeD [OF h(1)]
  note b = fund_holding_bounds [OF ok, of h]
  have qo: "q \<le> open_of db r" using r(2) q(2) by (simp add: open_of_def)
  have le: "q \<le> fh_ReservedQuantity h" using open_le_locked [OF ok r(1)] qo b hh r(3) by (simp add: lock_pos_def)
  have nums: "max 0 (i64 (fh_ReservedQuantity h - q)) = fh_ReservedQuantity h - q" "i64 (fh_Quantity h - q) = fh_Quantity h - q"
    using b hh le q(1) by auto
  let ?h = "h\<lparr>fh_ReservedQuantity := fh_ReservedQuantity h - q, fh_Quantity := fh_Quantity h - q, fh_Version := fh_Version h + 1\<rparr>"
  have db2: "db2 = db1\<lparr>fund_holdings := put_row fh_ID ?h (fund_holdings db)\<rparr>"
    using save_fund_holdingD [OF h(2)] nums by (simp add: i(3))
  have dist: "distinct (map hr_ID (holding_reservations db2))" "r \<in> set (holding_reservations db2)"
    using stock_okD(4) [OF ok] r(1) by (auto simp: db2 i(4) reservation_keys_ok_def)
  note db' = close_if_fullD [OF dist cl]
  have seqs: "seq_holdings db1 = seq_holdings db" "seq_fund_holdings db1 = seq_fund_holdings db" "seq_holding_reservations db1 = seq_holding_reservations db"
    using c by (auto simp: create_settlement_def split: if_splits)
  note m = settle_move [OF ok r(1,2) q c, of db']
  show ?thesis
    by (rule share_move_fund_holding [OF m(1), of h ?h]) (use m(2) db' db2 hh b r(3) i seqs q in \<open>simp_all add: lock_pos_def\<close>)
qed

lemma no_wrap:
  assumes "reservation_ok db r" "0 < q" "q < 2 ^ 62"
  shows "i64 (settled_of db r + q) = settled_of db r + q"
  using assms by (auto simp: reservation_ok_def)

lemma partial_settle_ok:
  assumes ok: "stock_ok db" and run: "partial_settle oid txn q db = Inr (x, db')" and q: "0 < q" "q < 2 ^ 62"
  shows "stock_ok db'"
proof -
  from run obtain r where r: "GetReservationForUpdate (OrderKey oid) db = Some r" "hr_Status r = HoldingReservationStatusActive"
    by (auto simp: partial_settle_def split: option.splits if_splits)
  note g = GetReservationForUpdateD [OF ok r(1)]
  note w = no_wrap [OF g(3) q]
  obtain first db1 where c: "create_settlement (hr_ID r) txn q db = (first, db1)" by (rule prod.exhaust)
  from run r c w obtain y db2 where m: "settled_of db r + q \<le> hr_Quantity r"
    "(case hr_FundHoldingID r of Some fid \<Rightarrow> draw_fund_holding fid (\<not> first) q db1 | None \<Rightarrow> draw_holding (hr_HoldingID r) (\<not> first) q db1) = Inr (y, db2)"
    "(if first then close_if_full (settled_of db r + q) r db2 else Inr db2) = Inr db'"
    by (auto simp: partial_settle_def Let_def not_less split: if_splits sum.splits prod.splits)
  show ?thesis
  proof (cases first)
    case True
    with c have c1: "create_settlement (hr_ID r) txn q db = (True, db1)" by simp
    show ?thesis
    proof (cases "hr_FundHoldingID r")
      case None
      with m True show ?thesis by (auto intro: settle_holding_ok [OF ok g(1) r(2) None q(1) m(1) c1])
    next
      case (Some f)
      with m True show ?thesis by (auto intro: settle_fund_holding_ok [OF ok g(1) r(2) Some q(1) m(1) c1])
    qed
  next
    case False
    with c have "db1 = db" by (auto simp: create_settlement_def split: if_splits)
    with m False have "db' = db" by (auto simp: draw_holding_def draw_fund_holding_def split: option.splits)
    with ok show ?thesis by simp
  qed
qed

lemma consume_shares_ok:
  assumes ok: "stock_ok db" and run: "consume_shares k missing txn q db = Inr (x, db')" and q: "0 < q" "q < 2 ^ 62"
    and k: "\<forall>i. k \<noteq> OrderKey i"
  shows "stock_ok db'"
proof -
  from run obtain r where r: "GetReservationForUpdate k db = Some r" "hr_Status r = HoldingReservationStatusActive"
    by (auto simp: consume_shares_def split: option.splits if_splits)
  note g = GetReservationForUpdateD [OF ok r(1)]
  note w = no_wrap [OF g(3) q]
  obtain first db1 where c: "create_settlement (hr_ID r) txn q db = (first, db1)" by (rule prod.exhaust)
  show ?thesis
  proof (cases first)
    case True
    with c have c1: "create_settlement (hr_ID r) txn q db = (True, db1)" by simp
    from True run r c w obtain y db2 where m: "settled_of db r + q \<le> hr_Quantity r" "draw_holding (hr_HoldingID r) False q db1 = Inr (y, db2)"
      "close_if_full (settled_of db r + q) r db2 = Inr db'"
      by (auto simp: consume_shares_def Let_def not_less split: option.splits if_splits sum.splits prod.splits)
    from settle_holding_ok [OF ok g(1) r(2) g(4) [OF k] q(1) m(1) c1 m(2,3)] show ?thesis .
  next
    case False
    with c have "db1 = db" by (auto simp: create_settlement_def split: if_splits)
    with run r c False ok show ?thesis by (auto simp: consume_shares_def Let_def split: option.splits if_splits)
  qed
qed

text \<open>
  Giving consumed shares back. The restore looks the settlement up by its number alone, so it must be one of this contract's
  reservation, and that must not have been released meanwhile.
\<close>

definition restorable :: "nat \<Rightarrow> nat \<Rightarrow> stock_db \<Rightarrow> bool" where
  "restorable c txn db \<longleftrightarrow>
     (\<forall>t r. find (\<lambda>t. hs_OrderTransactionID t = txn) (holding_settlements db) = Some t \<longrightarrow> GetReservationForUpdate (OTCKey c) db = Some r \<longrightarrow>
        hs_HoldingReservationID t = hr_ID r \<and> (hr_Status r = HoldingReservationStatusActive \<or> hr_Status r = HoldingReservationStatusSettled) \<and>
        (\<forall>h \<in> set (holdings db). hd_ID h = hr_HoldingID r \<longrightarrow> hd_Quantity h + hs_Quantity t < 2 ^ 62))"

lemma settled_remove:
  assumes "distinct (map hs_ID (holding_settlements db))" "t \<in> set (holding_settlements db)"
  shows "SumHoldingSettlements i (db\<lparr>holding_settlements := filter (\<lambda>x. hs_ID x \<noteq> hs_ID t) (holding_settlements db)\<rparr>) =
    SumHoldingSettlements i db - (if i = hs_HoldingReservationID t then hs_Quantity t else 0)"
proof -
  let ?f = "\<lambda>x. if hs_HoldingReservationID x = i then hs_Quantity x else 0"
  let ?g = "\<lambda>x. if hs_ID x \<noteq> hs_ID t \<and> hs_HoldingReservationID x = i then hs_Quantity x else 0"
  have "tsum ?g (holding_settlements db) = tsum ?f (holding_settlements db) - ?f t + ?g t" by (rule tsum_change_one [OF assms]) simp
  then show ?thesis by (auto simp: SumHoldingSettlements_def tsum_filter)
qed

definition reopened_reservation :: "holding_reservation \<Rightarrow> holding_reservation" where
  "reopened_reservation r = (if hr_Status r = HoldingReservationStatusSettled
     then r\<lparr>hr_Status := HoldingReservationStatusActive, hr_Version := hr_Version r + 1\<rparr> else r)"

lemma restore_sharesE:
  assumes ok: "stock_ok db" and run: "restore_shares c txn db = Inr (x, db')" and re: "restorable c txn db"
  obtains (nothing) "db' = db"
  | (restored) t r h where "find (\<lambda>t. hs_OrderTransactionID t = txn) (holding_settlements db) = Some t"
    "GetReservationForUpdate (OTCKey c) db = Some r" "h \<in> set (holdings db)" "hd_ID h = hr_HoldingID r"
    "db' = db\<lparr>holdings := put_row hd_ID (h\<lparr>hd_Quantity := hd_Quantity h + hs_Quantity t,
        hd_ReservedQuantity := hd_ReservedQuantity h + hs_Quantity t, hd_Version := hd_Version h + 1\<rparr>) (holdings db),
      holding_settlements := filter (\<lambda>x. hs_ID x \<noteq> hs_ID t) (holding_settlements db),
      holding_reservations := put_row hr_ID (reopened_reservation r) (holding_reservations db)\<rparr>"
proof (cases "find (\<lambda>t. hs_OrderTransactionID t = txn) (holding_settlements db)")
  case None
  with run have "db' = db" by (simp add: restore_shares_def)
  then show thesis by (rule nothing)
next
  case (Some t)
  with run obtain r h db1 where r: "GetReservationForUpdate (OTCKey c) db = Some r"
    and h: "find (\<lambda>h. hd_ID h = hr_HoldingID r) (holdings db) = Some h"
    and sv: "save_holding (h\<lparr>hd_Quantity := i64 (hd_Quantity h + hs_Quantity t),
        hd_ReservedQuantity := i64 (hd_ReservedQuantity h + hs_Quantity t)\<rparr>) db = Inr db1"
    by (auto simp: restore_shares_def split: option.splits sum.splits)
  note g = GetReservationForUpdateD [OF ok r]
  note hh = find_SomeD [OF h] and keys = stock_okD(4) [OF ok]
  note b = holding_bounds [OF ok, of h]
  have "hd_Quantity h + hs_Quantity t < 2 ^ 62" "0 < hs_Quantity t"
    using re Some r hh keys find_in_set [OF Some] by (auto simp: restorable_def reservation_keys_ok_def)
  then have nums: "i64 (hd_Quantity h + hs_Quantity t) = hd_Quantity h + hs_Quantity t"
    "i64 (hd_ReservedQuantity h + hs_Quantity t) = hd_ReservedQuantity h + hs_Quantity t" using b hh by auto
  have "put_row hr_ID r (holding_reservations db) = holding_reservations db"
    using keys g(1) by (intro put_row_self) (simp_all add: reservation_keys_ok_def)
  then show thesis
    using run Some r h hh sv save_holdingD [OF sv] nums
    by (intro restored [of t r h])
      (auto simp: restore_shares_def Let_def reopened_reservation_def dest!: UpdateReservationD split: if_splits sum.splits)
qed

lemma restore_shares_ok:
  assumes ok: "stock_ok db" and run: "restore_shares c txn db = Inr (x, db')" and re: "restorable c txn db"
  shows "stock_ok db'"
  using assms
proof (cases rule: restore_sharesE)
  case (restored t r h)
  note g = GetReservationForUpdateD [OF ok restored(2)]
  note tt = find_SomeD [OF restored(1)] and keys = stock_okD(4) [OF ok]
  note b = holding_bounds [OF ok restored(3)]
  have fund: "hr_FundHoldingID r = None" using g(4) by simp
  from re restored have t: "hs_HoldingReservationID t = hr_ID r" "hd_Quantity h + hs_Quantity t < 2 ^ 62"
    "hr_Status r = HoldingReservationStatusActive \<or> hr_Status r = HoldingReservationStatusSettled" by (auto simp: restorable_def)
  have tpos: "0 < hs_Quantity t" using keys tt by (auto simp: reservation_keys_ok_def)
  note db' = restored(5) and r'_def = reopened_reservation_def [of r]
  have rm: "SumHoldingSettlements i db' = SumHoldingSettlements i db - (if i = hr_ID r then hs_Quantity t else 0)" for i
    using settled_remove [of db t i] keys tt by (simp add: db' t(1) reservation_keys_ok_def SumHoldingSettlements_def)
  have "0 \<le> settled_of db' r" unfolding SumHoldingSettlements_def
    by (rule tsum_nonneg) (use keys in \<open>auto simp: db' reservation_keys_ok_def less_imp_le\<close>)
  then have s: "hs_Quantity t \<le> settled_of db r" using rm [of "hr_ID r"] by simp
  have ex: "position_exists db (lock_pos r)" using restored(3,4) fund by (force simp: position_exists_def lock_pos_def)
  have m: "share_move db db' r (reopened_reservation r)"
    using ok g keys rm s tpos ex t(3) peer_keys_put [OF ok g(1), of "reopened_reservation r" db']
    by (auto simp: share_move_def db' r'_def reservation_ok_def reservation_keys_ok_def reservation_statuses distinct_map_filter)
  have op: "open_of db' (reopened_reservation r) = open_of db r + hs_Quantity t"
    using rm [of "hr_ID r"] t(3) g(3) by (auto simp: open_of_def r'_def reservation_ok_def reservation_statuses)
  show ?thesis
    by (rule share_move_holding [OF m, of h "h\<lparr>hd_Quantity := hd_Quantity h + hs_Quantity t,
        hd_ReservedQuantity := hd_ReservedQuantity h + hs_Quantity t, hd_Version := hd_Version h + 1\<rparr>"])
      (use op db' restored(3,4) b fund t(2) in \<open>simp_all add: lock_pos_def holding_key_def\<close>)
qed (use ok in simp)

subsection \<open>Linking a vote to its contract\<close>

lemma share_move_same:
  assumes m: "share_move db db' r r'" and tab: "holdings db' = holdings db" "fund_holdings db' = fund_holdings db"
    and op: "open_of db' r' = open_of db r"
  shows "stock_ok db'"
proof -
  from m have ok: "stock_ok db" "seq_holdings db' = seq_holdings db" "seq_fund_holdings db' = seq_fund_holdings db"
    by (auto simp: share_move_def)
  have lk: "locked pos db' = locked pos db" for pos using share_move_locked [OF m, of pos] op by simp
  have "position_keys_ok db'" "positions_ok db'" using stock_okD(1,3) [OF ok(1)] by (auto simp: position_keys_ok_def positions_ok_def tab lk ok)
  moreover have "position_exists db' = position_exists db" "position_limit db' = position_limit db"
    by (simp_all add: fun_eq_iff position_exists_def position_limit_def tab ok split: sum.split)
  ultimately show ?thesis using share_move_keys [OF m] share_move_reservations [OF m] m by (simp add: stock_ok_def share_move_def)
qed

lemma attach_ok:
  assumes ok: "stock_ok db"
  shows "stock_ok (snd (AttachCrossBankReservationToContract x c db))"
proof -
  consider "snd (AttachCrossBankReservationToContract x c db) = db"
    | r where "GetReservationForUpdate (CrossKey x) db = Some r"
      "UpdateReservation (r\<lparr>hr_PeerOptionContractID := Some c\<rparr>) db = Inr (snd (AttachCrossBankReservationToContract x c db))"
  proof (cases "GetReservationForUpdate (CrossKey x) db")
    case (Some r)
    show thesis
    proof (cases "hr_PeerOptionContractID r \<noteq> Some c \<and> (\<exists>d. UpdateReservation (r\<lparr>hr_PeerOptionContractID := Some c\<rparr>) db = Inr d)")
      case True
      with Some show thesis by (intro that(2) [of r]) (auto simp: AttachCrossBankReservationToContract_def transaction_def)
    next
      case False
      with Some show thesis
        by (intro that(1)) (auto simp: AttachCrossBankReservationToContract_def transaction_def split: sum.splits if_splits)
    qed
  qed (intro that(1), simp add: AttachCrossBankReservationToContract_def transaction_def)
  then show ?thesis
  proof cases
    case (2 r)
    define db' where "db' = snd (AttachCrossBankReservationToContract x c db)"
    note g = GetReservationForUpdateD [OF ok 2(1)] and db' = UpdateReservationD [OF 2(2), folded db'_def] and keys = stock_okD(4) [OF ok]
    let ?r = "r\<lparr>hr_PeerOptionContractID := Some c, hr_Version := hr_Version r + 1\<rparr>"
    have set: "SumHoldingSettlements i db' = SumHoldingSettlements i db" for i by (simp add: db' SumHoldingSettlements_def)
    have "peer_keys_ok db'"
      using peer_keys_attach [of "holding_reservations db" ?r] 2(2) keys stock_okD(5) [OF ok]
      by (auto simp: peer_keys_ok_def db' reservation_keys_ok_def UpdateReservation_def split: if_splits)
    then have "share_move db db' r ?r"
      using ok g(1,3) g(4) keys set by (auto simp: share_move_def db' reservation_ok_def reservation_keys_ok_def)
    then have "stock_ok db'" by (rule share_move_same) (simp_all add: db' open_of_def SumHoldingSettlements_def)
    then show ?thesis by (simp add: db'_def)
  qed (simp add: ok)
qed

end
