(* ===== verification/Holding_Runs.thy ===== *)
theory Holding_Runs
  imports Holding_Safety
begin

text \<open>
  The operations that bring shares in or take them away, the share tables as a state machine, and what the operations
  promise together: locks that are given back, replays, and the two halves of an option exercise with their compensations.
\<close>

section \<open>Quantities that change\<close>

lemma quantity_change:
  assumes ok: "stock_ok db" and h: "h \<in> set (holdings db)" "hd_ID h' = hd_ID h" "holding_key h' = holding_key h"
      "hd_OwnerType h' = hd_OwnerType h" "hd_OwnerID h' = hd_OwnerID h" "hd_ReservedQuantity h' = hd_ReservedQuantity h"
    and q: "hd_ReservedQuantity h \<le> hd_Quantity h'" "hd_Quantity h' < 2 ^ 62"
  shows "stock_ok (db\<lparr>holdings := put_row hd_ID h' (holdings db)\<rparr>)"
proof -
  let ?db = "db\<lparr>holdings := put_row hd_ID h' (holdings db)\<rparr>"
  have lk: "locked pos ?db = locked pos db" for pos by (rule locked_cong) simp_all
  have p: "position_keys_ok ?db" "positions_ok ?db" "position_exists ?db = position_exists db" "position_limit ?db = position_limit db"
    by (rule holding_put [OF ok h(1-5), of ?db]; use h(6) q lk in simp)+
  have "reservation_ok ?db r \<longleftrightarrow> reservation_ok db r" for r by (simp add: reservation_ok_def p SumHoldingSettlements_def)
  with p stock_okD [OF ok] show ?thesis by (simp add: stock_ok_def reservation_keys_ok_def peer_keys_ok_def)
qed

lemma stock_ok_cong:
  assumes "holdings db' = holdings db" "seq_holdings db' = seq_holdings db" "fund_holdings db' = fund_holdings db"
    "seq_fund_holdings db' = seq_fund_holdings db" "holding_reservations db' = holding_reservations db"
    "seq_holding_reservations db' = seq_holding_reservations db" "holding_settlements db' = holding_settlements db"
    "seq_holding_settlements db' = seq_holding_settlements db"
  shows "stock_ok db' = stock_ok db"
proof -
  have e: "position_exists db' = position_exists db" "position_limit db' = position_limit db"
    by (simp_all add: fun_eq_iff position_exists_def position_limit_def assms split: sum.split)
  have "locked pos db' = locked pos db" for pos by (rule locked_cong) (simp_all add: assms)
  then show ?thesis
    by (simp add: stock_ok_def position_keys_ok_def reservation_keys_ok_def peer_keys_ok_def positions_ok_def reservation_ok_def
        SumHoldingSettlements_def assms e)
qed

lemma stock_ok_unrelated [simp]:
  "stock_ok (db\<lparr>credit_markers := m\<rparr>) = stock_ok db" "stock_ok (db\<lparr>option_contracts := cs\<rparr>) = stock_ok db"
  by (rule stock_ok_cong; simp)+

text \<open>A position that no reservation has ever locked, such as a new row, has nothing locked.\<close>

lemma locked_fresh:
  assumes "stock_ok db" "\<not> position_limit db pos"
  shows "locked pos db = 0"
  unfolding locked_def by (rule tsum_zero) (use stock_okD(2) [OF assms(1)] assms(2) in \<open>auto simp: reservation_ok_def\<close>)

lemma reservations_grow:
  assumes ok: "stock_ok db" and same: "holding_reservations db' = holding_reservations db" "holding_settlements db' = holding_settlements db"
      "seq_holding_reservations db' = seq_holding_reservations db" "seq_holding_settlements db' = seq_holding_settlements db"
    and pos: "\<And>pos r. r \<in> set (holding_reservations db) \<Longrightarrow> hr_Status r = HoldingReservationStatusActive \<Longrightarrow>
        position_exists db (lock_pos r) \<Longrightarrow> position_exists db' (lock_pos r)"
      "\<And>pos. position_limit db pos \<Longrightarrow> position_limit db' pos"
  shows "reservation_keys_ok db'" "peer_keys_ok db'" "\<forall>r \<in> set (holding_reservations db'). reservation_ok db' r"
  using stock_okD(2,4,5) [OF ok] pos by (auto simp: reservation_keys_ok_def peer_keys_ok_def reservation_ok_def same settled_cong [OF same(2)])

lemma create_holding_ok:
  assumes ok: "stock_ok db" and run: "create_holding h db = Inr db'"
    and h: "hd_ReservedQuantity h = 0" "0 \<le> hd_Quantity h" "hd_Quantity h < 2 ^ 62"
  shows "stock_ok db'"
proof -
  let ?h = "h\<lparr>hd_ID := seq_holdings db, hd_Version := 1\<rparr>"
  from run have db': "db' = db\<lparr>holdings := holdings db @ [?h], seq_holdings := Suc (seq_holdings db)\<rparr>"
    and o: "ValidateOwner (hd_OwnerType h) (hd_OwnerID h) = Inr ()" "holding_key h \<notin> holding_key ` set (holdings db)"
    by (auto simp: create_holding_def split: sum.splits if_splits)
  have lk: "locked pos db' = locked pos db" for pos by (rule locked_cong) (simp_all add: db')
  have k: "holding_key ?h = holding_key h" by (simp add: holding_key_def)
  have "position_keys_ok db'" using stock_okD(1) [OF ok] o(2) k by (force simp: position_keys_ok_def db' less_Suc_eq)
  moreover have "positions_ok db'"
    using stock_okD(3) [OF ok] locked_fresh [OF ok, of "Inl (seq_holdings db)"] h o(1)
    by (auto simp: positions_ok_def lk position_limit_def) (auto simp: db')
  moreover have "reservation_keys_ok db'" "peer_keys_ok db'" "\<forall>r \<in> set (holding_reservations db'). reservation_ok db' r"
    by (rule reservations_grow [OF ok]; auto simp: db' position_exists_def position_limit_def split: sum.splits)+
  ultimately show ?thesis by (simp add: stock_ok_def)
qed

text \<open>A row without locked shares may go.\<close>

lemma remove_holding_ok:
  assumes ok: "stock_ok db" and h: "h \<in> set (holdings db)" "hd_ReservedQuantity h = 0"
  shows "stock_ok (db\<lparr>holdings := filter (\<lambda>x. hd_ID x \<noteq> hd_ID h) (holdings db)\<rparr>)"
proof -
  let ?db = "db\<lparr>holdings := filter (\<lambda>x. hd_ID x \<noteq> hd_ID h) (holdings db)\<rparr>"
  have lk: "locked pos ?db = locked pos db" for pos by (rule locked_cong) simp_all
  have free: "lock_pos r \<noteq> Inl (hd_ID h)" if "r \<in> set (holding_reservations db)" "hr_Status r = HoldingReservationStatusActive" for r
  proof
    assume "lock_pos r = Inl (hd_ID h)"
    with open_le_locked [OF ok that(1)] holding_bounds(1) [OF ok h(1)] h(2) have "open_of db r \<le> 0" by simp
    with stock_okD(2) [OF ok that(1)] that(2) show False by (simp add: open_of_def reservation_ok_def)
  qed
  have "position_keys_ok ?db" using stock_okD(1) [OF ok] by (auto simp: position_keys_ok_def distinct_map_filter)
  moreover have "positions_ok ?db" using stock_okD(3) [OF ok] by (auto simp: positions_ok_def lk)
  moreover have "reservation_keys_ok ?db" "peer_keys_ok ?db" "\<forall>r \<in> set (holding_reservations ?db). reservation_ok ?db r"
    by (rule reservations_grow [OF ok]; use free in \<open>force simp: position_exists_def position_limit_def split: sum.splits\<close>)+
  ultimately show ?thesis by (simp add: stock_ok_def)
qed

section \<open>Shares that arrive and shares that are taken back\<close>

text \<open>A credit of \<open>q\<close> shares stays below the bound of the invariant.\<close>

definition room_for :: "int \<Rightarrow> stock_db \<Rightarrow> bool" where
  "room_for q db \<longleftrightarrow> 0 < q \<and> q < 2 ^ 62 \<and> (\<forall>h \<in> set (holdings db). hd_Quantity h + q < 2 ^ 62) \<and>
     (\<forall>h \<in> set (fund_holdings db). fh_Quantity h + q < 2 ^ 62)"

lemma stampHoldingSaga_keeps [simp]:
  "hd_ID (stampHoldingSaga c h) = hd_ID h" "hd_OwnerType (stampHoldingSaga c h) = hd_OwnerType h" "hd_OwnerID (stampHoldingSaga c h) = hd_OwnerID h"
  "hd_SecurityType (stampHoldingSaga c h) = hd_SecurityType h" "hd_SecurityID (stampHoldingSaga c h) = hd_SecurityID h"
  "hd_Quantity (stampHoldingSaga c h) = hd_Quantity h" "hd_ReservedQuantity (stampHoldingSaga c h) = hd_ReservedQuantity h"
  "hd_Version (stampHoldingSaga c h) = hd_Version h" "hd_AveragePrice (stampHoldingSaga c h) = hd_AveragePrice h"
  by (simp_all add: stampHoldingSaga_def Let_def split: option.split)

lemma save_quantity_ok:
  assumes ok: "stock_ok db" and h: "h \<in> set (holdings db)" and run: "save_holding h' db = Inr db'"
    and same: "hd_ID h' = hd_ID h" "hd_OwnerType h' = hd_OwnerType h" "hd_OwnerID h' = hd_OwnerID h" "hd_SecurityType h' = hd_SecurityType h"
      "hd_SecurityID h' = hd_SecurityID h" "hd_ReservedQuantity h' = hd_ReservedQuantity h"
    and q: "hd_ReservedQuantity h \<le> hd_Quantity h'" "hd_Quantity h' < 2 ^ 62"
  shows "stock_ok db'"
  unfolding save_holdingD [OF run] by (rule quantity_change [OF ok h]) (use same q in \<open>simp_all add: holding_key_def\<close>)

lemma GetByOwnerAndSecurityD:
  assumes "GetByOwnerAndSecurity t i st sid db = Some h"
  shows "h \<in> set (holdings db)" "hd_SecurityType h = st" "hd_SecurityID h = sid" "hd_OwnerType h = t" "hd_OwnerID h = i"
  using find_SomeD [OF assms [unfolded GetByOwnerAndSecurity_def]] by (auto simp: owned_by_def)

lemma upsert_holding_ok:
  assumes ok: "stock_ok db" and run: "upsert_holding dv ctx h db = Inr (x, db')"
    and h: "hd_ReservedQuantity h = 0" and room: "room_for (hd_Quantity h) db"
  shows "stock_ok db'"
proof (cases "GetByOwnerAndSecurity (hd_OwnerType h) (hd_OwnerID h) (hd_SecurityType h) (hd_SecurityID h) db")
  case None
  with run have "create_holding (stampHoldingSaga ctx h) db = Inr db'" by (auto simp: upsert_holding_def split: sum.splits)
  from create_holding_ok [OF ok this] h room show ?thesis by (simp add: room_for_def)
next
  case (Some e)
  note e = GetByOwnerAndSecurityD [OF Some]
  note b = holding_bounds [OF ok e(1)]
  from Some run have sv: "save_holding (stampHoldingSaga ctx (merged_holding dv h e)) db = Inr db'" by (auto simp: upsert_holding_def split: sum.splits)
  have "i64 (hd_Quantity e + hd_Quantity h) = hd_Quantity e + hd_Quantity h" "hd_Quantity e + hd_Quantity h < 2 ^ 62"
    using room e(1) b by (auto simp: room_for_def)
  then show ?thesis
    by (intro save_quantity_ok [OF ok e(1) sv]) (use b room in \<open>auto simp: merged_holding_def Let_def room_for_def\<close>)
qed

lemma creditBuyerHoldingTx_ok:
  assumes ok: "stock_ok db" and run: "creditBuyerHoldingTx dv t i ticker q p db = Inr db'" and room: "room_for q db"
  shows "stock_ok db'"
proof (cases "find (\<lambda>h. hd_SecurityType h = ''stock'' \<and> hd_Ticker h = ticker \<and> owned_by t i h) (holdings db)")
  case None
  with run room show ?thesis
    by (auto simp: creditBuyerHoldingTx_def Let_def room_for_def intro: create_holding_ok [OF ok])
next
  case (Some e)
  note e = find_in_set [OF Some]
  note b = holding_bounds [OF ok e]
  have "i64 (hd_Quantity e + q) = hd_Quantity e + q" "hd_Quantity e + q < 2 ^ 62" using room e b by (auto simp: room_for_def)
  with Some run room b show ?thesis
    by (auto simp: creditBuyerHoldingTx_def Let_def room_for_def intro: save_quantity_ok [OF ok e])
qed

text \<open>Shares that are not locked may be taken back.\<close>

definition free_shares :: "int \<Rightarrow> holding \<Rightarrow> bool" where
  "free_shares q h \<longleftrightarrow> q \<le> hd_Quantity h - hd_ReservedQuantity h"

lemma decrement_for_owner_ok:
  assumes ok: "stock_ok db" and run: "decrement_for_owner t i st sid q db = Inr (x, db')" and q: "0 < q"
    and free: "\<And>h. GetByOwnerAndSecurity t i st sid db = Some h \<Longrightarrow> free_shares q h"
  shows "stock_ok db'"
proof (cases "GetByOwnerAndSecurity t i st sid db")
  case None
  with run ok show ?thesis by (simp add: decrement_for_owner_def)
next
  case (Some h)
  note h = GetByOwnerAndSecurityD [OF Some]
  note b = holding_bounds [OF ok h(1)]
  from free [OF Some] have f: "q \<le> hd_Quantity h - hd_ReservedQuantity h" by (simp add: free_shares_def)
  have n: "i64 (hd_Quantity h - q) = hd_Quantity h - q" using f b q by auto
  show ?thesis
  proof (cases "hd_Quantity h - q \<le> 0")
    case True
    with f b have "hd_ReservedQuantity h = 0" by simp
    from remove_holding_ok [OF ok h(1) this] True n run Some show ?thesis by (simp add: decrement_for_owner_def Let_def)
  next
    case False
    with n run Some have "save_holding (h\<lparr>hd_Quantity := hd_Quantity h - q\<rparr>) db = Inr db'"
      by (auto simp: decrement_for_owner_def Let_def split: sum.splits)
    then show ?thesis by (rule save_quantity_ok [OF ok h(1)]) (use f b q in simp_all)
  qed
qed

lemma fund_quantity_change:
  assumes ok: "stock_ok db" and h: "h \<in> set (fund_holdings db)" "fh_ID h' = fh_ID h" "fh_ReservedQuantity h' = fh_ReservedQuantity h"
    and q: "fh_ReservedQuantity h \<le> fh_Quantity h'" "fh_Quantity h' < 2 ^ 62"
  shows "stock_ok (db\<lparr>fund_holdings := put_row fh_ID h' (fund_holdings db)\<rparr>)"
proof -
  let ?db = "db\<lparr>fund_holdings := put_row fh_ID h' (fund_holdings db)\<rparr>"
  have lk: "locked pos ?db = locked pos db" for pos by (rule locked_cong) simp_all
  have p: "position_keys_ok ?db" "positions_ok ?db" "position_exists ?db = position_exists db" "position_limit ?db = position_limit db"
    by (rule fund_holding_put [OF ok h(1,2), of ?db]; use h(3) q lk in simp)+
  have "reservation_ok ?db r \<longleftrightarrow> reservation_ok db r" for r by (simp add: reservation_ok_def p SumHoldingSettlements_def)
  with p stock_okD [OF ok] show ?thesis by (simp add: stock_ok_def reservation_keys_ok_def peer_keys_ok_def)
qed

lemma upsert_fund_holding_ok:
  assumes ok: "stock_ok db" and run: "upsert_fund_holding sdv h db = Inr (x, db')"
    and h: "fh_ReservedQuantity h = 0" and room: "room_for (fh_Quantity h) db"
  shows "stock_ok db'"
proof (cases "find (\<lambda>x. fh_FundID x = fh_FundID h \<and> fh_SecurityType x = fh_SecurityType h \<and> fh_SecurityID x = fh_SecurityID h) (fund_holdings db)")
  case None
  with run have db': "db' = db\<lparr>fund_holdings := fund_holdings db @ [h\<lparr>fh_ID := seq_fund_holdings db\<rparr>], seq_fund_holdings := Suc (seq_fund_holdings db)\<rparr>"
    by (simp add: upsert_fund_holding_def)
  have lk: "locked pos db' = locked pos db" for pos by (rule locked_cong) (simp_all add: db')
  have "position_keys_ok db'" using stock_okD(1) [OF ok] by (force simp: position_keys_ok_def db' less_Suc_eq)
  moreover have "positions_ok db'"
    using stock_okD(3) [OF ok] locked_fresh [OF ok, of "Inr (seq_fund_holdings db)"] h room
    by (auto simp: positions_ok_def lk position_limit_def room_for_def) (auto simp: db')
  moreover have "reservation_keys_ok db'" "peer_keys_ok db'" "\<forall>r \<in> set (holding_reservations db'). reservation_ok db' r"
    by (rule reservations_grow [OF ok]; auto simp: db' position_exists_def position_limit_def split: sum.splits)+
  ultimately show ?thesis by (simp add: stock_ok_def)
next
  case (Some e)
  note e = find_in_set [OF Some]
  note b = fund_holding_bounds [OF ok e]
  have "fh_Quantity e + fh_Quantity h < 2 ^ 62" "0 < fh_Quantity h" using room e by (auto simp: room_for_def)
  with Some run b show ?thesis
    by (auto simp: upsert_fund_holding_def split: if_splits intro!: fund_quantity_change [OF ok e])
qed

lemma DecrementForFundSecurity_ok:
  assumes ok: "stock_ok db" and run: "DecrementForFundSecurity f st sid q db = Inr (x, db')" and q: "0 < q"
    and free: "\<And>h. find (\<lambda>x. fh_FundID x = f \<and> fh_SecurityType x = st \<and> fh_SecurityID x = sid) (fund_holdings db) = Some h \<Longrightarrow>
      q \<le> fh_Quantity h - fh_ReservedQuantity h"
  shows "stock_ok db'"
proof (cases "find (\<lambda>x. fh_FundID x = f \<and> fh_SecurityType x = st \<and> fh_SecurityID x = sid) (fund_holdings db)")
  case None
  with run ok show ?thesis by (simp add: DecrementForFundSecurity_def)
next
  case (Some h)
  note h = find_in_set [OF Some] and fr = free [OF Some]
  note b = fund_holding_bounds [OF ok h]
  let ?h = "h\<lparr>fh_Quantity := fh_Quantity h - q, fh_Version := fh_Version h + 1\<rparr>"
  have d: "distinct (map fh_ID (fund_holdings db))" using stock_okD(1) [OF ok] by (simp add: position_keys_ok_def)
  have "upd_rows (\<lambda>x. fh_ID x = fh_ID h \<and> fh_Quantity x \<ge> q) (\<lambda>x. x\<lparr>fh_Quantity := fh_Quantity x - q, fh_Version := fh_Version x + 1\<rparr>)
      (fund_holdings db) = put_row fh_ID ?h (fund_holdings db)"
    by (rule upd_rows_put [OF d, of h, THEN trans]) (use h fr b in auto)
  moreover have "stock_ok (db\<lparr>fund_holdings := put_row fh_ID ?h (fund_holdings db)\<rparr>)"
    by (rule fund_quantity_change [OF ok h]) (use fr b q in auto)
  ultimately show ?thesis using run Some by (auto simp: DecrementForFundSecurity_def DecrementQuantity_def split: if_splits)
qed

end
