(* ===== verification/Holding_System.thy ===== *)
theory Holding_System
  imports Holding_Runs
begin

text \<open>The share tables as a state machine, and what locks, replays and the halves of an option exercise promise.\<close>

section \<open>Runs\<close>

lemma stock_transaction:
  assumes "stock_ok db" "\<And>x db'. body db = Inr (x, db') \<Longrightarrow> stock_ok db'"
  shows "stock_ok (snd (transaction body db))"
  by (rule transaction_cases [of body db]) (use assms in auto)

inductive stock_step :: "stock_db \<Rightarrow> stock_db \<Rightarrow> bool" where
  reserve: "stock_step db (snd (ReserveHolding t i st sid oid q db))"
| reserve_fund: "stock_step db (snd (ReserveFund f st sid oid q db))"
| reserve_otc: "stock_step db (snd (ReserveForOTCContract t i st sid c q db))"
| reserve_peer: "stock_step db (snd (ReserveForPeerOptionContract t i st ticker c q db))"
| reserve_vote: "stock_step db (snd (ReserveForCrossBankNewTx t i st ticker tx q db))"
| release: "stock_step db (snd (ReleaseHolding oid db))"
| release_otc: "stock_step db (snd (ReleaseForOTCContract c db))"
| release_peer: "stock_step db (snd (ReleaseForPeerOptionContract c db))"
| release_vote: "stock_step db (snd (ReleaseForCrossBankNewTx tx db))"
| settle: "q < 2 ^ 62 \<Longrightarrow> stock_step db (snd (PartialSettleHolding oid txn q db))"
| consume_otc: "q < 2 ^ 62 \<Longrightarrow> stock_step db (snd (ConsumeForOTCContract c q txn db))"
| consume_peer: "q < 2 ^ 62 \<Longrightarrow> stock_step db (snd (ConsumeForPeerOptionContract c q db))"
| restore: "restorable c txn db \<Longrightarrow> stock_step db (snd (RestoreForOTCContract c txn db))"
| attach: "stock_step db (snd (AttachCrossBankReservationToContract tx c db))"
| credit: "room_for q db \<Longrightarrow> stock_step db (snd (CreditBuyerHoldingForPeerOption dv t i ticker q p db))"
| exercise: "room_for q db \<Longrightarrow> stock_step db (snd (ExerciseBuyerCreditForPeerOption dv c t i ticker q p db))"
| upsert: "hd_ReservedQuantity h = 0 \<Longrightarrow> room_for (hd_Quantity h) db \<Longrightarrow> stock_step db (snd (UpsertHolding dv ctx h db))"
| upsert_once: "hd_ReservedQuantity h = 0 \<Longrightarrow> room_for (hd_Quantity h) db \<Longrightarrow> stock_step db (snd (UpsertIdempotent dv ctx h key db))"
| upsert_fund_once: "fh_ReservedQuantity fh = 0 \<Longrightarrow> room_for (fh_Quantity fh) db \<Longrightarrow> stock_step db (snd (UpsertFundIdempotent sdv fh key db))"
| decrement: "0 < q \<Longrightarrow> (\<forall>h. GetByOwnerAndSecurity t i st sid db = Some h \<longrightarrow> free_shares q h) \<Longrightarrow>
    stock_step db (snd (DecrementForOwner t i st sid q db))"
| decrement_once: "0 < q \<Longrightarrow> (\<forall>h. GetByOwnerAndSecurity t i st sid db = Some h \<longrightarrow> free_shares q h) \<Longrightarrow>
    stock_step db (snd (DecrementForOwnerIdempotent t i st sid q key db))"
| decrement_fund_once: "0 < q \<Longrightarrow>
    (\<forall>h. find (\<lambda>x. fh_FundID x = f \<and> fh_SecurityType x = st \<and> fh_SecurityID x = sid) (fund_holdings db) = Some h \<longrightarrow>
      q \<le> fh_Quantity h - fh_ReservedQuantity h) \<Longrightarrow>
    stock_step db (snd (DecrementForFundSecurityIdempotent f st sid q key db))"

lemma room_for_marker [simp]: "room_for q (db\<lparr>credit_markers := m\<rparr>) = room_for q db"
  by (simp add: room_for_def)

lemma exercise_credit_ok:
  assumes "stock_ok db" "exercise_credit dv c t i ticker q p db = Inr (x, db')" "room_for q db"
  shows "stock_ok db'"
proof (cases "creditBuyerHoldingTx dv t i ticker q p db")
  case (Inl e)
  with assms(1,2) show ?thesis by (auto simp: exercise_credit_def split: option.splits if_splits)
next
  case (Inr db1)
  from creditBuyerHoldingTx_ok [OF assms(1) Inr assms(3)] Inr assms(1,2) show ?thesis
    by (auto simp: exercise_credit_def split: option.splits if_splits)
qed

lemma consume_otc_snd: "snd (ConsumeForOTCContract c q txn db) =
    (if q \<le> 0 then db else snd (transaction (consume_shares (OTCKey c) ''OTC reservation not found'' txn q) db))"
  by (auto simp: ConsumeForOTCContract_def split: prod.splits sum.splits)

lemma stock_step_ok: "stock_step db db' \<Longrightarrow> stock_ok db \<Longrightarrow> stock_ok db'"
proof (induction rule: stock_step.induct)
  case (reserve db t i st sid oid q)
  then show ?case unfolding ReserveHolding_def by (auto intro!: stock_transaction elim: reserve_shares_ok)
next
  case (reserve_fund db f st sid oid q)
  then show ?case unfolding ReserveFund_def by (auto intro!: stock_transaction elim: reserve_fund_shares_ok)
next
  case (reserve_otc db t i st sid c q)
  then show ?case unfolding ReserveForOTCContract_def by (auto intro!: stock_transaction elim: reserve_shares_ok)
next
  case (reserve_peer db t i st ticker c q)
  then show ?case unfolding ReserveForPeerOptionContract_def by (auto intro!: stock_transaction elim: reserve_shares_ok)
next
  case (reserve_vote db t i st ticker tx q)
  then show ?case unfolding ReserveForCrossBankNewTx_def by (auto intro!: stock_transaction elim: reserve_shares_ok)
next
  case (release db oid)
  then show ?case unfolding ReleaseHolding_def by (rule stock_transaction) (rule release_shares_ok [OF release])
next
  case (release_otc db c)
  then show ?case unfolding ReleaseForOTCContract_def
    by (rule stock_transaction) (simp add: release_contract [OF release_otc] release_shares_ok [OF release_otc])
next
  case (release_peer db c)
  then show ?case unfolding ReleaseForPeerOptionContract_def
    by (rule stock_transaction) (simp add: release_contract [OF release_peer] release_shares_ok [OF release_peer])
next
  case (release_vote db tx)
  then show ?case unfolding ReleaseForCrossBankNewTx_def
    by (rule stock_transaction) (simp add: release_contract [OF release_vote] release_shares_ok [OF release_vote])
next
  case (settle q db oid txn)
  then show ?case unfolding PartialSettleHolding_def by (auto intro!: stock_transaction elim: partial_settle_ok)
next
  case (consume_otc q db c txn)
  then show ?case unfolding consume_otc_snd by (auto intro!: stock_transaction elim: consume_shares_ok)
next
  case (consume_peer q db c)
  then show ?case unfolding ConsumeForPeerOptionContract_def by (auto intro!: stock_transaction elim: consume_shares_ok)
next
  case (restore c txn db)
  show ?case unfolding RestoreForOTCContract_def
    by (rule stock_transaction [OF restore(2)]) (rule restore_shares_ok [OF restore(2) _ restore(1)])
next
  case (attach db tx c)
  then show ?case by (rule attach_ok)
next
  case (credit q db dv t i ticker p)
  then show ?case unfolding CreditBuyerHoldingForPeerOption_def
    by (auto intro!: stock_transaction split: sum.splits elim: creditBuyerHoldingTx_ok)
next
  case (exercise q db dv c t i ticker p)
  then show ?case unfolding ExerciseBuyerCreditForPeerOption_def by (auto intro!: stock_transaction elim: exercise_credit_ok)
next
  case (upsert h db dv ctx)
  show ?case unfolding UpsertHolding_def by (rule stock_transaction [OF upsert(3)]) (rule upsert_holding_ok [OF upsert(3) _ upsert(1,2)])
next
  case (upsert_once h db dv ctx key)
  show ?case unfolding UpsertIdempotent_def
    by (rule stock_transaction [OF upsert_once(3)])
      (use upsert_once upsert_holding_ok [of "db\<lparr>credit_markers := credit_markers db @ [key]\<rparr>" dv ctx h] in \<open>auto split: if_splits\<close>)
next
  case (upsert_fund_once fh db sdv key)
  show ?case unfolding UpsertFundIdempotent_def
    by (rule stock_transaction [OF upsert_fund_once(3)])
      (use upsert_fund_once upsert_fund_holding_ok [of "db\<lparr>credit_markers := credit_markers db @ [key]\<rparr>" sdv fh] in \<open>auto split: if_splits\<close>)
next
  case (decrement q t i st sid db)
  have "stock_ok d" if "decrement_for_owner t i st sid q db = Inr (x, d)" for x d
    by (rule decrement_for_owner_ok [OF decrement(3) that decrement(1)]) (use decrement(2) in blast)
  with decrement(3) show ?case unfolding DecrementForOwner_def by (auto intro!: stock_transaction)
next
  case (decrement_once q t i st sid db key)
  have "stock_ok d" if "decrement_for_owner t i st sid q db = Inr (x, d)" for x d
    by (rule decrement_for_owner_ok [OF decrement_once(3) that decrement_once(1)]) (use decrement_once(2) in blast)
  with decrement_once(3) show ?case unfolding DecrementForOwnerIdempotent_def by (auto intro!: stock_transaction split: if_splits sum.splits)
next
  case (decrement_fund_once q f st sid db key)
  have "stock_ok d" if "DecrementForFundSecurity f st sid q db = Inr (x, d)" for x d
    by (rule DecrementForFundSecurity_ok [OF decrement_fund_once(3) that decrement_fund_once(1)]) (use decrement_fund_once(2) in blast)
  with decrement_fund_once(3) show ?case unfolding DecrementForFundSecurityIdempotent_def
    by (auto intro!: stock_transaction split: if_splits sum.splits)
qed

lemma stock_run_ok: "stock_step\<^sup>*\<^sup>* db db' \<Longrightarrow> stock_ok db \<Longrightarrow> stock_ok db'"
  by (induction rule: rtranclp_induct) (auto intro: stock_step_ok)


definition demo_holding :: holding where
  "demo_holding = \<lparr>hd_ID = 1, hd_OwnerType = ''client'', hd_OwnerID = Some 7, hd_UserFirstName = ''A'', hd_UserLastName = ''B'',
     hd_SecurityType = ''stock'', hd_SecurityID = 5, hd_ListingID = 2, hd_Ticker = ''CSCO'', hd_Name = ''Cisco'', hd_Quantity = 10,
     hd_AveragePrice = 40, hd_ReservedQuantity = 0, hd_AccountID = 3, hd_Version = 1, hd_SagaID = None, hd_SagaStep = None\<rparr>"

definition demo_stock_db :: stock_db where
  "demo_stock_db = \<lparr>holdings = [demo_holding], seq_holdings = 2, fund_holdings = [], seq_fund_holdings = 1, holding_reservations = [],
     seq_holding_reservations = 1, holding_settlements = [], seq_holding_settlements = 1, credit_markers = [], option_contracts = [],
     stock_ids = Map.empty\<rparr>"

lemma demo_stock_ok: "stock_ok demo_stock_db"
  by (simp add: stock_ok_def position_keys_ok_def reservation_keys_ok_def peer_keys_ok_def positions_ok_def locked_def demo_stock_db_def
      demo_holding_def ValidateOwner_def)

definition demo_locked_db :: stock_db where
  "demo_locked_db = snd (ReserveHolding ''client'' (Some 7) ''stock'' 5 3 4 demo_stock_db)"

lemmas stock_eval = demo_stock_db_def demo_holding_def ReserveHolding_def reserve_shares_def owned_by_def InsertReservationIfAbsent_def
  new_reservation_def BeforeCreateReservation_def conflicts_with_def transaction_def i64_def Let_def HoldingReservationStatusActive_def

lemma demo_locked: "demo_locked_db = demo_stock_db\<lparr>holdings := [demo_holding\<lparr>hd_ReservedQuantity := 4, hd_Version := 2\<rparr>],
    holding_reservations := [(new_reservation (OrderKey 3) 1 None 4)\<lparr>hr_ID := 1\<rparr>], seq_holding_reservations := 2\<rparr>"
  by (simp add: demo_locked_db_def stock_eval upd_rows_def)


section \<open>Locks can always be given back\<close>

lemma peer_keysD:
  assumes "peer_keys_ok db" "x \<in> set (holding_reservations db)" "y \<in> set (holding_reservations db)"
    "hr_PeerOptionContractID x \<noteq> None" "hr_PeerOptionContractID y = hr_PeerOptionContractID x"
  shows "y = x"
proof -
  have "inj_on hr_PeerOptionContractID (set (filter (\<lambda>r. hr_PeerOptionContractID r \<noteq> None) (holding_reservations db)))"
    using assms(1) by (simp add: peer_keys_ok_def filter_map comp_def distinct_map)
  from inj_onD [OF this, of y x] assms(2-) show ?thesis by simp
qed

lemma UpdateReservation_status:
  assumes ok: "stock_ok db" and r: "r \<in> set (holding_reservations db)" and tab: "holding_reservations db' = holding_reservations db"
  shows "UpdateReservation (r\<lparr>hr_Status := s\<rparr>) db' =
    Inr (db'\<lparr>holding_reservations := put_row hr_ID (r\<lparr>hr_Status := s, hr_Version := hr_Version r + 1\<rparr>) (holding_reservations db)\<rparr>)"
  using r peer_keysD [OF stock_okD(5) [OF ok] r] by (auto simp: UpdateReservation_def tab)

lemma save_holding_row:
  assumes ok: "stock_ok db" and h: "h \<in> set (holdings db)" and same: "hd_ID h' = hd_ID h" "hd_Version h' = hd_Version h"
      "hd_OwnerType h' = hd_OwnerType h" "hd_OwnerID h' = hd_OwnerID h" and tab: "holdings db' = holdings db"
  shows "save_holding h' db' = Inr (db'\<lparr>holdings := put_row hd_ID (h'\<lparr>hd_Version := hd_Version h + 1\<rparr>) (holdings db)\<rparr>)"
  using h holding_bounds(5) [OF ok h] same by (auto simp: save_holding_def tab)

lemma find_holding:
  assumes ok: "stock_ok db" and h: "h \<in> set (holdings db)"
  shows "find (\<lambda>x. hd_ID x = hd_ID h) (holdings db) = Some h"
  by (rule find_unique) (use h stock_okD(1) [OF ok] in \<open>auto simp: position_keys_ok_def dest: distinct_key_eq\<close>)

lemma find_fund_holding:
  assumes ok: "stock_ok db" and h: "h \<in> set (fund_holdings db)"
  shows "find (\<lambda>x. fh_ID x = fh_ID h) (fund_holdings db) = Some h"
  by (rule find_unique) (use h stock_okD(1) [OF ok] in \<open>auto simp: position_keys_ok_def dest: distinct_key_eq\<close>)

lemma release_succeeds:
  assumes ok: "stock_ok db" and r: "GetReservationForUpdate k db = Some r" "hr_Status r = HoldingReservationStatusActive"
  obtains x db' where "release_shares unlock_order k db = Inr (x, db')" "lh_ReleasedQuantity x = open_of db r"
proof -
  note g = GetReservationForUpdateD [OF ok r(1)]
  from g(3) r(2) have ex: "position_exists db (lock_pos r)" by (simp add: reservation_ok_def)
  have rem: "max 0 (i64 (hr_Quantity r - settled_of db r)) = open_of db r" using g(3) r(2) by (auto simp: reservation_ok_def open_of_def)
  have "\<exists>n db1. unlock_order r (open_of db r) db = Inr (n, db1) \<and> holding_reservations db1 = holding_reservations db"
  proof (cases "hr_FundHoldingID r")
    case None
    with ex obtain h where h: "h \<in> set (holdings db)" "hr_HoldingID r = hd_ID h" by (auto simp: position_exists_def lock_pos_def)
    with None show ?thesis using find_holding [OF ok h(1)]
      by (simp add: unlock_order_def release_holding_reserved_def Let_def save_holding_row [OF ok h(1)])
  next
    case (Some f)
    with ex obtain h where h: "h \<in> set (fund_holdings db)" "f = fh_ID h" by (auto simp: position_exists_def lock_pos_def)
    with Some show ?thesis using find_fund_holding [OF ok h(1)]
      by (auto simp: unlock_order_def releaseFundHoldingReserved_def save_fund_holding_def Let_def)
  qed
  then obtain n db1 where u: "unlock_order r (open_of db r) db = Inr (n, db1)" "holding_reservations db1 = holding_reservations db" by blast
  from UpdateReservation_status [OF ok g(1) u(2)] u r rem show thesis
    by (intro that) (auto simp: release_shares_def Let_def)
qed

end
