(* ===== verification/Holding_Behaviour.thy ===== *)
theory Holding_Behaviour
  imports Holding_System
begin

text \<open>
  What the operations on shares promise together: a lock that is given back, a repeated request for a lock, the two halves of
  an option exercise with their compensations, and a credit that is taken back from locked shares.
\<close>

section \<open>Rows by owner and security\<close>

lemma holding_unique:
  assumes ok: "stock_ok db" and h: "h \<in> set (holdings db)" "h' \<in> set (holdings db)"
    and same: "hd_OwnerType h' = hd_OwnerType h" "hd_OwnerID h' = hd_OwnerID h" "hd_SecurityType h' = hd_SecurityType h" "hd_SecurityID h' = hd_SecurityID h"
  shows "h' = h"
  by (rule distinct_key_eq [of holding_key "holdings db"]) (use stock_okD(1) [OF ok] h same in \<open>simp_all add: position_keys_ok_def holding_key_def\<close>)

lemma GetByOwnerAndSecurity_row:
  assumes "stock_ok db" "h \<in> set (holdings db)"
  shows "GetByOwnerAndSecurity (hd_OwnerType h) (hd_OwnerID h) (hd_SecurityType h) (hd_SecurityID h) db = Some h"
  unfolding GetByOwnerAndSecurity_def
  by (rule find_unique) (use assms holding_unique in \<open>auto simp: owned_by_def\<close>)

section \<open>Locks and replays\<close>

text \<open>The state after a first reservation for an order.\<close>

lemma ReserveHolding_first:
  assumes ok: "stock_ok db" and new: "GetReservationForUpdate (OrderKey oid) db = None"
    and run: "ReserveHolding t i st sid oid q db = (Inr x, db1)"
  obtains h r where "0 < q" "GetByOwnerAndSecurity t i st sid db = Some h" "q \<le> hd_Quantity h - hd_ReservedQuantity h"
    "r = (new_reservation (OrderKey oid) (hd_ID h) None q)\<lparr>hr_ID := seq_holding_reservations db\<rparr>"
    "db1 = db\<lparr>holdings := put_row hd_ID (h\<lparr>hd_ReservedQuantity := hd_ReservedQuantity h + q, hd_Version := hd_Version h + 1\<rparr>) (holdings db),
      holding_reservations := holding_reservations db @ [r], seq_holding_reservations := Suc (seq_holding_reservations db)\<rparr>"
    "x = \<lparr>rh_ReservationID = hr_ID r, rh_ReservedQuantity = hd_ReservedQuantity h + q,
          rh_AvailableQuantity = hd_Quantity h - hd_ReservedQuantity h - q\<rparr>"
    "stock_ok db1" "GetReservationForUpdate (OrderKey oid) db1 = Some r" "open_of db1 r = q"
proof -
  let ?p = "\<lambda>h. hd_SecurityType h = st \<and> hd_SecurityID h = sid \<and> owned_by t i h"
  from run have q: "0 < q" by (simp add: ReserveHolding_def split: if_splits)
  with run have body: "reserve_shares ?p (OrderKey oid) q db = Inr (x, db1)"
    by (auto simp: ReserveHolding_def transaction_def split: if_splits sum.splits)
  from ok body q show thesis
  proof (cases rule: reserve_sharesE)
    case (lock h r)
    have g: "GetByOwnerAndSecurity t i st sid db = Some h"
      using GetByOwnerAndSecurity_row [OF ok lock(3)] lock(4) by (auto simp: owned_by_def)
    then have f: "find ?p (holdings db) = Some h" by (simp add: GetByOwnerAndSecurity_def)
    note b = holding_bounds [OF ok lock(3)]
    have n: "i64 (hd_Quantity h - hd_ReservedQuantity h) = hd_Quantity h - hd_ReservedQuantity h"
      "i64 (hd_ReservedQuantity h + q) = hd_ReservedQuantity h + q"
      "i64 (hd_Quantity h - (hd_ReservedQuantity h + q)) = hd_Quantity h - hd_ReservedQuantity h - q" using b lock(5) q by auto
    have "InsertReservationIfAbsent (new_reservation (OrderKey oid) (hd_ID h) None q) db =
        Inr ((True, r), db\<lparr>holding_reservations := holding_reservations db @ [r], seq_holding_reservations := Suc (seq_holding_reservations db)\<rparr>)"
      using new by (simp add: InsertReservationIfAbsent_def conflicts_new GetReservationForUpdate_def lock(6) Let_def)
    with body f n lock(3,5) have x: "x = \<lparr>rh_ReservationID = hr_ID r, rh_ReservedQuantity = hd_ReservedQuantity h + q,
          rh_AvailableQuantity = hd_Quantity h - hd_ReservedQuantity h - q\<rparr>"
      by (auto simp: reserve_shares_def split: if_splits)
    have r: "GetReservationForUpdate (OrderKey oid) db1 = Some r"
      using new by (simp add: GetReservationForUpdate_def lock(6,7)) (simp add: new_reservation_def)
    have "open_of db1 r = q"
      using settled_none [OF stock_okD(4) [OF ok], of "hr_ID r"] by (simp add: open_of_def lock(6,7) SumHoldingSettlements_def)
    from that [OF q g lock(5-7) x reserve_shares_ok [OF ok body q] r this] show thesis .
  qed (simp add: new)
qed

text \<open>
  C38: a lock that is given back leaves no trace. After a first reservation for an order the release returns exactly the
  reserved quantity, every holding has its old quantities, and a second release does nothing.
\<close>

theorem share_lock_roundtrip:
  assumes ok: "stock_ok db" and new: "GetReservationForUpdate (OrderKey oid) db = None"
    and run: "ReserveHolding t i st sid oid q db = (Inr x, db1)"
  shows "\<exists>y db2. ReleaseHolding oid db1 = (Inr y, db2) \<and> lh_ReleasedQuantity y = q \<and>
    map (\<lambda>h. h\<lparr>hd_Version := 0\<rparr>) (holdings db2) = map (\<lambda>h. h\<lparr>hd_Version := 0\<rparr>) (holdings db) \<and>
    fund_holdings db2 = fund_holdings db \<and> ReleaseHolding oid db2 = (Inr nothing_released, db2)"
  using assms
proof (cases rule: ReserveHolding_first)
  case (1 h r)
  have act: "hr_Status r = HoldingReservationStatusActive" by (simp add: 1(4))
  obtain y db2 where rel: "release_shares unlock_order (OrderKey oid) db1 = Inr (y, db2)" "lh_ReleasedQuantity y = q"
    using release_succeeds [OF 1(7,8) act] 1(9) by metis
  let ?h = "h\<lparr>hd_ReservedQuantity := hd_ReservedQuantity h + q, hd_Version := hd_Version h + 1\<rparr>"
  have h: "h \<in> set (holdings db)" using GetByOwnerAndSecurityD(1) [OF 1(2)] .
  have d: "distinct (map hd_ID (holdings db))" using stock_okD(1) [OF ok] by (simp add: position_keys_ok_def)
  from 1(7) rel(1) show ?thesis
  proof (cases rule: release_sharesE)
    case nothing
    with rel(2) 1(1) show ?thesis by (simp add: nothing_released_def)
  next
    case (holding r' h')
    with 1(8) have r': "r' = r" by simp
    have "h' = ?h" using holding(4,5) h by (auto simp: r' 1(4,5) dest!: in_put_rowD)
    then have "holdings db2 = put_row hd_ID (h\<lparr>hd_Version := hd_Version h + 1 + 1\<rparr>) (holdings db)"
      using 1(9) by (simp add: holding(7) r' put_row_again) (simp add: 1(5) put_row_again)
    then have "map (\<lambda>h. h\<lparr>hd_Version := 0\<rparr>) (holdings db2) = map (\<lambda>h. h\<lparr>hd_Version := 0\<rparr>) (holdings db)"
      using d h by (simp only:) (rule map_other_put_row, auto dest: distinct_key_eq)
    moreover have "hr_ID r \<notin> hr_ID ` set (holding_reservations db)" using stock_okD(4) [OF ok] by (auto simp: 1(4) reservation_keys_ok_def)
    then have "holding_reservations db2 = holding_reservations db @
        [r\<lparr>hr_Status := HoldingReservationStatusReleased, hr_Version := hr_Version r + 1\<rparr>]"
      by (simp add: holding(7) r' 1(5) put_row_append put_row_absent)
    with new have "release_shares unlock_order (OrderKey oid) db2 = Inr (nothing_released, db2)"
      by (simp add: release_shares_def GetReservationForUpdate_def) (simp add: 1(4) new_reservation_def reservation_statuses)
    ultimately show ?thesis using rel holding(7) by (simp add: ReleaseHolding_def 1(5))
  next
    case (fund r' h')
    with 1(8) show ?thesis by (simp add: 1(4))
  qed
qed

lemma demo_locked_roundtrip: "\<exists>x. ReserveHolding ''client'' (Some 7) ''stock'' 5 3 4 demo_stock_db = (Inr x, demo_locked_db)"
  by (simp add: demo_locked_db_def stock_eval)

theorem share_lock_roundtrip_witness:
  "\<exists>y db2. ReleaseHolding 3 demo_locked_db = (Inr y, db2) \<and> lh_ReleasedQuantity y = 4 \<and> map hd_ReservedQuantity (holdings db2) = [0]"
proof -
  obtain x where run: "ReserveHolding ''client'' (Some 7) ''stock'' 5 3 4 demo_stock_db = (Inr x, demo_locked_db)" using demo_locked_roundtrip by blast
  have "GetReservationForUpdate (OrderKey 3) demo_stock_db = None" by (simp add: GetReservationForUpdate_def demo_stock_db_def)
  from share_lock_roundtrip [OF demo_stock_ok this run] obtain y db2 where rel: "ReleaseHolding 3 demo_locked_db = (Inr y, db2)" "lh_ReleasedQuantity y = 4"
    and same: "map (\<lambda>h. h\<lparr>hd_Version := 0\<rparr>) (holdings db2) = map (\<lambda>h. h\<lparr>hd_Version := 0\<rparr>) (holdings demo_stock_db)" by blast
  from arg_cong [OF same, of "map hd_ReservedQuantity"] have "map hd_ReservedQuantity (holdings db2) = [0]"
    by (simp add: comp_def demo_stock_db_def demo_holding_def)
  with rel show ?thesis by auto
qed

text \<open>
  C39: a repeated request for a lock. The second of two equal reservations for an order changes nothing; it is answered like the
  first one as long as as many shares are still free, and refused for lack of free shares otherwise, although the order
  has its lock.
\<close>

theorem repeated_share_reserve:
  assumes ok: "stock_ok db" and new: "GetReservationForUpdate (OrderKey oid) db = None"
    and run: "ReserveHolding t i st sid oid q db = (Inr x, db1)"
  shows "ReserveHolding t i st sid oid q db1 =
    (if rh_AvailableQuantity x < q then (Inl (Status FailedPrecondition ''insufficient available quantity''), db1) else (Inr x, db1))"
  using assms
proof (cases rule: ReserveHolding_first)
  case (1 h r)
  let ?p = "\<lambda>h. hd_SecurityType h = st \<and> hd_SecurityID h = sid \<and> owned_by t i h"
  let ?h = "h\<lparr>hd_ReservedQuantity := hd_ReservedQuantity h + q, hd_Version := hd_Version h + 1\<rparr>"
  note g = GetByOwnerAndSecurityD [OF 1(2)]
  note b = holding_bounds [OF ok g(1)]
  have d: "distinct (map hd_ID (holdings db))" using stock_okD(1) [OF ok] by (simp add: position_keys_ok_def)
  have "find ?p (put_row hd_ID ?h (holdings db)) = Some ?h"
    by (rule find_put_row_same [of _ _ h]) (use 1(2) g d in \<open>auto simp: GetByOwnerAndSecurity_def owned_by_def dest: distinct_key_eq [OF d _ g(1)]\<close>)
  then have f: "find ?p (holdings db1) = Some ?h" by (simp add: 1(5))
  have n: "i64 (hd_Quantity ?h - hd_ReservedQuantity ?h) = hd_Quantity h - hd_ReservedQuantity h - q" using b 1(1,3) by auto
  have "InsertReservationIfAbsent (new_reservation (OrderKey oid) (hd_ID h) None q) db1 = Inr ((False, r), db1)"
    using 1(8) by (simp add: InsertReservationIfAbsent_def conflicts_new GetReservationForUpdate_def)
  with f n 1(1) show ?thesis by (simp add: ReserveHolding_def transaction_def reserve_shares_def 1(6))
qed

theorem repeated_share_reserve_witness:
  "\<exists>x db1. ReserveHolding ''client'' (Some 7) ''stock'' 5 3 8 demo_stock_db = (Inr x, db1) \<and>
     ReserveHolding ''client'' (Some 7) ''stock'' 5 3 8 db1 = (Inl (Status FailedPrecondition ''insufficient available quantity''), db1)"
proof -
  obtain x db1 where run: "ReserveHolding ''client'' (Some 7) ''stock'' 5 3 8 demo_stock_db = (Inr x, db1)" and x: "rh_AvailableQuantity x = 2"
    by (simp add: stock_eval)
  have "GetReservationForUpdate (OrderKey 3) demo_stock_db = None" by (simp add: GetReservationForUpdate_def demo_stock_db_def)
  from repeated_share_reserve [OF demo_stock_ok this run] x run show ?thesis by auto
qed

section \<open>A credit taken back from locked shares\<close>

text \<open>
  C40: taking a credit back can strand a lock. If the buyer's holding consists of the credited shares and some of them have been
  locked for an order meanwhile, the compensation removes the row without a look at the lock, and the release of
  the order fails from then on with a missing record.
\<close>

theorem credit_reversal_strands:
  assumes ok: "stock_ok db" and h: "GetByOwnerAndSecurity t i st sid db = Some h"
    and r: "GetReservationForUpdate (OrderKey oid) db = Some r" "hr_Status r = HoldingReservationStatusActive" "lock_pos r = Inl (hd_ID h)"
    and q: "hd_Quantity h \<le> q" "q < 2 ^ 62" and key: "key \<in> set (credit_markers db)"
    and run: "DecrementForOwnerIdempotent t i st sid q key db = (res, db')"
  shows "res = Inr () \<and> hd_ID h \<notin> hd_ID ` set (holdings db') \<and> ReleaseHolding oid db' = (Inl ErrRecordNotFound, db')"
proof -
  note g = GetByOwnerAndSecurityD [OF h]
  note b = holding_bounds [OF ok g(1)]
  have "i64 (hd_Quantity h - q) = hd_Quantity h - q" using b q by auto
  with run key h q(1) have db': "res = Inr ()" "db' = db\<lparr>holdings := filter (\<lambda>x. hd_ID x \<noteq> hd_ID h) (holdings db),
      credit_markers := filter (\<lambda>k. k \<noteq> key) (credit_markers db)\<rparr>"
    by (auto simp: DecrementForOwnerIdempotent_def decrement_for_owner_def transaction_def Let_def)
  have fund: "hr_FundHoldingID r = None" "hr_HoldingID r = hd_ID h" using r(3) by (auto simp: lock_pos_def split: option.splits)
  have "find (\<lambda>x. hd_ID x = hd_ID h) (holdings db') = None" by (auto simp: find_None_iff db'(2))
  moreover have "GetReservationForUpdate (OrderKey oid) db' = Some r" using r(1) by (simp add: GetReservationForUpdate_def db'(2))
  ultimately have "release_shares unlock_order (OrderKey oid) db' = Inl ErrRecordNotFound"
    using r(2) fund by (simp add: release_shares_def unlock_order_def release_holding_reserved_def Let_def)
  with db' show ?thesis by (auto simp: ReleaseHolding_def)
qed

theorem credit_reversal_strands_witness:
  "ReleaseHolding 3 (snd (DecrementForOwnerIdempotent ''client'' (Some 7) ''stock'' 5 10 ''k'' (demo_locked_db\<lparr>credit_markers := [''k'']\<rparr>))) =
     (Inl ErrRecordNotFound, snd (DecrementForOwnerIdempotent ''client'' (Some 7) ''stock'' 5 10 ''k'' (demo_locked_db\<lparr>credit_markers := [''k'']\<rparr>)))"
proof -
  let ?db = "demo_locked_db\<lparr>credit_markers := [''k'']\<rparr>"
  have "stock_step demo_stock_db demo_locked_db" unfolding demo_locked_db_def by (rule stock_step.reserve)
  from stock_step_ok [OF this demo_stock_ok] have ok: "stock_ok ?db" by simp
  obtain res db' where run: "DecrementForOwnerIdempotent ''client'' (Some 7) ''stock'' 5 10 ''k'' ?db = (res, db')" by (rule prod.exhaust)
  have "GetByOwnerAndSecurity ''client'' (Some 7) ''stock'' 5 ?db = Some (demo_holding\<lparr>hd_ReservedQuantity := 4, hd_Version := 2\<rparr>)"
    by (simp add: GetByOwnerAndSecurity_def demo_locked owned_by_def demo_holding_def)
  moreover have "GetReservationForUpdate (OrderKey 3) ?db = Some ((new_reservation (OrderKey 3) 1 None 4)\<lparr>hr_ID := 1\<rparr>)"
    by (simp add: GetReservationForUpdate_def demo_locked new_reservation_def)
  ultimately show ?thesis
    using credit_reversal_strands [OF ok _ _ _ _ _ _ _ run, of "demo_holding\<lparr>hd_ReservedQuantity := 4, hd_Version := 2\<rparr>" 3] run
    by (simp add: demo_holding_def)
qed

section \<open>The share side of an option exercise, and its compensation\<close>

text \<open>What an owner has of a security, and how much of it is locked.\<close>

definition shares :: "stock_db \<Rightarrow> string \<times> nat option \<times> string \<times> nat \<Rightarrow> int \<times> int" where
  "shares db = (\<lambda>(t, i, st, sid). case GetByOwnerAndSecurity t i st sid db of None \<Rightarrow> (0, 0) | Some h \<Rightarrow> (hd_Quantity h, hd_ReservedQuantity h))"

definition owner_key :: "holding \<Rightarrow> string \<times> nat option \<times> string \<times> nat" where
  "owner_key h = (hd_OwnerType h, hd_OwnerID h, hd_SecurityType h, hd_SecurityID h)"

lemma shares_cong: "holdings db' = holdings db \<Longrightarrow> shares db' = shares db"
  by (simp add: shares_def GetByOwnerAndSecurity_def)

lemma shares_find:
  "shares db k = (case find (\<lambda>h. owner_key h = k) (holdings db) of None \<Rightarrow> (0, 0) | Some h \<Rightarrow> (hd_Quantity h, hd_ReservedQuantity h))"
proof -
  have "(\<lambda>h. hd_SecurityType h = st \<and> hd_SecurityID h = sid \<and> owned_by t i h) = (\<lambda>h. owner_key h = (t, i, st, sid))" for t i st sid
    by (auto simp: owner_key_def owned_by_def fun_eq_iff)
  then show ?thesis by (cases k) (simp add: shares_def GetByOwnerAndSecurity_def)
qed

lemma find_owner_key:
  assumes "stock_ok db" "h \<in> set (holdings db)"
  shows "find (\<lambda>x. owner_key x = owner_key h) (holdings db) = Some h"
  by (rule find_unique) (use assms holding_unique [OF assms] in \<open>auto simp: owner_key_def\<close>)

lemma shares_row: "stock_ok db \<Longrightarrow> h \<in> set (holdings db) \<Longrightarrow> shares db (owner_key h) = (hd_Quantity h, hd_ReservedQuantity h)"
  by (simp add: shares_find find_owner_key)

lemma shares_put:
  assumes ok: "stock_ok db" and h: "h \<in> set (holdings db)" "hd_ID h' = hd_ID h" "owner_key h' = owner_key h"
    and put: "holdings db' = put_row hd_ID h' (holdings db)"
  shows "shares db' = (shares db)(owner_key h := (hd_Quantity h', hd_ReservedQuantity h'))"
proof
  fix k
  have d: "distinct (map hd_ID (holdings db))" using stock_okD(1) [OF ok] by (simp add: position_keys_ok_def)
  have one: "y = h" if "y \<in> set (holdings db)" "hd_ID y = hd_ID h'" for y using distinct_key_eq [OF d that(1) h(1)] that(2) h(2) by simp
  show "shares db' k = ((shares db)(owner_key h := (hd_Quantity h', hd_ReservedQuantity h'))) k"
  proof (cases "k = owner_key h")
    case True
    have "find (\<lambda>x. owner_key x = k) (put_row hd_ID h' (holdings db)) = Some h'"
    proof (rule find_put_row_same [OF find_owner_key [OF ok h(1), folded True] h(2)])
      show "owner_key y = k" if "y \<in> set (holdings db)" "hd_ID y = hd_ID h'" for y using one [OF that] True by simp
    qed (simp add: h(3) True)
    with True show ?thesis by (simp add: shares_find put)
  next
    case False
    have "find (\<lambda>x. owner_key x = k) (put_row hd_ID h' (holdings db)) = find (\<lambda>x. owner_key x = k) (holdings db)"
    proof (rule find_put_row_other)
      show "owner_key y \<noteq> k" if "y \<in> set (holdings db)" "hd_ID y = hd_ID h'" for y using one [OF that] False by simp
    qed (use False h(3) in simp)
    with False show ?thesis by (simp add: shares_find put)
  qed
qed

lemma shares_remove:
  assumes ok: "stock_ok db" and h: "h \<in> set (holdings db)" and rm: "holdings db' = filter (\<lambda>x. hd_ID x \<noteq> hd_ID h) (holdings db)"
  shows "shares db' = (shares db)(owner_key h := (0, 0))"
proof
  fix k
  have f: "find p (filter r xs) = find (\<lambda>x. r x \<and> p x) xs" for p r and xs :: "holding list" by (induction xs) auto
  show "shares db' k = ((shares db)(owner_key h := (0, 0))) k"
  proof (cases "k = owner_key h")
    case True
    have "find (\<lambda>x. hd_ID x \<noteq> hd_ID h \<and> owner_key x = k) (holdings db) = None"
      using holding_unique [OF ok h] by (auto simp: find_None_iff True owner_key_def)
    with True show ?thesis by (simp add: shares_find rm f)
  next
    case False
    have "y = h" if "y \<in> set (holdings db)" "hd_ID y = hd_ID h" for y
      using that h stock_okD(1) [OF ok] by (auto simp: position_keys_ok_def dest: distinct_key_eq)
    with False have "find (\<lambda>x. hd_ID x \<noteq> hd_ID h \<and> owner_key x = k) (holdings db) = find (\<lambda>x. owner_key x = k) (holdings db)"
      by (intro find_cong) auto
    with False show ?thesis by (simp add: shares_find rm f)
  qed
qed

text \<open>A credit adds to what the owner has, a reversal takes it away again.\<close>

lemma upsert_shares:
  assumes ok: "stock_ok db" and run: "upsert_holding dv ctx h db = Inr (x, db')" and h: "hd_ReservedQuantity h = 0" and room: "room_for (hd_Quantity h) db"
  shows "shares db' = (shares db)(owner_key h := (fst (shares db (owner_key h)) + hd_Quantity h, snd (shares db (owner_key h))))"
    "holding_reservations db' = holding_reservations db" "holding_settlements db' = holding_settlements db" "credit_markers db' = credit_markers db"
proof -
  have "shares db' = (shares db)(owner_key h := (fst (shares db (owner_key h)) + hd_Quantity h, snd (shares db (owner_key h)))) \<and>
    holding_reservations db' = holding_reservations db \<and> holding_settlements db' = holding_settlements db \<and> credit_markers db' = credit_markers db"
  proof (cases "GetByOwnerAndSecurity (hd_OwnerType h) (hd_OwnerID h) (hd_SecurityType h) (hd_SecurityID h) db")
    case None
    let ?h = "(stampHoldingSaga ctx h)\<lparr>hd_ID := seq_holdings db, hd_Version := 1\<rparr>"
    from None run have db': "db' = db\<lparr>holdings := holdings db @ [?h], seq_holdings := Suc (seq_holdings db)\<rparr>"
      by (auto simp: upsert_holding_def create_holding_def split: sum.splits if_splits)
    have k: "owner_key ?h = owner_key h" by (simp add: owner_key_def)
    have z: "shares db (owner_key h) = (0, 0)" using None by (simp add: shares_def owner_key_def)
    then have "find (\<lambda>x. owner_key x = owner_key h) (holdings db) = None"
      using None by (auto simp: GetByOwnerAndSecurity_def find_None_iff owner_key_def owned_by_def)
    with k h have "shares db' = (shares db)(owner_key h := (hd_Quantity h, 0))" by (auto simp: fun_eq_iff shares_find db' split: option.split)
    with z db' show ?thesis by simp
  next
    case (Some e)
    note e = GetByOwnerAndSecurityD [OF Some]
    note b = holding_bounds [OF ok e(1)]
    from Some run have sv: "save_holding (stampHoldingSaga ctx (merged_holding dv h e)) db = Inr db'" by (auto simp: upsert_holding_def split: sum.splits)
    have k: "owner_key h = owner_key e" using e by (simp add: owner_key_def)
    have q: "i64 (hd_Quantity e + hd_Quantity h) = hd_Quantity e + hd_Quantity h" using room e(1) b by (auto simp: room_for_def)
    have "shares db' = (shares db)(owner_key e := (hd_Quantity e + hd_Quantity h, hd_ReservedQuantity e))"
      by (subst shares_put [OF ok e(1) _ _ arg_cong [OF save_holdingD [OF sv], of holdings, simplified]])
        (simp_all add: merged_holding_def Let_def owner_key_def q)
    with save_holdingD [OF sv] shares_row [OF ok e(1)] k show ?thesis by simp
  qed
  then show "shares db' = (shares db)(owner_key h := (fst (shares db (owner_key h)) + hd_Quantity h, snd (shares db (owner_key h))))"
    "holding_reservations db' = holding_reservations db" "holding_settlements db' = holding_settlements db" "credit_markers db' = credit_markers db" by auto
qed

lemma decrement_shares:
  assumes ok: "stock_ok db" and run: "decrement_for_owner t i st sid q db = Inr (x, db')" and q: "0 < q" "q \<le> n - m"
    and has: "shares db (t, i, st, sid) = (n, m)"
  shows "shares db' = (shares db)((t, i, st, sid) := (n - q, m))"
    "holding_reservations db' = holding_reservations db" "holding_settlements db' = holding_settlements db" "credit_markers db' = credit_markers db"
proof -
  obtain h where h: "GetByOwnerAndSecurity t i st sid db = Some h" "hd_Quantity h = n" "hd_ReservedQuantity h = m"
    using has q by (auto simp: shares_def split: option.splits)
  note e = GetByOwnerAndSecurityD [OF h(1)]
  note b = holding_bounds [OF ok e(1)]
  have k: "(t, i, st, sid) = owner_key h" using e by (simp add: owner_key_def)
  have nn: "i64 (hd_Quantity h - q) = n - q" using b h q by auto
  have "shares db' = (shares db)(owner_key h := (n - q, m)) \<and>
    holding_reservations db' = holding_reservations db \<and> holding_settlements db' = holding_settlements db \<and> credit_markers db' = credit_markers db"
  proof (cases "n - q \<le> 0")
    case True
    with run h nn have db': "db' = db\<lparr>holdings := filter (\<lambda>x. hd_ID x \<noteq> hd_ID h) (holdings db)\<rparr>" by (simp add: decrement_for_owner_def Let_def)
    have "n - q = 0" "m = 0" using True b h q by auto
    with shares_remove [OF ok e(1), of db'] db' show ?thesis by simp
  next
    case False
    with run h nn have sv: "save_holding (h\<lparr>hd_Quantity := n - q\<rparr>) db = Inr db'" by (auto simp: decrement_for_owner_def Let_def split: sum.splits)
    have "shares db' = (shares db)(owner_key h := (n - q, m))"
      by (subst shares_put [OF ok e(1) _ _ arg_cong [OF save_holdingD [OF sv], of holdings, simplified]]) (simp_all add: owner_key_def h)
    with save_holdingD [OF sv] show ?thesis by simp
  qed
  then show "shares db' = (shares db)((t, i, st, sid) := (n - q, m))"
    "holding_reservations db' = holding_reservations db" "holding_settlements db' = holding_settlements db" "credit_markers db' = credit_markers db"
    using k by auto
qed

text \<open>Neither touches the rows of anybody else.\<close>

lemma other_row_stays:
  assumes "stock_ok db" "e \<in> set (holdings db)" "y \<in> set (holdings db)" "owner_key y \<noteq> owner_key e"
  shows "hd_ID y \<noteq> hd_ID e"
  using assms stock_okD(1) [OF assms(1)] by (auto simp: position_keys_ok_def dest: distinct_key_eq)

lemma upsert_keeps:
  assumes ok: "stock_ok db" and run: "upsert_holding dv ctx h db = Inr (x, db')" and y: "y \<in> set (holdings db)" "owner_key y \<noteq> owner_key h"
  shows "y \<in> set (holdings db')"
proof (cases "GetByOwnerAndSecurity (hd_OwnerType h) (hd_OwnerID h) (hd_SecurityType h) (hd_SecurityID h) db")
  case None
  with run y show ?thesis by (auto simp: upsert_holding_def create_holding_def split: sum.splits if_splits)
next
  case (Some e)
  note e = GetByOwnerAndSecurityD [OF Some]
  from Some run have sv: "save_holding (stampHoldingSaga ctx (merged_holding dv h e)) db = Inr db'" by (auto simp: upsert_holding_def split: sum.splits)
  have "hd_ID y \<noteq> hd_ID e" by (rule other_row_stays [OF ok e(1) y(1)]) (use y(2) e in \<open>simp add: owner_key_def\<close>)
  with y(1) show ?thesis unfolding save_holdingD [OF sv] by (auto simp: merged_holding_def Let_def intro: in_put_row_other)
qed

lemma decrement_runs:
  assumes ok: "stock_ok db" and q: "0 < q" "q < 2 ^ 62"
  obtains db' where "decrement_for_owner t i st sid q db = Inr ((), db')"
    "\<And>y. y \<in> set (holdings db) \<Longrightarrow> owner_key y \<noteq> (t, i, st, sid) \<Longrightarrow> y \<in> set (holdings db')"
proof (cases "GetByOwnerAndSecurity t i st sid db")
  case None
  then show thesis by (intro that [of db]) (simp_all add: decrement_for_owner_def)
next
  case (Some h)
  note e = GetByOwnerAndSecurityD [OF Some]
  have o: "hd_ID y \<noteq> hd_ID h" if "y \<in> set (holdings db)" "owner_key y \<noteq> (t, i, st, sid)" for y
    by (rule other_row_stays [OF ok e(1) that(1)]) (use that(2) e in \<open>simp add: owner_key_def\<close>)
  show thesis
  proof (cases "i64 (hd_Quantity h - q) \<le> 0")
    case True
    with Some o show thesis
      by (intro that [of "db\<lparr>holdings := filter (\<lambda>x. hd_ID x \<noteq> hd_ID h) (holdings db)\<rparr>"]) (auto simp: decrement_for_owner_def Let_def)
  next
    case False
    let ?h = "h\<lparr>hd_Quantity := i64 (hd_Quantity h - q)\<rparr>"
    from False Some o show thesis
      by (intro that [of "db\<lparr>holdings := put_row hd_ID (?h\<lparr>hd_Version := hd_Version h + 1\<rparr>) (holdings db)\<rparr>"])
        (auto simp: decrement_for_owner_def Let_def save_holding_row [OF ok e(1)] intro: in_put_row_other)
  qed
qed

text \<open>The first consumption under a number, and what it leaves.\<close>

lemma ConsumeForOTCContract_first:
  assumes ok: "stock_ok db" and q: "q < 2 ^ 62" and fresh: "\<forall>t \<in> set (holding_settlements db). hs_OrderTransactionID t \<noteq> txn"
    and run: "ConsumeForOTCContract c q txn db = (Inr x, db1)"
  obtains r h where "0 < q" "GetReservationForUpdate (OTCKey c) db = Some r" "hr_Status r = HoldingReservationStatusActive"
    "settled_of db r + q \<le> hr_Quantity r" "h \<in> set (holdings db)" "hd_ID h = hr_HoldingID r" "q \<le> hd_ReservedQuantity h"
    "db1 = db\<lparr>holding_settlements := holding_settlements db @ [\<lparr>hs_ID = seq_holding_settlements db, hs_HoldingReservationID = hr_ID r,
        hs_OrderTransactionID = txn, hs_Quantity = q\<rparr>], seq_holding_settlements := Suc (seq_holding_settlements db),
      holdings := put_row hd_ID (h\<lparr>hd_ReservedQuantity := hd_ReservedQuantity h - q, hd_Quantity := hd_Quantity h - q,
        hd_Version := hd_Version h + 1\<rparr>) (holdings db),
      holding_reservations := put_row hr_ID (settled_reservation (settled_of db r + q) r) (holding_reservations db)\<rparr>" "stock_ok db1"
proof -
  from run have pos: "0 < q" by (simp add: ConsumeForOTCContract_def split: if_splits)
  with run obtain x' where body: "consume_shares (OTCKey c) ''OTC reservation not found'' txn q db = Inr (x', db1)"
    by (auto simp: ConsumeForOTCContract_def transaction_def split: sum.splits prod.splits)
  from body obtain r where r: "GetReservationForUpdate (OTCKey c) db = Some r" "hr_Status r = HoldingReservationStatusActive"
    by (auto simp: consume_shares_def split: option.splits if_splits)
  note g = GetReservationForUpdateD [OF ok r(1)]
  note w = no_wrap [OF g(3) pos q]
  obtain d where cs: "create_settlement (hr_ID r) txn q db = (True, d)" "d = db\<lparr>holding_settlements := holding_settlements db @
      [\<lparr>hs_ID = seq_holding_settlements db, hs_HoldingReservationID = hr_ID r, hs_OrderTransactionID = txn, hs_Quantity = q\<rparr>],
      seq_holding_settlements := Suc (seq_holding_settlements db)\<rparr>"
    using fresh by (simp add: create_settlement_def)
  from body r cs(1) w obtain y db2 where m: "settled_of db r + q \<le> hr_Quantity r" "draw_holding (hr_HoldingID r) False q d = Inr (y, db2)"
    "close_if_full (settled_of db r + q) r db2 = Inr db1"
    by (auto simp: consume_shares_def Let_def not_less split: option.splits if_splits sum.splits prod.splits)
  have fund: "hr_FundHoldingID r = None" using g(4) by simp
  have "stock_ok db1" by (rule consume_shares_ok [OF ok body pos q]) simp
  moreover obtain h where "h \<in> set (holdings db)" "hd_ID h = hr_HoldingID r" "q \<le> hd_ReservedQuantity h"
    "db1 = d\<lparr>holdings := put_row hd_ID (h\<lparr>hd_ReservedQuantity := hd_ReservedQuantity h - q, hd_Quantity := hd_Quantity h - q,
        hd_Version := hd_Version h + 1\<rparr>) (holdings db),
      holding_reservations := put_row hr_ID (settled_reservation (settled_of db r + q) r) (holding_reservations db)\<rparr>"
    using settle_holdingE [OF ok g(1) r(2) fund pos m(1) cs(1) m(2,3)] .
  ultimately show thesis by (intro that [OF pos r m(1)]) (simp_all add: cs(2))
qed

text \<open>The restore of a consumption whose reservation and holding are still there.\<close>

lemma restore_runs:
  assumes ok: "stock_ok db" and t: "find (\<lambda>t. hs_OrderTransactionID t = txn) (holding_settlements db) = Some t"
    and r: "GetReservationForUpdate (OTCKey c) db = Some r" and h: "h \<in> set (holdings db)" "hd_ID h = hr_HoldingID r"
    and room: "hd_Quantity h + hs_Quantity t < 2 ^ 62"
  shows "restore_shares c txn db = Inr ((), db\<lparr>holdings := put_row hd_ID (h\<lparr>hd_Quantity := hd_Quantity h + hs_Quantity t,
        hd_ReservedQuantity := hd_ReservedQuantity h + hs_Quantity t, hd_Version := hd_Version h + 1\<rparr>) (holdings db),
      holding_settlements := filter (\<lambda>x. hs_ID x \<noteq> hs_ID t) (holding_settlements db),
      holding_reservations := put_row hr_ID (reopened_reservation r) (holding_reservations db)\<rparr>)"
proof -
  note g = GetReservationForUpdateD [OF ok r] and b = holding_bounds [OF ok h(1)] and keys = stock_okD(4) [OF ok]
  have tpos: "0 < hs_Quantity t" using keys find_in_set [OF t] by (auto simp: reservation_keys_ok_def)
  have nums: "i64 (hd_Quantity h + hs_Quantity t) = hd_Quantity h + hs_Quantity t"
    "i64 (hd_ReservedQuantity h + hs_Quantity t) = hd_ReservedQuantity h + hs_Quantity t" using b room tpos by auto
  have f: "find (\<lambda>x. hd_ID x = hr_HoldingID r) (holdings db) = Some h" using find_holding [OF ok h(1)] h(2) by simp
  have self: "put_row hr_ID r (holding_reservations db) = holding_reservations db"
    using keys g(1) by (intro put_row_self) (simp_all add: reservation_keys_ok_def)
  show ?thesis
    by (simp add: restore_shares_def t r f nums save_holding_row [OF ok h(1)] UpdateReservation_status [OF ok g(1)] Let_def
        reopened_reservation_def self)
qed

lemma reopen_settled:
  assumes "hr_Status r = HoldingReservationStatusActive"
  shows "(reopened_reservation (settled_reservation n r))\<lparr>hr_Version := 0\<rparr> = r\<lparr>hr_Version := 0\<rparr>"
  using assms by (simp add: reopened_reservation_def settled_reservation_def reservation_statuses)

text \<open>A credit and its reversal cancel each other out.\<close>

lemma credit_unwinds:
  assumes ok: "stock_ok db" and key: "key \<notin> set (credit_markers db)"
    and h: "hd_ReservedQuantity h = 0" "room_for (hd_Quantity h) db"
    and credit: "UpsertIdempotent dv ctx h key db = (Inr (), db')"
    and undo: "DecrementForOwnerIdempotent (hd_OwnerType h) (hd_OwnerID h) (hd_SecurityType h) (hd_SecurityID h) (hd_Quantity h) key db' = (res, db'')"
  shows "res = Inr ()" "stock_ok db''" "shares db'' = shares db" "holding_reservations db'' = holding_reservations db"
    "holding_settlements db'' = holding_settlements db" "credit_markers db'' = credit_markers db"
    "\<And>y. y \<in> set (holdings db) \<Longrightarrow> owner_key y \<noteq> owner_key h \<Longrightarrow> y \<in> set (holdings db'')"
proof -
  let ?k = "owner_key h" and ?q = "hd_Quantity h" and ?m = "db\<lparr>credit_markers := credit_markers db @ [key]\<rparr>"
  have ok': "stock_ok ?m" "room_for ?q ?m" using ok h by simp_all
  have q: "0 < ?q" "?q < 2 ^ 62" using h(2) by (auto simp: room_for_def)
  have up: "upsert_holding dv ctx h ?m = Inr ((), db')"
    using credit key by (auto simp: UpsertIdempotent_def transaction_def split: sum.splits)
  note u = upsert_shares [OF ok'(1) up h(1) ok'(2)] and ok2 = upsert_holding_ok [OF ok'(1) up h(1) ok'(2)]
  define n m where "n = fst (shares db ?k)" and "m = snd (shares db ?k)"
  have sm: "shares ?m = shares db" by (rule shares_cong) simp
  have nm: "shares db ?k = (n, m)" "m \<le> n"
    using holding_bounds(3) [OF ok] by (auto simp: n_def m_def shares_find split: option.split dest: find_in_set)
  have has: "shares db' (hd_OwnerType h, hd_OwnerID h, hd_SecurityType h, hd_SecurityID h) = (n + ?q, m)"
    using u(1) sm nm(1) by (simp add: owner_key_def)
  from decrement_runs [OF ok2 q] obtain d where
    dec: "decrement_for_owner (hd_OwnerType h) (hd_OwnerID h) (hd_SecurityType h) (hd_SecurityID h) ?q db' = Inr ((), d)"
      "\<And>y. y \<in> set (holdings db') \<Longrightarrow> owner_key y \<noteq> ?k \<Longrightarrow> y \<in> set (holdings d)" unfolding owner_key_def by blast
  note w = decrement_shares [OF ok2 dec(1) q(1) _ has]
  have "filter (\<lambda>k. k \<noteq> key) (credit_markers db) = credit_markers db" using key by (auto intro!: filter_True)
  then have db'': "res = Inr ()" "db'' = d\<lparr>credit_markers := credit_markers db\<rparr>"
    using undo dec(1) u(4) key w(4) nm(2) by (auto simp: DecrementForOwnerIdempotent_def transaction_def)
  have "stock_ok d"
    by (rule decrement_for_owner_ok [OF ok2 dec(1) q(1)]) (use has nm(2) in \<open>auto simp: shares_def free_shares_def\<close>)
  then show "res = Inr ()" "stock_ok db''" "credit_markers db'' = credit_markers db" by (simp_all add: db'')
  have "shares d = shares db" using w(1) nm u(1) sm by (simp add: owner_key_def fun_upd_idem)
  then show "shares db'' = shares db" using shares_cong [of db'' d] db''(2) by simp
  show "holding_reservations db'' = holding_reservations db" "holding_settlements db'' = holding_settlements db"
    using w(2,3) u(2,3) nm(2) by (simp_all add: db''(2))
  show "y \<in> set (holdings db'')" if "y \<in> set (holdings db)" "owner_key y \<noteq> ?k" for y
    using dec(2) upsert_keeps [OF ok'(1) up, of y] that by (simp add: db''(2))
qed

text \<open>
  C37: a failed exercise leaves no trace in the shares. When the seller's locked shares have been consumed and the buyer has been
  credited, the two compensations succeed in reverse order, and afterwards everybody has and has locked as many shares
  as before, the reservation is open as before, and neither the settlement nor the credit marker remains. Assumed is a
  settlement number and a marker that were not in use, and a buyer that is not the seller.
\<close>

theorem exercise_unwinds:
  assumes ok: "stock_ok db" and q: "q < 2 ^ 62"
    and fresh: "\<forall>t \<in> set (holding_settlements db). hs_OrderTransactionID t \<noteq> txn" "key \<notin> set (credit_markers db)"
    and other: "\<And>r s. GetReservationForUpdate (OTCKey c) db = Some r \<Longrightarrow> s \<in> set (holdings db) \<Longrightarrow> hd_ID s = hr_HoldingID r \<Longrightarrow>
        owner_key s \<noteq> owner_key h"
    and consume: "ConsumeForOTCContract c q txn db = (Inr x, db1)"
    and h: "hd_Quantity h = q" "hd_ReservedQuantity h = 0" "room_for q db1"
    and credit: "UpsertIdempotent dv ctx h key db1 = (Inr (), db2)"
    and undo: "DecrementForOwnerIdempotent (hd_OwnerType h) (hd_OwnerID h) (hd_SecurityType h) (hd_SecurityID h) q key db2 = (res3, db3)"
    and restore: "RestoreForOTCContract c txn db3 = (res4, db4)"
  shows "res3 = Inr () \<and> res4 = Inr () \<and> shares db4 = shares db \<and> holding_settlements db4 = holding_settlements db \<and>
    credit_markers db4 = credit_markers db \<and>
    map (\<lambda>r. r\<lparr>hr_Version := 0\<rparr>) (holding_reservations db4) = map (\<lambda>r. r\<lparr>hr_Version := 0\<rparr>) (holding_reservations db)"
  using ok q fresh(1) consume
proof (cases rule: ConsumeForOTCContract_first)
  case (1 r s)
  let ?s = "s\<lparr>hd_ReservedQuantity := hd_ReservedQuantity s - q, hd_Quantity := hd_Quantity s - q, hd_Version := hd_Version s + 1\<rparr>"
  let ?r = "settled_reservation (settled_of db r + q) r"
  let ?t = "\<lparr>hs_ID = seq_holding_settlements db, hs_HoldingReservationID = hr_ID r, hs_OrderTransactionID = txn, hs_Quantity = q\<rparr>"
  note b = holding_bounds [OF ok 1(5)] and ne = other [OF 1(2,5,6)] and g = GetReservationForUpdateD [OF ok 1(2)] and keys = stock_okD(4) [OF ok]
  have ks: "owner_key ?s = owner_key s" by (simp add: owner_key_def)
  have s1: "shares db1 = (shares db)(owner_key s := (hd_Quantity s - q, hd_ReservedQuantity s - q))" "?s \<in> set (holdings db1)"
    using shares_put [OF ok 1(5) _ ks, of db1] in_put_row_new [OF 1(5), of hd_ID ?s] by (simp_all add: 1(8))
  have fresh1: "key \<notin> set (credit_markers db1)" using fresh(2) by (simp add: 1(8))
  have h1: "room_for (hd_Quantity h) db1" using h(1,3) by simp
  note c = credit_unwinds [OF 1(9) fresh1 h(2) h1 credit undo [folded h(1)]]
  have sd: "?s \<in> set (holdings db3)" using c(7) [OF s1(2)] ne ks by simp
  have one: "y = r" if "y \<in> set (holding_reservations db)" "hr_ID y = hr_ID r" for y
    using keys g(1) that by (auto simp: reservation_keys_ok_def dest: distinct_key_eq)
  have r1: "GetReservationForUpdate (OTCKey c) db3 = Some ?r"
    unfolding GetReservationForUpdate_def c(4) 1(8) using 1(2) g(2) one
    by (simp, intro find_put_row_same [of _ _ r]) (auto simp: GetReservationForUpdate_def settled_reservation_def split: if_splits)
  have t1: "find (\<lambda>t. hs_OrderTransactionID t = txn) (holding_settlements db3) = Some ?t"
    using fresh(1) by (auto simp: c(5) 1(8) split: option.splits dest: find_SomeD)
  have "hd_ID ?s = hr_HoldingID ?r" "hd_Quantity ?s + hs_Quantity ?t < 2 ^ 62" using 1(6) b by (simp_all add: settled_reservation_def)
  from restore_runs [OF c(2) t1 r1 sd this] restore have db4: "res4 = Inr ()" "db4 = db3\<lparr>holdings := put_row hd_ID (?s\<lparr>hd_Quantity := hd_Quantity s,
        hd_ReservedQuantity := hd_ReservedQuantity s, hd_Version := hd_Version s + 1 + 1\<rparr>) (holdings db3),
      holding_settlements := filter (\<lambda>x. hs_ID x \<noteq> hs_ID ?t) (holding_settlements db3),
      holding_reservations := put_row hr_ID (reopened_reservation ?r) (holding_reservations db3)\<rparr>"
    by (simp_all add: RestoreForOTCContract_def)
  have "shares db4 = (shares db3)(owner_key ?s := (hd_Quantity s, hd_ReservedQuantity s))"
    using shares_put [OF c(2) sd, of "?s\<lparr>hd_Quantity := hd_Quantity s, hd_ReservedQuantity := hd_ReservedQuantity s, hd_Version := hd_Version s + 1 + 1\<rparr>" db4]
    by (simp add: db4(2) owner_key_def)
  then have "shares db4 = shares db" using c(3) s1(1) ks shares_row [OF ok 1(5)] by (simp add: fun_upd_idem)
  moreover have "holding_settlements db4 = holding_settlements db"
    using keys by (auto simp: db4(2) c(5) 1(8) reservation_keys_ok_def intro!: filter_True)
  moreover have "holding_reservations db4 = put_row hr_ID (reopened_reservation ?r) (holding_reservations db)"
    by (simp add: db4(2) c(4) 1(8) put_row_again reopened_reservation_def)
  then have "map (\<lambda>r. r\<lparr>hr_Version := 0\<rparr>) (holding_reservations db4) = map (\<lambda>r. r\<lparr>hr_Version := 0\<rparr>) (holding_reservations db)"
  proof (simp only:, intro map_other_put_row)
    fix y assume y: "y \<in> set (holding_reservations db)" "hr_ID y = hr_ID (reopened_reservation ?r)"
    have "hr_ID (reopened_reservation ?r) = hr_ID r" by (simp add: reopened_reservation_def)
    with one y have "y = r" by simp
    then show "y\<lparr>hr_Version := 0\<rparr> = (reopened_reservation ?r)\<lparr>hr_Version := 0\<rparr>" by (simp only: reopen_settled [OF 1(3)])
  qed
  ultimately show ?thesis using c(1,6) db4 by (simp add: 1(8))
qed

definition demo_otc_db :: stock_db where
  "demo_otc_db = snd (ReserveForOTCContract ''client'' (Some 7) ''stock'' 5 9 4 demo_stock_db)"

definition demo_consumed_db :: stock_db where
  "demo_consumed_db = snd (ConsumeForOTCContract 9 4 1000 demo_otc_db)"

definition demo_buyer :: holding where
  "demo_buyer = demo_holding\<lparr>hd_OwnerID := Some 8, hd_Quantity := 4\<rparr>"

definition demo_credited_db :: stock_db where
  "demo_credited_db = snd (UpsertIdempotent (/) (None, None) demo_buyer ''k'' demo_consumed_db)"

lemma demo_otc: "demo_otc_db = demo_stock_db\<lparr>holdings := [demo_holding\<lparr>hd_ReservedQuantity := 4, hd_Version := 2\<rparr>],
    holding_reservations := [(new_reservation (OTCKey 9) 1 None 4)\<lparr>hr_ID := 1\<rparr>], seq_holding_reservations := 2\<rparr>"
  by (simp add: demo_otc_db_def ReserveForOTCContract_def stock_eval upd_rows_def)

lemma demo_consume:
  "\<exists>x. ConsumeForOTCContract 9 4 1000 demo_otc_db = (Inr x, demo_consumed_db)"
  "demo_consumed_db = demo_otc_db\<lparr>holdings := [demo_holding\<lparr>hd_ReservedQuantity := 0, hd_Quantity := 6, hd_Version := 3\<rparr>],
    holding_settlements := [\<lparr>hs_ID = 1, hs_HoldingReservationID = 1, hs_OrderTransactionID = 1000, hs_Quantity = 4\<rparr>], seq_holding_settlements := 2,
    holding_reservations := [(new_reservation (OTCKey 9) 1 None 4)\<lparr>hr_ID := 1, hr_Status := ''settled'', hr_Version := 1\<rparr>]\<rparr>"
  by (simp_all add: demo_consumed_db_def ConsumeForOTCContract_def consume_shares_def GetReservationForUpdate_def demo_otc SumHoldingSettlements_def
      create_settlement_def draw_holding_def save_holding_def ValidateOwner_def close_if_full_def UpdateReservation_def
      HoldingReservationStatusSettled_def stock_eval)

lemma demo_credit: "UpsertIdempotent (/) (None, None) demo_buyer ''k'' demo_consumed_db = (Inr (), demo_credited_db)"
  by (simp add: demo_credited_db_def UpsertIdempotent_def upsert_holding_def GetByOwnerAndSecurity_def demo_consume(2) demo_otc owned_by_def
      demo_buyer_def demo_holding_def stampHoldingSaga_def create_holding_def ValidateOwner_def holding_key_def demo_stock_db_def transaction_def)

theorem exercise_unwinds_witness:
  "\<exists>db3 db4. DecrementForOwnerIdempotent ''client'' (Some 8) ''stock'' 5 4 ''k'' demo_credited_db = (Inr (), db3) \<and>
     RestoreForOTCContract 9 1000 db3 = (Inr (), db4) \<and> shares db4 = shares demo_otc_db"
proof -
  have "stock_step demo_stock_db demo_otc_db" unfolding demo_otc_db_def by (rule stock_step.reserve_otc)
  from stock_step_ok [OF this demo_stock_ok] have ok: "stock_ok demo_otc_db" .
  obtain x where c: "ConsumeForOTCContract 9 4 1000 demo_otc_db = (Inr x, demo_consumed_db)" using demo_consume(1) by blast
  obtain res3 db3 where d: "DecrementForOwnerIdempotent ''client'' (Some 8) ''stock'' 5 4 ''k'' demo_credited_db = (res3, db3)" by (rule prod.exhaust)
  obtain res4 db4 where r: "RestoreForOTCContract 9 1000 db3 = (res4, db4)" by (rule prod.exhaust)
  have "res3 = Inr () \<and> res4 = Inr () \<and> shares db4 = shares demo_otc_db"
    using exercise_unwinds [OF ok _ _ _ _ c _ _ _ demo_credit _ r] d
    by (simp add: demo_buyer_def demo_holding_def demo_otc demo_stock_db_def owner_key_def demo_consume(2) room_for_def)
  with d r show ?thesis by blast
qed

end
